(* ===== verification/Prelude.thy ===== *)
theory Prelude
  imports Complex_Main "HOL-Library.State_Monad"
begin

text \<open>
  Shared vocabulary of the development.  Handlers and background loops of the server are
  written in the state monad of the library; this theory adds the few combinators the Go code
  needs (reading, modifying, looping over a query result) and a small calculus of
  \<^emph>\<open>stable\<close> programs: a program is stable for a preorder on states when every run relates its
  start state to its final state.  Invariants, frame conditions and ``this table only grows''
  facts are all instances.  The last part holds list lemmas about SQL-like tables.
\<close>

named_theorems stable_intros \<open>introduction rules for stable programs\<close>
named_theorems sql_defs \<open>definitions of single SQL statements\<close>
named_theorems op_defs \<open>definitions of operations written in the state monad\<close>

section \<open>Programs over a state\<close>

abbreviation ret :: "'a \<Rightarrow> ('s, 'a) state" where
  "ret \<equiv> State_Monad.return"

definition gets :: "('s \<Rightarrow> 'a) \<Rightarrow> ('s, 'a) state" where
  "gets f = State (\<lambda>s. (f s, s))"

definition modify :: "('s \<Rightarrow> 's) \<Rightarrow> ('s, unit) state" where
  "modify f = State (\<lambda>s. ((), f s))"

definition unless_nil :: "bool \<Rightarrow> ('s, unit) state \<Rightarrow> ('s, unit) state" where
  "unless_nil c m = (if c then m else ret ())"

primrec for_each :: "('x \<Rightarrow> ('s, unit) state) \<Rightarrow> 'x list \<Rightarrow> ('s, unit) state" where
  "for_each f [] = ret ()"
| "for_each f (x # xs) = do { _ \<leftarrow> f x; for_each f xs }"

primrec sum_each :: "('x \<Rightarrow> ('s, nat) state) \<Rightarrow> 'x list \<Rightarrow> ('s, nat) state" where
  "sum_each f [] = ret 0"
| "sum_each f (x # xs) = do { n \<leftarrow> f x; m \<leftarrow> sum_each f xs; ret (n + m) }"

definition void :: "('s, 'a) state \<Rightarrow> ('s, unit) state" where
  "void m = do { _ \<leftarrow> m; ret () }"

text \<open>Programs on one half of a pair of stores.\<close>

definition on_fst :: "('s, 'a) state \<Rightarrow> ('s \<times> 't, 'a) state" where
  "on_fst m = State (\<lambda>(s, t). case run_state m s of (a, s') \<Rightarrow> (a, (s', t)))"

definition on_snd :: "('t, 'a) state \<Rightarrow> ('s \<times> 't, 'a) state" where
  "on_snd m = State (\<lambda>(s, t). case run_state m t of (a, t') \<Rightarrow> (a, (s, t')))"

text \<open>Go's \<open>int\<close> has 64 bits: sums wrap around.\<close>

definition wrap64 :: "int \<Rightarrow> int" where
  "wrap64 x = (x + 2 ^ 63) mod 2 ^ 64 - 2 ^ 63"

lemma wrap64_id [simp]: "- (2 ^ 63) \<le> x \<Longrightarrow> x < 2 ^ 63 \<Longrightarrow> wrap64 x = x"
  by (simp add: wrap64_def)

lemma wrap64_range: "- (2 ^ 63) \<le> wrap64 x \<and> wrap64 x < 2 ^ 63"
  by (simp add: wrap64_def)

lemma run_on_fst [simp]:
  "run_state (on_fst m) (s, t) = (fst (run_state m s), (snd (run_state m s), t))"
  by (simp add: on_fst_def split_beta)

lemma run_on_snd [simp]:
  "run_state (on_snd m) (s, t) = (fst (run_state m t), (s, snd (run_state m t)))"
  by (simp add: on_snd_def split_beta)

lemma run_void [simp]: "run_state (void m) s = ((), snd (run_state m s))"
  by (simp add: void_def split_beta)

lemma run_state_gets [simp]: "run_state (gets f) s = (f s, s)"
  by (simp add: gets_def)

lemma run_state_modify [simp]: "run_state (modify f) s = ((), f s)"
  by (simp add: modify_def)

lemma run_state_unless_nil [simp]:
  "run_state (unless_nil c m) s = (if c then run_state m s else ((), s))"
  by (simp add: unless_nil_def)

lemma run_state_if: "run_state (if c then m else n) s = (if c then run_state m s else run_state n s)"
  by simp

lemma for_each_append:
  "run_state (for_each f (xs @ ys)) s = run_state (for_each f ys) (snd (run_state (for_each f xs) s))"
  by (induction xs arbitrary: s) (auto split: prod.splits)

section \<open>Stable programs\<close>

definition stable :: "('s \<Rightarrow> 's \<Rightarrow> bool) \<Rightarrow> ('s, 'a) state \<Rightarrow> bool" where
  "stable R m \<longleftrightarrow> (\<forall>s. R s (snd (run_state m s)))"

lemma stableI: "(\<And>s. R s (snd (run_state m s))) \<Longrightarrow> stable R m"
  by (simp add: stable_def)

lemma stableD: "stable R m \<Longrightarrow> R s (snd (run_state m s))"
  by (simp add: stable_def)

lemma stable_run: "stable R m \<Longrightarrow> run_state m s = (a, t) \<Longrightarrow> R s t"
  using stableD [of R m s] by simp

lemma stable_modify: "(\<And>s. R s (f s)) \<Longrightarrow> stable R (modify f)"
  by (rule stableI) simp

lemma stable_if: "(c \<Longrightarrow> stable R m) \<Longrightarrow> (\<not> c \<Longrightarrow> stable R n) \<Longrightarrow> stable R (if c then m else n)"
  by simp

lemma stable_case_option:
  "(x = None \<Longrightarrow> stable R m) \<Longrightarrow> (\<And>y. x = Some y \<Longrightarrow> stable R (f y)) \<Longrightarrow>
   stable R (case x of None \<Rightarrow> m | Some y \<Rightarrow> f y)"
  by (cases x) simp_all

lemma stable_case_sum:
  "(\<And>e. x = Inl e \<Longrightarrow> stable R (f e)) \<Longrightarrow> (\<And>y. x = Inr y \<Longrightarrow> stable R (g y)) \<Longrightarrow>
   stable R (case x of Inl e \<Rightarrow> f e | Inr y \<Rightarrow> g y)"
  by (cases x) simp_all

lemma stable_case_prod:
  "(\<And>a b. x = (a, b) \<Longrightarrow> stable R (f a b)) \<Longrightarrow> stable R (case x of (a, b) \<Rightarrow> f a b)"
  by (cases x) simp

text \<open>
  The interface every stability argument relies on: a reflexive and transitive relation on
  states.  The combinators are stable for any such relation, so a component proves stability of
  its statements only.
\<close>

locale state_preorder =
  fixes R :: "'s \<Rightarrow> 's \<Rightarrow> bool"
  assumes R_refl: "R s s"
    and R_trans: "R s t \<Longrightarrow> R t u \<Longrightarrow> R s u"
begin

lemma stable_ret: "stable R (ret x)"
  by (rule stableI) (simp add: R_refl)

lemma stable_gets: "stable R (gets f)"
  by (rule stableI) (simp add: R_refl)

lemma stable_bind:
  assumes "stable R m" and "\<And>x. stable R (f x)"
  shows "stable R (State_Monad.bind m f)"
proof (rule stableI)
  fix s
  obtain a t where run: "run_state m s = (a, t)" by fastforce
  have "R s t" using assms(1) run by (rule stable_run)
  moreover have "R t (snd (run_state (f a) t))" using assms(2) by (rule stableD)
  ultimately show "R s (snd (run_state (State_Monad.bind m f) s))"
    using run by (simp add: R_trans)
qed

lemma stable_unless_nil: "(c \<Longrightarrow> stable R m) \<Longrightarrow> stable R (unless_nil c m)"
  unfolding unless_nil_def by (cases c) (simp_all add: stable_ret)

lemma stable_for_each: "(\<And>x. x \<in> set xs \<Longrightarrow> stable R (f x)) \<Longrightarrow> stable R (for_each f xs)"
  by (induction xs) (auto intro!: stable_ret stable_bind)

lemma stable_sum_each: "(\<And>x. x \<in> set xs \<Longrightarrow> stable R (f x)) \<Longrightarrow> stable R (sum_each f xs)"
  by (induction xs) (auto intro!: stable_ret stable_bind)

lemma stable_void: "stable R m \<Longrightarrow> stable R (void m)"
  unfolding void_def by (intro stable_bind stable_ret)

lemmas stable_combinators =
  stable_ret stable_gets stable_bind stable_unless_nil stable_for_each stable_sum_each
  stable_if stable_case_option stable_case_sum stable_case_prod

end

text \<open>A pair of preorders, for programs that use both halves of a pair of stores.\<close>

definition both :: "('s \<Rightarrow> 's \<Rightarrow> bool) \<Rightarrow> ('t \<Rightarrow> 't \<Rightarrow> bool) \<Rightarrow> 's \<times> 't \<Rightarrow> 's \<times> 't \<Rightarrow> bool" where
  "both R Q p q \<longleftrightarrow> R (fst p) (fst q) \<and> Q (snd p) (snd q)"

locale two_stores = fst_store: state_preorder R + snd_store: state_preorder Q
  for R :: "'s \<Rightarrow> 's \<Rightarrow> bool" and Q :: "'t \<Rightarrow> 't \<Rightarrow> bool"
begin

sublocale pair: state_preorder "both R Q"
  by unfold_locales
    (auto simp: both_def fst_store.R_refl snd_store.R_refl intro: fst_store.R_trans snd_store.R_trans)

lemma stable_on_fst: "stable R m \<Longrightarrow> stable (both R Q) (on_fst m)"
  by (rule stableI) (auto simp: both_def stable_def snd_store.R_refl)

lemma stable_on_snd: "stable Q m \<Longrightarrow> stable (both R Q) (on_snd m)"
  by (rule stableI) (auto simp: both_def stable_def fst_store.R_refl)

lemmas pair_calls = pair.stable_combinators pair.stable_void stable_on_fst stable_on_snd

end

text \<open>Two families of preorders: keeping a predicate, and keeping an observation.\<close>

definition keeps :: "('s \<Rightarrow> bool) \<Rightarrow> 's \<Rightarrow> 's \<Rightarrow> bool" where
  "keeps I s t \<longleftrightarrow> (I s \<longrightarrow> I t)"

definition same :: "('s \<Rightarrow> 'v) \<Rightarrow> 's \<Rightarrow> 's \<Rightarrow> bool" where
  "same f s t \<longleftrightarrow> f t = f s"

interpretation keeping: state_preorder "keeps I" for I
  by unfold_locales (auto simp: keeps_def)

interpretation framing: state_preorder "same f" for f
  by unfold_locales (auto simp: same_def)

lemma keepsI: "(I s \<Longrightarrow> I t) \<Longrightarrow> keeps I s t"
  by (simp add: keeps_def)

lemma keepsD: "keeps I s t \<Longrightarrow> I s \<Longrightarrow> I t"
  by (simp add: keeps_def)

section \<open>Programs that keep an invariant and return good results\<close>

definition meets :: "('s \<Rightarrow> bool) \<Rightarrow> ('s, 'a) state \<Rightarrow> ('a \<Rightarrow> bool) \<Rightarrow> bool" where
  "meets I m Q \<longleftrightarrow> (\<forall>s. I s \<longrightarrow> I (snd (run_state m s)) \<and> Q (fst (run_state m s)))"

lemma meetsD: "meets I m Q \<Longrightarrow> I s \<Longrightarrow> I (snd (run_state m s)) \<and> Q (fst (run_state m s))"
  by (simp add: meets_def)

lemma meets_keeps: "meets I m Q \<Longrightarrow> stable (keeps I) m"
  by (simp add: meets_def stable_def keeps_def)

lemma meets_stable: "stable (keeps I) m \<Longrightarrow> meets I m (\<lambda>_. True)"
  by (simp add: meets_def stable_def keeps_def)

lemma meets_ret: "Q x \<Longrightarrow> meets I (ret x) Q"
  by (simp add: meets_def)

lemma meets_gets: "(\<And>s. I s \<Longrightarrow> Q (f s)) \<Longrightarrow> meets I (gets f) Q"
  by (simp add: meets_def)

lemma meets_modify: "(\<And>s. I s \<Longrightarrow> I (f s)) \<Longrightarrow> Q () \<Longrightarrow> meets I (modify f) Q"
  by (simp add: meets_def)

lemma meets_bind:
  assumes "meets I m P" and "\<And>x. P x \<Longrightarrow> meets I (f x) Q"
  shows "meets I (State_Monad.bind m f) Q"
  using assms by (fastforce simp: meets_def split: prod.splits)

lemma meets_weaken: "meets I m P \<Longrightarrow> (\<And>x. P x \<Longrightarrow> Q x) \<Longrightarrow> meets I m Q"
  by (auto simp: meets_def)

lemma meets_if: "(c \<Longrightarrow> meets I m Q) \<Longrightarrow> (\<not> c \<Longrightarrow> meets I n Q) \<Longrightarrow> meets I (if c then m else n) Q"
  by simp

lemma meets_for_each:
  "(\<And>x. x \<in> set xs \<Longrightarrow> stable (keeps I) (f x)) \<Longrightarrow> meets I (for_each f xs) (\<lambda>_. True)"
  by (rule meets_stable) (rule keeping.stable_for_each)

section \<open>Tables\<close>

text \<open>
  A table is the list of its rows, in the order a scan returns them.  \<open>update_where\<close> is
  UPDATE with a WHERE clause.
\<close>

definition update_where :: "('r \<Rightarrow> bool) \<Rightarrow> ('r \<Rightarrow> 'r) \<Rightarrow> 'r list \<Rightarrow> 'r list" where
  "update_where p f rs = map (\<lambda>r. if p r then f r else r) rs"

definition delete_where :: "('r \<Rightarrow> bool) \<Rightarrow> 'r list \<Rightarrow> 'r list" where
  "delete_where p rs = filter (\<lambda>r. \<not> p r) rs"

definition count_where :: "('r \<Rightarrow> bool) \<Rightarrow> 'r list \<Rightarrow> nat" where
  "count_where p rs = length (filter p rs)"

lemma length_update_where [simp]: "length (update_where p f rs) = length rs"
  by (simp add: update_where_def)

lemma map_update_where:
  "(\<And>r. p r \<Longrightarrow> g (f r) = g r) \<Longrightarrow> map g (update_where p f rs) = map g rs"
  by (auto simp: update_where_def)

lemma in_update_where:
  "x \<in> set (update_where p f rs) \<longleftrightarrow> (\<exists>r\<in>set rs. x = (if p r then f r else r))"
  by (auto simp: update_where_def)

lemma set_delete_where [simp]: "set (delete_where p rs) = {x \<in> set rs. \<not> p x}"
  by (simp add: delete_where_def)

lemma distinct_delete_where: "distinct (map g rs) \<Longrightarrow> distinct (map g (delete_where p rs))"
  by (simp add: delete_where_def distinct_map_filter)

lemma count_where_zero: "count_where p rs = 0 \<longleftrightarrow> (\<forall>r\<in>set rs. \<not> p r)"
  by (simp add: count_where_def filter_empty_conv)

lemma update_where_Nil [simp]: "update_where p f [] = []"
  by (simp add: update_where_def)

lemma update_where_Cons [simp]:
  "update_where p f (r # rs) = (if p r then f r else r) # update_where p f rs"
  by (simp add: update_where_def)

lemma find_update_where:
  assumes "\<And>r. p r \<Longrightarrow> q (f r) \<longleftrightarrow> q r"
  shows "List.find q (update_where p f rs) =
    map_option (\<lambda>r. if p r then f r else r) (List.find q rs)"
  using assms by (induction rs) auto

lemma filter_update_where:
  "(\<And>r. p r \<Longrightarrow> \<not> q r \<and> \<not> q (f r)) \<Longrightarrow> filter q (update_where p f rs) = filter q rs"
  by (induction rs) auto

lemma find_unique:
  assumes "distinct (map g rs)" and "r \<in> set rs"
  shows "List.find (\<lambda>x. g x = g r) rs = Some r"
  using assms by (induction rs) (auto simp: image_iff)

lemma find_Some_in: "List.find p rs = Some r \<Longrightarrow> r \<in> set rs \<and> p r"
  by (induction rs) (auto split: if_splits)

lemma find_None_iff_ex: "List.find p rs = None \<longleftrightarrow> (\<forall>r\<in>set rs. \<not> p r)"
  by (induction rs) auto

lemma count_where_update_le:
  assumes "\<And>r. p r \<Longrightarrow> q (f r) \<Longrightarrow> q r"
  shows "count_where q (update_where p f rs) \<le> count_where q rs"
  using assms by (induction rs) (auto simp: count_where_def)

lemma count_where_update_eq:
  "(\<And>r. p r \<Longrightarrow> q (f r) \<longleftrightarrow> q r) \<Longrightarrow> count_where q (update_where p f rs) = count_where q rs"
  by (induction rs) (auto simp: count_where_def)

lemma count_where_append [simp]: "count_where p (xs @ ys) = count_where p xs + count_where p ys"
  by (simp add: count_where_def)

lemma count_where_Cons [simp]: "count_where p (x # xs) = of_bool (p x) + count_where p xs"
  by (simp add: count_where_def)

lemma count_where_Nil [simp]: "count_where p [] = 0"
  by (simp add: count_where_def)

lemma find_append: "List.find p (xs @ ys) = (case List.find p xs of None \<Rightarrow> List.find p ys | Some x \<Rightarrow> Some x)"
  by (induction xs) auto

lemma find_None_key: "k \<notin> g ` set xs \<Longrightarrow> List.find (\<lambda>x. g x = k) xs = None"
  by (auto simp: find_None_iff_ex)

lemma update_where_cases:
  assumes "x \<in> set (update_where p f rs)"
  obtains (updated) r where "r \<in> set rs" "p r" "x = f r" | (kept) "x \<in> set rs" "\<not> p x"
  using assms by (auto simp: update_where_def split: if_splits)

text \<open>
  A loop that rewrites selected rows one after the other, each by its key.
\<close>

definition rewrite_in :: "('r \<Rightarrow> 'r) \<Rightarrow> 'r set \<Rightarrow> 'r list \<Rightarrow> 'r list" where
  "rewrite_in f H rs = map (\<lambda>r. if r \<in> H then f r else r) rs"

lemma rewrite_in_empty [simp]: "rewrite_in f {} rs = rs"
  by (simp add: rewrite_in_def)

lemma rewrite_in_keys: "(\<And>r. key (f r) = key r) \<Longrightarrow> map key (rewrite_in f H rs) = map key rs"
  by (simp add: rewrite_in_def)

lemma in_rewrite_in: "x \<in> set rs \<Longrightarrow> x \<notin> H \<Longrightarrow> x \<in> set (rewrite_in f H rs)"
  by (auto simp: rewrite_in_def image_iff)

lemma update_by_key:
  assumes "distinct (map key rs)" and "a \<in> set rs" and "\<And>r. r = a \<Longrightarrow> g r = f r"
  shows "update_where (\<lambda>r. key r = key a) g rs = rewrite_in f {a} rs"
  using assms unfolding update_where_def rewrite_in_def by (auto simp: distinct_map dest: inj_onD)

lemma rewrite_in_step:
  assumes "distinct (map key rs)" and "\<And>r. key (f r) = key r"
    and "a \<in> set rs" and "a \<notin> H" and "H \<subseteq> set rs"
  shows "rewrite_in f H (rewrite_in f {a} rs) = rewrite_in f (insert a H) rs"
proof -
  have "f a \<notin> H"
  proof
    assume "f a \<in> H"
    then have "f a = a"
      using assms(1,3,5) inj_onD [of key "set rs" "f a" a] assms(2) by (auto simp: distinct_map)
    with \<open>f a \<in> H\<close> assms(4) show False by simp
  qed
  then show ?thesis using assms(4) by (auto simp: rewrite_in_def)
qed

end
