(* ===== verification/SwarmDB.thy ===== *)
theory SwarmDB
  imports Prelude
begin

text \<open>
  The state the swarm services share: the PostgreSQL tables of the swarm (\<open>swarm_tasks\<close>,
  \<open>swarm_teams\<close>, \<open>swarm_agents\<close>, \<open>swarm_task_diffs\<close>, \<open>swarm_diff_comments\<close>,
  \<open>agent_task_log\<close>, \<open>swarm_agent_memory\<close>, \<open>swarm_consensus_insights\<close>, and the slug
  columns of \<open>repositories\<close>), the Redis keys and streams the
  task manager uses, the Prometheus gauges it sets, and the WebSocket events it emits.  Row types
  follow the Go structs \<open>Task\<close>, \<open>Team\<close>, \<open>TaskDiff\<close>, \<open>DiffComment\<close> with nullable columns as
  options.  Every access to PostgreSQL or Redis goes through \<open>exec\<close>, \<open>query\<close> or
  \<open>redis_do\<close>, which consume one entry of a fault script: an operation is modelled together with
  every way its calls can fail.  Clock readings and fresh identifiers are arguments.
\<close>

section \<open>Types\<close>

type_synonym uuid = nat
type_synonym time = int

definition second :: time where "second = 1000000000"
definition minute :: time where "minute = 60 * second"
definition hour :: time where "hour = 60 * minute"
definition day :: time where "day = 24 * hour"

lemmas time_units = day_def hour_def minute_def second_def

definition uuid_nil :: uuid where "uuid_nil = 0"

text \<open>Times are nanoseconds relative to the Unix epoch; Go's zero time is 1 January of year 1.\<close>

definition time_zero :: time where "time_zero = - 62135596800 * second"

datatype task_status =
    StatusSubmitted | StatusPlanning | StatusPlanReview | StatusImplementing
  | StatusSelfReview | StatusDiffReview | StatusBuildValidating | StatusBuildFailed
  | StatusBuildBlocked | StatusPRCreating | StatusCompleted | StatusCancelled
  | StatusFailed | StatusTimedOut

fun terminal :: "task_status \<Rightarrow> bool" where
  "terminal StatusCompleted = True"
| "terminal StatusCancelled = True"
| "terminal StatusFailed = True"
| "terminal StatusTimedOut = True"
| "terminal _ = False"

datatype team_status = TeamIdle | TeamBusy | TeamOffline

datatype tier = TierStandard | TierExpert | TierRestricted

datatype agent_status = AgentOffline | AgentIdle | AgentBusy | AgentErrored

record task =
  t_id :: uuid
  t_repo_id :: string
  t_title :: string
  t_description :: string
  t_status :: task_status
  t_plan_document :: "string option"
  t_assigned_team_id :: "uuid option"
  t_assigned_agents :: "uuid list option"
  t_pr_url :: "string option"
  t_pr_number :: "int option"
  t_human_rating :: "int option"
  t_human_comment :: "string option"
  t_submitted_by :: "uuid option"
  t_retry_count :: int
  t_failure_reason :: "string option"
  t_team_formation :: "string option"
  t_created_at :: time
  t_completed_at :: "time option"
  t_timeout_at :: "time option"

record team =
  m_id :: uuid
  m_name :: string
  m_lead_agent_id :: "uuid option"
  m_status :: team_status
  m_agent_ids :: "uuid list option"
  m_formed_at :: time

record agent =
  a_id :: uuid
  a_role :: string
  a_team_id :: "uuid option"
  a_status :: agent_status
  a_elo_score :: real
  a_tasks_done :: int
  a_tasks_rated :: int
  a_avg_rating :: real
  a_hostname :: string
  a_version :: string
  a_tier :: tier
  a_registered_at :: time

record task_diff =
  d_id :: uuid
  d_task_id :: uuid
  d_file_path :: string
  d_change_type :: string
  d_original :: string
  d_proposed :: string
  d_unified_diff :: string
  d_agent_id :: "uuid option"
  d_status :: string
  d_created_at :: time

record diff_comment =
  c_id :: uuid
  c_diff_id :: uuid
  c_author_type :: string
  c_author_id :: string
  c_line_number :: int
  c_content :: string
  c_created_at :: time

record task_log =
  l_id :: uuid
  l_task_id :: uuid
  l_agent_id :: "uuid option"
  l_role :: string
  l_phase :: string
  l_contribution_type :: string
  l_tokens_used :: int
  l_llm_calls :: int
  l_rag_calls :: int

record repo_row =
  r_id :: uuid
  r_owner :: string
  r_name :: string

record mtm_insight =
  mi_id :: uuid
  mi_repo :: string
  mi_role :: string
  mi_key :: string
  mi_insight :: string
  mi_confidence :: real
  mi_created_at :: time
  mi_updated_at :: time

record consensus_insight =
  ci_id :: uuid
  ci_repo :: string
  ci_task :: string
  ci_thread :: string
  ci_category :: string
  ci_key :: string
  ci_insight :: string
  ci_confidence :: real
  ci_strategy :: string
  ci_provider :: string
  ci_created_at :: time
  ci_updated_at :: time

text \<open>
  The value of the field \<open>task_id\<close> of a stream entry, as the code inspects it: absent or not a
  string, a string \<open>uuid.Parse\<close> rejects, or the identifier it parses to.
\<close>

datatype stream_field = FieldMissing | FieldMalformed string | FieldUUID uuid

text \<open>
  A text that is to denote a UUID: \<open>uuid.Parse\<close> rejects it, it is the text \<open>String\<close> prints, or it is
  another spelling that \<open>uuid.Parse\<close> accepts (upper case, braces, \<open>urn:uuid:\<close>, no dashes).  Token keys
  carry the text they were written with.
\<close>

datatype uuid_text = NotUUID string | Canonical uuid | Variant uuid string

record token_record =
  tk_issued_at :: time
  tk_role :: string
  tk_team :: uuid_text
  tk_hash :: string
  tk_expires :: time

record stream_msg =
  x_id :: nat
  x_task :: stream_field

datatype ws_event =
    TaskEvent string uuid
  | AgentEvent string uuid
  | PlanEvent uuid string
  | DiffEvent uuid uuid
  | CircuitEvent string
  | MessageEvent string string string
  | DiscussionMsg string string "string option"

record metrics =
  g_tasks_active :: int
  g_queue_depth :: int
  g_teams_active :: int
  g_teams_busy :: int
  g_agents_online :: int
  g_utilisation :: real
  n_tasks_total :: "task_status \<Rightarrow> nat"
  n_task_retries :: nat
  n_heartbeat_misses :: nat

text \<open>
  Redis: heartbeat keys hold the Unix second of the last heartbeat and their expiry, the
  team-create deduplication keys hold their expiry, token keys the record of the agent's last token.  The
  stream \<open>swarm:tasks:pending\<close> is split at the cursor of the consumer group into the entries
  not yet delivered and the pending entries list of the one consumer.
\<close>

record swarm =
  tasks :: "task list"
  teams :: "team list"
  agents :: "agent list"
  diffs :: "task_diff list"
  comments :: "diff_comment list"
  logs :: "task_log list"
  repos :: "repo_row list"
  mtm :: "mtm_insight list"
  insights :: "consensus_insight list"
  heartbeats :: "uuid \<rightharpoonup> int \<times> time"
  tokens :: "uuid_text \<rightharpoonup> token_record"
  team_create_sent :: "uuid \<rightharpoonup> time"
  pending_new :: "stream_msg list"
  pending_pel :: "stream_msg list"
  next_msg :: nat
  team_create_stream :: "uuid list"
  assigned_stream :: "(uuid \<times> uuid) list"
  stm_keys :: "string list"
  gauges :: metrics
  ws_log :: "ws_event list"
  has_ws :: bool
  has_auth :: bool
  faults :: "bool list"

text \<open>The state of a fresh deployment, with a WebSocket hub and the agent token service.\<close>

definition init_metrics :: metrics where
  "init_metrics = \<lparr>g_tasks_active = 0, g_queue_depth = 0, g_teams_active = 0, g_teams_busy = 0,
     g_agents_online = 0, g_utilisation = 0, n_tasks_total = (\<lambda>_. 0), n_task_retries = 0,
     n_heartbeat_misses = 0\<rparr>"

definition init_swarm :: swarm where
  "init_swarm = \<lparr>tasks = [], teams = [], agents = [], diffs = [], comments = [], logs = [], repos = [],
     mtm = [], insights = [], heartbeats = Map.empty, tokens = Map.empty, team_create_sent = Map.empty,
     pending_new = [], pending_pel = [], next_msg = 0, team_create_stream = [], assigned_stream = [],
     stm_keys = [], gauges = init_metrics, ws_log = [], has_ws = True, has_auth = True, faults = []\<rparr>"

type_synonym 'a prog = "(swarm, 'a) state"

text \<open>A statement either violates a constraint (no effect) or reports the rows it affected.\<close>

type_synonym stmt = "swarm \<Rightarrow> (nat \<times> swarm) option"

datatype swarm_error =
    ErrDB string
  | ErrNotFound
  | ErrNotRetryable task_status
  | ErrMaxRetries
  | ErrMaxTeams
  | ErrTeamCapacity
  | ErrRedis
  | ErrBadRequest string
  | ErrConflict
  | ErrPanic

section \<open>Calls that can fail\<close>

definition io_ok :: "bool prog" where
  "io_ok = State (\<lambda>s. case faults s of
      [] \<Rightarrow> (True, s)
    | b # bs \<Rightarrow> (\<not> b, s\<lparr>faults := bs\<rparr>))"

definition exec :: "stmt \<Rightarrow> nat option prog" where
  "exec st = do {
     ok \<leftarrow> io_ok;
     if \<not> ok then ret None
     else State (\<lambda>s. case st s of None \<Rightarrow> (None, s) | Some (n, s') \<Rightarrow> (Some n, s')) }"

definition query :: "(swarm \<Rightarrow> 'a) \<Rightarrow> 'a option prog" where
  "query f = do { ok \<leftarrow> io_ok; if \<not> ok then ret None else gets (\<lambda>s. Some (f s)) }"

definition redis_do :: "(swarm \<Rightarrow> swarm) \<Rightarrow> bool prog" where
  "redis_do f = do { ok \<leftarrow> io_ok; if \<not> ok then ret False else do { _ \<leftarrow> modify f; ret True } }"

definition broadcast :: "ws_event \<Rightarrow> unit prog" where
  "broadcast e = modify (\<lambda>s. if has_ws s then s\<lparr>ws_log := ws_log s @ [e]\<rparr> else s)"

definition metric :: "(metrics \<Rightarrow> metrics) \<Rightarrow> unit prog" where
  "metric f = modify (\<lambda>s. s\<lparr>gauges := f (gauges s)\<rparr>)"

definition add_active :: "int \<Rightarrow> metrics \<Rightarrow> metrics" where
  "add_active d g = g\<lparr>g_tasks_active := g_tasks_active g + d\<rparr>"

definition count_status :: "task_status \<Rightarrow> metrics \<Rightarrow> metrics" where
  "count_status st g = g\<lparr>n_tasks_total := (n_tasks_total g)(st := Suc (n_tasks_total g st))\<rparr>"

lemma io_ok_no_faults [simp]: "faults s = [] \<Longrightarrow> run_state io_ok s = (True, s)"
  by (simp add: io_ok_def)

lemma io_ok_cases:
  obtains (ok) t where "run_state io_ok s = (True, t)" "t = s\<lparr>faults := tl (faults s)\<rparr>"
    | (fault) t where "run_state io_ok s = (False, t)" "t = s\<lparr>faults := tl (faults s)\<rparr>"
  by (cases "faults s") (auto simp: io_ok_def)

lemma exec_no_faults [simp]:
  "faults s = [] \<Longrightarrow>
   run_state (exec st) s = (case st s of None \<Rightarrow> (None, s) | Some (n, s') \<Rightarrow> (Some n, s'))"
  by (simp add: exec_def)

lemma query_no_faults [simp]: "faults s = [] \<Longrightarrow> run_state (query f) s = (Some (f s), s)"
  by (simp add: query_def)

lemma redis_do_no_faults [simp]: "faults s = [] \<Longrightarrow> run_state (redis_do f) s = (True, f s)"
  by (simp add: redis_do_def)

lemma run_state_broadcast [simp]:
  "run_state (broadcast e) s = ((), if has_ws s then s\<lparr>ws_log := ws_log s @ [e]\<rparr> else s)"
  by (simp add: broadcast_def)

lemma run_state_metric [simp]: "run_state (metric f) s = ((), s\<lparr>gauges := f (gauges s)\<rparr>)"
  by (simp add: metric_def)

text \<open>
  The interface between the services and the store: a preorder on swarm states that no bookkeeping
  (the fault script, metrics, WebSocket events) can leave.  A service proves its operations stable
  once, relative to the statements it issues.
\<close>

definition stmt_stable :: "(swarm \<Rightarrow> swarm \<Rightarrow> bool) \<Rightarrow> stmt \<Rightarrow> bool" where
  "stmt_stable R st \<longleftrightarrow> (\<forall>s n t. st s = Some (n, t) \<longrightarrow> R s t)"

locale swarm_store = state_preorder R for R :: "swarm \<Rightarrow> swarm \<Rightarrow> bool" +
  assumes R_faults: "R s (s\<lparr>faults := fs\<rparr>)"
    and R_ws_log: "R s (s\<lparr>ws_log := es\<rparr>)"
    and R_gauges: "R s (s\<lparr>gauges := g\<rparr>)"
begin

lemma stable_io_ok: "stable R io_ok"
proof (rule stableI)
  fix s
  show "R s (snd (run_state io_ok s))"
    by (rule io_ok_cases [of s]) (auto intro: R_faults)
qed

lemma stable_exec:
  assumes "stmt_stable R st"
  shows "stable R (exec st)"
proof -
  have "stable R (State (\<lambda>s. case st s of None \<Rightarrow> (None, s) | Some (n, s') \<Rightarrow> (Some n, s')))"
    using assms by (intro stableI) (auto simp: stmt_stable_def R_refl split: option.splits)
  then show ?thesis
    unfolding exec_def by (intro stable_combinators stable_io_ok) auto
qed

lemma stable_query: "stable R (query f)"
  unfolding query_def by (intro stable_combinators stable_io_ok)

lemma stable_redis_do: "(\<And>s. R s (f s)) \<Longrightarrow> stable R (redis_do f)"
  unfolding redis_do_def by (intro stable_combinators stable_io_ok stable_modify)

lemma stable_broadcast: "stable R (broadcast e)"
  unfolding broadcast_def by (rule stable_modify) (simp add: R_ws_log R_refl)

lemma stable_metric: "stable R (metric f)"
  unfolding metric_def by (rule stable_modify) (rule R_gauges)

lemmas stable_calls =
  stable_combinators stable_query stable_exec stable_broadcast stable_metric stable_io_ok

end

text \<open>
  The interfaces of the tables: predicates and observations that ignore the bookkeeping fields are
  kept by every call, whatever the statements do, as long as the statements keep them.
\<close>

definition book_free :: "(swarm \<Rightarrow> 'v) \<Rightarrow> bool" where
  "book_free f \<longleftrightarrow> (\<forall>s fs es g. f (s\<lparr>faults := fs\<rparr>) = f s \<and> f (s\<lparr>ws_log := es\<rparr>) = f s \<and>
     f (s\<lparr>gauges := g\<rparr>) = f s)"

lemma swarm_store_keeps: "book_free I \<Longrightarrow> swarm_store (keeps I)"
  by unfold_locales (auto simp: keeps_def book_free_def)

lemma swarm_store_same: "book_free f \<Longrightarrow> swarm_store (same f)"
  by unfold_locales (auto simp: same_def book_free_def)

section \<open>Statement shapes\<close>

definition stmt_tasks :: "(task \<Rightarrow> bool) \<Rightarrow> (task \<Rightarrow> task) \<Rightarrow> stmt" where
  "stmt_tasks p f s = Some (count_where p (tasks s), s\<lparr>tasks := update_where p f (tasks s)\<rparr>)"

definition stmt_teams :: "(team \<Rightarrow> bool) \<Rightarrow> (team \<Rightarrow> team) \<Rightarrow> stmt" where
  "stmt_teams p f s = Some (count_where p (teams s), s\<lparr>teams := update_where p f (teams s)\<rparr>)"

definition stmt_agents :: "(agent \<Rightarrow> bool) \<Rightarrow> (agent \<Rightarrow> agent) \<Rightarrow> stmt" where
  "stmt_agents p f s = Some (count_where p (agents s), s\<lparr>agents := update_where p f (agents s)\<rparr>)"

lemma stmt_stableI: "(\<And>s n t. st s = Some (n, t) \<Longrightarrow> R s t) \<Longrightarrow> stmt_stable R st"
  by (simp add: stmt_stable_def)

lemma stmt_stableD: "stmt_stable R st \<Longrightarrow> st s = Some (n, t) \<Longrightarrow> R s t"
  by (simp add: stmt_stable_def)

text \<open>
  Deleting agents, teams and tasks, with the referential actions of the schema: references to a
  deleted agent or team become NULL, rows that belong to a deleted task go with it.
\<close>

definition set_null :: "('k \<Rightarrow> bool) \<Rightarrow> 'k option \<Rightarrow> 'k option" where
  "set_null gone x = (case x of None \<Rightarrow> None | Some k \<Rightarrow> if gone k then None else Some k)"

definition delete_agents :: "(agent \<Rightarrow> bool) \<Rightarrow> stmt" where
  "delete_agents p s =
     (let gone = (\<lambda>k. k \<in> a_id ` set (filter p (agents s))) in
      Some (count_where p (agents s),
        s\<lparr>agents := delete_where p (agents s),
          teams := map (\<lambda>t. t\<lparr>m_lead_agent_id := set_null gone (m_lead_agent_id t)\<rparr>) (teams s),
          diffs := map (\<lambda>d. d\<lparr>d_agent_id := set_null gone (d_agent_id d)\<rparr>) (diffs s),
          logs := map (\<lambda>l. l\<lparr>l_agent_id := set_null gone (l_agent_id l)\<rparr>) (logs s)\<rparr>))"

definition delete_teams :: "(team \<Rightarrow> bool) \<Rightarrow> stmt" where
  "delete_teams p s =
     (let gone = (\<lambda>k. k \<in> m_id ` set (filter p (teams s))) in
      Some (count_where p (teams s),
        s\<lparr>teams := delete_where p (teams s),
          agents := map (\<lambda>a. a\<lparr>a_team_id := set_null gone (a_team_id a)\<rparr>) (agents s),
          tasks := map (\<lambda>t. t\<lparr>t_assigned_team_id := set_null gone (t_assigned_team_id t)\<rparr>) (tasks s)\<rparr>))"

definition delete_tasks :: "(task \<Rightarrow> bool) \<Rightarrow> stmt" where
  "delete_tasks p s =
     (let gone = (\<lambda>k. k \<in> t_id ` set (filter p (tasks s)));
          gone_diff = (\<lambda>k. k \<in> d_id ` set (filter (\<lambda>d. gone (d_task_id d)) (diffs s))) in
      Some (count_where p (tasks s),
        s\<lparr>tasks := delete_where p (tasks s),
          diffs := delete_where (\<lambda>d. gone (d_task_id d)) (diffs s),
          comments := delete_where (\<lambda>c. gone_diff (c_diff_id c)) (comments s),
          logs := delete_where (\<lambda>l. gone (l_task_id l)) (logs s)\<rparr>))"

definition coalesce :: "'a list option \<Rightarrow> 'a list" where
  "coalesce x = (case x of None \<Rightarrow> [] | Some xs \<Rightarrow> xs)"

definition find_task :: "uuid \<Rightarrow> swarm \<Rightarrow> task option" where
  "find_task tid s = List.find (\<lambda>t. t_id t = tid) (tasks s)"

definition find_team :: "uuid \<Rightarrow> swarm \<Rightarrow> team option" where
  "find_team tid s = List.find (\<lambda>t. m_id t = tid) (teams s)"

definition find_agent :: "uuid \<Rightarrow> swarm \<Rightarrow> agent option" where
  "find_agent aid s = List.find (\<lambda>a. a_id a = aid) (agents s)"

end
