(* ===== verification/SwarmSchema.thy ===== *)
theory SwarmSchema
  imports SwarmDB
begin

text \<open>
  Well-formedness of the swarm tables: the primary keys and foreign keys of
  \<open>db/sql/initData.sql\<close> and the duplicate-freedom of the \<open>agent_ids\<close> arrays, which the
  schema does not enforce.  The rules below reduce preservation by a statement to a condition on
  the rows it writes.
\<close>

definition ref_in :: "'k option \<Rightarrow> 'k set \<Rightarrow> bool" where
  "ref_in x K \<longleftrightarrow> (case x of None \<Rightarrow> True | Some k \<Rightarrow> k \<in> K)"

definition keys_ok :: "swarm \<Rightarrow> bool" where
  "keys_ok s \<longleftrightarrow> distinct (map t_id (tasks s)) \<and> distinct (map m_id (teams s)) \<and>
     distinct (map a_id (agents s)) \<and> distinct (map d_id (diffs s)) \<and> distinct (map c_id (comments s))"

definition refs_ok :: "swarm \<Rightarrow> bool" where
  "refs_ok s \<longleftrightarrow>
     (\<forall>t\<in>set (tasks s). ref_in (t_assigned_team_id t) (m_id ` set (teams s))) \<and>
     (\<forall>m\<in>set (teams s). ref_in (m_lead_agent_id m) (a_id ` set (agents s))) \<and>
     (\<forall>a\<in>set (agents s). ref_in (a_team_id a) (m_id ` set (teams s))) \<and>
     (\<forall>d\<in>set (diffs s). d_task_id d \<in> t_id ` set (tasks s)) \<and>
     (\<forall>d\<in>set (diffs s). ref_in (d_agent_id d) (a_id ` set (agents s))) \<and>
     (\<forall>c\<in>set (comments s). c_diff_id c \<in> d_id ` set (diffs s)) \<and>
     (\<forall>l\<in>set (logs s). l_task_id l \<in> t_id ` set (tasks s)) \<and>
     (\<forall>l\<in>set (logs s). ref_in (l_agent_id l) (a_id ` set (agents s)))"

definition agent_ids_ok :: "swarm \<Rightarrow> bool" where
  "agent_ids_ok s \<longleftrightarrow> (\<forall>m\<in>set (teams s). distinct (coalesce (m_agent_ids m)))"

definition db_wf :: "swarm \<Rightarrow> bool" where
  "db_wf s \<longleftrightarrow> keys_ok s \<and> refs_ok s \<and> agent_ids_ok s"

lemmas wf_defs = db_wf_def keys_ok_def refs_ok_def agent_ids_ok_def

lemma ref_in_None [simp]: "ref_in None K"
  by (simp add: ref_in_def)

lemma ref_in_Some [simp]: "ref_in (Some k) K \<longleftrightarrow> k \<in> K"
  by (simp add: ref_in_def)

lemma ref_in_mono: "ref_in x K \<Longrightarrow> K \<subseteq> L \<Longrightarrow> ref_in x L"
  by (auto simp: ref_in_def split: option.splits)

lemma ref_in_insert [simp]: "ref_in x K \<Longrightarrow> ref_in x (insert k K)"
  by (erule ref_in_mono) blast

lemma ref_in_set_null:
  "ref_in x K \<Longrightarrow> (\<And>k. k \<in> K \<Longrightarrow> \<not> gone k \<Longrightarrow> k \<in> L) \<Longrightarrow> ref_in (set_null gone x) L"
  by (auto simp: ref_in_def set_null_def split: option.splits)

lemma book_free_db_wf: "book_free db_wf"
  by (simp add: book_free_def wf_defs)

lemma image_update_where:
  "(\<And>r. p r \<Longrightarrow> g (f r) = g r) \<Longrightarrow> g ` set (update_where p f rs) = g ` set rs"
  using map_update_where [of p g f rs] by (metis list.set_map)

lemma image_delete_where_subset: "g ` set (delete_where p rs) \<subseteq> g ` set rs"
  by auto

lemma image_remains:
  "k \<in> g ` set rs \<Longrightarrow> k \<notin> g ` set (filter p rs) \<Longrightarrow> k \<in> g ` set (delete_where p rs)"
  by auto

lemma cascade_refs:
  assumes "\<forall>d\<in>set ds. f d \<in> g ` set rs"
  shows "\<forall>d\<in>set (delete_where (\<lambda>d. f d \<in> g ` set (filter p rs)) ds).
    f d \<in> g ` set (delete_where p rs)"
proof
  fix d assume "d \<in> set (delete_where (\<lambda>d. f d \<in> g ` set (filter p rs)) ds)"
  then have "d \<in> set ds" and "f d \<notin> g ` set (filter p rs)" by simp_all
  then show "f d \<in> g ` set (delete_where p rs)" using assms by (blast intro: image_remains)
qed

section \<open>Statements keep the tables well-formed\<close>

lemma wf_tasks:
  assumes "\<And>t. p t \<Longrightarrow> t_id (f t) = t_id t"
    and "\<And>t. p t \<Longrightarrow> t_assigned_team_id (f t) \<in> {None, t_assigned_team_id t}"
  shows "stmt_stable (keeps db_wf) (stmt_tasks p f)"
proof (rule stmt_stableI, rule keepsI)
  fix s n t
  assume st: "stmt_tasks p f s = Some (n, t)" and wf: "db_wf s"
  have t: "t = s\<lparr>tasks := update_where p f (tasks s)\<rparr>"
    using st by (simp add: stmt_tasks_def)
  have "\<forall>x\<in>set (update_where p f (tasks s)). ref_in (t_assigned_team_id x) (m_id ` set (teams s))"
    using wf assms(2) by (fastforce simp: wf_defs in_update_where)
  then show "db_wf t"
    using wf unfolding t wf_defs by (simp add: map_update_where image_update_where assms(1))
qed

lemma wf_teams:
  assumes "\<And>t. p t \<Longrightarrow> m_id (f t) = m_id t"
    and "\<And>t. p t \<Longrightarrow> m_lead_agent_id (f t) = m_lead_agent_id t"
    and "\<And>t. p t \<Longrightarrow> distinct (coalesce (m_agent_ids t)) \<Longrightarrow> distinct (coalesce (m_agent_ids (f t)))"
  shows "stmt_stable (keeps db_wf) (stmt_teams p f)"
proof (rule stmt_stableI, rule keepsI)
  fix s n t
  assume st: "stmt_teams p f s = Some (n, t)" and wf: "db_wf s"
  have t: "t = s\<lparr>teams := update_where p f (teams s)\<rparr>"
    using st by (simp add: stmt_teams_def)
  have "\<forall>x\<in>set (update_where p f (teams s)). ref_in (m_lead_agent_id x) (a_id ` set (agents s))"
    and "\<forall>x\<in>set (update_where p f (teams s)). distinct (coalesce (m_agent_ids x))"
    using wf assms(2,3) by (auto simp: wf_defs in_update_where)
  then show "db_wf t"
    using wf unfolding t wf_defs by (simp add: map_update_where image_update_where assms(1))
qed

lemma wf_agents:
  assumes "\<And>a. p a \<Longrightarrow> a_id (f a) = a_id a"
    and "\<And>a. p a \<Longrightarrow> a_team_id (f a) = a_team_id a"
  shows "stmt_stable (keeps db_wf) (stmt_agents p f)"
proof (rule stmt_stableI, rule keepsI)
  fix s n t
  assume st: "stmt_agents p f s = Some (n, t)" and wf: "db_wf s"
  have t: "t = s\<lparr>agents := update_where p f (agents s)\<rparr>"
    using st by (simp add: stmt_agents_def)
  have "\<forall>x\<in>set (update_where p f (agents s)). ref_in (a_team_id x) (m_id ` set (teams s))"
    using wf assms(2) by (auto simp: wf_defs in_update_where)
  then show "db_wf t"
    using wf unfolding t wf_defs by (simp add: map_update_where image_update_where assms(1))
qed

lemma wf_append_team:
  assumes "db_wf s" and "m_id m \<notin> m_id ` set (teams s)" and "m_lead_agent_id m = None"
    and "m_agent_ids m = None"
  shows "db_wf (s\<lparr>teams := teams s @ [m]\<rparr>)"
  using assms unfolding wf_defs
  by (auto simp: coalesce_def intro: ref_in_mono)

lemma wf_delete_agents: "stmt_stable (keeps db_wf) (delete_agents p)"
proof (rule stmt_stableI, rule keepsI)
  fix s n t
  assume st: "delete_agents p s = Some (n, t)" and wf: "db_wf s"
  define gone where "gone = (\<lambda>k. k \<in> a_id ` set (filter p (agents s)))"
  have null: "ref_in x (a_id ` set (agents s)) \<Longrightarrow>
      ref_in (set_null gone x) (a_id ` {x \<in> set (agents s). \<not> p x})" for x
    unfolding gone_def by (erule ref_in_set_null) auto
  have t: "t = s\<lparr>agents := delete_where p (agents s),
      teams := map (\<lambda>t. t\<lparr>m_lead_agent_id := set_null gone (m_lead_agent_id t)\<rparr>) (teams s),
      diffs := map (\<lambda>d. d\<lparr>d_agent_id := set_null gone (d_agent_id d)\<rparr>) (diffs s),
      logs := map (\<lambda>l. l\<lparr>l_agent_id := set_null gone (l_agent_id l)\<rparr>) (logs s)\<rparr>"
    using st unfolding delete_agents_def Let_def gone_def by (simp only: option.inject prod.inject)
  show "db_wf t"
    using wf unfolding t wf_defs
    by (simp add: o_def image_image distinct_delete_where null)
qed

lemma wf_delete_teams: "stmt_stable (keeps db_wf) (delete_teams p)"
proof (rule stmt_stableI, rule keepsI)
  fix s n t
  assume st: "delete_teams p s = Some (n, t)" and wf: "db_wf s"
  define gone where "gone = (\<lambda>k. k \<in> m_id ` set (filter p (teams s)))"
  have null: "ref_in x (m_id ` set (teams s)) \<Longrightarrow>
      ref_in (set_null gone x) (m_id ` {x \<in> set (teams s). \<not> p x})" for x
    unfolding gone_def by (erule ref_in_set_null) auto
  have t: "t = s\<lparr>teams := delete_where p (teams s),
      agents := map (\<lambda>a. a\<lparr>a_team_id := set_null gone (a_team_id a)\<rparr>) (agents s),
      tasks := map (\<lambda>t. t\<lparr>t_assigned_team_id := set_null gone (t_assigned_team_id t)\<rparr>) (tasks s)\<rparr>"
    using st unfolding delete_teams_def Let_def gone_def by (simp only: option.inject prod.inject)
  show "db_wf t"
    using wf unfolding t wf_defs
    by (simp add: o_def image_image distinct_delete_where null)
qed

lemma wf_delete_tasks: "stmt_stable (keeps db_wf) (delete_tasks p)"
proof (rule stmt_stableI, rule keepsI)
  fix s n t
  assume st: "delete_tasks p s = Some (n, t)" and wf: "db_wf s"
  let ?gone = "\<lambda>k. k \<in> t_id ` set (filter p (tasks s))"
  let ?goned = "\<lambda>k. k \<in> d_id ` set (filter (\<lambda>d. ?gone (d_task_id d)) (diffs s))"
  have t: "teams t = teams s" "agents t = agents s" "tasks t = delete_where p (tasks s)"
    "diffs t = delete_where (\<lambda>d. ?gone (d_task_id d)) (diffs s)"
    "comments t = delete_where (\<lambda>c. ?goned (c_diff_id c)) (comments s)"
    "logs t = delete_where (\<lambda>l. ?gone (l_task_id l)) (logs s)"
    using st by (auto simp: delete_tasks_def Let_def)
  have "keys_ok t" "agent_ids_ok t"
    using wf by (auto simp: wf_defs t distinct_delete_where)
  moreover have "refs_ok t"
    using wf unfolding refs_ok_def wf_defs t
    by (intro conjI cascade_refs) (auto simp only: set_delete_where)
  ultimately show "db_wf t" by (simp add: db_wf_def)
qed

end
