(* ===== verification/TeamManager.thy ===== *)
theory TeamManager
  imports SwarmSchema
begin

text \<open>
  \<open>internal/swarm/team_manager.go\<close>: creation, lookup and release of teams, registration of agents.
  Each SQL statement is a definition \<open>sql_\<dots>\<close>; each method is a program of the same name.  The mutex of
  the Go type serialises the methods, so each runs as one step.
\<close>

section \<open>Statements\<close>

definition MaxTeams :: nat where "MaxTeams = 5"

definition maxAgentsPerTeam :: int where "maxAgentsPerTeam = 10"

definition warmPoolTeamIDs :: "uuid list" where "warmPoolTeamIDs = [0, 1]"

definition sql_insert_team :: "uuid \<Rightarrow> string \<Rightarrow> time \<Rightarrow> stmt" where
  [sql_defs]: "sql_insert_team i name now s =
     (if i \<in> m_id ` set (teams s) then None
      else Some (1, s\<lparr>teams := teams s @ [\<lparr>m_id = i, m_name = name, m_lead_agent_id = None,
             m_status = TeamIdle, m_agent_ids = None, m_formed_at = now\<rparr>]\<rparr>))"

definition sql_ensure_team :: "uuid \<Rightarrow> string \<Rightarrow> time \<Rightarrow> stmt" where
  [sql_defs]: "sql_ensure_team i name now s =
     (if i \<in> m_id ` set (teams s) then Some (0, s)
      else Some (1, s\<lparr>teams := teams s @ [\<lparr>m_id = i, m_name = name, m_lead_agent_id = None,
             m_status = TeamIdle, m_agent_ids = None, m_formed_at = now\<rparr>]\<rparr>))"

definition sql_team_status :: "uuid \<Rightarrow> team_status \<Rightarrow> stmt" where
  [sql_defs]: "sql_team_status tid st =
     stmt_teams (\<lambda>t. m_id t = tid) (\<lambda>t. t\<lparr>m_status := st\<rparr>)"

definition sql_team_agents_busy :: "uuid \<Rightarrow> stmt" where
  [sql_defs]: "sql_team_agents_busy tid =
     stmt_agents (\<lambda>a. a_team_id a = Some tid \<and> a_status a \<noteq> AgentOffline)
       (\<lambda>a. a\<lparr>a_status := AgentBusy\<rparr>)"

definition sql_team_agents_offline :: "uuid \<Rightarrow> stmt" where
  [sql_defs]: "sql_team_agents_offline tid =
     stmt_agents (\<lambda>a. a_team_id a = Some tid) (\<lambda>a. a\<lparr>a_status := AgentOffline\<rparr>)"

definition sql_upsert_agent ::
  "uuid \<Rightarrow> string \<Rightarrow> uuid option \<Rightarrow> agent_status \<Rightarrow> string \<Rightarrow> string \<Rightarrow> time \<Rightarrow> stmt" where
  [sql_defs]: "sql_upsert_agent aid role team st host ver now s =
     (if (\<exists>tid. team = Some tid \<and> tid \<notin> m_id ` set (teams s)) then None
      else if aid \<in> a_id ` set (agents s) then
        stmt_agents (\<lambda>a. a_id a = aid)
          (\<lambda>a. a\<lparr>a_role := role, a_team_id := team, a_status := st, a_hostname := host,
                a_version := ver, a_registered_at := now\<rparr>) s
      else Some (1, s\<lparr>agents := agents s @
        [\<lparr>a_id = aid, a_role = role, a_team_id = team, a_status = st, a_elo_score = 1200,
          a_tasks_done = 0, a_tasks_rated = 0, a_avg_rating = 0, a_hostname = host,
          a_version = ver, a_tier = TierStandard, a_registered_at = now\<rparr>]\<rparr>))"

definition sql_append_agent :: "uuid \<Rightarrow> uuid \<Rightarrow> stmt" where
  [sql_defs]: "sql_append_agent aid tid =
     stmt_teams (\<lambda>t. m_id t = tid \<and> aid \<notin> set (coalesce (m_agent_ids t)))
       (\<lambda>t. t\<lparr>m_agent_ids := Some (coalesce (m_agent_ids t) @ [aid])\<rparr>)"

section \<open>Operations\<close>

definition activeTeamCount :: "nat option prog" where
  [op_defs]: "activeTeamCount = query (\<lambda>s.
     count_where (\<lambda>t. m_status t \<noteq> TeamOffline \<and> m_id t \<notin> set warmPoolTeamIDs) (teams s))"

definition CreateTeam :: "string \<Rightarrow> uuid \<Rightarrow> time \<Rightarrow> (swarm_error + team) prog" where
  [op_defs]: "CreateTeam name new_id now = do {
     count \<leftarrow> activeTeamCount;
     case count of
       None \<Rightarrow> ret (Inl (ErrDB ''counting teams''))
     | Some n \<Rightarrow>
         if n \<ge> MaxTeams then ret (Inl ErrMaxTeams)
         else do {
           r \<leftarrow> exec (sql_insert_team new_id name now);
           case r of
             None \<Rightarrow> ret (Inl (ErrDB ''inserting team''))
           | Some _ \<Rightarrow> ret (Inr \<lparr>m_id = new_id, m_name = name, m_lead_agent_id = None,
               m_status = TeamIdle, m_agent_ids = None, m_formed_at = now\<rparr>) } }"

definition GetIdleTeam :: "team option prog" where
  [op_defs]: "GetIdleTeam = do {
     r \<leftarrow> query (\<lambda>s. List.find (\<lambda>t. m_status t = TeamIdle \<and> m_id t \<notin> set warmPoolTeamIDs) (teams s));
     ret (case r of None \<Rightarrow> None | Some t \<Rightarrow> t) }"

definition MarkTeamBusy :: "uuid \<Rightarrow> unit prog" where
  [op_defs]: "MarkTeamBusy tid = do {
     _ \<leftarrow> exec (sql_team_status tid TeamBusy);
     _ \<leftarrow> exec (sql_team_agents_busy tid);
     ret () }"

definition ReleaseTeam :: "uuid \<Rightarrow> unit prog" where
  [op_defs]: "ReleaseTeam tid = do {
     _ \<leftarrow> exec (sql_team_agents_offline tid);
     _ \<leftarrow> exec (sql_team_status tid TeamOffline);
     ret () }"

definition MarkTeamOffline :: "uuid \<Rightarrow> unit prog" where
  [op_defs]: "MarkTeamOffline tid = do { _ \<leftarrow> exec (sql_team_status tid TeamOffline); ret () }"

definition ScaleTeam :: "uuid \<Rightarrow> int \<Rightarrow> (swarm_error + unit) prog" where
  [op_defs]: "ScaleTeam tid additional = do {
     r \<leftarrow> query (\<lambda>s. map_option (\<lambda>t. int (length (coalesce (m_agent_ids t)))) (find_team tid s));
     case r of
       None \<Rightarrow> ret (Inl (ErrDB ''querying team agent count''))
     | Some None \<Rightarrow> ret (Inl (ErrDB ''querying team agent count''))
     | Some (Some currentCount) \<Rightarrow>
         if wrap64 (currentCount + additional) > maxAgentsPerTeam then ret (Inl ErrTeamCapacity)
         else ret (Inr ()) }"

definition DisbandTeam :: "uuid \<Rightarrow> (swarm_error + unit) prog" where
  [op_defs]: "DisbandTeam tid = do {
     r \<leftarrow> exec (sql_team_agents_offline tid);
     case r of None \<Rightarrow> ret (Inl (ErrDB ''offlining team agents''))
     | Some _ \<Rightarrow> do {
         r2 \<leftarrow> exec (sql_team_status tid TeamOffline);
         case r2 of None \<Rightarrow> ret (Inl (ErrDB ''offlining team'')) | Some _ \<Rightarrow> ret (Inr ()) } }"

definition CanCreateTeam :: "bool prog" where
  [op_defs]: "CanCreateTeam = do {
     count \<leftarrow> activeTeamCount;
     ret (case count of None \<Rightarrow> False | Some n \<Rightarrow> n < MaxTeams) }"

definition ListTeams :: "(swarm_error + team list) prog" where
  [op_defs]: "ListTeams = do {
     r \<leftarrow> query (\<lambda>s. sort_key m_formed_at (teams s));
     ret (case r of None \<Rightarrow> Inl (ErrDB ''listing teams'') | Some ts \<Rightarrow> Inr ts) }"

definition RegisterAgent ::
  "(uuid \<Rightarrow> string) \<Rightarrow> uuid \<Rightarrow> string \<Rightarrow> uuid \<Rightarrow> string \<Rightarrow> string \<Rightarrow> time \<Rightarrow> (swarm_error + unit) prog" where
  [op_defs]: "RegisterAgent uuid_str aid role tid host ver now = do {
     _ \<leftarrow> (if tid \<noteq> uuid_nil
          then exec (sql_ensure_team tid (''team-'' @ take 8 (uuid_str tid)) now) else ret None);
     st \<leftarrow> (if tid \<noteq> uuid_nil then do {
              r \<leftarrow> query (\<lambda>s. map_option m_status (find_team tid s));
              ret (if r = Some (Some TeamBusy) then AgentBusy else AgentIdle) }
           else ret AgentIdle);
     r \<leftarrow> exec (sql_upsert_agent aid role (if tid \<noteq> uuid_nil then Some tid else None) st host ver now);
     case r of
       None \<Rightarrow> ret (Inl (ErrDB ''registering agent''))
     | Some _ \<Rightarrow> do {
         _ \<leftarrow> (if tid \<noteq> uuid_nil then exec (sql_append_agent aid tid) else ret None);
         ret (Inr ()) } }"

definition ListAgents :: "agent_status option \<Rightarrow> (swarm_error + agent list) prog" where
  [op_defs]: "ListAgents flt = do {
     r \<leftarrow> query (\<lambda>s. sort_key a_registered_at
            (filter (\<lambda>a. case flt of None \<Rightarrow> True | Some st \<Rightarrow> a_status a = st) (agents s)));
     ret (case r of None \<Rightarrow> Inl (ErrDB ''listing agents'') | Some xs \<Rightarrow> Inr xs) }"

definition FindIdleTeamWithCapacity :: "nat \<Rightarrow> team option prog" where
  [op_defs]: "FindIdleTeamWithCapacity minAgents = do {
     r \<leftarrow> query (\<lambda>s. List.find (\<lambda>t. m_status t = TeamIdle \<and> m_id t \<notin> set warmPoolTeamIDs \<and>
              length (coalesce (m_agent_ids t)) \<ge> minAgents) (teams s));
     ret (case r of None \<Rightarrow> None | Some t \<Rightarrow> t) }"

section \<open>The interface the other services rely on\<close>

text \<open>
  A relation on swarm states that the team statements respect is respected by every method of the
  team manager, whichever of its calls fail.
\<close>

locale team_store = swarm_store R for R :: "swarm \<Rightarrow> swarm \<Rightarrow> bool" +
  assumes st_insert_team: "stmt_stable R (sql_insert_team i name now)"
    and st_ensure_team: "stmt_stable R (sql_ensure_team i name now)"
    and st_team_status: "stmt_stable R (sql_team_status tid st)"
    and st_agents_busy: "stmt_stable R (sql_team_agents_busy tid)"
    and st_agents_offline: "stmt_stable R (sql_team_agents_offline tid)"
    and st_upsert_agent: "stmt_stable R (sql_upsert_agent aid role team ast host ver now)"
    and st_append_agent: "stmt_stable R (sql_append_agent aid tid)"
begin

lemmas team_calls = stable_calls st_insert_team st_ensure_team st_team_status st_agents_busy
  st_agents_offline st_upsert_agent st_append_agent

lemma stable_CreateTeam: "stable R (CreateTeam name i now)"
  unfolding CreateTeam_def activeTeamCount_def by (intro team_calls)

lemma stable_GetIdleTeam: "stable R GetIdleTeam"
  unfolding GetIdleTeam_def by (intro team_calls)

lemma stable_MarkTeamBusy: "stable R (MarkTeamBusy tid)"
  unfolding MarkTeamBusy_def by (intro team_calls)

lemma stable_ReleaseTeam: "stable R (ReleaseTeam tid)"
  unfolding ReleaseTeam_def by (intro team_calls)

lemma stable_MarkTeamOffline: "stable R (MarkTeamOffline tid)"
  unfolding MarkTeamOffline_def by (intro team_calls)

lemma stable_ScaleTeam: "stable R (ScaleTeam tid n)"
  unfolding ScaleTeam_def by (intro team_calls)

lemma stable_DisbandTeam: "stable R (DisbandTeam tid)"
  unfolding DisbandTeam_def by (intro team_calls)

lemma stable_CanCreateTeam: "stable R CanCreateTeam"
  unfolding CanCreateTeam_def activeTeamCount_def by (intro team_calls)

lemma stable_RegisterAgent: "stable R (RegisterAgent us aid role tid host ver now)"
  unfolding RegisterAgent_def by (intro team_calls)

lemma stable_FindIdleTeamWithCapacity: "stable R (FindIdleTeamWithCapacity n)"
  unfolding FindIdleTeamWithCapacity_def by (intro team_calls)

lemmas team_ops = stable_CreateTeam stable_GetIdleTeam stable_MarkTeamBusy stable_ReleaseTeam
  stable_MarkTeamOffline stable_ScaleTeam stable_DisbandTeam stable_CanCreateTeam
  stable_RegisterAgent stable_FindIdleTeamWithCapacity

end

section \<open>The team manager keeps the tables well-formed\<close>

lemma wf_insert_team: "stmt_stable (keeps db_wf) (sql_insert_team i name now)"
  by (rule stmt_stableI, rule keepsI)
    (auto simp: sql_insert_team_def split: if_splits intro: wf_append_team)

lemma wf_ensure_team: "stmt_stable (keeps db_wf) (sql_ensure_team i name now)"
  by (rule stmt_stableI, rule keepsI)
    (auto simp: sql_ensure_team_def split: if_splits intro: wf_append_team)

lemma wf_append_agent: "stmt_stable (keeps db_wf) (sql_append_agent aid tid)"
  unfolding sql_append_agent_def by (rule wf_teams) (auto simp: coalesce_def)

lemma wf_upsert_agent: "stmt_stable (keeps db_wf) (sql_upsert_agent aid role team st host ver now)"
proof (rule stmt_stableI, rule keepsI)
  fix s n t
  assume up: "sql_upsert_agent aid role team st host ver now s = Some (n, t)" and wf: "db_wf s"
  then have team: "ref_in team (m_id ` set (teams s))"
    by (auto simp: sql_upsert_agent_def ref_in_def split: if_splits option.splits)
  show "db_wf t"
  proof (cases "aid \<in> a_id ` set (agents s)")
    case True
    let ?f = "\<lambda>a. a\<lparr>a_role := role, a_team_id := team, a_status := st, a_hostname := host,
                a_version := ver, a_registered_at := now\<rparr>"
    have t: "t = s\<lparr>agents := update_where (\<lambda>a. a_id a = aid) ?f (agents s)\<rparr>"
      using up True by (auto simp: sql_upsert_agent_def stmt_agents_def split: if_splits)
    have "\<forall>x\<in>set (update_where (\<lambda>a. a_id a = aid) ?f (agents s)).
        ref_in (a_team_id x) (m_id ` set (teams s))"
      using wf team by (auto simp: wf_defs in_update_where)
    then show ?thesis
      using wf unfolding t wf_defs by (simp add: map_update_where image_update_where)
  next
    case False
    then show ?thesis
      using up wf team
      by (auto simp: sql_upsert_agent_def wf_defs split: if_splits)
  qed
qed

interpretation wf_store: swarm_store "keeps db_wf"
  by (rule swarm_store_keeps) (rule book_free_db_wf)

interpretation team_wf: team_store "keeps db_wf"
  by unfold_locales
    (simp_all add: wf_insert_team wf_ensure_team wf_append_agent wf_upsert_agent
      sql_team_status_def sql_team_agents_busy_def sql_team_agents_offline_def wf_teams wf_agents)

text \<open>No method of the team manager writes tasks, diffs, comments or the streams.\<close>

definition task_view :: "swarm \<Rightarrow> _" where
  "task_view s = (tasks s, diffs s, comments s, logs s, repos s,
     (pending_new s, pending_pel s, team_create_stream s, assigned_stream s))"

lemma book_free_task_view: "book_free task_view"
  by (simp add: book_free_def task_view_def)

interpretation frame_store: swarm_store "same task_view"
  by (rule swarm_store_same) (rule book_free_task_view)

interpretation team_frame: team_store "same task_view"
  by unfold_locales
    (auto simp: stmt_stable_def same_def task_view_def sql_defs stmt_teams_def stmt_agents_def
      split: if_splits)

end
