(* ===== verification/GoStrings.thy ===== *)
theory GoStrings
  imports Complex_Main "HOL-Library.Sublist" "HOL-Library.Char_ord"
begin

text \<open>
  The functions of the Go package \<open>strings\<close> the server calls, on strings as lists of bytes:
  \<open>Contains\<close>, \<open>HasPrefix\<close>, \<open>HasSuffix\<close>, \<open>ToLower\<close>, \<open>Fields\<close>, \<open>TrimSpace\<close>, \<open>SplitN\<close>
  and \<open>Join\<close>, and the verbs \<open>%d\<close> and \<open>%.0f\<close> of the package \<open>fmt\<close>.  Case folding and white space
  are those of ASCII.
\<close>

section \<open>Searching\<close>

fun str_contains :: "string \<Rightarrow> string \<Rightarrow> bool" where
  "str_contains [] sub = (sub = [])"
| "str_contains (c # cs) sub = (prefix sub (c # cs) \<or> str_contains cs sub)"

lemma str_contains_iff: "str_contains s sub \<longleftrightarrow> (\<exists>u v. s = u @ sub @ v)"
proof (induction s)
  case Nil
  show ?case by auto
next
  case (Cons c cs)
  show ?case
  proof
    assume "str_contains (c # cs) sub"
    then consider "prefix sub (c # cs)" | "str_contains cs sub" by auto
    then show "\<exists>u v. c # cs = u @ sub @ v"
    proof cases
      case 1
      then obtain v where "c # cs = [] @ sub @ v" by (auto simp: prefix_def)
      then show ?thesis by blast
    next
      case 2
      then obtain u v where "c # cs = (c # u) @ sub @ v" using Cons.IH by auto
      then show ?thesis by blast
    qed
  next
    assume "\<exists>u v. c # cs = u @ sub @ v"
    then obtain u v where uv: "c # cs = u @ sub @ v" by blast
    show "str_contains (c # cs) sub"
    proof (cases u)
      case Nil
      with uv have "prefix sub (c # cs)" by (simp add: prefix_def)
      then show ?thesis by simp
    next
      case (Cons d u')
      with uv have "cs = u' @ sub @ v" by simp
      then show ?thesis using Cons.IH by auto
    qed
  qed
qed

lemma str_contains_append: "str_contains s sub \<Longrightarrow> str_contains (u @ s @ v) sub"
  by (auto simp: str_contains_iff) (metis append.assoc)

lemma str_contains_char: "str_contains s [c] \<longleftrightarrow> c \<in> set s"
  by (auto simp: str_contains_iff in_set_conv_decomp)

definition has_prefix :: "string \<Rightarrow> string \<Rightarrow> bool" where
  "has_prefix s p \<longleftrightarrow> prefix p s"

definition has_suffix :: "string \<Rightarrow> string \<Rightarrow> bool" where
  "has_suffix s p \<longleftrightarrow> suffix p s"

section \<open>Case folding\<close>

definition lower_char :: "char \<Rightarrow> char" where
  "lower_char c =
     (if CHR ''A'' \<le> c \<and> c \<le> CHR ''Z'' then char_of (of_char c + 32 :: nat) else c)"

definition to_lower :: "string \<Rightarrow> string" where
  "to_lower s = map lower_char s"

lemma length_to_lower [simp]: "length (to_lower s) = length s"
  by (simp add: to_lower_def)

definition upper_char :: "char \<Rightarrow> char" where
  "upper_char c =
     (if CHR ''a'' \<le> c \<and> c \<le> CHR ''z'' then char_of (of_char c - 32 :: nat) else c)"

section \<open>Decimal output\<close>

text \<open>\<open>%d\<close> for integers and \<open>%.0f\<close> for floats, which rounds to the nearest integer, halves to even.\<close>

fun show_nat :: "nat \<Rightarrow> string" where
  "show_nat n = (if n < 10 then [char_of (48 + n)] else show_nat (n div 10) @ [char_of (48 + n mod 10)])"

declare show_nat.simps [simp del]

definition show_int :: "int \<Rightarrow> string" where
  "show_int i = (if i < 0 then ''-'' @ show_nat (nat (- i)) else show_nat (nat i))"

definition round_even :: "real \<Rightarrow> int" where
  "round_even x = (let f = \<lfloor>x\<rfloor>; r = x - real_of_int f in
     if r < 1 / 2 then f else if r > 1 / 2 then f + 1 else if even f then f else f + 1)"

definition fmt0f :: "real \<Rightarrow> string" where
  "fmt0f x = (if x < 0 then ''-'' else []) @ show_nat (nat \<bar>round_even x\<bar>)"

section \<open>Splitting\<close>

definition is_space :: "char \<Rightarrow> bool" where
  "is_space c \<longleftrightarrow> c \<in> {CHR 0x09, CHR 0x0A, CHR 0x0B, CHR 0x0C, CHR 0x0D, CHR '' ''}"

text \<open>Words, with the current word as accumulator.\<close>

fun str_fields_acc :: "string \<Rightarrow> string \<Rightarrow> string list" where
  "str_fields_acc w [] = (if w = [] then [] else [w])"
| "str_fields_acc w (c # cs) =
     (if is_space c then (if w = [] then [] else [w]) @ str_fields_acc [] cs
      else str_fields_acc (w @ [c]) cs)"

definition str_fields :: "string \<Rightarrow> string list" where
  "str_fields s = str_fields_acc [] s"

lemma fields_acc_words:
  assumes "\<forall>c\<in>set w. \<not> is_space c"
  shows "\<forall>x\<in>set (str_fields_acc w s). x \<noteq> [] \<and> (\<forall>c\<in>set x. \<not> is_space c)"
  using assms
proof (induction s arbitrary: w)
  case Nil
  then show ?case by simp
next
  case (Cons c cs)
  show ?case
  proof (cases "is_space c")
    case True
    have "\<forall>x\<in>set (str_fields_acc [] cs). x \<noteq> [] \<and> (\<forall>c\<in>set x. \<not> is_space c)"
      by (rule Cons.IH) simp
    with True Cons.prems show ?thesis by simp
  next
    case False
    have "\<forall>x\<in>set (str_fields_acc (w @ [c]) cs). x \<noteq> [] \<and> (\<forall>c\<in>set x. \<not> is_space c)"
      by (rule Cons.IH) (use False Cons.prems in simp)
    with False show ?thesis by simp
  qed
qed

lemma str_fields_words: "x \<in> set (str_fields s) \<Longrightarrow> x \<noteq> [] \<and> (\<forall>c\<in>set x. \<not> is_space c)"
  using fields_acc_words [of "[]" s] by (simp add: str_fields_def)

lemma concat_fields_acc: "concat (str_fields_acc w s) = w @ filter (\<lambda>c. \<not> is_space c) s"
  by (induction w s rule: str_fields_acc.induct) auto

definition trim_space :: "string \<Rightarrow> string" where
  "trim_space s = rev (dropWhile is_space (rev (dropWhile is_space s)))"

text \<open>\<open>strings.SplitN(s, sep, n)\<close> for a one-byte separator and positive \<open>n\<close>.\<close>

fun split_n :: "char \<Rightarrow> nat \<Rightarrow> string \<Rightarrow> string list" where
  "split_n sep 0 s = []"
| "split_n sep (Suc 0) s = [s]"
| "split_n sep (Suc (Suc n)) s =
     (if sep \<in> set s
      then takeWhile (\<lambda>c. c \<noteq> sep) s # split_n sep (Suc n) (drop 1 (dropWhile (\<lambda>c. c \<noteq> sep) s))
      else [s])"

fun str_join :: "string \<Rightarrow> string list \<Rightarrow> string" where
  "str_join sep [] = []"
| "str_join sep [x] = x"
| "str_join sep (x # y # xs) = x @ sep @ str_join sep (y # xs)"

lemma length_split_n_le: "length (split_n sep n s) \<le> n"
  by (induction sep n s rule: split_n.induct) auto

lemma split_n_nonempty: "0 < n \<Longrightarrow> split_n sep n s \<noteq> []"
  by (cases "(sep, n, s)" rule: split_n.cases) auto

lemma split_n_two:
  "sep \<in> set s \<Longrightarrow> split_n sep 2 s =
    [takeWhile (\<lambda>c. c \<noteq> sep) s, drop 1 (dropWhile (\<lambda>c. c \<noteq> sep) s)]"
  by (simp add: numeral_2_eq_2)

lemma dropWhile_sep:
  "sep \<in> set s \<Longrightarrow> dropWhile (\<lambda>c. c \<noteq> sep) s = sep # drop 1 (dropWhile (\<lambda>c. c \<noteq> sep) s)"
  by (induction s) auto

lemma str_join_Cons: "xs \<noteq> [] \<Longrightarrow> str_join sep (x # xs) = x @ sep @ str_join sep xs"
  by (cases xs) auto

lemma join_split_n: "0 < n \<Longrightarrow> str_join [sep] (split_n sep n s) = s"
proof (induction sep n s rule: split_n.induct)
  case (3 sep n s)
  show ?case
  proof (cases "sep \<in> set s")
    case True
    let ?r = "drop 1 (dropWhile (\<lambda>c. c \<noteq> sep) s)"
    have "str_join [sep] (split_n sep (Suc (Suc n)) s)
        = takeWhile (\<lambda>c. c \<noteq> sep) s @ [sep] @ str_join [sep] (split_n sep (Suc n) ?r)"
      using True by (simp add: str_join_Cons split_n_nonempty)
    also have "\<dots> = takeWhile (\<lambda>c. c \<noteq> sep) s @ sep # ?r"
      using "3.IH" True by simp
    also have "\<dots> = takeWhile (\<lambda>c. c \<noteq> sep) s @ dropWhile (\<lambda>c. c \<noteq> sep) s"
      using True by (simp only: dropWhile_sep [symmetric])
    finally show ?thesis by simp
  next
    case False
    then show ?thesis by simp
  qed
qed simp_all

end
