(* ===== verification/TaskManager.thy ===== *)
theory TaskManager
  imports TeamManager GoStrings
begin

text \<open>
  \<open>internal/swarm/task_manager.go\<close>, first half: creation, lookup, state transitions, diffs,
  ratings, retry and failure of tasks.  \<open>GetTask\<close> returns the row with the COALESCE defaults
  of its SELECT filled in.  \<open>uuid_str\<close> stands for \<open>uuid.UUID.String\<close>.
\<close>

section \<open>Statements\<close>

definition TaskTimeout :: time where "TaskTimeout = 30 * minute"
definition HeartbeatTimeout :: time where "HeartbeatTimeout = 60 * second"
definition MaxRetries :: int where "MaxRetries = 3"

definition sql_insert_task :: "task \<Rightarrow> stmt" where
  [sql_defs]: "sql_insert_task t s =
     (if t_id t \<in> t_id ` set (tasks s) then None else Some (1, s\<lparr>tasks := tasks s @ [t]\<rparr>))"

definition sql_task_status :: "uuid \<Rightarrow> task_status \<Rightarrow> stmt" where
  [sql_defs]: "sql_task_status tid st =
     stmt_tasks (\<lambda>t. t_id t = tid) (\<lambda>t. t\<lparr>t_status := st\<rparr>)"

definition sql_delete_task :: "uuid \<Rightarrow> stmt" where
  [sql_defs]: "sql_delete_task tid = delete_tasks (\<lambda>t. t_id t = tid)"

definition sql_set_plan :: "uuid \<Rightarrow> string option \<Rightarrow> stmt" where
  [sql_defs]: "sql_set_plan tid plan =
     stmt_tasks (\<lambda>t. t_id t = tid) (\<lambda>t. t\<lparr>t_plan_document := plan, t_status := StatusPlanReview\<rparr>)"

definition sql_complete_task :: "uuid \<Rightarrow> time \<Rightarrow> stmt" where
  [sql_defs]: "sql_complete_task tid now =
     stmt_tasks (\<lambda>t. t_id t = tid) (\<lambda>t. t\<lparr>t_status := StatusCompleted, t_completed_at := Some now\<rparr>)"

definition sql_insert_diff :: "task_diff \<Rightarrow> stmt" where
  [sql_defs]: "sql_insert_diff d s =
     (if d_id d \<in> d_id ` set (diffs s) \<or> d_task_id d \<notin> t_id ` set (tasks s) \<or>
         \<not> ref_in (d_agent_id d) (a_id ` set (agents s)) then None
      else Some (1, s\<lparr>diffs := diffs s @ [d]\<rparr>))"

definition sql_insert_comment :: "diff_comment \<Rightarrow> stmt" where
  [sql_defs]: "sql_insert_comment c s =
     (if c_id c \<in> c_id ` set (comments s) \<or> c_diff_id c \<notin> d_id ` set (diffs s) then None
      else Some (1, s\<lparr>comments := comments s @ [c]\<rparr>))"

definition sql_heartbeat :: "uuid \<Rightarrow> stmt" where
  [sql_defs]: "sql_heartbeat aid = stmt_agents (\<lambda>a. a_id a = aid)
     (\<lambda>a. a\<lparr>a_status := (if a_status a = AgentOffline then AgentIdle else a_status a)\<rparr>)"

definition sql_rate_task :: "uuid \<Rightarrow> int \<Rightarrow> string \<Rightarrow> stmt" where
  [sql_defs]: "sql_rate_task tid rating comment = stmt_tasks (\<lambda>t. t_id t = tid)
     (\<lambda>t. t\<lparr>t_human_rating := Some rating, t_human_comment := Some comment\<rparr>)"

definition sql_retry_task :: "uuid \<Rightarrow> int \<Rightarrow> stmt" where
  [sql_defs]: "sql_retry_task tid newRetry = stmt_tasks (\<lambda>t. t_id t = tid)
     (\<lambda>t. t\<lparr>t_status := StatusSubmitted, t_retry_count := newRetry, t_failure_reason := Some '''',
           t_assigned_team_id := None, t_assigned_agents := None, t_timeout_at := None,
           t_completed_at := None, t_plan_document := None\<rparr>)"

definition sql_end_task :: "uuid \<Rightarrow> task_status \<Rightarrow> string \<Rightarrow> time \<Rightarrow> stmt" where
  [sql_defs]: "sql_end_task tid st reason now = stmt_tasks (\<lambda>t. t_id t = tid)
     (\<lambda>t. t\<lparr>t_status := st, t_failure_reason := Some reason, t_completed_at := Some now\<rparr>)"

definition sql_assign_task :: "uuid \<Rightarrow> uuid \<Rightarrow> time \<Rightarrow> stmt" where
  [sql_defs]: "sql_assign_task tid team timeout s =
     (if tid \<in> t_id ` set (tasks s) \<and> team \<notin> m_id ` set (teams s) then None
      else stmt_tasks (\<lambda>t. t_id t = tid)
        (\<lambda>t. t\<lparr>t_status := StatusPlanning, t_assigned_team_id := Some team,
              t_timeout_at := Some timeout\<rparr>) s)"

definition sql_insert_log :: "task_log \<Rightarrow> stmt" where
  [sql_defs]: "sql_insert_log l s =
     (if l_task_id l \<notin> t_id ` set (tasks s) \<or> \<not> ref_in (l_agent_id l) (a_id ` set (agents s)) then None
      else Some (1, s\<lparr>logs := logs s @ [l]\<rparr>))"

definition sql_agent_offline :: "uuid \<Rightarrow> stmt" where
  [sql_defs]: "sql_agent_offline aid =
     stmt_agents (\<lambda>a. a_id a = aid) (\<lambda>a. a\<lparr>a_status := AgentOffline\<rparr>)"

section \<open>Redis\<close>

definition xadd_pending :: "uuid \<Rightarrow> swarm \<Rightarrow> swarm" where
  "xadd_pending tid s = s\<lparr>pending_new := pending_new s @ [\<lparr>x_id = next_msg s, x_task = FieldUUID tid\<rparr>],
     next_msg := Suc (next_msg s)\<rparr>"

definition xack_pending :: "nat \<Rightarrow> swarm \<Rightarrow> swarm" where
  "xack_pending mid s = s\<lparr>pending_pel := filter (\<lambda>m. x_id m \<noteq> mid) (pending_pel s)\<rparr>"

definition del_heartbeat :: "uuid \<Rightarrow> swarm \<Rightarrow> swarm" where
  "del_heartbeat aid s = s\<lparr>heartbeats := (heartbeats s)(aid := None)\<rparr>"

definition del_token :: "uuid \<Rightarrow> swarm \<Rightarrow> swarm" where
  "del_token aid s = s\<lparr>tokens := (tokens s)(Canonical aid := None)\<rparr>"

definition set_heartbeat :: "uuid \<Rightarrow> time \<Rightarrow> swarm \<Rightarrow> swarm" where
  "set_heartbeat aid now s =
     s\<lparr>heartbeats := (heartbeats s)(aid \<mapsto> (now div second, now + HeartbeatTimeout * 2))\<rparr>"

section \<open>Reading\<close>

definition coalesce_task :: "task \<Rightarrow> task" where
  "coalesce_task t = t\<lparr>
     t_pr_url := Some (case t_pr_url t of None \<Rightarrow> '''' | Some x \<Rightarrow> x),
     t_pr_number := Some (case t_pr_number t of None \<Rightarrow> 0 | Some x \<Rightarrow> x),
     t_human_comment := Some (case t_human_comment t of None \<Rightarrow> '''' | Some x \<Rightarrow> x),
     t_failure_reason := Some (case t_failure_reason t of None \<Rightarrow> '''' | Some x \<Rightarrow> x)\<rparr>"

definition GetTask :: "uuid \<Rightarrow> (swarm_error + task) prog" where
  [op_defs]: "GetTask tid = do {
     r \<leftarrow> query (find_task tid);
     ret (case r of
         None \<Rightarrow> Inl (ErrDB ''querying task'')
       | Some None \<Rightarrow> Inl (ErrDB ''querying task'')
       | Some (Some t) \<Rightarrow> Inr (coalesce_task t)) }"

definition ListTasks :: "string \<Rightarrow> task_status option \<Rightarrow> int \<Rightarrow> (swarm_error + task list) prog" where
  [op_defs]: "ListTasks repoID status limit = do {
     r \<leftarrow> query (\<lambda>s. take (nat (if limit \<le> 0 then 50 else limit))
            (sort_key (\<lambda>t. - t_created_at t)
              (filter (\<lambda>t. (repoID = '''' \<or> t_repo_id t = repoID) \<and>
                 (case status of None \<Rightarrow> True | Some st \<Rightarrow> t_status t = st)) (tasks s))));
     ret (case r of None \<Rightarrow> Inl (ErrDB ''listing tasks'') | Some ts \<Rightarrow> Inr (map coalesce_task ts)) }"

record agent_snapshot =
  sn_id :: uuid
  sn_role :: string
  sn_status :: agent_status
  sn_team :: "uuid option"

definition snapshot :: "agent \<Rightarrow> agent_snapshot" where
  "snapshot a = \<lparr>sn_id = a_id a, sn_role = a_role a, sn_status = a_status a, sn_team = a_team_id a\<rparr>"

definition GetTaskAgents :: "uuid \<Rightarrow> (swarm_error + agent_snapshot list) prog" where
  [op_defs]: "GetTaskAgents tid = do {
     r \<leftarrow> query (\<lambda>s. map snapshot (sort_key a_registered_at
            (filter (\<lambda>a. a_team_id a \<noteq> None \<and>
               (\<exists>t\<in>set (tasks s). t_id t = tid \<and> t_assigned_team_id t = a_team_id a)) (agents s))));
     ret (case r of None \<Rightarrow> Inl (ErrDB ''querying task agents'') | Some xs \<Rightarrow> Inr xs) }"

definition ListDiffs :: "uuid \<Rightarrow> (swarm_error + task_diff list) prog" where
  [op_defs]: "ListDiffs tid = do {
     r \<leftarrow> query (\<lambda>s. sort_key d_created_at (filter (\<lambda>d. d_task_id d = tid) (diffs s)));
     ret (case r of None \<Rightarrow> Inl (ErrDB ''listing diffs'') | Some ds \<Rightarrow> Inr ds) }"

record diff_meta =
  dm_id :: uuid
  dm_task_id :: uuid
  dm_file_path :: string
  dm_change_type :: string
  dm_agent_id :: "uuid option"
  dm_status :: string
  dm_created_at :: time
  dm_line_count :: nat

text \<open>\<open>array_length(string_to_array(x, E'\n'), 1)\<close>: NULL, hence 0, for the empty string.\<close>

definition line_count :: "string \<Rightarrow> nat" where
  "line_count x = (if x = [] then 0 else Suc (count_list x (CHR 0x0A)))"

definition diff_meta_of :: "task_diff \<Rightarrow> diff_meta" where
  "diff_meta_of d = \<lparr>dm_id = d_id d, dm_task_id = d_task_id d, dm_file_path = d_file_path d,
     dm_change_type = d_change_type d, dm_agent_id = d_agent_id d, dm_status = d_status d,
     dm_created_at = d_created_at d, dm_line_count = line_count (d_unified_diff d)\<rparr>"

definition ListDiffsMeta :: "uuid \<Rightarrow> (swarm_error + diff_meta list) prog" where
  [op_defs]: "ListDiffsMeta tid = do {
     r \<leftarrow> query (\<lambda>s. map diff_meta_of (sort_key d_created_at (filter (\<lambda>d. d_task_id d = tid) (diffs s))));
     ret (case r of None \<Rightarrow> Inl (ErrDB ''listing diff meta'') | Some ds \<Rightarrow> Inr ds) }"

definition GetDiff :: "uuid \<Rightarrow> (swarm_error + task_diff) prog" where
  [op_defs]: "GetDiff did = do {
     r \<leftarrow> query (\<lambda>s. List.find (\<lambda>d. d_id d = did) (diffs s));
     ret (case r of
         None \<Rightarrow> Inl (ErrDB ''querying diff'')
       | Some None \<Rightarrow> Inl (ErrDB ''querying diff'')
       | Some (Some d) \<Rightarrow> Inr d) }"

definition AgentsForTask :: "uuid \<Rightarrow> (swarm_error + uuid list) prog" where
  [op_defs]: "AgentsForTask tid = do {
     r \<leftarrow> query (\<lambda>s. remdups (List.map_filter d_agent_id (filter (\<lambda>d. d_task_id d = tid) (diffs s))));
     ret (case r of None \<Rightarrow> Inl (ErrDB ''agents for task'') | Some xs \<Rightarrow> Inr xs) }"

section \<open>Lifecycle\<close>

definition resolveRepo :: "(uuid \<Rightarrow> string) \<Rightarrow> string \<Rightarrow> string prog" where
  [op_defs]: "resolveRepo uuid_str repoID =
     (if str_contains repoID ''/'' then
        (let parts = split_n (CHR ''/'') 2 repoID in do {
           r \<leftarrow> query (\<lambda>s. List.find (\<lambda>x. r_owner x = parts ! 0 \<and> r_name x = parts ! 1) (repos s));
           ret (case r of Some (Some x) \<Rightarrow> uuid_str (r_id x) | _ \<Rightarrow> repoID) })
      else ret repoID)"

definition new_task :: "uuid \<Rightarrow> string \<Rightarrow> string \<Rightarrow> string \<Rightarrow> uuid \<Rightarrow> time \<Rightarrow> task" where
  "new_task i repo title desc by now =
     \<lparr>t_id = i, t_repo_id = repo, t_title = title, t_description = desc, t_status = StatusSubmitted,
      t_plan_document = None, t_assigned_team_id = None, t_assigned_agents = None, t_pr_url = None,
      t_pr_number = None, t_human_rating = None, t_human_comment = None, t_submitted_by = Some by,
      t_retry_count = 0, t_failure_reason = None, t_team_formation = None, t_created_at = now,
      t_completed_at = None, t_timeout_at = None\<rparr>"

definition CreateTask ::
  "(uuid \<Rightarrow> string) \<Rightarrow> string \<Rightarrow> string \<Rightarrow> string \<Rightarrow> uuid \<Rightarrow> uuid \<Rightarrow> time \<Rightarrow> (swarm_error + task) prog" where
  [op_defs]: "CreateTask uuid_str repoID title desc submittedBy new_id now = do {
     repo \<leftarrow> resolveRepo uuid_str repoID;
     r \<leftarrow> exec (sql_insert_task (new_task new_id repo title desc submittedBy now));
     case r of
       None \<Rightarrow> ret (Inl (ErrDB ''inserting task''))
     | Some _ \<Rightarrow> do {
         _ \<leftarrow> redis_do (xadd_pending new_id);
         _ \<leftarrow> metric (add_active 1);
         ret (Inr (new_task new_id repo title desc submittedBy now)) } }"

definition UpdateStatus :: "uuid \<Rightarrow> task_status \<Rightarrow> (swarm_error + unit) prog" where
  [op_defs]: "UpdateStatus tid st = do {
     r \<leftarrow> exec (sql_task_status tid st);
     ret (case r of
         None \<Rightarrow> Inl (ErrDB ''updating task status'')
       | Some n \<Rightarrow> if n = 0 then Inl ErrNotFound else Inr ()) }"

definition DeleteTask :: "uuid \<Rightarrow> (swarm_error + unit) prog" where
  [op_defs]: "DeleteTask tid = do {
     r \<leftarrow> exec (sql_delete_task tid);
     case r of
       None \<Rightarrow> ret (Inl (ErrDB ''deleting task''))
     | Some n \<Rightarrow>
         if n = 0 then ret (Inl ErrNotFound)
         else do { _ \<leftarrow> metric (add_active (-1)); ret (Inr ()) } }"

definition SetPlan :: "uuid \<Rightarrow> string option \<Rightarrow> (swarm_error + unit) prog" where
  [op_defs]: "SetPlan tid plan = do {
     r \<leftarrow> exec (sql_set_plan tid plan);
     ret (case r of None \<Rightarrow> Inl (ErrDB ''setting plan'') | Some _ \<Rightarrow> Inr ()) }"

definition revoke_agent :: "uuid \<Rightarrow> unit prog" where
  [op_defs]: "revoke_agent aid = do {
     _ \<leftarrow> redis_do (del_token aid);
     _ \<leftarrow> redis_do (del_heartbeat aid);
     ret () }"

definition revokeTeamTokens :: "uuid \<Rightarrow> unit prog" where
  [op_defs]: "revokeTeamTokens team = do {
     auth \<leftarrow> gets has_auth;
     if \<not> auth then ret ()
     else do {
       r \<leftarrow> query (\<lambda>s. map a_id (filter (\<lambda>a. a_team_id a = Some team) (agents s)));
       case r of None \<Rightarrow> ret () | Some ids \<Rightarrow> for_each revoke_agent ids } }"

text \<open>Revoking the tokens of the team of a task and disbanding the team.\<close>

definition release_assigned :: "(swarm_error + task) \<Rightarrow> unit prog" where
  [op_defs]: "release_assigned r = (case r of
       Inl _ \<Rightarrow> ret ()
     | Inr t \<Rightarrow> (case t_assigned_team_id t of
           None \<Rightarrow> ret ()
         | Some team \<Rightarrow> do { _ \<leftarrow> revokeTeamTokens team; ReleaseTeam team }))"

definition CompleteTask :: "uuid \<Rightarrow> time \<Rightarrow> (swarm_error + unit) prog" where
  [op_defs]: "CompleteTask tid now = do {
     r \<leftarrow> exec (sql_complete_task tid now);
     case r of
       None \<Rightarrow> ret (Inl (ErrDB ''completing task''))
     | Some _ \<Rightarrow> do {
         _ \<leftarrow> metric (count_status StatusCompleted);
         _ \<leftarrow> metric (add_active (-1));
         task \<leftarrow> GetTask tid;
         _ \<leftarrow> release_assigned task;
         ret (Inr ()) } }"

definition FailTask :: "uuid \<Rightarrow> string \<Rightarrow> time \<Rightarrow> (swarm_error + unit) prog" where
  [op_defs]: "FailTask tid reason now = do {
     r \<leftarrow> exec (sql_end_task tid StatusFailed reason now);
     case r of
       None \<Rightarrow> ret (Inl (ErrDB ''failing task''))
     | Some _ \<Rightarrow> do {
         _ \<leftarrow> metric (count_status StatusFailed);
         _ \<leftarrow> metric (add_active (-1));
         task \<leftarrow> GetTask tid;
         _ \<leftarrow> release_assigned task;
         _ \<leftarrow> broadcast (TaskEvent ''failed'' tid);
         ret (Inr ()) } }"

definition RetryTask :: "uuid \<Rightarrow> (swarm_error + unit) prog" where
  [op_defs]: "RetryTask tid = do {
     g \<leftarrow> GetTask tid;
     case g of
       Inl e \<Rightarrow> ret (Inl e)
     | Inr task \<Rightarrow>
         if t_status task \<noteq> StatusFailed \<and> t_status task \<noteq> StatusTimedOut
         then ret (Inl (ErrNotRetryable (t_status task)))
         else if t_retry_count task \<ge> MaxRetries then ret (Inl ErrMaxRetries)
         else do {
           r \<leftarrow> exec (sql_retry_task tid (t_retry_count task + 1));
           case r of
             None \<Rightarrow> ret (Inl (ErrDB ''retry update''))
           | Some _ \<Rightarrow> do {
               _ \<leftarrow> redis_do (xadd_pending tid);
               _ \<leftarrow> metric (\<lambda>g. g\<lparr>n_task_retries := Suc (n_task_retries g)\<rparr>);
               _ \<leftarrow> metric (add_active 1);
               _ \<leftarrow> broadcast (TaskEvent ''retried'' tid);
               ret (Inr ()) } } }"

definition AddDiff :: "uuid \<Rightarrow> task_diff \<Rightarrow> uuid \<Rightarrow> time \<Rightarrow> (swarm_error + task_diff) prog" where
  [op_defs]: "AddDiff tid diff new_id now =
     (let d = diff\<lparr>d_id := new_id, d_task_id := tid, d_status := ''pending'', d_created_at := now\<rparr> in do {
        r \<leftarrow> exec (sql_insert_diff d);
        ret (case r of None \<Rightarrow> Inl (ErrDB ''inserting diff'') | Some _ \<Rightarrow> Inr d) })"

definition AddDiffComment :: "uuid \<Rightarrow> diff_comment \<Rightarrow> uuid \<Rightarrow> time \<Rightarrow> (swarm_error + diff_comment) prog" where
  [op_defs]: "AddDiffComment did cm new_id now =
     (let c = cm\<lparr>c_id := new_id, c_diff_id := did, c_created_at := now\<rparr> in do {
        r \<leftarrow> exec (sql_insert_comment c);
        ret (case r of None \<Rightarrow> Inl (ErrDB ''inserting diff comment'') | Some _ \<Rightarrow> Inr c) })"

definition Heartbeat :: "uuid \<Rightarrow> time \<Rightarrow> (swarm_error + unit) prog" where
  [op_defs]: "Heartbeat aid now = do {
     r \<leftarrow> exec (sql_heartbeat aid);
     case r of
       None \<Rightarrow> ret (Inl (ErrDB ''heartbeat''))
     | Some n \<Rightarrow>
         if n = 0 then ret (Inl ErrNotFound)
         else do { _ \<leftarrow> redis_do (set_heartbeat aid now); ret (Inr ()) } }"

definition RateTask :: "uuid \<Rightarrow> int \<Rightarrow> string \<Rightarrow> (swarm_error + unit) prog" where
  [op_defs]: "RateTask tid rating comment = do {
     r \<leftarrow> exec (sql_rate_task tid rating comment);
     ret (case r of None \<Rightarrow> Inl (ErrDB ''rating task'') | Some _ \<Rightarrow> Inr ()) }"

definition RecordAgentContribution :: "task_log \<Rightarrow> (swarm_error + unit) prog" where
  [op_defs]: "RecordAgentContribution l = do {
     r \<leftarrow> exec (sql_insert_log l);
     ret (case r of None \<Rightarrow> Inl (ErrDB ''recording agent contribution'') | Some _ \<Rightarrow> Inr ()) }"

definition assignTask :: "uuid \<Rightarrow> uuid \<Rightarrow> time \<Rightarrow> (swarm_error + unit) prog" where
  [op_defs]: "assignTask tid team now = do {
     r \<leftarrow> exec (sql_assign_task tid team (now + TaskTimeout));
     case r of
       None \<Rightarrow> ret (Inl (ErrDB ''assigning task''))
     | Some _ \<Rightarrow> do {
         _ \<leftarrow> MarkTeamBusy team;
         _ \<leftarrow> redis_do (\<lambda>s. s\<lparr>assigned_stream := assigned_stream s @ [(tid, team)]\<rparr>);
         ret (Inr ()) } }"

section \<open>Task complexity\<close>

datatype task_complexity = ComplexitySmall | ComplexityMedium | ComplexityLarge

definition multiFileKeywords :: "string list" where
  "multiFileKeywords = [''all'', ''across'', ''refactor'', ''migrate'', ''system'',
     ''architecture'', ''schema change'', ''entire'', ''every'']"

definition classifyTaskComplexity :: "string \<Rightarrow> task_complexity" where
  "classifyTaskComplexity description =
     (let wordCount = length (str_fields description); lower = to_lower description in
      if (\<exists>kw\<in>set multiFileKeywords. str_contains lower kw) then
        (if wordCount > 150 then ComplexityLarge else ComplexityMedium)
      else if wordCount < 50 then ComplexitySmall
      else if wordCount > 150 then ComplexityLarge
      else ComplexityMedium)"

end
