(* ===== verification/TaskLoops.thy ===== *)
theory TaskLoops
  imports TaskManager
begin

text \<open>
  \<open>internal/swarm/task_manager.go\<close>, second half: the assign loop over the Redis stream, timeouts,
  the heartbeat monitor, start-up reconciliation, the stale-row reaper and the dashboards.  Each
  definition is the body of one tick; \<open>now\<close> is the clock reading of the tick.
\<close>

section \<open>Redis reads\<close>

datatype hb_read = HBError | HBNil | HBValue int

definition get_heartbeat :: "uuid \<Rightarrow> time \<Rightarrow> hb_read prog" where
  [op_defs]: "get_heartbeat aid now = do {
     r \<leftarrow> query (\<lambda>s. heartbeats s aid);
     ret (case r of
         None \<Rightarrow> HBError
       | Some None \<Rightarrow> HBNil
       | Some (Some (v, expiry)) \<Rightarrow> if now < expiry then HBValue v else HBNil) }"

definition read_group_new :: "stream_msg list option prog" where
  [op_defs]: "read_group_new = do {
     ok \<leftarrow> io_ok;
     if \<not> ok then ret None
     else do {
       ms \<leftarrow> gets (\<lambda>s. take 10 (pending_new s));
       _ \<leftarrow> modify (\<lambda>s. s\<lparr>pending_new := drop 10 (pending_new s), pending_pel := pending_pel s @ ms\<rparr>);
       ret (Some ms) } }"

definition read_group_pel :: "stream_msg list option prog" where
  [op_defs]: "read_group_pel = query (\<lambda>s. take 10 (pending_pel s))"

definition set_nx_team_create :: "uuid \<Rightarrow> time \<Rightarrow> bool prog" where
  [op_defs]: "set_nx_team_create tid now = do {
     ok \<leftarrow> io_ok;
     if \<not> ok then ret False
     else do {
       live \<leftarrow> gets (\<lambda>s. case team_create_sent s tid of None \<Rightarrow> False | Some e \<Rightarrow> now < e);
       if live then ret False
       else do {
         _ \<leftarrow> modify (\<lambda>s. s\<lparr>team_create_sent := (team_create_sent s)(tid \<mapsto> now + 5 * minute)\<rparr>);
         ret True } } }"

section \<open>Assign loop\<close>

definition cleanup_agent :: "uuid \<Rightarrow> unit prog" where
  [op_defs]: "cleanup_agent aid = do {
     auth \<leftarrow> gets has_auth;
     _ \<leftarrow> (if auth then redis_do (del_token aid) else ret True);
     _ \<leftarrow> redis_do (del_heartbeat aid);
     _ \<leftarrow> exec (sql_agent_offline aid);
     ret () }"

definition cleanupInconsistentAgents :: "unit prog" where
  [op_defs]: "cleanupInconsistentAgents = do {
     r \<leftarrow> query (\<lambda>s. map a_id (filter (\<lambda>a. a_status a = AgentBusy \<and>
            (\<exists>t\<in>set (teams s). a_team_id a = Some (m_id t) \<and> m_status t \<in> {TeamIdle, TeamOffline}))
            (agents s)));
     case r of None \<Rightarrow> ret () | Some ids \<Rightarrow> for_each cleanup_agent ids }"

definition ack :: "stream_msg \<Rightarrow> unit prog" where
  [op_defs]: "ack msg = do { _ \<leftarrow> redis_do (xack_pending (x_id msg)); ret () }"

definition assign_and_ack :: "stream_msg \<Rightarrow> uuid \<Rightarrow> uuid \<Rightarrow> time \<Rightarrow> unit prog" where
  [op_defs]: "assign_and_ack msg tid team now = do {
     r \<leftarrow> assignTask tid team now;
     case r of Inl _ \<Rightarrow> ret () | Inr _ \<Rightarrow> ack msg }"

definition request_team :: "stream_msg \<Rightarrow> uuid \<Rightarrow> time \<Rightarrow> unit prog" where
  [op_defs]: "request_team msg tid now = do {
     can \<leftarrow> CanCreateTeam;
     if can then do {
       set \<leftarrow> set_nx_team_create tid now;
       _ \<leftarrow> (if set then redis_do (\<lambda>s. s\<lparr>team_create_stream := team_create_stream s @ [tid]\<rparr>)
            else ret True);
       ack msg }
     else ret () }"

definition place_task :: "stream_msg \<Rightarrow> task \<Rightarrow> uuid \<Rightarrow> time \<Rightarrow> unit prog" where
  [op_defs]: "place_task msg task tid now = do {
     idle \<leftarrow> GetIdleTeam;
     case idle of
       Some team \<Rightarrow> assign_and_ack msg tid (m_id team) now
     | None \<Rightarrow> do {
         lender \<leftarrow> (if classifyTaskComplexity (t_description task) = ComplexitySmall
                   then FindIdleTeamWithCapacity 3 else ret None);
         case lender of
           Some team \<Rightarrow> assign_and_ack msg tid (m_id team) now
         | None \<Rightarrow> request_team msg tid now } }"

definition handle_message :: "time \<Rightarrow> stream_msg \<Rightarrow> unit prog" where
  [op_defs]: "handle_message now msg = (case x_task msg of
       FieldMissing \<Rightarrow> ack msg
     | FieldMalformed _ \<Rightarrow> ack msg
     | FieldUUID tid \<Rightarrow> do {
         g \<leftarrow> GetTask tid;
         case g of
           Inl _ \<Rightarrow> ack msg
         | Inr task \<Rightarrow>
             if t_assigned_team_id task \<noteq> None then ack msg
             else if terminal (t_status task) then ack msg
             else place_task msg task tid now })"

definition handleStreamMessages :: "stream_msg list \<Rightarrow> time \<Rightarrow> unit prog" where
  [op_defs]: "handleStreamMessages messages now = for_each (handle_message now) messages"

definition processPendingAssignments :: "time \<Rightarrow> unit prog" where
  [op_defs]: "processPendingAssignments now = do {
     r \<leftarrow> read_group_pel;
     case r of None \<Rightarrow> ret () | Some ms \<Rightarrow> handleStreamMessages ms now }"

definition processAssignments :: "time \<Rightarrow> unit prog" where
  [op_defs]: "processAssignments now = do {
     _ \<leftarrow> cleanupInconsistentAgents;
     _ \<leftarrow> processPendingAssignments now;
     r \<leftarrow> read_group_new;
     case r of None \<Rightarrow> ret () | Some ms \<Rightarrow> handleStreamMessages ms now }"

definition timeout_task :: "time \<Rightarrow> uuid \<Rightarrow> unit prog" where
  [op_defs]: "timeout_task now tid = do {
     _ \<leftarrow> exec (sql_end_task tid StatusTimedOut ''task exceeded 30 minute timeout'' now);
     _ \<leftarrow> metric (count_status StatusTimedOut);
     _ \<leftarrow> metric (add_active (-1));
     _ \<leftarrow> broadcast (TaskEvent ''timed_out'' tid);
     g \<leftarrow> GetTask tid;
     release_assigned g }"

definition timed_out_at :: "time \<Rightarrow> task \<Rightarrow> bool" where
  "timed_out_at now t \<longleftrightarrow>
     (case t_timeout_at t of None \<Rightarrow> False | Some x \<Rightarrow> x < now) \<and> \<not> terminal (t_status t)"

definition checkTimeouts :: "time \<Rightarrow> unit prog" where
  [op_defs]: "checkTimeouts now = do {
     r \<leftarrow> query (\<lambda>s. map t_id (filter (timed_out_at now) (tasks s)));
     case r of None \<Rightarrow> ret () | Some ids \<Rightarrow> for_each (timeout_task now) ids }"

definition assignLoop_tick :: "time \<Rightarrow> unit prog" where
  [op_defs]: "assignLoop_tick now = do { _ \<leftarrow> processAssignments now; checkTimeouts now }"

section \<open>Heartbeat monitor and start-up reconciliation\<close>

definition checkTeamHealth :: "uuid \<Rightarrow> time \<Rightarrow> unit prog" where
  [op_defs]: "checkTeamHealth team now = do {
     c \<leftarrow> query (\<lambda>s. count_where (\<lambda>a. a_team_id a = Some team \<and> a_status a \<noteq> AgentOffline) (agents s));
     if (case c of None \<Rightarrow> 0 | Some n \<Rightarrow> n) = 0 then do {
       r \<leftarrow> query (\<lambda>s. map t_id (filter (\<lambda>t. t_assigned_team_id t = Some team \<and>
              \<not> terminal (t_status t)) (tasks s)));
       case r of
         None \<Rightarrow> ret ()
       | Some ids \<Rightarrow> do {
           _ \<leftarrow> for_each (\<lambda>tid. do {
                  _ \<leftarrow> FailTask tid ''all team agents offline (heartbeat timeout)'' now; ret () }) ids;
           MarkTeamOffline team } }
     else ret () }"

definition markAgentOffline :: "uuid \<Rightarrow> uuid option \<Rightarrow> agent_status \<Rightarrow> time \<Rightarrow> unit prog" where
  [op_defs]: "markAgentOffline aid team prevStatus now = do {
     _ \<leftarrow> exec (sql_agent_offline aid);
     _ \<leftarrow> metric (\<lambda>g. g\<lparr>n_heartbeat_misses := Suc (n_heartbeat_misses g)\<rparr>);
     _ \<leftarrow> broadcast (AgentEvent ''offline'' aid);
     case team of
       None \<Rightarrow> ret ()
     | Some tid \<Rightarrow> if prevStatus = AgentBusy then checkTeamHealth tid now else ret () }"

definition check_agent :: "time \<Rightarrow> agent \<Rightarrow> unit prog" where
  [op_defs]: "check_agent now a = do {
     h \<leftarrow> get_heartbeat (a_id a) now;
     case h of
       HBError \<Rightarrow> ret ()
     | HBNil \<Rightarrow> markAgentOffline (a_id a) (a_team_id a) (a_status a) now
     | HBValue v \<Rightarrow>
         if now - v * second > HeartbeatTimeout
         then markAgentOffline (a_id a) (a_team_id a) (a_status a) now else ret () }"

definition checkHeartbeats :: "time \<Rightarrow> unit prog" where
  [op_defs]: "checkHeartbeats now = do {
     r \<leftarrow> query (\<lambda>s. filter (\<lambda>a. a_status a \<noteq> AgentOffline) (agents s));
     case r of None \<Rightarrow> ret () | Some ags \<Rightarrow> for_each (check_agent now) ags }"

definition reconcile_agent :: "time \<Rightarrow> agent \<Rightarrow> unit prog" where
  [op_defs]: "reconcile_agent now a = do {
     h \<leftarrow> get_heartbeat (a_id a) now;
     if h = HBNil then markAgentOffline (a_id a) (a_team_id a) (a_status a) now else ret () }"

definition reconcileOnStartup :: "time \<Rightarrow> unit prog" where
  [op_defs]: "reconcileOnStartup now = do {
     r \<leftarrow> query (\<lambda>s. filter (\<lambda>a. a_status a \<noteq> AgentOffline) (agents s));
     case r of None \<Rightarrow> ret () | Some ags \<Rightarrow> for_each (reconcile_agent now) ags }"

section \<open>Stale-row reaper\<close>

definition StaleOfflineThreshold :: time where "StaleOfflineThreshold = 10 * minute"

definition stale_agent :: "time \<Rightarrow> agent \<Rightarrow> bool" where
  "stale_agent cutoff a \<longleftrightarrow> a_status a = AgentOffline \<and> a_registered_at a < cutoff"

definition sql_delete_stale_agents :: "time \<Rightarrow> stmt" where
  [sql_defs]: "sql_delete_stale_agents cutoff = delete_agents (stale_agent cutoff)"

definition sql_delete_empty_teams :: stmt where
  [sql_defs]: "sql_delete_empty_teams s = delete_teams (\<lambda>m. m_status m = TeamOffline \<and>
     \<not> (\<exists>a\<in>set (agents s). a_team_id a = Some (m_id m))) s"

definition reapStaleRows :: "time \<Rightarrow> unit prog" where
  [op_defs]: "reapStaleRows now = (let cutoff = now - StaleOfflineThreshold in do {
     auth \<leftarrow> gets has_auth;
     _ \<leftarrow> (if auth then do {
            r \<leftarrow> query (\<lambda>s. map a_id (filter (stale_agent cutoff) (agents s)));
            case r of None \<Rightarrow> ret () | Some ids \<Rightarrow> for_each revoke_agent ids }
          else ret ());
     d \<leftarrow> exec (sql_delete_stale_agents cutoff);
     case d of
       None \<Rightarrow> ret ()
     | Some _ \<Rightarrow> do { _ \<leftarrow> exec sql_delete_empty_teams; ret () } })"

section \<open>Dashboards\<close>

definition count_or_zero :: "(swarm \<Rightarrow> nat) \<Rightarrow> nat prog" where
  [op_defs]: "count_or_zero f = do { r \<leftarrow> query f; ret (case r of None \<Rightarrow> 0 | Some n \<Rightarrow> n) }"

definition active_tasks :: "swarm \<Rightarrow> nat" where
  "active_tasks s = count_where (\<lambda>t. \<not> terminal (t_status t)) (tasks s)"

definition active_teams :: "swarm \<Rightarrow> nat" where
  "active_teams s = count_where (\<lambda>t. m_status t \<noteq> TeamOffline) (teams s)"

definition busy_teams :: "swarm \<Rightarrow> nat" where
  "busy_teams s = count_where (\<lambda>t. m_status t = TeamBusy) (teams s)"

definition online_agents :: "swarm \<Rightarrow> nat" where
  "online_agents s = count_where (\<lambda>a. a_status a \<noteq> AgentOffline) (agents s)"

definition busy_agents :: "swarm \<Rightarrow> nat" where
  "busy_agents s = count_where (\<lambda>a. a_status a = AgentBusy) (agents s)"

definition refreshMetrics :: "unit prog" where
  [op_defs]: "refreshMetrics = do {
     active \<leftarrow> count_or_zero active_tasks;
     _ \<leftarrow> metric (\<lambda>g. g\<lparr>g_tasks_active := int active\<rparr>);
     pend \<leftarrow> count_or_zero (\<lambda>s. count_where (\<lambda>t. t_status t = StatusSubmitted) (tasks s));
     _ \<leftarrow> metric (\<lambda>g. g\<lparr>g_queue_depth := int pend\<rparr>);
     tms \<leftarrow> count_or_zero active_teams;
     bt \<leftarrow> count_or_zero busy_teams;
     _ \<leftarrow> metric (\<lambda>g. g\<lparr>g_teams_active := int tms, g_teams_busy := int bt\<rparr>);
     oa \<leftarrow> count_or_zero online_agents;
     ba \<leftarrow> count_or_zero busy_agents;
     metric (\<lambda>g. g\<lparr>g_agents_online := int oa,
       g_utilisation := (if oa > 0 then real ba / real oa else 0)\<rparr>) }"

record swarm_overview =
  o_active_tasks :: nat
  o_pending_tasks :: nat
  o_completed_all :: nat
  o_failed_all :: nat
  o_active_teams :: nat
  o_busy_teams :: nat
  o_online_agents :: nat
  o_busy_agents :: nat
  o_avg_duration :: real
  o_total_retries :: int
  o_agents :: "agent_snapshot list"

definition average :: "real list \<Rightarrow> real" where
  "average xs = (if xs = [] then 0 else sum_list xs / real (length xs))"

definition completed_durations :: "swarm \<Rightarrow> real list" where
  "completed_durations s =
     map (\<lambda>t. real_of_int (the (t_completed_at t) - t_created_at t) / real_of_int second)
       (take 100 (sort_key (\<lambda>t. - the (t_completed_at t))
         (filter (\<lambda>t. t_status t = StatusCompleted \<and> t_completed_at t \<noteq> None) (tasks s))))"

definition GetOverview :: "swarm_overview prog" where
  [op_defs]: "GetOverview = do {
     act \<leftarrow> count_or_zero active_tasks;
     pend \<leftarrow> count_or_zero (\<lambda>s. count_where (\<lambda>t. t_status t = StatusSubmitted) (tasks s));
     comp \<leftarrow> count_or_zero (\<lambda>s. count_where (\<lambda>t. t_status t = StatusCompleted) (tasks s));
     fail \<leftarrow> count_or_zero (\<lambda>s. count_where
        (\<lambda>t. t_status t = StatusFailed \<or> t_status t = StatusTimedOut) (tasks s));
     tms \<leftarrow> count_or_zero active_teams;
     bt \<leftarrow> count_or_zero busy_teams;
     oa \<leftarrow> count_or_zero online_agents;
     ba \<leftarrow> count_or_zero busy_agents;
     avg \<leftarrow> query (\<lambda>s. average (completed_durations s));
     retries \<leftarrow> query (\<lambda>s. sum_list (map t_retry_count (tasks s)));
     ags \<leftarrow> query (\<lambda>s. map snapshot (sort_key (\<lambda>a. - a_registered_at a)
              (filter (\<lambda>a. a_status a \<noteq> AgentOffline) (agents s))));
     ret \<lparr>o_active_tasks = act, o_pending_tasks = pend, o_completed_all = comp, o_failed_all = fail,
       o_active_teams = tms, o_busy_teams = bt, o_online_agents = oa, o_busy_agents = ba,
       o_avg_duration = (case avg of None \<Rightarrow> 0 | Some x \<Rightarrow> x),
       o_total_retries = (case retries of None \<Rightarrow> 0 | Some x \<Rightarrow> x),
       o_agents = (case ags of None \<Rightarrow> [] | Some xs \<Rightarrow> xs)\<rparr> }"

record task_summary =
  su_task :: task
  su_diff_count :: nat
  su_agent_count :: nat
  su_duration :: "real option"

definition summary_of :: "swarm \<Rightarrow> task \<Rightarrow> task_summary" where
  "summary_of s t = \<lparr>su_task = coalesce_task t,
     su_diff_count = count_where (\<lambda>d. d_task_id d = t_id t) (diffs s),
     su_agent_count = length (coalesce (t_assigned_agents t)),
     su_duration = map_option (\<lambda>c. real_of_int (c - t_created_at t) / real_of_int second)
       (t_completed_at t)\<rparr>"

definition history_rows :: "string \<Rightarrow> swarm \<Rightarrow> task list" where
  "history_rows repoID s =
     filter (\<lambda>t. terminal (t_status t) \<and> (repoID = '''' \<or> t_repo_id t = repoID)) (tasks s)"

definition ListTaskHistory ::
  "string \<Rightarrow> int \<Rightarrow> int \<Rightarrow> (swarm_error + task_summary list \<times> nat) prog" where
  [op_defs]: "ListTaskHistory repoID limit offset = do {
     total \<leftarrow> query (\<lambda>s. length (history_rows repoID s));
     case total of
       None \<Rightarrow> ret (Inl (ErrDB ''counting task history''))
     | Some n \<Rightarrow> do {
         r \<leftarrow> query (\<lambda>s. map (summary_of s)
                (take (nat (if limit \<le> 0 then 25 else limit))
                  (drop (nat (if offset < 0 then 0 else offset))
                    (sort_key (\<lambda>t. - t_created_at t) (history_rows repoID s)))));
         ret (case r of None \<Rightarrow> Inl (ErrDB ''listing task history'') | Some xs \<Rightarrow> Inr (xs, n)) } }"

end
