(* ===== verification/TaskStore.thy ===== *)
theory TaskStore
  imports TaskLoops
begin

text \<open>
  Invariants of the task manager.  The locale \<open>task_store\<close> extends the interface of the team
  manager by the task statements and Redis writes; inside it every operation and every tick of a
  background loop is shown stable once.  It is interpreted for well-formedness of the tables and
  for the bound on retries.
\<close>

locale task_store = team_store R for R :: "swarm \<Rightarrow> swarm \<Rightarrow> bool" +
  assumes st_insert_task: "stmt_stable R (sql_insert_task (new_task i repo title desc by now))"
    and st_task_status: "stmt_stable R (sql_task_status tid st)"
    and st_delete_task: "stmt_stable R (sql_delete_task tid)"
    and st_set_plan: "stmt_stable R (sql_set_plan tid plan)"
    and st_complete_task: "stmt_stable R (sql_complete_task tid now)"
    and st_insert_diff: "stmt_stable R (sql_insert_diff d)"
    and st_insert_comment: "stmt_stable R (sql_insert_comment c)"
    and st_heartbeat: "stmt_stable R (sql_heartbeat aid)"
    and st_rate_task: "stmt_stable R (sql_rate_task tid rating comment)"
    and st_retry_task: "n \<le> MaxRetries \<Longrightarrow> stmt_stable R (sql_retry_task tid n)"
    and st_end_task: "stmt_stable R (sql_end_task tid st reason now)"
    and st_assign_task: "stmt_stable R (sql_assign_task tid team timeout)"
    and st_insert_log: "stmt_stable R (sql_insert_log l)"
    and st_agent_offline: "stmt_stable R (sql_agent_offline aid)"
    and st_delete_stale: "stmt_stable R (sql_delete_stale_agents cutoff)"
    and st_delete_teams: "stmt_stable R sql_delete_empty_teams"
    and R_redis: "R s (s\<lparr>heartbeats := hb, tokens := tk, team_create_sent := dd, pending_new := pn,
        pending_pel := pp, next_msg := nm, team_create_stream := tc, assigned_stream := asg\<rparr>)"
begin

lemma R_xadd: "R s (xadd_pending tid s)"
  using R_redis [where s = s and hb = "heartbeats s" and tk = "tokens s" and
      dd = "team_create_sent s" and pp = "pending_pel s" and tc = "team_create_stream s" and
      asg = "assigned_stream s"]
  by (simp add: xadd_pending_def)

lemma R_pel: "R s (s\<lparr>pending_new := pn, pending_pel := pp\<rparr>)"
  using R_redis [where s = s and hb = "heartbeats s" and tk = "tokens s" and
      dd = "team_create_sent s" and nm = "next_msg s" and tc = "team_create_stream s" and
      asg = "assigned_stream s"]
  by simp

lemma R_xack: "R s (xack_pending mid s)"
  using R_pel [where s = s and pn = "pending_new s"] by (simp add: xack_pending_def)

lemma R_keys: "R s (s\<lparr>heartbeats := hb, tokens := tk, team_create_sent := dd\<rparr>)"
  using R_redis [where s = s and pn = "pending_new s" and pp = "pending_pel s" and
      nm = "next_msg s" and tc = "team_create_stream s" and asg = "assigned_stream s"]
  by simp

lemma R_del_heartbeat: "R s (del_heartbeat aid s)"
  using R_keys [where s = s and tk = "tokens s" and dd = "team_create_sent s"]
  by (simp add: del_heartbeat_def)

lemma R_set_heartbeat: "R s (set_heartbeat aid now s)"
  using R_keys [where s = s and tk = "tokens s" and dd = "team_create_sent s"]
  by (simp add: set_heartbeat_def)

lemma R_del_token: "R s (del_token aid s)"
  using R_keys [where s = s and hb = "heartbeats s" and dd = "team_create_sent s"]
  by (simp add: del_token_def)

lemma R_sent: "R s (s\<lparr>team_create_sent := dd\<rparr>)"
  using R_keys [where s = s and hb = "heartbeats s" and tk = "tokens s"] by simp

lemma R_streams: "R s (s\<lparr>team_create_stream := tc\<rparr>)" "R s (s\<lparr>assigned_stream := asg\<rparr>)"
  using R_redis [where s = s and hb = "heartbeats s" and tk = "tokens s" and
      dd = "team_create_sent s" and pn = "pending_new s" and pp = "pending_pel s" and
      nm = "next_msg s" and asg = "assigned_stream s"]
    R_redis [where s = s and hb = "heartbeats s" and tk = "tokens s" and
      dd = "team_create_sent s" and pn = "pending_new s" and pp = "pending_pel s" and
      nm = "next_msg s" and tc = "team_create_stream s"]
  by simp_all

lemmas redis_calls = stable_redis_do R_xadd R_xack R_del_heartbeat R_set_heartbeat R_del_token
  R_streams

lemmas task_calls = stable_calls team_ops redis_calls st_insert_task st_task_status st_delete_task
  st_set_plan st_complete_task st_insert_diff st_insert_comment st_heartbeat st_rate_task
  st_end_task st_assign_task st_insert_log st_agent_offline st_delete_stale st_delete_teams

section \<open>Operations\<close>

lemma stable_GetTask: "stable R (GetTask tid)"
  unfolding GetTask_def by (intro task_calls)

lemma stable_CreateTask: "stable R (CreateTask us repo title desc by i now)"
  unfolding CreateTask_def resolveRepo_def Let_def by (intro task_calls)

lemma stable_UpdateStatus: "stable R (UpdateStatus tid st)"
  unfolding UpdateStatus_def by (intro task_calls)

lemma stable_DeleteTask: "stable R (DeleteTask tid)"
  unfolding DeleteTask_def by (intro task_calls)

lemma stable_SetPlan: "stable R (SetPlan tid plan)"
  unfolding SetPlan_def by (intro task_calls)

lemma stable_revokeTeamTokens: "stable R (revokeTeamTokens team)"
  unfolding revokeTeamTokens_def revoke_agent_def by (intro task_calls)

lemma stable_release_assigned: "stable R (release_assigned r)"
  unfolding release_assigned_def by (intro task_calls stable_revokeTeamTokens)

lemma stable_CompleteTask: "stable R (CompleteTask tid now)"
  unfolding CompleteTask_def by (intro task_calls stable_GetTask stable_release_assigned)

lemma stable_FailTask: "stable R (FailTask tid reason now)"
  unfolding FailTask_def by (intro task_calls stable_GetTask stable_release_assigned)

lemma stable_RetryTask: "stable R (RetryTask tid)"
  unfolding RetryTask_def
  by (intro task_calls stable_GetTask st_retry_task) (simp add: MaxRetries_def)

lemma stable_AddDiff: "stable R (AddDiff tid d i now)"
  unfolding AddDiff_def Let_def by (intro task_calls)

lemma stable_AddDiffComment: "stable R (AddDiffComment did c i now)"
  unfolding AddDiffComment_def Let_def by (intro task_calls)

lemma stable_Heartbeat: "stable R (Heartbeat aid now)"
  unfolding Heartbeat_def by (intro task_calls)

lemma stable_RateTask: "stable R (RateTask tid rating comment)"
  unfolding RateTask_def by (intro task_calls)

lemma stable_RecordAgentContribution: "stable R (RecordAgentContribution l)"
  unfolding RecordAgentContribution_def by (intro task_calls)

lemma stable_assignTask: "stable R (assignTask tid team now)"
  unfolding assignTask_def by (intro task_calls)

lemmas task_ops = stable_GetTask stable_CreateTask stable_UpdateStatus stable_DeleteTask
  stable_SetPlan stable_revokeTeamTokens stable_release_assigned stable_CompleteTask
  stable_FailTask stable_RetryTask stable_AddDiff stable_AddDiffComment stable_Heartbeat
  stable_RateTask stable_RecordAgentContribution stable_assignTask

section \<open>Background loops\<close>

lemma stable_ack: "stable R (ack msg)"
  unfolding ack_def by (intro task_calls)

lemma stable_set_nx: "stable R (set_nx_team_create tid now)"
  unfolding set_nx_team_create_def by (intro task_calls stable_modify R_sent)

lemma stable_place_task: "stable R (place_task msg task tid now)"
  unfolding place_task_def assign_and_ack_def request_team_def
  by (intro task_calls stable_ack stable_set_nx stable_assignTask)

lemma stable_handle_message: "stable R (handle_message now msg)"
proof (cases "x_task msg")
  case (FieldUUID tid)
  then show ?thesis
    unfolding handle_message_def
    by (simp, intro task_calls stable_ack stable_GetTask stable_place_task)
qed (simp_all add: handle_message_def stable_ack)

lemma stable_processAssignments: "stable R (processAssignments now)"
  unfolding processAssignments_def processPendingAssignments_def handleStreamMessages_def
    read_group_pel_def read_group_new_def cleanupInconsistentAgents_def cleanup_agent_def
  by (intro task_calls stable_handle_message stable_modify R_pel)

lemma stable_checkTimeouts: "stable R (checkTimeouts now)"
  unfolding checkTimeouts_def timeout_task_def by (intro task_calls task_ops)

lemma stable_assignLoop_tick: "stable R (assignLoop_tick now)"
  unfolding assignLoop_tick_def
  by (intro stable_bind stable_processAssignments stable_checkTimeouts)

lemma stable_markAgentOffline: "stable R (markAgentOffline aid team st now)"
  unfolding markAgentOffline_def checkTeamHealth_def by (intro task_calls task_ops)

lemma stable_get_heartbeat: "stable R (get_heartbeat aid now)"
  unfolding get_heartbeat_def by (intro task_calls)

lemma stable_case_hb:
  "stable R a \<Longrightarrow> stable R b \<Longrightarrow> (\<And>v. stable R (c v)) \<Longrightarrow>
   stable R (case h of HBError \<Rightarrow> a | HBNil \<Rightarrow> b | HBValue v \<Rightarrow> c v)"
  by (cases h) simp_all

lemma stable_checkHeartbeats: "stable R (checkHeartbeats now)"
  unfolding checkHeartbeats_def check_agent_def
  by (intro task_calls stable_get_heartbeat stable_case_hb stable_markAgentOffline)

lemma stable_reconcileOnStartup: "stable R (reconcileOnStartup now)"
  unfolding reconcileOnStartup_def reconcile_agent_def
  by (intro task_calls stable_get_heartbeat stable_markAgentOffline)

lemma stable_reapStaleRows: "stable R (reapStaleRows now)"
  unfolding reapStaleRows_def Let_def revoke_agent_def by (intro task_calls)

lemma stable_refreshMetrics: "stable R refreshMetrics"
  unfolding refreshMetrics_def count_or_zero_def by (intro task_calls)

lemmas loop_ops = stable_assignLoop_tick stable_checkHeartbeats stable_reconcileOnStartup
  stable_reapStaleRows stable_refreshMetrics

end

section \<open>Well-formedness of the tables\<close>

lemma wf_insert_task: "stmt_stable (keeps db_wf) (sql_insert_task (new_task i repo title desc by now))"
  by (rule stmt_stableI, rule keepsI)
    (auto simp: sql_insert_task_def new_task_def wf_defs split: if_splits)

lemma wf_insert_diff: "stmt_stable (keeps db_wf) (sql_insert_diff d)"
  by (rule stmt_stableI, rule keepsI) (auto simp: sql_insert_diff_def wf_defs split: if_splits)

lemma wf_insert_comment: "stmt_stable (keeps db_wf) (sql_insert_comment c)"
  by (rule stmt_stableI, rule keepsI) (auto simp: sql_insert_comment_def wf_defs split: if_splits)

lemma wf_insert_log: "stmt_stable (keeps db_wf) (sql_insert_log l)"
  by (rule stmt_stableI, rule keepsI) (auto simp: sql_insert_log_def wf_defs split: if_splits)

lemma wf_assign_task: "stmt_stable (keeps db_wf) (sql_assign_task tid team timeout)"
proof (rule stmt_stableI, rule keepsI)
  fix s n t
  assume st: "sql_assign_task tid team timeout s = Some (n, t)" and wf: "db_wf s"
  let ?f = "\<lambda>t. t\<lparr>t_status := StatusPlanning, t_assigned_team_id := Some team, t_timeout_at := Some timeout\<rparr>"
  have t: "t = s\<lparr>tasks := update_where (\<lambda>t. t_id t = tid) ?f (tasks s)\<rparr>"
    using st by (auto simp: sql_assign_task_def stmt_tasks_def split: if_splits)
  have "\<forall>x\<in>set (update_where (\<lambda>t. t_id t = tid) ?f (tasks s)).
      ref_in (t_assigned_team_id x) (m_id ` set (teams s))"
    using st wf by (auto simp: sql_assign_task_def wf_defs in_update_where split: if_splits)
  then show "db_wf t"
    using wf unfolding t wf_defs by (simp add: map_update_where image_update_where)
qed

lemma wf_delete_empty_teams: "stmt_stable (keeps db_wf) sql_delete_empty_teams"
  using wf_delete_teams unfolding stmt_stable_def sql_delete_empty_teams_def by blast

lemma wf_redis: "keeps db_wf s (s\<lparr>heartbeats := hb, tokens := tk, team_create_sent := dd,
    pending_new := pn, pending_pel := pp, next_msg := nm, team_create_stream := tc,
    assigned_stream := asg\<rparr>)"
  by (simp add: keeps_def wf_defs)

interpretation task_wf: task_store "keeps db_wf"
  by unfold_locales
    (simp_all add: wf_insert_task wf_insert_diff wf_insert_comment wf_insert_log wf_assign_task
      wf_delete_empty_teams wf_redis wf_tasks wf_agents wf_delete_tasks wf_delete_agents
      sql_task_status_def sql_delete_task_def sql_set_plan_def sql_complete_task_def
      sql_heartbeat_def sql_rate_task_def sql_retry_task_def sql_end_task_def
      sql_agent_offline_def sql_delete_stale_agents_def)

section \<open>The bound on retries\<close>

definition retries_bounded :: "swarm \<Rightarrow> bool" where
  "retries_bounded s \<longleftrightarrow> (\<forall>t\<in>set (tasks s). t_retry_count t \<le> MaxRetries)"

lemma book_free_retries: "book_free retries_bounded"
  by (simp add: book_free_def retries_bounded_def)

lemma retries_tasks:
  "(\<And>t. p t \<Longrightarrow> t_retry_count t \<le> MaxRetries \<Longrightarrow> t_retry_count (f t) \<le> MaxRetries) \<Longrightarrow>
   stmt_stable (keeps retries_bounded) (stmt_tasks p f)"
  by (auto simp: stmt_stable_def keeps_def stmt_tasks_def retries_bounded_def in_update_where)

lemma retries_same_tasks:
  "(\<And>s n t. st s = Some (n, t) \<Longrightarrow> tasks t = tasks s) \<Longrightarrow> stmt_stable (keeps retries_bounded) st"
  by (auto simp: stmt_stable_def keeps_def retries_bounded_def)

lemma retries_insert_task:
  "stmt_stable (keeps retries_bounded) (sql_insert_task (new_task i repo title desc by now))"
  by (auto simp: stmt_stable_def keeps_def retries_bounded_def sql_insert_task_def new_task_def
      MaxRetries_def split: if_splits)

lemma retries_assign_task: "stmt_stable (keeps retries_bounded) (sql_assign_task tid team timeout)"
  by (auto simp: stmt_stable_def keeps_def retries_bounded_def sql_assign_task_def stmt_tasks_def
      in_update_where split: if_splits)

lemma retries_deletes:
  "stmt_stable (keeps retries_bounded) (sql_delete_task tid)"
  "stmt_stable (keeps retries_bounded) (sql_delete_stale_agents cutoff)"
  "stmt_stable (keeps retries_bounded) sql_delete_empty_teams"
  by (auto simp: stmt_stable_def keeps_def retries_bounded_def sql_defs delete_tasks_def
      delete_agents_def delete_teams_def Let_def)

interpretation retry_teams: swarm_store "keeps retries_bounded"
  by (rule swarm_store_keeps) (rule book_free_retries)

lemma retries_stmt_teams: "stmt_stable (keeps retries_bounded) (stmt_teams p f)"
  and retries_stmt_agents: "stmt_stable (keeps retries_bounded) (stmt_agents q g)"
  by (auto intro!: retries_same_tasks simp: stmt_teams_def stmt_agents_def)

lemma retries_inserts:
  "stmt_stable (keeps retries_bounded) (sql_insert_team i name now)"
  "stmt_stable (keeps retries_bounded) (sql_ensure_team i name now)"
  "stmt_stable (keeps retries_bounded) (sql_upsert_agent aid role team ast host ver now)"
  "stmt_stable (keeps retries_bounded) (sql_insert_diff d)"
  "stmt_stable (keeps retries_bounded) (sql_insert_comment c)"
  "stmt_stable (keeps retries_bounded) (sql_insert_log l)"
  by (rule retries_same_tasks, auto simp: sql_defs stmt_agents_def split: if_splits)+

interpretation task_retries: task_store "keeps retries_bounded"
  by unfold_locales
    (simp_all add: retries_inserts retries_insert_task retries_assign_task retries_deletes
      retries_tasks retries_stmt_teams retries_stmt_agents keeps_def retries_bounded_def
      sql_team_status_def sql_team_agents_busy_def sql_team_agents_offline_def
      sql_append_agent_def sql_task_status_def sql_set_plan_def sql_complete_task_def
      sql_heartbeat_def sql_rate_task_def sql_retry_task_def sql_end_task_def
      sql_agent_offline_def)

end
