(* ===== verification/TeamCorrect.thy ===== *)
theory TeamCorrect
  imports TaskStore
begin

text \<open>
  Correctness of the team manager beyond well-formedness: the limit on active teams and the effect of
  registering an agent.
\<close>

section \<open>Team limit\<close>

definition team_load :: "swarm \<Rightarrow> nat" where
  "team_load s = count_where (\<lambda>t. m_status t \<noteq> TeamOffline \<and> m_id t \<notin> set warmPoolTeamIDs) (teams s)"

lemma faults_irrelevant [simp]: "team_load (s\<lparr>faults := fs\<rparr>) = team_load s"
  by (simp add: team_load_def)

text \<open>
  For every fault script: a team is created only below the limit of five active teams outside
  the warm pool, it is idle and appended to the table, and the limit still holds afterwards; on any
  error the table of teams is unchanged.
\<close>

lemma CreateTeam_respects_limit:
  "case run_state (CreateTeam name i now) s of
     (Inl e, t) \<Rightarrow> teams t = teams s
   | (Inr m, t) \<Rightarrow> team_load s < MaxTeams \<and> team_load t \<le> MaxTeams \<and> teams t = teams s @ [m] \<and>
       m_id m = i \<and> m_status m = TeamIdle"
  by (auto simp: CreateTeam_def activeTeamCount_def exec_def query_def io_ok_def sql_insert_team_def
      team_load_def count_where_def split: list.splits if_splits option.splits prod.splits sum.splits)

lemma ensure_team_step:
  "sql_ensure_team i name now s = Some
     (if i \<in> m_id ` set (teams s) then 0 else 1,
      if i \<in> m_id ` set (teams s) then s else s\<lparr>teams := teams s @ [\<lparr>m_id = i, m_name = name,
        m_lead_agent_id = None, m_status = TeamIdle, m_agent_ids = None, m_formed_at = now\<rparr>]\<rparr>)"
  by (simp add: sql_ensure_team_def)

text \<open>
  Registering an agent for an unknown team creates that team whatever the number of active
  teams: the limit of five is not checked on this path.
\<close>

lemma RegisterAgent_ignores_limit:
  assumes "faults s = []" and "tid \<noteq> uuid_nil" and "tid \<notin> set warmPoolTeamIDs"
    and "tid \<notin> m_id ` set (teams s)"
  shows "case run_state (RegisterAgent us aid role tid host ver now) s of (r, t) \<Rightarrow>
    r = Inr () \<and> team_load t = team_load s + 1"
  using assms
  by (auto simp: RegisterAgent_def ensure_team_step sql_upsert_agent_def sql_append_agent_def
      stmt_teams_def stmt_agents_def team_load_def find_team_def count_where_update_eq)

lemma exec_run [simp]:
  "faults s = [] \<Longrightarrow> st s = Some (n, t) \<Longrightarrow> run_state (exec st) s = (Some n, t)"
  by simp

lemma upsert_agent_ok:
  assumes "ref_in team (m_id ` set (teams s))"
  shows "\<exists>k t. sql_upsert_agent aid role team st host ver now s = Some (k, t) \<and> teams t = teams s \<and>
    faults t = faults s \<and> (\<exists>a. find_agent aid t = Some a \<and> a_role a = role \<and> a_team_id a = team \<and>
      a_status a = st \<and> a_hostname a = host \<and> a_version a = ver)"
proof (cases "aid \<in> a_id ` set (agents s)")
  case True
  then obtain b where "List.find (\<lambda>a. a_id a = aid) (agents s) = Some b"
    by (cases "List.find (\<lambda>a. a_id a = aid) (agents s)") (auto simp: find_None_iff_ex)
  with True assms show ?thesis
    by (auto simp: sql_upsert_agent_def stmt_agents_def find_agent_def find_update_where ref_in_def
        dest: find_Some_in split: option.splits)
next
  case False
  with assms show ?thesis
    by (auto simp: sql_upsert_agent_def find_agent_def find_append find_None_key ref_in_def
        split: option.splits)
qed

lemma append_agent_ok:
  assumes "find_team tid s = Some m"
  shows "\<exists>k t m'. sql_append_agent aid tid s = Some (k, t) \<and> agents t = agents s \<and>
    find_team tid t = Some m' \<and> aid \<in> set (coalesce (m_agent_ids m'))"
  using assms by (auto simp: sql_append_agent_def stmt_teams_def find_team_def find_update_where coalesce_def
      dest: find_Some_in)

definition ensured :: "(uuid \<Rightarrow> string) \<Rightarrow> uuid \<Rightarrow> time \<Rightarrow> swarm \<Rightarrow> swarm" where
  "ensured us tid now s = (if tid \<in> m_id ` set (teams s) then s
     else s\<lparr>teams := teams s @ [\<lparr>m_id = tid, m_name = ''team-'' @ take 8 (us tid), m_lead_agent_id = None,
       m_status = TeamIdle, m_agent_ids = None, m_formed_at = now\<rparr>]\<rparr>)"

lemma ensured_team:
  "\<exists>m. find_team tid (ensured us tid now s) = Some m \<and>
     (find_team tid s = Some m \<or> find_team tid s = None \<and> m_status m = TeamIdle)"
proof (cases "find_team tid s")
  case None
  then have "tid \<notin> m_id ` set (teams s)" by (auto simp: find_team_def find_None_iff_ex)
  with None show ?thesis by (simp add: ensured_def find_team_def find_append)
next
  case (Some m)
  then have "tid \<in> m_id ` set (teams s)" by (auto simp: find_team_def dest: find_Some_in)
  with Some show ?thesis by (simp add: ensured_def)
qed

lemma RegisterAgent_ok:
  assumes "faults s = []" and "tid \<noteq> uuid_nil"
  shows "\<exists>t a m. run_state (RegisterAgent us aid role tid host ver now) s = (Inr (), t) \<and>
    find_agent aid t = Some a \<and> a_role a = role \<and> a_team_id a = Some tid \<and>
    a_status a = (if map_option m_status (find_team tid s) = Some TeamBusy then AgentBusy else AgentIdle) \<and>
    find_team tid t = Some m \<and> aid \<in> set (coalesce (m_agent_ids m))"
proof -
  let ?s = "ensured us tid now s"
  let ?st = "if map_option m_status (find_team tid s) = Some TeamBusy then AgentBusy else AgentIdle"
  obtain m where m: "find_team tid ?s = Some m"
    "find_team tid s = Some m \<or> find_team tid s = None \<and> m_status m = TeamIdle"
    using ensured_team by blast
  have s: "faults ?s = []" "ref_in (Some tid) (m_id ` set (teams ?s))"
    using assms m(1) by (auto simp: ensured_def find_team_def dest!: find_Some_in)
  from upsert_agent_ok [OF s(2), of aid role ?st host ver now]
  obtain k t a where t: "sql_upsert_agent aid role (Some tid) ?st host ver now ?s = Some (k, t)"
    "teams t = teams ?s" "faults t = faults ?s" "find_agent aid t = Some a" "a_role a = role"
    "a_team_id a = Some tid" "a_status a = ?st" by blast
  have "find_team tid t = Some m" using m(1) t(2) by (simp add: find_team_def)
  from append_agent_ok [OF this, of aid]
  obtain l u m' where u: "sql_append_agent aid tid t = Some (l, u)" "agents u = agents t"
    "find_team tid u = Some m'" "aid \<in> set (coalesce (m_agent_ids m'))" by blast
  have st: "(if map_option m_status (find_team tid ?s) = Some TeamBusy then AgentBusy else AgentIdle) = ?st"
    using m by auto
  have "run_state (RegisterAgent us aid role tid host ver now) s = (Inr (), u)"
    using assms s(1) t(1,3) u(1) st m(1) ensure_team_step [of tid "''team-'' @ take 8 (us tid)" now s]
    by (simp add: RegisterAgent_def ensured_def [symmetric] del: append.simps)
  then show ?thesis using t u by (auto simp: find_agent_def)
qed

text \<open>
  Without faults, registering an agent for a team succeeds; the agent is stored with its role and
  team, busy if the team is busy and idle otherwise, and is listed in the team.
\<close>

lemma RegisterAgent_effect:
  assumes "faults s = []" and "tid \<noteq> uuid_nil"
  shows "\<exists>t a m. run_state (RegisterAgent us aid role tid host ver now) s = (Inr (), t) \<and>
    find_agent aid t = Some a \<and> a_role a = role \<and> a_team_id a = Some tid \<and>
    a_status a = (if map_option m_status (find_team tid s) = Some TeamBusy then AgentBusy else AgentIdle) \<and>
    find_team tid t = Some m \<and> aid \<in> set (coalesce (m_agent_ids m))"
  using assms by (rule RegisterAgent_ok)

section \<open>Witnesses\<close>

definition full_swarm :: swarm where
  "full_swarm = init_swarm\<lparr>teams := map (\<lambda>i. \<lparr>m_id = i, m_name = ''t'', m_lead_agent_id = None,
     m_status = TeamBusy, m_agent_ids = None, m_formed_at = 0\<rparr>) [2, 3, 4, 5, 6]\<rparr>"

lemma full_load: "team_load full_swarm = MaxTeams"
  by (simp add: team_load_def full_swarm_def MaxTeams_def warmPoolTeamIDs_def)

end
