(* ===== verification/TaskCorrect.thy ===== *)
theory TaskCorrect
  imports TeamCorrect
begin

text \<open>
  Correctness of the task manager: the exact effect of ending, retrying and creating a task, of a
  timeout check and of one stream message, the frame of the assign loop, and the paging of the
  history.
\<close>

section \<open>Releasing a team\<close>

definition members :: "uuid \<Rightarrow> swarm \<Rightarrow> uuid list" where
  "members team s = map a_id (filter (\<lambda>a. a_team_id a = Some team) (agents s))"

definition revoked :: "uuid list \<Rightarrow> swarm \<Rightarrow> swarm" where
  "revoked ids s = s\<lparr>tokens := tokens s |` (- Canonical ` set ids), heartbeats := heartbeats s |` (- set ids)\<rparr>"

definition offline_team :: "uuid \<Rightarrow> swarm \<Rightarrow> swarm" where
  "offline_team team s = s\<lparr>agents := update_where (\<lambda>a. a_team_id a = Some team)
       (\<lambda>a. a\<lparr>a_status := AgentOffline\<rparr>) (agents s),
     teams := update_where (\<lambda>t. m_id t = team) (\<lambda>t. t\<lparr>m_status := TeamOffline\<rparr>) (teams s)\<rparr>"

definition released :: "uuid \<Rightarrow> swarm \<Rightarrow> swarm" where
  "released team s = offline_team team (if has_auth s then revoked (members team s) s else s)"

lemma restrict_compl_insert: "(m |` (- A))(x := None) = m |` (- insert x A)"
  by (auto simp: restrict_map_def fun_eq_iff)

lemma run_revoke_all:
  "faults s = [] \<Longrightarrow> run_state (for_each revoke_agent ids) s = ((), revoked ids s)"
proof (induction ids arbitrary: s)
  case Nil
  show ?case by (simp add: revoked_def restrict_map_def)
next
  case (Cons i ids)
  have "run_state (revoke_agent i) s = ((), revoked [i] s)"
    using Cons.prems by (auto simp: revoke_agent_def del_token_def del_heartbeat_def revoked_def
        restrict_map_def fun_eq_iff)
  moreover have "revoked ids (revoked [i] s) = revoked (i # ids) s"
    by (auto simp: revoked_def restrict_map_def fun_eq_iff)
  moreover have "faults (revoked [i] s) = []" using Cons.prems by (simp add: revoked_def)
  ultimately show ?case using Cons.IH by simp
qed

lemma run_ReleaseTeam:
  "faults s = [] \<Longrightarrow> run_state (ReleaseTeam team) s = ((), offline_team team s)"
  by (simp add: ReleaseTeam_def sql_team_agents_offline_def sql_team_status_def stmt_agents_def
      stmt_teams_def offline_team_def)

lemma faults_released [simp]: "faults (released team s) = faults s"
  by (simp add: released_def offline_team_def revoked_def)

lemma run_release:
  assumes "faults s = []"
  shows "run_state (do { _ \<leftarrow> revokeTeamTokens team; ReleaseTeam team }) s = ((), released team s)"
proof -
  have "faults (revoked (members team s) s) = []" using assms by (simp add: revoked_def)
  then show ?thesis
    using assms by (simp add: revokeTeamTokens_def run_revoke_all run_ReleaseTeam released_def
        members_def)
qed

definition release_of :: "task option \<Rightarrow> swarm \<Rightarrow> swarm" where
  "release_of x s = (case x of None \<Rightarrow> s | Some t \<Rightarrow>
     (case t_assigned_team_id t of None \<Rightarrow> s | Some team \<Rightarrow> released team s))"

lemma coalesce_task_team [simp]: "t_assigned_team_id (coalesce_task t) = t_assigned_team_id t"
  by (simp add: coalesce_task_def)

lemma run_GetTask:
  "faults s = [] \<Longrightarrow> run_state (GetTask tid) s =
    (case find_task tid s of None \<Rightarrow> Inl (ErrDB ''querying task'') | Some t \<Rightarrow> Inr (coalesce_task t), s)"
  by (simp add: GetTask_def split: option.splits)

lemma run_get_release:
  assumes "faults s = []"
  shows "run_state (do { g \<leftarrow> GetTask tid; release_assigned g }) s = ((), release_of (find_task tid s) s)"
  using assms run_release [OF assms]
  by (auto simp: run_GetTask release_assigned_def release_of_def split: option.splits)

lemma find_task_update:
  "(\<And>t. t_id (f t) = t_id t) \<Longrightarrow>
   find_task i (s\<lparr>tasks := update_where (\<lambda>t. t_id t = tid) f (tasks s)\<rparr>) =
   map_option (\<lambda>t. if t_id t = tid then f t else t) (find_task i s)"
  by (simp add: find_task_def find_update_where)

lemma find_task_id: "find_task i s = Some t \<Longrightarrow> t_id t = i"
  by (auto simp: find_task_def dest: find_Some_in)

lemma release_of_map:
  "(\<And>t. t_assigned_team_id (f t) = t_assigned_team_id t) \<Longrightarrow>
   release_of (map_option f x) s = release_of x s"
  by (cases x) (simp_all add: release_of_def)

lemma find_task_gauges [simp]: "find_task i (s\<lparr>gauges := g\<rparr>) = find_task i s"
  by (simp add: find_task_def)

definition ended :: "uuid \<Rightarrow> (task \<Rightarrow> task) \<Rightarrow> task_status \<Rightarrow> swarm \<Rightarrow> swarm" where
  "ended tid f st s = release_of (find_task tid s)
     (s\<lparr>tasks := update_where (\<lambda>t. t_id t = tid) f (tasks s),
        gauges := add_active (-1) (count_status st (gauges s))\<rparr>)"

definition notify :: "ws_event \<Rightarrow> swarm \<Rightarrow> swarm" where
  "notify e s = (if has_ws s then s\<lparr>ws_log := ws_log s @ [e]\<rparr> else s)"

text \<open>
  The common tail of completing, failing and timing out a task: the row is written, the gauges are
  adjusted, the task is read back and its team released.
\<close>

lemma run_end:
  assumes "faults s = []" and "\<And>t. t_id (f t) = t_id t"
    and "\<And>t. t_assigned_team_id (f t) = t_assigned_team_id t"
  shows "run_state (do { g \<leftarrow> GetTask tid; release_assigned g })
      (s\<lparr>tasks := update_where (\<lambda>t. t_id t = tid) f (tasks s),
         gauges := add_active (-1) (count_status st (gauges s))\<rparr>) = ((), ended tid f st s)"
proof -
  let ?s = "s\<lparr>tasks := update_where (\<lambda>t. t_id t = tid) f (tasks s),
    gauges := add_active (-1) (count_status st (gauges s))\<rparr>"
  have "find_task tid ?s = map_option f (find_task tid s)"
    using find_task_id [of tid s] assms(2)
    by (cases "find_task tid s") (simp_all add: find_task_def find_update_where)
  then have "release_of (find_task tid ?s) ?s = ended tid f st s"
    by (simp add: ended_def release_of_map assms(3))
  then show ?thesis using run_get_release [of ?s tid] assms(1) by simp
qed

definition fail_row :: "task_status \<Rightarrow> string \<Rightarrow> time \<Rightarrow> task \<Rightarrow> task" where
  "fail_row st reason now t = t\<lparr>t_status := st, t_failure_reason := Some reason, t_completed_at := Some now\<rparr>"

definition complete_row :: "time \<Rightarrow> task \<Rightarrow> task" where
  "complete_row now t = t\<lparr>t_status := StatusCompleted, t_completed_at := Some now\<rparr>"

lemma run_FailTask:
  assumes "faults s = []"
  shows "run_state (FailTask tid reason now) s =
    (Inr (), notify (TaskEvent ''failed'' tid) (ended tid (fail_row StatusFailed reason now) StatusFailed s))"
  using assms run_end [of s "fail_row StatusFailed reason now" tid StatusFailed]
  by (simp add: FailTask_def sql_end_task_def stmt_tasks_def notify_def split_beta fail_row_def [abs_def])

lemma run_CompleteTask:
  assumes "faults s = []"
  shows "run_state (CompleteTask tid now) s = (Inr (), ended tid (complete_row now) StatusCompleted s)"
  using assms run_end [of s "complete_row now" tid StatusCompleted]
  by (simp add: CompleteTask_def sql_complete_task_def stmt_tasks_def split_beta complete_row_def [abs_def])


section \<open>What ending a task guarantees\<close>

lemma tasks_released [simp]: "tasks (released team s) = tasks s" "tasks (release_of x s) = tasks s"
  by (simp_all add: released_def offline_team_def revoked_def release_of_def split: option.splits)

lemma tasks_notify [simp]: "tasks (notify e s) = tasks s" "agents (notify e s) = agents s"
  "teams (notify e s) = teams s" "tokens (notify e s) = tokens s" "faults (notify e s) = faults s"
  "heartbeats (notify e s) = heartbeats s"
  by (simp_all add: notify_def)

lemma faults_ended [simp]: "faults (ended tid f st s) = faults s"
  by (simp add: ended_def release_of_def split: option.splits)

lemma tasks_ended: "tasks (ended tid f st s) = update_where (\<lambda>t. t_id t = tid) f (tasks s)"
  by (simp add: ended_def)

definition team_down :: "uuid \<Rightarrow> swarm \<Rightarrow> bool" where
  "team_down team s \<longleftrightarrow> (\<forall>m\<in>set (teams s). m_id m = team \<longrightarrow> m_status m = TeamOffline) \<and>
     (\<forall>a\<in>set (agents s). a_team_id a = Some team \<longrightarrow> a_status a = AgentOffline \<and>
       (has_auth s \<longrightarrow> tokens s (Canonical (a_id a)) = None \<and> heartbeats s (a_id a) = None))"

lemma released_fields:
  "teams (released team s) = update_where (\<lambda>t. m_id t = team) (\<lambda>t. t\<lparr>m_status := TeamOffline\<rparr>) (teams s)"
  "agents (released team s) = update_where (\<lambda>a. a_team_id a = Some team)
     (\<lambda>a. a\<lparr>a_status := AgentOffline\<rparr>) (agents s)"
  "has_auth (released team s) = has_auth s"
  "has_auth s \<Longrightarrow> tokens (released team s) = tokens s |` (- Canonical ` set (members team s))"
  "has_auth s \<Longrightarrow> heartbeats (released team s) = heartbeats s |` (- set (members team s))"
  by (simp_all add: released_def offline_team_def revoked_def)

lemma member_iff: "i \<in> set (members team s) \<longleftrightarrow> (\<exists>a\<in>set (agents s). a_id a = i \<and> a_team_id a = Some team)"
  by (auto simp: members_def)

lemma released_down: "team_down team (released team s)"
  unfolding team_down_def
proof (intro conjI ballI impI)
  fix m assume "m \<in> set (teams (released team s))" "m_id m = team"
  then obtain r where "m = (if m_id r = team then r\<lparr>m_status := TeamOffline\<rparr> else r)"
    unfolding released_fields in_update_where by blast
  then show "m_status m = TeamOffline" using \<open>m_id m = team\<close> by (cases "m_id r = team") simp_all
next
  fix a assume a: "a \<in> set (agents (released team s))" "a_team_id a = Some team"
  have "\<exists>b\<in>set (agents s). a_team_id b = Some team \<and> a_id a = a_id b \<and> a_status a = AgentOffline"
    using a(1) unfolding released_fields by (cases rule: update_where_cases) (use a(2) in auto)
  then obtain b where b: "b \<in> set (agents s)" "a_team_id b = Some team" "a_id a = a_id b" "a_status a = AgentOffline"
    by blast
  show "a_status a = AgentOffline" by (rule b)
  have "a_id a \<in> set (members team s)" using b by (auto simp: member_iff)
  moreover assume "has_auth (released team s)"
  ultimately show "tokens (released team s) (Canonical (a_id a)) = None" "heartbeats (released team s) (a_id a) = None"
    by (simp_all add: released_fields restrict_map_def)
qed

lemma ended_down:
  assumes "find_task tid s = Some x" and "t_assigned_team_id x = Some team"
  shows "team_down team (ended tid f st s)"
  using assms released_down by (simp add: ended_def release_of_def)

lemma team_down_notify [simp]: "team_down team (notify e s) = team_down team s"
  by (simp add: team_down_def notify_def)

text \<open>
  What releasing a team changes: its row and the rows of its agents, and, where the token service is set,
  the heartbeats of the members and the tokens stored under the canonical text of their ids.
\<close>

definition team_released :: "uuid \<Rightarrow> swarm \<Rightarrow> swarm \<Rightarrow> bool" where
  "team_released team s t \<longleftrightarrow>
     teams t = update_where (\<lambda>m. m_id m = team) (\<lambda>m. m\<lparr>m_status := TeamOffline\<rparr>) (teams s) \<and>
     agents t = update_where (\<lambda>a. a_team_id a = Some team) (\<lambda>a. a\<lparr>a_status := AgentOffline\<rparr>) (agents s) \<and>
     (\<forall>k. tokens t k = (if has_auth s \<and> (\<exists>a\<in>set (agents s). a_team_id a = Some team \<and> k = Canonical (a_id a))
        then None else tokens s k)) \<and>
     (\<forall>i. heartbeats t i = (if has_auth s \<and> (\<exists>a\<in>set (agents s). a_team_id a = Some team \<and> i = a_id a)
        then None else heartbeats s i))"

lemma team_released_ended:
  assumes "find_task tid s = Some x" and "t_assigned_team_id x = Some team"
  shows "team_released team s (ended tid f st s)"
  using assms
  by (auto simp: team_released_def ended_def release_of_def released_def offline_team_def revoked_def members_def
      restrict_map_def)

lemma team_released_notify: "team_released team s (notify e t) = team_released team s t"
  by (simp add: team_released_def)

text \<open>
  C25: without faults, completing or failing an assigned task succeeds, writes exactly the status columns
  of that row, and releases its team: the team row and the rows of its agents become offline and no
  other row of the two tables changes.  Where the token service is set, exactly the heartbeats of those
  agents and the tokens registered under the canonical text of their ids are deleted; a token
  registered under another spelling of an id stays.  Without the token service no token is touched.
\<close>

theorem CompleteTask_and_FailTask_release:
  assumes "faults s = []" and "find_task tid s = Some x" and "t_assigned_team_id x = Some team"
  shows "(case run_state (CompleteTask tid now) s of (r, t) \<Rightarrow> r = Inr () \<and> team_released team s t \<and>
      tasks t = update_where (\<lambda>y. t_id y = tid) (\<lambda>y. y\<lparr>t_status := StatusCompleted, t_completed_at := Some now\<rparr>) (tasks s)) \<and>
    (case run_state (FailTask tid reason now) s of (r, t) \<Rightarrow> r = Inr () \<and> team_released team s t \<and>
      tasks t = update_where (\<lambda>y. t_id y = tid) (\<lambda>y. y\<lparr>t_status := StatusFailed, t_failure_reason := Some reason,
        t_completed_at := Some now\<rparr>) (tasks s))"
  using team_released_ended [OF assms(2,3)]
  by (simp add: run_CompleteTask [OF assms(1)] run_FailTask [OF assms(1)] team_released_notify tasks_ended
      complete_row_def [abs_def] fail_row_def [abs_def])

section \<open>Timeouts\<close>

lemma released_keeps_down:
  assumes "team_down team s"
  shows "team_down team (released other s)"
  unfolding team_down_def
proof (intro conjI ballI impI)
  fix m assume "m \<in> set (teams (released other s))" "m_id m = team"
  then show "m_status m = TeamOffline"
    using assms by (auto simp: team_down_def released_fields in_update_where)
next
  fix a assume "a \<in> set (agents (released other s))" "a_team_id a = Some team"
  then obtain b where b: "b \<in> set (agents s)" "a_team_id b = Some team" "a_id a = a_id b"
    "a_status a = a_status b \<or> a_status a = AgentOffline"
    by (auto simp: released_fields in_update_where split: if_splits)
  then have down: "a_status b = AgentOffline" "has_auth s \<Longrightarrow> tokens s (Canonical (a_id a)) = None \<and> heartbeats s (a_id a) = None"
    using assms by (auto simp: team_down_def)
  then show "a_status a = AgentOffline" using b(4) by auto
  assume "has_auth (released other s)"
  then show "tokens (released other s) (Canonical (a_id a)) = None" "heartbeats (released other s) (a_id a) = None"
    using down(2) by (simp_all add: released_fields restrict_map_def)
qed

lemma ended_keeps_down:
  assumes "team_down team s"
  shows "team_down team (ended tid f st s)"
proof -
  have "team_down team (s\<lparr>tasks := ts, gauges := g\<rparr>)" for ts g
    using assms by (simp add: team_down_def)
  then show ?thesis
    by (simp add: ended_def release_of_def released_keeps_down split: option.splits)
qed

lemma ws_log_first: "s\<lparr>tasks := a, gauges := b, ws_log := c\<rparr> = s\<lparr>ws_log := c, tasks := a, gauges := b\<rparr>"
  by simp

lemma run_timeout_task:
  assumes "faults s = []"
  shows "\<exists>t. run_state (timeout_task now tid) s = ((), t) \<and> faults t = [] \<and>
    tasks t = update_where (\<lambda>x. t_id x = tid)
      (fail_row StatusTimedOut ''task exceeded 30 minute timeout'' now) (tasks s) \<and>
    (\<forall>x team. find_task tid s = Some x \<longrightarrow> t_assigned_team_id x = Some team \<longrightarrow> team_down team t) \<and>
    (\<forall>team. team_down team s \<longrightarrow> team_down team t)"
proof -
  let ?f = "fail_row StatusTimedOut ''task exceeded 30 minute timeout'' now"
  let ?s = "notify (TaskEvent ''timed_out'' tid) s"
  have "run_state (timeout_task now tid) s = ((), ended tid ?f StatusTimedOut ?s)"
    using assms run_end [of ?s ?f tid StatusTimedOut]
    by (cases "has_ws s")
      (simp_all add: timeout_task_def sql_end_task_def stmt_tasks_def notify_def split_beta
        fail_row_def [abs_def] ws_log_first)
  moreover have "team_down team (ended tid ?f StatusTimedOut ?s)"
    if "find_task tid s = Some x" "t_assigned_team_id x = Some team" for x team
    using that by (intro ended_down [of _ _ x]) (simp_all add: find_task_def)
  moreover have "team_down team (ended tid ?f StatusTimedOut ?s)" if "team_down team s" for team
    using that by (intro ended_keeps_down) simp
  ultimately show ?thesis using assms by (auto simp: tasks_ended)
qed


abbreviation timeout_row :: "time \<Rightarrow> task \<Rightarrow> task" where
  "timeout_row now \<equiv> fail_row StatusTimedOut ''task exceeded 30 minute timeout'' now"

lemma timeout_row_simps [simp]: "t_id (fail_row st r now t) = t_id t"
  "t_assigned_team_id (fail_row st r now t) = t_assigned_team_id t"
  "fail_row st r now (fail_row st r now t) = fail_row st r now t"
  by (simp_all add: fail_row_def)

lemma update_update:
  "(\<And>x. t_id (f x) = t_id x) \<Longrightarrow> (\<And>x. f (f x) = f x) \<Longrightarrow>
   update_where (\<lambda>x. t_id x \<in> A) f (update_where (\<lambda>x. t_id x = i) f ts) =
   update_where (\<lambda>x. t_id x \<in> insert i A) f ts"
  by (simp add: update_where_def)

lemma run_timeouts:
  assumes "faults s = []"
  shows "\<exists>t. run_state (for_each (timeout_task now) ids) s = ((), t) \<and> faults t = [] \<and>
    tasks t = update_where (\<lambda>x. t_id x \<in> set ids) (timeout_row now) (tasks s) \<and>
    (\<forall>team. team_down team s \<or> (\<exists>i\<in>set ids. \<exists>x. find_task i s = Some x \<and> t_assigned_team_id x = Some team) \<longrightarrow>
      team_down team t)"
  using assms
proof (induction ids arbitrary: s)
  case Nil
  then show ?case by (auto simp: update_where_def)
next
  case (Cons i ids)
  obtain u where u: "run_state (timeout_task now i) s = ((), u)" "faults u = []"
    "tasks u = update_where (\<lambda>x. t_id x = i) (timeout_row now) (tasks s)"
    "\<And>x team. find_task i s = Some x \<Longrightarrow> t_assigned_team_id x = Some team \<Longrightarrow> team_down team u"
    "\<And>team. team_down team s \<Longrightarrow> team_down team u"
    using run_timeout_task [OF Cons.prems, of now i] by blast
  obtain t where t: "run_state (for_each (timeout_task now) ids) u = ((), t)" "faults t = []"
    "tasks t = update_where (\<lambda>x. t_id x \<in> set ids) (timeout_row now) (tasks u)"
    "\<And>team. team_down team u \<or> (\<exists>i\<in>set ids. \<exists>x. find_task i u = Some x \<and> t_assigned_team_id x = Some team) \<Longrightarrow>
      team_down team t"
    using Cons.IH [OF u(2)] by blast
  have find: "find_task j u = map_option (\<lambda>x. if t_id x = i then timeout_row now x else x) (find_task j s)" for j
    by (simp add: find_task_def u(3) find_update_where)
  have later: "\<exists>x. find_task j u = Some x \<and> t_assigned_team_id x = Some team"
    if "find_task j s = Some x" "t_assigned_team_id x = Some team" for j x team
    using that by (simp add: find)
  have "team_down team t" if "team_down team s \<or>
      (\<exists>j\<in>set (i # ids). \<exists>x. find_task j s = Some x \<and> t_assigned_team_id x = Some team)" for team
    using that u(4,5) t(4) later by (metis set_ConsD)
  then show ?case
    using u(1,3) t by (simp add: update_update)
qed

lemma timed_out_ids:
  assumes "distinct (map t_id ts)" and "x \<in> set ts"
  shows "t_id x \<in> set (map t_id (filter (timed_out_at now) ts)) \<longleftrightarrow> timed_out_at now x"
  using assms by (auto simp: distinct_map dest: inj_onD)

text \<open>
  C26: Without faults, one timeout check turns exactly the tasks past their deadline that are not
  terminal into timed-out ones, leaves every other row as it is, and takes down the team of each.
\<close>

theorem checkTimeouts_effect:
  assumes "faults s = []" and "db_wf s"
  shows "\<exists>t. run_state (checkTimeouts now) s = ((), t) \<and>
    tasks t = map (\<lambda>x. if timed_out_at now x then timeout_row now x else x) (tasks s) \<and>
    (\<forall>x\<in>set (tasks s). timed_out_at now x \<longrightarrow> (case t_assigned_team_id x of None \<Rightarrow> True | Some team \<Rightarrow> team_down team t))"
proof -
  let ?ids = "map t_id (filter (timed_out_at now) (tasks s))"
  have ids: "distinct (map t_id (tasks s))" using assms(2) by (simp add: wf_defs)
  obtain t where t: "run_state (for_each (timeout_task now) ?ids) s = ((), t)"
    "tasks t = update_where (\<lambda>x. t_id x \<in> set ?ids) (timeout_row now) (tasks s)"
    "\<And>team. (\<exists>i\<in>set ?ids. \<exists>x. find_task i s = Some x \<and> t_assigned_team_id x = Some team) \<Longrightarrow> team_down team t"
    using run_timeouts [OF assms(1), of now ?ids] by blast
  have "tasks t = map (\<lambda>x. if timed_out_at now x then timeout_row now x else x) (tasks s)"
    unfolding t(2) update_where_def using timed_out_ids [OF ids] by (intro map_cong) auto
  moreover have "team_down team t"
    if "x \<in> set (tasks s)" "timed_out_at now x" "t_assigned_team_id x = Some team" for x team
    using that find_unique [OF ids that(1)] by (intro t(3)) (auto simp: find_task_def)
  ultimately show ?thesis
    using t(1) assms(1) by (auto simp: checkTimeouts_def split: option.splits)
qed

section \<open>Retry\<close>

definition retry_row :: "int \<Rightarrow> task \<Rightarrow> task" where
  "retry_row n t = t\<lparr>t_status := StatusSubmitted, t_retry_count := n, t_failure_reason := Some '''',
     t_assigned_team_id := None, t_assigned_agents := None, t_timeout_at := None,
     t_completed_at := None, t_plan_document := None\<rparr>"

definition retried :: "uuid \<Rightarrow> int \<Rightarrow> swarm \<Rightarrow> swarm" where
  "retried tid n s = notify (TaskEvent ''retried'' tid)
     ((xadd_pending tid (s\<lparr>tasks := update_where (\<lambda>t. t_id t = tid) (retry_row n) (tasks s)\<rparr>))
       \<lparr>gauges := add_active 1 ((gauges s)\<lparr>n_task_retries := Suc (n_task_retries (gauges s))\<rparr>)\<rparr>)"

text \<open>
  C28: Without faults, retrying a task answers with an error and changes nothing for an unknown
  task, a task that is neither failed nor timed out, or one with three retries; otherwise the row is
  reset to submitted with one more retry and the task is announced again on the pending stream.
\<close>

theorem RetryTask_behaviour:
  assumes "faults s = []"
  shows "run_state (RetryTask tid) s = (case find_task tid s of
      None \<Rightarrow> (Inl (ErrDB ''querying task''), s)
    | Some t \<Rightarrow>
        if t_status t \<noteq> StatusFailed \<and> t_status t \<noteq> StatusTimedOut then (Inl (ErrNotRetryable (t_status t)), s)
        else if t_retry_count t \<ge> MaxRetries then (Inl ErrMaxRetries, s)
        else (Inr (), retried tid (t_retry_count t + 1) s))"
  using assms
  by (auto simp: RetryTask_def run_GetTask coalesce_task_def sql_retry_task_def stmt_tasks_def
      retried_def retry_row_def [abs_def] xadd_pending_def notify_def split: option.splits)

section \<open>Assigning a message\<close>

definition idle_team :: "swarm \<Rightarrow> team option" where
  "idle_team s = List.find (\<lambda>t. m_status t = TeamIdle \<and> m_id t \<notin> set warmPoolTeamIDs) (teams s)"

lemma run_GetIdleTeam: "faults s = [] \<Longrightarrow> run_state GetIdleTeam s = (idle_team s, s)"
  by (simp add: GetIdleTeam_def idle_team_def)

lemma run_FindIdleTeamWithCapacity:
  assumes "faults s = []" and "idle_team s = None"
  shows "run_state (FindIdleTeamWithCapacity n) s = (None, s)"
proof -
  have "List.find (\<lambda>t. m_status t = TeamIdle \<and> m_id t \<notin> set warmPoolTeamIDs \<and>
      n \<le> length (coalesce (m_agent_ids t))) (teams s) = None"
    using assms(2) unfolding idle_team_def find_None_iff_ex by blast
  then show ?thesis using assms(1) by (simp add: FindIdleTeamWithCapacity_def)
qed

lemma run_CanCreateTeam: "faults s = [] \<Longrightarrow> run_state CanCreateTeam s = (team_load s < MaxTeams, s)"
  by (simp add: CanCreateTeam_def activeTeamCount_def team_load_def)

definition assigned_state :: "uuid \<Rightarrow> uuid \<Rightarrow> time \<Rightarrow> swarm \<Rightarrow> swarm" where
  "assigned_state tid team now s = s\<lparr>
     tasks := update_where (\<lambda>t. t_id t = tid) (\<lambda>t. t\<lparr>t_status := StatusPlanning,
       t_assigned_team_id := Some team, t_timeout_at := Some (now + TaskTimeout)\<rparr>) (tasks s),
     teams := update_where (\<lambda>t. m_id t = team) (\<lambda>t. t\<lparr>m_status := TeamBusy\<rparr>) (teams s),
     agents := update_where (\<lambda>a. a_team_id a = Some team \<and> a_status a \<noteq> AgentOffline)
       (\<lambda>a. a\<lparr>a_status := AgentBusy\<rparr>) (agents s),
     assigned_stream := assigned_stream s @ [(tid, team)]\<rparr>"

lemma run_assignTask:
  assumes "faults s = []" and "team \<in> m_id ` set (teams s)"
  shows "run_state (assignTask tid team now) s = (Inr (), assigned_state tid team now s)"
  using assms
  by (simp add: assignTask_def sql_assign_task_def stmt_tasks_def MarkTeamBusy_def sql_team_status_def
      stmt_teams_def sql_team_agents_busy_def stmt_agents_def assigned_state_def)

definition recently_requested :: "uuid \<Rightarrow> time \<Rightarrow> swarm \<Rightarrow> bool" where
  "recently_requested tid now s = (case team_create_sent s tid of None \<Rightarrow> False | Some e \<Rightarrow> now < e)"

definition requested :: "uuid \<Rightarrow> time \<Rightarrow> swarm \<Rightarrow> swarm" where
  "requested tid now s = (if recently_requested tid now s then s
     else s\<lparr>team_create_sent := (team_create_sent s)(tid \<mapsto> now + 5 * minute),
            team_create_stream := team_create_stream s @ [tid]\<rparr>)"

lemma run_ack: "faults s = [] \<Longrightarrow> run_state (ack msg) s = ((), xack_pending (x_id msg) s)"
  by (simp add: ack_def)

definition placed :: "stream_msg \<Rightarrow> uuid \<Rightarrow> time \<Rightarrow> swarm \<Rightarrow> swarm" where
  "placed msg tid now s = (case idle_team s of
       Some m \<Rightarrow> xack_pending (x_id msg) (assigned_state tid (m_id m) now s)
     | None \<Rightarrow> if team_load s < MaxTeams then xack_pending (x_id msg) (requested tid now s) else s)"

lemma run_place_task:
  assumes "faults s = []"
  shows "run_state (place_task msg task tid now) s = ((), placed msg tid now s)"
proof (cases "idle_team s")
  case (Some m)
  then have "m_id m \<in> m_id ` set (teams s)" by (auto simp: idle_team_def dest: find_Some_in)
  moreover have "faults (assigned_state tid (m_id m) now s) = []" using assms by (simp add: assigned_state_def)
  ultimately show ?thesis
    using Some assms by (simp add: place_task_def run_GetIdleTeam assign_and_ack_def run_assignTask
        run_ack placed_def)
next
  case None
  have "run_state (request_team msg tid now) s = ((), placed msg tid now s)"
    using None assms
    by (simp add: request_team_def run_CanCreateTeam set_nx_team_create_def placed_def requested_def
        recently_requested_def run_ack)
  then show ?thesis
    using None assms by (simp add: place_task_def run_GetIdleTeam run_FindIdleTeamWithCapacity)
qed

text \<open>
  C29: Without faults, a stream message is acknowledged without effect if it is malformed or its
  task is unknown, already assigned or terminal; otherwise the first idle team outside the warm pool
  takes the task and is busy, or, below the team limit, a new team is requested at most once per five
  minutes and the message is acknowledged, or the message stays pending.  Borrowing a team for a
  small task never happens.
\<close>

theorem handle_message_effect:
  assumes "faults s = []"
  shows "run_state (handle_message now msg) s = ((), case x_task msg of
      FieldUUID tid \<Rightarrow> (case find_task tid s of
          None \<Rightarrow> xack_pending (x_id msg) s
        | Some t \<Rightarrow>
            if t_assigned_team_id t \<noteq> None \<or> terminal (t_status t) then xack_pending (x_id msg) s
            else placed msg tid now s)
    | _ \<Rightarrow> xack_pending (x_id msg) s)"
  using assms
  by (cases "x_task msg")
    (auto simp: handle_message_def run_ack run_GetTask run_place_task coalesce_task_def split: option.splits)

section \<open>Only announced tasks are assigned\<close>

definition unannounced :: "uuid \<Rightarrow> task option \<Rightarrow> swarm \<Rightarrow> bool" where
  "unannounced j x s \<longleftrightarrow> find_task j s = x \<and>
     (\<forall>m\<in>set (pending_new s) \<union> set (pending_pel s). x_task m \<noteq> FieldUUID j)"

lemma book_free_unannounced: "book_free (unannounced j x)"
  by (simp add: book_free_def unannounced_def find_task_def)

interpretation quiet: swarm_store "keeps (unannounced j x)" for j x
  by (rule swarm_store_keeps) (rule book_free_unannounced)

lemma quiet_agents: "stmt_stable (keeps (unannounced j x)) (stmt_agents p f)"
  and quiet_teams: "stmt_stable (keeps (unannounced j x)) (stmt_teams q g)"
  by (auto simp: stmt_stable_def keeps_def stmt_agents_def stmt_teams_def unannounced_def find_task_def)

lemma quiet_assign:
  assumes "i \<noteq> j"
  shows "stmt_stable (keeps (unannounced j x)) (sql_assign_task i team timeout)"
proof (rule stmt_stableI, rule keepsI)
  fix s n t
  assume st: "sql_assign_task i team timeout s = Some (n, t)" and u: "unannounced j x s"
  let ?f = "\<lambda>t. t\<lparr>t_status := StatusPlanning, t_assigned_team_id := Some team, t_timeout_at := Some timeout\<rparr>"
  have t: "t = s\<lparr>tasks := update_where (\<lambda>t. t_id t = i) ?f (tasks s)\<rparr>"
    using st by (auto simp: sql_assign_task_def stmt_tasks_def split: if_splits)
  have "find_task j t = find_task j s"
    unfolding t using assms find_task_id [of j s]
    by (cases "find_task j s") (simp_all add: find_task_def find_update_where)
  then show "unannounced j x t" using u by (simp add: unannounced_def t)
qed

lemma quiet_redis:
  "keeps (unannounced j x) s (xack_pending mid s)" "keeps (unannounced j x) s (del_heartbeat aid s)"
  "keeps (unannounced j x) s (del_token aid s)" "keeps (unannounced j x) s (s\<lparr>team_create_sent := d\<rparr>)"
  "keeps (unannounced j x) s (s\<lparr>team_create_stream := c\<rparr>)" "keeps (unannounced j x) s (s\<lparr>assigned_stream := a\<rparr>)"
  by (auto simp: keeps_def unannounced_def find_task_def xack_pending_def del_heartbeat_def del_token_def)

lemmas quiet_calls = quiet.stable_calls quiet.stable_redis_do quiet_redis quiet_agents quiet_teams

lemma quiet_handle_message:
  assumes "x_task msg \<noteq> FieldUUID j"
  shows "stable (keeps (unannounced j x)) (handle_message now msg)"
proof (cases "x_task msg")
  case (FieldUUID i)
  then have "i \<noteq> j" using assms by simp
  then show ?thesis
    unfolding handle_message_def FieldUUID place_task_def assign_and_ack_def request_team_def
      assignTask_def MarkTeamBusy_def sql_team_status_def sql_team_agents_busy_def set_nx_team_create_def
      GetIdleTeam_def FindIdleTeamWithCapacity_def CanCreateTeam_def activeTeamCount_def ack_def GetTask_def
    by (simp, intro quiet_calls quiet_assign stable_modify)
qed (simp_all add: handle_message_def ack_def, (intro quiet_calls)+)

lemma quiet_read_new:
  "meets (unannounced j x) read_group_new (\<lambda>r. \<forall>ms. r = Some ms \<longrightarrow> (\<forall>m\<in>set ms. x_task m \<noteq> FieldUUID j))"
  by (auto simp: meets_def read_group_new_def io_ok_def unannounced_def find_task_def
      split: list.splits dest!: in_set_takeD in_set_dropD)

lemma quiet_read_pel:
  "meets (unannounced j x) read_group_pel (\<lambda>r. \<forall>ms. r = Some ms \<longrightarrow> (\<forall>m\<in>set ms. x_task m \<noteq> FieldUUID j))"
  by (auto simp: meets_def read_group_pel_def query_def io_ok_def unannounced_def find_task_def
      split: list.splits if_splits dest!: in_set_takeD)

lemma quiet_messages:
  "(\<forall>m\<in>set ms. x_task m \<noteq> FieldUUID j) \<Longrightarrow> stable (keeps (unannounced j x)) (handleStreamMessages ms now)"
  unfolding handleStreamMessages_def by (intro keeping.stable_for_each quiet_handle_message) blast

lemma quiet_after_read:
  assumes "meets (unannounced j x) m (\<lambda>r. \<forall>ms. r = Some ms \<longrightarrow> (\<forall>m\<in>set ms. x_task m \<noteq> FieldUUID j))"
  shows "stable (keeps (unannounced j x))
    (do { r \<leftarrow> m; case r of None \<Rightarrow> ret () | Some ms \<Rightarrow> handleStreamMessages ms now })"
  by (rule meets_keeps [where Q = "\<lambda>_. True"], rule meets_bind [OF assms], rule meets_stable)
    (auto split: option.splits intro!: keeping.stable_ret quiet_messages)

lemma quiet_processAssignments: "stable (keeps (unannounced j x)) (processAssignments now)"
proof -
  have clean: "stable (keeps (unannounced j x)) cleanupInconsistentAgents"
    unfolding cleanupInconsistentAgents_def cleanup_agent_def sql_agent_offline_def by (intro quiet_calls)
  have pel: "stable (keeps (unannounced j x)) (processPendingAssignments now)"
    unfolding processPendingAssignments_def by (rule quiet_after_read [OF quiet_read_pel])
  show ?thesis
    unfolding processAssignments_def
    by (rule keeping.stable_bind [OF clean], rule keeping.stable_bind [OF pel],
        rule quiet_after_read [OF quiet_read_new])
qed

text \<open>
  C30: For every fault script, the assign loop leaves a task alone unless a message on the pending
  stream names it: there is no other way into assignment.
\<close>

theorem unannounced_task_is_never_assigned:
  assumes "\<forall>m\<in>set (pending_new s) \<union> set (pending_pel s). x_task m \<noteq> FieldUUID tid"
  shows "find_task tid (snd (run_state (processAssignments now) s)) = find_task tid s"
  using stableD [OF quiet_processAssignments [of tid "find_task tid s" now], of s] assms
  by (auto simp: keeps_def unannounced_def)


section \<open>Pages of the history\<close>

lemma concat_pages: "concat (map (\<lambda>k. take n (drop (k * n) xs)) [0..<m]) = take (m * n) xs"
proof (induction m)
  case (Suc m)
  then show ?case using take_add [of "m * n" n xs] by (simp add: add.commute)
qed simp

definition history_sorted :: "string \<Rightarrow> swarm \<Rightarrow> task list" where
  "history_sorted repo s = sort_key (\<lambda>t. - t_created_at t) (history_rows repo s)"

definition history_page :: "string \<Rightarrow> nat \<Rightarrow> nat \<Rightarrow> swarm \<Rightarrow> task_summary list" where
  "history_page repo n k s = map (summary_of s) (take n (drop (k * n) (history_sorted repo s)))"

text \<open>
  Without faults, the pages of the task history for a page size are consecutive and
  complete: each call returns its page and the total, and the first pages together are the newest
  terminal tasks in order, none missing and none twice.
\<close>

lemma history_pages_partition:
  assumes "faults s = []" and "0 < n"
  shows "run_state (ListTaskHistory repo (int n) (int (k * n))) s =
      (Inr (history_page repo n k s, length (history_sorted repo s)), s) \<and>
    concat (map (\<lambda>k. history_page repo n k s) [0..<m]) =
      map (summary_of s) (take (m * n) (history_sorted repo s))"
proof
  show "run_state (ListTaskHistory repo (int n) (int (k * n))) s =
      (Inr (history_page repo n k s, length (history_sorted repo s)), s)"
    using assms zero_le_imp_eq_int [of "int k * int n"]
    by (auto simp: ListTaskHistory_def history_page_def history_sorted_def nat_mult_distrib not_less)
  show "concat (map (\<lambda>k. history_page repo n k s) [0..<m]) =
      map (summary_of s) (take (m * n) (history_sorted repo s))"
    unfolding history_page_def map_concat [symmetric] concat_pages [symmetric] by (simp add: map_concat o_def)
qed

section \<open>Creating tasks\<close>

text \<open>
  Without faults and with a fresh identifier, creating a task appends one submitted row with
  no retries and no team, and one message naming it to the pending stream.
\<close>

lemma CreateTask_announces:
  assumes "faults s = []" and "i \<notin> t_id ` set (tasks s)"
  shows "case run_state (CreateTask us repo title desc by i now) s of (r, t) \<Rightarrow>
    (\<exists>x. r = Inr x \<and> tasks t = tasks s @ [x] \<and> t_id x = i \<and> t_status x = StatusSubmitted \<and>
       t_retry_count x = 0 \<and> t_assigned_team_id x = None \<and> t_failure_reason x = None) \<and>
    pending_new t = pending_new s @ [\<lparr>x_id = next_msg s, x_task = FieldUUID i\<rparr>] \<and>
    g_tasks_active (gauges t) = g_tasks_active (gauges s) + 1"
  using assms
  by (auto simp: CreateTask_def resolveRepo_def Let_def sql_insert_task_def new_task_def xadd_pending_def
      add_active_def split: prod.splits option.splits)

section \<open>Witnesses\<close>

definition demo_task :: task where
  "demo_task = (new_task 7 ''repo'' ''title'' ''fix the parser'' 1 0)\<lparr>t_status := StatusPlanning,
     t_assigned_team_id := Some 5, t_timeout_at := Some 10\<rparr>"

definition demo_swarm :: swarm where
  "demo_swarm = init_swarm\<lparr>
     tasks := [demo_task, (new_task 8 ''repo'' ''title'' ''add a test'' 1 0)\<lparr>t_status := StatusFailed\<rparr>,
       new_task 9 ''repo'' ''title'' ''rename it'' 1 0],
     teams := [\<lparr>m_id = 5, m_name = ''t'', m_lead_agent_id = None, m_status = TeamBusy,
       m_agent_ids = Some [3], m_formed_at = 0\<rparr>],
     agents := [\<lparr>a_id = 3, a_role = ''qa'', a_team_id = Some 5, a_status = AgentBusy, a_elo_score = 1200,
       a_tasks_done = 0, a_tasks_rated = 0, a_avg_rating = 0, a_hostname = [], a_version = [],
       a_tier = TierStandard, a_registered_at = 0\<rparr>]\<rparr>"

lemmas demo_defs = demo_swarm_def demo_task_def init_swarm_def new_task_def

lemma demo_basic: "faults demo_swarm = []" "find_task 7 demo_swarm = Some demo_task"
  "t_assigned_team_id demo_task = Some 5" "db_wf demo_swarm"
  by (simp_all add: demo_defs find_task_def wf_defs coalesce_def)

theorem CompleteTask_and_FailTask_release_witness:
  "team_released 5 demo_swarm (snd (run_state (CompleteTask 7 20) demo_swarm)) \<and>
   team_released 5 demo_swarm (snd (run_state (FailTask 7 ''crash'' 20) demo_swarm)) \<and>
   map a_status (agents (snd (run_state (FailTask 7 ''crash'' 20) demo_swarm))) = [AgentOffline]"
proof -
  note effect = CompleteTask_and_FailTask_release [OF demo_basic(1-3), of 20 "''crash''"]
  then have "team_released 5 demo_swarm (snd (run_state (FailTask 7 ''crash'' 20) demo_swarm))" by (simp add: split_beta)
  moreover from this have "map a_status (agents (snd (run_state (FailTask 7 ''crash'' 20) demo_swarm))) = [AgentOffline]"
    unfolding team_released_def by (simp add: demo_defs)
  ultimately show ?thesis using effect by (simp add: split_beta)
qed

theorem checkTimeouts_effect_witness:
  "map t_status (tasks (snd (run_state (checkTimeouts 20) demo_swarm))) =
     [StatusTimedOut, StatusFailed, StatusSubmitted] \<and>
   team_down 5 (snd (run_state (checkTimeouts 20) demo_swarm))"
  using checkTimeouts_effect [OF demo_basic(1,4), of 20]
  by (auto simp: demo_defs timed_out_at_def fail_row_def)

theorem RetryTask_behaviour_witness:
  "fst (run_state (RetryTask 7) demo_swarm) = Inl (ErrNotRetryable StatusPlanning) \<and>
   run_state (RetryTask 8) demo_swarm = (Inr (), retried 8 1 demo_swarm)"
  using RetryTask_behaviour [OF demo_basic(1), of 7] RetryTask_behaviour [OF demo_basic(1), of 8]
  by (simp add: demo_defs find_task_def MaxRetries_def)

theorem handle_message_effect_witness:
  "team_create_stream (snd (run_state (handle_message 20 \<lparr>x_id = 0, x_task = FieldUUID 9\<rparr>) demo_swarm)) = [9]"
  using handle_message_effect [OF demo_basic(1), of 20 "\<lparr>x_id = 0, x_task = FieldUUID 9\<rparr>"]
  by (simp add: demo_defs find_task_def placed_def idle_team_def team_load_def MaxTeams_def
      warmPoolTeamIDs_def requested_def recently_requested_def xack_pending_def)

theorem unannounced_task_is_never_assigned_witness:
  "find_task 9 (snd (run_state (processAssignments 20) demo_swarm)) = find_task 9 demo_swarm"
  by (rule unannounced_task_is_never_assigned) (simp add: demo_defs)

end
