(* ===== verification/AgentAuth.thy ===== *)
theory AgentAuth
  imports TaskCorrect
begin

text \<open>
  \<open>internal/swarm/auth\<close>: tokens of agents.  \<open>Register\<close> signs a JWT and stores its hash under the
  agent's text in Redis, \<open>ValidateToken\<close> checks signature, expiry, type and stored hash, \<open>Revoke\<close>
  deletes the key.  The JWT library and SHA-256 are parameters: \<open>sign\<close>, \<open>verify\<close> and \<open>sha\<close>.
\<close>

definition AgentTokenTTL :: time where "AgentTokenTTL = 3 * hour"

record agent_claims =
  cl_subject :: uuid_text
  cl_type :: string
  cl_role :: string
  cl_team :: uuid_text
  cl_issued_at :: time
  cl_expires_at :: time
  cl_id :: uuid

record register_request =
  rq_agent :: uuid_text
  rq_role :: string
  rq_team :: uuid_text
  rq_repo :: string
  rq_hostname :: string
  rq_version :: string

record register_response =
  rs_token :: string
  rs_agent :: uuid_text
  rs_expires_in :: int

text \<open>
  \<open>uuid.Parse\<close>, and the common \<open>id, _ := uuid.Parse(...)\<close>, which gives the nil UUID on error.  (Of a text of
  the right length with a bad digit the library returns the bytes before that digit; this is not
  distinguished from nil.)
\<close>

fun parse_uuid :: "uuid_text \<Rightarrow> uuid option" where
  "parse_uuid (NotUUID x) = None"
| "parse_uuid (Canonical u) = Some u"
| "parse_uuid (Variant u x) = Some u"

definition parse_or_nil :: "uuid_text \<Rightarrow> uuid" where
  "parse_or_nil x = (case parse_uuid x of None \<Rightarrow> uuid_nil | Some u \<Rightarrow> u)"

definition set_token :: "uuid_text \<Rightarrow> token_record \<Rightarrow> swarm \<Rightarrow> swarm" where
  "set_token k r s = s\<lparr>tokens := (tokens s)(k \<mapsto> r)\<rparr>"

text \<open>Redis drops a key when its time to live is over.\<close>

definition live_token :: "time \<Rightarrow> uuid_text \<Rightarrow> swarm \<Rightarrow> token_record option" where
  "live_token now k s = (case tokens s k of
       None \<Rightarrow> None | Some r \<Rightarrow> if now < tk_expires r then Some r else None)"

text \<open>\<open>jwt.NewNumericDate\<close> keeps whole seconds.\<close>

definition whole_second :: "time \<Rightarrow> time" where
  "whole_second t = t div second * second"

definition claims_for :: "uuid_text \<Rightarrow> register_request \<Rightarrow> uuid \<Rightarrow> time \<Rightarrow> agent_claims" where
  "claims_for subject req jti now = \<lparr>cl_subject = subject, cl_type = ''agent'', cl_role = rq_role req,
     cl_team = rq_team req, cl_issued_at = whole_second now,
     cl_expires_at = whole_second (now + AgentTokenTTL), cl_id = jti\<rparr>"

definition subject_of :: "(uuid \<Rightarrow> string) \<Rightarrow> register_request \<Rightarrow> uuid \<Rightarrow> uuid_text" where
  "subject_of us req fresh =
     (if rq_agent req = NotUUID [] then NotUUID (''agent-'' @ us fresh) else rq_agent req)"

definition Register ::
  "(agent_claims \<Rightarrow> string option) \<Rightarrow> (string \<Rightarrow> string) \<Rightarrow> (uuid \<Rightarrow> string) \<Rightarrow> register_request \<Rightarrow>
   uuid \<Rightarrow> uuid \<Rightarrow> time \<Rightarrow> (swarm_error + register_response) prog" where
  [op_defs]: "Register sign sha us req fresh jti now =
     (let agent = subject_of us req fresh in
      case sign (claims_for agent req jti now) of
        None \<Rightarrow> ret (Inl (ErrBadRequest ''signing agent JWT''))
      | Some tok \<Rightarrow> do {
          ok \<leftarrow> redis_do (set_token agent \<lparr>tk_issued_at = now div second, tk_role = rq_role req,
                 tk_team = rq_team req, tk_hash = sha tok, tk_expires = now + AgentTokenTTL\<rparr>);
          ret (if ok then Inr \<lparr>rs_token = tok, rs_agent = agent, rs_expires_in = AgentTokenTTL div second\<rparr>
               else Inl ErrRedis) })"

definition ValidateToken ::
  "(time \<Rightarrow> string \<Rightarrow> agent_claims option) \<Rightarrow> (string \<Rightarrow> string) \<Rightarrow> string \<Rightarrow> time \<Rightarrow> (swarm_error + agent_claims) prog" where
  [op_defs]: "ValidateToken verify sha tok now = (case verify now tok of
       None \<Rightarrow> ret (Inl (ErrBadRequest ''invalid agent token''))
     | Some c \<Rightarrow>
         if cl_type c \<noteq> ''agent'' then ret (Inl (ErrBadRequest ''token type''))
         else do {
           r \<leftarrow> query (live_token now (cl_subject c));
           ret (case r of
               None \<Rightarrow> Inl ErrRedis
             | Some None \<Rightarrow> Inl (ErrBadRequest ''agent token revoked or expired'')
             | Some (Some t) \<Rightarrow>
                 if sha tok \<noteq> tk_hash t then Inl (ErrBadRequest ''token hash mismatch'') else Inr c) })"

definition Revoke :: "uuid_text \<Rightarrow> (swarm_error + unit) prog" where
  [op_defs]: "Revoke agent = do {
     ok \<leftarrow> redis_do (\<lambda>s. s\<lparr>tokens := (tokens s)(agent := None)\<rparr>);
     ret (if ok then Inr () else Inl ErrRedis) }"

definition ValidateServiceSecret :: "string \<Rightarrow> string \<Rightarrow> bool" where
  "ValidateServiceSecret service_secret given \<longleftrightarrow> service_secret \<noteq> [] \<and> given = service_secret"

section \<open>Middleware\<close>

text \<open>A response: an HTTP status without, or with, a value of the handler.\<close>

datatype 'b resp = Fail nat | Reply nat 'b

fun status_of :: "'b resp \<Rightarrow> nat" where
  "status_of (Fail n) = n"
| "status_of (Reply n b) = n"

definition extractBearerToken :: "string \<Rightarrow> string" where
  "extractBearerToken header =
     (if header = [] then []
      else let parts = split_n (CHR '' '') 2 header in
        if length parts \<noteq> 2 \<or> to_lower (parts ! 0) \<noteq> ''bearer'' then [] else parts ! 1)"

definition RequireAgentToken ::
  "(time \<Rightarrow> string \<Rightarrow> agent_claims option) \<Rightarrow> (string \<Rightarrow> string) \<Rightarrow> string \<Rightarrow> time \<Rightarrow>
   (agent_claims \<Rightarrow> 'b resp prog) \<Rightarrow> 'b resp prog" where
  [op_defs]: "RequireAgentToken verify sha header now next =
     (let tok = extractBearerToken header in
      if tok = [] then ret (Fail 401)
      else do {
        r \<leftarrow> ValidateToken verify sha tok now;
        case r of Inl _ \<Rightarrow> ret (Fail 401) | Inr c \<Rightarrow> next c })"

definition RequireServiceSecret ::
  "string \<Rightarrow> string \<Rightarrow> ('s, 'b resp) state \<Rightarrow> ('s, 'b resp) state" where
  [op_defs]: "RequireServiceSecret service_secret given next =
     (if ValidateServiceSecret service_secret given then next else ret (Fail 403))"


section \<open>Correctness\<close>

lemma whole_second_le: "whole_second t \<le> t"
proof -
  have "t = t div second * second + t mod second" by simp
  moreover have "0 \<le> t mod second" by (simp add: second_def)
  ultimately show ?thesis unfolding whole_second_def by linarith
qed

lemma run_Register:
  assumes "faults s = []"
  shows "run_state (Register sign sha us req fresh jti now) s =
    (let agent = subject_of us req fresh in
     case sign (claims_for agent req jti now) of
       None \<Rightarrow> (Inl (ErrBadRequest ''signing agent JWT''), s)
     | Some tok \<Rightarrow> (Inr \<lparr>rs_token = tok, rs_agent = agent, rs_expires_in = AgentTokenTTL div second\<rparr>,
         set_token agent \<lparr>tk_issued_at = now div second, tk_role = rq_role req, tk_team = rq_team req,
           tk_hash = sha tok, tk_expires = now + AgentTokenTTL\<rparr> s))"
  using assms by (simp add: Register_def Let_def split: option.splits)

lemma run_ValidateToken:
  assumes "faults s = []"
  shows "run_state (ValidateToken verify sha tok now) s = ((case verify now tok of
      None \<Rightarrow> Inl (ErrBadRequest ''invalid agent token'')
    | Some c \<Rightarrow>
        if cl_type c \<noteq> ''agent'' then Inl (ErrBadRequest ''token type'')
        else case live_token now (cl_subject c) s of
            None \<Rightarrow> Inl (ErrBadRequest ''agent token revoked or expired'')
          | Some t \<Rightarrow> if sha tok \<noteq> tk_hash t then Inl (ErrBadRequest ''token hash mismatch'') else Inr c), s)"
  using assms by (auto simp: ValidateToken_def split: option.splits)

definition accepts :: "(swarm_error + 'a) \<times> swarm \<Rightarrow> bool" where
  "accepts r \<longleftrightarrow> (\<exists>x. fst r = Inr x)"

text \<open>
  C39: The life of an agent token, for any JWT library that accepts what it signed before the expiry
  and rejects it afterwards.  Without faults a registered token is accepted with exactly the claims it
  was issued for until the expiry, and never after it; it is rejected once it is revoked, and once the
  same agent has registered again with a token of another hash.
\<close>

theorem agent_token_lifecycle:
  assumes jwt: "\<And>c tok t. sign c = Some tok \<Longrightarrow> verify t tok = (if t < cl_expires_at c then Some c else None)"
    and ok: "faults s = []" and first: "run_state (Register sign sha us req fresh jti now) s = (Inr r, s1)"
    and same: "rq_agent req' = rq_agent req" "rq_agent req \<noteq> NotUUID []"
    and second: "run_state (Register sign sha us req' fresh' jti' now') s1 = (Inr r', s2)"
    and other: "sha (rs_token r') \<noteq> sha (rs_token r)"
  shows "run_state (ValidateToken verify sha (rs_token r) t) s1 =
      (if t < whole_second (now + AgentTokenTTL) then Inr (claims_for (rs_agent r) req jti now)
       else Inl (ErrBadRequest ''invalid agent token''), s1) \<and>
    \<not> accepts (run_state (ValidateToken verify sha (rs_token r) t) (snd (run_state (Revoke (rs_agent r)) s1))) \<and>
    \<not> accepts (run_state (ValidateToken verify sha (rs_token r) t) s2)"
proof -
  let ?c = "claims_for (rq_agent req) req jti now"
  have subject: "subject_of us req fresh = rq_agent req" "subject_of us req' fresh' = rq_agent req"
    using same by (simp_all add: subject_of_def)
  obtain tok where tok: "sign ?c = Some tok" "rs_token r = tok" "rs_agent r = rq_agent req"
    and s1: "s1 = set_token (rq_agent req) \<lparr>tk_issued_at = now div second, tk_role = rq_role req,
      tk_team = rq_team req, tk_hash = sha tok, tk_expires = now + AgentTokenTTL\<rparr> s"
    using first ok by (auto simp: run_Register subject Let_def split: option.splits)
  have f1: "faults s1 = []" using ok by (simp add: s1 set_token_def)
  have verify: "verify t tok = (if t < whole_second (now + AgentTokenTTL) then Some ?c else None)"
    using jwt [OF tok(1)] by (simp add: claims_for_def)
  have live: "live_token t (rq_agent req) s1 \<noteq> None" if "t < whole_second (now + AgentTokenTTL)"
    using that whole_second_le [of "now + AgentTokenTTL"] by (simp add: live_token_def s1 set_token_def)
  have hash: "tk_hash x = sha tok" if "live_token t (rq_agent req) s1 = Some x" for x
    using that by (auto simp: live_token_def s1 set_token_def split: if_splits)
  have "run_state (ValidateToken verify sha tok t) s1 =
      (if t < whole_second (now + AgentTokenTTL) then Inr ?c else Inl (ErrBadRequest ''invalid agent token''), s1)"
    using live hash by (auto simp: run_ValidateToken f1 verify claims_for_def split: option.splits)
  moreover have "\<not> accepts (run_state (ValidateToken verify sha tok t) (snd (run_state (Revoke (rq_agent req)) s1)))"
    by (simp add: Revoke_def f1 run_ValidateToken verify accepts_def live_token_def claims_for_def)
  moreover have "\<not> accepts (run_state (ValidateToken verify sha tok t) s2)"
  proof -
    obtain tok' where "rs_token r' = tok'"
      and s2: "s2 = set_token (rq_agent req) \<lparr>tk_issued_at = now' div second, tk_role = rq_role req',
        tk_team = rq_team req', tk_hash = sha tok', tk_expires = now' + AgentTokenTTL\<rparr> s1"
      using second f1 by (auto simp: run_Register subject Let_def split: option.splits)
    then have "tk_hash x \<noteq> sha tok" if "live_token t (rq_agent req) s2 = Some x" for x
      using that other tok(2) by (auto simp: live_token_def set_token_def split: if_splits)
    moreover have "faults s2 = []" using f1 by (simp add: s2 set_token_def)
    ultimately show ?thesis
      by (auto simp: run_ValidateToken verify accepts_def claims_for_def split: option.splits)
  qed
  ultimately show ?thesis using tok by simp
qed

section \<open>Witnesses\<close>

definition demo_request :: register_request where
  "demo_request = \<lparr>rq_agent = Canonical 3, rq_role = ''qa'', rq_team = Canonical 5, rq_repo = [],
     rq_hostname = ''pod'', rq_version = ''1''\<rparr>"

definition demo_sign :: "agent_claims \<Rightarrow> string option" where
  "demo_sign c = (if c = claims_for (Canonical 3) demo_request 20 0 then Some ''first''
     else if c = claims_for (Canonical 3) demo_request 21 hour then Some ''second'' else None)"

definition demo_verify :: "time \<Rightarrow> string \<Rightarrow> agent_claims option" where
  "demo_verify t tok =
     (if tok = ''first'' \<and> t < whole_second AgentTokenTTL then Some (claims_for (Canonical 3) demo_request 20 0)
      else if tok = ''second'' \<and> t < whole_second (hour + AgentTokenTTL)
      then Some (claims_for (Canonical 3) demo_request 21 hour) else None)"

lemma demo_jwt:
  "demo_sign c = Some tok \<Longrightarrow> demo_verify t tok = (if t < cl_expires_at c then Some c else None)"
  by (auto simp: demo_sign_def demo_verify_def claims_for_def split: if_splits)

theorem agent_token_lifecycle_witness:
  "fst (run_state (ValidateToken demo_verify id ''first'' hour)
     (snd (run_state (Register demo_sign id (\<lambda>_. []) demo_request 0 20 0) init_swarm))) =
     Inr (claims_for (Canonical 3) demo_request 20 0)"
proof -
  let ?s1 = "snd (run_state (Register demo_sign id (\<lambda>_. []) demo_request 0 20 0) init_swarm)"
  let ?s2 = "snd (run_state (Register demo_sign id (\<lambda>_. []) demo_request 0 21 hour) ?s1)"
  have sub: "subject_of us demo_request f = Canonical 3" for us f
    by (simp add: subject_of_def demo_request_def)
  have ne: "claims_for (Canonical 3) demo_request 21 hour \<noteq> claims_for (Canonical 3) demo_request 20 0"
    by (simp add: claims_for_def)
  have f: "faults init_swarm = []" by (simp add: init_swarm_def)
  have 1: "run_state (Register demo_sign id (\<lambda>_. []) demo_request 0 20 0) init_swarm =
      (Inr \<lparr>rs_token = ''first'', rs_agent = Canonical 3, rs_expires_in = AgentTokenTTL div second\<rparr>, ?s1)"
    by (simp add: run_Register f sub Let_def demo_sign_def)
  have f1: "faults ?s1 = []" by (simp add: run_Register f sub Let_def demo_sign_def set_token_def)
  have 2: "run_state (Register demo_sign id (\<lambda>_. []) demo_request 0 21 hour) ?s1 =
      (Inr \<lparr>rs_token = ''second'', rs_agent = Canonical 3, rs_expires_in = AgentTokenTTL div second\<rparr>, ?s2)"
    using ne by (simp add: run_Register [OF f1] sub Let_def demo_sign_def)
  have lt: "hour < whole_second (0 + AgentTokenTTL)"
    by (simp add: whole_second_def AgentTokenTTL_def time_units)
  from agent_token_lifecycle [where t = hour, OF demo_jwt f 1 refl _ 2]
  show ?thesis using lt by (simp add: demo_request_def)
qed

end
