(* ===== verification/Memory.thy ===== *)
theory Memory
  imports TaskStore
begin

text \<open>
  \<open>internal/swarm/memory_hitl.go\<close> (medium-term memory) and \<open>internal/swarm/memory_insights.go\<close>
  (insights extracted from consensus decisions): upserts, recall, pruning, and the extraction that
  runs after each consensus event.  The JSON metadata column is not modelled.  The map of provider
  scores is the list of its entries in iteration order.
\<close>

section \<open>Messages\<close>

definition percent :: "real \<Rightarrow> string" where
  "percent x = fmt0f (x * 100) @ ''%''"

section \<open>Medium-term memory\<close>

definition mtm_key :: "mtm_insight \<Rightarrow> string \<times> string \<times> string" where
  "mtm_key i = (mi_repo i, mi_role i, mi_key i)"

definition sql_upsert_mtm :: "mtm_insight \<Rightarrow> stmt" where
  [sql_defs]: "sql_upsert_mtm i s =
     (if mtm_key i \<in> mtm_key ` set (mtm s) then
        Some (1, s\<lparr>mtm := update_where (\<lambda>r. mtm_key r = mtm_key i)
          (\<lambda>r. r\<lparr>mi_insight := mi_insight i, mi_confidence := max (mi_confidence r) (mi_confidence i),
                mi_updated_at := mi_updated_at i\<rparr>) (mtm s)\<rparr>)
      else if mi_id i \<in> mi_id ` set (mtm s) then None
      else Some (1, s\<lparr>mtm := mtm s @ [i]\<rparr>))"

definition StoreMTM :: "mtm_insight \<Rightarrow> uuid \<Rightarrow> time \<Rightarrow> (swarm_error + unit) prog" where
  [op_defs]: "StoreMTM ins new_id now =
     (let i = ins\<lparr>mi_updated_at := now,
            mi_id := (if mi_id ins = uuid_nil then new_id else mi_id ins),
            mi_created_at := (if mi_created_at ins = time_zero then now else mi_created_at ins)\<rparr> in do {
        r \<leftarrow> exec (sql_upsert_mtm i);
        ret (case r of None \<Rightarrow> Inl (ErrDB ''storing MTM insight'') | Some _ \<Rightarrow> Inr ()) })"

definition RecallMTM :: "string \<Rightarrow> string \<Rightarrow> int \<Rightarrow> (swarm_error + mtm_insight list) prog" where
  [op_defs]: "RecallMTM repo role limit = do {
     r \<leftarrow> query (\<lambda>s. take (nat (if limit \<le> 0 then 10 else limit))
            (sort_key (\<lambda>i. - mi_updated_at i)
              (filter (\<lambda>i. mi_repo i = repo \<and> mi_role i = role) (mtm s))));
     ret (case r of None \<Rightarrow> Inl (ErrDB ''recalling MTM'') | Some is \<Rightarrow> Inr is) }"

definition sql_prune_mtm :: "time \<Rightarrow> stmt" where
  [sql_defs]: "sql_prune_mtm cutoff s =
     Some (count_where (\<lambda>i. mi_updated_at i < cutoff) (mtm s),
       s\<lparr>mtm := delete_where (\<lambda>i. mi_updated_at i < cutoff) (mtm s)\<rparr>)"

definition PruneStaleMTM :: "time \<Rightarrow> time \<Rightarrow> (swarm_error + nat) prog" where
  [op_defs]: "PruneStaleMTM olderThan now = do {
     r \<leftarrow> exec (sql_prune_mtm (now - olderThan));
     ret (case r of None \<Rightarrow> Inl (ErrDB ''pruning stale MTM'') | Some n \<Rightarrow> Inr n) }"

section \<open>Consensus insights\<close>

definition InsightProviderReliability :: string where
  "InsightProviderReliability = ''provider_reliability''"
definition InsightStrategyEffective :: string where
  "InsightStrategyEffective = ''strategy_effectiveness''"
definition InsightProviderAgreement :: string where
  "InsightProviderAgreement = ''provider_agreement''"
definition InsightQualitySignal :: string where
  "InsightQualitySignal = ''quality_signal''"

definition insight_key :: "consensus_insight \<Rightarrow> string \<times> string \<times> string" where
  "insight_key i = (ci_repo i, ci_category i, ci_key i)"

definition merge_insight :: "consensus_insight \<Rightarrow> consensus_insight \<Rightarrow> consensus_insight" where
  "merge_insight i r = r\<lparr>
     ci_insight := (if ci_confidence i \<ge> ci_confidence r then ci_insight i else ci_insight r),
     ci_confidence := max (ci_confidence r) (ci_confidence i),
     ci_task := ci_task i, ci_thread := ci_thread i, ci_strategy := ci_strategy i,
     ci_provider := ci_provider i, ci_updated_at := ci_updated_at i\<rparr>"

definition sql_upsert_insight :: "consensus_insight \<Rightarrow> stmt" where
  [sql_defs]: "sql_upsert_insight i s =
     (if insight_key i \<in> insight_key ` set (insights s) then
        Some (1, s\<lparr>insights := update_where (\<lambda>r. insight_key r = insight_key i) (merge_insight i)
          (insights s)\<rparr>)
      else if ci_id i \<in> ci_id ` set (insights s) then None
      else Some (1, s\<lparr>insights := insights s @ [i]\<rparr>))"

definition StoreConsensusInsight :: "consensus_insight \<Rightarrow> uuid \<Rightarrow> time \<Rightarrow> (swarm_error + unit) prog" where
  [op_defs]: "StoreConsensusInsight ins new_id now =
     (let i = ins\<lparr>ci_updated_at := now,
            ci_id := (if ci_id ins = uuid_nil then new_id else ci_id ins),
            ci_created_at := (if ci_created_at ins = time_zero then now else ci_created_at ins)\<rparr> in do {
        r \<leftarrow> exec (sql_upsert_insight i);
        ret (case r of None \<Rightarrow> Inl (ErrDB ''storing consensus insight'') | Some _ \<Rightarrow> Inr ()) })"

definition RecallConsensusInsights ::
  "string \<Rightarrow> string \<Rightarrow> int \<Rightarrow> (swarm_error + consensus_insight list) prog" where
  [op_defs]: "RecallConsensusInsights repo category limit = do {
     r \<leftarrow> query (\<lambda>s. take (nat (if limit \<le> 0 then 20 else limit))
            (sort_key (\<lambda>i. - ci_confidence i) (sort_key (\<lambda>i. - ci_updated_at i)
              (filter (\<lambda>i. ci_repo i = repo \<and> (category = '''' \<or> ci_category i = category)) (insights s)))));
     ret (case r of None \<Rightarrow> Inl (ErrDB ''recalling consensus insights'') | Some is \<Rightarrow> Inr is) }"

record reliability =
  rl_provider :: string
  rl_win_count :: nat
  rl_total_appear :: nat
  rl_avg_confidence :: real
  rl_win_rate :: real
  rl_last_seen :: time

definition reliability_of :: "consensus_insight list \<Rightarrow> string \<Rightarrow> reliability" where
  "reliability_of rows p =
     (let grp = filter (\<lambda>i. ci_provider i = p) rows;
          wins = count_where (\<lambda>i. ci_provider i = ci_provider i) grp in
      \<lparr>rl_provider = p, rl_win_count = wins, rl_total_appear = length grp,
       rl_avg_confidence = average (map ci_confidence grp),
       rl_win_rate = (if length grp > 0 then real wins / real (length grp) else 0),
       rl_last_seen = Max (ci_updated_at ` set grp)\<rparr>)"

definition GetProviderReliabilityStats :: "string \<Rightarrow> (swarm_error + reliability list) prog" where
  [op_defs]: "GetProviderReliabilityStats repo = do {
     r \<leftarrow> query (\<lambda>s.
            let rows = filter (\<lambda>i. ci_repo i = repo \<and> ci_category i = InsightProviderReliability) (insights s) in
            sort_key (\<lambda>x. - int (rl_win_count x)) (map (reliability_of rows) (remdups (map ci_provider rows))));
     ret (case r of None \<Rightarrow> Inl (ErrDB ''querying provider reliability'') | Some xs \<Rightarrow> Inr xs) }"

definition sql_prune_insights :: "time \<Rightarrow> stmt" where
  [sql_defs]: "sql_prune_insights cutoff s =
     Some (count_where (\<lambda>i. ci_updated_at i < cutoff) (insights s),
       s\<lparr>insights := delete_where (\<lambda>i. ci_updated_at i < cutoff) (insights s)\<rparr>)"

definition PruneStaleInsights :: "time \<Rightarrow> time \<Rightarrow> (swarm_error + nat) prog" where
  [op_defs]: "PruneStaleInsights olderThan now = do {
     r \<leftarrow> exec (sql_prune_insights (now - olderThan));
     ret (case r of None \<Rightarrow> Inl (ErrDB ''pruning stale insights'') | Some n \<Rightarrow> Inr n) }"

section \<open>Extraction from a consensus event\<close>

record consensus_event =
  ce_repo :: string
  ce_task :: string
  ce_thread :: string
  ce_strategy :: string
  ce_provider :: string
  ce_model :: string
  ce_confidence :: real
  ce_scores :: "(string \<times> real) list"
  ce_judges :: int
  ce_agreement :: real

definition insight_for :: "consensus_event \<Rightarrow> string \<Rightarrow> string \<Rightarrow> string \<Rightarrow> real \<Rightarrow> string \<Rightarrow> consensus_insight" where
  "insight_for ev category key txt conf provider =
     \<lparr>ci_id = uuid_nil, ci_repo = ce_repo ev, ci_task = ce_task ev, ci_thread = ce_thread ev,
      ci_category = category, ci_key = key, ci_insight = txt, ci_confidence = conf,
      ci_strategy = ce_strategy ev, ci_provider = provider, ci_created_at = time_zero,
      ci_updated_at = time_zero\<rparr>"

definition winner_insight :: "consensus_event \<Rightarrow> consensus_insight option" where
  "winner_insight ev = (let p = ce_provider ev in
     if p \<noteq> '''' \<and> p \<noteq> ''consensus'' then Some (insight_for ev InsightProviderReliability (''winner:'' @ p)
       (p @ '' (model: '' @ ce_model ev @ '') won consensus with '' @ percent (ce_confidence ev) @
        '' confidence using '' @ ce_strategy ev @ '' strategy.'') (ce_confidence ev) p)
     else None)"

definition strategy_insight :: "consensus_event \<Rightarrow> consensus_insight" where
  "strategy_insight ev = insight_for ev InsightStrategyEffective
     (''strategy:'' @ ce_strategy ev @ '':task:'' @ take 8 (ce_task ev))
     (''Strategy '' @ ce_strategy ev @ '' selected '' @ ce_provider ev @ '' with '' @
      percent (ce_confidence ev) @ '' confidence.'') (ce_confidence ev) (ce_provider ev)"

definition agreement_level :: "real \<Rightarrow> string" where
  "agreement_level a = (if a < 1 / 2 then ''low'' else if a < 3 / 4 then ''moderate'' else ''high'')"

text \<open>The UTF-8 bytes of the dash in two of the messages.\<close>

definition em_dash :: string where
  "em_dash = [CHR 0xE2, CHR 0x80, CHR 0x94]"

definition agreement_insight :: "consensus_event \<Rightarrow> consensus_insight option" where
  "agreement_insight ev = (if ce_judges ev \<ge> 2 then Some (insight_for ev InsightProviderAgreement
       (''agreement:task:'' @ take 8 (ce_task ev))
       (''Multi-judge panel ('' @ show_int (ce_judges ev) @ '' judges) showed '' @
        agreement_level (ce_agreement ev) @ '' agreement ('' @ percent (ce_agreement ev) @ '') '' @
        em_dash @ '' winner: '' @ ce_provider ev @ ''.'') (ce_agreement ev) (ce_provider ev))
     else None)"

definition best_step :: "string \<times> real \<Rightarrow> string \<times> real \<Rightarrow> string \<times> real" where
  "best_step acc x = (if snd x > snd acc then x else acc)"

definition best_of :: "(string \<times> real) list \<Rightarrow> string \<times> real" where
  "best_of scores = foldl best_step ('''', 0) scores"

definition worst_of :: "(string \<times> real) list \<Rightarrow> real" where
  "worst_of scores = foldl (\<lambda>w x. if snd x < w then snd x else w) 1 scores"

definition quality_insight :: "consensus_event \<Rightarrow> consensus_insight option" where
  "quality_insight ev =
     (let scores = ce_scores ev; (bp, bs) = best_of scores; ws = worst_of scores in
      if length scores \<ge> 2 \<and> bs - ws > 2 / 10
      then Some (insight_for ev InsightQualitySignal (''quality:task:'' @ take 8 (ce_task ev))
        (''Provider quality spread of '' @ percent (bs - ws) @ '' '' @ em_dash @ '' '' @ bp @
         '' scored highest ('' @ percent bs @ ''), lowest was '' @ percent ws @ ''.'')
        (ce_confidence ev) bp)
      else None)"

text \<open>
  \<open>ExtractAndStoreInsights\<close>: the four insights in the order they are stored; storing errors are
  ignored.  The slice \<open>taskID[:8]\<close> panics for identifiers shorter than eight bytes, after the
  first insight has been stored.  \<open>ids\<close> are the identifiers \<open>uuid.New\<close> returns.
\<close>

definition store_opt :: "consensus_insight option \<Rightarrow> uuid \<Rightarrow> time \<Rightarrow> unit prog" where
  [op_defs]: "store_opt i new_id now = (case i of
       None \<Rightarrow> ret ()
     | Some x \<Rightarrow> do { _ \<leftarrow> StoreConsensusInsight x new_id now; ret () })"

definition ExtractAndStoreInsights ::
  "consensus_event \<Rightarrow> (nat \<Rightarrow> uuid) \<Rightarrow> time \<Rightarrow> (swarm_error + unit) prog" where
  [op_defs]: "ExtractAndStoreInsights ev ids now =
     (if ce_repo ev = '''' then ret (Inr ())
      else do {
        _ \<leftarrow> store_opt (winner_insight ev) (ids 0) now;
        if length (ce_task ev) < 8 then ret (Inl ErrPanic)
        else do {
          _ \<leftarrow> store_opt (Some (strategy_insight ev)) (ids 1) now;
          _ \<leftarrow> store_opt (agreement_insight ev) (ids 2) now;
          _ \<leftarrow> store_opt (quality_insight ev) (ids 3) now;
          ret (Inr ()) } })"

section \<open>Correctness\<close>

section \<open>Keys are unique\<close>

definition memory_ok :: "swarm \<Rightarrow> bool" where
  "memory_ok s \<longleftrightarrow> distinct (map mtm_key (mtm s)) \<and> distinct (map mi_id (mtm s)) \<and>
     distinct (map insight_key (insights s)) \<and> distinct (map ci_id (insights s))"

lemma book_free_memory: "book_free memory_ok"
  by (simp add: book_free_def memory_ok_def)

interpretation memo: swarm_store "keeps memory_ok"
  by (rule swarm_store_keeps) (rule book_free_memory)

lemma merge_keys: "insight_key (merge_insight i r) = insight_key r" "ci_id (merge_insight i r) = ci_id r"
  by (simp_all add: merge_insight_def insight_key_def)

lemma memory_upserts:
  "stmt_stable (keeps memory_ok) (sql_upsert_mtm i)"
  "stmt_stable (keeps memory_ok) (sql_upsert_insight c)"
  by (auto simp: stmt_stable_def keeps_def memory_ok_def sql_upsert_mtm_def sql_upsert_insight_def
      map_update_where merge_keys mtm_key_def split: if_splits)

lemma memory_prunes:
  "stmt_stable (keeps memory_ok) (sql_prune_mtm cutoff)"
  "stmt_stable (keeps memory_ok) (sql_prune_insights cutoff)"
  by (auto simp: stmt_stable_def keeps_def memory_ok_def sql_prune_mtm_def sql_prune_insights_def
      distinct_delete_where)

lemma stable_StoreConsensusInsight: "stable (keeps memory_ok) (StoreConsensusInsight c i now)"
  unfolding StoreConsensusInsight_def Let_def by (intro memo.stable_calls memory_upserts)

text \<open>
  Every operation of the memory service, whichever statements fail, keeps at most one
  medium-term memory per repository, role and key, at most one insight per repository, category and
  key, and unique identifiers.
\<close>

lemma memory_ops_keep_keys:
  "stable (keeps memory_ok) (StoreMTM m i now) \<and>
   stable (keeps memory_ok) (PruneStaleMTM age now) \<and>
   stable (keeps memory_ok) (StoreConsensusInsight c i now) \<and>
   stable (keeps memory_ok) (ExtractAndStoreInsights ev ids now) \<and>
   stable (keeps memory_ok) (PruneStaleInsights age now)"
  unfolding StoreMTM_def PruneStaleMTM_def ExtractAndStoreInsights_def store_opt_def PruneStaleInsights_def Let_def
  by (intro conjI memo.stable_calls memory_upserts memory_prunes stable_StoreConsensusInsight)

section \<open>Store, then look up\<close>

definition find_mtm :: "string \<times> string \<times> string \<Rightarrow> swarm \<Rightarrow> mtm_insight option" where
  "find_mtm k s = List.find (\<lambda>r. mtm_key r = k) (mtm s)"

definition mtm_merge :: "mtm_insight \<Rightarrow> time \<Rightarrow> mtm_insight \<Rightarrow> mtm_insight" where
  "mtm_merge ins now r = r\<lparr>mi_insight := mi_insight ins,
     mi_confidence := max (mi_confidence r) (mi_confidence ins), mi_updated_at := now\<rparr>"

lemma mtm_merge_key [simp]: "mtm_key (mtm_merge ins now r) = mtm_key r"
  by (simp add: mtm_merge_def mtm_key_def)

lemma find_mtm_merged:
  "find_mtm k (s\<lparr>mtm := update_where (\<lambda>r. mtm_key r = k') (mtm_merge ins now) (mtm s)\<rparr>) =
   (if k = k' then map_option (mtm_merge ins now) (find_mtm k s) else find_mtm k s)"
  by (cases "List.find (\<lambda>r. mtm_key r = k) (mtm s)")
    (auto simp: find_mtm_def find_update_where dest: find_Some_in)

text \<open>
  Without faults, storing a memory and looking it up gives it back: a new key gets a row with
  the fresh identifier, a known key keeps its identifier and creation time, takes the new text and
  the larger confidence, and every other key is unchanged.
\<close>

lemma StoreMTM_lookup:
  assumes "faults s = []" and "mi_id ins = uuid_nil" and "i \<notin> mi_id ` set (mtm s)"
  shows "\<exists>t. run_state (StoreMTM ins i now) s = (Inr (), t) \<and>
    (\<forall>k. find_mtm k t = (if k \<noteq> mtm_key ins then find_mtm k s
       else case find_mtm k s of
           Some old \<Rightarrow> Some (mtm_merge ins now old)
         | None \<Rightarrow> Some (ins\<lparr>mi_updated_at := now, mi_id := i,
             mi_created_at := (if mi_created_at ins = time_zero then now else mi_created_at ins)\<rparr>)))"
proof -
  let ?new = "ins\<lparr>mi_updated_at := now, mi_id := i,
    mi_created_at := (if mi_created_at ins = time_zero then now else mi_created_at ins)\<rparr>"
  have key: "mtm_key ?new = mtm_key ins" by (simp add: mtm_key_def)
  show ?thesis
  proof (cases "find_mtm (mtm_key ins) s")
    case None
    then have "mtm_key ins \<notin> mtm_key ` set (mtm s)" by (auto simp: find_mtm_def find_None_iff_ex)
    then have "run_state (StoreMTM ins i now) s = (Inr (), s\<lparr>mtm := mtm s @ [?new]\<rparr>)"
      using assms key by (simp add: StoreMTM_def sql_upsert_mtm_def)
    with None key show ?thesis by (auto simp: find_mtm_def find_append split: option.splits)
  next
    case (Some old)
    then have "mtm_key ins \<in> mtm_key ` set (mtm s)"
      by (auto simp: find_mtm_def dest!: find_Some_in intro: image_eqI [OF sym])
    then have "run_state (StoreMTM ins i now) s =
        (Inr (), s\<lparr>mtm := update_where (\<lambda>r. mtm_key r = mtm_key ins) (mtm_merge ins now) (mtm s)\<rparr>)"
      using assms key by (simp add: StoreMTM_def sql_upsert_mtm_def mtm_merge_def [abs_def])
    with Some show ?thesis by (simp add: find_mtm_merged)
  qed
qed

section \<open>Provider statistics\<close>

text \<open>
  The reliability statistics report a win rate of one for every provider: the filter of the
  win count compares the provider column with itself, so wins and appearances are always equal.
\<close>

lemma provider_win_rate_is_always_one:
  assumes "faults s = []"
  shows "\<exists>xs. run_state (GetProviderReliabilityStats repo) s = (Inr xs, s) \<and>
    (\<forall>x\<in>set xs. rl_win_rate x = 1 \<and> rl_win_count x = rl_total_appear x)"
proof -
  have "rl_win_rate (reliability_of rows p) = 1 \<and> rl_win_count (reliability_of rows p) = rl_total_appear (reliability_of rows p)"
    if "p \<in> set (map ci_provider rows)" for rows p
    using that by (auto simp: reliability_of_def Let_def count_where_def filter_empty_conv)
  then show ?thesis
    using assms by (auto simp: GetProviderReliabilityStats_def Let_def)
qed

section \<open>Extraction\<close>

lemma best_of_fold: "snd (foldl best_step acc xs) = Max (insert (snd acc) (snd ` set xs))"
proof (induction xs arbitrary: acc)
  case (Cons x xs)
  have "Max (insert (snd (best_step acc x)) (snd ` set xs)) = Max (insert (snd acc) (insert (snd x) (snd ` set xs)))"
    by (cases "snd ` set xs = {}") (auto simp: best_step_def max_def)
  then show ?case by (simp add: Cons.IH)
qed simp

lemma worst_of_fold: "foldl (\<lambda>w x. if snd x < w then snd x else w) w (xs :: (string \<times> real) list) = Min (insert w (snd ` set xs))"
proof (induction xs arbitrary: w)
  case (Cons x xs)
  have "Min (insert (if snd x < w then snd x else w) (snd ` set xs)) = Min (insert w (insert (snd x) (snd ` set xs)))"
    by (cases "snd ` set xs = {}") (auto simp: min_def)
  then show ?case by (simp add: Cons.IH)
qed simp

lemma score_spread:
  "snd (best_of scores) - worst_of scores = Max (insert 0 (snd ` set scores)) - Min (insert 1 (snd ` set scores))"
  by (simp add: best_of_def worst_of_def best_of_fold worst_of_fold)

text \<open>
  For every fault script, extracting insights from a consensus event panics exactly when the
  repository is set and the task identifier has fewer than eight bytes; storing errors are ignored.
\<close>

lemma Extract_panics_on_short_task_ids:
  "fst (run_state (ExtractAndStoreInsights ev ids now) s) =
   (if ce_repo ev \<noteq> [] \<and> length (ce_task ev) < 8 then Inl ErrPanic else Inr ())"
  by (simp add: ExtractAndStoreInsights_def split_beta)

section \<open>Witnesses\<close>

definition example_memory :: mtm_insight where
  "example_memory = \<lparr>mi_id = uuid_nil, mi_repo = ''r'', mi_role = ''qa'', mi_key = ''k'', mi_insight = ''flaky'',
     mi_confidence = 1 / 2, mi_created_at = time_zero, mi_updated_at = time_zero\<rparr>"

definition insight_swarm :: swarm where
  "insight_swarm = init_swarm\<lparr>insights := [\<lparr>ci_id = 1, ci_repo = ''r'', ci_task = ''t'', ci_thread = [],
     ci_category = InsightProviderReliability, ci_key = ''winner:openai'', ci_insight = [], ci_confidence = 1 / 2,
     ci_strategy = [], ci_provider = ''openai'', ci_created_at = 0, ci_updated_at = 0\<rparr>]\<rparr>"

end
