(* ===== verification/PRCreator.thy ===== *)
theory PRCreator
  imports TaskCorrect Memory
begin

text \<open>
  \<open>internal/swarm/pr_creator.go\<close>: a pull request from the diffs of a task.  The VCS platform behind
  the resolver is a parameter: each call is a function of the calls that succeeded before it.  The
  state is the swarm state with the log of successful calls.  \<open>full_name\<close> is the column of that name
  in the table \<open>repositories\<close>, if the schema has it; the schema in \<open>db/sql/initData.sql\<close> does not.
\<close>

datatype vcs_call =
    CallBranch string string string string
  | CallCommit string string string string string string
  | CallPR string string string string string string

record vcs_client =
  vc_default_branch :: "string \<Rightarrow> string \<Rightarrow> string option"
  vc_branch_sha :: "string \<Rightarrow> string \<Rightarrow> string \<Rightarrow> string option"
  vc_create_branch :: "vcs_call list \<Rightarrow> vcs_call \<Rightarrow> bool"
  vc_commit_file :: "vcs_call list \<Rightarrow> vcs_call \<Rightarrow> string option"
  vc_create_pr :: "vcs_call list \<Rightarrow> vcs_call \<Rightarrow> (string \<times> int) option"

type_synonym 'a pprog = "(swarm \<times> vcs_call list, 'a) state"

definition vcs :: "vcs_call \<Rightarrow> (vcs_call list \<Rightarrow> vcs_call \<Rightarrow> 'r option) \<Rightarrow> 'r option pprog" where
  "vcs c f = State (\<lambda>(s, l). case f l c of None \<Rightarrow> (None, (s, l)) | Some r \<Rightarrow> (Some r, (s, l @ [c])))"

lemma run_vcs [simp]:
  "run_state (vcs c f) (s, l) = (case f l c of None \<Rightarrow> (None, (s, l)) | Some r \<Rightarrow> (Some r, (s, l @ [c])))"
  by (simp add: vcs_def)

definition broadcastPREvent :: "uuid \<Rightarrow> string \<Rightarrow> unit pprog" where
  [op_defs]: "broadcastPREvent tid event = on_fst (broadcast (TaskEvent event tid))"

definition failPR :: "uuid \<Rightarrow> swarm_error \<Rightarrow> (swarm_error + unit) pprog" where
  [op_defs]: "failPR tid e = do {
     _ \<leftarrow> on_fst (UpdateStatus tid StatusFailed);
     _ \<leftarrow> broadcastPREvent tid ''pr_failed'';
     ret (Inl e) }"

definition getRepoInfo ::
  "(repo_row \<Rightarrow> string) option \<Rightarrow> uuid \<Rightarrow> (swarm_error + string \<times> string) prog" where
  [op_defs]: "getRepoInfo full_name repo = do {
     r \<leftarrow> query (\<lambda>s. case full_name of None \<Rightarrow> None
            | Some col \<Rightarrow> map_option col (List.find (\<lambda>x. r_id x = repo) (repos s)));
     ret (case r of
         None \<Rightarrow> Inl (ErrDB ''querying repo'')
       | Some None \<Rightarrow> Inl (ErrDB ''querying repo'')
       | Some (Some name) \<Rightarrow>
           (case split_n (CHR ''/'') 2 name of
              [owner, repo_name] \<Rightarrow> Inr (owner, repo_name)
            | _ \<Rightarrow> Inl (ErrBadRequest ''invalid repo full_name''))) }"

definition short_id :: "(uuid \<Rightarrow> string) \<Rightarrow> uuid \<Rightarrow> string" where
  "short_id us i = take 8 (us i)"

definition formatAgentID :: "(uuid \<Rightarrow> string) \<Rightarrow> uuid option \<Rightarrow> string" where
  "formatAgentID us a = (case a of None \<Rightarrow> ''unknown'' | Some i \<Rightarrow> short_id us i)"

definition buildPRTitle :: "task \<Rightarrow> string" where
  "buildPRTitle t =
     (let label = (if t_title t = [] then t_description t else t_title t);
          label' = (if length label > 72 then take 69 label @ ''...'' else label) in
      ''[Swarm] '' @ label')"

definition nl :: string where "nl = [CHR 0x0A]"

definition robot :: string where
  "robot = [CHR 0xF0, CHR 0x9F, CHR 0xA4, CHR 0x96]"

definition diff_line :: "(uuid \<Rightarrow> string) \<Rightarrow> task_diff \<Rightarrow> string" where
  "diff_line us d = ''| `'' @ d_file_path d @ ''` | '' @ d_change_type d @ '' | '' @
     (case d_agent_id d of None \<Rightarrow> em_dash | Some a \<Rightarrow> ''`'' @ short_id us a @ ''`'') @ '' |'' @ nl"

definition buildPRBody ::
  "(uuid \<Rightarrow> string) \<Rightarrow> (time \<Rightarrow> string) \<Rightarrow> task \<Rightarrow> task_diff list \<Rightarrow> string \<Rightarrow> time \<Rightarrow> string" where
  "buildPRBody us rfc3339 t ds branch now =
     ''## '' @ robot @ '' Swarm Agent Pull Request'' @ nl @ nl @
     ''**Task ID:** `'' @ us (t_id t) @ ''`'' @ nl @
     ''**Description:** '' @ t_description t @ nl @
     ''**Branch:** `'' @ branch @ ''`'' @ nl @
     ''**Created:** '' @ rfc3339 now @ nl @ nl @
     ''### Files Changed'' @ nl @ nl @
     ''| File | Change | Agent |'' @ nl @
     ''|------|--------|-------|'' @ nl @
     concat (map (diff_line us) ds) @ nl @ ''---'' @ nl @
     ''*This PR was created automatically by the RTVortex Agent Swarm.*'' @ nl"

definition branch_name :: "(uuid \<Rightarrow> string) \<Rightarrow> uuid \<Rightarrow> string" where
  "branch_name us tid = ''swarm/task-'' @ short_id us tid"

definition commit_call :: "(uuid \<Rightarrow> string) \<Rightarrow> uuid \<Rightarrow> string \<Rightarrow> string \<Rightarrow> task_diff \<Rightarrow> vcs_call" where
  "commit_call us tid owner name d = CallCommit owner name (branch_name us tid) (d_file_path d) (d_proposed d)
     (''swarm: '' @ d_change_type d @ '' '' @ d_file_path d @ nl @ nl @ ''Task: '' @ short_id us tid @ nl @
      ''Agent: '' @ formatAgentID us (d_agent_id d))"

fun commit_diffs ::
  "(uuid \<Rightarrow> string) \<Rightarrow> vcs_client \<Rightarrow> uuid \<Rightarrow> string \<Rightarrow> string \<Rightarrow> task_diff list \<Rightarrow> bool pprog" where
  "commit_diffs us c tid owner name [] = ret True"
| "commit_diffs us c tid owner name (d # ds) = do {
     r \<leftarrow> vcs (commit_call us tid owner name d) (vc_commit_file c);
     case r of
       None \<Rightarrow> ret False
     | Some sha \<Rightarrow> do {
         _ \<leftarrow> broadcastPREvent tid ''file_committed'';
         commit_diffs us c tid owner name ds } }"

definition sql_pr_done :: "uuid \<Rightarrow> string \<Rightarrow> int \<Rightarrow> stmt" where
  [sql_defs]: "sql_pr_done tid url number = stmt_tasks (\<lambda>t. t_id t = tid)
     (\<lambda>t. t\<lparr>t_pr_url := Some url, t_pr_number := Some number, t_status := StatusCompleted\<rparr>)"

definition finish_pr :: "uuid \<Rightarrow> (string \<times> int) option \<Rightarrow> (swarm_error + unit) pprog" where
  [op_defs]: "finish_pr tid pr = (case pr of
       None \<Rightarrow> failPR tid (ErrBadRequest ''create PR'')
     | Some (url, number) \<Rightarrow> do {
         _ \<leftarrow> on_fst (exec (sql_pr_done tid url number));
         _ \<leftarrow> broadcastPREvent tid ''pr_created'';
         ret (Inr ()) })"

definition open_pr ::
  "(uuid \<Rightarrow> string) \<Rightarrow> (time \<Rightarrow> string) \<Rightarrow> vcs_client \<Rightarrow> task \<Rightarrow> task_diff list \<Rightarrow> string \<Rightarrow> string \<Rightarrow>
   time \<Rightarrow> (swarm_error + unit) pprog" where
  [op_defs]: "open_pr us rfc3339 c task ds owner name now =
     (let tid = t_id task; branch = branch_name us tid in
      case vc_default_branch c owner name of
        None \<Rightarrow> failPR tid (ErrBadRequest ''get default branch'')
      | Some base \<Rightarrow> (case vc_branch_sha c owner name base of
          None \<Rightarrow> failPR tid (ErrBadRequest ''get branch SHA'')
        | Some sha \<Rightarrow> do {
            b \<leftarrow> vcs (CallBranch owner name branch sha)
                   (\<lambda>l x. if vc_create_branch c l x then Some () else None);
            case b of
              None \<Rightarrow> failPR tid (ErrBadRequest ''create branch'')
            | Some _ \<Rightarrow> do {
                _ \<leftarrow> broadcastPREvent tid ''branch_created'';
                ok \<leftarrow> commit_diffs us c tid owner name ds;
                if \<not> ok then failPR tid (ErrBadRequest ''commit file'')
                else do {
                  pr \<leftarrow> vcs (CallPR owner name (buildPRTitle task) (buildPRBody us rfc3339 task ds branch now)
                          branch base) (vc_create_pr c);
                  finish_pr tid pr } } }))"

definition resolve_and_open ::
  "(uuid \<Rightarrow> string) \<Rightarrow> (string \<Rightarrow> uuid option) \<Rightarrow> (time \<Rightarrow> string) \<Rightarrow> (repo_row \<Rightarrow> string) option \<Rightarrow>
   (uuid \<Rightarrow> vcs_client option) \<Rightarrow> task \<Rightarrow> task_diff list \<Rightarrow> time \<Rightarrow> (swarm_error + unit) pprog" where
  [op_defs]: "resolve_and_open us pu rfc3339 full_name for_repo task ds now =
     (if ds = [] then failPR (t_id task) (ErrBadRequest ''no diffs found'')
      else (case pu (t_repo_id task) of
          None \<Rightarrow> failPR (t_id task) (ErrBadRequest ''invalid repo_id'')
        | Some repo \<Rightarrow> (case for_repo repo of
            None \<Rightarrow> failPR (t_id task) (ErrBadRequest ''resolving VCS client'')
          | Some c \<Rightarrow> do {
              info \<leftarrow> on_fst (getRepoInfo full_name repo);
              case info of
                Inl e \<Rightarrow> failPR (t_id task) e
              | Inr (owner, name) \<Rightarrow> open_pr us rfc3339 c task ds owner name now })))"

definition CreatePR ::
  "(uuid \<Rightarrow> string) \<Rightarrow> (string \<Rightarrow> uuid option) \<Rightarrow> (time \<Rightarrow> string) \<Rightarrow> (repo_row \<Rightarrow> string) option \<Rightarrow>
   (uuid \<Rightarrow> vcs_client option) \<Rightarrow> uuid \<Rightarrow> time \<Rightarrow> (swarm_error + unit) pprog" where
  [op_defs]: "CreatePR us pu rfc3339 full_name for_repo tid now = do {
     g \<leftarrow> on_fst (GetTask tid);
     case g of
       Inl e \<Rightarrow> ret (Inl e)
     | Inr task \<Rightarrow> do {
         _ \<leftarrow> broadcastPREvent tid ''pr_creating'';
         dr \<leftarrow> on_fst (ListDiffs tid);
         case dr of
           Inl e \<Rightarrow> failPR tid e
         | Inr ds \<Rightarrow> resolve_and_open us pu rfc3339 full_name for_repo task ds now } }"

section \<open>Correctness\<close>

text \<open>The calls that change the repository, in the order of a run that succeeds.\<close>

definition pr_script ::
  "(uuid \<Rightarrow> string) \<Rightarrow> (time \<Rightarrow> string) \<Rightarrow> task \<Rightarrow> task_diff list \<Rightarrow> string \<Rightarrow> string \<Rightarrow> string \<Rightarrow> string \<Rightarrow>
   time \<Rightarrow> vcs_call list" where
  "pr_script us rfc3339 task ds owner name base sha now =
     CallBranch owner name (branch_name us (t_id task)) sha #
     map (commit_call us (t_id task) owner name) ds @
     [CallPR owner name (buildPRTitle task)
        (buildPRBody us rfc3339 task ds (branch_name us (t_id task)) now) (branch_name us (t_id task)) base]"

text \<open>What a run without faults leaves of the task table; \<open>Q\<close> says of which answer the URL and number are.\<close>

definition pr_settled :: "(string \<times> int \<Rightarrow> bool) \<Rightarrow> uuid \<Rightarrow> swarm \<Rightarrow> swarm \<Rightarrow> swarm_error + unit \<Rightarrow> bool" where
  "pr_settled Q tid s t r \<longleftrightarrow> (faults s = [] \<longrightarrow>
     (case r of
        Inl _ \<Rightarrow> tasks t = update_where (\<lambda>x. t_id x = tid) (\<lambda>x. x\<lparr>t_status := StatusFailed\<rparr>) (tasks s)
      | Inr _ \<Rightarrow> \<exists>url number. Q (url, number) \<and> tasks t = update_where (\<lambda>x. t_id x = tid)
          (\<lambda>x. x\<lparr>t_pr_url := Some url, t_pr_number := Some number, t_status := StatusCompleted\<rparr>) (tasks s)))"

lemma pr_settled_ws_log [simp]: "pr_settled Q tid (s\<lparr>ws_log := es\<rparr>) t r \<longleftrightarrow> pr_settled Q tid s t r"
  by (cases r) (simp_all add: pr_settled_def)

lemma failPR_result:
  assumes "run_state (failPR tid e) (s, l) = (r, (t, l'))"
  shows "r = Inl e \<and> l' = l \<and> pr_settled Q tid s t r"
  using assms
  by (auto simp: failPR_def broadcastPREvent_def UpdateStatus_def pr_settled_def sql_task_status_def stmt_tasks_def
      split: prod.splits)

lemma commit_diffs_log:
  "\<exists>k es. run_state (commit_diffs us c tid owner name ds) (s, l) =
     (k = length ds, (s\<lparr>ws_log := es\<rparr>, l @ map (commit_call us tid owner name) (take k ds))) \<and> k \<le> length ds"
proof (induction ds arbitrary: s l)
  case Nil
  then show ?case by (auto intro!: exI [of _ "ws_log s"])
next
  case (Cons d ds)
  let ?c = "commit_call us tid owner name d"
  let ?s = "snd (run_state (broadcast (TaskEvent ''file_committed'' tid)) s)"
  show ?case
  proof (cases "vc_commit_file c l ?c")
    case None
    then show ?thesis by (auto intro!: exI [of _ "0::nat"] exI [of _ "ws_log s"])
  next
    case (Some sha)
    obtain k es where IH: "run_state (commit_diffs us c tid owner name ds) (?s, l @ [?c]) =
        (k = length ds, (?s\<lparr>ws_log := es\<rparr>, (l @ [?c]) @ map (commit_call us tid owner name) (take k ds)))"
        "k \<le> length ds"
      using Cons.IH by blast
    then show ?thesis using Some
      by (intro exI [of _ "Suc k"] exI [of _ es]) (auto simp: broadcastPREvent_def)
  qed
qed

lemma finish_pr_result:
  assumes "run_state (finish_pr tid pr) (s, l) = (r, (t, l'))"
  shows "l' = l \<and> (r = Inr () \<longleftrightarrow> pr \<noteq> None) \<and> pr_settled (\<lambda>p. pr = Some p) tid s t r"
proof (cases pr)
  case None
  then show ?thesis using assms failPR_result [of tid _ s l r t l'] by (auto simp: finish_pr_def)
next
  case (Some p)
  obtain url number where p: "p = (url, number)" by (cases p)
  show ?thesis using assms Some p
    by (auto simp: finish_pr_def broadcastPREvent_def pr_settled_def sql_pr_done_def stmt_tasks_def
        split: prod.splits intro!: exI [of _ url] exI [of _ number])
qed


lemma after_commits_log:
  assumes "run_state (if \<not> ok then failPR tid e else do { pr \<leftarrow> vcs call f; finish_pr tid pr }) (s, l) = (r, (t, l'))"
  shows "l' = (if ok \<and> f l call \<noteq> None then l @ [call] else l) \<and> (r = Inr () \<longleftrightarrow> ok \<and> f l call \<noteq> None) \<and>
    pr_settled (\<lambda>p. f l call = Some p) tid s t r"
proof (cases ok)
  case True
  then show ?thesis
    using assms finish_pr_result [of tid "f l call" s] by (cases "f l call") auto
next
  case False
  then show ?thesis using assms failPR_result [of tid e s l] by auto
qed

text \<open>The answer of the platform to the last call of a script, after all others.\<close>

definition accepted_as :: "vcs_client \<Rightarrow> vcs_call list \<Rightarrow> vcs_call list \<Rightarrow> string \<times> int \<Rightarrow> bool" where
  "accepted_as c l script p \<longleftrightarrow> vc_create_pr c (l @ butlast script) (last script) = Some p"

lemma open_pr_log:
  assumes run: "run_state (open_pr us rfc3339 c task ds owner name now) (s, l) = (r, (t, l'))"
  shows "pr_settled (\<lambda>p. \<exists>base sha. vc_default_branch c owner name = Some base \<and>
      vc_branch_sha c owner name base = Some sha \<and> accepted_as c l (pr_script us rfc3339 task ds owner name base sha now) p) (t_id task) s t r \<and>
    ((l' = l \<and> r \<noteq> Inr ()) \<or> (\<exists>base sha k. vc_default_branch c owner name = Some base \<and>
     vc_branch_sha c owner name base = Some sha \<and>
     (let script = pr_script us rfc3339 task ds owner name base sha now in
      l' = l @ take k script \<and> (r = Inr () \<longleftrightarrow> length script \<le> k))))"
proof -
  let ?tid = "t_id task"
  let ?branch = "branch_name us ?tid"
  have early: "pr_settled Q ?tid s t r \<and> l' = l \<and> r \<noteq> Inr ()" if "run_state (failPR ?tid e) (s, l) = (r, (t, l'))" for e Q
    using failPR_result [OF that] by auto
  show ?thesis
  proof (cases "vc_default_branch c owner name")
    case None
    with run early show ?thesis by (simp add: open_pr_def Let_def)
  next
    case base: (Some base)
    show ?thesis
    proof (cases "vc_branch_sha c owner name base")
      case None
      with run base early show ?thesis by (simp add: open_pr_def Let_def)
    next
      case sha: (Some sha)
      let ?call = "CallBranch owner name ?branch sha"
      let ?pr = "CallPR owner name (buildPRTitle task) (buildPRBody us rfc3339 task ds ?branch now) ?branch base"
      let ?after = "\<lambda>ok. if \<not> ok then failPR ?tid (ErrBadRequest ''commit file'')
        else do { pr \<leftarrow> vcs ?pr (vc_create_pr c); finish_pr ?tid pr }"
      show ?thesis
      proof (cases "vc_create_branch c l ?call")
        case False
        with run base sha early show ?thesis by (simp add: open_pr_def Let_def)
      next
        case True
        let ?s = "snd (run_state (broadcast (TaskEvent ''branch_created'' ?tid)) s)"
        obtain k es where commits: "run_state (commit_diffs us c ?tid owner name ds) (?s, l @ [?call]) =
            (k = length ds, (?s\<lparr>ws_log := es\<rparr>, (l @ [?call]) @ map (commit_call us ?tid owner name) (take k ds)))"
            "k \<le> length ds"
          using commit_diffs_log by blast
        let ?l = "l @ ?call # map (commit_call us ?tid owner name) (take k ds)"
        have "run_state (?after (k = length ds)) (?s\<lparr>ws_log := es\<rparr>, ?l) = (r, (t, l'))"
          using run base sha True commits(1) by (simp add: open_pr_def Let_def broadcastPREvent_def)
        note after = after_commits_log [OF this]
        then have settled: "pr_settled (\<lambda>p. vc_create_pr c ?l ?pr = Some p) ?tid s t r" by (cases "has_ws s") auto
        have "pr_settled (\<lambda>p. \<exists>base sha. vc_default_branch c owner name = Some base \<and> vc_branch_sha c owner name base = Some sha \<and>
            accepted_as c l (pr_script us rfc3339 task ds owner name base sha now) p) ?tid s t r"
        proof (cases r)
          case (Inr u)
          then have "k = length ds" using after by simp
          then show ?thesis using settled Inr base sha
            by (simp add: pr_settled_def accepted_as_def pr_script_def)
        qed (use settled in \<open>simp add: pr_settled_def\<close>)
        then show ?thesis using after base sha commits(2)
          by (intro conjI disjI2 exI [of _ base] exI [of _ sha] exI [of _ "if r = Inr () then Suc (Suc k) else Suc k"])
            (auto simp: Let_def pr_script_def take_map)
      qed
    qed
  qed
qed


text \<open>The reads only consume the fault script.\<close>

definition reads :: "swarm \<Rightarrow> swarm \<Rightarrow> bool" where
  "reads s t \<longleftrightarrow> (\<exists>fs es. t = s\<lparr>faults := fs, ws_log := es\<rparr> \<and> (faults s = [] \<longrightarrow> fs = []))"

lemma reads_trans: "reads s t \<Longrightarrow> reads t u \<Longrightarrow> reads s u"
  by (clarsimp simp: reads_def) blast

lemma reads_refl: "reads s s"
  by (auto simp: reads_def intro!: exI [of _ "faults s"] exI [of _ "ws_log s"])

lemma reads_ws_log: "reads s (s\<lparr>ws_log := es\<rparr>)"
  by (auto simp: reads_def intro!: exI [of _ "faults s"] exI [of _ es])

lemma reads_query: "run_state (query f) s = (r, t) \<Longrightarrow> reads s t \<and> (\<forall>x. r = Some x \<longrightarrow> x = f s \<or> x = f (s\<lparr>faults := tl (faults s)\<rparr>)) \<and> (faults s = [] \<longrightarrow> r \<noteq> None)"
  by (cases "faults s") (auto simp: query_def io_ok_def reads_def intro!: exI [of _ "ws_log s"] split: if_splits)

lemma pr_settled_reads: "reads s s' \<Longrightarrow> pr_settled Q tid s' t r \<Longrightarrow> pr_settled Q tid s t r"
  by (cases r; clarsimp simp: reads_def pr_settled_def; blast)

text \<open>Owner and name are the two parts of the column of the repository.\<close>

definition named :: "(repo_row \<Rightarrow> string) option \<Rightarrow> uuid \<Rightarrow> swarm \<Rightarrow> string \<Rightarrow> string \<Rightarrow> bool" where
  "named full_name repo s owner name \<longleftrightarrow> (\<exists>col row. full_name = Some col \<and>
     List.find (\<lambda>x. r_id x = repo) (repos s) = Some row \<and> split_n (CHR ''/'') 2 (col row) = [owner, name])"

lemma named_None [simp]: "\<not> named None repo s owner name"
  by (simp add: named_def)

lemma named_reads: "reads s s' \<Longrightarrow> named full_name repo s' owner name = named full_name repo s owner name"
  by (auto simp: reads_def named_def)

lemma pr_settled_any: "pr_settled Q tid s t r \<Longrightarrow> pr_settled (\<lambda>_. True) tid s t r"
  by (cases r) (auto simp: pr_settled_def)

lemma getRepoInfo_result:
  assumes "run_state (getRepoInfo full_name repo) s = (r, t)"
  shows "reads s t \<and> (\<forall>owner name. r = Inr (owner, name) \<longrightarrow> named full_name repo s owner name)"
proof -
  let ?f = "\<lambda>s. case full_name of None \<Rightarrow> None | Some col \<Rightarrow> map_option col (List.find (\<lambda>x. r_id x = repo) (repos s))"
  obtain q where q: "run_state (query ?f) s = (q, t)"
    and r: "r = (case q of None \<Rightarrow> Inl (ErrDB ''querying repo'') | Some None \<Rightarrow> Inl (ErrDB ''querying repo'')
       | Some (Some name) \<Rightarrow> (case split_n (CHR ''/'') 2 name of [owner, repo_name] \<Rightarrow> Inr (owner, repo_name)
            | _ \<Rightarrow> Inl (ErrBadRequest ''invalid repo full_name'')))"
    using assms by (auto simp: getRepoInfo_def split: prod.splits)
  note read = reads_query [OF q]
  have "named full_name repo s owner name" if ok: "r = Inr (owner, name)" for owner name
  proof -
    obtain x where x: "q = Some (Some x)" "split_n (CHR ''/'') 2 x = [owner, name]"
      using ok r by (cases q; cases "the q") (auto split: list.splits)
    then have "?f s = Some x" using read by (cases full_name) auto
    then show ?thesis using x(2) by (auto simp: named_def split: option.splits)
  qed
  then show ?thesis using read by blast
qed

text \<open>A run of the second half: it stops before the platform is touched, or it is a run of \<open>open_pr\<close>.\<close>

lemma resolve_and_open_cases:
  assumes run: "run_state (resolve_and_open us pu rfc3339 full_name for_repo task ds now) (s, l) = (r, (t, l'))"
  shows "pr_settled (\<lambda>_. True) (t_id task) s t r \<and>
    ((l' = l \<and> r \<noteq> Inr ()) \<or> (\<exists>repo c owner name s'. pu (t_repo_id task) = Some repo \<and> for_repo repo = Some c \<and>
      named full_name repo s owner name \<and> ds \<noteq> [] \<and> reads s s' \<and>
      run_state (open_pr us rfc3339 c task ds owner name now) (s', l) = (r, (t, l'))))"
proof -
  have early: ?thesis if "reads s s'" "run_state (failPR (t_id task) e) (s', l) = (r, (t, l'))" for s' e
    using failPR_result [OF that(2), of "\<lambda>_. True"] pr_settled_reads [OF that(1)] by auto
  show ?thesis
  proof (cases "ds = [] \<or> pu (t_repo_id task) = None \<or> for_repo (the (pu (t_repo_id task))) = None")
    case True
    with run early [OF reads_refl] show ?thesis
      by (auto simp: resolve_and_open_def split: if_splits option.splits)
  next
    case False
    then obtain repo c where c: "pu (t_repo_id task) = Some repo" "for_repo repo = Some c" "ds \<noteq> []" by auto
    obtain i s' where i: "run_state (getRepoInfo full_name repo) s = (i, s')" by fastforce
    note info = getRepoInfo_result [OF i]
    show ?thesis
    proof (cases i)
      case (Inl e)
      with run c i info early show ?thesis by (simp add: resolve_and_open_def)
    next
      case (Inr p)
      obtain owner name where p: "p = (owner, name)" by (cases p)
      then have opened: "run_state (open_pr us rfc3339 c task ds owner name now) (s', l) = (r, (t, l'))"
        using run c i Inr by (simp add: resolve_and_open_def)
      have "pr_settled (\<lambda>_. True) (t_id task) s t r"
        using pr_settled_any pr_settled_reads info open_pr_log [OF opened] by blast
      then show ?thesis using opened info c Inr p by blast
    qed
  qed
qed


lemma GetTask_reads:
  assumes "run_state (GetTask tid) s = (r, t)"
  shows "reads s t \<and> (\<forall>x. r = Inr x \<longrightarrow> (\<exists>y. find_task tid s = Some y \<and> x = coalesce_task y)) \<and>
    (faults s = [] \<and> find_task tid s \<noteq> None \<longrightarrow> (\<exists>x. r = Inr x))"
proof -
  have "find_task tid (s\<lparr>faults := fs\<rparr>) = find_task tid s" for fs by (simp add: find_task_def)
  then show ?thesis using assms reads_query [of "find_task tid" s]
    by (fastforce simp: GetTask_def split: prod.splits option.splits)
qed

lemma ListDiffs_reads:
  assumes "run_state (ListDiffs tid) s = (r, t)"
  shows "reads s t \<and> (\<forall>ds. r = Inr ds \<longrightarrow> ds = sort_key d_created_at (filter (\<lambda>d. d_task_id d = tid) (diffs s)))"
  using assms reads_query [of "\<lambda>s. sort_key d_created_at (filter (\<lambda>d. d_task_id d = tid) (diffs s))" s]
  by (fastforce simp: ListDiffs_def split: prod.splits option.splits)

lemma CreatePR_cases:
  assumes run: "run_state (CreatePR us pu rfc3339 full_name for_repo tid now) (s, l) = (r, (t, l'))"
  shows "(find_task tid s \<noteq> None \<longrightarrow> pr_settled (\<lambda>_. True) tid s t r) \<and>
    ((l' = l \<and> r \<noteq> Inr ()) \<or> (\<exists>x repo c owner name ds s'. find_task tid s = Some x \<and>
      pu (t_repo_id x) = Some repo \<and> for_repo repo = Some c \<and> named full_name repo s owner name \<and>
      ds = sort_key d_created_at (filter (\<lambda>d. d_task_id d = tid) (diffs s)) \<and> ds \<noteq> [] \<and> reads s s' \<and>
      run_state (open_pr us rfc3339 c (coalesce_task x) ds owner name now) (s', l) = (r, (t, l'))))"
proof -
  obtain g s1 where get: "run_state (GetTask tid) s = (g, s1)" by fastforce
  note got = GetTask_reads [OF get]
  show ?thesis
  proof (cases g)
    case (Inl e)
    with run get got show ?thesis by (auto simp: CreatePR_def pr_settled_def)
  next
    case (Inr task)
    then obtain x where x: "find_task tid s = Some x" "task = coalesce_task x" using got by blast
    then have tid: "t_id task = tid" "t_repo_id task = t_repo_id x"
      using find_task_id [OF x(1)] by (simp_all add: coalesce_task_def)
    define s2 where "s2 = snd (run_state (broadcast (TaskEvent ''pr_creating'' tid)) s1)"
    have s2: "reads s1 s2" by (simp add: s2_def reads_ws_log reads_refl)
    obtain dr s3 where list: "run_state (ListDiffs tid) s2 = (dr, s3)" by fastforce
    note listed = ListDiffs_reads [OF list]
    have s3: "reads s s3" "diffs s2 = diffs s" using got s2 listed reads_trans by (blast, auto simp: reads_def)
    show ?thesis
    proof (cases dr)
      case (Inl e)
      then have "run_state (failPR tid e) (s3, l) = (r, (t, l'))"
        using run get Inr list by (simp add: CreatePR_def broadcastPREvent_def s2_def)
      with failPR_result [OF this, of "\<lambda>_. True"] pr_settled_reads [OF s3(1)] show ?thesis by auto
    next
      case ds: (Inr ds)
      then have "run_state (resolve_and_open us pu rfc3339 full_name for_repo task ds now) (s3, l) = (r, (t, l'))"
        using run get Inr list by (simp add: CreatePR_def broadcastPREvent_def s2_def)
      note cases = resolve_and_open_cases [OF this]
      have "ds = sort_key d_created_at (filter (\<lambda>d. d_task_id d = tid) (diffs s))" using ds listed s3(2) by auto
      moreover have "pr_settled (\<lambda>_. True) tid s t r" using cases pr_settled_reads [OF s3(1)] tid(1) by auto
      ultimately show ?thesis
        using cases named_reads [OF s3(1)] reads_trans [OF s3(1)] x tid(2) by (elim conjE disjE exE) (simp, metis)
    qed
  qed
qed


text \<open>The client and the repository of a task, and the branch the platform reports for it.\<close>

definition pr_target ::
  "(string \<Rightarrow> uuid option) \<Rightarrow> (repo_row \<Rightarrow> string) option \<Rightarrow> (uuid \<Rightarrow> vcs_client option) \<Rightarrow> swarm \<Rightarrow> task \<Rightarrow>
   vcs_client \<Rightarrow> string \<Rightarrow> string \<Rightarrow> string \<Rightarrow> string \<Rightarrow> bool" where
  "pr_target pu full_name for_repo s x c owner name base sha \<longleftrightarrow> (\<exists>repo. pu (t_repo_id x) = Some repo \<and>
     for_repo repo = Some c \<and> named full_name repo s owner name \<and> vc_default_branch c owner name = Some base \<and>
     vc_branch_sha c owner name base = Some sha)"

text \<open>An attempt touches no team and no agent.\<close>

definition crew_view :: "swarm \<times> vcs_call list \<Rightarrow> team list \<times> agent list \<times> (uuid_text \<rightharpoonup> token_record)" where
  "crew_view p = (teams (fst p), agents (fst p), tokens (fst p))"

lemma crew_db: "stable (same (\<lambda>s. (teams s, agents s, tokens s))) m \<Longrightarrow> stable (same crew_view) (on_fst m)"
  by (rule stableI) (auto simp: stable_def same_def crew_view_def case_prod_beta)

lemma crew_vcs: "stable (same crew_view) (vcs c f)"
  by (rule stableI) (auto simp: same_def crew_view_def split: option.splits)

interpretation crew_store: swarm_store "same (\<lambda>s. (teams s, agents s, tokens s))"
  by (rule swarm_store_same) (simp add: book_free_def)

lemma crew_stmt_tasks: "stmt_stable (same (\<lambda>s. (teams s, agents s, tokens s))) (stmt_tasks p f)"
  by (rule stmt_stableI) (auto simp: stmt_tasks_def same_def)

lemmas crew_calls = framing.stable_combinators crew_db crew_vcs crew_store.stable_calls crew_stmt_tasks

lemma crew_commit_diffs: "stable (same crew_view) (commit_diffs us c tid owner name ds)"
  by (induction ds) (auto simp: broadcastPREvent_def intro!: crew_calls split: option.split)

lemma crew_failPR: "stable (same crew_view) (failPR tid e)"
  unfolding failPR_def broadcastPREvent_def UpdateStatus_def sql_task_status_def by (intro crew_calls)

lemma CreatePR_frame: "stable (same crew_view) (CreatePR us pu rfc3339 full_name for_repo tid now)"
  unfolding CreatePR_def resolve_and_open_def open_pr_def finish_pr_def getRepoInfo_def Let_def
    GetTask_def ListDiffs_def broadcastPREvent_def sql_pr_done_def
  by (intro crew_calls crew_commit_diffs crew_failPR)

text \<open>
  C10: What a pull request attempt does to the repository, for every platform client and every script of
  database faults.  The calls that succeed are an initial part of one fixed script: create the branch,
  commit every diff of the task in the order of creation, open the request; all of them go to the
  repository that the task names and to the head of its default branch.  The attempt reports success
  exactly when the whole script was carried out.  If no database call fails, the row of the task is
  afterwards completed and carries the URL and the number the platform answered, or, when the
  attempt reports an error, it is failed.
\<close>

theorem CreatePR_follows_script:
  assumes run: "run_state (CreatePR us pu rfc3339 full_name for_repo tid now) (s, l) = (r, (t, l'))"
    and known: "find_task tid s = Some x"
  shows "\<exists>c owner name base sha k.
      let ds = sort_key d_created_at (filter (\<lambda>d. d_task_id d = tid) (diffs s));
          script = pr_script us rfc3339 (coalesce_task x) ds owner name base sha now in
      l' = l @ take k script \<and> (r = Inr () \<longleftrightarrow> length script \<le> k) \<and>
      (0 < k \<longrightarrow> pr_target pu full_name for_repo s x c owner name base sha) \<and>
      (faults s = [] \<longrightarrow> (case r of
          Inl _ \<Rightarrow> tasks t = update_where (\<lambda>x. t_id x = tid) (\<lambda>x. x\<lparr>t_status := StatusFailed\<rparr>) (tasks s)
        | Inr _ \<Rightarrow> \<exists>url number. vc_create_pr c (l @ butlast script) (last script) = Some (url, number) \<and>
            tasks t = update_where (\<lambda>x. t_id x = tid)
              (\<lambda>x. x\<lparr>t_pr_url := Some url, t_pr_number := Some number, t_status := StatusCompleted\<rparr>) (tasks s)))"
    (is "?goal")
proof -
  let ?ds = "sort_key d_created_at (filter (\<lambda>d. d_task_id d = tid) (diffs s))"
  note cases = CreatePR_cases [OF run]
  show ?goal
  proof (cases "l' = l \<and> r \<noteq> Inr ()")
    case True
    then obtain e where r: "r = Inl e" by (cases r) auto
    have "faults s = [] \<longrightarrow> tasks t = update_where (\<lambda>x. t_id x = tid) (\<lambda>x. x\<lparr>t_status := StatusFailed\<rparr>) (tasks s)"
      using cases known r by (simp add: pr_settled_def)
    then show ?thesis
      using True r by (intro exI [of _ undefined] exI [of _ "[]"] exI [of _ "0::nat"]) (simp add: pr_script_def Let_def)
  next
    case False
    then obtain repo c owner name s' where repo: "pu (t_repo_id x) = Some repo" "for_repo repo = Some c"
        "named full_name repo s owner name" and s': "reads s s'"
      and opened: "run_state (open_pr us rfc3339 c (coalesce_task x) ?ds owner name now) (s', l) = (r, (t, l'))"
      using cases known by auto
    let ?script = "\<lambda>base sha. pr_script us rfc3339 (coalesce_task x) ?ds owner name base sha now"
    have tid: "t_id (coalesce_task x) = tid" using find_task_id [OF known] by (simp add: coalesce_task_def)
    note log = open_pr_log [OF opened, unfolded tid]
    then obtain base sha k where branch: "vc_default_branch c owner name = Some base" "vc_branch_sha c owner name base = Some sha"
      and k: "l' = l @ take k (?script base sha)" "r = Inr () \<longleftrightarrow> length (?script base sha) \<le> k"
      using False by (auto simp: Let_def)
    have "pr_settled (accepted_as c l (?script base sha)) tid s t r"
      using pr_settled_reads [OF s' conjunct1 [OF log]] branch by (simp add: pr_settled_def split: sum.splits)
    then have "faults s = [] \<longrightarrow> (case r of
          Inl _ \<Rightarrow> tasks t = update_where (\<lambda>x. t_id x = tid) (\<lambda>x. x\<lparr>t_status := StatusFailed\<rparr>) (tasks s)
        | Inr _ \<Rightarrow> \<exists>url number. vc_create_pr c (l @ butlast (?script base sha)) (last (?script base sha)) = Some (url, number) \<and>
            tasks t = update_where (\<lambda>x. t_id x = tid)
              (\<lambda>x. x\<lparr>t_pr_url := Some url, t_pr_number := Some number, t_status := StatusCompleted\<rparr>) (tasks s))"
      by (cases r) (simp_all add: pr_settled_def accepted_as_def)
    moreover have "pr_target pu full_name for_repo s x c owner name base sha"
      using repo branch by (auto simp: pr_target_def)
    ultimately show ?thesis
      unfolding Let_def using k
      by (intro exI [of _ c] exI [of _ owner] exI [of _ name] exI [of _ base] exI [of _ sha] exI [of _ k] conjI impI) blast+
  qed
qed

text \<open>
  Under the schema the repository ships the table of repositories has no column \<open>full_name\<close>.  Every
  pull request attempt then fails before the platform is called, for every client, task and script of
  faults; without faults a known task ends up failed, its agents keep their team and the team keeps its
  status.
\<close>

lemma shipped_schema_opens_no_pull_request:
  assumes "run_state (CreatePR us pu rfc3339 None for_repo tid now) (s, l) = (r, (t, l'))"
  shows "(\<exists>e. r = Inl e) \<and> l' = l \<and> teams t = teams s \<and> agents t = agents s \<and>
    (faults s = [] \<and> find_task tid s \<noteq> None \<longrightarrow>
      tasks t = update_where (\<lambda>x. t_id x = tid) (\<lambda>x. x\<lparr>t_status := StatusFailed\<rparr>) (tasks s))"
proof -
  have "(l' = l \<and> r \<noteq> Inr ()) \<and> (find_task tid s \<noteq> None \<longrightarrow> pr_settled (\<lambda>_. True) tid s t r)"
    using CreatePR_cases [OF assms] by auto
  moreover have "teams t = teams s \<and> agents t = agents s"
    using stable_run [OF CreatePR_frame assms] by (simp add: same_def crew_view_def)
  ultimately show ?thesis by (cases r) (auto simp: pr_settled_def)
qed


text \<open>The title fits the limit of the platforms: at most 80 bytes.\<close>

lemma buildPRTitle_bound: "length (buildPRTitle t) \<le> 80"
  by (simp add: buildPRTitle_def Let_def)

section \<open>Witnesses\<close>

definition demo_client :: vcs_client where
  "demo_client = \<lparr>vc_default_branch = (\<lambda>_ _. Some ''main''), vc_branch_sha = (\<lambda>_ _ _. Some ''c0''),
     vc_create_branch = (\<lambda>_ _. True), vc_commit_file = (\<lambda>_ _. Some ''c1''),
     vc_create_pr = (\<lambda>l _. if length l = 2 then Some (''https://host/pr/4'', 4) else None)\<rparr>"

definition demo_diff :: task_diff where
  "demo_diff = \<lparr>d_id = 30, d_task_id = 7, d_file_path = ''a.go'', d_change_type = ''modified'', d_original = [],
     d_proposed = ''x'', d_unified_diff = [], d_agent_id = Some 3, d_status = ''pending'', d_created_at = 5\<rparr>"

definition demo_pr_swarm :: swarm where
  "demo_pr_swarm = demo_swarm\<lparr>diffs := [demo_diff], repos := [\<lparr>r_id = 9, r_owner = ''o'', r_name = ''n''\<rparr>]\<rparr>"

definition demo_create :: "(repo_row \<Rightarrow> string) option \<Rightarrow> (swarm_error + unit) \<times> swarm \<times> vcs_call list" where
  "demo_create full_name = run_state (CreatePR (\<lambda>i. ''0123456789'') (\<lambda>_. Some 9) (\<lambda>_. []) full_name
     (\<lambda>_. Some demo_client) 7 40) (demo_pr_swarm, [])"

lemma demo_pr: "faults demo_pr_swarm = []" "find_task 7 demo_pr_swarm = Some demo_task" "diffs demo_pr_swarm = [demo_diff]"
  "repos demo_pr_swarm = [\<lparr>r_id = 9, r_owner = ''o'', r_name = ''n''\<rparr>]" "t_id demo_task = 7"
  by (simp_all add: demo_pr_swarm_def demo_defs find_task_def)

theorem CreatePR_follows_script_witness:
  "fst (demo_create (Some (\<lambda>r. r_owner r @ ''/'' @ r_name r))) = Inr () \<and>
   tasks (fst (snd (demo_create (Some (\<lambda>r. r_owner r @ ''/'' @ r_name r))))) =
      update_where (\<lambda>x. t_id x = 7)
        (\<lambda>x. x\<lparr>t_pr_url := Some ''https://host/pr/4'', t_pr_number := Some 4, t_status := StatusCompleted\<rparr>) (tasks demo_pr_swarm)"
proof -
  let ?f = "Some (\<lambda>r. r_owner r @ ''/'' @ r_name r)"
  let ?r = "demo_create ?f"
  obtain r t l where run: "?r = (r, (t, l))" by (cases ?r) auto
  have ok: "fst ?r = Inr ()"
    by (simp add: demo_create_def CreatePR_def resolve_and_open_def open_pr_def finish_pr_def run_GetTask
        ListDiffs_def getRepoInfo_def broadcastPREvent_def Let_def demo_pr demo_diff_def demo_client_def numeral_2_eq_2
        sql_pr_done_def stmt_tasks_def coalesce_task_def)
  have client: "pr_target pu f (\<lambda>_. Some demo_client) s x c owner name base sha \<Longrightarrow> c = demo_client" for pu f s x c owner name base sha
    by (auto simp: pr_target_def)
  have answer: "vc_create_pr demo_client m a = Some (url, number) \<Longrightarrow> url = ''https://host/pr/4'' \<and> number = 4" for m a url number
    by (auto simp: demo_client_def split: if_splits)
  from CreatePR_follows_script [OF run [unfolded demo_create_def] demo_pr(2)]
  obtain c owner name base sha k where "let ds = sort_key d_created_at (filter (\<lambda>d. d_task_id d = 7) (diffs demo_pr_swarm));
      script = pr_script (\<lambda>i. ''0123456789'') (\<lambda>_. []) (coalesce_task demo_task) ds owner name base sha 40 in
    l = [] @ take k script \<and> (r = Inr () \<longleftrightarrow> length script \<le> k) \<and>
    (0 < k \<longrightarrow> pr_target (\<lambda>_. Some 9) ?f (\<lambda>_. Some demo_client) demo_pr_swarm demo_task c owner name base sha) \<and>
    (faults demo_pr_swarm = [] \<longrightarrow> (case r of
        Inl _ \<Rightarrow> tasks t = update_where (\<lambda>x. t_id x = 7) (\<lambda>x. x\<lparr>t_status := StatusFailed\<rparr>) (tasks demo_pr_swarm)
      | Inr _ \<Rightarrow> \<exists>url number. vc_create_pr c ([] @ butlast script) (last script) = Some (url, number) \<and>
          tasks t = update_where (\<lambda>x. t_id x = 7)
            (\<lambda>x. x\<lparr>t_pr_url := Some url, t_pr_number := Some number, t_status := StatusCompleted\<rparr>) (tasks demo_pr_swarm)))"
    by (elim exE)
  note all = this [unfolded Let_def]
  have r: "r = Inr ()" using ok run by simp
  then have "0 < k" using all by (cases k) (simp_all add: pr_script_def)
  then have "c = demo_client" using all client by blast
  then show ?thesis using all r run answer demo_pr(1) by auto
qed

end
