(* ===== verification/RoleELO.thy ===== *)
theory RoleELO
  imports SwarmDB
begin

text \<open>
  \<open>internal/swarm/role_elo.go\<close>: the persistent ELO score of a role in a repository, with its reward
  formula, its decay and its audit log.  Floating-point numbers are real numbers.  The JSON detail
  of a history entry is not modelled.
\<close>

section \<open>State\<close>

definition RoleELODefault :: real where "RoleELODefault = 1200"
definition RoleELOKFactor :: real where "RoleELOKFactor = 32"
definition RoleELODecayPerDay :: real where "RoleELODecayPerDay = 2"
definition RoleELOFloor :: real where "RoleELOFloor = RoleELODefault - 100"
definition RoleELOExpertMin :: real where "RoleELOExpertMin = 1400"
definition RoleELORestrictMin :: real where "RoleELORestrictMin = 1000"
definition WeightHumanRating :: real where "WeightHumanRating = 40 / 100"
definition WeightConsensusQuality :: real where "WeightConsensusQuality = 35 / 100"
definition WeightAutoMetrics :: real where "WeightAutoMetrics = 25 / 100"

lemmas elo_consts = RoleELODefault_def RoleELOKFactor_def RoleELODecayPerDay_def RoleELOFloor_def
  RoleELOExpertMin_def RoleELORestrictMin_def WeightHumanRating_def WeightConsensusQuality_def
  WeightAutoMetrics_def

record task_outcome =
  oc_task :: string
  oc_rating :: int
  oc_conf :: real
  oc_strategy :: string
  oc_tests :: bool
  oc_pr :: bool
  oc_build :: bool
  oc_win :: bool

record role_elo =
  re_id :: uuid
  re_role :: string
  re_repo :: string
  re_score :: real
  re_tier :: tier
  re_tasks_done :: int
  re_tasks_rated :: int
  re_avg_rating :: real
  re_wins :: int
  re_losses :: int
  re_cons_avg :: real
  re_strategy :: string
  re_probes :: int
  re_last_active :: time
  re_created_at :: time
  re_updated_at :: time

datatype elo_event = EvRating | EvAutoMetric | EvConsensus | EvDecay

record elo_history =
  eh_role :: string
  eh_repo :: string
  eh_task :: string
  eh_event :: elo_event
  eh_old :: real
  eh_new :: real
  eh_delta :: real
  eh_created_at :: time

record elo_db =
  role_rows :: "role_elo list"
  elo_hist :: "elo_history list"
  elo_faults :: "bool list"

type_synonym 'a eprog = "(elo_db, 'a) state"

definition elo_io :: "bool eprog" where
  "elo_io = State (\<lambda>s. case elo_faults s of
      [] \<Rightarrow> (True, s)
    | b # bs \<Rightarrow> (\<not> b, s\<lparr>elo_faults := bs\<rparr>))"

section \<open>Scores\<close>

definition expected_score :: "real \<Rightarrow> real \<Rightarrow> real" where
  "expected_score baseline elo = 1 / (1 + 10 powr ((baseline - elo) / 400))"

definition auto_count :: "task_outcome \<Rightarrow> nat" where
  "auto_count out = of_bool (oc_tests out) + of_bool (oc_pr out) + of_bool (oc_build out)"

definition auto_score :: "task_outcome \<Rightarrow> real" where
  "auto_score out = (if oc_tests out then 1 else 0) + (if oc_pr out then 1 else 0) +
     (if oc_build out then 1 else 0)"

definition human_part :: "task_outcome \<Rightarrow> real \<times> real" where
  "human_part out = (if oc_rating out > 0
     then (WeightHumanRating * (real_of_int (oc_rating out - 1) / 4), WeightHumanRating) else (0, 0))"

definition consensus_part :: "task_outcome \<Rightarrow> real \<times> real" where
  "consensus_part out = (if oc_conf out > 0
     then (WeightConsensusQuality *
             (if oc_win out then min 1 (oc_conf out * (12 / 10)) else oc_conf out), WeightConsensusQuality)
     else (0, 0))"

definition auto_part :: "task_outcome \<Rightarrow> real \<times> real" where
  "auto_part out = (if auto_count out > 0
     then (WeightAutoMetrics * (auto_score out / real (auto_count out)), WeightAutoMetrics) else (0, 0))"

definition computeCompositeScore :: "task_outcome \<Rightarrow> real" where
  "computeCompositeScore out =
     (let score = fst (human_part out) + fst (consensus_part out) + fst (auto_part out);
          totalWeight = snd (human_part out) + snd (consensus_part out) + snd (auto_part out) in
      if totalWeight = 0 then 1 / 2 else score / totalWeight)"

definition floor_elo :: "real \<Rightarrow> real" where
  "floor_elo e = (if e < RoleELOFloor then RoleELOFloor else e)"

definition tier_of :: "real \<Rightarrow> tier" where
  "tier_of e = (if e \<ge> RoleELOExpertMin then TierExpert
     else if e \<le> RoleELORestrictMin then TierRestricted else TierStandard)"

definition new_elo :: "task_outcome \<Rightarrow> real \<Rightarrow> real" where
  "new_elo out e = floor_elo (e + RoleELOKFactor * (computeCompositeScore out - expected_score RoleELODefault e))"

text \<open>The row an outcome produces.\<close>

definition outcome_row :: "task_outcome \<Rightarrow> time \<Rightarrow> role_elo \<Rightarrow> role_elo" where
  "outcome_row out now re =
     (let e = new_elo out (re_score re);
          rated = (if oc_rating out > 0 then re_tasks_rated re + 1 else re_tasks_rated re);
          total = re_wins re + re_losses re in
      re\<lparr>re_score := e,
         re_tier := tier_of e,
         re_tasks_done := re_tasks_done re + 1,
         re_tasks_rated := rated,
         re_avg_rating := (if oc_rating out > 0
           then (re_avg_rating re * real_of_int (re_tasks_rated re) + real_of_int (oc_rating out)) / real_of_int rated
           else re_avg_rating re),
         re_wins := (if oc_win out then re_wins re + 1 else re_wins re),
         re_losses := (if \<not> oc_win out \<and> oc_conf out > 0 then re_losses re + 1 else re_losses re),
         re_cons_avg := (if oc_conf out > 0 then
             (if total > 0 then (re_cons_avg re * real_of_int total + oc_conf out) / real_of_int (total + 1)
              else oc_conf out)
           else re_cons_avg re),
         re_strategy := (if oc_strategy out \<noteq> '''' \<and> oc_conf out > 7 / 10
           then oc_strategy out else re_strategy re),
         re_probes := (if tier_of e = TierRestricted then re_probes re + 1 else re_probes re),
         re_last_active := now,
         re_updated_at := now\<rparr>)"

definition outcome_event :: "task_outcome \<Rightarrow> elo_event" where
  "outcome_event out = (if oc_conf out > 0 then EvConsensus
     else if oc_rating out = 0 then EvAutoMetric else EvRating)"

section \<open>Operations\<close>

definition is_row :: "string \<Rightarrow> string \<Rightarrow> role_elo \<Rightarrow> bool" where
  "is_row role repo r \<longleftrightarrow> re_role r = role \<and> re_repo r = repo"

definition fetchRoleELO :: "string \<Rightarrow> string \<Rightarrow> (swarm_error + role_elo option) eprog" where
  [op_defs]: "fetchRoleELO role repo = do {
     ok \<leftarrow> elo_io;
     if \<not> ok then ret (Inl (ErrDB ''fetching role ELO''))
     else gets (\<lambda>s. Inr (List.find (is_row role repo) (role_rows s))) }"

definition default_row :: "uuid \<Rightarrow> string \<Rightarrow> string \<Rightarrow> time \<Rightarrow> role_elo" where
  "default_row i role repo now = \<lparr>re_id = i, re_role = role, re_repo = repo, re_score = RoleELODefault,
     re_tier = TierStandard, re_tasks_done = 0, re_tasks_rated = 0, re_avg_rating = 0, re_wins = 0,
     re_losses = 0, re_cons_avg = 0, re_strategy = '''', re_probes = 0, re_last_active = now,
     re_created_at = now, re_updated_at = now\<rparr>"

definition insert_default :: "uuid \<Rightarrow> string \<Rightarrow> string \<Rightarrow> time \<Rightarrow> elo_db \<Rightarrow> elo_db" where
  "insert_default i role repo now s =
     (if (\<exists>r\<in>set (role_rows s). is_row role repo r) then s
      else s\<lparr>role_rows := role_rows s @ [default_row i role repo now]\<rparr>)"

definition GetRoleELO :: "string \<Rightarrow> string \<Rightarrow> uuid \<Rightarrow> time \<Rightarrow> (swarm_error + role_elo option) eprog" where
  [op_defs]: "GetRoleELO role repo i now = do {
     r \<leftarrow> fetchRoleELO role repo;
     case r of
       Inl e \<Rightarrow> ret (Inl e)
     | Inr (Some x) \<Rightarrow> ret (Inr (Some x))
     | Inr None \<Rightarrow> do {
         ok \<leftarrow> elo_io;
         if \<not> ok then ret (Inl (ErrDB ''creating role ELO''))
         else do {
           _ \<leftarrow> modify (insert_default i role repo now);
           fetchRoleELO role repo } } }"

definition appendHistory ::
  "string \<Rightarrow> string \<Rightarrow> string \<Rightarrow> elo_event \<Rightarrow> real \<Rightarrow> real \<Rightarrow> time \<Rightarrow> unit eprog" where
  [op_defs]: "appendHistory role repo task ev old new now = do {
     ok \<leftarrow> elo_io;
     unless_nil ok (modify (\<lambda>s. s\<lparr>elo_hist := elo_hist s @ [\<lparr>eh_role = role, eh_repo = repo,
       eh_task = task, eh_event = ev, eh_old = old, eh_new = new, eh_delta = new - old,
       eh_created_at = now\<rparr>]\<rparr>)) }"

text \<open>
  \<open>RecordRoleOutcome\<close>.  The UPDATE writes the values computed from the row that was read; a nil
  record dereferences a nil pointer, which the code cannot reach once the row exists.
\<close>

definition RecordRoleOutcome ::
  "string \<Rightarrow> string \<Rightarrow> task_outcome \<Rightarrow> uuid \<Rightarrow> time \<Rightarrow> (swarm_error + unit) eprog" where
  [op_defs]: "RecordRoleOutcome role repo out i now = do {
     g \<leftarrow> GetRoleELO role repo i now;
     case g of
       Inl e \<Rightarrow> ret (Inl e)
     | Inr None \<Rightarrow> ret (Inl ErrPanic)
     | Inr (Some re) \<Rightarrow> do {
         ok \<leftarrow> elo_io;
         if \<not> ok then ret (Inl (ErrDB ''updating role ELO''))
         else do {
           _ \<leftarrow> modify (\<lambda>s. s\<lparr>role_rows := update_where (is_row role repo)
                  (\<lambda>r. (outcome_row out now re)\<lparr>re_id := re_id r, re_role := re_role r,
                     re_repo := re_repo r, re_created_at := re_created_at r\<rparr>) (role_rows s)\<rparr>);
           _ \<leftarrow> appendHistory role repo (oc_task out) (outcome_event out) (re_score re)
                  (new_elo out (re_score re)) now;
           ret (Inr ()) } } }"

definition days_since :: "time \<Rightarrow> time \<Rightarrow> real" where
  "days_since now lastActive = real_of_int (now - lastActive) / real_of_int day"

definition decay_row :: "time \<Rightarrow> role_elo \<Rightarrow> role_elo" where
  "decay_row now re =
     (let e = floor_elo (re_score re - RoleELODecayPerDay * days_since now (re_last_active re)) in
      re\<lparr>re_score := e, re_tier := tier_of e, re_updated_at := now\<rparr>)"

definition decay_one :: "time \<Rightarrow> role_elo \<Rightarrow> nat eprog" where
  [op_defs]: "decay_one now re =
     (if days_since now (re_last_active re) < 1 then ret 0
      else do {
        ok \<leftarrow> elo_io;
        if \<not> ok then ret 0
        else do {
          _ \<leftarrow> modify (\<lambda>s. s\<lparr>role_rows := update_where (\<lambda>r. re_id r = re_id re)
                 (\<lambda>r. r\<lparr>re_score := re_score (decay_row now re), re_tier := re_tier (decay_row now re),
                       re_updated_at := now\<rparr>) (role_rows s)\<rparr>);
          _ \<leftarrow> appendHistory (re_role re) (re_repo re) '''' EvDecay (re_score re)
                 (re_score (decay_row now re)) now;
          ret 1 } })"

definition ApplyDecay :: "time \<Rightarrow> (swarm_error + nat) eprog" where
  [op_defs]: "ApplyDecay now = do {
     ok \<leftarrow> elo_io;
     if \<not> ok then ret (Inl (ErrDB ''querying decay candidates''))
     else do {
       rows \<leftarrow> gets (\<lambda>s. filter (\<lambda>r. re_last_active r < now - 24 * hour \<and> re_score r > RoleELOFloor)
                (role_rows s));
       n \<leftarrow> sum_each (decay_one now) rows;
       ret (Inr n) } }"

definition ListRoleELOs :: "string \<Rightarrow> int \<Rightarrow> (swarm_error + role_elo list) eprog" where
  [op_defs]: "ListRoleELOs repo limit = do {
     ok \<leftarrow> elo_io;
     if \<not> ok then ret (Inl (ErrDB ''listing role ELOs''))
     else gets (\<lambda>s. Inr (take (nat (if limit \<le> 0 then 50 else limit))
       (sort_key (\<lambda>r. - re_score r) (filter (\<lambda>r. repo = '''' \<or> re_repo r = repo) (role_rows s))))) }"

definition GetRoleELOHistory :: "string \<Rightarrow> string \<Rightarrow> int \<Rightarrow> (swarm_error + elo_history list) eprog" where
  [op_defs]: "GetRoleELOHistory role repo limit = do {
     ok \<leftarrow> elo_io;
     if \<not> ok then ret (Inl (ErrDB ''listing role ELO history''))
     else gets (\<lambda>s. Inr (take (nat (if limit \<le> 0 then 50 else limit))
       (sort_key (\<lambda>h. - eh_created_at h)
         (filter (\<lambda>h. eh_role h = role \<and> eh_repo h = repo) (elo_hist s))))) }"

definition TierForRole :: "string \<Rightarrow> string \<Rightarrow> (tier \<times> real) eprog" where
  [op_defs]: "TierForRole role repo = do {
     ok \<leftarrow> elo_io;
     if \<not> ok then ret (TierStandard, RoleELODefault)
     else gets (\<lambda>s. case List.find (is_row role repo) (role_rows s) of
         None \<Rightarrow> (TierStandard, RoleELODefault)
       | Some r \<Rightarrow> (re_tier r, re_score r)) }"

fun ProbeCountForTier :: "tier \<Rightarrow> nat" where
  "ProbeCountForTier TierRestricted = 5"
| "ProbeCountForTier TierExpert = 2"
| "ProbeCountForTier TierStandard = 3"

end
