(* ===== verification/RoleELOCorrect.thy ===== *)
theory RoleELOCorrect
  imports RoleELO
begin

text \<open>
  Correctness of \<open>RoleELO\<close>: bounds on the reward and on a single update, row invariants as a
  locale interpreted for the scores and for the counters, the reachable tables, the exact effect of
  an outcome and of a decay, and the audit log.
\<close>

section \<open>Scores\<close>

lemma expected_score_bounds: "0 < expected_score b e" "expected_score b e < 1"
proof -
  have p: "0 < (10::real) powr ((b - e) / 400)" by simp
  then have q: "0 < 1 + (10::real) powr ((b - e) / 400)" by linarith
  from q show "0 < expected_score b e" unfolding expected_score_def by (rule divide_pos_pos [OF zero_less_one])
  from p q show "expected_score b e < 1" unfolding expected_score_def by (simp add: divide_less_eq)
qed

definition valid_outcome :: "task_outcome \<Rightarrow> bool" where
  "valid_outcome out \<longleftrightarrow> 0 \<le> oc_rating out \<and> oc_rating out \<le> 5 \<and> 0 \<le> oc_conf out \<and> oc_conf out \<le> 1"

definition part_ok :: "real \<times> real \<Rightarrow> bool" where
  "part_ok p \<longleftrightarrow> 0 \<le> fst p \<and> fst p \<le> snd p"

lemma part_ok_human: "valid_outcome out \<Longrightarrow> part_ok (human_part out)"
  by (auto simp: part_ok_def human_part_def valid_outcome_def WeightHumanRating_def)

lemma part_ok_consensus: "valid_outcome out \<Longrightarrow> part_ok (consensus_part out)"
  by (auto simp: part_ok_def consensus_part_def valid_outcome_def WeightConsensusQuality_def min_def)

lemma auto_part_eq:
  "auto_part out = (if oc_tests out \<or> oc_pr out \<or> oc_build out
     then (WeightAutoMetrics, WeightAutoMetrics) else (0, 0))"
  by (cases "oc_tests out"; cases "oc_pr out"; cases "oc_build out")
    (simp_all add: auto_part_def auto_count_def auto_score_def)

lemma part_ok_auto: "part_ok (auto_part out)"
  by (simp add: part_ok_def auto_part_eq WeightAutoMetrics_def)

lemma composite_bounds:
  assumes "valid_outcome out"
  shows "0 \<le> computeCompositeScore out" "computeCompositeScore out \<le> 1"
proof -
  let ?s = "fst (human_part out) + fst (consensus_part out) + fst (auto_part out)"
  let ?w = "snd (human_part out) + snd (consensus_part out) + snd (auto_part out)"
  have "0 \<le> ?s" "?s \<le> ?w"
    using part_ok_human [OF assms] part_ok_consensus [OF assms] part_ok_auto [of out]
    by (auto simp: part_ok_def)
  then show "0 \<le> computeCompositeScore out" "computeCompositeScore out \<le> 1"
    by (auto simp: computeCompositeScore_def Let_def divide_le_eq)
qed

lemma floor_elo_ge: "RoleELOFloor \<le> floor_elo e"
  by (simp add: floor_elo_def)

lemma floor_elo_max: "floor_elo e = max RoleELOFloor e"
  by (simp add: floor_elo_def)

lemma tier_floor: "RoleELOFloor \<le> e \<Longrightarrow> tier_of e \<noteq> TierRestricted"
  by (simp add: tier_of_def elo_consts)

lemma new_elo_step:
  assumes "valid_outcome out" and "RoleELOFloor \<le> e"
  shows "\<bar>new_elo out e - e\<bar> < RoleELOKFactor"
  using composite_bounds [OF assms(1)] expected_score_bounds [of RoleELODefault e] assms(2)
  by (auto simp: new_elo_def floor_elo_def RoleELOKFactor_def abs_less_iff)

section \<open>Row invariants\<close>

text \<open>
  The interface between the tables and the service: a property of rows that a fresh row has and
  that an outcome the service accepts and a decay keep.  The operations read a row before they
  write it, so the row written is built from the row read and the identity of the row in the table.
\<close>

definition written_row :: "role_elo \<Rightarrow> role_elo \<Rightarrow> role_elo" where
  "written_row new r = new\<lparr>re_id := re_id r, re_role := re_role r, re_repo := re_repo r,
     re_created_at := re_created_at r\<rparr>"

definition rows_all :: "(role_elo \<Rightarrow> bool) \<Rightarrow> elo_db \<Rightarrow> bool" where
  "rows_all P s \<longleftrightarrow> (\<forall>r\<in>set (role_rows s). P r)"

lemma rows_elo_io: "stable (keeps (rows_all P)) elo_io"
  by (rule stableI) (simp add: elo_io_def keeps_def rows_all_def split: list.splits)

lemma rows_appendHistory: "stable (keeps (rows_all P)) (appendHistory role repo task ev old new now)"
  unfolding appendHistory_def
  by (intro keeping.stable_combinators rows_elo_io stable_modify) (simp add: keeps_def rows_all_def)

lemma rows_fetch: "meets (rows_all P) (fetchRoleELO role repo) (\<lambda>r. \<forall>re. r = Inr (Some re) \<longrightarrow> P re)"
  unfolding fetchRoleELO_def
  by (rule meets_bind [OF meets_stable [OF rows_elo_io]])
    (auto intro!: meets_if meets_ret meets_gets simp: rows_all_def dest!: find_Some_in)

lemma rows_update:
  "rows_all P s \<Longrightarrow> (\<And>r. P r \<Longrightarrow> P (f r)) \<Longrightarrow> rows_all P (s\<lparr>role_rows := update_where p f (role_rows s)\<rparr>)"
  by (auto simp: rows_all_def in_update_where)

locale role_invariant =
  fixes P :: "role_elo \<Rightarrow> bool" and V :: "task_outcome \<Rightarrow> bool"
  assumes P_default: "P (default_row i role repo now)"
    and P_outcome: "V out \<Longrightarrow> P re \<Longrightarrow> P (written_row (outcome_row out now re) r)"
    and P_decay: "P re \<Longrightarrow> P r \<Longrightarrow> P (r\<lparr>re_score := re_score (decay_row now re),
        re_tier := re_tier (decay_row now re), re_updated_at := now\<rparr>)"
begin

lemma rows_insert: "rows_all P s \<Longrightarrow> rows_all P (insert_default i role repo now s)"
  by (auto simp: insert_default_def rows_all_def P_default)

lemma rows_GetRoleELO:
  "meets (rows_all P) (GetRoleELO role repo i now) (\<lambda>r. \<forall>re. r = Inr (Some re) \<longrightarrow> P re)"
  unfolding GetRoleELO_def
  by (rule meets_bind [OF rows_fetch])
    (auto split: sum.splits option.splits intro!: meets_ret meets_bind [OF meets_stable [OF rows_elo_io]]
      meets_if meets_bind [OF meets_modify [where Q = "\<lambda>_. True"]] rows_fetch rows_insert)

lemma rows_RecordRoleOutcome:
  assumes "V out"
  shows "stable (keeps (rows_all P)) (RecordRoleOutcome role repo out i now)"
proof -
  have upd: "stable (keeps (rows_all P)) (do {
      ok \<leftarrow> elo_io;
      if \<not> ok then ret (Inl (ErrDB ''updating role ELO''))
      else do {
        _ \<leftarrow> modify (\<lambda>s. s\<lparr>role_rows := update_where (is_row role repo)
               (\<lambda>r. (outcome_row out now re)\<lparr>re_id := re_id r, re_role := re_role r,
                  re_repo := re_repo r, re_created_at := re_created_at r\<rparr>) (role_rows s)\<rparr>);
        _ \<leftarrow> appendHistory role repo (oc_task out) (outcome_event out) (re_score re)
               (new_elo out (re_score re)) now;
        ret (Inr ()) } })" if "P re" for re
    by (intro keeping.stable_combinators rows_elo_io rows_appendHistory stable_modify keepsI
        rows_update P_outcome [unfolded written_row_def] assms that)
  show ?thesis
    unfolding RecordRoleOutcome_def
    by (rule meets_keeps [where Q = "\<lambda>_. True"], rule meets_bind [OF rows_GetRoleELO], rule meets_stable)
      (auto split: sum.splits option.splits intro!: keeping.stable_ret upd)
qed

lemma rows_decay_one: "P re \<Longrightarrow> stable (keeps (rows_all P)) (decay_one now re)"
  unfolding decay_one_def
  by (intro keeping.stable_combinators rows_elo_io rows_appendHistory stable_modify keepsI rows_update
      P_decay)

lemma rows_ApplyDecay: "stable (keeps (rows_all P)) (ApplyDecay now)"
proof -
  have "stable (keeps (rows_all P)) (do {
      rows \<leftarrow> gets (\<lambda>s. filter (\<lambda>r. re_last_active r < now - 24 * hour \<and> re_score r > RoleELOFloor) (role_rows s));
      n \<leftarrow> sum_each (decay_one now) rows;
      ret (Inr n :: swarm_error + nat) })"
    by (rule meets_keeps [where Q = "\<lambda>_. True"],
        rule meets_bind [OF meets_gets [where Q = "\<lambda>rows. \<forall>r\<in>set rows. P r"]])
      (auto simp: rows_all_def intro!: meets_stable keeping.stable_bind keeping.stable_sum_each
        keeping.stable_ret rows_decay_one)
  then show ?thesis
    unfolding ApplyDecay_def
    by (intro keeping.stable_bind [OF rows_elo_io] stable_if keeping.stable_ret)
qed

end

definition score_row :: "role_elo \<Rightarrow> bool" where
  "score_row r \<longleftrightarrow> RoleELOFloor \<le> re_score r \<and> re_tier r = tier_of (re_score r) \<and> re_probes r = 0"

lemma tier_floor_elo [simp]: "tier_of (floor_elo e) \<noteq> TierRestricted"
  by (rule tier_floor) (rule floor_elo_ge)

lemma default_tier: "RoleELOFloor \<le> RoleELODefault" "tier_of RoleELODefault = TierStandard"
  by (simp_all add: tier_of_def elo_consts)

interpretation score_inv: role_invariant score_row "\<lambda>_. True"
  by unfold_locales
    (auto simp: score_row_def default_row_def written_row_def outcome_row_def decay_row_def Let_def
      new_elo_def floor_elo_ge default_tier)

definition counts_row :: "role_elo \<Rightarrow> bool" where
  "counts_row r \<longleftrightarrow> 0 \<le> re_tasks_rated r \<and> re_tasks_rated r \<le> re_tasks_done r \<and>
     0 \<le> re_wins r \<and> 0 \<le> re_losses r \<and> re_wins r + re_losses r \<le> re_tasks_done r \<and>
     (re_tasks_rated r > 0 \<longrightarrow> 1 \<le> re_avg_rating r \<and> re_avg_rating r \<le> 5) \<and>
     0 \<le> re_cons_avg r \<and> re_cons_avg r \<le> 1"

lemma running_average_bounds:
  fixes a x lo hi :: real and n :: int
  assumes "0 \<le> n" and "0 < n \<longrightarrow> lo \<le> a \<and> a \<le> hi" and "lo \<le> x" "x \<le> hi"
  shows "lo \<le> (a * real_of_int n + x) / real_of_int (n + 1)"
    "(a * real_of_int n + x) / real_of_int (n + 1) \<le> hi"
proof -
  have "lo * real_of_int n \<le> a * real_of_int n" "a * real_of_int n \<le> hi * real_of_int n"
    using assms(1,2) by (cases "n = 0"; simp add: mult_right_mono)+
  then show "lo \<le> (a * real_of_int n + x) / real_of_int (n + 1)"
    "(a * real_of_int n + x) / real_of_int (n + 1) \<le> hi"
    using assms by (auto simp: field_simps)
qed

lemma counts_outcome:
  assumes "valid_outcome out" and "counts_row re"
  shows "counts_row (written_row (outcome_row out now re) r)"
proof -
  let ?rated = "re_tasks_rated re" and ?total = "re_wins re + re_losses re"
  have avg: "1 \<le> (re_avg_rating re * real_of_int ?rated + real_of_int (oc_rating out)) / real_of_int (?rated + 1)"
    "(re_avg_rating re * real_of_int ?rated + real_of_int (oc_rating out)) / real_of_int (?rated + 1) \<le> 5"
    if "0 < oc_rating out"
    using assms that
      running_average_bounds [of ?rated 1 "re_avg_rating re" 5 "real_of_int (oc_rating out)"]
    by (auto simp: counts_row_def valid_outcome_def)
  have cons: "0 \<le> (re_cons_avg re * real_of_int ?total + oc_conf out) / real_of_int (?total + 1)"
    "(re_cons_avg re * real_of_int ?total + oc_conf out) / real_of_int (?total + 1) \<le> 1"
    using assms running_average_bounds [of ?total 0 "re_cons_avg re" 1 "oc_conf out"]
    by (auto simp: counts_row_def valid_outcome_def)
  show ?thesis
    using assms avg cons
    by (auto simp: counts_row_def valid_outcome_def written_row_def outcome_row_def Let_def)
qed

interpretation count_inv: role_invariant counts_row valid_outcome
proof unfold_locales
  show "counts_row (default_row i role repo now)" for i role repo now
    by (simp add: counts_row_def default_row_def)
  show "counts_row (written_row (outcome_row out now re) r)"
    if "valid_outcome out" "counts_row re" for out now re r
    using that by (rule counts_outcome)
  show "counts_row (r\<lparr>re_score := re_score (decay_row now re), re_tier := re_tier (decay_row now re),
      re_updated_at := now\<rparr>)" if "counts_row re" "counts_row r" for re r now
    using that by (simp add: counts_row_def)
qed

text \<open>
  Every operation on role ELO records keeps, for any outcome and any faults: each score is at
  least the floor, each tier is the tier of the score.
\<close>

lemma role_ops_keep_scores:
  "stable (keeps (rows_all score_row)) (GetRoleELO role repo i now) \<and>
   stable (keeps (rows_all score_row)) (RecordRoleOutcome role repo out i now) \<and>
   stable (keeps (rows_all score_row)) (ApplyDecay now)"
  using meets_keeps [OF score_inv.rows_GetRoleELO] score_inv.rows_RecordRoleOutcome
    score_inv.rows_ApplyDecay by blast

text \<open>
  For ratings of at most five stars and confidences in the unit interval the counters stay
  consistent under any faults: no more ratings, wins and losses than tasks, an average rating
  between one and five once there is a rating, a consensus average in the unit interval.
\<close>

lemma role_ops_keep_counts:
  assumes "valid_outcome out"
  shows "stable (keeps (rows_all counts_row)) (RecordRoleOutcome role repo out i now) \<and>
    stable (keeps (rows_all counts_row)) (ApplyDecay now)"
  using count_inv.rows_RecordRoleOutcome [OF assms] count_inv.rows_ApplyDecay by blast

text \<open>
  One outcome: the composite reward lies in the unit interval, the score moves by less than the
  K-factor of 32 and stays at or above the floor.
\<close>

lemma outcome_score_bounds:
  assumes "valid_outcome out" and "RoleELOFloor \<le> e"
  shows "0 \<le> computeCompositeScore out \<and> computeCompositeScore out \<le> 1 \<and>
    \<bar>new_elo out e - e\<bar> < RoleELOKFactor \<and> RoleELOFloor \<le> new_elo out e"
  using assms composite_bounds new_elo_step floor_elo_ge by (auto simp: new_elo_def)

text \<open>
  Once one of the three automatic signals has passed, the others never matter: failing tests, a
  rejected pull request or a broken build leave the composite reward unchanged.
\<close>

lemma failed_checks_do_not_lower_reward:
  assumes "oc_tests out \<or> oc_pr out \<or> oc_build out" and "x \<or> y \<or> z"
  shows "computeCompositeScore (out\<lparr>oc_tests := x, oc_pr := y, oc_build := z\<rparr>) = computeCompositeScore out"
  using assms
  by (simp add: computeCompositeScore_def Let_def auto_part_eq human_part_def consensus_part_def)

section \<open>Reachable tables\<close>

inductive elo_step :: "elo_db \<Rightarrow> elo_db \<Rightarrow> bool" where
  step_get: "elo_step s (snd (run_state (GetRoleELO role repo i now) s))"
| step_outcome: "elo_step s (snd (run_state (RecordRoleOutcome role repo out i now) s))"
| step_decay: "elo_step s (snd (run_state (ApplyDecay now) s))"

inductive elo_reach :: "elo_db \<Rightarrow> bool" where
  reach_init: "role_rows s = [] \<Longrightarrow> elo_reach s"
| reach_step: "elo_reach s \<Longrightarrow> elo_step s t \<Longrightarrow> elo_reach t"

inductive_cases elo_step_cases: "elo_step s t"

lemma reach_score_rows: "elo_reach s \<Longrightarrow> rows_all score_row s"
proof (induction rule: elo_reach.induct)
  case (reach_init s)
  then show ?case by (simp add: rows_all_def)
next
  case (reach_step s t)
  from \<open>elo_step s t\<close> show ?case
    using reach_step.IH score_inv.rows_ApplyDecay score_inv.rows_RecordRoleOutcome
      meets_keeps [OF score_inv.rows_GetRoleELO]
    by (elim elo_step_cases) (auto simp: stable_def keeps_def)
qed

text \<open>
  In every table the service can reach from an empty one, with any outcomes and any faults, no
  role is in the restricted tier, the count of training probes is zero, and the tier reported to
  agents is never restricted: the floor of 1100 lies above the restriction threshold of 1000.
\<close>

lemma restricted_tier_unreachable:
  assumes "elo_reach s"
  shows "(\<forall>r\<in>set (role_rows s). re_tier r \<noteq> TierRestricted \<and> re_probes r = 0) \<and>
    fst (fst (run_state (TierForRole role repo) s)) \<noteq> TierRestricted"
proof -
  have rows: "\<forall>r\<in>set (role_rows s). re_tier r \<noteq> TierRestricted \<and> re_probes r = 0"
    using reach_score_rows [OF assms] tier_floor by (auto simp: rows_all_def score_row_def)
  then show ?thesis
    by (auto simp: TierForRole_def elo_io_def split: list.splits option.splits dest!: find_Some_in)
qed

section \<open>Averages\<close>

definition rated :: "task_outcome list \<Rightarrow> int list" where
  "rated outs = filter (\<lambda>x. x > 0) (map oc_rating outs)"

definition confidences :: "task_outcome list \<Rightarrow> real list" where
  "confidences outs = filter (\<lambda>x. x > 0) (map oc_conf outs)"

definition history_row :: "(task_outcome \<times> time) list \<Rightarrow> role_elo \<Rightarrow> role_elo" where
  "history_row outs re = fold (\<lambda>(out, now). outcome_row out now) outs re"

lemma cancel_int: "0 < n \<Longrightarrow> x / real_of_int n * real_of_int n = x"
  by simp

lemma outcome_ratings:
  assumes "0 \<le> re_tasks_rated re"
  shows "re_tasks_rated (outcome_row out now re) = re_tasks_rated re + int (length (rated [out]))"
    "re_avg_rating (outcome_row out now re) * real_of_int (re_tasks_rated (outcome_row out now re)) =
     re_avg_rating re * real_of_int (re_tasks_rated re) + real_of_int (sum_list (rated [out]))"
  using assms
  by (simp_all add: outcome_row_def Let_def rated_def cancel_int del: of_int_add)

lemma outcome_confidences:
  assumes "0 \<le> re_wins re" "0 \<le> re_losses re" "oc_win out \<longrightarrow> oc_conf out > 0"
  shows "re_wins (outcome_row out now re) + re_losses (outcome_row out now re) =
      re_wins re + re_losses re + int (length (confidences [out]))"
    "re_cons_avg (outcome_row out now re) *
       real_of_int (re_wins (outcome_row out now re) + re_losses (outcome_row out now re)) =
     re_cons_avg re * real_of_int (re_wins re + re_losses re) + sum_list (confidences [out])"
proof -
  show sum: "re_wins (outcome_row out now re) + re_losses (outcome_row out now re) =
      re_wins re + re_losses re + int (length (confidences [out]))"
    using assms by (auto simp: outcome_row_def Let_def confidences_def)
  show "re_cons_avg (outcome_row out now re) *
       real_of_int (re_wins (outcome_row out now re) + re_losses (outcome_row out now re)) =
     re_cons_avg re * real_of_int (re_wins re + re_losses re) + sum_list (confidences [out])"
  proof (cases "re_wins re + re_losses re = 0")
    case True
    then have "re_wins re = 0" "re_losses re = 0" using assms by linarith+
    then show ?thesis using assms(3) by (auto simp: sum outcome_row_def Let_def confidences_def)
  next
    case False
    then have "0 < re_wins re + re_losses re" using assms by linarith
    then show ?thesis unfolding sum
      by (simp add: outcome_row_def Let_def confidences_def cancel_int del: of_int_add)
  qed
qed

lemma outcome_counts:
  assumes "0 \<le> re_tasks_rated re" "0 \<le> re_wins re" "0 \<le> re_losses re"
  shows "re_tasks_done (outcome_row out now re) = re_tasks_done re + 1"
    "0 \<le> re_tasks_rated (outcome_row out now re)" "0 \<le> re_wins (outcome_row out now re)"
    "0 \<le> re_losses (outcome_row out now re)"
  using assms by (simp_all add: outcome_row_def Let_def)

definition tallies :: "role_elo \<Rightarrow> int \<times> real \<times> int \<times> real \<times> int" where
  "tallies r = (re_tasks_rated r, re_avg_rating r * real_of_int (re_tasks_rated r),
     re_wins r + re_losses r, re_cons_avg r * real_of_int (re_wins r + re_losses r), re_tasks_done r)"

lemma history_tallies:
  assumes "\<forall>(out, now)\<in>set outs. oc_win out \<longrightarrow> oc_conf out > 0"
    and "0 \<le> re_tasks_rated re" "0 \<le> re_wins re" "0 \<le> re_losses re"
    and "tallies re = (a, b, c, d, e)"
  shows "tallies (history_row outs re) =
    (a + int (length (rated (map fst outs))), b + real_of_int (sum_list (rated (map fst outs))),
     c + int (length (confidences (map fst outs))), d + sum_list (confidences (map fst outs)),
     e + int (length outs))"
  using assms
proof (induction outs arbitrary: re a b c d e)
  case Nil
  then show ?case by (simp add: history_row_def rated_def confidences_def)
next
  case (Cons x outs)
  obtain out now where x: "x = (out, now)" by (cases x)
  let ?re = "outcome_row out now re"
  have win: "oc_win out \<longrightarrow> oc_conf out > 0" using Cons.prems(1) x by simp
  note sums = outcome_ratings [OF Cons.prems(2), of out now]
    outcome_confidences [OF Cons.prems(3,4) win, of now] outcome_counts [OF Cons.prems(2-4), of out now]
  have "tallies ?re = (a + int (length (rated [out])), b + real_of_int (sum_list (rated [out])),
      c + int (length (confidences [out])), d + sum_list (confidences [out]), e + 1)"
    using Cons.prems(5) sums(1-5) unfolding tallies_def prod.inject by metis
  from Cons.IH [OF _ sums(6-8) this] Cons.prems(1)
  have "tallies (history_row outs ?re) =
    (a + int (length (rated [out])) + int (length (rated (map fst outs))),
     b + real_of_int (sum_list (rated [out])) + real_of_int (sum_list (rated (map fst outs))),
     c + int (length (confidences [out])) + int (length (confidences (map fst outs))),
     d + sum_list (confidences [out]) + sum_list (confidences (map fst outs)),
     e + 1 + int (length outs))" by simp
  then show ?case
    by (simp add: x history_row_def rated_def confidences_def)
qed

lemma confident_averages:
  assumes "\<forall>(out, now)\<in>set outs. oc_win out \<longrightarrow> oc_conf out > 0"
  shows "let r = history_row outs (default_row i role repo t0) in
    re_tasks_done r = int (length outs) \<and>
    re_tasks_rated r = int (length (rated (map fst outs))) \<and>
    re_avg_rating r * real_of_int (re_tasks_rated r) = real_of_int (sum_list (rated (map fst outs))) \<and>
    re_wins r + re_losses r = int (length (confidences (map fst outs))) \<and>
    re_cons_avg r * real_of_int (re_wins r + re_losses r) = sum_list (confidences (map fst outs))"
proof -
  have "tallies (default_row i role repo t0) = (0, 0, 0, 0, 0)"
    by (simp add: tallies_def default_row_def)
  from history_tallies [OF assms _ _ _ this]
  have "tallies (history_row outs (default_row i role repo t0)) =
      (int (length (rated (map fst outs))), real_of_int (sum_list (rated (map fst outs))),
       int (length (confidences (map fst outs))), sum_list (confidences (map fst outs)), int (length outs))"
    by (simp add: default_row_def)
  then show ?thesis unfolding tallies_def Let_def prod.inject by blast
qed

definition in_debate :: "task_outcome \<Rightarrow> bool" where
  "in_debate out \<longleftrightarrow> oc_win out \<or> oc_conf out > 0"

lemma outcome_debates:
  "re_wins (outcome_row out now re) + re_losses (outcome_row out now re) = re_wins re + re_losses re + of_bool (in_debate out)"
  by (simp add: outcome_row_def Let_def in_debate_def)

lemma history_counts:
  assumes "0 \<le> re_tasks_rated re" "0 \<le> re_wins re" "0 \<le> re_losses re"
  shows "re_tasks_done (history_row outs re) = re_tasks_done re + int (length outs) \<and>
    re_tasks_rated (history_row outs re) = re_tasks_rated re + int (length (rated (map fst outs))) \<and>
    re_avg_rating (history_row outs re) * real_of_int (re_tasks_rated (history_row outs re)) =
      re_avg_rating re * real_of_int (re_tasks_rated re) + real_of_int (sum_list (rated (map fst outs))) \<and>
    re_wins (history_row outs re) + re_losses (history_row outs re) =
      re_wins re + re_losses re + int (length (filter in_debate (map fst outs)))"
  using assms
proof (induction outs arbitrary: re)
  case Nil
  then show ?case by (simp add: history_row_def rated_def)
next
  case (Cons x outs)
  obtain out now where x: "x = (out, now)" by (cases x)
  let ?re = "outcome_row out now re"
  have step: "history_row (x # outs) re = history_row outs ?re" by (simp add: history_row_def x)
  note one = outcome_counts [OF Cons.prems, of out now] outcome_ratings [OF Cons.prems(1), of out now] outcome_debates [of out now re]
  have rated: "length (rated (map fst (x # outs))) = length (rated [out]) + length (rated (map fst outs))"
    "sum_list (rated (map fst (x # outs))) = sum_list (rated [out]) + sum_list (rated (map fst outs))"
    by (simp_all add: rated_def x)
  note later = Cons.IH [OF one(2-4)]
  have avg: "re_avg_rating (history_row outs ?re) * real_of_int (re_tasks_rated (history_row outs ?re)) =
      re_avg_rating re * real_of_int (re_tasks_rated re) + real_of_int (sum_list (rated [out]) + sum_list (rated (map fst outs)))"
    using later one(6) unfolding of_int_add by linarith
  show ?case
    unfolding step rated using later one(1,5,7) by (intro conjI avg) (simp_all add: x)
qed

text \<open>
  C36: the incrementally updated averages are the means.  After any sequence of outcomes from a fresh row,
  the stored average rating times the number of ratings is the sum of the ratings given, and wins plus
  losses count the outcomes that won a debate or carry a positive confidence.  If every win carries a positive
  confidence, the consensus average times wins plus losses is the sum of the confidences.  That condition
  is needed and the server does not ensure it: a win without a confidence leaves the average as it is
  but is counted, so the next confidences weigh less than their share.
\<close>

theorem running_averages_are_means:
  shows "let r = history_row outs (default_row i role repo t0) in
    re_tasks_done r = int (length outs) \<and>
    re_tasks_rated r = int (length (rated (map fst outs))) \<and>
    re_avg_rating r * real_of_int (re_tasks_rated r) = real_of_int (sum_list (rated (map fst outs))) \<and>
    re_wins r + re_losses r = int (length (filter in_debate (map fst outs))) \<and>
    ((\<forall>(out, now)\<in>set outs. oc_win out \<longrightarrow> oc_conf out > 0) \<longrightarrow>
      re_cons_avg r * real_of_int (re_wins r + re_losses r) = sum_list (confidences (map fst outs))) \<and>
    (\<forall>out now. oc_win out \<and> \<not> oc_conf out > 0 \<longrightarrow>
      (let r' = history_row (outs @ [(out, now)]) (default_row i role repo t0) in
        re_cons_avg r' = re_cons_avg r \<and> re_wins r' + re_losses r' = re_wins r + re_losses r + 1))"
proof -
  let ?d = "default_row i role repo t0"
  have start: "0 \<le> re_tasks_rated ?d" "0 \<le> re_wins ?d" "0 \<le> re_losses ?d" "re_tasks_done ?d = 0" "re_tasks_rated ?d = 0"
      "re_wins ?d + re_losses ?d = 0"
    by (simp_all add: default_row_def)
  have "history_row (outs @ [(out, now)]) ?d = outcome_row out now (history_row outs ?d)" for out now
    by (simp add: history_row_def)
  moreover have "re_cons_avg (outcome_row out now r) = re_cons_avg r" "re_wins (outcome_row out now r) + re_losses (outcome_row out now r) =
      re_wins r + re_losses r + 1" if "oc_win out" "\<not> oc_conf out > 0" for out now r
    using that by (simp_all add: outcome_row_def Let_def)
  ultimately have last: "\<forall>out now. oc_win out \<and> \<not> oc_conf out > 0 \<longrightarrow>
      (let r' = history_row (outs @ [(out, now)]) ?d in
        re_cons_avg r' = re_cons_avg (history_row outs ?d) \<and>
        re_wins r' + re_losses r' = re_wins (history_row outs ?d) + re_losses (history_row outs ?d) + 1)"
    by (simp only: Let_def) blast
  have confident: "(\<forall>(out, now)\<in>set outs. oc_win out \<longrightarrow> oc_conf out > 0) \<longrightarrow>
      re_cons_avg (history_row outs ?d) * real_of_int (re_wins (history_row outs ?d) + re_losses (history_row outs ?d)) =
        sum_list (confidences (map fst outs))"
    using confident_averages [of outs i role repo t0] by (simp only: Let_def) blast
  have counts: "re_tasks_done (history_row outs ?d) = int (length outs)"
    "re_tasks_rated (history_row outs ?d) = int (length (rated (map fst outs)))"
    "re_avg_rating (history_row outs ?d) * real_of_int (re_tasks_rated (history_row outs ?d)) = real_of_int (sum_list (rated (map fst outs)))"
    "re_wins (history_row outs ?d) + re_losses (history_row outs ?d) = int (length (filter in_debate (map fst outs)))"
    using history_counts [OF start(1-3), of outs] start(4-6) by auto
  show ?thesis unfolding Let_def using counts confident last [unfolded Let_def] by blast
qed

section \<open>Decay\<close>

lemma decay_score:
  "re_score (decay_row now re) = max RoleELOFloor (re_score re - RoleELODecayPerDay * days_since now (re_last_active re))"
  by (simp add: decay_row_def Let_def floor_elo_max)


section \<open>Operations without faults\<close>

lemma elo_io_ok [simp]: "elo_faults s = [] \<Longrightarrow> run_state elo_io s = (True, s)"
  by (simp add: elo_io_def)

lemma find_is_row:
  "List.find (is_row role repo) rows = None \<longleftrightarrow> (\<forall>r\<in>set rows. \<not> is_row role repo r)"
  by (rule find_None_iff_ex)

lemma find_append_new: "List.find p xs = None \<Longrightarrow> p x \<Longrightarrow> List.find p (xs @ [x]) = Some x"
  by (induction xs) (auto split: if_splits)

definition current_row :: "string \<Rightarrow> string \<Rightarrow> uuid \<Rightarrow> time \<Rightarrow> elo_db \<Rightarrow> role_elo" where
  "current_row role repo i now s =
     (case List.find (is_row role repo) (role_rows s) of None \<Rightarrow> default_row i role repo now | Some r \<Rightarrow> r)"

lemma is_row_default: "is_row role repo (default_row i role repo now)"
  by (simp add: is_row_def default_row_def)

lemma run_GetRoleELO:
  assumes "elo_faults s = []"
  shows "run_state (GetRoleELO role repo i now) s =
    (Inr (Some (current_row role repo i now s)), insert_default i role repo now s)"
proof (cases "List.find (is_row role repo) (role_rows s)")
  case None
  then have "\<not> (\<exists>r\<in>set (role_rows s). is_row role repo r)" by (simp add: find_is_row)
  then show ?thesis
    using None assms find_append_new [OF None is_row_default]
    by (simp add: GetRoleELO_def fetchRoleELO_def insert_default_def current_row_def)
next
  case (Some r)
  then have "\<exists>r\<in>set (role_rows s). is_row role repo r" by (auto dest: find_Some_in)
  then show ?thesis
    using Some assms by (simp add: GetRoleELO_def fetchRoleELO_def insert_default_def current_row_def)
qed


lemma find_insert_default:
  "List.find (is_row r p) (role_rows (insert_default i role repo now s)) =
   (if r = role \<and> p = repo then Some (current_row role repo i now s)
    else List.find (is_row r p) (role_rows s))"
proof (cases "List.find (is_row role repo) (role_rows s)")
  case None
  then have new: "\<not> (\<exists>r\<in>set (role_rows s). is_row role repo r)" by (simp add: find_is_row)
  have other: "\<not> is_row r p (default_row i role repo now)" if "\<not> (r = role \<and> p = repo)"
    using that by (auto simp: is_row_def default_row_def)
  have skip: "List.find q (xs @ [x]) = List.find q xs" if "\<not> q x" for q and x :: role_elo and xs
    using that by (induction xs) auto
  show ?thesis
    using None new other skip find_append_new [OF None is_row_default [of role repo i now]]
    by (auto simp: insert_default_def current_row_def)
next
  case (Some x)
  then have "\<exists>r\<in>set (role_rows s). is_row role repo r" by (auto dest: find_Some_in)
  then show ?thesis using Some by (auto simp: insert_default_def current_row_def)
qed

lemma written_outcome:
  "is_row role repo (written_row (outcome_row out now re) r) \<longleftrightarrow> is_row role repo r"
  "written_row (outcome_row out now re) re = outcome_row out now re"
  by (simp_all add: is_row_def written_row_def outcome_row_def Let_def)

definition outcome_entry :: "string \<Rightarrow> string \<Rightarrow> task_outcome \<Rightarrow> real \<Rightarrow> time \<Rightarrow> elo_history" where
  "outcome_entry role repo out old now = \<lparr>eh_role = role, eh_repo = repo, eh_task = oc_task out,
     eh_event = outcome_event out, eh_old = old, eh_new = new_elo out old,
     eh_delta = new_elo out old - old, eh_created_at = now\<rparr>"

lemma find_other_row:
  "\<not> (r = role \<and> p = repo) \<Longrightarrow>
   map_option (\<lambda>x. if is_row role repo x then f x else x) (List.find (is_row r p) rows) =
   List.find (is_row r p) rows"
  by (cases "List.find (is_row r p) rows") (auto dest!: find_Some_in simp: is_row_def)

lemma outcome_effect:
  fixes s role repo out i now
  defines "t \<equiv> snd (run_state (RecordRoleOutcome role repo out i now) s)"
    and "re \<equiv> current_row role repo i now s"
  assumes "elo_faults s = []"
  shows "fst (run_state (RecordRoleOutcome role repo out i now) s) = Inr ()"
    "List.find (is_row r p) (role_rows t) =
      (if r = role \<and> p = repo then Some (outcome_row out now re) else List.find (is_row r p) (role_rows s))"
    "elo_hist t = elo_hist s @ [outcome_entry role repo out (re_score re) now]"
    "elo_faults t = []"
proof -
  let ?u = "insert_default i role repo now s"
  let ?rows = "update_where (is_row role repo) (written_row (outcome_row out now re)) (role_rows ?u)"
  have u: "elo_faults ?u = []" "elo_hist ?u = elo_hist s" using assms by (simp_all add: insert_default_def)
  have run: "run_state (RecordRoleOutcome role repo out i now) s =
      (Inr (), ?u\<lparr>role_rows := ?rows, elo_hist := elo_hist s @ [outcome_entry role repo out (re_score re) now]\<rparr>)"
    using assms u by (simp add: RecordRoleOutcome_def run_GetRoleELO appendHistory_def outcome_entry_def
        written_row_def [abs_def] re_def)
  have "is_row role repo x \<Longrightarrow> is_row r p (written_row (outcome_row out now re) x) = is_row r p x" for x
    by (simp add: written_outcome)
  then have "List.find (is_row r p) ?rows =
      map_option (\<lambda>x. if is_row role repo x then written_row (outcome_row out now re) x else x)
        (List.find (is_row r p) (role_rows ?u))"
    by (rule find_update_where)
  moreover have "is_row role repo re"
    unfolding re_def current_row_def using is_row_default
    by (auto split: option.splits dest: find_Some_in)
  ultimately show "List.find (is_row r p) (role_rows t) =
      (if r = role \<and> p = repo then Some (outcome_row out now re) else List.find (is_row r p) (role_rows s))"
    unfolding t_def run find_insert_default
    using find_other_row [of r role p repo] by (simp add: written_outcome re_def [symmetric])
  show "fst (run_state (RecordRoleOutcome role repo out i now) s) = Inr ()"
    "elo_hist t = elo_hist s @ [outcome_entry role repo out (re_score re) now]" "elo_faults t = []"
    unfolding t_def run using u by simp_all
qed


text \<open>
  Without faults an outcome succeeds, replaces the row of the role in the repository (the
  default row if there was none) by the row computed from it, leaves every other row as it is, and
  appends one history entry with the old score, the new score and their difference.
\<close>

lemma RecordRoleOutcome_effect:
  assumes "elo_faults s = []"
  shows "fst (run_state (RecordRoleOutcome role repo out i now) s) = Inr () \<and>
    List.find (is_row r p) (role_rows (snd (run_state (RecordRoleOutcome role repo out i now) s))) =
      (if r = role \<and> p = repo then Some (outcome_row out now (current_row role repo i now s))
       else List.find (is_row r p) (role_rows s)) \<and>
    elo_hist (snd (run_state (RecordRoleOutcome role repo out i now) s)) = elo_hist s @
      [outcome_entry role repo out (re_score (current_row role repo i now s)) now]"
  using outcome_effect [OF assms] by blast

section \<open>The audit log\<close>

definition score_of :: "string \<Rightarrow> string \<Rightarrow> elo_db \<Rightarrow> real" where
  "score_of role repo s = (case List.find (is_row role repo) (role_rows s) of
       None \<Rightarrow> RoleELODefault | Some r \<Rightarrow> re_score r)"

definition logged :: "string \<Rightarrow> string \<Rightarrow> elo_db \<Rightarrow> real" where
  "logged role repo s =
     (\<Sum>h\<leftarrow>filter (\<lambda>h. eh_role h = role \<and> eh_repo h = repo) (elo_hist s). eh_delta h)"

type_synonym outcome_call = "string \<times> string \<times> task_outcome \<times> uuid \<times> time"

fun record_call :: "outcome_call \<Rightarrow> elo_db \<Rightarrow> elo_db" where
  "record_call (role, repo, out, i, now) s = snd (run_state (RecordRoleOutcome role repo out i now) s)"

definition audited :: "elo_db \<Rightarrow> bool" where
  "audited s \<longleftrightarrow> elo_faults s = [] \<and> (\<forall>role repo. score_of role repo s = RoleELODefault + logged role repo s)"

lemma outcome_row_score: "re_score (outcome_row out now re) = new_elo out (re_score re)"
  by (simp add: outcome_row_def Let_def)

lemma current_score: "re_score (current_row role repo i now s) = score_of role repo s"
  by (simp add: current_row_def score_of_def default_row_def split: option.splits)

lemma audited_record: "audited s \<Longrightarrow> audited (record_call c s)"
proof (cases c)
  case (fields role repo out i now)
  assume s: "audited s"
  then have "elo_faults s = []" by (simp add: audited_def)
  note eff = outcome_effect [where role = role and repo = repo and out = out and i = i and now = now, OF this]
  show ?thesis
    using s eff(4) unfolding audited_def fields record_call.simps
    by (auto simp: score_of_def [of _ _ "snd _"] logged_def eff(2,3) outcome_row_score current_score
        outcome_entry_def) (auto simp: score_of_def logged_def)
qed

lemma audited_records: "audited s \<Longrightarrow> audited (fold record_call cs s)"
  by (induction cs arbitrary: s) (simp_all add: audited_record)

text \<open>
  C35: Without faults the history explains the scores: after any sequence of recorded outcomes, over
  any roles and repositories, the score of a role in a repository is the default of 1200 plus the
  deltas logged for it.
\<close>

theorem audit_log_explains_scores:
  assumes "elo_faults s = []" and "role_rows s = []" and "elo_hist s = []"
  shows "score_of role repo (fold record_call cs s) = RoleELODefault + logged role repo (fold record_call cs s)"
proof -
  have "audited s" using assms by (simp add: audited_def score_of_def logged_def)
  then have "audited (fold record_call cs s)" by (rule audited_records)
  then show ?thesis by (simp add: audited_def)
qed

section \<open>No nil dereference\<close>

lemma GetRoleELO_result:
  "fst (run_state (GetRoleELO role repo i now) s) \<notin> {Inr None, Inl ErrPanic}"
proof (cases "List.find (is_row role repo) (role_rows s)")
  case None
  have "List.find (is_row role repo) (role_rows (insert_default i role repo now t)) \<noteq> None" for t
    by (simp add: find_insert_default)
  then show ?thesis
    using None by (auto simp: GetRoleELO_def fetchRoleELO_def elo_io_def split: list.splits if_splits)
next
  case (Some r)
  then show ?thesis
    by (auto simp: GetRoleELO_def fetchRoleELO_def elo_io_def split: list.splits if_splits)
qed

text \<open>
  Recording an outcome never dereferences a nil record: the row exists whenever it is read
  back, whichever calls fail.
\<close>

lemma RecordRoleOutcome_never_panics:
  "fst (run_state (RecordRoleOutcome role repo out i now) s) \<noteq> Inl ErrPanic"
  using GetRoleELO_result [of role repo i now s]
  by (auto simp: RecordRoleOutcome_def split_beta elo_io_def appendHistory_def
      split: sum.splits option.splits list.splits if_splits)

section \<open>Decay of the table\<close>

definition decay_due :: "time \<Rightarrow> role_elo \<Rightarrow> bool" where
  "decay_due now r \<longleftrightarrow> re_last_active r < now - 24 * hour \<and> re_score r > RoleELOFloor"

abbreviation decay_in :: "time \<Rightarrow> role_elo set \<Rightarrow> role_elo list \<Rightarrow> role_elo list" where
  "decay_in now \<equiv> rewrite_in (decay_row now)"

lemma decay_row_id [simp]: "re_id (decay_row now r) = re_id r"
  by (simp add: decay_row_def Let_def)

lemma due_one_day: "decay_due now r \<Longrightarrow> \<not> days_since now (re_last_active r) < 1"
  by (simp add: decay_due_def days_since_def time_units)

lemma run_decay_one:
  assumes "elo_faults s = []" and "distinct (map re_id (role_rows s))" and "re \<in> set (role_rows s)"
    and "decay_due now re"
  shows "run_state (decay_one now re) s =
    (1, s\<lparr>role_rows := decay_in now {re} (role_rows s),
         elo_hist := elo_hist s @ [\<lparr>eh_role = re_role re, eh_repo = re_repo re, eh_task = '''',
           eh_event = EvDecay, eh_old = re_score re, eh_new = re_score (decay_row now re),
           eh_delta = re_score (decay_row now re) - re_score re, eh_created_at = now\<rparr>]\<rparr>)"
proof -
  have "update_where (\<lambda>r. re_id r = re_id re) (\<lambda>r. r\<lparr>re_score := re_score (decay_row now re),
      re_tier := re_tier (decay_row now re), re_updated_at := now\<rparr>) (role_rows s) =
    decay_in now {re} (role_rows s)"
    using assms(2,3) by (rule update_by_key [where key = re_id]) (simp add: decay_row_def Let_def)
  then show ?thesis
    using assms due_one_day [OF assms(4)] by (simp add: decay_one_def appendHistory_def)
qed

lemma run_decay_rows:
  assumes "elo_faults s = []" and "distinct (map re_id (role_rows s))" and "distinct rows"
    and "set rows \<subseteq> set (role_rows s)" and "\<forall>r\<in>set rows. decay_due now r"
  shows "role_rows (snd (run_state (sum_each (decay_one now) rows) s)) = decay_in now (set rows) (role_rows s) \<and>
    fst (run_state (sum_each (decay_one now) rows) s) = length rows \<and>
    elo_faults (snd (run_state (sum_each (decay_one now) rows) s)) = []"
  using assms
proof (induction rows arbitrary: s)
  case Nil
  then show ?case by simp
next
  case (Cons re rows)
  let ?t = "snd (run_state (decay_one now re) s)"
  have run: "fst (run_state (decay_one now re) s) = 1" "role_rows ?t = decay_in now {re} (role_rows s)"
    "elo_faults ?t = []"
    using run_decay_one [OF Cons.prems(1,2), of re now] Cons.prems by simp_all
  have "set rows \<subseteq> set (role_rows ?t)"
    using Cons.prems(3,4) unfolding run(2) by (auto intro!: in_rewrite_in)
  then have IH: "role_rows (snd (run_state (sum_each (decay_one now) rows) ?t)) =
      decay_in now (set rows) (decay_in now {re} (role_rows s)) \<and>
      fst (run_state (sum_each (decay_one now) rows) ?t) = length rows \<and>
      elo_faults (snd (run_state (sum_each (decay_one now) rows) ?t)) = []"
    using Cons.IH [of ?t] Cons.prems run by (simp add: rewrite_in_keys [where key = re_id])
  have "decay_in now (set rows) (decay_in now {re} (role_rows s)) = decay_in now (set (re # rows)) (role_rows s)"
    using Cons.prems by (simp add: rewrite_in_step [where key = re_id])
  with IH run(1) show ?case by (simp add: split_beta)
qed

lemma ApplyDecay_run:
  assumes "elo_faults s = []" and "distinct (map re_id (role_rows s))"
  shows "fst (run_state (ApplyDecay now) s) = Inr (count_where (decay_due now) (role_rows s))"
    "role_rows (snd (run_state (ApplyDecay now) s)) =
      map (\<lambda>r. if decay_due now r then decay_row now r else r) (role_rows s)"
    "elo_faults (snd (run_state (ApplyDecay now) s)) = []"
proof -
  let ?rows = "filter (decay_due now) (role_rows s)"
  have rows: "filter (\<lambda>r. re_last_active r < now - 24 * hour \<and> re_score r > RoleELOFloor) (role_rows s) = ?rows"
    by (rule filter_cong [OF refl]) (simp add: decay_due_def)
  have "distinct ?rows" using assms(2) by (simp add: distinct_map)
  then have "role_rows (snd (run_state (sum_each (decay_one now) ?rows) s)) = decay_in now (set ?rows) (role_rows s) \<and>
      fst (run_state (sum_each (decay_one now) ?rows) s) = length ?rows \<and>
      elo_faults (snd (run_state (sum_each (decay_one now) ?rows) s)) = []"
    by (intro run_decay_rows assms) simp_all
  then show "fst (run_state (ApplyDecay now) s) = Inr (count_where (decay_due now) (role_rows s))"
    "role_rows (snd (run_state (ApplyDecay now) s)) =
      map (\<lambda>r. if decay_due now r then decay_row now r else r) (role_rows s)"
    "elo_faults (snd (run_state (ApplyDecay now) s)) = []"
    using assms(1) by (auto simp: ApplyDecay_def rows split_beta count_where_def rewrite_in_def)
qed

definition decay_ticks :: "time list \<Rightarrow> elo_db \<Rightarrow> elo_db" where
  "decay_ticks ts s = fold (\<lambda>now s. snd (run_state (ApplyDecay now) s)) ts s"

definition tick_row :: "time \<Rightarrow> role_elo \<Rightarrow> role_elo" where
  "tick_row now r = (if decay_due now r then decay_row now r else r)"

lemma decay_ticks_rows:
  assumes "elo_faults s = []" and "distinct (map re_id (role_rows s))"
  shows "role_rows (decay_ticks ts s) = map (fold tick_row ts) (role_rows s)"
  using assms unfolding decay_ticks_def
proof (induction ts arbitrary: s)
  case (Cons t ts)
  let ?s = "snd (run_state (ApplyDecay t) s)"
  have rows: "role_rows ?s = map (tick_row t) (role_rows s)"
    unfolding ApplyDecay_run(2) [OF Cons.prems] tick_row_def by simp
  have "map re_id (role_rows ?s) = map re_id (role_rows s)"
    by (simp add: rows tick_row_def)
  then have "distinct (map re_id (role_rows ?s))" using Cons.prems(2) by simp
  then show ?case using Cons.IH [of ?s] ApplyDecay_run(3) [OF Cons.prems] rows by simp
qed simp

lemma tick_row_active: "re_last_active (tick_row now r) = re_last_active r"
  by (simp add: tick_row_def decay_row_def Let_def)

lemma tick_row_score:
  assumes "re_last_active r < now - 24 * hour" and "RoleELOFloor \<le> re_score r"
  shows "re_score (tick_row now r) =
    max RoleELOFloor (re_score r - RoleELODecayPerDay * days_since now (re_last_active r))"
proof -
  have "0 \<le> days_since now (re_last_active r)" using assms(1) by (simp add: days_since_def time_units)
  then show ?thesis
    using assms by (auto simp: tick_row_def decay_due_def decay_score max_def RoleELODecayPerDay_def)
qed

lemma fold_tick_score:
  assumes "\<forall>t\<in>set ts. re_last_active r < t - 24 * hour" and "RoleELOFloor \<le> re_score r"
  shows "re_score (fold tick_row ts r) =
    max RoleELOFloor (re_score r - RoleELODecayPerDay * (\<Sum>t\<leftarrow>ts. days_since t (re_last_active r)))"
  using assms
proof (induction ts arbitrary: r)
  case (Cons t ts)
  have "0 \<le> days_since u (re_last_active r)" if "u \<in> set ts" for u
    using Cons.prems(1) that by (force simp: days_since_def time_units)
  then have nonneg: "0 \<le> (\<Sum>t\<leftarrow>ts. days_since t (re_last_active r))"
    by (intro sum_list_nonneg) auto
  have "re_score (fold tick_row ts (tick_row t r)) = max RoleELOFloor
      (re_score (tick_row t r) - RoleELODecayPerDay * (\<Sum>t\<leftarrow>ts. days_since t (re_last_active r)))"
    using Cons.IH [of "tick_row t r"] Cons.prems by (simp add: tick_row_active tick_row_score)
  then show ?case
    using nonneg Cons.prems by (simp add: tick_row_score RoleELODecayPerDay_def max_def algebra_simps)
qed (simp add: max_def)

text \<open>
  Without faults one decay run rewrites exactly the rows inactive for more than a day and above
  the floor, and returns their number; a decayed score is never higher and never below the floor.
\<close>

lemma ApplyDecay_effect:
  assumes "elo_faults s = []" and "distinct (map re_id (role_rows s))"
  shows "fst (run_state (ApplyDecay now) s) = Inr (count_where (decay_due now) (role_rows s)) \<and>
    role_rows (snd (run_state (ApplyDecay now) s)) =
      map (\<lambda>r. if decay_due now r then decay_row now r else r) (role_rows s) \<and>
    (\<forall>r. decay_due now r \<longrightarrow> RoleELOFloor \<le> re_score (decay_row now r) \<and> re_score (decay_row now r) < re_score r)"
proof -
  have "re_score (decay_row now r) < re_score r" if "decay_due now r" for r
    using that due_one_day [OF that] by (auto simp: decay_score decay_due_def RoleELODecayPerDay_def)
  then show ?thesis using ApplyDecay_run [OF assms] by (simp add: decay_score)
qed

text \<open>
  The decay compounds: each run subtracts two points for every day since the role was last
  active, not since the last run, so a sequence of runs subtracts the sum of these amounts (down to
  the floor) instead of two points per day.
\<close>

lemma decay_compounds:
  assumes "elo_faults s = []" and "distinct (map re_id (role_rows s))" and "rows_all score_row s"
    and "\<forall>r\<in>set (role_rows s). \<forall>t\<in>set ts. re_last_active r < t - 24 * hour"
  shows "map re_score (role_rows (decay_ticks ts s)) =
    map (\<lambda>r. max RoleELOFloor
      (re_score r - RoleELODecayPerDay * (\<Sum>t\<leftarrow>ts. days_since t (re_last_active r)))) (role_rows s)"
  using assms by (auto simp: decay_ticks_rows rows_all_def score_row_def intro!: fold_tick_score)

section \<open>Witnesses\<close>

definition example_outcome :: task_outcome where
  "example_outcome = \<lparr>oc_task = ''t'', oc_rating = 5, oc_conf = 4 / 5, oc_strategy = ''panel'',
     oc_tests = True, oc_pr = False, oc_build = False, oc_win = True\<rparr>"

definition empty_elo :: elo_db where
  "empty_elo = \<lparr>role_rows = [], elo_hist = [], elo_faults = []\<rparr>"

definition expert_elo :: elo_db where
  "expert_elo = \<lparr>role_rows = [(default_row 1 ''qa'' ''repo'' 0)\<lparr>re_score := 1300\<rparr>], elo_hist = [], elo_faults = []\<rparr>"

theorem running_averages_are_means_witness:
  "let r = history_row [(example_outcome, 1), (example_outcome\<lparr>oc_rating := 2\<rparr>, 2)] (default_row 1 ''qa'' ''repo'' 0) in
    re_avg_rating r * 2 = 7 \<and> re_cons_avg r * 2 = 8 / 5"
proof -
  define r where "r = history_row [(example_outcome, 1), (example_outcome\<lparr>oc_rating := 2\<rparr>, 2)] (default_row 1 ''qa'' ''repo'' 0)"
  have sums: "length (rated [example_outcome, example_outcome\<lparr>oc_rating := 2\<rparr>]) = 2"
    "sum_list (rated [example_outcome, example_outcome\<lparr>oc_rating := 2\<rparr>]) = 7"
    "length (filter in_debate [example_outcome, example_outcome\<lparr>oc_rating := 2\<rparr>]) = 2"
    "sum_list (confidences [example_outcome, example_outcome\<lparr>oc_rating := 2\<rparr>]) = 8 / 5"
    "oc_conf example_outcome > 0" "oc_conf (example_outcome\<lparr>oc_rating := 2\<rparr>) > 0"
    by (simp_all add: example_outcome_def rated_def confidences_def in_debate_def)
  have "re_tasks_rated r = int 2 \<and> re_avg_rating r * real_of_int (re_tasks_rated r) = real_of_int 7 \<and>
      re_wins r + re_losses r = int 2 \<and> re_cons_avg r * real_of_int (re_wins r + re_losses r) = 8 / 5"
    using running_averages_are_means [of "[(example_outcome, 1), (example_outcome\<lparr>oc_rating := 2\<rparr>, 2)]"
        1 "''qa''" "''repo''" 0, folded r_def] sums(5,6)
    unfolding Let_def list.map fst_conv sums(1-4) by fastforce
  then have n: "re_tasks_rated r = int 2" "re_wins r + re_losses r = int 2"
    and avg: "re_avg_rating r * real_of_int (re_tasks_rated r) = real_of_int 7"
      "re_cons_avg r * real_of_int (re_wins r + re_losses r) = 8 / 5" by blast+
  from avg [unfolded n] show ?thesis unfolding Let_def r_def [symmetric] by simp
qed

theorem audit_log_explains_scores_witness:
  "score_of ''qa'' ''repo'' (fold record_call [(''qa'', ''repo'', example_outcome, 1, 0)] empty_elo) =
   RoleELODefault + logged ''qa'' ''repo'' (fold record_call [(''qa'', ''repo'', example_outcome, 1, 0)] empty_elo)"
  by (rule audit_log_explains_scores) (simp_all add: empty_elo_def)

end
