(* ===== verification/AgentELO.thy ===== *)
theory AgentELO
  imports TaskCorrect RoleELOCorrect
begin

text \<open>
  \<open>internal/swarm/elo.go\<close> and \<open>internal/swarm/elo_auto_tier.go\<close>: the ELO score of a single
  agent, updated by human ratings, and the periodic review of agent tiers.
\<close>

definition DefaultELO :: real where "DefaultELO = 1200"
definition KFactor :: real where "KFactor = 32"
definition PromotionThreshold :: real where "PromotionThreshold = 1400"
definition DemotionThreshold :: real where "DemotionThreshold = 1000"
definition MinRatedTasks :: int where "MinRatedTasks = 5"

definition feedback_elo :: "real \<Rightarrow> int \<Rightarrow> real" where
  "feedback_elo e rating =
     e + KFactor * (real_of_int (rating - 1) / 4 - expected_score DefaultELO e)"

definition feedback_avg :: "real \<Rightarrow> int \<Rightarrow> int \<Rightarrow> real" where
  "feedback_avg avg n_rated rating =
     (avg * real_of_int n_rated + real_of_int rating) / real_of_int (n_rated + 1)"

definition sql_feedback :: "uuid \<Rightarrow> real \<Rightarrow> real \<Rightarrow> stmt" where
  [sql_defs]: "sql_feedback aid e avg = stmt_agents (\<lambda>a. a_id a = aid)
     (\<lambda>a. a\<lparr>a_elo_score := e, a_tasks_rated := a_tasks_rated a + 1, a_avg_rating := avg\<rparr>)"

definition RecordFeedback :: "uuid \<Rightarrow> int \<Rightarrow> (swarm_error + unit) prog" where
  [op_defs]: "RecordFeedback aid rating = do {
     r \<leftarrow> query (find_agent aid);
     case r of
       None \<Rightarrow> ret (Inl (ErrDB ''fetching agent for ELO''))
     | Some None \<Rightarrow> ret (Inl (ErrDB ''fetching agent for ELO''))
     | Some (Some a) \<Rightarrow> do {
         u \<leftarrow> exec (sql_feedback aid (feedback_elo (a_elo_score a) rating)
                (feedback_avg (a_avg_rating a) (a_tasks_rated a) rating));
         ret (case u of None \<Rightarrow> Inl (ErrDB ''updating ELO'') | Some _ \<Rightarrow> Inr ()) } }"

definition sql_tasks_done :: "uuid \<Rightarrow> stmt" where
  [sql_defs]: "sql_tasks_done aid =
     stmt_agents (\<lambda>a. a_id a = aid) (\<lambda>a. a\<lparr>a_tasks_done := a_tasks_done a + 1\<rparr>)"

definition IncrementTasksDone :: "uuid \<Rightarrow> (swarm_error + unit) prog" where
  [op_defs]: "IncrementTasksDone aid = do {
     r \<leftarrow> exec (sql_tasks_done aid);
     ret (case r of None \<Rightarrow> Inl (ErrDB ''tasks_done'') | Some _ \<Rightarrow> Inr ()) }"

definition review_tier :: "real \<Rightarrow> tier \<Rightarrow> tier" where
  "review_tier e cur =
     (if e \<ge> PromotionThreshold \<and> cur \<noteq> TierExpert then TierExpert
      else if e \<le> DemotionThreshold \<and> cur \<noteq> TierRestricted then TierRestricted
      else if e > DemotionThreshold \<and> e < PromotionThreshold \<and> cur \<noteq> TierStandard then TierStandard
      else cur)"

definition sql_set_tier :: "uuid \<Rightarrow> tier \<Rightarrow> stmt" where
  [sql_defs]: "sql_set_tier aid t = stmt_agents (\<lambda>a. a_id a = aid) (\<lambda>a. a\<lparr>a_tier := t\<rparr>)"

definition review_agent :: "agent \<Rightarrow> unit prog" where
  [op_defs]: "review_agent a =
     (let t = review_tier (a_elo_score a) (a_tier a) in
      if t \<noteq> a_tier a then do { _ \<leftarrow> exec (sql_set_tier (a_id a) t); ret () } else ret ())"

definition reviewTiers :: "unit prog" where
  [op_defs]: "reviewTiers = do {
     r \<leftarrow> query (\<lambda>s. filter (\<lambda>a. a_tasks_rated a \<ge> MinRatedTasks \<and> a_status a \<noteq> AgentOffline) (agents s));
     case r of None \<Rightarrow> ret () | Some ags \<Rightarrow> for_each review_agent ags }"

definition GetAgentTier :: "uuid \<Rightarrow> tier prog" where
  [op_defs]: "GetAgentTier aid = do {
     r \<leftarrow> query (\<lambda>s. map_option a_tier (find_agent aid s));
     ret (case r of Some (Some t) \<Rightarrow> t | _ \<Rightarrow> TierStandard) }"

section \<open>Correctness\<close>

definition tier_for :: "real \<Rightarrow> tier" where
  "tier_for e = (if e \<ge> PromotionThreshold then TierExpert
     else if e \<le> DemotionThreshold then TierRestricted else TierStandard)"

lemma review_tier_for: "review_tier e cur = tier_for e"
  by (cases cur) (auto simp: review_tier_def tier_for_def PromotionThreshold_def DemotionThreshold_def)

definition reviewed :: "agent \<Rightarrow> agent" where
  "reviewed a = (if a_tasks_rated a \<ge> MinRatedTasks \<and> a_status a \<noteq> AgentOffline
     then a\<lparr>a_tier := tier_for (a_elo_score a)\<rparr> else a)"

definition classified :: "agent \<Rightarrow> agent" where
  "classified a = a\<lparr>a_tier := tier_for (a_elo_score a)\<rparr>"

lemma classified_id [simp]: "a_id (classified a) = a_id a"
  by (simp add: classified_def)

lemma run_review_agent:
  assumes "faults s = []" and "distinct (map a_id (agents s))" and "a \<in> set (agents s)"
  shows "run_state (review_agent a) s = ((), s\<lparr>agents := rewrite_in classified {a} (agents s)\<rparr>)"
proof (cases "tier_for (a_elo_score a) = a_tier a")
  case True
  then have "classified a = a" by (simp add: classified_def)
  then have "rewrite_in classified {a} (agents s) = agents s"
    unfolding rewrite_in_def by (intro map_idI) auto
  with True show ?thesis by (simp add: review_agent_def review_tier_for)
next
  case False
  have "update_where (\<lambda>b. a_id b = a_id a) (\<lambda>b. b\<lparr>a_tier := tier_for (a_elo_score a)\<rparr>) (agents s) =
      rewrite_in classified {a} (agents s)"
    using assms(2,3) by (rule update_by_key [where key = a_id]) (simp add: classified_def)
  with False assms(1) show ?thesis
    by (simp add: review_agent_def review_tier_for sql_set_tier_def stmt_agents_def)
qed

lemma run_reviews:
  assumes "faults s = []" and "distinct (map a_id (agents s))" and "distinct ags"
    and "set ags \<subseteq> set (agents s)"
  shows "run_state (for_each review_agent ags) s = ((), s\<lparr>agents := rewrite_in classified (set ags) (agents s)\<rparr>)"
  using assms
proof (induction ags arbitrary: s)
  case (Cons a ags)
  let ?t = "s\<lparr>agents := rewrite_in classified {a} (agents s)\<rparr>"
  have run: "run_state (review_agent a) s = ((), ?t)"
    using Cons.prems by (intro run_review_agent) auto
  have "set ags \<subseteq> set (agents ?t)"
    using Cons.prems(3,4) by (auto intro!: in_rewrite_in)
  then have "run_state (for_each review_agent ags) ?t =
      ((), ?t\<lparr>agents := rewrite_in classified (set ags) (agents ?t)\<rparr>)"
    using Cons.prems by (intro Cons.IH) (simp_all add: rewrite_in_keys [where key = a_id])
  then show ?case
    using run Cons.prems by (simp add: rewrite_in_step [where key = a_id])
qed simp

text \<open>
  Without faults, one review sets the tier of every online agent with at least five rated
  tasks to the tier of its score, whatever tier it had, and leaves all other agents alone.
\<close>

lemma reviewTiers_effect:
  assumes "faults s = []" and "db_wf s"
  shows "run_state reviewTiers s = ((), s\<lparr>agents := map reviewed (agents s)\<rparr>)"
proof -
  let ?ags = "filter (\<lambda>a. a_tasks_rated a \<ge> MinRatedTasks \<and> a_status a \<noteq> AgentOffline) (agents s)"
  have ids: "distinct (map a_id (agents s))" using assms(2) by (simp add: wf_defs)
  have "run_state (for_each review_agent ?ags) s = ((), s\<lparr>agents := rewrite_in classified (set ?ags) (agents s)\<rparr>)"
    using ids assms(1) by (intro run_reviews) (auto simp: distinct_map)
  moreover have "rewrite_in classified (set ?ags) (agents s) = map reviewed (agents s)"
    unfolding rewrite_in_def by (rule map_cong) (auto simp: reviewed_def classified_def)
  ultimately show ?thesis using assms(1) by (simp add: reviewTiers_def)
qed

lemma feedback_step:
  assumes "1 \<le> rating" "rating \<le> 5"
  shows "\<bar>feedback_elo e rating - e\<bar> < KFactor"
proof -
  have "1 \<le> real_of_int rating" "real_of_int rating \<le> 5" using assms by simp_all
  then show ?thesis
    using expected_score_bounds [of DefaultELO e]
    by (simp add: feedback_elo_def KFactor_def abs_less_iff field_simps)
qed

text \<open>
  Without faults, a rating from one to five moves the score of the agent by less than 32,
  counts one more rating, and keeps the stored average the mean of the ratings.
\<close>

lemma RecordFeedback_effect:
  assumes "faults s = []" and "find_agent aid s = Some a" and "1 \<le> rating" "rating \<le> 5"
    and "0 \<le> a_tasks_rated a"
  shows "\<exists>t b. run_state (RecordFeedback aid rating) s = (Inr (), t) \<and> find_agent aid t = Some b \<and>
    \<bar>a_elo_score b - a_elo_score a\<bar> < KFactor \<and> a_tasks_rated b = a_tasks_rated a + 1 \<and>
    a_avg_rating b * real_of_int (a_tasks_rated b) =
      a_avg_rating a * real_of_int (a_tasks_rated a) + real_of_int rating"
proof -
  let ?f = "\<lambda>b. b\<lparr>a_elo_score := feedback_elo (a_elo_score a) rating, a_tasks_rated := a_tasks_rated b + 1,
    a_avg_rating := feedback_avg (a_avg_rating a) (a_tasks_rated a) rating\<rparr>"
  let ?t = "s\<lparr>agents := update_where (\<lambda>b. a_id b = aid) ?f (agents s)\<rparr>"
  have aid: "a_id a = aid" using assms(2) by (auto simp: find_agent_def dest: find_Some_in)
  have "run_state (RecordFeedback aid rating) s = (Inr (), ?t)"
    using assms by (simp add: RecordFeedback_def sql_feedback_def stmt_agents_def)
  moreover have "find_agent aid ?t = Some (?f a)"
    using assms(2) aid by (simp add: find_agent_def find_update_where)
  moreover have "feedback_avg (a_avg_rating a) (a_tasks_rated a) rating * real_of_int (a_tasks_rated a + 1) =
      a_avg_rating a * real_of_int (a_tasks_rated a) + real_of_int rating"
    unfolding feedback_avg_def using assms(5) by (intro cancel_int) simp
  ultimately show ?thesis
    using feedback_step [OF assms(3,4), of "a_elo_score a"] by (intro exI [of _ ?t] exI [of _ "?f a"]) simp
qed

section \<open>Witnesses\<close>

definition rated_swarm :: swarm where
  "rated_swarm = demo_swarm\<lparr>agents := map (\<lambda>a. a\<lparr>a_elo_score := 1450, a_tasks_rated := 6\<rparr>) (agents demo_swarm)\<rparr>"

end
