(* ===== verification/AgentAPI.thy ===== *)
theory AgentAPI
  imports AgentAuth PRCreator AgentELO RoleELO
begin

text \<open>
  \<open>internal/swarm/handler.go\<close>, the endpoints under \<open>/internal/swarm\<close> that the Python agents call, and
  their routes with the middleware in front (\<open>internal/server/server.go\<close>).  Path parameters are UUID
  texts, a body is an option (\<open>None\<close>: the JSON decoder rejects it), claims are those the middleware
  put into the context.  A response is a status code with the value the handler encodes.  The state
  is the pair of the swarm tables and the role ELO tables.  Prometheus counters of discussion and
  consensus events and the payloads of WebSocket events beyond their identifiers are left out.
\<close>

record server_cfg =
  sv_us :: "uuid \<Rightarrow> string"
  sv_sign :: "agent_claims \<Rightarrow> string option"
  sv_verify :: "time \<Rightarrow> string \<Rightarrow> agent_claims option"
  sv_sha :: "string \<Rightarrow> string"
  sv_secret :: string
  sv_elo :: bool
  sv_role_elo :: bool
  sv_memory :: bool
  sv_pr :: bool
  sv_db :: bool
  sv_llm :: "(bool \<times> nat) option"

type_synonym 'a hprog = "(swarm \<times> elo_db, 'a) state"

fun text_of :: "(uuid \<Rightarrow> string) \<Rightarrow> uuid_text \<Rightarrow> string" where
  "text_of us (NotUUID x) = x"
| "text_of us (Canonical u) = us u"
| "text_of us (Variant u x) = x"

section \<open>Shapes of handlers\<close>

definition with_id :: "uuid_text \<Rightarrow> (uuid \<Rightarrow> ('s, 'b resp) state) \<Rightarrow> ('s, 'b resp) state" where
  "with_id x f = (case parse_uuid x of None \<Rightarrow> ret (Fail 400) | Some i \<Rightarrow> f i)"

definition with_body :: "'c option \<Rightarrow> ('c \<Rightarrow> ('s, 'b resp) state) \<Rightarrow> ('s, 'b resp) state" where
  "with_body b f = (case b of None \<Rightarrow> ret (Fail 400) | Some x \<Rightarrow> f x)"

definition or_fail :: "nat \<Rightarrow> ('s, 'e + 'a) state \<Rightarrow> ('a \<Rightarrow> ('s, 'b resp) state) \<Rightarrow> ('s, 'b resp) state" where
  "or_fail code m f = do { r \<leftarrow> m; case r of Inl _ \<Rightarrow> ret (Fail code) | Inr x \<Rightarrow> f x }"

section \<open>Registration and tokens\<close>

record registration =
  rg_token :: string
  rg_agent :: uuid_text
  rg_expires_in :: int
  rg_llm :: "(bool \<times> nat) option"
  rg_tier :: "(tier \<times> real \<times> nat) option"

definition identify :: "register_request \<Rightarrow> uuid \<Rightarrow> uuid \<times> register_request" where
  "identify req new_id =
     (let aid = parse_or_nil (rq_agent req) in
      if aid = uuid_nil then (new_id, req\<lparr>rq_agent := Canonical new_id\<rparr>) else (aid, req))"

definition RegisterAgent_http ::
  "server_cfg \<Rightarrow> register_request option \<Rightarrow> uuid \<Rightarrow> uuid \<Rightarrow> uuid \<Rightarrow> time \<Rightarrow> registration resp hprog" where
  [op_defs]: "RegisterAgent_http cfg body new_id fresh jti now = with_body body (\<lambda>req0.
     if rq_role req0 = [] then ret (Fail 400)
     else (let (aid, req) = identify req0 new_id in do {
       r \<leftarrow> on_fst (RegisterAgent (sv_us cfg) aid (rq_role req) (parse_or_nil (rq_team req))
              (rq_hostname req) (rq_version req) now);
       _ \<leftarrow> (case r of Inl _ \<Rightarrow> ret () | Inr _ \<Rightarrow> on_fst (void (Heartbeat aid now)));
       or_fail 500 (on_fst (Register (sv_sign cfg) (sv_sha cfg) (sv_us cfg) req fresh jti now)) (\<lambda>rs. do {
         tier \<leftarrow> (if sv_role_elo cfg \<and> rq_repo req \<noteq> [] then do {
                   (ti, elo) \<leftarrow> on_snd (TierForRole (rq_role req) (rq_repo req));
                   ret (Some (ti, elo, ProbeCountForTier ti)) }
                 else ret None);
         ret (Reply 200 \<lparr>rg_token = rs_token rs, rg_agent = rs_agent rs, rg_expires_in = rs_expires_in rs,
           rg_llm = map_option (\<lambda>(routes, n). (\<not> routes, n)) (sv_llm cfg), rg_tier = tier\<rparr>) }) }))"

definition RevokeAgent_http :: "agent_claims option \<Rightarrow> unit resp prog" where
  [op_defs]: "RevokeAgent_http claims = (case claims of
       None \<Rightarrow> ret (Fail 401)
     | Some c \<Rightarrow> or_fail 500 (Revoke (cl_subject c)) (\<lambda>_. ret (Reply 204 ())))"

section \<open>Tasks\<close>

definition GetTaskInternal :: "uuid_text \<Rightarrow> task resp prog" where
  [op_defs]: "GetTaskInternal i = with_id i (\<lambda>tid. or_fail 404 (GetTask tid) (\<lambda>t. ret (Reply 200 t)))"

definition GetTaskStatus :: "uuid_text \<Rightarrow> task_status resp prog" where
  [op_defs]: "GetTaskStatus i = with_id i (\<lambda>tid. or_fail 404 (GetTask tid) (\<lambda>t. ret (Reply 200 (t_status t))))"

definition GetNextTask :: "agent_claims option \<Rightarrow> task resp prog" where
  [op_defs]: "GetNextTask claims = (case claims of
       None \<Rightarrow> ret (Fail 401)
     | Some c \<Rightarrow> (let team = parse_or_nil (cl_team c) in
         if team = uuid_nil then
           or_fail 500 (ListTasks [] (Some StatusSubmitted) 1) (\<lambda>ts.
             ret (case ts of [] \<Rightarrow> Fail 204 | t # _ \<Rightarrow> Reply 200 t))
         else
           or_fail 500 (ListTasks [] (Some StatusPlanning) 1) (\<lambda>ts.
             ret (case List.find (\<lambda>t. t_assigned_team_id t = Some team) ts of
                 None \<Rightarrow> Fail 204 | Some t \<Rightarrow> Reply 200 t))))"

definition SubmitPlan :: "uuid_text \<Rightarrow> string option option \<Rightarrow> unit resp prog" where
  [op_defs]: "SubmitPlan i body = with_id i (\<lambda>tid. with_body body (\<lambda>plan.
     or_fail 500 (SetPlan tid plan) (\<lambda>_. do {
       _ \<leftarrow> broadcast (PlanEvent tid ''plan_submitted'');
       _ \<leftarrow> broadcast (TaskEvent ''status_changed'' tid);
       ret (Reply 200 ()) })))"

definition SubmitDiff ::
  "agent_claims option \<Rightarrow> uuid_text \<Rightarrow> task_diff option \<Rightarrow> uuid \<Rightarrow> time \<Rightarrow> task_diff resp prog" where
  [op_defs]: "SubmitDiff claims i body new_id now = with_id i (\<lambda>tid. with_body body (\<lambda>diff0.
     (let diff = (case claims of None \<Rightarrow> diff0
            | Some c \<Rightarrow> diff0\<lparr>d_agent_id := Some (parse_or_nil (cl_subject c))\<rparr>) in
      or_fail 500 (AddDiff tid diff new_id now) (\<lambda>result. do {
        _ \<leftarrow> broadcast (DiffEvent tid (d_id result));
        ret (Reply 201 result) }))))"

definition ListDiffs_http :: "uuid_text \<Rightarrow> task_diff list resp prog" where
  [op_defs]: "ListDiffs_http i = with_id i (\<lambda>tid. or_fail 500 (ListDiffs tid) (\<lambda>ds. ret (Reply 200 ds)))"

definition AddDiffComment_http ::
  "(uuid \<Rightarrow> string) \<Rightarrow> agent_claims option \<Rightarrow> uuid_text \<Rightarrow> diff_comment option \<Rightarrow> uuid \<Rightarrow> time \<Rightarrow> diff_comment resp prog" where
  [op_defs]: "AddDiffComment_http us claims i body new_id now = with_id i (\<lambda>did. with_body body (\<lambda>c0.
     (let c = (case claims of None \<Rightarrow> c0
            | Some cl \<Rightarrow> c0\<lparr>c_author_type := ''agent'', c_author_id := text_of us (cl_subject cl)\<rparr>) in
      or_fail 500 (AddDiffComment did c new_id now) (\<lambda>result. ret (Reply 201 result)))))"

definition CompleteTask_http :: "server_cfg \<Rightarrow> uuid_text \<Rightarrow> time \<Rightarrow> unit resp prog" where
  [op_defs]: "CompleteTask_http cfg i now = with_id i (\<lambda>tid.
     or_fail 500 (CompleteTask tid now) (\<lambda>_. do {
       _ \<leftarrow> unless_nil (sv_elo cfg) (do {
              r \<leftarrow> AgentsForTask tid;
              case r of Inl _ \<Rightarrow> ret () | Inr ids \<Rightarrow> for_each (\<lambda>aid. void (IncrementTasksDone aid)) ids });
       _ \<leftarrow> broadcast (TaskEvent ''completed'' tid);
       ret (Reply 200 ()) }))"

record size_request =
  sz_additional :: int
  sz_roles :: "string list"
  sz_team :: uuid_text

text \<open>
  The team of a task that has none: the body's, else the caller's; \<open>None\<close> when the text in the body
  is rejected.
\<close>

definition declared_team :: "agent_claims option \<Rightarrow> uuid_text \<Rightarrow> uuid option" where
  "declared_team claims x =
     (let own = (case claims of None \<Rightarrow> uuid_nil | Some c \<Rightarrow> parse_or_nil (cl_team c)) in
      if x = NotUUID [] then Some own
      else (case parse_uuid x of None \<Rightarrow> None | Some u \<Rightarrow> Some (if u = uuid_nil then own else u)))"

definition scale_and_reply :: "uuid \<Rightarrow> uuid \<Rightarrow> int \<Rightarrow> unit resp prog" where
  [op_defs]: "scale_and_reply tid team n = or_fail 400 (ScaleTeam team n) (\<lambda>_. do {
     _ \<leftarrow> broadcast (TaskEvent ''team_scaled'' tid);
     ret (Reply 202 ()) })"

definition DeclareTeamSize ::
  "agent_claims option \<Rightarrow> uuid_text \<Rightarrow> size_request option \<Rightarrow> time \<Rightarrow> unit resp prog" where
  [op_defs]: "DeclareTeamSize claims i body now = with_id i (\<lambda>tid. with_body body (\<lambda>req.
     or_fail 404 (GetTask tid) (\<lambda>task. (case t_assigned_team_id task of
         Some team \<Rightarrow> scale_and_reply tid team (sz_additional req)
       | None \<Rightarrow> (case declared_team claims (sz_team req) of
             None \<Rightarrow> ret (Fail 400)
           | Some team \<Rightarrow>
               if team = uuid_nil then ret (Fail 409)
               else or_fail 500 (assignTask tid team now) (\<lambda>_.
                 scale_and_reply tid team (sz_additional req)))))))"

definition FailTask_http :: "uuid_text \<Rightarrow> string option \<Rightarrow> time \<Rightarrow> unit resp prog" where
  [op_defs]: "FailTask_http i body now = with_id i (\<lambda>tid. with_body body (\<lambda>reason.
     or_fail 500 (FailTask tid (if reason = [] then ''agent reported failure'' else reason) now)
       (\<lambda>_. ret (Reply 200 ()))))"

definition Heartbeat_http :: "uuid_text \<Rightarrow> time \<Rightarrow> unit resp prog" where
  [op_defs]: "Heartbeat_http i now = with_id i (\<lambda>aid. or_fail 404 (Heartbeat aid now) (\<lambda>_. ret (Reply 204 ())))"

record contribution =
  cn_agent :: uuid_text
  cn_role :: string
  cn_phase :: string
  cn_type :: string
  cn_tokens :: int
  cn_llm :: int
  cn_rag :: int

definition RecordContribution ::
  "agent_claims option \<Rightarrow> uuid_text \<Rightarrow> contribution option \<Rightarrow> uuid \<Rightarrow> unit resp prog" where
  [op_defs]: "RecordContribution claims i body new_id = with_id i (\<lambda>tid. with_body body (\<lambda>b.
     (let own = parse_or_nil (cn_agent b);
          aid = (if own \<noteq> uuid_nil then own
                 else case claims of None \<Rightarrow> own | Some c \<Rightarrow> parse_or_nil (cl_subject c)) in
      or_fail 500 (RecordAgentContribution \<lparr>l_id = new_id, l_task_id = tid, l_agent_id = Some aid, l_role = cn_role b,
        l_phase = cn_phase b, l_contribution_type = cn_type b, l_tokens_used = cn_tokens b,
        l_llm_calls = cn_llm b, l_rag_calls = cn_rag b\<rparr>) (\<lambda>_. ret (Reply 201 ())))))"

section \<open>Messages and consensus\<close>

record agent_message =
  am_agent :: string
  am_kind :: string

definition AgentMessage :: "string \<Rightarrow> agent_message option \<Rightarrow> unit resp prog" where
  [op_defs]: "AgentMessage task body =
     (if task = [] then ret (Fail 400)
      else with_body body (\<lambda>m. do {
        _ \<leftarrow> broadcast (MessageEvent (am_kind m) task (am_agent m));
        ret (Reply 200 ()) }))"

text \<open>Values of a decoded JSON object, as far as the code looks at them.\<close>

datatype json_value = JStr string | JOther

record discussion =
  de_event :: string
  de_thread_id :: string
  de_thread :: "(string \<rightharpoonup> json_value) option"

text \<open>The thread identifier of the broadcast; for a new thread it is taken out of the nested object.\<close>

definition discussion_thread :: "discussion \<Rightarrow> string option" where
  "discussion_thread e =
     (if de_thread_id e \<noteq> [] then Some (de_thread_id e)
      else (case de_thread e of
          None \<Rightarrow> None
        | Some obj \<Rightarrow> (case obj ''thread_id'' of
              Some (JStr x) \<Rightarrow> if x \<noteq> [] then Some x else None
            | _ \<Rightarrow> None)))"

definition DiscussionEvent :: "string \<Rightarrow> discussion option \<Rightarrow> unit resp prog" where
  [op_defs]: "DiscussionEvent task body =
     (if task = [] then ret (Fail 400)
      else with_body body (\<lambda>e.
        if de_event e = [] then ret (Fail 400)
        else do {
          _ \<leftarrow> broadcast (DiscussionMsg task (de_event e) (discussion_thread e));
          ret (Reply 200 ()) }))"

record consensus_body =
  cb_thread :: string
  cb_role :: string
  cb_strategy :: string
  cb_provider :: string
  cb_model :: string
  cb_confidence :: real
  cb_scores :: "(string \<times> real) list"
  cb_judges :: int
  cb_agreement :: real

text \<open>Work a handler leaves to a goroutine.\<close>

datatype job = JobPR uuid | JobConsensus uuid_text consensus_body

definition ConsensusEvent ::
  "server_cfg \<Rightarrow> uuid_text \<Rightarrow> consensus_body option \<Rightarrow> job list resp prog" where
  [op_defs]: "ConsensusEvent cfg task body =
     (if task = NotUUID [] then ret (Fail 400)
      else (case body of
          None \<Rightarrow> ret (Fail 400)
        | Some e \<Rightarrow>
            if cb_strategy e = [] then ret (Fail 400)
            else do {
              _ \<leftarrow> broadcast (DiscussionMsg (text_of (sv_us cfg) task) ''consensus_result'' (Some (cb_thread e)));
              ret (Reply 200 (if sv_memory cfg then [JobConsensus task e] else [])) }))"

definition consensus_outcome :: "string \<Rightarrow> consensus_body \<Rightarrow> task_outcome" where
  "consensus_outcome task e = \<lparr>oc_task = task, oc_rating = 0, oc_conf = cb_confidence e,
     oc_strategy = cb_strategy e, oc_tests = False, oc_pr = False, oc_build = False,
     oc_win = (cb_provider e \<noteq> [] \<and> cb_provider e \<noteq> ''consensus'')\<rparr>"

definition consensus_job ::
  "server_cfg \<Rightarrow> uuid_text \<Rightarrow> consensus_body \<Rightarrow> (nat \<Rightarrow> uuid) \<Rightarrow> time \<Rightarrow> unit hprog" where
  [op_defs]: "consensus_job cfg task e ids now = (case parse_uuid task of
       None \<Rightarrow> ret ()
     | Some tid \<Rightarrow> do {
         g \<leftarrow> on_fst (GetTask tid);
         case g of
           Inl _ \<Rightarrow> ret ()
         | Inr t \<Rightarrow> do {
             r \<leftarrow> on_fst (ExtractAndStoreInsights \<lparr>ce_repo = t_repo_id t, ce_task = text_of (sv_us cfg) task,
                    ce_thread = cb_thread e, ce_strategy = cb_strategy e, ce_provider = cb_provider e,
                    ce_model = cb_model e, ce_confidence = cb_confidence e, ce_scores = cb_scores e,
                    ce_judges = cb_judges e, ce_agreement = cb_agreement e\<rparr> ids now);
             case r of
               Inl _ \<Rightarrow> ret ()
             | Inr _ \<Rightarrow> unless_nil (sv_role_elo cfg \<and> cb_role e \<noteq> [])
                 (on_snd (void (RecordRoleOutcome (cb_role e) (t_repo_id t)
                   (consensus_outcome (text_of (sv_us cfg) task) e) (ids 4) now))) } })"

section \<open>Repository reads\<close>

record vcs_reader =
  vr_default_branch :: "string \<Rightarrow> string \<Rightarrow> string option"
  vr_file :: "string \<Rightarrow> string \<Rightarrow> string \<Rightarrow> string \<Rightarrow> string option"
  vr_list :: "string \<Rightarrow> string \<Rightarrow> string \<Rightarrow> string \<Rightarrow> (string \<times> string) list option"

definition getRepoInfo_http :: "uuid \<Rightarrow> (swarm_error + string \<times> string) prog" where
  [op_defs]: "getRepoInfo_http repo = do {
     r \<leftarrow> query (\<lambda>s. map_option (\<lambda>x. (r_owner x, r_name x)) (List.find (\<lambda>x. r_id x = repo) (repos s)));
     ret (case r of Some (Some p) \<Rightarrow> Inr p | _ \<Rightarrow> Inl (ErrDB ''get repo info'')) }"

definition VCSReadFile ::
  "server_cfg \<Rightarrow> (uuid \<Rightarrow> vcs_reader option) option \<Rightarrow> (uuid_text \<times> string \<times> string) option \<Rightarrow>
   (string \<times> string \<times> string) resp prog" where
  [op_defs]: "VCSReadFile cfg resolver body = (case resolver of
       None \<Rightarrow> ret (Fail 503)
     | Some for_repo \<Rightarrow>
         if \<not> sv_db cfg then ret (Fail 503)
         else with_body body (\<lambda>(repo_text, path, ref0). with_id repo_text (\<lambda>repo.
           (case for_repo repo of
              None \<Rightarrow> ret (Fail 500)
            | Some c \<Rightarrow> or_fail 500 (getRepoInfo_http repo) (\<lambda>(owner, name).
                (let ref = (if ref0 \<noteq> [] then ref0
                      else case vr_default_branch c owner name of None \<Rightarrow> ''main'' | Some b \<Rightarrow> b) in
                 ret (case vr_file c owner name path ref of
                     None \<Rightarrow> Fail 404 | Some txt \<Rightarrow> Reply 200 (txt, path, ref))))))))"

definition VCSListDir ::
  "server_cfg \<Rightarrow> (uuid \<Rightarrow> vcs_reader option) option \<Rightarrow> (uuid_text \<times> string) option \<Rightarrow>
   (string \<times> string) list resp prog" where
  [op_defs]: "VCSListDir cfg resolver body = (case resolver of
       None \<Rightarrow> ret (Fail 503)
     | Some for_repo \<Rightarrow>
         if \<not> sv_db cfg then ret (Fail 503)
         else with_body body (\<lambda>(repo_text, path). with_id repo_text (\<lambda>repo.
           (case for_repo repo of
              None \<Rightarrow> ret (Fail 500)
            | Some c \<Rightarrow> or_fail 500 (getRepoInfo_http repo) (\<lambda>(owner, name).
                ret (Reply 200 (case vr_list c owner name path [] of None \<Rightarrow> [] | Some es \<Rightarrow> es)))))))"

section \<open>Routes\<close>

datatype agent_request =
    ARevoke
  | ANextTask
  | AGetTask uuid_text
  | ATaskStatus uuid_text
  | APlan uuid_text "string option option"
  | ADiff uuid_text "task_diff option" uuid
  | AListDiffs uuid_text
  | AComment uuid_text "diff_comment option" uuid
  | AComplete uuid_text
  | AFail uuid_text "string option"
  | ADeclareSize uuid_text "size_request option"
  | AContribution uuid_text "contribution option" uuid
  | AMessage uuid_text "agent_message option"
  | ADiscussion uuid_text "discussion option"
  | AConsensus uuid_text "consensus_body option"
  | AHeartbeat uuid_text

definition code :: "('s, 'b resp) state \<Rightarrow> ('s, job list resp) state" where
  "code m = do { r \<leftarrow> m; ret (case r of Fail n \<Rightarrow> Fail n | Reply n _ \<Rightarrow> Reply n []) }"

fun agent_handler :: "server_cfg \<Rightarrow> agent_request \<Rightarrow> time \<Rightarrow> agent_claims option \<Rightarrow> job list resp prog" where
  "agent_handler cfg ARevoke now c = code (RevokeAgent_http c)"
| "agent_handler cfg ANextTask now c = code (GetNextTask c)"
| "agent_handler cfg (AGetTask i) now c = code (GetTaskInternal i)"
| "agent_handler cfg (ATaskStatus i) now c = code (GetTaskStatus i)"
| "agent_handler cfg (APlan i b) now c = code (SubmitPlan i b)"
| "agent_handler cfg (ADiff i b n) now c = code (SubmitDiff c i b n now)"
| "agent_handler cfg (AListDiffs i) now c = code (ListDiffs_http i)"
| "agent_handler cfg (AComment i b n) now c = code (AddDiffComment_http (sv_us cfg) c i b n now)"
| "agent_handler cfg (AComplete i) now c = code (CompleteTask_http cfg i now)"
| "agent_handler cfg (AFail i b) now c = code (FailTask_http i b now)"
| "agent_handler cfg (ADeclareSize i b) now c = code (DeclareTeamSize c i b now)"
| "agent_handler cfg (AContribution i b n) now c = code (RecordContribution c i b n)"
| "agent_handler cfg (AMessage i b) now c = code (AgentMessage (text_of (sv_us cfg) i) b)"
| "agent_handler cfg (ADiscussion i b) now c = code (DiscussionEvent (text_of (sv_us cfg) i) b)"
| "agent_handler cfg (AConsensus i b) now c = ConsensusEvent cfg i b"
| "agent_handler cfg (AHeartbeat i) now c = code (Heartbeat_http i now)"

text \<open>The routes behind the middleware; a reply carries the goroutines the handler starts.\<close>

definition serve_agent :: "server_cfg \<Rightarrow> string \<Rightarrow> agent_request \<Rightarrow> time \<Rightarrow> job list resp prog" where
  "serve_agent cfg header req now =
     RequireAgentToken (sv_verify cfg) (sv_sha cfg) header now (\<lambda>c. agent_handler cfg req now (Some c))"

definition serve_register ::
  "server_cfg \<Rightarrow> string \<Rightarrow> register_request option \<Rightarrow> uuid \<Rightarrow> uuid \<Rightarrow> uuid \<Rightarrow> time \<Rightarrow> registration resp hprog" where
  "serve_register cfg given body new_id fresh jti now =
     RequireServiceSecret (sv_secret cfg) given (RegisterAgent_http cfg body new_id fresh jti now)"

end
