(* ===== verification/UserAPI.thy ===== *)
theory UserAPI
  imports AgentAPI
begin

text \<open>
  \<open>internal/swarm/handler.go\<close>, the endpoints under \<open>/api/v1/swarm\<close> that the browser calls: tasks,
  plan and diff decisions, ratings, retry, cancel, delete, history and overview.  The user is the
  identifier the authentication middleware put into the context, if any.
\<close>

section \<open>Parameters\<close>

fun status_text :: "task_status \<Rightarrow> string" where
  "status_text StatusSubmitted = ''submitted''"
| "status_text StatusPlanning = ''planning''"
| "status_text StatusPlanReview = ''plan_review''"
| "status_text StatusImplementing = ''implementing''"
| "status_text StatusSelfReview = ''self_review''"
| "status_text StatusDiffReview = ''diff_review''"
| "status_text StatusBuildValidating = ''build_validating''"
| "status_text StatusBuildFailed = ''build_failed''"
| "status_text StatusBuildBlocked = ''build_blocked''"
| "status_text StatusPRCreating = ''pr_creating''"
| "status_text StatusCompleted = ''completed''"
| "status_text StatusCancelled = ''cancelled''"
| "status_text StatusFailed = ''failed''"
| "status_text StatusTimedOut = ''timed_out''"

text \<open>
  \<open>strconv.Atoi\<close>: an optional sign and decimal digits, rejected outside the range of 64-bit integers.
\<close>

definition is_digit :: "char \<Rightarrow> bool" where
  "is_digit c \<longleftrightarrow> CHR ''0'' \<le> c \<and> c \<le> CHR ''9''"

definition digits_value :: "string \<Rightarrow> int" where
  "digits_value ds = foldl (\<lambda>v c. 10 * v + (of_char c - 48)) 0 ds"

definition atoi :: "string \<Rightarrow> int option" where
  "atoi s =
     (let neg = (s \<noteq> [] \<and> hd s = CHR ''-'');
          ds = (if s \<noteq> [] \<and> (hd s = CHR ''-'' \<or> hd s = CHR ''+'') then tl s else s);
          v = (if neg then - digits_value ds else digits_value ds) in
      if ds = [] \<or> (\<exists>c\<in>set ds. \<not> is_digit c) \<or> v < - (2 ^ 63) \<or> 2 ^ 63 \<le> v then None else Some v)"

definition parseIntParam :: "string \<Rightarrow> int \<Rightarrow> int" where
  "parseIntParam s defaultVal =
     (if s = [] then defaultVal
      else case atoi s of None \<Rightarrow> defaultVal | Some v \<Rightarrow> if v < 0 then defaultVal else v)"

definition userIDFromRequest :: "uuid option \<Rightarrow> uuid" where
  "userIDFromRequest user = (case user of None \<Rightarrow> uuid_nil | Some i \<Rightarrow> i)"

section \<open>Tasks\<close>

record task_body =
  tb_repo :: string
  tb_title :: string
  tb_description :: string

definition CreateTaskUser ::
  "(uuid \<Rightarrow> string) \<Rightarrow> uuid option \<Rightarrow> task_body option \<Rightarrow> uuid \<Rightarrow> time \<Rightarrow> task resp prog" where
  [op_defs]: "CreateTaskUser us user body new_id now = with_body body (\<lambda>b.
     if tb_repo b = [] \<or> tb_description b = [] then ret (Fail 400)
     else or_fail 500 (CreateTask us (tb_repo b) (tb_title b) (tb_description b) (userIDFromRequest user) new_id now)
       (\<lambda>t. do { _ \<leftarrow> broadcast (TaskEvent ''created'' (t_id t)); ret (Reply 201 t) }))"

text \<open>A status text that is none of the constants matches no row.\<close>

definition ListTasksUser :: "string \<Rightarrow> string \<Rightarrow> task list resp prog" where
  [op_defs]: "ListTasksUser repo status =
     or_fail 500
       (if status = [] then ListTasks repo None 50
        else case List.find (\<lambda>st. status_text st = status)
            [StatusSubmitted, StatusPlanning, StatusPlanReview, StatusImplementing, StatusSelfReview,
             StatusDiffReview, StatusBuildValidating, StatusBuildFailed, StatusBuildBlocked, StatusPRCreating,
             StatusCompleted, StatusCancelled, StatusFailed, StatusTimedOut] of
          Some st \<Rightarrow> ListTasks repo (Some st) 50
        | None \<Rightarrow> do {
            r \<leftarrow> query (\<lambda>_. []);
            ret (case r of None \<Rightarrow> Inl (ErrDB ''listing tasks'') | Some ts \<Rightarrow> Inr ts) })
       (\<lambda>ts. ret (Reply 200 ts))"

definition GetTaskUser :: "uuid_text \<Rightarrow> task resp prog" where
  [op_defs]: "GetTaskUser i = with_id i (\<lambda>tid. or_fail 404 (GetTask tid) (\<lambda>t. ret (Reply 200 t)))"

definition GetTaskAgents_http :: "uuid_text \<Rightarrow> agent_snapshot list resp prog" where
  [op_defs]: "GetTaskAgents_http i = with_id i (\<lambda>tid. or_fail 500 (GetTaskAgents tid) (\<lambda>xs. ret (Reply 200 xs)))"

definition set_status :: "uuid \<Rightarrow> task_status \<Rightarrow> 'b resp prog \<Rightarrow> 'b resp prog" where
  [op_defs]: "set_status tid st k = or_fail 500 (UpdateStatus tid st) (\<lambda>_. k)"

definition PlanAction :: "uuid_text \<Rightarrow> (string \<times> string) option \<Rightarrow> unit resp prog" where
  [op_defs]: "PlanAction i body = with_id i (\<lambda>tid. with_body body (\<lambda>(action, comment).
     if action = ''approve'' then set_status tid StatusImplementing (do {
       _ \<leftarrow> broadcast (PlanEvent tid ''plan_approved'');
       _ \<leftarrow> broadcast (TaskEvent ''status_changed'' tid);
       ret (Reply 200 ()) })
     else if action = ''reject'' then set_status tid StatusCancelled (do {
       _ \<leftarrow> broadcast (PlanEvent tid ''plan_rejected'');
       _ \<leftarrow> broadcast (TaskEvent ''status_changed'' tid);
       ret (Reply 200 ()) })
     else if action = ''comment'' then do {
       _ \<leftarrow> broadcast (PlanEvent tid ''plan_commented'');
       ret (Reply 200 ()) }
     else ret (Fail 400)))"

section \<open>Diffs\<close>

definition GetDiffsUser :: "uuid_text \<Rightarrow> string \<Rightarrow> (task_diff list + diff_meta list) resp prog" where
  [op_defs]: "GetDiffsUser i full = with_id i (\<lambda>tid.
     if full = ''true'' then do {
       r \<leftarrow> ListDiffs_http i;
       ret (case r of Fail n \<Rightarrow> Fail n | Reply n ds \<Rightarrow> Reply n (Inl ds)) }
     else or_fail 500 (ListDiffsMeta tid) (\<lambda>ms. ret (Reply 200 (Inr ms))))"

definition GetDiffContent :: "uuid_text \<Rightarrow> task_diff resp prog" where
  [op_defs]: "GetDiffContent i = with_id i (\<lambda>did. or_fail 404 (GetDiff did) (\<lambda>d. ret (Reply 200 d)))"

definition UserDiffComment ::
  "(uuid \<Rightarrow> string) \<Rightarrow> uuid option \<Rightarrow> uuid_text \<Rightarrow> diff_comment option \<Rightarrow> uuid \<Rightarrow> time \<Rightarrow> diff_comment resp prog" where
  [op_defs]: "UserDiffComment us user i body new_id now = with_id i (\<lambda>did. with_body body (\<lambda>c.
     or_fail 500 (AddDiffComment did (c\<lparr>c_author_type := ''user'', c_author_id := us (userIDFromRequest user)\<rparr>) new_id now)
       (\<lambda>result. ret (Reply 201 result))))"

definition DiffAction :: "server_cfg \<Rightarrow> uuid_text \<Rightarrow> string option \<Rightarrow> job list resp prog" where
  [op_defs]: "DiffAction cfg i body = with_id i (\<lambda>tid. with_body body (\<lambda>action.
     if action = ''approve_diff'' then
       set_status tid StatusPRCreating (ret (Reply 200 (if sv_pr cfg then [JobPR tid] else [])))
     else if action = ''request_changes'' then set_status tid StatusImplementing (ret (Reply 200 []))
     else if action = ''reject'' then set_status tid StatusCancelled (ret (Reply 200 []))
     else ret (Fail 400)))"

section \<open>Ratings\<close>

definition resolveAgentRoles :: "server_cfg \<Rightarrow> uuid list \<Rightarrow> string list prog" where
  [op_defs]: "resolveAgentRoles cfg ids =
     (if ids = [] \<or> \<not> sv_db cfg then ret []
      else do {
        r \<leftarrow> query (\<lambda>s. remdups (map a_role (filter (\<lambda>a. a_id a \<in> set ids \<and> a_role a \<noteq> []) (agents s))));
        ret (case r of None \<Rightarrow> [] | Some roles \<Rightarrow> roles) })"

definition rating_outcome :: "string \<Rightarrow> int \<Rightarrow> task_outcome" where
  "rating_outcome task rating = \<lparr>oc_task = task, oc_rating = rating, oc_conf = 0, oc_strategy = [],
     oc_tests = False, oc_pr = False, oc_build = False, oc_win = False\<rparr>"

definition rated_agents :: "uuid \<Rightarrow> task \<Rightarrow> uuid list prog" where
  [op_defs]: "rated_agents tid task =
     (let ids = coalesce (t_assigned_agents task) in
      if ids \<noteq> [] then ret ids
      else do { r \<leftarrow> AgentsForTask tid; ret (case r of Inl _ \<Rightarrow> [] | Inr xs \<Rightarrow> xs) })"

definition apply_rating ::
  "server_cfg \<Rightarrow> uuid \<Rightarrow> task \<Rightarrow> int \<Rightarrow> (nat \<Rightarrow> uuid) \<Rightarrow> time \<Rightarrow> unit hprog" where
  [op_defs]: "apply_rating cfg tid task rating new_ids now = do {
     ids \<leftarrow> on_fst (rated_agents tid task);
     _ \<leftarrow> on_fst (for_each (\<lambda>aid. void (RecordFeedback aid rating)) ids);
     unless_nil (sv_role_elo cfg) (do {
       roles \<leftarrow> on_fst (resolveAgentRoles cfg ids);
       on_snd (for_each (\<lambda>(k, role). void (RecordRoleOutcome role (t_repo_id task)
         (rating_outcome (sv_us cfg tid) rating) (new_ids k) now)) (enumerate 0 roles)) }) }"

definition RateTaskUser ::
  "server_cfg \<Rightarrow> uuid_text \<Rightarrow> (int \<times> string) option \<Rightarrow> (nat \<Rightarrow> uuid) \<Rightarrow> time \<Rightarrow> unit resp hprog" where
  [op_defs]: "RateTaskUser cfg i body new_ids now = with_id i (\<lambda>tid. with_body body (\<lambda>(rating, comment).
     if rating < 1 \<or> rating > 5 then ret (Fail 400)
     else or_fail 500 (on_fst (RateTask tid rating comment)) (\<lambda>_. do {
       _ \<leftarrow> unless_nil (sv_elo cfg) (do {
              g \<leftarrow> on_fst (GetTask tid);
              case g of Inl _ \<Rightarrow> ret () | Inr task \<Rightarrow> apply_rating cfg tid task rating new_ids now });
       ret (Reply 204 ()) })))"

section \<open>Listings, retry, cancel, delete\<close>

definition ListAgentsUser :: "agent list resp prog" where
  [op_defs]: "ListAgentsUser = or_fail 500 (ListAgents None) (\<lambda>xs. ret (Reply 200 xs))"

definition ListTeamsUser :: "team list resp prog" where
  [op_defs]: "ListTeamsUser = or_fail 500 ListTeams (\<lambda>xs. ret (Reply 200 xs))"

definition RetryTask_http :: "uuid_text \<Rightarrow> unit resp prog" where
  [op_defs]: "RetryTask_http i = with_id i (\<lambda>tid. or_fail 400 (RetryTask tid) (\<lambda>_. ret (Reply 200 ())))"

definition release_team_of :: "task \<Rightarrow> unit prog" where
  [op_defs]: "release_team_of task = (case t_assigned_team_id task of None \<Rightarrow> ret () | Some team \<Rightarrow> ReleaseTeam team)"

definition CancelTask :: "uuid_text \<Rightarrow> unit resp prog" where
  [op_defs]: "CancelTask i = with_id i (\<lambda>tid. or_fail 404 (GetTask tid) (\<lambda>task.
     if terminal (t_status task) then ret (Fail 400)
     else set_status tid StatusCancelled (do {
       _ \<leftarrow> metric (count_status StatusCancelled);
       _ \<leftarrow> metric (add_active (-1));
       _ \<leftarrow> release_team_of task;
       _ \<leftarrow> broadcast (TaskEvent ''cancelled'' tid);
       ret (Reply 200 ()) })))"

definition DeleteTaskUser :: "uuid_text \<Rightarrow> unit resp prog" where
  [op_defs]: "DeleteTaskUser i = with_id i (\<lambda>tid. or_fail 404 (GetTask tid) (\<lambda>task. do {
     _ \<leftarrow> release_team_of task;
     or_fail 500 (DeleteTask tid) (\<lambda>_. do {
       _ \<leftarrow> broadcast (TaskEvent ''deleted'' tid);
       ret (Reply 204 ()) }) }))"

definition TaskHistory :: "string \<Rightarrow> string \<Rightarrow> string \<Rightarrow> (task_summary list \<times> nat \<times> int \<times> int) resp prog" where
  [op_defs]: "TaskHistory repo limit_text offset_text =
     (let limit = parseIntParam limit_text 25; offset = parseIntParam offset_text 0 in
      or_fail 500 (ListTaskHistory repo limit offset) (\<lambda>(xs, total). ret (Reply 200 (xs, total, limit, offset))))"

definition SwarmOverview_http :: "swarm_overview resp prog" where
  [op_defs]: "SwarmOverview_http = do { ov \<leftarrow> GetOverview; ret (Reply 200 ov) }"

section \<open>Routes\<close>

datatype user_request =
    UCreate "task_body option" uuid
  | UList string string
  | UGet uuid_text
  | UAgents uuid_text
  | UPlanAction uuid_text "(string \<times> string) option"
  | UDiffs uuid_text string
  | UDiffContent uuid_text
  | UComment uuid_text "diff_comment option" uuid
  | UDiffAction uuid_text "string option"
  | URate uuid_text "(int \<times> string) option" "nat \<Rightarrow> uuid"
  | URetry uuid_text
  | UCancel uuid_text
  | UDelete uuid_text
  | UHistory string string string
  | UAgentList
  | UTeamList
  | UOverview

fun user_handler :: "server_cfg \<Rightarrow> user_request \<Rightarrow> uuid option \<Rightarrow> time \<Rightarrow> job list resp hprog" where
  "user_handler cfg (UCreate b n) user now = on_fst (code (CreateTaskUser (sv_us cfg) user b n now))"
| "user_handler cfg (UList r st) user now = on_fst (code (ListTasksUser r st))"
| "user_handler cfg (UGet i) user now = on_fst (code (GetTaskUser i))"
| "user_handler cfg (UAgents i) user now = on_fst (code (GetTaskAgents_http i))"
| "user_handler cfg (UPlanAction i b) user now = on_fst (code (PlanAction i b))"
| "user_handler cfg (UDiffs i full) user now = on_fst (code (GetDiffsUser i full))"
| "user_handler cfg (UDiffContent i) user now = on_fst (code (GetDiffContent i))"
| "user_handler cfg (UComment i b n) user now = on_fst (code (UserDiffComment (sv_us cfg) user i b n now))"
| "user_handler cfg (UDiffAction i b) user now = on_fst (DiffAction cfg i b)"
| "user_handler cfg (URate i b ids) user now = code (RateTaskUser cfg i b ids now)"
| "user_handler cfg (URetry i) user now = on_fst (code (RetryTask_http i))"
| "user_handler cfg (UCancel i) user now = on_fst (code (CancelTask i))"
| "user_handler cfg (UDelete i) user now = on_fst (code (DeleteTaskUser i))"
| "user_handler cfg (UHistory r l ofs) user now = on_fst (code (TaskHistory r l ofs))"
| "user_handler cfg UAgentList user now = on_fst (code ListAgentsUser)"
| "user_handler cfg UTeamList user now = on_fst (code ListTeamsUser)"
| "user_handler cfg UOverview user now = on_fst (code SwarmOverview_http)"

end
