(* ===== verification/CISignal.thy ===== *)
theory CISignal
  imports UserAPI
begin

text \<open>
  \<open>internal/swarm/ci_signal.go\<close> and \<open>ci_signal_handlers.go\<close>: what became of the pull request of a task.
  A poller asks the hosting platform, an external system or an agent reports it, and the outcome is
  counted in the scores of the roles.  The state adds the table \<open>swarm_ci_signals\<close> to the swarm tables
  and the score tables; its statements draw from the fault script of the swarm tables.  The column
  \<open>pr_number\<close> is nullable, but every statement sets it.  The resolver of platform clients (modelled in
  \<open>ReviewPipeline\<close> over the account tables) and the clients are parameters of a cycle.
\<close>

section \<open>Table\<close>

record ci_signal =
  sg_id :: uuid
  sg_task :: uuid
  sg_repo :: string
  sg_pr :: int
  sg_pr_state :: string
  sg_merged :: bool
  sg_state :: string
  sg_total :: int
  sg_passed :: int
  sg_failed :: int
  sg_pending :: int
  sg_details :: "string option"
  sg_ingested :: bool
  sg_ingested_at :: "time option"
  sg_polls :: int
  sg_polled_at :: "time option"
  sg_final :: bool
  sg_final_at :: "time option"
  sg_created :: time
  sg_updated :: time

record signal_summary =
  ss_task :: uuid
  ss_pr_state :: string
  ss_merged :: bool
  ss_state :: string
  ss_total :: int
  ss_passed :: int
  ss_failed :: int
  ss_pending :: int
  ss_final :: bool
  ss_updated :: time

type_synonym 'a ciprog = "((swarm \<times> elo_db) \<times> ci_signal list, 'a) state"

definition CISignalMaxPollAge :: time where "CISignalMaxPollAge = 7 * 24 * hour"
definition CISignalMaxPolls :: int where "CISignalMaxPolls = 500"
definition CISignalBatchSize :: nat where "CISignalBatchSize = 50"
definition CISignalCooldown :: time where "CISignalCooldown = 5 * minute"

text \<open>A statement on the table: it reads the swarm tables, and \<open>None\<close> is a violated constraint.\<close>

definition ci_query :: "(swarm \<Rightarrow> ci_signal list \<Rightarrow> 'a) \<Rightarrow> 'a option ciprog" where
  "ci_query f = do {
     ok \<leftarrow> on_fst (on_fst io_ok);
     if \<not> ok then ret None else gets (\<lambda>((s, e), xs). Some (f s xs)) }"

definition ci_exec :: "(swarm \<Rightarrow> ci_signal list \<Rightarrow> (nat \<times> ci_signal list) option) \<Rightarrow> nat option ciprog" where
  "ci_exec f = do {
     ok \<leftarrow> on_fst (on_fst io_ok);
     if \<not> ok then ret None
     else State (\<lambda>((s, e), xs). case f s xs of
         None \<Rightarrow> (None, ((s, e), xs)) | Some (n, ys) \<Rightarrow> (Some n, ((s, e), ys))) }"

definition update_signal :: "(ci_signal \<Rightarrow> bool) \<Rightarrow> (ci_signal \<Rightarrow> ci_signal) \<Rightarrow> nat option ciprog" where
  "update_signal p f = ci_exec (\<lambda>s xs. Some (count_where p xs, update_where p f xs))"

definition new_signal :: "uuid \<Rightarrow> uuid \<Rightarrow> string \<Rightarrow> int \<Rightarrow> time \<Rightarrow> ci_signal" where
  "new_signal i task repo pr now = \<lparr>sg_id = i, sg_task = task, sg_repo = repo, sg_pr = pr, sg_pr_state = ''unknown'',
     sg_merged = False, sg_state = ''unknown'', sg_total = 0, sg_passed = 0, sg_failed = 0, sg_pending = 0,
     sg_details = Some ''[]'', sg_ingested = False, sg_ingested_at = None, sg_polls = 0, sg_polled_at = None,
     sg_final = False, sg_final_at = None, sg_created = now, sg_updated = now\<rparr>"

section \<open>Clients\<close>

record combined_status =
  cb_state :: string
  cb_total :: int
  cb_passed :: int
  cb_failed :: int
  cb_pending :: int
  cb_statuses :: string

text \<open>State and head of a pull request, and the status of a commit: an error or perhaps nothing.\<close>

record ci_platform =
  pf_pr :: "string \<Rightarrow> string \<Rightarrow> int \<Rightarrow> (string \<times> string) option"
  pf_status :: "string \<Rightarrow> string \<Rightarrow> string \<Rightarrow> combined_status option option"

text \<open>
  The parameters of a cycle: \<open>uuid.String\<close> and \<open>uuid.Parse\<close>, the column \<open>full_name\<close>, the clients, whether
  there is a service of role scores, and the order in which the database returns the rows that the
  \<open>ORDER BY\<close> of a statement leaves tied.
\<close>

record ci_env =
  ce_us :: "uuid \<Rightarrow> string"
  ce_parse :: "string \<Rightarrow> uuid option"
  ce_full_name :: "(repo_row \<Rightarrow> string) option"
  ce_platform :: "uuid \<Rightarrow> ci_platform option"
  ce_elo :: bool
  ce_tie :: "uuid \<Rightarrow> nat"

section \<open>Seeding\<close>

definition needs_signal :: "ci_signal list \<Rightarrow> task \<Rightarrow> bool" where
  "needs_signal xs t \<longleftrightarrow> t_status t \<in> {StatusCompleted, StatusPRCreating} \<and>
     (case t_pr_number t of None \<Rightarrow> False | Some n \<Rightarrow> n > 0) \<and> t_pr_url t \<noteq> None \<and>
     t_id t \<notin> set (map sg_task xs)"

text \<open>The database draws the identifiers; \<open>LIMIT\<close> without an order takes the rows in any order.\<close>

definition seed_rows :: "(uuid \<Rightarrow> nat) \<Rightarrow> (nat \<Rightarrow> uuid) \<Rightarrow> time \<Rightarrow> swarm \<Rightarrow> ci_signal list \<Rightarrow> ci_signal list" where
  "seed_rows tie ids now s xs = map (\<lambda>(k, t). new_signal (ids k) (t_id t) (t_repo_id t) (the (t_pr_number t)) now)
     (enumerate 0 (take CISignalBatchSize (sort_key (\<lambda>t. tie (t_id t)) (filter (needs_signal xs) (tasks s)))))"

definition seedNewSignals :: "(uuid \<Rightarrow> nat) \<Rightarrow> (nat \<Rightarrow> uuid) \<Rightarrow> time \<Rightarrow> nat option ciprog" where
  [op_defs]: "seedNewSignals tie ids now = ci_exec (\<lambda>s xs.
     (let new = seed_rows tie ids now s xs in
      if distinct (map sg_id (xs @ new)) then Some (length new, xs @ new) else None))"

section \<open>Steps of a poll\<close>

definition finalizeSignal :: "uuid \<Rightarrow> time \<Rightarrow> bool ciprog" where
  [op_defs]: "finalizeSignal i now = do {
     r \<leftarrow> update_signal (\<lambda>x. sg_id x = i) (\<lambda>x. x\<lparr>sg_final := True, sg_final_at := Some now, sg_updated := now\<rparr>);
     ret (r \<noteq> None) }"

definition bumpPollCount :: "uuid \<Rightarrow> time \<Rightarrow> bool ciprog" where
  [op_defs]: "bumpPollCount i now = do {
     r \<leftarrow> update_signal (\<lambda>x. sg_id x = i)
        (\<lambda>x. x\<lparr>sg_polls := sg_polls x + 1, sg_polled_at := Some now, sg_updated := now\<rparr>);
     ret (r \<noteq> None) }"

definition splitRepoFullName :: "string \<Rightarrow> string list" where
  "splitRepoFullName name =
     (if CHR ''/'' \<notin> set name then [name]
      else [takeWhile (\<lambda>c. c \<noteq> CHR ''/'') name, drop 1 (dropWhile (\<lambda>c. c \<noteq> CHR ''/'') name)])"

definition ci_getRepoInfo :: "(repo_row \<Rightarrow> string) option \<Rightarrow> uuid \<Rightarrow> (string \<times> string) option ciprog" where
  [op_defs]: "ci_getRepoInfo full_name repo = do {
     r \<leftarrow> ci_query (\<lambda>s _. case full_name of None \<Rightarrow> None
            | Some col \<Rightarrow> map_option col (List.find (\<lambda>x. r_id x = repo) (repos s)));
     ret (case r of
         Some (Some name) \<Rightarrow> (case splitRepoFullName name of [owner, n] \<Rightarrow> Some (owner, n) | _ \<Rightarrow> None)
       | _ \<Rightarrow> None) }"

definition task_roles :: "uuid \<Rightarrow> swarm \<Rightarrow> string list" where
  "task_roles tid s = remdups (concat (map (\<lambda>a.
     if a_role a \<noteq> [] \<and> (\<exists>t\<in>set (tasks s). t_id t = tid \<and> a_id a \<in> set (coalesce (t_assigned_agents t)))
     then [a_role a] else []) (agents s)))"

definition getTaskRoles :: "uuid \<Rightarrow> string list option ciprog" where
  [op_defs]: "getTaskRoles tid = ci_query (\<lambda>s _. task_roles tid s)"

definition ci_outcome :: "string \<Rightarrow> bool \<Rightarrow> string \<Rightarrow> task_outcome" where
  "ci_outcome task merged state = \<lparr>oc_task = task, oc_rating = 0, oc_conf = 0, oc_strategy = [],
     oc_tests = (state = ''success''), oc_pr = merged, oc_build = (state = ''success''), oc_win = False\<rparr>"

text \<open>One outcome per role; an error is logged and the next role follows.\<close>

definition record_outcomes :: "string list \<Rightarrow> string \<Rightarrow> task_outcome \<Rightarrow> (nat \<Rightarrow> uuid) \<Rightarrow> time \<Rightarrow> unit ciprog" where
  [op_defs]: "record_outcomes roles repo out ids now =
     on_fst (on_snd (for_each (\<lambda>(k, role). void (RecordRoleOutcome role repo out (ids k) now)) (enumerate 0 roles)))"

definition ingestIntoELO ::
  "ci_env \<Rightarrow> uuid \<Rightarrow> uuid \<Rightarrow> string \<Rightarrow> bool \<Rightarrow> string \<Rightarrow> (nat \<Rightarrow> uuid) \<Rightarrow> time \<Rightarrow> bool ciprog" where
  [op_defs]: "ingestIntoELO en i tid repo merged state ids now = do {
     r \<leftarrow> getTaskRoles tid;
     case r of
       None \<Rightarrow> ret False
     | Some roles \<Rightarrow>
         if roles = [] then ret True
         else do {
           _ \<leftarrow> record_outcomes roles repo (ci_outcome (ce_us en tid) merged state) ids now;
           q \<leftarrow> update_signal (\<lambda>x. sg_id x = i)
              (\<lambda>x. x\<lparr>sg_ingested := True, sg_ingested_at := Some now, sg_updated := now\<rparr>);
           ret (q \<noteq> None) } }"

definition broadcastSignalUpdate :: "uuid \<Rightarrow> unit ciprog" where
  [op_defs]: "broadcastSignalUpdate tid = on_fst (on_fst (broadcast (TaskEvent ''ci_signal_updated'' tid)))"

definition settled_pr :: "string \<Rightarrow> bool" where
  "settled_pr st \<longleftrightarrow> st = ''merged'' \<or> st = ''closed''"

definition settled_ci :: "string \<Rightarrow> bool" where
  "settled_ci st \<longleftrightarrow> st \<noteq> ''pending'' \<and> st \<noteq> ''unknown''"

text \<open>The status of the head commit; without an answer it is unknown.\<close>

definition no_status :: combined_status where
  "no_status = \<lparr>cb_state = ''unknown'', cb_total = 0, cb_passed = 0, cb_failed = 0, cb_pending = 0, cb_statuses = []\<rparr>"

definition head_status :: "ci_platform \<Rightarrow> string \<Rightarrow> string \<Rightarrow> string \<Rightarrow> combined_status \<times> string option" where
  "head_status pf owner name sha = (case (if sha = [] then None else pf_status pf owner name sha) of
       Some (Some c) \<Rightarrow> (c, Some (cb_statuses c)) | _ \<Rightarrow> (no_status, None))"

definition write_poll :: "string \<Rightarrow> combined_status \<times> string option \<Rightarrow> time \<Rightarrow> ci_signal \<Rightarrow> ci_signal" where
  "write_poll pr_state st now x = x\<lparr>sg_pr_state := pr_state, sg_merged := (pr_state = ''merged''),
     sg_state := cb_state (fst st), sg_total := cb_total (fst st), sg_passed := cb_passed (fst st),
     sg_failed := cb_failed (fst st), sg_pending := cb_pending (fst st), sg_details := snd st,
     sg_polls := sg_polls x + 1, sg_polled_at := Some now, sg_updated := now\<rparr>"

text \<open>Whether it polled, ingested and finalised.\<close>

definition settle :: "ci_env \<Rightarrow> ci_signal \<Rightarrow> string \<Rightarrow> string \<Rightarrow> (nat \<Rightarrow> uuid) \<Rightarrow> time \<Rightarrow> (bool \<times> bool \<times> bool) ciprog" where
  [op_defs]: "settle en j pr_state state ids now =
     (if settled_pr pr_state \<and> settled_ci state then do {
        ing \<leftarrow> (if ce_elo en
          then ingestIntoELO en (sg_id j) (sg_task j) (sg_repo j) (pr_state = ''merged'') state ids now else ret False);
        fin \<leftarrow> finalizeSignal (sg_id j) now;
        ret (True, ing, fin) }
      else ret (True, False, False))"

definition pollSingleSignal :: "ci_env \<Rightarrow> ci_signal \<Rightarrow> (nat \<Rightarrow> uuid) \<Rightarrow> time \<Rightarrow> (bool \<times> bool \<times> bool) ciprog" where
  [op_defs]: "pollSingleSignal en j ids now = (case ce_parse en (sg_repo j) of
       None \<Rightarrow> do { _ \<leftarrow> finalizeSignal (sg_id j) now; ret (False, False, True) }
     | Some repo \<Rightarrow> (case ce_platform en repo of
         None \<Rightarrow> ret (False, False, False)
       | Some pf \<Rightarrow> do {
           g \<leftarrow> ci_getRepoInfo (ce_full_name en) repo;
           case g of
             None \<Rightarrow> ret (False, False, False)
           | Some (owner, name) \<Rightarrow> (case pf_pr pf owner name (sg_pr j) of
               None \<Rightarrow> do { _ \<leftarrow> bumpPollCount (sg_id j) now; ret (True, False, False) }
             | Some (pr_state, sha) \<Rightarrow>
                 (let st = head_status pf owner name sha in do {
                    r \<leftarrow> update_signal (\<lambda>x. sg_id x = sg_id j) (write_poll pr_state st now);
                    case r of
                      None \<Rightarrow> ret (True, False, False)
                    | Some _ \<Rightarrow> do {
                        _ \<leftarrow> broadcastSignalUpdate (sg_task j);
                        settle en j pr_state (cb_state (fst st)) ids now } })) }))"

section \<open>The cycle\<close>

text \<open>Rows never polled come first, in the order the database happens to return them.\<close>

definition poll_batch :: "(uuid \<Rightarrow> nat) \<Rightarrow> time \<Rightarrow> ci_signal list \<Rightarrow> ci_signal list" where
  "poll_batch tie now xs =
     (let due = sort_key (\<lambda>x. tie (sg_id x)) (filter (\<lambda>x. \<not> sg_final x \<and>
            (case sg_polled_at x of None \<Rightarrow> True | Some t \<Rightarrow> t < now - CISignalCooldown)) xs) in
      take CISignalBatchSize (filter (\<lambda>x. sg_polled_at x = None) due @
        sort_key (\<lambda>x. the (sg_polled_at x)) (filter (\<lambda>x. sg_polled_at x \<noteq> None) due)))"

definition expired :: "time \<Rightarrow> ci_signal \<Rightarrow> bool" where
  "expired now j \<longleftrightarrow> now - sg_created j > CISignalMaxPollAge \<or> sg_polls j \<ge> CISignalMaxPolls"

definition poll_one :: "ci_env \<Rightarrow> (uuid \<Rightarrow> nat \<Rightarrow> uuid) \<Rightarrow> time \<Rightarrow> ci_signal \<Rightarrow> (nat \<times> nat \<times> nat) ciprog" where
  [op_defs]: "poll_one en ids now j =
     (if expired now j then do { _ \<leftarrow> finalizeSignal (sg_id j) now; ret (0, 0, 1) }
      else do {
        (p, i, f) \<leftarrow> pollSingleSignal en j (ids (sg_id j)) now;
        ret (of_bool p, of_bool i, of_bool f) })"

primrec poll_all :: "ci_env \<Rightarrow> (uuid \<Rightarrow> nat \<Rightarrow> uuid) \<Rightarrow> time \<Rightarrow> ci_signal list \<Rightarrow> (nat \<times> nat \<times> nat) ciprog" where
  "poll_all en ids now [] = ret (0, 0, 0)"
| "poll_all en ids now (j # js) = do {
     (p, i, f) \<leftarrow> poll_one en ids now j;
     (ps, is, fs) \<leftarrow> poll_all en ids now js;
     ret (p + ps, i + is, f + fs) }"

definition pollSignals :: "ci_env \<Rightarrow> (uuid \<Rightarrow> nat \<Rightarrow> uuid) \<Rightarrow> time \<Rightarrow> (nat \<times> nat \<times> nat) option ciprog" where
  [op_defs]: "pollSignals en ids now = do {
     r \<leftarrow> ci_query (\<lambda>_ xs. poll_batch (ce_tie en) now xs);
     case r of
       None \<Rightarrow> ret None
     | Some js \<Rightarrow> do { c \<leftarrow> poll_all en ids now js; ret (Some c) } }"

text \<open>The counts go to metrics and the log.\<close>

definition ci_runCycle :: "ci_env \<Rightarrow> (nat \<Rightarrow> uuid) \<Rightarrow> (uuid \<Rightarrow> nat \<Rightarrow> uuid) \<Rightarrow> time \<Rightarrow> unit ciprog" where
  [op_defs]: "ci_runCycle en seeds ids now = do {
     _ \<leftarrow> seedNewSignals (ce_tie en) seeds now;
     void (pollSignals en ids now) }"

section \<open>Queries\<close>

definition GetCISignal :: "uuid \<Rightarrow> (swarm_error + ci_signal option) ciprog" where
  [op_defs]: "GetCISignal tid = do {
     r \<leftarrow> ci_query (\<lambda>_ xs. List.find (\<lambda>x. sg_task x = tid) xs);
     ret (case r of None \<Rightarrow> Inl (ErrDB ''getting CI signal'') | Some x \<Rightarrow> Inr x) }"

definition signal_summary_of :: "ci_signal \<Rightarrow> signal_summary" where
  "signal_summary_of x = \<lparr>ss_task = sg_task x, ss_pr_state = sg_pr_state x, ss_merged = sg_merged x, ss_state = sg_state x,
     ss_total = sg_total x, ss_passed = sg_passed x, ss_failed = sg_failed x, ss_pending = sg_pending x,
     ss_final = sg_final x, ss_updated = sg_updated x\<rparr>"

definition ListCISignals :: "string \<Rightarrow> int \<Rightarrow> (swarm_error + signal_summary list) ciprog" where
  [op_defs]: "ListCISignals repo limit = do {
     r \<leftarrow> ci_query (\<lambda>_ xs. map signal_summary_of (take (nat (if limit \<le> 0 then 50 else limit))
       (sort_key (\<lambda>x. - sg_updated x) (filter (\<lambda>x. sg_repo x = repo) xs))));
     ret (case r of None \<Rightarrow> Inl (ErrDB ''listing CI signals'') | Some ys \<Rightarrow> Inr ys) }"

section \<open>Handlers\<close>

definition HandleGetCISignal :: "uuid_text \<Rightarrow> ci_signal option resp ciprog" where
  [op_defs]: "HandleGetCISignal x = with_id x (\<lambda>tid. or_fail 500 (GetCISignal tid) (\<lambda>r. ret (Reply 200 r)))"

definition HandleListCISignals :: "string \<Rightarrow> string \<Rightarrow> signal_summary list resp ciprog" where
  [op_defs]: "HandleListCISignals repo limit_text =
     (if repo = [] then ret (Fail 400)
      else or_fail 500 (ListCISignals repo (parseIntParam limit_text 50)) (\<lambda>r. ret (Reply 200 r)))"

record ci_webhook =
  wp_task :: uuid_text
  wp_pr_state :: string
  wp_merged :: "bool option"
  wp_state :: string
  wp_build :: "bool option"
  wp_tests :: "bool option"

definition webhook_pr_state :: "ci_webhook \<Rightarrow> string" where
  "webhook_pr_state p = (if wp_pr_state p = [] then ''unknown'' else wp_pr_state p)"

definition webhook_merged :: "ci_webhook \<Rightarrow> bool" where
  "webhook_merged p \<longleftrightarrow> webhook_pr_state p = ''merged'' \<or> wp_merged p = Some True"

definition webhook_ci_state :: "ci_webhook \<Rightarrow> string" where
  "webhook_ci_state p =
     (let st = (if wp_state p = [] then ''unknown'' else wp_state p) in
      if st = ''unknown'' then
        (case (wp_build p, wp_tests p) of
          (Some b, Some t) \<Rightarrow> if b \<and> t then ''success'' else ''failure''
        | _ \<Rightarrow> st)
      else st)"

text \<open>\<open>INSERT ... ON CONFLICT (task_id) DO UPDATE\<close>; the task must exist.\<close>

definition upsert_signal ::
  "uuid \<Rightarrow> task \<Rightarrow> (ci_signal \<Rightarrow> ci_signal) \<Rightarrow> (ci_signal \<Rightarrow> ci_signal) \<Rightarrow> time \<Rightarrow> nat option ciprog" where
  [op_defs]: "upsert_signal i t first again now = ci_exec (\<lambda>s xs.
     if t_id t \<notin> set (map t_id (tasks s)) then None
     else if t_id t \<in> set (map sg_task xs) then
       Some (1, update_where (\<lambda>x. sg_task x = t_id t) (\<lambda>x. (again x)\<lparr>sg_polled_at := Some now, sg_updated := now\<rparr>) xs)
     else if i \<in> set (map sg_id xs) then None
     else Some (1, xs @ [(first (new_signal i (t_id t) (t_repo_id t) (the (t_pr_number t)) now))\<lparr>sg_polled_at := Some now\<rparr>]))"

definition write_signal :: "string \<Rightarrow> bool \<Rightarrow> string \<Rightarrow> ci_signal \<Rightarrow> ci_signal" where
  "write_signal pr_state merged state x = x\<lparr>sg_pr_state := pr_state, sg_merged := merged, sg_state := state\<rparr>"

definition merge_signal :: "string \<Rightarrow> bool \<Rightarrow> string \<Rightarrow> ci_signal \<Rightarrow> ci_signal" where
  "merge_signal pr_state merged state x = x\<lparr>
     sg_pr_state := (if pr_state = ''unknown'' then sg_pr_state x else pr_state),
     sg_merged := (merged \<or> sg_merged x),
     sg_state := (if state = ''unknown'' then sg_state x else state)\<rparr>"

text \<open>Count the outcome for every role of the agents of the task, then mark the row.\<close>

definition ingest_now :: "server_cfg \<Rightarrow> task \<Rightarrow> task_outcome \<Rightarrow> (nat \<Rightarrow> uuid) \<Rightarrow> time \<Rightarrow> unit ciprog" where
  [op_defs]: "ingest_now cfg t out ids now = do {
     roles \<leftarrow> on_fst (on_fst (resolveAgentRoles cfg (coalesce (t_assigned_agents t))));
     _ \<leftarrow> record_outcomes roles (t_repo_id t) out ids now;
     void (update_signal (\<lambda>x. sg_task x = t_id t) (\<lambda>x. x\<lparr>sg_ingested := True, sg_ingested_at := Some now,
       sg_final := True, sg_final_at := Some now, sg_updated := now\<rparr>)) }"

definition HandleCISignalWebhook ::
  "server_cfg \<Rightarrow> ci_webhook option \<Rightarrow> uuid \<Rightarrow> (nat \<Rightarrow> uuid) \<Rightarrow> time \<Rightarrow> (string \<times> string) resp ciprog" where
  [op_defs]: "HandleCISignalWebhook cfg body i ids now = with_body body (\<lambda>p. with_id (wp_task p) (\<lambda>tid.
     or_fail 404 (on_fst (on_fst (GetTask tid))) (\<lambda>t.
       (let pr = webhook_pr_state p; m = webhook_merged p; st = webhook_ci_state p in do {
          r \<leftarrow> upsert_signal i t (write_signal pr m st) (merge_signal pr m st) now;
          case r of
            None \<Rightarrow> ret (Fail 500)
          | Some _ \<Rightarrow> do {
              _ \<leftarrow> unless_nil (settled_pr pr \<and> st \<in> {''success'', ''failure'', ''error''} \<and> sv_role_elo cfg)
                (ingest_now cfg t (ci_outcome (sv_us cfg tid) m st) ids now);
              ret (Reply 200 (pr, st)) } }))))"

record ci_report =
  cr_task :: uuid_text
  cr_build :: bool
  cr_tests :: bool
  cr_accepted :: bool

definition report_outcome :: "string \<Rightarrow> ci_report \<Rightarrow> task_outcome" where
  "report_outcome task p = \<lparr>oc_task = task, oc_rating = 0, oc_conf = 0, oc_strategy = [],
     oc_tests = cr_tests p, oc_pr = cr_accepted p, oc_build = cr_build p, oc_win = False\<rparr>"

definition HandleCISignalReport ::
  "server_cfg \<Rightarrow> ci_report option \<Rightarrow> uuid \<Rightarrow> (nat \<Rightarrow> uuid) \<Rightarrow> time \<Rightarrow> unit resp ciprog" where
  [op_defs]: "HandleCISignalReport cfg body i ids now = with_body body (\<lambda>p. with_id (cr_task p) (\<lambda>tid.
     or_fail 404 (on_fst (on_fst (GetTask tid))) (\<lambda>t.
       (let st = (if cr_build p \<and> cr_tests p then ''success'' else ''failure'');
            pr = (if cr_accepted p then ''merged'' else ''open'') in do {
          r \<leftarrow> upsert_signal i t (write_signal pr (cr_accepted p) st) (write_signal pr (cr_accepted p) st) now;
          case r of
            None \<Rightarrow> ret (Fail 500)
          | Some _ \<Rightarrow> do {
              _ \<leftarrow> unless_nil (sv_role_elo cfg) (ingest_now cfg t (report_outcome (sv_us cfg tid) p) ids now);
              ret (Reply 200 ()) } }))))"

section \<open>Routes\<close>

datatype ci_request = CIWebhook "ci_webhook option" | CIReport "ci_report option"

fun ci_handler :: "server_cfg \<Rightarrow> ci_request \<Rightarrow> uuid \<Rightarrow> (nat \<Rightarrow> uuid) \<Rightarrow> time \<Rightarrow> nat ciprog" where
  "ci_handler cfg (CIWebhook b) i ids now =
     do { r \<leftarrow> HandleCISignalWebhook cfg b i ids now; ret (case r of Reply n _ \<Rightarrow> n | Fail n \<Rightarrow> n) }"
| "ci_handler cfg (CIReport b) i ids now =
     do { r \<leftarrow> HandleCISignalReport cfg b i ids now; ret (case r of Reply n _ \<Rightarrow> n | Fail n \<Rightarrow> n) }"

text \<open>Both routes are behind the agent token; the claims are not compared with the task.\<close>

definition serve_ci :: "server_cfg \<Rightarrow> string \<Rightarrow> ci_request \<Rightarrow> uuid \<Rightarrow> (nat \<Rightarrow> uuid) \<Rightarrow> time \<Rightarrow> nat ciprog" where
  "serve_ci cfg header req i ids now = do {
     r \<leftarrow> on_fst (on_fst (RequireAgentToken (sv_verify cfg) (sv_sha cfg) header now (\<lambda>_. ret (Reply 200 ()))));
     case r of Fail n \<Rightarrow> ret n | Reply _ _ \<Rightarrow> ci_handler cfg req i ids now }"

end
