(* ===== verification/CrossRepo.thy ===== *)
theory CrossRepo
  imports UserAPI "HOL-Library.Word"
begin

text \<open>
  Cross-repository links: \<open>internal/model/repo_link.go\<close>, the queries of \<open>internal/store\<close> they need and
  \<open>internal/crossrepo/authorizer.go\<close>.  The tables are one record; the state adds the audit log, the
  goroutines that still have to write a link event, the calls made to the search engine and a
  script of database failures.  Share profiles, actions and roles are the strings the code compares.
\<close>

section \<open>Tables\<close>

text \<open>A value of the JSON column \<open>organizations.settings\<close>, as far as the code tells them apart.\<close>

datatype setting = SetBool bool | SetNum real | SetInt int | SetOther

record org =
  og_id :: uuid
  og_settings :: "(string \<rightharpoonup> setting) option"

record xrepo =
  xr_id :: uuid
  xr_org :: uuid
  xr_owner :: string
  xr_name :: string

record org_member =
  om_org :: uuid
  om_user :: uuid
  om_role :: string

record repo_link =
  lk_id :: uuid
  lk_org :: uuid
  lk_source :: uuid
  lk_target :: uuid
  lk_profile :: string
  lk_label :: string
  lk_created_by :: uuid
  lk_created_at :: time
  lk_updated_at :: time

record link_event =
  le_link :: "uuid option"
  le_org :: uuid
  le_source :: uuid
  le_target :: uuid
  le_action :: string
  le_actor :: "uuid option"
  le_created_at :: time

record link_tables =
  orgs :: "org list"
  xrepos :: "xrepo list"
  org_members :: "org_member list"
  repo_members :: "(uuid \<times> uuid) list"
  links :: "repo_link list"
  link_events :: "link_event list"

record search_config =
  fs_top_k :: "32 word"
  fs_max_total :: "32 word"
  fs_max_concurrent :: "32 word"
  fs_normalization :: string

datatype engine_call =
    EngSearch string "uuid list" "string list" search_config
  | EngManifest uuid
  | EngDeps uuid "uuid list" "32 word"
  | EngGraph uuid "uuid list" bool

record xstate =
  x_db :: link_tables
  x_audit :: "(string \<times> uuid) list"
  x_pending :: "link_event list"
  x_engine :: "engine_call list"
  x_faults :: "bool list"

type_synonym 'a xprog = "(xstate, 'a) state"

section \<open>Profiles and actions\<close>

definition ShareFull :: string where [simp]: "ShareFull = ''full''"
definition ShareSymbols :: string where [simp]: "ShareSymbols = ''symbols''"
definition ShareMetadata :: string where [simp]: "ShareMetadata = ''metadata''"
definition ShareNone :: string where [simp]: "ShareNone = ''none''"

definition ValidShareProfiles :: "string list" where
  "ValidShareProfiles = [ShareFull, ShareSymbols, ShareMetadata, ShareNone]"

definition ActionSearch :: string where [simp]: "ActionSearch = ''cross_repo.search''"
definition ActionSymbols :: string where [simp]: "ActionSymbols = ''cross_repo.symbols''"
definition ActionMetadata :: string where [simp]: "ActionMetadata = ''cross_repo.metadata''"
definition ActionFileRead :: string where [simp]: "ActionFileRead = ''cross_repo.file_read''"
definition ActionGraphView :: string where [simp]: "ActionGraphView = ''cross_repo.graph_view''"
definition ActionChatMention :: string where [simp]: "ActionChatMention = ''cross_repo.chat_mention''"

definition IsActive :: "repo_link \<Rightarrow> bool" where
  "IsActive l \<longleftrightarrow> lk_profile l \<noteq> ShareNone"

definition AllowsAction :: "repo_link \<Rightarrow> string \<Rightarrow> bool" where
  "AllowsAction l action =
     (if lk_profile l = ShareFull then True
      else if lk_profile l = ShareSymbols then
        action \<in> {ActionSymbols, ActionMetadata, ActionGraphView, ActionChatMention}
      else if lk_profile l = ShareMetadata then action \<in> {ActionMetadata, ActionGraphView}
      else False)"

section \<open>Statements\<close>

datatype store_error = ErrNotFound | ErrConflict | ErrStore | ErrEngine

lemma stable_case_store_error:
  "stable R a \<Longrightarrow> stable R b \<Longrightarrow> stable R c \<Longrightarrow> stable R d \<Longrightarrow>
   stable R (case e of ErrNotFound \<Rightarrow> a | ErrConflict \<Rightarrow> b | ErrStore \<Rightarrow> c | ErrEngine \<Rightarrow> d)"
  by (cases e) simp_all

definition x_io :: "bool xprog" where
  "x_io = State (\<lambda>s. case x_faults s of
       [] \<Rightarrow> (True, s)
     | b # bs \<Rightarrow> (\<not> b, s\<lparr>x_faults := bs\<rparr>))"

definition xselect :: "(link_tables \<Rightarrow> 'a) \<Rightarrow> (store_error + 'a) xprog" where
  "xselect f = do { ok \<leftarrow> x_io; if \<not> ok then ret (Inl ErrStore) else gets (\<lambda>s. Inr (f (x_db s))) }"

definition xfetch :: "(link_tables \<Rightarrow> 'a option) \<Rightarrow> (store_error + 'a) xprog" where
  "xfetch f = do {
     r \<leftarrow> xselect f;
     ret (case r of Inl e \<Rightarrow> Inl e | Inr None \<Rightarrow> Inl ErrNotFound | Inr (Some x) \<Rightarrow> Inr x) }"

definition xexec :: "(link_tables \<Rightarrow> store_error + link_tables) \<Rightarrow> (store_error + unit) xprog" where
  "xexec f = do {
     ok \<leftarrow> x_io;
     if \<not> ok then ret (Inl ErrStore)
     else State (\<lambda>s. case f (x_db s) of
         Inl e \<Rightarrow> (Inl e, s) | Inr d \<Rightarrow> (Inr (), s\<lparr>x_db := d\<rparr>)) }"

definition RepoGetByID :: "uuid \<Rightarrow> (store_error + xrepo) xprog" where
  [op_defs]: "RepoGetByID i = xfetch (\<lambda>d. List.find (\<lambda>r. xr_id r = i) (xrepos d))"

definition OrgGetByID :: "uuid \<Rightarrow> (store_error + org) xprog" where
  [op_defs]: "OrgGetByID i = xfetch (\<lambda>d. List.find (\<lambda>o'. og_id o' = i) (orgs d))"

definition GetMember :: "uuid \<Rightarrow> uuid \<Rightarrow> (store_error + org_member) xprog" where
  [op_defs]: "GetMember org_id user =
     xfetch (\<lambda>d. List.find (\<lambda>m. om_org m = org_id \<and> om_user m = user) (org_members d))"

definition ListReposByUser :: "uuid \<Rightarrow> (store_error + uuid list) xprog" where
  [op_defs]: "ListReposByUser user =
     xselect (\<lambda>d. map fst (filter (\<lambda>(r, u). u = user) (repo_members d)))"

definition LinkGetByID :: "uuid \<Rightarrow> (store_error + repo_link) xprog" where
  [op_defs]: "LinkGetByID i = xfetch (\<lambda>d. List.find (\<lambda>l. lk_id l = i) (links d))"

definition link_key :: "repo_link \<Rightarrow> uuid \<times> uuid \<times> uuid" where
  "link_key l = (lk_org l, lk_source l, lk_target l)"

definition GetByRepos :: "uuid \<Rightarrow> uuid \<Rightarrow> uuid \<Rightarrow> (store_error + repo_link) xprog" where
  [op_defs]: "GetByRepos org_id src tgt =
     xfetch (\<lambda>d. List.find (\<lambda>l. link_key l = (org_id, src, tgt)) (links d))"

text \<open>
  INSERT: the unique key gives a conflict; the primary key, the foreign keys, the check on profiles
  and the check against links of a repository to itself give another error.  The author of a link is a
  member of the organisation, so its foreign key holds.
\<close>

definition insert_link :: "repo_link \<Rightarrow> link_tables \<Rightarrow> store_error + link_tables" where
  [sql_defs]: "insert_link l d =
     (if lk_org l \<notin> set (map og_id (orgs d)) \<or> lk_source l \<notin> set (map xr_id (xrepos d)) \<or>
         lk_target l \<notin> set (map xr_id (xrepos d)) \<or> lk_profile l \<notin> set ValidShareProfiles \<or>
         lk_source l = lk_target l then Inl ErrStore
      else if link_key l \<in> set (map link_key (links d)) \<or> lk_id l \<in> set (map lk_id (links d)) then Inl ErrConflict
      else Inr (d\<lparr>links := links d @ [l]\<rparr>))"

definition LinkCreate :: "repo_link \<Rightarrow> uuid \<Rightarrow> time \<Rightarrow> (store_error + repo_link) xprog" where
  [op_defs]: "LinkCreate l new_id now =
     (let l' = l\<lparr>lk_id := new_id, lk_created_at := now, lk_updated_at := now\<rparr> in do {
       r \<leftarrow> xexec (insert_link l');
       ret (case r of Inl e \<Rightarrow> Inl e | Inr _ \<Rightarrow> Inr l') })"

definition update_link :: "uuid \<Rightarrow> string \<Rightarrow> string \<Rightarrow> time \<Rightarrow> link_tables \<Rightarrow> store_error + link_tables" where
  [sql_defs]: "update_link i profile label now d =
     (if i \<notin> set (map lk_id (links d)) then Inl ErrNotFound
      else if profile \<notin> set ValidShareProfiles then Inl ErrStore
      else Inr (d\<lparr>links := update_where (\<lambda>l. lk_id l = i)
        (\<lambda>l. l\<lparr>lk_profile := profile, lk_label := label, lk_updated_at := now\<rparr>) (links d)\<rparr>))"

definition UpdateShareProfile :: "uuid \<Rightarrow> string \<Rightarrow> string \<Rightarrow> time \<Rightarrow> (store_error + unit) xprog" where
  [op_defs]: "UpdateShareProfile i profile label now = xexec (update_link i profile label now)"

text \<open>DELETE: the events of the link lose their reference (ON DELETE SET NULL).\<close>

definition delete_link :: "uuid \<Rightarrow> link_tables \<Rightarrow> store_error + link_tables" where
  [sql_defs]: "delete_link i d =
     (if i \<notin> set (map lk_id (links d)) then Inl ErrNotFound
      else Inr (d\<lparr>links := delete_where (\<lambda>l. lk_id l = i) (links d),
        link_events := update_where (\<lambda>e. le_link e = Some i) (\<lambda>e. e\<lparr>le_link := None\<rparr>) (link_events d)\<rparr>))"

definition LinkDelete :: "uuid \<Rightarrow> (store_error + unit) xprog" where
  [op_defs]: "LinkDelete i = xexec (delete_link i)"

text \<open>Rows with the newest first; rows of the same time stay in the order of the table.\<close>

definition newest_links :: "repo_link list \<Rightarrow> repo_link list" where
  "newest_links ls = sort_key (\<lambda>l. - lk_created_at l) ls"

definition repo_full_name :: "link_tables \<Rightarrow> uuid \<Rightarrow> string" where
  "repo_full_name d i = (case List.find (\<lambda>r. xr_id r = i) (xrepos d) of
       None \<Rightarrow> [] | Some r \<Rightarrow> xr_owner r @ ''/'' @ xr_name r)"

definition with_names :: "link_tables \<Rightarrow> repo_link \<Rightarrow> repo_link \<times> string \<times> string" where
  "with_names d l = (l, repo_full_name d (lk_source l), repo_full_name d (lk_target l))"

definition LinksByOrg ::
  "uuid \<Rightarrow> int \<Rightarrow> int \<Rightarrow> (store_error + (repo_link \<times> string \<times> string) list \<times> nat) xprog" where
  [op_defs]: "LinksByOrg org_id limit offset = do {
     c \<leftarrow> xselect (\<lambda>d. count_where (\<lambda>l. lk_org l = org_id) (links d));
     case c of
       Inl e \<Rightarrow> ret (Inl e)
     | Inr cnt \<Rightarrow> do {
         r \<leftarrow> xselect (\<lambda>d. map (with_names d) (take (nat limit) (drop (nat offset)
                (newest_links (filter (\<lambda>l. lk_org l = org_id) (links d))))));
         ret (case r of Inl e \<Rightarrow> Inl e | Inr ls \<Rightarrow> Inr (ls, cnt)) } }"

definition LinksByRepo :: "uuid \<Rightarrow> (store_error + (repo_link \<times> string \<times> string) list) xprog" where
  [op_defs]: "LinksByRepo repo = xselect (\<lambda>d. map (with_names d)
     (newest_links (filter (\<lambda>l. lk_source l = repo \<or> lk_target l = repo) (links d))))"

definition ListLinkedRepoIDs :: "uuid \<Rightarrow> (store_error + uuid list) xprog" where
  [op_defs]: "ListLinkedRepoIDs src = xselect (\<lambda>d. map lk_target
     (filter (\<lambda>l. lk_source l = src \<and> lk_profile l \<noteq> ShareNone) (links d)))"

definition CountByOrg :: "uuid \<Rightarrow> (store_error + nat) xprog" where
  [op_defs]: "CountByOrg org_id =
     xselect (\<lambda>d. count_where (\<lambda>l. lk_org l = org_id \<and> lk_profile l \<noteq> ShareNone) (links d))"

definition insert_event :: "link_event \<Rightarrow> link_tables \<Rightarrow> store_error + link_tables" where
  [sql_defs]: "insert_event e d =
     (if le_org e \<notin> set (map og_id (orgs d)) \<or>
         (case le_link e of None \<Rightarrow> False | Some i \<Rightarrow> i \<notin> set (map lk_id (links d))) then Inl ErrStore
      else Inr (d\<lparr>link_events := link_events d @ [e]\<rparr>))"

definition LogEvent :: "link_event \<Rightarrow> time \<Rightarrow> (store_error + unit) xprog" where
  [op_defs]: "LogEvent e now = xexec (insert_event (e\<lparr>le_created_at := now\<rparr>))"

definition ListEvents :: "uuid \<Rightarrow> uuid option \<Rightarrow> int \<Rightarrow> (store_error + link_event list) xprog" where
  [op_defs]: "ListEvents org_id link limit =
     (let n = (if limit \<le> 0 \<or> limit > 500 then 100 else limit) in
      xselect (\<lambda>d. take (nat n) (sort_key (\<lambda>e. - le_created_at e)
        (filter (\<lambda>e. le_org e = org_id \<and> (link = None \<or> le_link e = link)) (link_events d)))))"

section \<open>The authorizer\<close>

datatype decision = Allow | Deny string

definition fmt_q :: "string \<Rightarrow> string" where
  "fmt_q s = [CHR 0x22] @ s @ [CHR 0x22]"

text \<open>
  \<open>int(n)\<close> of a \<open>float64\<close> truncates; outside the range of \<open>int64\<close> the language leaves the result
  open, and this is the one of amd64.
\<close>

definition int_of_float :: "real \<Rightarrow> int" where
  "int_of_float x =
     (let n = (if 0 \<le> x then \<lfloor>x\<rfloor> else \<lceil>x\<rceil>) in if - (2 ^ 63) \<le> n \<and> n < 2 ^ 63 then n else - (2 ^ 63))"

definition IsOrgCrossRepoEnabled :: "org \<Rightarrow> bool" where
  "IsOrgCrossRepoEnabled g = (case og_settings g of
       None \<Rightarrow> True
     | Some m \<Rightarrow> (case m ''cross_repo_enabled'' of Some (SetBool b) \<Rightarrow> b | _ \<Rightarrow> True))"

definition GetOrgMaxLinks :: "org \<Rightarrow> int" where
  "GetOrgMaxLinks g = (case og_settings g of
       None \<Rightarrow> 0
     | Some m \<Rightarrow> (case m ''max_linked_repos'' of
           Some (SetNum x) \<Rightarrow> int_of_float x | Some (SetInt n) \<Rightarrow> n | _ \<Rightarrow> 0))"

definition RequiresTargetRepoAccess :: "string \<Rightarrow> bool" where
  "RequiresTargetRepoAccess action \<longleftrightarrow> action \<in> {ActionSearch, ActionFileRead}"

definition userHasTargetAccess :: "uuid \<Rightarrow> uuid \<Rightarrow> string \<Rightarrow> bool xprog" where
  [op_defs]: "userHasTargetAccess tgt user role =
     (if role \<in> {''owner'', ''admin''} then ret True
      else do {
        r \<leftarrow> ListReposByUser user;
        ret (case r of Inl _ \<Rightarrow> False | Inr rs \<Rightarrow> tgt \<in> set rs) })"

definition authorize_user :: "uuid \<Rightarrow> uuid \<Rightarrow> uuid \<Rightarrow> string \<Rightarrow> decision xprog" where
  [op_defs]: "authorize_user org_id user tgt action = do {
     m \<leftarrow> GetMember org_id user;
     case m of
       Inl ErrNotFound \<Rightarrow> ret (Deny ''user is not a member of the organization'')
     | Inl _ \<Rightarrow> ret (Deny ''internal error checking org membership'')
     | Inr mem \<Rightarrow>
         if om_role mem = ''viewer'' \<and> action \<noteq> ActionMetadata \<and> action \<noteq> ActionGraphView then
           ret (Deny ''viewer role can only access metadata and graph views'')
         else if RequiresTargetRepoAccess action then do {
           ok \<leftarrow> userHasTargetAccess tgt user (om_role mem);
           ret (if ok then Allow else Deny ''user does not have access to the target repository'') }
         else ret Allow }"

definition authorize_link :: "uuid \<Rightarrow> uuid \<Rightarrow> uuid \<Rightarrow> uuid \<Rightarrow> string \<Rightarrow> decision xprog" where
  [op_defs]: "authorize_link org_id user src tgt action = do {
     l \<leftarrow> GetByRepos org_id src tgt;
     case l of
       Inl ErrNotFound \<Rightarrow> ret (Deny ''no link exists between these repositories'')
     | Inl _ \<Rightarrow> ret (Deny ''internal error checking repo link'')
     | Inr lk \<Rightarrow>
         if \<not> IsActive lk then ret (Deny ''cross-repo link is paused (share_profile=none)'')
         else if \<not> AllowsAction lk action then
           ret (Deny (''share profile does not permit this action: profile='' @ fmt_q (lk_profile lk) @
             '' does not permit action='' @ fmt_q action))
         else authorize_user org_id user tgt action }"

definition Authorize :: "uuid \<Rightarrow> uuid \<Rightarrow> uuid \<Rightarrow> string \<Rightarrow> decision xprog" where
  [op_defs]: "Authorize user src tgt action = do {
     sr \<leftarrow> RepoGetByID src;
     case sr of
       Inl _ \<Rightarrow> ret (Deny ''source repository not found'')
     | Inr source_repo \<Rightarrow> do {
         tr \<leftarrow> RepoGetByID tgt;
         case tr of
           Inl _ \<Rightarrow> ret (Deny ''target repository not found'')
         | Inr target_repo \<Rightarrow>
             if xr_org source_repo \<noteq> xr_org target_repo then
               ret (Deny ''repositories belong to different organizations'')
             else do {
               g \<leftarrow> OrgGetByID (xr_org source_repo);
               case g of
                 Inl _ \<Rightarrow> ret (Deny ''organization not found'')
               | Inr organization \<Rightarrow>
                   if \<not> IsOrgCrossRepoEnabled organization then
                     ret (Deny ''cross-repo features are disabled for this organization'')
                   else authorize_link (xr_org source_repo) user src tgt action } } }"

definition AuthorizeLink :: "uuid \<Rightarrow> uuid \<Rightarrow> decision xprog" where
  [op_defs]: "AuthorizeLink user org_id = do {
     g \<leftarrow> OrgGetByID org_id;
     case g of
       Inl _ \<Rightarrow> ret (Deny ''organization not found'')
     | Inr organization \<Rightarrow>
         if \<not> IsOrgCrossRepoEnabled organization then
           ret (Deny ''cross-repo features are disabled for this organization'')
         else do {
           m \<leftarrow> GetMember org_id user;
           ret (case m of
               Inl ErrNotFound \<Rightarrow> Deny ''user is not a member of the organization''
             | Inl _ \<Rightarrow> Deny ''internal error checking membership''
             | Inr mem \<Rightarrow> if om_role mem \<in> {''owner'', ''admin''} then Allow
                 else Deny ''only org owners and admins can manage cross-repo links'') } }"

definition CheckOrgLinkBudget :: "uuid \<Rightarrow> decision xprog" where
  [op_defs]: "CheckOrgLinkBudget org_id = do {
     g \<leftarrow> OrgGetByID org_id;
     case g of
       Inl _ \<Rightarrow> ret (Deny ''organization not found'')
     | Inr organization \<Rightarrow>
         (let max_links = GetOrgMaxLinks organization in
          if max_links \<le> 0 then ret Allow
          else do {
            c \<leftarrow> CountByOrg org_id;
            ret (case c of
                Inl _ \<Rightarrow> Deny ''internal error checking link budget''
              | Inr n \<Rightarrow> if int n \<ge> max_links then
                  Deny (''organization has reached the maximum number of cross-repo links: '' @
                    show_int (int n) @ ''/'' @ show_int max_links @ '' links used'')
                  else Allow) }) }"

end
