(* ===== verification/CrossRepoAPI.thy ===== *)
theory CrossRepoAPI
  imports CrossRepo "HOL-Library.AList"
begin

text \<open>
  \<open>internal/crossrepo\<close>: federated search, dependency graph, the enricher of the review pipeline and the
  HTTP handlers of \<open>handler.go\<close> and \<open>graph_handler.go\<close>.  The search engine behind gRPC is a parameter:
  each answer is a function of the calls made before and of the call.  Durations, search metrics and
  Prometheus counters are left out; the query parameters are read with \<open>parseIntParam\<close>, whose copy in
  these files is the same function.
\<close>

section \<open>The engine\<close>

record context_chunk =
  cc_id :: string
  cc_path :: string
  cc_start :: nat
  cc_end :: nat
  cc_content :: string
  cc_language :: string

record fed_chunk =
  fc_repo :: string
  fc_repo_name :: string
  fc_chunk :: context_chunk
  fc_score :: real

record 'r engine =
  en_search :: "engine_call list \<Rightarrow> engine_call \<Rightarrow> fed_chunk list option"
  en_other :: "engine_call list \<Rightarrow> engine_call \<Rightarrow> 'r option"

definition engine_do :: "engine_call \<Rightarrow> (engine_call list \<Rightarrow> engine_call \<Rightarrow> 'r option) \<Rightarrow> (store_error + 'r) xprog" where
  "engine_do c f = State (\<lambda>s. (case f (x_engine s) c of None \<Rightarrow> Inl ErrEngine | Some r \<Rightarrow> Inr r,
     s\<lparr>x_engine := x_engine s @ [c]\<rparr>))"

section \<open>Federated search\<close>

record search_result =
  sr_chunks :: "fed_chunk list"
  sr_authorized :: nat
  sr_denied :: nat
  sr_reasons :: "(uuid \<times> string) list"

definition empty_search :: search_result where
  "empty_search = \<lparr>sr_chunks = [], sr_authorized = 0, sr_denied = 0, sr_reasons = []\<rparr>"

fun authorize_each ::
  "uuid \<Rightarrow> uuid \<Rightarrow> string \<Rightarrow> uuid list \<Rightarrow> uuid list \<times> (uuid \<times> string) list \<Rightarrow>
   (uuid list \<times> (uuid \<times> string) list) xprog" where
  "authorize_each user src action [] acc = ret acc"
| "authorize_each user src action (t # ts) acc = do {
     d \<leftarrow> Authorize user src t action;
     authorize_each user src action ts (case d of
         Allow \<Rightarrow> (fst acc @ [t], snd acc)
       | Deny reason \<Rightarrow> (fst acc, AList.update t reason (snd acc))) }"

primrec resolveRepoNames :: "(uuid \<Rightarrow> string) \<Rightarrow> uuid list \<Rightarrow> (string \<rightharpoonup> string) xprog" where
  "resolveRepoNames us [] = ret Map.empty"
| "resolveRepoNames us (i # is) = do {
     r \<leftarrow> RepoGetByID i;
     names \<leftarrow> resolveRepoNames us is;
     ret (case r of Inl _ \<Rightarrow> names | Inr repo \<Rightarrow> names(us i \<mapsto> xr_name repo)) }"

definition name_chunk :: "(string \<rightharpoonup> string) \<Rightarrow> fed_chunk \<Rightarrow> fed_chunk" where
  "name_chunk names c = (case names (fc_repo c) of None \<Rightarrow> c | Some n \<Rightarrow> c\<lparr>fc_repo_name := n\<rparr>)"

definition Search ::
  "(uuid \<Rightarrow> string) \<Rightarrow> 'r engine \<Rightarrow> uuid \<Rightarrow> uuid \<Rightarrow> string \<Rightarrow> string list \<Rightarrow> search_config \<Rightarrow>
   (store_error + search_result) xprog" where
  [op_defs]: "Search us eng user src query_text symbols cfg = do {
     linked \<leftarrow> ListLinkedRepoIDs src;
     case linked of
       Inl e \<Rightarrow> ret (Inl e)
     | Inr targets \<Rightarrow>
         if targets = [] then ret (Inr empty_search)
         else do {
           (allowed, denied) \<leftarrow> authorize_each user src ActionSearch targets ([], []);
           if allowed = [] then
             ret (Inr (empty_search\<lparr>sr_denied := length denied, sr_reasons := denied\<rparr>))
           else do {
             r \<leftarrow> engine_do (EngSearch query_text (src # allowed) symbols cfg) (en_search eng);
             case r of
               Inl e \<Rightarrow> ret (Inl e)
             | Inr chunks \<Rightarrow> do {
                 names \<leftarrow> resolveRepoNames us (src # allowed);
                 ret (Inr \<lparr>sr_chunks = map (name_chunk names) chunks, sr_authorized = length allowed,
                   sr_denied = length denied, sr_reasons = denied\<rparr>) } } } }"

section \<open>Dependency graph\<close>

definition GetManifest :: "'r engine \<Rightarrow> uuid \<Rightarrow> uuid \<Rightarrow> (store_error + 'r) xprog" where
  [op_defs]: "GetManifest eng user repo = engine_do (EngManifest repo) (en_other eng)"

definition target_ids :: "uuid \<Rightarrow> uuid list \<Rightarrow> (store_error + uuid list) xprog" where
  [op_defs]: "target_ids src given = (if given \<noteq> [] then ret (Inr given) else ListLinkedRepoIDs src)"

primrec count_allowed :: "uuid \<Rightarrow> uuid \<Rightarrow> uuid list \<Rightarrow> uuid list \<times> nat \<Rightarrow> (uuid list \<times> nat) xprog" where
  "count_allowed user src [] acc = ret acc"
| "count_allowed user src (t # ts) acc = do {
     d \<leftarrow> Authorize user src t ActionGraphView;
     count_allowed user src ts (if d = Allow then (fst acc @ [t], snd acc) else (fst acc, snd acc + 1)) }"

text \<open>The answer: the engine's edges if it was asked, the number of authorized and of denied repositories.\<close>

definition GetDependencies ::
  "'r engine \<Rightarrow> uuid \<Rightarrow> uuid \<Rightarrow> uuid list \<Rightarrow> 32 word \<Rightarrow> (store_error + 'r option \<times> nat \<times> nat) xprog" where
  [op_defs]: "GetDependencies eng user src given depth = do {
     ts \<leftarrow> target_ids src given;
     case ts of
       Inl e \<Rightarrow> ret (Inl e)
     | Inr targets \<Rightarrow> do {
         (allowed, denied) \<leftarrow> count_allowed user src targets ([], 0);
         if allowed = [] then ret (Inr (None, 0, denied))
         else do {
           r \<leftarrow> engine_do (EngDeps src allowed depth) (en_other eng);
           ret (case r of Inl e \<Rightarrow> Inl e | Inr x \<Rightarrow> Inr (Some x, length allowed, denied)) } } }"

definition add_new :: "'x \<Rightarrow> 'x list \<Rightarrow> 'x list" where
  "add_new x xs = (if x \<in> set xs then xs else xs @ [x])"

definition repos_of_links :: "repo_link list \<Rightarrow> uuid list" where
  "repos_of_links ls = foldl (\<lambda>acc l. add_new (lk_target l) (add_new (lk_source l) acc)) [] ls"

definition graph_candidates :: "uuid \<Rightarrow> uuid list \<Rightarrow> (store_error + uuid list) xprog" where
  [op_defs]: "graph_candidates org_id given =
     (if given \<noteq> [] then ret (Inr given)
      else do {
        r \<leftarrow> LinksByOrg org_id 500 0;
        ret (case r of Inl e \<Rightarrow> Inl e | Inr (ls, cnt) \<Rightarrow> Inr (repos_of_links (map fst ls))) })"

primrec sees_other :: "uuid \<Rightarrow> uuid \<Rightarrow> uuid list \<Rightarrow> bool xprog" where
  "sees_other user r [] = ret False"
| "sees_other user r (x # xs) =
     (if r = x then sees_other user r xs
      else do {
        d \<leftarrow> Authorize user r x ActionGraphView;
        if d = Allow then ret True else sees_other user r xs })"

primrec graph_repos :: "uuid \<Rightarrow> uuid list \<Rightarrow> uuid list \<Rightarrow> uuid list \<Rightarrow> uuid list xprog" where
  "graph_repos user everyone [] acc = ret acc"
| "graph_repos user everyone (r # rs) acc = do {
     ok \<leftarrow> sees_other user r everyone;
     graph_repos user everyone rs (if ok then add_new r acc else acc) }"

text \<open>\<open>None\<close>: no repository is authorized, the engine is not asked.\<close>

definition BuildGraph ::
  "'r engine \<Rightarrow> uuid \<Rightarrow> uuid \<Rightarrow> uuid list \<Rightarrow> bool \<Rightarrow> (store_error + 'r option) xprog" where
  [op_defs]: "BuildGraph eng user org_id given force = do {
     c \<leftarrow> graph_candidates org_id given;
     case c of
       Inl e \<Rightarrow> ret (Inl e)
     | Inr ids \<Rightarrow> do {
         allowed \<leftarrow> graph_repos user ids ids [];
         if allowed = [] then ret (Inr None)
         else do {
           r \<leftarrow> engine_do (EngGraph org_id allowed force) (en_other eng);
           ret (case r of Inl e \<Rightarrow> Inl e | Inr x \<Rightarrow> Inr (Some x)) } } }"

section \<open>Enrichment of reviews\<close>

record enricher_config =
  ec_max_chunks :: int
  ec_min_score :: real
  ec_max_concurrent :: "32 word"
  ec_normalization :: string
  ec_enabled :: bool

definition DefaultEnricherConfig :: enricher_config where
  "DefaultEnricherConfig = \<lparr>ec_max_chunks = 10, ec_min_score = 3 / 10, ec_max_concurrent = 4,
     ec_normalization = ''min_max'', ec_enabled = True\<rparr>"

record cross_context =
  cx_chunks :: "fed_chunk list"
  cx_searched :: nat
  cx_authorized :: nat
  cx_denied :: nat
  cx_empty :: bool

definition no_context :: cross_context where
  "no_context = \<lparr>cx_chunks = [], cx_searched = 0, cx_authorized = 0, cx_denied = 0, cx_empty = True\<rparr>"

definition filterAndCapChunks :: "fed_chunk list \<Rightarrow> real \<Rightarrow> int \<Rightarrow> fed_chunk list" where
  "filterAndCapChunks chunks min_score max_chunks =
     (let kept = filter (\<lambda>c. fc_score c \<ge> min_score) chunks in
      if max_chunks > 0 \<and> int (length kept) > max_chunks then take (nat max_chunks) kept else kept)"

definition search_text :: "string \<Rightarrow> string list \<Rightarrow> string" where
  "search_text query_text symbols =
     (if query_text = [] \<and> symbols \<noteq> [] then hd symbols else query_text)"

definition Enrich ::
  "(uuid \<Rightarrow> string) \<Rightarrow> 'r engine \<Rightarrow> enricher_config \<Rightarrow> uuid \<Rightarrow> uuid \<Rightarrow> string list \<Rightarrow> string \<Rightarrow> cross_context xprog" where
  [op_defs]: "Enrich us eng c user repo symbols query_text =
     (if \<not> ec_enabled c then ret no_context
      else do {
        linked \<leftarrow> ListLinkedRepoIDs repo;
        case linked of
          Inl _ \<Rightarrow> ret no_context
        | Inr targets \<Rightarrow>
            if targets = [] \<or> search_text query_text symbols = [] then ret no_context
            else do {
              r \<leftarrow> Search us eng user repo (search_text query_text symbols) symbols
                 \<lparr>fs_top_k = word_of_int (2 * ec_max_chunks c), fs_max_total = word_of_int (3 * ec_max_chunks c),
                  fs_max_concurrent = ec_max_concurrent c, fs_normalization = ec_normalization c\<rparr>;
              ret (case r of
                  Inl _ \<Rightarrow> no_context
                | Inr x \<Rightarrow> (let kept = filterAndCapChunks (sr_chunks x) (ec_min_score c) (ec_max_chunks c) in
                    \<lparr>cx_chunks = kept, cx_searched = sr_authorized x, cx_authorized = sr_authorized x,
                     cx_denied = sr_denied x, cx_empty = (kept = [])\<rparr>)) } })"

text \<open>\<open>%.2f\<close>, halves to even.\<close>

definition fmt2f :: "real \<Rightarrow> string" where
  "fmt2f x = (let n = nat \<bar>round_even (x * 100)\<bar> in
     (if x < 0 then ''-'' else []) @ show_nat (n div 100) @ ''.'' @
     (if n mod 100 < 10 then ''0'' else []) @ show_nat (n mod 100))"

definition en_dash :: string where
  "en_dash = [CHR 0xE2, CHR 0x80, CHR 0x93]"

definition fence :: string where
  "fence = ''```''"

definition format_chunk :: "fed_chunk \<Rightarrow> string" where
  "format_chunk c =
     ''### ['' @ (if fc_repo_name c \<noteq> [] then fc_repo_name c else fc_repo c) @ ''] '' @
     cc_path (fc_chunk c) @ '' (L'' @ show_nat (cc_start (fc_chunk c)) @ en_dash @ ''L'' @
     show_nat (cc_end (fc_chunk c)) @ '', score: '' @ fmt2f (fc_score c) @ '')'' @ nl @
     fence @ cc_language (fc_chunk c) @ nl @ cc_content (fc_chunk c) @ nl @ fence @ nl @ nl"

primrec format_chunks :: "nat \<Rightarrow> fed_chunk list \<Rightarrow> string" where
  "format_chunks i [] = []"
| "format_chunks i (c # cs) = format_chunk c @ (if i \<ge> 9 then [] else format_chunks (i + 1) cs)"

definition prompt_header :: "nat \<Rightarrow> string" where
  "prompt_header n = nl @ nl @ ''## Cross-Repo Context (from linked repositories)'' @ nl @ ''Searched '' @ show_nat n @
     '' linked repositories. The following code from **other repos** in this organization may be affected by these changes:'' @
     nl @ nl"

definition FormatForPrompt :: "cross_context \<Rightarrow> string" where
  "FormatForPrompt x =
     (if cx_empty x \<or> cx_chunks x = [] then [] else prompt_header (cx_searched x) @ format_chunks 0 (cx_chunks x))"

section \<open>Link management over HTTP\<close>

definition log_audit :: "string \<Rightarrow> uuid \<Rightarrow> unit xprog" where
  "log_audit action i = modify (\<lambda>s. s\<lparr>x_audit := x_audit s @ [(action, i)]\<rparr>)"

text \<open>The event is written by a goroutine that runs later: it waits in \<open>x_pending\<close>.\<close>

definition logLinkEvent :: "repo_link \<Rightarrow> string \<Rightarrow> uuid \<Rightarrow> unit xprog" where
  [op_defs]: "logLinkEvent l action actor = do {
     _ \<leftarrow> log_audit action (lk_id l);
     modify (\<lambda>s. s\<lparr>x_pending := x_pending s @ [\<lparr>le_link = Some (lk_id l), le_org = lk_org l, le_source = lk_source l,
       le_target = lk_target l, le_action = action, le_actor = Some actor, le_created_at = 0\<rparr>]\<rparr>) }"

definition with_user :: "uuid option \<Rightarrow> (uuid \<Rightarrow> ('s, 'b resp) state) \<Rightarrow> ('s, 'b resp) state" where
  "with_user u f = (case u of None \<Rightarrow> ret (Fail 401) | Some i \<Rightarrow> f i)"

definition or_status :: "(store_error \<Rightarrow> nat) \<Rightarrow> (store_error + 'a) xprog \<Rightarrow> ('a \<Rightarrow> 'b resp xprog) \<Rightarrow> 'b resp xprog" where
  "or_status status m f = do { r \<leftarrow> m; case r of Inl e \<Rightarrow> ret (Fail (status e)) | Inr x \<Rightarrow> f x }"

definition link_status :: "store_error \<Rightarrow> nat" where
  "link_status e = (case e of ErrNotFound \<Rightarrow> 404 | _ \<Rightarrow> 500)"

definition if_allowed :: "uuid \<Rightarrow> decision xprog \<Rightarrow> 'b resp xprog \<Rightarrow> 'b resp xprog" where
  "if_allowed i m k = do {
     d \<leftarrow> m;
     case d of
       Deny reason \<Rightarrow> do { _ \<leftarrow> log_audit ''crossrepo.access_denied'' i; ret (Fail 403) }
     | Allow \<Rightarrow> k }"

record link_body =
  lb_target :: uuid_text
  lb_profile :: string
  lb_label :: string

definition insert_and_log ::
  "uuid \<Rightarrow> xrepo \<Rightarrow> uuid \<Rightarrow> uuid \<Rightarrow> string \<Rightarrow> string \<Rightarrow> uuid \<Rightarrow> time \<Rightarrow> repo_link resp xprog" where
  [op_defs]: "insert_and_log user source_repo src tgt profile label new_id now =
     or_status (\<lambda>_. 404) (RepoGetByID tgt) (\<lambda>target_repo.
       if xr_org source_repo \<noteq> xr_org target_repo then ret (Fail 400)
       else or_status (\<lambda>e. if e = ErrConflict then 409 else 500)
         (LinkCreate \<lparr>lk_id = uuid_nil, lk_org = xr_org source_repo, lk_source = src, lk_target = tgt,
            lk_profile = profile, lk_label = label, lk_created_by = user, lk_created_at = time_zero,
            lk_updated_at = time_zero\<rparr> new_id now)
         (\<lambda>l. do { _ \<leftarrow> logLinkEvent l ''crossrepo.link_created'' user; ret (Reply 201 l) }))"

definition CreateLink ::
  "uuid option \<Rightarrow> uuid_text \<Rightarrow> link_body option \<Rightarrow> uuid \<Rightarrow> time \<Rightarrow> repo_link resp xprog" where
  [op_defs]: "CreateLink u repo body new_id now = with_user u (\<lambda>user. with_id repo (\<lambda>src. with_body body (\<lambda>req.
     with_id (lb_target req) (\<lambda>tgt.
       if src = tgt then ret (Fail 400)
       else (let profile = (if lb_profile req = [] then ShareMetadata else lb_profile req) in
         if profile \<notin> set ValidShareProfiles then ret (Fail 400)
         else or_status (\<lambda>_. 404) (RepoGetByID src) (\<lambda>source_repo.
           if_allowed src (AuthorizeLink user (xr_org source_repo)) (do {
             budget \<leftarrow> CheckOrgLinkBudget (xr_org source_repo);
             if budget \<noteq> Allow then ret (Fail 403)
             else insert_and_log user source_repo src tgt profile (lb_label req) new_id now })))))))"

definition ListLinks :: "uuid option \<Rightarrow> uuid_text \<Rightarrow> (repo_link \<times> string \<times> string) list resp xprog" where
  [op_defs]: "ListLinks u repo = with_user u (\<lambda>_. with_id repo (\<lambda>r.
     or_status (\<lambda>_. 500) (LinksByRepo r) (\<lambda>ls. ret (Reply 200 ls))))"

definition GetLink :: "uuid option \<Rightarrow> uuid_text \<Rightarrow> repo_link resp xprog" where
  [op_defs]: "GetLink u link = with_user u (\<lambda>_. with_id link (\<lambda>i.
     or_status link_status (LinkGetByID i) (\<lambda>l. ret (Reply 200 l))))"

definition UpdateLink ::
  "uuid option \<Rightarrow> uuid_text \<Rightarrow> (string \<times> string) option \<Rightarrow> time \<Rightarrow> repo_link resp xprog" where
  [op_defs]: "UpdateLink u link body now = with_user u (\<lambda>user. with_id link (\<lambda>i. with_body body (\<lambda>(profile, label).
     if profile \<noteq> [] \<and> profile \<notin> set ValidShareProfiles then ret (Fail 400)
     else or_status link_status (LinkGetByID i) (\<lambda>l.
       if_allowed i (AuthorizeLink user (lk_org l))
         (let new_profile = (if profile \<noteq> [] then profile else lk_profile l);
              new_label = (if label \<noteq> [] then label else lk_label l) in
          or_status link_status (UpdateShareProfile i new_profile new_label now) (\<lambda>_. do {
            _ \<leftarrow> logLinkEvent l ''crossrepo.link_updated'' user;
            ret (Reply 200 (l\<lparr>lk_profile := new_profile, lk_label := new_label\<rparr>)) }))))))"

definition DeleteLink :: "uuid option \<Rightarrow> uuid_text \<Rightarrow> unit resp xprog" where
  [op_defs]: "DeleteLink u link = with_user u (\<lambda>user. with_id link (\<lambda>i.
     or_status link_status (LinkGetByID i) (\<lambda>l.
       if_allowed i (AuthorizeLink user (lk_org l))
         (or_status link_status (LinkDelete i) (\<lambda>_. do {
            _ \<leftarrow> logLinkEvent l ''crossrepo.link_deleted'' user;
            ret (Reply 200 ()) })))))"

definition ListLinkEvents :: "uuid option \<Rightarrow> uuid_text \<Rightarrow> string \<Rightarrow> link_event list resp xprog" where
  [op_defs]: "ListLinkEvents u link limit = with_user u (\<lambda>_. with_id link (\<lambda>i.
     or_status link_status (LinkGetByID i) (\<lambda>l.
       or_status (\<lambda>_. 500) (ListEvents (lk_org l) (Some i) (parseIntParam limit 50)) (\<lambda>es. ret (Reply 200 es)))))"

definition ListOrgLinks ::
  "uuid option \<Rightarrow> uuid_text \<Rightarrow> string \<Rightarrow> string \<Rightarrow> ((repo_link \<times> string \<times> string) list \<times> nat) resp xprog" where
  [op_defs]: "ListOrgLinks u org_text limit offset = with_user u (\<lambda>_. with_id org_text (\<lambda>o'.
     or_status (\<lambda>_. 500) (LinksByOrg o' (parseIntParam limit 50) (parseIntParam offset 0)) (\<lambda>r. ret (Reply 200 r))))"

definition ListOrgEvents :: "uuid option \<Rightarrow> uuid_text \<Rightarrow> string \<Rightarrow> link_event list resp xprog" where
  [op_defs]: "ListOrgEvents u org_text limit = with_user u (\<lambda>_. with_id org_text (\<lambda>o'.
     or_status (\<lambda>_. 500) (ListEvents o' None (parseIntParam limit 50)) (\<lambda>es. ret (Reply 200 es))))"

section \<open>Graph and search over HTTP\<close>

definition GetManifest_http :: "'r engine \<Rightarrow> uuid option \<Rightarrow> uuid_text \<Rightarrow> 'r resp xprog" where
  [op_defs]: "GetManifest_http eng u repo = with_user u (\<lambda>user. with_id repo (\<lambda>r.
     or_status (\<lambda>_. 500) (GetManifest eng user r) (\<lambda>x. ret (Reply 200 x))))"

text \<open>The loop of \<open>splitComma\<close>, with the current piece.\<close>

fun split_comma_loop :: "string \<Rightarrow> string list \<Rightarrow> string \<Rightarrow> string list" where
  "split_comma_loop current result [] = (if current \<noteq> [] then result @ [current] else result)"
| "split_comma_loop current result (c # cs) =
     (if c = CHR '','' then split_comma_loop [] (if current \<noteq> [] then result @ [current] else result) cs
      else if c \<noteq> CHR '' '' then split_comma_loop (current @ [c]) result cs
      else split_comma_loop current result cs)"

definition splitComma :: "string \<Rightarrow> string list" where
  "splitComma s = split_comma_loop [] [] s"

definition GetDependencies_http ::
  "(string \<Rightarrow> uuid option) \<Rightarrow> 'r engine \<Rightarrow> uuid option \<Rightarrow> uuid_text \<Rightarrow> string \<Rightarrow> string \<Rightarrow>
   ('r option \<times> nat \<times> nat) resp xprog" where
  [op_defs]: "GetDependencies_http pu eng u repo ids depth = with_user u (\<lambda>user. with_id repo (\<lambda>src.
     or_status (\<lambda>_. 500)
       (GetDependencies eng user src (List.map_filter pu (splitComma ids)) (word_of_int (parseIntParam depth 0)))
       (\<lambda>x. ret (Reply 200 x))))"

definition BuildGraph_http ::
  "'r engine \<Rightarrow> uuid option \<Rightarrow> uuid_text \<Rightarrow> (uuid_text list \<times> bool) option \<Rightarrow> 'r option resp xprog" where
  [op_defs]: "BuildGraph_http eng u org_text body = with_user u (\<lambda>user. with_id org_text (\<lambda>o'. with_body body (\<lambda>(ids, force).
     or_status (\<lambda>_. 500) (BuildGraph eng user o' (List.map_filter parse_uuid ids) force) (\<lambda>x. ret (Reply 200 x)))))"

record search_body =
  sb_query :: string
  sb_symbols :: "string list"
  sb_config :: search_config

definition FederatedSearch_http ::
  "(uuid \<Rightarrow> string) \<Rightarrow> 'r engine \<Rightarrow> uuid option \<Rightarrow> uuid_text \<Rightarrow> search_body option \<Rightarrow> search_result resp xprog" where
  [op_defs]: "FederatedSearch_http us eng u repo body = with_user u (\<lambda>user. with_id repo (\<lambda>src. with_body body (\<lambda>req.
     if sb_query req = [] then ret (Fail 400)
     else or_status (\<lambda>_. 500) (Search us eng user src (sb_query req) (sb_symbols req) (sb_config req)) (\<lambda>x. do {
       _ \<leftarrow> log_audit ''crossrepo.federated_search'' src;
       ret (Reply 200 x) }))))"

section \<open>Routes\<close>

datatype link_request =
    RqCreate uuid_text "link_body option"
  | RqList uuid_text
  | RqGet uuid_text
  | RqUpdate uuid_text "(string \<times> string) option"
  | RqDelete uuid_text
  | RqLinkEvents uuid_text string
  | RqOrgLinks uuid_text string string
  | RqOrgEvents uuid_text string
  | RqManifest uuid_text
  | RqDependencies uuid_text string string
  | RqSearch uuid_text "search_body option"
  | RqGraph uuid_text "(uuid_text list \<times> bool) option"

definition respond :: "('s, 'b resp) state \<Rightarrow> ('s, nat) state" where
  "respond m = do { r \<leftarrow> m; ret (status_of r) }"

fun link_handler ::
  "(uuid \<Rightarrow> string) \<Rightarrow> (string \<Rightarrow> uuid option) \<Rightarrow> 'r engine \<Rightarrow> uuid option \<Rightarrow> link_request \<Rightarrow> uuid \<Rightarrow> time \<Rightarrow>
   nat xprog" where
  "link_handler us pu eng u (RqCreate repo b) i now = respond (CreateLink u repo b i now)"
| "link_handler us pu eng u (RqList repo) i now = respond (ListLinks u repo)"
| "link_handler us pu eng u (RqGet link) i now = respond (GetLink u link)"
| "link_handler us pu eng u (RqUpdate link b) i now = respond (UpdateLink u link b now)"
| "link_handler us pu eng u (RqDelete link) i now = respond (DeleteLink u link)"
| "link_handler us pu eng u (RqLinkEvents link limit) i now = respond (ListLinkEvents u link limit)"
| "link_handler us pu eng u (RqOrgLinks g limit offset) i now = respond (ListOrgLinks u g limit offset)"
| "link_handler us pu eng u (RqOrgEvents g limit) i now = respond (ListOrgEvents u g limit)"
| "link_handler us pu eng u (RqManifest repo) i now = respond (GetManifest_http eng u repo)"
| "link_handler us pu eng u (RqDependencies repo ids depth) i now = respond (GetDependencies_http pu eng u repo ids depth)"
| "link_handler us pu eng u (RqSearch repo b) i now = respond (FederatedSearch_http us eng u repo b)"
| "link_handler us pu eng u (RqGraph g b) i now = respond (BuildGraph_http eng u g b)"

end
