(* ===== verification/Regex.thy ===== *)
theory Regex
  imports GoStrings
begin

text \<open>
  The regular expressions of Go's \<open>regexp\<close> as far as the source uses them for whole texts: a text
  matches \<open>^(...)$\<close> if the expression has a parse of it (\<open>rx_match\<close>).  \<open>accepts\<close> decides it by
  derivatives, so the validators that use it compute.
\<close>

datatype rx =
    RNever
  | REmpty
  | RChar "char \<Rightarrow> bool"
  | RAlt rx rx
  | RSeq rx rx
  | RMany rx

inductive rx_match :: "rx \<Rightarrow> string \<Rightarrow> bool" where
  empty: "rx_match REmpty []"
| char: "p c \<Longrightarrow> rx_match (RChar p) [c]"
| left: "rx_match r s \<Longrightarrow> rx_match (RAlt r q) s"
| right: "rx_match q s \<Longrightarrow> rx_match (RAlt r q) s"
| seq: "rx_match r s \<Longrightarrow> rx_match q t \<Longrightarrow> rx_match (RSeq r q) (s @ t)"
| stop: "rx_match (RMany r) []"
| more: "rx_match r s \<Longrightarrow> rx_match (RMany r) t \<Longrightarrow> rx_match (RMany r) (s @ t)"

inductive_simps rx_never [simp]: "rx_match RNever s"
inductive_simps rx_empty [simp]: "rx_match REmpty s"
inductive_simps rx_char [simp]: "rx_match (RChar p) s"
inductive_simps rx_alt [simp]: "rx_match (RAlt r q) s"
inductive_simps rx_seq: "rx_match (RSeq r q) s"
inductive_simps rx_many: "rx_match (RMany r) s"
inductive_cases rx_manyE: "rx_match (RMany r) s"

section \<open>Derivatives\<close>

primrec nullable :: "rx \<Rightarrow> bool" where
  "nullable RNever = False"
| "nullable REmpty = True"
| "nullable (RChar p) = False"
| "nullable (RAlt r q) = (nullable r \<or> nullable q)"
| "nullable (RSeq r q) = (nullable r \<and> nullable q)"
| "nullable (RMany r) = True"

text \<open>Alternatives and sequences that drop what cannot match.\<close>

fun mk_alt :: "rx \<Rightarrow> rx \<Rightarrow> rx" where
  "mk_alt RNever q = q"
| "mk_alt r RNever = r"
| "mk_alt r q = RAlt r q"

fun mk_seq :: "rx \<Rightarrow> rx \<Rightarrow> rx" where
  "mk_seq RNever q = RNever"
| "mk_seq REmpty q = q"
| "mk_seq r q = RSeq r q"

primrec deriv :: "char \<Rightarrow> rx \<Rightarrow> rx" where
  "deriv c RNever = RNever"
| "deriv c REmpty = RNever"
| "deriv c (RChar p) = (if p c then REmpty else RNever)"
| "deriv c (RAlt r q) = mk_alt (deriv c r) (deriv c q)"
| "deriv c (RSeq r q) = mk_alt (mk_seq (deriv c r) q) (if nullable r then deriv c q else RNever)"
| "deriv c (RMany r) = mk_seq (deriv c r) (RMany r)"

primrec accepts :: "rx \<Rightarrow> string \<Rightarrow> bool" where
  "accepts r [] = nullable r"
| "accepts r (c # cs) = accepts (deriv c r) cs"

lemma mk_alt_match [simp]: "rx_match (mk_alt r q) s \<longleftrightarrow> rx_match r s \<or> rx_match q s"
  by (cases "(r, q)" rule: mk_alt.cases) auto

lemma mk_seq_match [simp]: "rx_match (mk_seq r q) s \<longleftrightarrow> rx_match (RSeq r q) s"
  by (cases "(r, q)" rule: mk_seq.cases) (auto simp: rx_seq)

lemma nullable_match: "nullable r \<longleftrightarrow> rx_match r []"
  by (induction r) (auto simp: rx_seq intro: rx_match.stop)

lemma many_ConsD:
  assumes "rx_match (RMany r) (c # s)"
  shows "\<exists>u v. s = u @ v \<and> rx_match r (c # u) \<and> rx_match (RMany r) v"
  using assms
proof (induction "RMany r" "c # s" rule: rx_match.induct)
  case (more u v)
  show ?case
  proof (cases u)
    case Nil
    with more show ?thesis by simp
  next
    case (Cons d u')
    with more show ?thesis by auto
  qed
qed

lemma deriv_match: "rx_match (deriv c r) s \<longleftrightarrow> rx_match r (c # s)"
proof (induction r arbitrary: s)
  case (RSeq r q)
  have "rx_match (RSeq r q) (c # s) \<longleftrightarrow>
      (\<exists>u v. s = u @ v \<and> rx_match r (c # u) \<and> rx_match q v) \<or> (rx_match r [] \<and> rx_match q (c # s))"
    by (auto simp: rx_seq Cons_eq_append_conv)
  with RSeq show ?case by (auto simp: rx_seq nullable_match)
next
  case (RMany r)
  show ?case
  proof
    assume "rx_match (deriv c (RMany r)) s"
    then obtain u v where uv: "s = u @ v" "rx_match r (c # u)" "rx_match (RMany r) v"
      using RMany.IH by (auto simp: rx_seq)
    from rx_match.more [OF this(2,3)] show "rx_match (RMany r) (c # s)" using uv(1) by simp
  next
    assume "rx_match (RMany r) (c # s)"
    then show "rx_match (deriv c (RMany r)) s"
      using many_ConsD [of r c s] RMany.IH by (auto simp: rx_seq)
  qed
qed auto

lemma accepts_match: "accepts r s \<longleftrightarrow> rx_match r s"
  by (induction s arbitrary: r) (simp_all add: nullable_match deriv_match)

section \<open>Derived forms\<close>

definition rx_plus :: "rx \<Rightarrow> rx" where "rx_plus r = RSeq r (RMany r)"
definition rx_opt :: "rx \<Rightarrow> rx" where "rx_opt r = RAlt REmpty r"

primrec rx_lit :: "string \<Rightarrow> rx" where
  "rx_lit [] = REmpty"
| "rx_lit (c # cs) = RSeq (RChar (\<lambda>d. d = c)) (rx_lit cs)"

primrec rx_any :: "rx list \<Rightarrow> rx" where
  "rx_any [] = RNever"
| "rx_any (r # rs) = RAlt r (rx_any rs)"

primrec rx_cat :: "rx list \<Rightarrow> rx" where
  "rx_cat [] = REmpty"
| "rx_cat (r # rs) = RSeq r (rx_cat rs)"

lemma lit_match [simp]: "rx_match (rx_lit w) s \<longleftrightarrow> s = w"
  by (induction w arbitrary: s) (auto simp: rx_seq)

lemma any_match: "rx_match (rx_any rs) s \<longleftrightarrow> (\<exists>r\<in>set rs. rx_match r s)"
  by (induction rs) auto

lemma any_lit: "rx_match (rx_any (map rx_lit ws)) s \<longleftrightarrow> s \<in> set ws"
  by (induction ws) (auto simp del: rx_lit.simps)

lemma many_concat: "rx_match (RMany r) s \<longleftrightarrow> (\<exists>ws. s = concat ws \<and> (\<forall>w\<in>set ws. rx_match r w))"
proof
  show "\<exists>ws. s = concat ws \<and> (\<forall>w\<in>set ws. rx_match r w)" if "rx_match (RMany r) s"
    using that
  proof (induction "RMany r" s rule: rx_match.induct)
    case stop
    show ?case by (intro exI [of _ "[]"]) simp
  next
    case (more s t)
    then obtain ws where "t = concat ws \<and> (\<forall>w\<in>set ws. rx_match r w)" by blast
    with more show ?case by (intro exI [of _ "s # ws"]) simp
  qed
next
  assume "\<exists>ws. s = concat ws \<and> (\<forall>w\<in>set ws. rx_match r w)"
  then obtain ws where "s = concat ws" "\<forall>w\<in>set ws. rx_match r w" by blast
  then show "rx_match (RMany r) s"
    by (induction ws arbitrary: s) (auto intro: rx_match.stop rx_match.more)
qed

lemma many_char [simp]: "rx_match (RMany (RChar p)) s \<longleftrightarrow> (\<forall>c\<in>set s. p c)"
proof -
  have "rx_match (RMany (RChar p)) s" if "\<forall>c\<in>set s. p c"
    using that rx_match.more [OF rx_match.char [of p]] by (induction s) (auto intro: rx_match.stop)
  moreover have "p c" if "rx_match (RMany (RChar p)) s" "c \<in> set s" for c
    using that unfolding many_concat rx_char by fastforce
  ultimately show ?thesis by blast
qed

lemma plus_char [simp]: "rx_match (rx_plus (RChar p)) s \<longleftrightarrow> s \<noteq> [] \<and> (\<forall>c\<in>set s. p c)"
proof
  assume "s \<noteq> [] \<and> (\<forall>c\<in>set s. p c)"
  then obtain c t where "s = [c] @ t" "p c" "\<forall>c\<in>set t. p c" by (cases s) auto
  then show "rx_match (rx_plus (RChar p)) s"
    unfolding rx_plus_def by (metis many_char rx_match.char rx_match.seq)
qed (auto simp: rx_plus_def rx_seq)

end
