(* ===== verification/Validation.thy ===== *)
theory Validation
  imports Regex
begin

text \<open>
  \<open>internal/validation/validation.go\<close>: the field checks and the request validators of the API.  A
  \<open>ValidationError\<close> is its list of field errors; \<open>Validate\<close> returns \<open>None\<close> where the code returns nil.
  Texts are UTF-8 byte strings, and the length checks count runes as \<open>utf8.RuneCountInString\<close> does.
\<close>

section \<open>Field errors\<close>

record field_error =
  fe_field :: string
  fe_message :: string
  fe_tag :: string

type_synonym validation_error = "field_error list"

definition field_error_text :: "field_error \<Rightarrow> string" where
  "field_error_text e = fe_field e @ '': '' @ fe_message e"

definition validation_error_text :: "validation_error \<Rightarrow> string" where
  "validation_error_text ve = ''validation failed: '' @ str_join ''; '' (map field_error_text ve)"

definition HasErrors :: "validation_error \<Rightarrow> bool" where
  "HasErrors ve \<longleftrightarrow> ve \<noteq> []"

definition Add :: "string \<Rightarrow> string \<Rightarrow> string \<Rightarrow> validation_error \<Rightarrow> validation_error" where
  "Add field message tag ve = ve @ [\<lparr>fe_field = field, fe_message = message, fe_tag = tag\<rparr>]"

section \<open>Counting runes\<close>

text \<open>
  The width of the rune at the head: the length of a well-formed UTF-8 sequence, and one for a byte
  that starts none.
\<close>

definition cont :: "nat \<Rightarrow> nat \<Rightarrow> char \<Rightarrow> bool" where
  "cont lo hi c \<longleftrightarrow> lo \<le> of_char c \<and> of_char c \<le> hi"

definition second_range :: "nat \<Rightarrow> nat \<times> nat" where
  "second_range b =
     (if b = 224 then (160, 191) else if b = 237 then (128, 159)
      else if b = 240 then (144, 191) else if b = 244 then (128, 143) else (128, 191))"

definition rune_size :: "nat \<Rightarrow> nat" where
  "rune_size b =
     (if 194 \<le> b \<and> b \<le> 223 then 2 else if 224 \<le> b \<and> b \<le> 239 then 3
      else if 240 \<le> b \<and> b \<le> 244 then 4 else 1)"

definition rune_width :: "char \<Rightarrow> string \<Rightarrow> nat" where
  "rune_width c cs =
     (let b = of_char c; n = rune_size b; tail = take (n - 1) cs in
      if length tail = n - 1 \<and> (case tail of [] \<Rightarrow> True
           | d # ds \<Rightarrow> cont (fst (second_range b)) (snd (second_range b)) d \<and> list_all (cont 128 191) ds)
      then n else 1)"

function RuneCountInString :: "string \<Rightarrow> nat" where
  "RuneCountInString [] = 0"
| "RuneCountInString (c # cs) = 1 + RuneCountInString (drop (rune_width c cs - 1) cs)"
  by pat_completeness auto
termination by (relation "measure length") auto

lemma RuneCount_le: "RuneCountInString s \<le> length s"
proof (induction s rule: RuneCountInString.induct)
  case (2 c cs)
  then show ?case by (simp add: le_diff_conv)
qed simp

definition ascii :: "string \<Rightarrow> bool" where
  "ascii s \<longleftrightarrow> (\<forall>c\<in>set s. (of_char c :: nat) < 128)"

lemma rune_width_ascii: "(of_char c :: nat) < 128 \<Longrightarrow> rune_width c cs = 1"
  by (simp add: rune_width_def rune_size_def Let_def)

lemma RuneCount_ascii: "ascii s \<Longrightarrow> RuneCountInString s = length s"
  by (induction s) (simp_all add: ascii_def rune_width_ascii)

lemma RuneCount_nil [simp]: "RuneCountInString s = 0 \<longleftrightarrow> s = []"
  by (cases s) simp_all

section \<open>Patterns\<close>

definition lower_alnum :: "char \<Rightarrow> bool" where
  "lower_alnum c \<longleftrightarrow> (CHR ''a'' \<le> c \<and> c \<le> CHR ''z'') \<or> (CHR ''0'' \<le> c \<and> c \<le> CHR ''9'')"

definition letter :: "char \<Rightarrow> bool" where
  "letter c \<longleftrightarrow> (CHR ''a'' \<le> c \<and> c \<le> CHR ''z'') \<or> (CHR ''A'' \<le> c \<and> c \<le> CHR ''Z'')"

definition alnum :: "char \<Rightarrow> bool" where
  "alnum c \<longleftrightarrow> letter c \<or> (CHR ''0'' \<le> c \<and> c \<le> CHR ''9'')"

definition rx_space :: "char \<Rightarrow> bool" where
  "rx_space c \<longleftrightarrow> c \<in> {CHR '' '', CHR 0x09, CHR 0x0A, CHR 0x0C, CHR 0x0D}"

definition slugPattern :: rx where
  "slugPattern = RSeq (rx_plus (RChar lower_alnum))
     (RMany (RSeq (RChar (\<lambda>c. c = CHR ''-'')) (rx_plus (RChar lower_alnum))))"

definition emailPattern :: rx where
  "emailPattern = rx_cat
     [rx_plus (RChar (\<lambda>c. alnum c \<or> c \<in> set ''._%+-'')), rx_lit ''@'',
      rx_plus (RChar (\<lambda>c. alnum c \<or> c \<in> set ''.-'')), rx_lit ''.'', RChar letter, rx_plus (RChar letter)]"

definition urlPattern :: rx where
  "urlPattern = rx_cat [rx_lit ''http'', rx_opt (rx_lit ''s''), rx_lit ''://'', rx_plus (RChar (\<lambda>c. \<not> rx_space c))]"

definition platformPattern :: rx where
  "platformPattern = rx_any (map rx_lit [''github'', ''gitlab'', ''bitbucket'', ''azure_devops''])"

definition rolePattern :: rx where
  "rolePattern = rx_any (map rx_lit [''owner'', ''admin'', ''member'', ''viewer''])"

definition branchPattern :: rx where
  "branchPattern = rx_plus (RChar (\<lambda>c. alnum c \<or> c \<in> set ''._/-''))"

section \<open>Field checks\<close>

definition Required :: "string \<Rightarrow> string \<Rightarrow> validation_error \<Rightarrow> validation_error" where
  "Required field v ve = (if trim_space v = [] then Add field (field @ '' is required'') ''required'' ve else ve)"

definition MinLength :: "string \<Rightarrow> string \<Rightarrow> nat \<Rightarrow> validation_error \<Rightarrow> validation_error" where
  "MinLength field v mn ve =
     (if RuneCountInString v < mn
      then Add field (field @ '' must be at least '' @ show_nat mn @ '' characters'') ''min'' ve else ve)"

definition MaxLength :: "string \<Rightarrow> string \<Rightarrow> nat \<Rightarrow> validation_error \<Rightarrow> validation_error" where
  "MaxLength field v mx ve =
     (if RuneCountInString v > mx
      then Add field (field @ '' must be at most '' @ show_nat mx @ '' characters'') ''max'' ve else ve)"

definition check_pattern :: "rx \<Rightarrow> string \<Rightarrow> string \<Rightarrow> string \<Rightarrow> string \<Rightarrow> validation_error \<Rightarrow> validation_error" where
  "check_pattern r message tag field v ve =
     (if v = [] then ve else if \<not> accepts r v then Add field (field @ message) tag ve else ve)"

definition Slug :: "string \<Rightarrow> string \<Rightarrow> validation_error \<Rightarrow> validation_error" where
  "Slug = check_pattern slugPattern '' must contain only lowercase letters, numbers, and hyphens'' ''slug''"

definition Email :: "string \<Rightarrow> string \<Rightarrow> validation_error \<Rightarrow> validation_error" where
  "Email = check_pattern emailPattern '' must be a valid email address'' ''email''"

definition URL :: "string \<Rightarrow> string \<Rightarrow> validation_error \<Rightarrow> validation_error" where
  "URL = check_pattern urlPattern '' must be a valid HTTP(S) URL'' ''url''"

definition Platform :: "string \<Rightarrow> string \<Rightarrow> validation_error \<Rightarrow> validation_error" where
  "Platform = check_pattern platformPattern '' must be one of: github, gitlab, bitbucket, azure_devops'' ''platform''"

definition Role :: "string \<Rightarrow> string \<Rightarrow> validation_error \<Rightarrow> validation_error" where
  "Role = check_pattern rolePattern '' must be one of: owner, admin, member, viewer'' ''role''"

definition Branch :: "string \<Rightarrow> string \<Rightarrow> validation_error \<Rightarrow> validation_error" where
  "Branch = check_pattern branchPattern '' contains invalid characters'' ''branch''"

definition PositiveInt :: "string \<Rightarrow> int \<Rightarrow> validation_error \<Rightarrow> validation_error" where
  "PositiveInt field v ve = (if v \<le> 0 then Add field (field @ '' must be a positive integer'') ''positive'' ve else ve)"

section \<open>Requests\<close>

record create_org_request =
  co_name :: string
  co_slug :: string

record 'm update_org_request =
  uo_name :: string
  uo_settings :: "'m option"

record update_user_request =
  uu_name :: string
  uu_email :: string
  uu_avatar :: string

record register_repo_request =
  rr_platform :: string
  rr_owner :: string
  rr_name :: string
  rr_branch :: string
  rr_clone :: string
  rr_external :: string
  rr_org :: string

record 'm update_repo_request =
  ur_branch :: string
  ur_config :: "'m option"

record invite_request =
  iv_email :: string
  iv_role :: string

record trigger_request =
  tr_repo :: string
  tr_pr :: int

text \<open>The end of every \<open>Validate\<close>.\<close>

definition verdict :: "validation_error \<Rightarrow> validation_error option" where
  "verdict ve = (if HasErrors ve then Some ve else None)"

definition validate_create_org :: "create_org_request \<Rightarrow> validation_error option" where
  "validate_create_org r = verdict
     (Slug ''slug'' (co_slug r) (MaxLength ''slug'' (co_slug r) 50 (MinLength ''slug'' (co_slug r) 2
       (Required ''slug'' (co_slug r) (MaxLength ''name'' (co_name r) 100 (MinLength ''name'' (co_name r) 2
         (Required ''name'' (co_name r) [])))))))"

definition validate_update_org :: "'m update_org_request \<Rightarrow> validation_error option" where
  "validate_update_org r = verdict
     (if uo_name r \<noteq> [] then MaxLength ''name'' (uo_name r) 100 (MinLength ''name'' (uo_name r) 2 []) else [])"

definition validate_update_user :: "update_user_request \<Rightarrow> validation_error option" where
  "validate_update_user r =
     (let v1 = (if uu_name r \<noteq> [] then MaxLength ''display_name'' (uu_name r) 100 (MinLength ''display_name'' (uu_name r) 1 []) else []);
          v2 = (if uu_email r \<noteq> [] then MaxLength ''email'' (uu_email r) 255 (Email ''email'' (uu_email r) v1) else v1);
          v3 = (if uu_avatar r \<noteq> [] then MaxLength ''avatar_url'' (uu_avatar r) 2048 (URL ''avatar_url'' (uu_avatar r) v2) else v2) in
      verdict v3)"

definition validate_register_repo :: "register_repo_request \<Rightarrow> validation_error option" where
  "validate_register_repo r =
     (let v1 = Platform ''platform'' (rr_platform r) (Required ''platform'' (rr_platform r) []);
          v2 = MaxLength ''owner'' (rr_owner r) 255 (MinLength ''owner'' (rr_owner r) 1 (Required ''owner'' (rr_owner r) v1));
          v3 = MaxLength ''name'' (rr_name r) 255 (MinLength ''name'' (rr_name r) 1 (Required ''name'' (rr_name r) v2));
          v4 = (if rr_branch r \<noteq> [] then MaxLength ''default_branch'' (rr_branch r) 100 (Branch ''default_branch'' (rr_branch r) v3) else v3);
          v5 = (if rr_clone r \<noteq> [] then MaxLength ''clone_url'' (rr_clone r) 2048 v4 else v4) in
      verdict v5)"

definition validate_update_repo :: "'m update_repo_request \<Rightarrow> validation_error option" where
  "validate_update_repo r = verdict
     (if ur_branch r \<noteq> [] then MaxLength ''default_branch'' (ur_branch r) 100 (Branch ''default_branch'' (ur_branch r) []) else [])"

definition validate_invite :: "invite_request \<Rightarrow> validation_error option" where
  "validate_invite r =
     (let v1 = Email ''email'' (iv_email r) (Required ''email'' (iv_email r) []) in
      verdict (if iv_role r \<noteq> [] then Role ''role'' (iv_role r) v1 else v1))"

definition validate_trigger :: "trigger_request \<Rightarrow> validation_error option" where
  "validate_trigger r = verdict (PositiveInt ''pr_number'' (tr_pr r) (Required ''repo_id'' (tr_repo r) []))"

section \<open>What the checks accept\<close>

text \<open>A chain of checks accepts if each does.\<close>

lemma Add_nil [simp]: "Add field message tag ve \<noteq> []" "HasErrors (Add field message tag ve)"
  by (simp_all add: Add_def HasErrors_def)

lemma checks_nil [simp]:
  "Required f v ve = [] \<longleftrightarrow> trim_space v \<noteq> [] \<and> ve = []"
  "MinLength f v n ve = [] \<longleftrightarrow> n \<le> RuneCountInString v \<and> ve = []"
  "MaxLength f v n ve = [] \<longleftrightarrow> RuneCountInString v \<le> n \<and> ve = []"
  "check_pattern r m t f v ve = [] \<longleftrightarrow> (v = [] \<or> rx_match r v) \<and> ve = []"
  "PositiveInt f i ve = [] \<longleftrightarrow> 0 < i \<and> ve = []"
  by (auto simp: Required_def MinLength_def MaxLength_def check_pattern_def PositiveInt_def accepts_match)

lemma verdict_none [simp]: "verdict ve = None \<longleftrightarrow> ve = []"
  by (simp add: verdict_def HasErrors_def)

lemmas pattern_checks = Slug_def Email_def URL_def Platform_def Role_def Branch_def

definition slug_text :: "string \<Rightarrow> bool" where
  "slug_text s \<longleftrightarrow> (\<exists>ws. ws \<noteq> [] \<and> (\<forall>w\<in>set ws. w \<noteq> [] \<and> (\<forall>c\<in>set w. lower_alnum c)) \<and> s = str_join ''-'' ws)"

lemma str_join_concat: "str_join [sep] (u # vs) = u @ concat (map ((#) sep) vs)"
  by (induction vs arbitrary: u) simp_all

lemma slug_match: "rx_match slugPattern s \<longleftrightarrow> slug_text s"
proof
  let ?w = "\<lambda>w. w \<noteq> [] \<and> (\<forall>c\<in>set w. lower_alnum c)"
  assume "rx_match slugPattern s"
  then obtain u vs where uv: "s = u @ concat vs" "?w u" "\<forall>v\<in>set vs. \<exists>w. v = CHR ''-'' # w \<and> ?w w"
    by (auto simp: slugPattern_def rx_seq many_concat)
  from uv(3) have "\<exists>ws. (\<forall>w\<in>set ws. ?w w) \<and> concat vs = concat (map ((#) CHR ''-'') ws)"
  proof (induction vs)
    case (Cons v vs)
    then obtain w ws where "v = CHR ''-'' # w" "?w w" "\<forall>w\<in>set ws. ?w w" "concat vs = concat (map ((#) CHR ''-'') ws)"
      by auto
    then show ?case by (intro exI [of _ "w # ws"]) simp
  qed (auto intro: exI [of _ "[]"])
  then obtain ws where ws: "\<forall>w\<in>set ws. ?w w" "concat vs = concat (map ((#) CHR ''-'') ws)" by blast
  then show "slug_text s"
    using uv unfolding slug_text_def by (intro exI [of _ "u # ws"]) (simp add: str_join_concat)
next
  assume "slug_text s"
  then obtain ws where ws: "ws \<noteq> []" "\<forall>w\<in>set ws. w \<noteq> [] \<and> (\<forall>c\<in>set w. lower_alnum c)" "s = str_join ''-'' ws"
    by (auto simp: slug_text_def)
  then obtain u vs where vs: "ws = u # vs" by (cases ws) auto
  have "rx_match (RMany (RSeq (RChar (\<lambda>c. c = CHR ''-'')) (rx_plus (RChar lower_alnum)))) (concat (map ((#) CHR ''-'') vs))"
    unfolding many_concat
    by (rule exI [of _ "map ((#) CHR ''-'') vs"]) (use ws(2) vs in \<open>auto simp: rx_seq Cons_eq_append_conv\<close>)
  then show "rx_match slugPattern s"
    using ws vs str_join_concat [of "CHR ''-''" u vs] unfolding slugPattern_def by (auto simp: rx_seq)
qed

lemma set_str_join: "set (str_join sep ws) \<subseteq> \<Union> (set ` set ws) \<union> set sep"
  by (induction sep ws rule: str_join.induct) auto

lemma trim_space_nil: "trim_space s = [] \<longleftrightarrow> (\<forall>c\<in>set s. is_space c)"
proof -
  have "trim_space s = [] \<longleftrightarrow> (\<forall>c\<in>set (dropWhile is_space s). is_space c)"
    by (simp add: trim_space_def dropWhile_eq_Nil_conv)
  also have "\<dots> \<longleftrightarrow> (\<forall>c\<in>set s. is_space c)"
    by (induction s) auto
  finally show ?thesis .
qed

lemma slug_char:
  assumes "lower_alnum c \<or> c = CHR ''-''"
  shows "(of_char c :: nat) < 128 \<and> \<not> is_space c"
proof
  have "\<not> lower_alnum d \<and> d \<noteq> CHR ''-''" if "is_space d" for d
    using that by (auto simp: is_space_def lower_alnum_def less_eq_char_def)
  then show "\<not> is_space c" using assms by blast
  show "(of_char c :: nat) < 128"
    using assms unfolding lower_alnum_def less_eq_char_def by (elim disjE conjE) simp_all
qed

lemma slug_text_facts:
  assumes "slug_text s"
  shows "ascii s \<and> trim_space s \<noteq> [] \<and> s \<noteq> []"
proof -
  obtain w ws where ws: "s = str_join ''-'' (w # ws)" "\<forall>v\<in>set (w # ws). v \<noteq> [] \<and> (\<forall>c\<in>set v. lower_alnum c)"
    using assms unfolding slug_text_def by (metis neq_Nil_conv)
  have chars: "lower_alnum c \<or> c = CHR ''-''" if "c \<in> set s" for c
    using that ws set_str_join [of "''-''" "w # ws"] by auto
  have "s \<noteq> []" using ws by (cases ws) auto
  moreover from this obtain c where "c \<in> set s" by (cases s) auto
  moreover have "ascii s" using slug_char chars by (auto simp: ascii_def)
  ultimately show ?thesis using slug_char chars by (auto simp: trim_space_nil)
qed

text \<open>
  An organisation is accepted exactly if its name has 2 to 100 characters and is not blank and its
  slug is a list of groups of lower-case letters and digits joined by single hyphens, of 2 to 50 bytes.
\<close>

lemma create_org_accepts:
  "validate_create_org r = None \<longleftrightarrow>
    trim_space (co_name r) \<noteq> [] \<and> RuneCountInString (co_name r) \<in> {2..100} \<and>
    slug_text (co_slug r) \<and> length (co_slug r) \<in> {2..50}"
  using slug_text_facts [of "co_slug r"] RuneCount_ascii [of "co_slug r"]
  by (auto simp: validate_create_org_def pattern_checks slug_match)

text \<open>
  The branch and the texts of an accepted registration are bounded, the platform is one of the four,
  and the branch has no blank or shell character; the clone URL is only bounded in length.
\<close>

lemma register_repo_accepts:
  "validate_register_repo r = None \<longleftrightarrow>
    trim_space (rr_platform r) \<noteq> [] \<and> rr_platform r \<in> {''github'', ''gitlab'', ''bitbucket'', ''azure_devops''} \<and>
    trim_space (rr_owner r) \<noteq> [] \<and> RuneCountInString (rr_owner r) \<le> 255 \<and>
    trim_space (rr_name r) \<noteq> [] \<and> RuneCountInString (rr_name r) \<le> 255 \<and>
    (\<forall>c\<in>set (rr_branch r). alnum c \<or> c \<in> set ''._/-'') \<and> RuneCountInString (rr_branch r) \<le> 100 \<and>
    RuneCountInString (rr_clone r) \<le> 2048"
proof -
  have pos: "Suc 0 \<le> RuneCountInString s" if "trim_space s \<noteq> []" for s
    using that RuneCount_nil [of s] by (cases "RuneCountInString s") (auto simp: trim_space_nil)
  have platform: "v = [] \<or> rx_match platformPattern v \<longleftrightarrow> v \<in> {[], ''github'', ''gitlab'', ''bitbucket'', ''azure_devops''}" for v
    unfolding platformPattern_def any_lit by simp
  have branch: "v = [] \<or> rx_match branchPattern v \<longleftrightarrow> (\<forall>c\<in>set v. alnum c \<or> c \<in> set ''._/-'')" for v
    unfolding branchPattern_def plus_char by auto
  have "validate_register_repo r = None \<longleftrightarrow>
      (rr_platform r = [] \<or> rx_match platformPattern (rr_platform r)) \<and> trim_space (rr_platform r) \<noteq> [] \<and>
      trim_space (rr_owner r) \<noteq> [] \<and> RuneCountInString (rr_owner r) \<le> 255 \<and>
      trim_space (rr_name r) \<noteq> [] \<and> RuneCountInString (rr_name r) \<le> 255 \<and>
      (rr_branch r = [] \<or> rx_match branchPattern (rr_branch r)) \<and> RuneCountInString (rr_branch r) \<le> 100 \<and>
      RuneCountInString (rr_clone r) \<le> 2048"
    using pos [of "rr_owner r"] pos [of "rr_name r"]
    by (cases "rr_branch r = []"; cases "rr_clone r = []"; simp add: validate_register_repo_def pattern_checks; blast)
  moreover have "trim_space [] = []" by (simp add: trim_space_def)
  ultimately show ?thesis unfolding platform branch by auto
qed

end
