(* ===== verification/AccountDB.thy ===== *)
theory AccountDB
  imports CrossRepoAPI Validation
begin

text \<open>
  The tables of users, organisations, repositories and reviews with the queries of
  \<open>internal/store\<close> on them (\<open>user_repo.go\<close>, \<open>org_repo.go\<close>, \<open>repo_repo.go\<close>, \<open>repo_member_repo.go\<close>,
  \<open>review_repo.go\<close>, \<open>webhook_repo.go\<close>) and \<open>internal/quota/enforcer.go\<close>.  Keys, references, the lengths
  of text columns and the ranges of integer columns are those of \<open>db/sql/initData.sql\<close>.  The state adds
  a script of database failures, the audit log, the review jobs started in goroutines and the commands
  given to the shell.  \<open>ORDER BY name\<close> sorts by a parameter, the rank of a text in the collation.
\<close>

section \<open>Tables\<close>

record account =
  us_id :: uuid
  us_email :: string
  us_name :: string
  us_avatar :: string
  us_vault :: string
  us_created :: time
  us_updated :: time

record identity =
  id_user :: uuid
  id_provider :: string
  id_external :: string
  id_access :: string
  id_refresh :: string
  id_scopes :: string
  id_expires :: "time option"

record organization =
  o_id :: uuid
  o_name :: string
  o_slug :: string
  o_plan :: string
  o_settings :: "string \<rightharpoonup> setting"
  o_created :: time
  o_updated :: time

record membership =
  m_org :: uuid
  m_user :: uuid
  m_role :: string
  m_joined :: time

record repository =
  rp_id :: uuid
  rp_org :: uuid
  rp_platform :: string
  rp_external :: string
  rp_owner :: string
  rp_name :: string
  rp_branch :: string
  rp_clone :: string
  rp_secret :: string
  rp_config :: "string \<rightharpoonup> setting"
  rp_indexed :: "time option"
  rp_created :: time
  rp_updated :: time

record repo_grant =
  rg_repo :: uuid
  rg_user :: uuid
  rg_role :: string
  rg_added :: time

datatype review_status = ReviewPending | ReviewInProgress | ReviewCompleted | ReviewFailed | ReviewCancelled

record review =
  rv_id :: uuid
  rv_repo :: uuid
  rv_by :: uuid
  rv_platform :: string
  rv_pr :: int
  rv_title :: string
  rv_author :: string
  rv_base :: string
  rv_head :: string
  rv_status :: review_status
  rv_files :: int
  rv_additions :: int
  rv_deletions :: int
  rv_meta :: "(string \<times> string) list"
  rv_created :: time
  rv_completed :: "time option"

record review_comment =
  rc_id :: uuid
  rc_review :: uuid
  rc_file :: string
  rc_line :: int
  rc_end :: "int option"
  rc_severity :: string
  rc_category :: string
  rc_title :: string
  rc_body :: string
  rc_suggestion :: string
  rc_posted :: bool
  rc_created :: time

record daily_usage =
  du_org :: uuid
  du_date :: int
  du_reviews :: int
  du_tokens :: int

record webhook_event =
  we_id :: uuid
  we_platform :: string
  we_type :: string
  we_repo :: "uuid option"
  we_payload :: string
  we_processed :: bool
  we_error :: string

record account_db =
  ac_users :: "account list"
  ac_identities :: "identity list"
  ac_orgs :: "organization list"
  ac_members :: "membership list"
  ac_repos :: "repository list"
  ac_grants :: "repo_grant list"
  ac_reviews :: "review list"
  ac_comments :: "review_comment list"
  ac_usage :: "daily_usage list"
  ac_webhooks :: "webhook_event list"

record audit_entry =
  au_user :: "uuid option"
  au_action :: string
  au_type :: string
  au_resource :: string

record review_job =
  jb_repo :: uuid
  jb_pr :: int
  jb_by :: uuid

record index_config =
  ix_max_kb :: int
  ix_chunk :: int
  ix_overlap :: int
  ix_ast :: bool
  ix_provider :: string
  ix_endpoint :: string
  ix_model :: string
  ix_dims :: int
  ix_key :: string
  ix_token :: string
  ix_action :: string
  ix_branch :: string

datatype index_call = IndexDelete uuid | IndexStart uuid string index_config

record account_state =
  a_db :: account_db
  a_audit :: "audit_entry list"
  a_jobs :: "review_job list"
  a_index :: "index_call list"
  a_shell :: "string list"
  a_faults :: "bool list"

type_synonym 'a aprog = "(account_state, 'a) state"

section \<open>Statements\<close>

definition a_io :: "bool aprog" where
  "a_io = State (\<lambda>s. case a_faults s of
       [] \<Rightarrow> (True, s)
     | b # bs \<Rightarrow> (\<not> b, s\<lparr>a_faults := bs\<rparr>))"

definition aselect :: "(account_db \<Rightarrow> 'a) \<Rightarrow> (store_error + 'a) aprog" where
  "aselect f = do { ok \<leftarrow> a_io; if \<not> ok then ret (Inl ErrStore) else gets (\<lambda>s. Inr (f (a_db s))) }"

definition afetch :: "(account_db \<Rightarrow> 'a option) \<Rightarrow> (store_error + 'a) aprog" where
  "afetch f = do {
     r \<leftarrow> aselect f;
     ret (case r of Inl e \<Rightarrow> Inl e | Inr None \<Rightarrow> Inl ErrNotFound | Inr (Some x) \<Rightarrow> Inr x) }"

definition aexec :: "(account_db \<Rightarrow> store_error + account_db) \<Rightarrow> (store_error + unit) aprog" where
  "aexec f = do {
     ok \<leftarrow> a_io;
     if \<not> ok then ret (Inl ErrStore)
     else State (\<lambda>s. case f (a_db s) of
         Inl e \<Rightarrow> (Inl e, s) | Inr d \<Rightarrow> (Inr (), s\<lparr>a_db := d\<rparr>)) }"

text \<open>A page with the total: two queries, the first counts.\<close>

definition apage :: "(account_db \<Rightarrow> 'a list) \<Rightarrow> int \<Rightarrow> int \<Rightarrow> (store_error + 'a list \<times> nat) aprog" where
  "apage f limit offset = do {
     c \<leftarrow> aselect (\<lambda>d. length (f d));
     case c of
       Inl e \<Rightarrow> ret (Inl e)
     | Inr cnt \<Rightarrow> do {
         r \<leftarrow> aselect (\<lambda>d. take (nat limit) (drop (nat offset) (f d)));
         ret (case r of Inl e \<Rightarrow> Inl e | Inr xs \<Rightarrow> Inr (xs, cnt)) } }"

definition varchar :: "nat \<Rightarrow> string \<Rightarrow> bool" where
  "varchar n s \<longleftrightarrow> RuneCountInString s \<le> n"

definition int4 :: "int \<Rightarrow> bool" where
  "int4 n \<longleftrightarrow> - (2 ^ 31) \<le> n \<and> n < 2 ^ 31"

section \<open>Users\<close>

definition insert_user :: "account \<Rightarrow> account_db \<Rightarrow> store_error + account_db" where
  [sql_defs]: "insert_user u d =
     (if us_id u \<in> set (map us_id (ac_users d)) \<or> us_email u \<in> set (map us_email (ac_users d)) \<or>
         us_vault u \<in> set (map us_vault (ac_users d)) then Inl ErrConflict
      else if \<not> varchar 255 (us_email u) \<or> \<not> varchar 255 (us_name u) \<or> \<not> varchar 64 (us_vault u) then Inl ErrStore
      else Inr (d\<lparr>ac_users := ac_users d @ [u]\<rparr>))"

text \<open>\<open>generateVaultToken\<close> is the random \<open>vault\<close>.\<close>

definition UserCreate :: "account \<Rightarrow> uuid \<Rightarrow> string \<Rightarrow> time \<Rightarrow> (store_error + account) aprog" where
  [op_defs]: "UserCreate u new_id vault now =
     (let u' = u\<lparr>us_id := new_id, us_vault := (if us_vault u = [] then vault else us_vault u), us_created := now, us_updated := now\<rparr>
      in do {
        r \<leftarrow> aexec (insert_user u');
        ret (case r of Inl e \<Rightarrow> Inl e | Inr _ \<Rightarrow> Inr u') })"

definition UserGetByID :: "uuid \<Rightarrow> (store_error + account) aprog" where
  [op_defs]: "UserGetByID i = afetch (\<lambda>d. List.find (\<lambda>u. us_id u = i) (ac_users d))"

definition GetByEmail :: "string \<Rightarrow> (store_error + account) aprog" where
  [op_defs]: "GetByEmail email = afetch (\<lambda>d. List.find (\<lambda>u. us_email u = email) (ac_users d))"

definition update_user :: "account \<Rightarrow> time \<Rightarrow> account_db \<Rightarrow> store_error + account_db" where
  [sql_defs]: "update_user u now d =
     (if us_id u \<notin> set (map us_id (ac_users d)) then Inl ErrNotFound
      else if \<exists>v\<in>set (ac_users d). us_email v = us_email u \<and> us_id v \<noteq> us_id u then Inl ErrConflict
      else if \<not> varchar 255 (us_email u) \<or> \<not> varchar 255 (us_name u) then Inl ErrStore
      else Inr (d\<lparr>ac_users := update_where (\<lambda>v. us_id v = us_id u)
        (\<lambda>v. v\<lparr>us_email := us_email u, us_name := us_name u, us_avatar := us_avatar u, us_updated := now\<rparr>) (ac_users d)\<rparr>))"

definition UserUpdate :: "account \<Rightarrow> time \<Rightarrow> (store_error + unit) aprog" where
  [op_defs]: "UserUpdate u now = aexec (update_user u now)"

definition upsert_identity :: "identity \<Rightarrow> account_db \<Rightarrow> store_error + account_db" where
  [sql_defs]: "upsert_identity x d =
     (let same = (\<lambda>y. id_provider y = id_provider x \<and> id_external y = id_external x) in
      if id_user x \<notin> set (map us_id (ac_users d)) \<or> \<not> varchar 50 (id_provider x) \<or> \<not> varchar 255 (id_external x) then Inl ErrStore
      else if \<exists>y\<in>set (ac_identities d). same y then
        Inr (d\<lparr>ac_identities := update_where same (\<lambda>y. x) (ac_identities d)\<rparr>)
      else Inr (d\<lparr>ac_identities := ac_identities d @ [x]\<rparr>))"

definition UpsertOAuthIdentity :: "identity \<Rightarrow> (store_error + unit) aprog" where
  [op_defs]: "UpsertOAuthIdentity x = aexec (upsert_identity x)"

definition GetOAuthIdentity :: "string \<Rightarrow> string \<Rightarrow> (store_error + identity) aprog" where
  [op_defs]: "GetOAuthIdentity provider ext =
     afetch (\<lambda>d. List.find (\<lambda>y. id_provider y = provider \<and> id_external y = ext) (ac_identities d))"

definition ListUsers :: "int \<Rightarrow> int \<Rightarrow> (store_error + account list \<times> nat) aprog" where
  [op_defs]: "ListUsers limit offset = apage (\<lambda>d. sort_key (\<lambda>u. - us_created u) (ac_users d)) limit offset"

section \<open>Organisations\<close>

definition insert_org :: "organization \<Rightarrow> account_db \<Rightarrow> store_error + account_db" where
  [sql_defs]: "insert_org g d =
     (if o_id g \<in> set (map o_id (ac_orgs d)) \<or> o_slug g \<in> set (map o_slug (ac_orgs d)) then Inl ErrConflict
      else if \<not> varchar 255 (o_name g) \<or> \<not> varchar 100 (o_slug g) \<or> \<not> varchar 50 (o_plan g) then Inl ErrStore
      else Inr (d\<lparr>ac_orgs := ac_orgs d @ [g]\<rparr>))"

definition OrgCreate :: "organization \<Rightarrow> uuid \<Rightarrow> time \<Rightarrow> (store_error + organization) aprog" where
  [op_defs]: "OrgCreate g new_id now =
     (let g' = g\<lparr>o_id := new_id, o_created := now, o_updated := now\<rparr> in do {
       r \<leftarrow> aexec (insert_org g');
       ret (case r of Inl e \<Rightarrow> Inl e | Inr _ \<Rightarrow> Inr g') })"

definition OrgGet :: "uuid \<Rightarrow> (store_error + organization) aprog" where
  [op_defs]: "OrgGet i = afetch (\<lambda>d. List.find (\<lambda>g. o_id g = i) (ac_orgs d))"

definition GetBySlug :: "string \<Rightarrow> (store_error + organization) aprog" where
  [op_defs]: "GetBySlug slug = afetch (\<lambda>d. List.find (\<lambda>g. o_slug g = slug) (ac_orgs d))"

definition update_org :: "organization \<Rightarrow> time \<Rightarrow> account_db \<Rightarrow> store_error + account_db" where
  [sql_defs]: "update_org g now d =
     (if o_id g \<notin> set (map o_id (ac_orgs d)) then Inl ErrNotFound
      else if \<exists>h\<in>set (ac_orgs d). o_slug h = o_slug g \<and> o_id h \<noteq> o_id g then Inl ErrConflict
      else if \<not> varchar 255 (o_name g) \<or> \<not> varchar 100 (o_slug g) \<or> \<not> varchar 50 (o_plan g) then Inl ErrStore
      else Inr (d\<lparr>ac_orgs := update_where (\<lambda>h. o_id h = o_id g)
        (\<lambda>h. h\<lparr>o_name := o_name g, o_slug := o_slug g, o_plan := o_plan g, o_settings := o_settings g, o_updated := now\<rparr>)
        (ac_orgs d)\<rparr>))"

definition OrgUpdate :: "organization \<Rightarrow> time \<Rightarrow> (store_error + unit) aprog" where
  [op_defs]: "OrgUpdate g now = aexec (update_org g now)"

text \<open>One row per membership of the user whose organisation exists.\<close>

definition orgs_of :: "account_db \<Rightarrow> uuid \<Rightarrow> organization list" where
  "orgs_of d u = concat (map (\<lambda>g. map (\<lambda>_. g) (filter (\<lambda>m. m_org m = o_id g \<and> m_user m = u) (ac_members d))) (ac_orgs d))"

definition OrgListByUser :: "(string \<Rightarrow> nat) \<Rightarrow> uuid \<Rightarrow> int \<Rightarrow> int \<Rightarrow> (store_error + organization list \<times> nat) aprog" where
  [op_defs]: "OrgListByUser rank u limit offset = apage (\<lambda>d. sort_key (\<lambda>g. rank (o_name g)) (orgs_of d u)) limit offset"

definition upsert_member :: "membership \<Rightarrow> account_db \<Rightarrow> store_error + account_db" where
  [sql_defs]: "upsert_member m d =
     (let same = (\<lambda>n. m_org n = m_org m \<and> m_user n = m_user m) in
      if \<not> varchar 50 (m_role m) then Inl ErrStore
      else if \<exists>n\<in>set (ac_members d). same n then
        Inr (d\<lparr>ac_members := update_where same (\<lambda>n. n\<lparr>m_role := m_role m\<rparr>) (ac_members d)\<rparr>)
      else if m_org m \<notin> set (map o_id (ac_orgs d)) \<or> m_user m \<notin> set (map us_id (ac_users d)) then Inl ErrStore
      else Inr (d\<lparr>ac_members := ac_members d @ [m]\<rparr>))"

definition AddMember :: "uuid \<Rightarrow> uuid \<Rightarrow> string \<Rightarrow> time \<Rightarrow> (store_error + unit) aprog" where
  [op_defs]: "AddMember g u role now = aexec (upsert_member \<lparr>m_org = g, m_user = u, m_role = role, m_joined = now\<rparr>)"

definition delete_member :: "uuid \<Rightarrow> uuid \<Rightarrow> account_db \<Rightarrow> store_error + account_db" where
  [sql_defs]: "delete_member g u d =
     (if \<exists>m\<in>set (ac_members d). m_org m = g \<and> m_user m = u
      then Inr (d\<lparr>ac_members := delete_where (\<lambda>m. m_org m = g \<and> m_user m = u) (ac_members d)\<rparr>)
      else Inl ErrNotFound)"

definition RemoveMember :: "uuid \<Rightarrow> uuid \<Rightarrow> (store_error + unit) aprog" where
  [op_defs]: "RemoveMember g u = aexec (delete_member g u)"

definition member_info :: "account_db \<Rightarrow> membership \<Rightarrow> (account \<times> membership) list" where
  "member_info d m = map (\<lambda>u. (u, m)) (filter (\<lambda>u. us_id u = m_user m) (ac_users d))"

definition ListMembers :: "uuid \<Rightarrow> int \<Rightarrow> int \<Rightarrow> (store_error + (account \<times> membership) list \<times> nat) aprog" where
  [op_defs]: "ListMembers g limit offset = do {
     c \<leftarrow> aselect (\<lambda>d. count_where (\<lambda>m. m_org m = g) (ac_members d));
     case c of
       Inl e \<Rightarrow> ret (Inl e)
     | Inr cnt \<Rightarrow> do {
         r \<leftarrow> aselect (\<lambda>d. take (nat limit) (drop (nat offset)
           (concat (map (member_info d) (sort_key m_joined (filter (\<lambda>m. m_org m = g) (ac_members d)))))));
         ret (case r of Inl e \<Rightarrow> Inl e | Inr xs \<Rightarrow> Inr (xs, cnt)) } }"

definition OrgGetMember :: "uuid \<Rightarrow> uuid \<Rightarrow> (store_error + membership) aprog" where
  [op_defs]: "OrgGetMember g u = afetch (\<lambda>d. List.find (\<lambda>m. m_org m = g \<and> m_user m = u) (ac_members d))"

section \<open>Repositories\<close>

definition insert_repo :: "repository \<Rightarrow> account_db \<Rightarrow> store_error + account_db" where
  [sql_defs]: "insert_repo r d =
     (if \<not> varchar 50 (rp_platform r) \<or> \<not> varchar 255 (rp_external r) \<or> \<not> varchar 255 (rp_owner r) \<or>
        \<not> varchar 255 (rp_name r) \<or> \<not> varchar 100 (rp_branch r) \<or> \<not> varchar 255 (rp_secret r) then Inl ErrStore
      else if rp_id r \<in> set (map rp_id (ac_repos d)) \<or>
        (rp_platform r, rp_external r) \<in> set (map (\<lambda>q. (rp_platform q, rp_external q)) (ac_repos d)) then Inl ErrConflict
      else if rp_org r \<notin> set (map o_id (ac_orgs d)) then Inl ErrStore
      else Inr (d\<lparr>ac_repos := ac_repos d @ [r]\<rparr>))"

definition RepoCreate :: "repository \<Rightarrow> uuid \<Rightarrow> time \<Rightarrow> (store_error + repository) aprog" where
  [op_defs]: "RepoCreate r new_id now =
     (let r' = r\<lparr>rp_id := new_id, rp_created := now, rp_updated := now\<rparr> in do {
       x \<leftarrow> aexec (insert_repo r');
       ret (case x of Inl e \<Rightarrow> Inl e | Inr _ \<Rightarrow> Inr r') })"

definition RepoGet :: "uuid \<Rightarrow> (store_error + repository) aprog" where
  [op_defs]: "RepoGet i = afetch (\<lambda>d. List.find (\<lambda>r. rp_id r = i) (ac_repos d))"

definition GetByPlatformAndExternalID :: "string \<Rightarrow> string \<Rightarrow> (store_error + repository) aprog" where
  [op_defs]: "GetByPlatformAndExternalID platform ext =
     afetch (\<lambda>d. List.find (\<lambda>r. rp_platform r = platform \<and> rp_external r = ext) (ac_repos d))"

definition RepoListByOrg :: "(string \<Rightarrow> nat) \<Rightarrow> uuid \<Rightarrow> int \<Rightarrow> int \<Rightarrow> (store_error + repository list \<times> nat) aprog" where
  [op_defs]: "RepoListByOrg rank g limit offset =
     apage (\<lambda>d. sort_key (\<lambda>r. rank (rp_name r)) (filter (\<lambda>r. rp_org r = g) (ac_repos d))) limit offset"

definition update_repo :: "repository \<Rightarrow> time \<Rightarrow> account_db \<Rightarrow> store_error + account_db" where
  [sql_defs]: "update_repo r now d =
     (if rp_id r \<notin> set (map rp_id (ac_repos d)) then Inl ErrNotFound
      else if \<not> varchar 50 (rp_platform r) \<or> \<not> varchar 255 (rp_owner r) \<or> \<not> varchar 255 (rp_name r) \<or>
        \<not> varchar 100 (rp_branch r) then Inl ErrStore
      else if \<exists>q\<in>set (ac_repos d). rp_id q \<noteq> rp_id r \<and> rp_platform q = rp_platform r \<and>
        rp_external q \<in> rp_external ` {p \<in> set (ac_repos d). rp_id p = rp_id r} then Inl ErrConflict
      else Inr (d\<lparr>ac_repos := update_where (\<lambda>q. rp_id q = rp_id r)
        (\<lambda>q. q\<lparr>rp_platform := rp_platform r, rp_owner := rp_owner r, rp_name := rp_name r, rp_branch := rp_branch r,
           rp_clone := rp_clone r, rp_config := rp_config r, rp_updated := now\<rparr>) (ac_repos d)\<rparr>))"

definition RepoUpdate :: "repository \<Rightarrow> time \<Rightarrow> (store_error + unit) aprog" where
  [op_defs]: "RepoUpdate r now = aexec (update_repo r now)"

text \<open>
  DELETE cascades to grants, reviews and their comments; a webhook event that names the repository blocks
  it.  The links of the repository, which go too, are rows of another model, \<open>CrossRepoSystem\<close>.
\<close>

definition delete_repo :: "uuid \<Rightarrow> account_db \<Rightarrow> store_error + account_db" where
  [sql_defs]: "delete_repo i d =
     (if i \<notin> set (map rp_id (ac_repos d)) then Inl ErrNotFound
      else if \<exists>e\<in>set (ac_webhooks d). we_repo e = Some i then Inl ErrStore
      else (let gone = set (map rv_id (filter (\<lambda>v. rv_repo v = i) (ac_reviews d))) in
        Inr (d\<lparr>ac_repos := delete_where (\<lambda>r. rp_id r = i) (ac_repos d),
          ac_grants := delete_where (\<lambda>g. rg_repo g = i) (ac_grants d),
          ac_reviews := delete_where (\<lambda>v. rv_repo v = i) (ac_reviews d),
          ac_comments := delete_where (\<lambda>c. rc_review c \<in> gone) (ac_comments d)\<rparr>)))"

definition RepoDelete :: "uuid \<Rightarrow> (store_error + unit) aprog" where
  [op_defs]: "RepoDelete i = aexec (delete_repo i)"

definition mark_indexed :: "uuid \<Rightarrow> time \<Rightarrow> account_db \<Rightarrow> store_error + account_db" where
  [sql_defs]: "mark_indexed i now d =
     (if i \<notin> set (map rp_id (ac_repos d)) then Inl ErrNotFound
      else Inr (d\<lparr>ac_repos := update_where (\<lambda>r. rp_id r = i) (\<lambda>r. r\<lparr>rp_indexed := Some now, rp_updated := now\<rparr>) (ac_repos d)\<rparr>))"

definition MarkIndexed :: "uuid \<Rightarrow> time \<Rightarrow> (store_error + unit) aprog" where
  [op_defs]: "MarkIndexed i now = aexec (mark_indexed i now)"

definition repos_of :: "account_db \<Rightarrow> uuid \<Rightarrow> repository list" where
  "repos_of d u = concat (map (\<lambda>r. map (\<lambda>_. r) (filter (\<lambda>m. m_org m = rp_org r \<and> m_user m = u) (ac_members d))) (ac_repos d))"

definition RepoListByUser :: "(string \<Rightarrow> nat) \<Rightarrow> uuid \<Rightarrow> int \<Rightarrow> int \<Rightarrow> (store_error + repository list \<times> nat) aprog" where
  [op_defs]: "RepoListByUser rank u limit offset = apage (\<lambda>d. sort_key (\<lambda>r. rank (rp_name r)) (repos_of d u)) limit offset"

definition upsert_grant :: "repo_grant \<Rightarrow> account_db \<Rightarrow> store_error + account_db" where
  [sql_defs]: "upsert_grant g d =
     (let same = (\<lambda>h. rg_repo h = rg_repo g \<and> rg_user h = rg_user g) in
      if \<not> varchar 50 (rg_role g) then Inl ErrStore
      else if \<exists>h\<in>set (ac_grants d). same h then
        Inr (d\<lparr>ac_grants := update_where same (\<lambda>h. h\<lparr>rg_role := rg_role g\<rparr>) (ac_grants d)\<rparr>)
      else if rg_repo g \<notin> set (map rp_id (ac_repos d)) \<or> rg_user g \<notin> set (map us_id (ac_users d)) then Inl ErrStore
      else Inr (d\<lparr>ac_grants := ac_grants d @ [g]\<rparr>))"

definition GrantAdd :: "uuid \<Rightarrow> uuid \<Rightarrow> string \<Rightarrow> time \<Rightarrow> (store_error + unit) aprog" where
  [op_defs]: "GrantAdd r u role now = aexec (upsert_grant \<lparr>rg_repo = r, rg_user = u, rg_role = role, rg_added = now\<rparr>)"

definition delete_grant :: "uuid \<Rightarrow> uuid \<Rightarrow> account_db \<Rightarrow> store_error + account_db" where
  [sql_defs]: "delete_grant r u d =
     (if \<exists>g\<in>set (ac_grants d). rg_repo g = r \<and> rg_user g = u
      then Inr (d\<lparr>ac_grants := delete_where (\<lambda>g. rg_repo g = r \<and> rg_user g = u) (ac_grants d)\<rparr>)
      else Inl ErrNotFound)"

definition GrantRemove :: "uuid \<Rightarrow> uuid \<Rightarrow> (store_error + unit) aprog" where
  [op_defs]: "GrantRemove r u = aexec (delete_grant r u)"

text \<open>The list query reads the column \<open>name\<close> of users, which no schema file creates: it always fails.\<close>

definition GrantList :: "uuid \<Rightarrow> (store_error + repo_grant list) aprog" where
  [op_defs]: "GrantList r = do { _ \<leftarrow> a_io; ret (Inl ErrStore) }"

definition GrantReposByUser :: "uuid \<Rightarrow> (store_error + uuid list) aprog" where
  [op_defs]: "GrantReposByUser u = aselect (\<lambda>d. map rg_repo (filter (\<lambda>g. rg_user g = u) (ac_grants d)))"

definition HasAccess :: "uuid \<Rightarrow> uuid \<Rightarrow> (store_error + bool) aprog" where
  [op_defs]: "HasAccess r u = do {
     c \<leftarrow> aselect (\<lambda>d. count_where (\<lambda>g. rg_repo g = r) (ac_grants d));
     case c of
       Inl e \<Rightarrow> ret (Inl e)
     | Inr n \<Rightarrow>
         if n = 0 then ret (Inr True)
         else do {
           c' \<leftarrow> aselect (\<lambda>d. count_where (\<lambda>g. rg_repo g = r \<and> rg_user g = u) (ac_grants d));
           ret (case c' of Inl e \<Rightarrow> Inl e | Inr k \<Rightarrow> Inr (0 < k)) } }"

section \<open>Reviews\<close>

definition insert_review :: "review \<Rightarrow> account_db \<Rightarrow> store_error + account_db" where
  [sql_defs]: "insert_review v d =
     (if rv_repo v \<notin> set (map rp_id (ac_repos d)) \<or> rv_by v \<notin> set (map us_id (ac_users d)) \<or>
         \<not> int4 (rv_pr v) \<or> \<not> int4 (rv_files v) \<or> \<not> int4 (rv_additions v) \<or> \<not> int4 (rv_deletions v) \<or>
         \<not> varchar 50 (rv_platform v) \<or> \<not> varchar 255 (rv_author v) \<or> \<not> varchar 255 (rv_base v) \<or>
         \<not> varchar 255 (rv_head v) then Inl ErrStore
      else if rv_id v \<in> set (map rv_id (ac_reviews d)) then Inl ErrConflict
      else Inr (d\<lparr>ac_reviews := ac_reviews d @ [v]\<rparr>))"

definition ReviewCreate :: "review \<Rightarrow> uuid \<Rightarrow> time \<Rightarrow> (store_error + review) aprog" where
  [op_defs]: "ReviewCreate v new_id now =
     (let v' = v\<lparr>rv_id := new_id, rv_created := now\<rparr> in do {
       r \<leftarrow> aexec (insert_review v');
       ret (case r of Inl e \<Rightarrow> Inl e | Inr _ \<Rightarrow> Inr v') })"

definition ReviewGet :: "uuid \<Rightarrow> (store_error + review) aprog" where
  [op_defs]: "ReviewGet i = afetch (\<lambda>d. List.find (\<lambda>v. rv_id v = i) (ac_reviews d))"

definition update_review ::
  "uuid \<Rightarrow> review_status \<Rightarrow> (string \<times> string) list option \<Rightarrow> time \<Rightarrow> account_db \<Rightarrow> store_error + account_db" where
  [sql_defs]: "update_review i st meta now d =
     (if i \<notin> set (map rv_id (ac_reviews d)) then Inl ErrNotFound
      else Inr (d\<lparr>ac_reviews := update_where (\<lambda>v. rv_id v = i)
        (\<lambda>v. v\<lparr>rv_status := st, rv_meta := (case meta of None \<Rightarrow> rv_meta v | Some x \<Rightarrow> x),
           rv_completed := (if st \<in> {ReviewCompleted, ReviewFailed} then Some now else rv_completed v)\<rparr>) (ac_reviews d)\<rparr>))"

definition ReviewUpdateStatus ::
  "uuid \<Rightarrow> review_status \<Rightarrow> (string \<times> string) list option \<Rightarrow> time \<Rightarrow> (store_error + unit) aprog" where
  [op_defs]: "ReviewUpdateStatus i st meta now = aexec (update_review i st meta now)"

definition ReviewListByRepo :: "uuid \<Rightarrow> int \<Rightarrow> int \<Rightarrow> (store_error + review list \<times> nat) aprog" where
  [op_defs]: "ReviewListByRepo r limit offset =
     apage (\<lambda>d. sort_key (\<lambda>v. - rv_created v) (filter (\<lambda>v. rv_repo v = r) (ac_reviews d))) limit offset"

definition reviews_of :: "account_db \<Rightarrow> uuid \<Rightarrow> review list" where
  "reviews_of d u = concat (map (\<lambda>v. concat (map (\<lambda>r. map (\<lambda>_. v)
     (filter (\<lambda>m. m_org m = rp_org r \<and> m_user m = u) (ac_members d))) (filter (\<lambda>r. rp_id r = rv_repo v) (ac_repos d)))) (ac_reviews d))"

definition ReviewListByUser :: "uuid \<Rightarrow> int \<Rightarrow> int \<Rightarrow> (store_error + review list \<times> nat) aprog" where
  [op_defs]: "ReviewListByUser u limit offset = apage (\<lambda>d. sort_key (\<lambda>v. - rv_created v) (reviews_of d u)) limit offset"

definition insert_review_comment :: "review_comment \<Rightarrow> account_db \<Rightarrow> store_error + account_db" where
  [sql_defs]: "insert_review_comment c d =
     (if rc_review c \<notin> set (map rv_id (ac_reviews d)) \<or> \<not> int4 (rc_line c) \<or>
         (case rc_end c of None \<Rightarrow> False | Some n \<Rightarrow> \<not> int4 n) \<or> \<not> varchar 20 (rc_severity c) \<or>
         \<not> varchar 50 (rc_category c) then Inl ErrStore
      else if rc_id c \<in> set (map rc_id (ac_comments d)) then Inl ErrConflict
      else Inr (d\<lparr>ac_comments := ac_comments d @ [c]\<rparr>))"

definition CreateComment :: "review_comment \<Rightarrow> uuid \<Rightarrow> time \<Rightarrow> (store_error + unit) aprog" where
  [op_defs]: "CreateComment c new_id now = aexec (insert_review_comment (c\<lparr>rc_id := new_id, rc_created := now\<rparr>))"

definition ListCommentsByReview :: "(string \<Rightarrow> nat) \<Rightarrow> uuid \<Rightarrow> (store_error + review_comment list) aprog" where
  [op_defs]: "ListCommentsByReview rank i = aselect (\<lambda>d. sort_key (\<lambda>c. rank (rc_file c)) (sort_key rc_line
     (filter (\<lambda>c. rc_review c = i) (ac_comments d))))"

section \<open>Webhook events\<close>

text \<open>The payload has to be a text that JSONB accepts.\<close>

definition insert_webhook :: "(string \<Rightarrow> bool) \<Rightarrow> webhook_event \<Rightarrow> account_db \<Rightarrow> store_error + account_db" where
  [sql_defs]: "insert_webhook jsonb e d =
     (if \<not> jsonb (we_payload e) \<or> \<not> varchar 50 (we_platform e) \<or> \<not> varchar 100 (we_type e) \<or>
         (case we_repo e of None \<Rightarrow> False | Some i \<Rightarrow> i \<notin> set (map rp_id (ac_repos d))) then Inl ErrStore
      else if we_id e \<in> set (map we_id (ac_webhooks d)) then Inl ErrConflict
      else Inr (d\<lparr>ac_webhooks := ac_webhooks d @ [e]\<rparr>))"

definition RecordEvent :: "(string \<Rightarrow> bool) \<Rightarrow> webhook_event \<Rightarrow> uuid \<Rightarrow> (store_error + unit) aprog" where
  [op_defs]: "RecordEvent jsonb e new_id = aexec (insert_webhook jsonb (e\<lparr>we_id := new_id\<rparr>))"

definition MarkProcessed :: "uuid \<Rightarrow> string \<Rightarrow> (store_error + unit) aprog" where
  [op_defs]: "MarkProcessed i msg = aexec (\<lambda>d. Inr (d\<lparr>ac_webhooks := update_where (\<lambda>e. we_id e = i)
     (\<lambda>e. e\<lparr>we_processed := True, we_error := msg\<rparr>) (ac_webhooks d)\<rparr>))"

end
