(* ===== verification/Quota.thy ===== *)
theory Quota
  imports AccountDB
begin

text \<open>
  \<open>internal/quota/enforcer.go\<close>: limits per plan, the checks against them and the usage counters.
  A limit of -1 means unlimited.
\<close>

record plan_limits =
  ReviewsPerDay :: int
  ReposPerOrg :: int
  MembersPerOrg :: int
  TokensPerDay :: int
  MaxFileSizeKB :: int
  IndexingEnabled :: bool

definition free_limits :: plan_limits where
  "free_limits = \<lparr>ReviewsPerDay = 10, ReposPerOrg = 5, MembersPerOrg = 5, TokensPerDay = 100000,
     MaxFileSizeKB = 256, IndexingEnabled = False\<rparr>"

definition pro_limits :: plan_limits where
  "pro_limits = \<lparr>ReviewsPerDay = 100, ReposPerOrg = 50, MembersPerOrg = 50, TokensPerDay = 1000000,
     MaxFileSizeKB = 512, IndexingEnabled = True\<rparr>"

definition enterprise_limits :: plan_limits where
  "enterprise_limits = \<lparr>ReviewsPerDay = - 1, ReposPerOrg = - 1, MembersPerOrg = - 1, TokensPerDay = - 1,
     MaxFileSizeKB = 1024, IndexingEnabled = True\<rparr>"

definition DefaultLimits :: "string \<rightharpoonup> plan_limits" where
  "DefaultLimits = [''free'' \<mapsto> free_limits, ''pro'' \<mapsto> pro_limits, ''enterprise'' \<mapsto> enterprise_limits]"

definition GetLimits :: "string \<Rightarrow> plan_limits" where
  "GetLimits plan = (case DefaultLimits plan of Some l \<Rightarrow> l | None \<Rightarrow> free_limits)"

record check_result =
  cr_allowed :: bool
  cr_reason :: string
  cr_limit :: int
  cr_current :: int
  cr_remaining :: int

definition unlimited_result :: check_result where
  "unlimited_result = \<lparr>cr_allowed = True, cr_reason = [], cr_limit = - 1, cr_current = 0, cr_remaining = - 1\<rparr>"

text \<open>The comparison shared by the three checks: \<open>what\<close> starts the reason.\<close>

definition compare_limit :: "string \<Rightarrow> string \<Rightarrow> int \<Rightarrow> int \<Rightarrow> check_result" where
  "compare_limit what plan limit cnt =
     (if cnt \<ge> limit then
        \<lparr>cr_allowed = False, cr_reason = what @ '' limit of '' @ show_int limit @ '' reached on '' @ plan @ '' plan'',
         cr_limit = limit, cr_current = cnt, cr_remaining = 0\<rparr>
      else \<lparr>cr_allowed = True, cr_reason = [], cr_limit = limit, cr_current = cnt,
         cr_remaining = (if limit - cnt < 0 then 0 else limit - cnt)\<rparr>)"

definition date_of :: "time \<Rightarrow> int" where
  "date_of now = now div day"

definition usage_row :: "account_db \<Rightarrow> uuid \<Rightarrow> int \<Rightarrow> daily_usage option" where
  "usage_row d g dt = List.find (\<lambda>u. du_org u = g \<and> du_date u = dt) (ac_usage d)"

definition CheckReviewQuota :: "uuid \<Rightarrow> string \<Rightarrow> time \<Rightarrow> check_result aprog" where
  [op_defs]: "CheckReviewQuota g plan now =
     (let limit = ReviewsPerDay (GetLimits plan) in
      if limit < 0 then ret unlimited_result
      else do {
        r \<leftarrow> afetch (\<lambda>d. usage_row d g (date_of now));
        ret (compare_limit ''daily review'' plan limit (case r of Inl _ \<Rightarrow> 0 | Inr u \<Rightarrow> du_reviews u)) })"

definition CheckRepoQuota :: "uuid \<Rightarrow> string \<Rightarrow> (store_error + check_result) aprog" where
  [op_defs]: "CheckRepoQuota g plan =
     (let limit = ReposPerOrg (GetLimits plan) in
      if limit < 0 then ret (Inr unlimited_result)
      else do {
        r \<leftarrow> aselect (\<lambda>d. count_where (\<lambda>q. rp_org q = g) (ac_repos d));
        ret (case r of Inl e \<Rightarrow> Inl e | Inr n \<Rightarrow> Inr (compare_limit ''repository'' plan limit (int n))) })"

definition CheckMemberQuota :: "uuid \<Rightarrow> string \<Rightarrow> (store_error + check_result) aprog" where
  [op_defs]: "CheckMemberQuota g plan =
     (let limit = MembersPerOrg (GetLimits plan) in
      if limit < 0 then ret (Inr unlimited_result)
      else do {
        r \<leftarrow> aselect (\<lambda>d. count_where (\<lambda>m. m_org m = g) (ac_members d));
        ret (case r of Inl e \<Rightarrow> Inl e | Inr n \<Rightarrow> Inr (compare_limit ''member'' plan limit (int n))) })"

definition CheckIndexingAllowed :: "string \<Rightarrow> check_result" where
  "CheckIndexingAllowed plan =
     (if \<not> IndexingEnabled (GetLimits plan) then
        \<lparr>cr_allowed = False, cr_reason = ''indexing is not available on '' @ plan @ '' plan'',
         cr_limit = 0, cr_current = 0, cr_remaining = 0\<rparr>
      else \<lparr>cr_allowed = True, cr_reason = [], cr_limit = 1, cr_current = 0, cr_remaining = 1\<rparr>)"

definition int8 :: "int \<Rightarrow> bool" where
  "int8 n \<longleftrightarrow> - (2 ^ 63) \<le> n \<and> n < 2 ^ 63"

definition add_usage :: "uuid \<Rightarrow> int \<Rightarrow> int \<Rightarrow> int \<Rightarrow> account_db \<Rightarrow> store_error + account_db" where
  [sql_defs]: "add_usage g dt reviews ntok d =
     (if \<not> int4 reviews \<or> \<not> int8 ntok then Inl ErrStore
      else case usage_row d g dt of
        None \<Rightarrow> if g \<notin> set (map o_id (ac_orgs d)) then Inl ErrStore
          else Inr (d\<lparr>ac_usage := ac_usage d @ [\<lparr>du_org = g, du_date = dt, du_reviews = reviews, du_tokens = ntok\<rparr>]\<rparr>)
      | Some u \<Rightarrow> if \<not> int4 (du_reviews u + reviews) \<or> \<not> int8 (du_tokens u + ntok) then Inl ErrStore
          else Inr (d\<lparr>ac_usage := update_where (\<lambda>v. du_org v = g \<and> du_date v = dt)
            (\<lambda>v. v\<lparr>du_reviews := du_reviews v + reviews, du_tokens := du_tokens v + ntok\<rparr>) (ac_usage d)\<rparr>))"

definition IncrementUsage :: "uuid \<Rightarrow> int \<Rightarrow> int \<Rightarrow> time \<Rightarrow> (store_error + unit) aprog" where
  [op_defs]: "IncrementUsage g reviews ntok now = aexec (add_usage g (date_of now) reviews ntok)"

record usage =
  ReviewsToday :: int
  TokensToday :: int
  RepoCount :: int
  MemberCount :: int

definition or_zero :: "(store_error + nat) aprog \<Rightarrow> int aprog" where
  "or_zero m = do { r \<leftarrow> m; ret (case r of Inl _ \<Rightarrow> 0 | Inr n \<Rightarrow> int n) }"

definition GetUsage :: "uuid \<Rightarrow> time \<Rightarrow> usage aprog" where
  [op_defs]: "GetUsage g now = do {
     r \<leftarrow> afetch (\<lambda>d. usage_row d g (date_of now));
     repos_n \<leftarrow> or_zero (aselect (\<lambda>d. count_where (\<lambda>q. rp_org q = g) (ac_repos d)));
     members_n \<leftarrow> or_zero (aselect (\<lambda>d. count_where (\<lambda>m. m_org m = g) (ac_members d)));
     ret (case r of
         Inl _ \<Rightarrow> \<lparr>ReviewsToday = 0, TokensToday = 0, RepoCount = repos_n, MemberCount = members_n\<rparr>
       | Inr u \<Rightarrow> \<lparr>ReviewsToday = du_reviews u, TokensToday = du_tokens u, RepoCount = repos_n, MemberCount = members_n\<rparr>) }"

section \<open>Facts\<close>

lemma GetLimits_cases:
  "GetLimits plan = (if plan = ''pro'' then pro_limits else if plan = ''enterprise'' then enterprise_limits else free_limits)"
  by (simp add: GetLimits_def DefaultLimits_def)

lemma compare_limit_iff:
  "cr_allowed (compare_limit what plan limit cnt) \<longleftrightarrow> cnt < limit"
  "cr_remaining (compare_limit what plan limit cnt) = max 0 (limit - cnt)"
  by (auto simp: compare_limit_def)

end
