(* ===== verification/AccountAPI.thy ===== *)
theory AccountAPI
  imports Quota
begin

text \<open>
  \<open>internal/api/handlers.go\<close>: the endpoints for the user, organisations, their members, repositories,
  grants on repositories, reviews and pages of them.  The claims are those the middleware put into the
  context, if any.  A response is a status code with the value the handler encodes.  The random bytes,
  new identifiers and the clock are arguments; the engine behind the index service and the shell are
  parameters.
\<close>

section \<open>Parameters\<close>

record jwt_claims =
  jc_user :: uuid
  jc_email :: string
  jc_name :: string
  jc_role :: string
  jc_org :: uuid
  jc_type :: string
  jc_issuer :: string
  jc_subject :: string
  jc_issued :: time
  jc_expires :: time
  jc_id :: uuid

record embed_config =
  eb_builtin :: bool
  eb_builtin_model :: string
  eb_provider :: string
  eb_endpoint :: string
  eb_model :: string
  eb_dims :: int
  eb_key :: string

definition DefaultEmbeddingConfig :: embed_config where
  "DefaultEmbeddingConfig = \<lparr>eb_builtin = True, eb_builtin_model = ''bge-m3'', eb_provider = [], eb_endpoint = [],
     eb_model = [], eb_dims = 1024, eb_key = []\<rparr>"

definition builtinModelDimensions :: "string \<Rightarrow> int" where
  "builtinModelDimensions name = (if name = ''minilm'' then 384 else 1024)"

record api_cfg =
  cf_us :: "uuid \<Rightarrow> string"
  cf_parse :: "string \<Rightarrow> uuid option"
  cf_rank :: "string \<Rightarrow> nat"
  cf_quota :: bool
  cf_vault :: "(uuid \<Rightarrow> string \<Rightarrow> string) option"
  cf_shell :: "string list \<Rightarrow> string \<Rightarrow> string option"
  cf_url_path :: "string \<Rightarrow> string option"
  cf_embed :: embed_config

definition user_of :: "jwt_claims option \<Rightarrow> uuid option" where
  "user_of cl = map_option jc_user cl"

definition or_code :: "(store_error \<Rightarrow> nat) \<Rightarrow> (store_error + 'a) aprog \<Rightarrow> ('a \<Rightarrow> 'b resp aprog) \<Rightarrow> 'b resp aprog" where
  "or_code status m f = do { r \<leftarrow> m; case r of Inl e \<Rightarrow> ret (Fail (status e)) | Inr x \<Rightarrow> f x }"

definition not_found :: "store_error \<Rightarrow> nat" where
  "not_found e = (case e of ErrNotFound \<Rightarrow> 404 | _ \<Rightarrow> 500)"

text \<open>\<open>writeValidationError\<close> answers 422.\<close>

definition validated :: "validation_error option \<Rightarrow> 'b resp aprog \<Rightarrow> 'b resp aprog" where
  "validated ve k = (case ve of Some _ \<Rightarrow> ret (Fail 422) | None \<Rightarrow> k)"

text \<open>The entry is written by a goroutine whose failure is only logged.\<close>

definition LogRequest :: "jwt_claims option \<Rightarrow> string \<Rightarrow> string \<Rightarrow> string \<Rightarrow> unit aprog" where
  "LogRequest cl action ty res = modify (\<lambda>s. s\<lparr>a_audit := a_audit s @
     [\<lparr>au_user = user_of cl, au_action = action, au_type = ty, au_resource = res\<rparr>]\<rparr>)"

text \<open>Limit and offset of a page.\<close>

definition parsePagination :: "string \<Rightarrow> string \<Rightarrow> int \<times> int" where
  "parsePagination l o' =
     ((case atoi l of Some n \<Rightarrow> if 0 < n \<and> n \<le> 100 then n else 20 | None \<Rightarrow> 20),
      (case atoi o' of Some n \<Rightarrow> if 0 \<le> n then n else 0 | None \<Rightarrow> 0))"

record 'a page =
  pg_data :: "'a list"
  pg_total :: nat
  pg_limit :: int
  pg_offset :: int
  pg_more :: bool

definition page_of :: "int \<times> int \<Rightarrow> 'a list \<times> nat \<Rightarrow> 'a page" where
  "page_of lo r = \<lparr>pg_data = fst r, pg_total = snd r, pg_limit = fst lo, pg_offset = snd lo,
     pg_more = (wrap64 (snd lo + fst lo) < int (snd r))\<rparr>"

section \<open>User\<close>

definition GetCurrentUser :: "jwt_claims option \<Rightarrow> account resp aprog" where
  [op_defs]: "GetCurrentUser cl = with_user (user_of cl) (\<lambda>i. or_code (\<lambda>_. 404) (UserGetByID i) (\<lambda>u. ret (Reply 200 u)))"

definition UpdateCurrentUser :: "jwt_claims option \<Rightarrow> update_user_request option \<Rightarrow> time \<Rightarrow> account resp aprog" where
  [op_defs]: "UpdateCurrentUser cl body now = with_user (user_of cl) (\<lambda>i. with_body body (\<lambda>req.
     validated (validate_update_user req) (or_code (\<lambda>_. 404) (UserGetByID i) (\<lambda>u0.
       (let u1 = (if uu_name req \<noteq> [] then u0\<lparr>us_name := uu_name req\<rparr> else u0);
            u2 = (if uu_email req \<noteq> [] then u1\<lparr>us_email := uu_email req\<rparr> else u1);
            u3 = (if uu_avatar req \<noteq> [] then u2\<lparr>us_avatar := uu_avatar req\<rparr> else u2) in
        or_code (\<lambda>_. 500) (UserUpdate u3 now) (\<lambda>_. ret (Reply 200 (u3\<lparr>us_updated := now\<rparr>))))))))"

section \<open>Organisations\<close>

definition ListOrgs :: "api_cfg \<Rightarrow> jwt_claims option \<Rightarrow> string \<Rightarrow> string \<Rightarrow> organization page resp aprog" where
  [op_defs]: "ListOrgs cfg cl limit offset = with_user (user_of cl) (\<lambda>i.
     (let lo = parsePagination limit offset in
      or_code (\<lambda>_. 500) (OrgListByUser (cf_rank cfg) i (fst lo) (snd lo)) (\<lambda>r. ret (Reply 200 (page_of lo r)))))"

definition new_org :: "string \<Rightarrow> string \<Rightarrow> organization" where
  "new_org name slug = \<lparr>o_id = uuid_nil, o_name = name, o_slug = slug, o_plan = ''free'', o_settings = Map.empty,
     o_created = 0, o_updated = 0\<rparr>"

definition CreateOrg :: "api_cfg \<Rightarrow> jwt_claims option \<Rightarrow> create_org_request option \<Rightarrow> uuid \<Rightarrow> time \<Rightarrow> organization resp aprog" where
  [op_defs]: "CreateOrg cfg cl body new_id now = with_user (user_of cl) (\<lambda>i. with_body body (\<lambda>req.
     validated (validate_create_org req) (or_code (\<lambda>_. 500) (OrgCreate (new_org (co_name req) (co_slug req)) new_id now) (\<lambda>g. do {
       _ \<leftarrow> AddMember (o_id g) i ''owner'' now;
       _ \<leftarrow> LogRequest cl ''org.create'' ''org'' (cf_us cfg (o_id g));
       ret (Reply 201 g) }))))"

definition GetOrg :: "uuid_text \<Rightarrow> organization resp aprog" where
  [op_defs]: "GetOrg x = with_id x (\<lambda>g. or_code not_found (OrgGet g) (\<lambda>r. ret (Reply 200 r)))"

definition UpdateOrg ::
  "uuid_text \<Rightarrow> (string \<rightharpoonup> setting) update_org_request option \<Rightarrow> time \<Rightarrow> organization resp aprog" where
  [op_defs]: "UpdateOrg x body now = with_id x (\<lambda>g. or_code not_found (OrgGet g) (\<lambda>r0. with_body body (\<lambda>req.
     validated (validate_update_org req)
       (let r1 = (if uo_name req \<noteq> [] then r0\<lparr>o_name := uo_name req\<rparr> else r0);
            r2 = (case uo_settings req of None \<Rightarrow> r1 | Some m \<Rightarrow> r1\<lparr>o_settings := m\<rparr>) in
        or_code (\<lambda>_. 500) (OrgUpdate r2 now) (\<lambda>_. ret (Reply 200 (r2\<lparr>o_updated := now\<rparr>)))))))"

definition ListOrgMembers :: "uuid_text \<Rightarrow> string \<Rightarrow> string \<Rightarrow> ((account \<times> membership) list \<times> nat) resp aprog" where
  [op_defs]: "ListOrgMembers x limit offset = with_id x (\<lambda>g.
     (let lo = parsePagination limit offset in
      or_code (\<lambda>_. 500) (ListMembers g (fst lo) (snd lo)) (\<lambda>r. ret (Reply 200 r))))"

text \<open>A quota check: a failing query lets the request pass.\<close>

definition org_quota ::
  "api_cfg \<Rightarrow> uuid \<Rightarrow> (organization \<Rightarrow> (store_error + check_result) aprog) \<Rightarrow> 'b resp aprog \<Rightarrow> 'b resp aprog" where
  "org_quota cfg g check k =
     (if \<not> cf_quota cfg then k
      else do {
        r \<leftarrow> OrgGet g;
        case r of
          Inl _ \<Rightarrow> k
        | Inr row \<Rightarrow> do {
            q \<leftarrow> check row;
            case q of Inl _ \<Rightarrow> k | Inr res \<Rightarrow> if cr_allowed res then k else ret (Fail 403) } })"

definition InviteOrgMember ::
  "api_cfg \<Rightarrow> jwt_claims option \<Rightarrow> uuid_text \<Rightarrow> invite_request option \<Rightarrow> time \<Rightarrow> uuid resp aprog" where
  [op_defs]: "InviteOrgMember cfg cl x body now = with_id x (\<lambda>g. with_body body (\<lambda>req.
     validated (validate_invite req)
       (let role = (if iv_role req = [] then ''member'' else iv_role req) in
        org_quota cfg g (\<lambda>row. CheckMemberQuota g (o_plan row))
          (or_code not_found (GetByEmail (iv_email req)) (\<lambda>u.
            or_code (\<lambda>_. 500) (AddMember g (us_id u) role now) (\<lambda>_. do {
              _ \<leftarrow> LogRequest cl ''org.member_invite'' ''org'' (cf_us cfg g);
              ret (Reply 200 (us_id u)) }))))))"

definition RemoveOrgMember :: "api_cfg \<Rightarrow> jwt_claims option \<Rightarrow> uuid_text \<Rightarrow> uuid_text \<Rightarrow> unit resp aprog" where
  [op_defs]: "RemoveOrgMember cfg cl x y = with_id x (\<lambda>g. with_id y (\<lambda>u.
     or_code not_found (RemoveMember g u) (\<lambda>_. do {
       _ \<leftarrow> LogRequest cl ''org.member_remove'' ''org'' (cf_us cfg g);
       ret (Reply 200 ()) })))"

section \<open>Repositories\<close>

definition with_claims :: "jwt_claims option \<Rightarrow> (jwt_claims \<Rightarrow> 'b resp aprog) \<Rightarrow> 'b resp aprog" where
  "with_claims cl f = (case cl of None \<Rightarrow> ret (Fail 401) | Some c \<Rightarrow> f c)"

definition ListRepos ::
  "api_cfg \<Rightarrow> jwt_claims option \<Rightarrow> string \<Rightarrow> string \<Rightarrow> string \<Rightarrow> repository page resp aprog" where
  [op_defs]: "ListRepos cfg cl org_text limit offset = with_claims cl (\<lambda>c.
     (let lo = parsePagination limit offset;
          target = (if jc_org c \<noteq> uuid_nil then Some (jc_org c)
            else if org_text = [] then Some uuid_nil else cf_parse cfg org_text) in
      case target of
        None \<Rightarrow> ret (Fail 400)
      | Some g \<Rightarrow> or_code (\<lambda>_. 500)
          (if g \<noteq> uuid_nil then RepoListByOrg (cf_rank cfg) g (fst lo) (snd lo)
           else RepoListByUser (cf_rank cfg) (jc_user c) (fst lo) (snd lo))
          (\<lambda>r. ret (Reply 200 (page_of lo r)))))"

text \<open>\<open>strings.Split\<close> at a one-byte separator, and \<open>strings.TrimSuffix\<close>.\<close>

fun split_on :: "char \<Rightarrow> string \<Rightarrow> string list" where
  "split_on c [] = [[]]"
| "split_on c (x # xs) = (if x = c then [] # split_on c xs
     else (case split_on c xs of [] \<Rightarrow> [[x]] | w # ws \<Rightarrow> (x # w) # ws))"

definition trim_suffix :: "string \<Rightarrow> string \<Rightarrow> string" where
  "trim_suffix suf s = (if has_suffix s suf then take (length s - length suf) s else s)"

definition trim_char :: "char \<Rightarrow> string \<Rightarrow> string" where
  "trim_char c s = rev (dropWhile (\<lambda>x. x = c) (rev (dropWhile (\<lambda>x. x = c) s)))"

definition last_two :: "string list \<Rightarrow> (string \<times> string) option" where
  "last_two parts = (if length parts \<ge> 2 then Some (parts ! (length parts - 2), parts ! (length parts - 1)) else None)"

definition after_last :: "char \<Rightarrow> string \<Rightarrow> string" where
  "after_last c s = rev (takeWhile (\<lambda>x. x \<noteq> c) (rev s))"

text \<open>\<open>net/url.Parse\<close> is a parameter: the decoded path of an accepted URL.\<close>

definition parseRepoURL :: "(string \<Rightarrow> string option) \<Rightarrow> string \<Rightarrow> (string \<times> string) option" where
  "parseRepoURL url_path raw =
     (let ssh = (if str_contains raw '':'' \<and> \<not> str_contains raw ''://''
            then last_two (split_on CHR ''/'' (trim_suffix ''.git'' (after_last CHR '':'' raw))) else None) in
      case ssh of
        Some r \<Rightarrow> Some r
      | None \<Rightarrow> (case url_path raw of
          None \<Rightarrow> None
        | Some p \<Rightarrow> (let parts = split_on CHR ''/'' (trim_suffix ''.git'' (trim_char CHR ''/'' p)) in
            if length parts \<ge> 3 \<and> parts ! 0 = ''scm'' then Some (parts ! 1, parts ! 2) else last_two parts)))"

definition fill_owner :: "(string \<Rightarrow> string option) \<Rightarrow> register_repo_request \<Rightarrow> register_repo_request" where
  "fill_owner url_path req =
     (if rr_clone req \<noteq> [] \<and> (rr_owner req = [] \<or> rr_name req = []) then
        (case parseRepoURL url_path (rr_clone req) of
          None \<Rightarrow> req
        | Some (owner, name) \<Rightarrow> req\<lparr>rr_owner := (if rr_owner req = [] then owner else rr_owner req),
            rr_name := (if rr_name req = [] then name else rr_name req)\<rparr>)
      else req)"

definition email_slug :: "string \<Rightarrow> string" where
  "email_slug email = map (\<lambda>c. if c = CHR ''@'' \<or> c = CHR ''.'' then CHR ''-'' else c) (to_lower email)"

text \<open>The personal organisation: the first of the user's, or a new one.\<close>

definition personal_org :: "api_cfg \<Rightarrow> jwt_claims \<Rightarrow> uuid \<Rightarrow> time \<Rightarrow> (store_error + uuid) aprog" where
  [op_defs]: "personal_org cfg c new_org_id now = do {
     r \<leftarrow> OrgListByUser (cf_rank cfg) (jc_user c) 1 0;
     case r of
       Inr (g # _, _) \<Rightarrow> ret (Inr (o_id g))
     | _ \<Rightarrow> do {
         x \<leftarrow> OrgCreate (new_org (jc_email c) (email_slug (jc_email c))) new_org_id now;
         case x of
           Inl e \<Rightarrow> ret (Inl e)
         | Inr g \<Rightarrow> do { _ \<leftarrow> AddMember (o_id g) (jc_user c) ''owner'' now; ret (Inr (o_id g)) } } }"

definition repo_of_request :: "register_repo_request \<Rightarrow> uuid \<Rightarrow> string \<Rightarrow> repository" where
  "repo_of_request req g secret = \<lparr>rp_id = uuid_nil, rp_org = g, rp_platform = rr_platform req,
     rp_external = (if rr_external req = [] then rr_owner req @ ''/'' @ rr_name req else rr_external req),
     rp_owner = rr_owner req, rp_name = rr_name req, rp_branch = (if rr_branch req = [] then ''main'' else rr_branch req),
     rp_clone = rr_clone req, rp_secret = secret, rp_config = Map.empty, rp_indexed = None, rp_created = 0, rp_updated = 0\<rparr>"

text \<open>\<open>secret\<close> is the hexadecimal text of 32 random bytes.\<close>

definition create_repo ::
  "api_cfg \<Rightarrow> jwt_claims \<Rightarrow> register_repo_request \<Rightarrow> uuid \<Rightarrow> string \<Rightarrow> uuid \<Rightarrow> time \<Rightarrow> repository resp aprog" where
  [op_defs]: "create_repo cfg c req g secret new_id now =
     (let k = or_code (\<lambda>e. if e = ErrConflict then 409 else 500) (RepoCreate (repo_of_request req g secret) new_id now) (\<lambda>r. do {
            _ \<leftarrow> LogRequest (Some c) ''repo.create'' ''repo'' (cf_us cfg (rp_id r));
            ret (Reply 201 r) }) in
      if g = uuid_nil then k else org_quota cfg g (\<lambda>row. CheckRepoQuota g (o_plan row)) k)"

definition RegisterRepo ::
  "api_cfg \<Rightarrow> jwt_claims option \<Rightarrow> register_repo_request option \<Rightarrow> string \<Rightarrow> uuid \<Rightarrow> uuid \<Rightarrow> time \<Rightarrow> repository resp aprog" where
  [op_defs]: "RegisterRepo cfg cl body secret new_org_id new_id now = with_claims cl (\<lambda>c. with_body body (\<lambda>req0.
     (let req = fill_owner (cf_url_path cfg) req0 in
      validated (validate_register_repo req)
        (case (if rr_org req = [] then Some (jc_org c) else cf_parse cfg (rr_org req)) of
          None \<Rightarrow> ret (Fail 400)
        | Some g \<Rightarrow>
            if g \<noteq> uuid_nil then create_repo cfg c req g secret new_id now
            else or_code (\<lambda>_. 500) (personal_org cfg c new_org_id now) (\<lambda>g'.
              create_repo cfg c req g' secret new_id now)))))"

definition GetRepo :: "uuid_text \<Rightarrow> repository resp aprog" where
  [op_defs]: "GetRepo x = with_id x (\<lambda>i. or_code not_found (RepoGet i) (\<lambda>r. ret (Reply 200 r)))"

definition UpdateRepo ::
  "uuid_text \<Rightarrow> (string \<rightharpoonup> setting) update_repo_request option \<Rightarrow> time \<Rightarrow> repository resp aprog" where
  [op_defs]: "UpdateRepo x body now = with_id x (\<lambda>i. or_code not_found (RepoGet i) (\<lambda>r0. with_body body (\<lambda>req.
     validated (validate_update_repo req)
       (let r1 = (if ur_branch req \<noteq> [] then r0\<lparr>rp_branch := ur_branch req\<rparr> else r0);
            r2 = (case ur_config req of None \<Rightarrow> r1 | Some m \<Rightarrow> r1\<lparr>rp_config := m\<rparr>) in
        or_code (\<lambda>_. 500) (RepoUpdate r2 now) (\<lambda>_. ret (Reply 200 (r2\<lparr>rp_updated := now\<rparr>)))))))"

definition DeleteRepo :: "api_cfg \<Rightarrow> jwt_claims option \<Rightarrow> uuid_text \<Rightarrow> unit resp aprog" where
  [op_defs]: "DeleteRepo cfg cl x = with_id x (\<lambda>i. do {
     _ \<leftarrow> modify (\<lambda>s. s\<lparr>a_index := a_index s @ [IndexDelete i]\<rparr>);
     or_code not_found (RepoDelete i) (\<lambda>_. do {
       _ \<leftarrow> LogRequest cl ''repo.delete'' ''repo'' (cf_us cfg i);
       ret (Reply 200 ()) }) })"

section \<open>Grants on a repository\<close>

definition ListRepoMembers :: "uuid_text \<Rightarrow> repo_grant list resp aprog" where
  [op_defs]: "ListRepoMembers x = with_id x (\<lambda>i. or_code (\<lambda>_. 500) (GrantList i) (\<lambda>gs. ret (Reply 200 gs)))"

definition AddRepoMember :: "uuid_text \<Rightarrow> (string \<times> string) option \<Rightarrow> time \<Rightarrow> (uuid \<times> uuid \<times> string) resp aprog" where
  [op_defs]: "AddRepoMember x body now = with_id x (\<lambda>i. with_body body (\<lambda>(email, role0).
     if email = [] then ret (Fail 400)
     else (let role = (if role0 = [] then ''viewer'' else role0) in
       if role \<notin> {''admin'', ''reviewer'', ''viewer''} then ret (Fail 400)
       else or_code not_found (GetByEmail email) (\<lambda>u.
         or_code (\<lambda>_. 500) (GrantAdd i (us_id u) role now) (\<lambda>_. ret (Reply 200 (i, us_id u, role)))))))"

definition RemoveRepoMember :: "uuid_text \<Rightarrow> uuid_text \<Rightarrow> unit resp aprog" where
  [op_defs]: "RemoveRepoMember x y = with_id x (\<lambda>i. with_id y (\<lambda>u.
     or_code not_found (GrantRemove i u) (\<lambda>_. ret (Reply 200 ()))))"

section \<open>Indexing and branches\<close>

definition detectPlatformFromURL :: "string \<Rightarrow> string" where
  "detectPlatformFromURL url =
     (let l = to_lower url in
      if str_contains l ''github.com'' then ''github''
      else if str_contains l ''gitlab.com'' \<or> str_contains l ''gitlab'' then ''gitlab''
      else if str_contains l ''bitbucket.org'' \<or> str_contains l ''bitbucket'' then ''bitbucket''
      else if str_contains l ''/scm/'' then ''bitbucket''
      else if str_contains l ''dev.azure.com'' \<or> str_contains l ''visualstudio.com'' then ''azure_devops''
      else [])"

definition token_key :: "string \<Rightarrow> string" where
  "token_key platform = (if platform = ''azure_devops'' then ''vcs.azure_devops.pat'' else ''vcs.'' @ platform @ ''.token'')"

text \<open>The clone token of the user, empty if there is none.\<close>

definition clone_token :: "api_cfg \<Rightarrow> jwt_claims option \<Rightarrow> repository \<Rightarrow> string" where
  "clone_token cfg cl r =
     (let platform = (if rp_platform r = [] \<and> rp_clone r \<noteq> [] then detectPlatformFromURL (rp_clone r) else rp_platform r) in
      if platform = [] then []
      else case (user_of cl, cf_vault cfg) of
        (Some u, Some v) \<Rightarrow> v u (token_key platform)
      | _ \<Rightarrow> [])"

text \<open>The settings of an index run; they ask for the embedding the server is configured with.\<close>

definition index_config_of :: "embed_config \<Rightarrow> string \<Rightarrow> string \<Rightarrow> string \<Rightarrow> index_config" where
  "index_config_of ec tok action branch =
     (let base = \<lparr>ix_max_kb = 512, ix_chunk = 1024, ix_overlap = 128, ix_ast = True, ix_provider = [], ix_endpoint = [],
            ix_model = [], ix_dims = 0, ix_key = [], ix_token = tok, ix_action = action, ix_branch = branch\<rparr> in
      if eb_builtin ec then
        (let model = (if eb_builtin_model ec = [] then ''bge-m3'' else eb_builtin_model ec) in
         base\<lparr>ix_provider := ''LOCAL_ONNX'', ix_model := model, ix_dims := builtinModelDimensions model\<rparr>)
      else if eb_provider ec \<noteq> [] then
        base\<lparr>ix_provider := ''HTTP'', ix_endpoint := eb_endpoint ec, ix_model := eb_model ec, ix_dims := eb_dims ec,
          ix_key := eb_key ec\<rparr>
      else base)"

definition TriggerIndex ::
  "api_cfg \<Rightarrow> jwt_claims option \<Rightarrow> uuid_text \<Rightarrow> (string \<times> string) option option \<Rightarrow> unit resp aprog" where
  [op_defs]: "TriggerIndex cfg cl x body = with_id x (\<lambda>i.
     case body of
       Some None \<Rightarrow> ret (Fail 400)
     | _ \<Rightarrow> (let given = (case body of Some (Some b) \<Rightarrow> b | _ \<Rightarrow> ([], []));
              action = (if fst given = [] then ''index'' else fst given) in
         if action \<notin> {''index'', ''reindex'', ''reclone''} then ret (Fail 400)
         else or_code not_found (RepoGet i) (\<lambda>r.
           org_quota cfg (rp_org r) (\<lambda>row. ret (Inr (CheckIndexingAllowed (o_plan row)))) (do {
             _ \<leftarrow> modify (\<lambda>s. s\<lparr>a_index := a_index s @ [IndexStart i (rp_clone r)
               (index_config_of (cf_embed cfg) (clone_token cfg cl r) action (snd given))]\<rparr>);
             ret (Reply 202 ()) }))))"

text \<open>\<open>sh -c\<close>: the command enters the log, the parameter says what it prints.\<close>

definition run_shell :: "api_cfg \<Rightarrow> string \<Rightarrow> string option aprog" where
  "run_shell cfg cmd = State (\<lambda>s. (cf_shell cfg (a_shell s) cmd, s\<lparr>a_shell := a_shell s @ [cmd]\<rparr>))"

definition ls_remote :: "string \<Rightarrow> string" where
  "ls_remote url = ''git ls-remote --heads '' @ url"

definition ls_remote_token :: "string \<Rightarrow> string \<Rightarrow> string" where
  "ls_remote_token tok url = ''git -c http.extraHeader='' @ [CHR 0x27] @ ''Authorization: Bearer '' @ tok @ [CHR 0x27] @
     '' ls-remote --heads '' @ url"

definition branch_of_line :: "string \<Rightarrow> string option" where
  "branch_of_line line = (let parts = str_fields line in
     if length parts \<ge> 2 then
       Some (let ref = parts ! 1 in if has_prefix ref ''refs/heads/'' then drop 11 ref else ref)
     else None)"

definition branches_of :: "string \<Rightarrow> string list" where
  "branches_of output = List.map_filter branch_of_line (split_on CHR 0x0A (trim_space output))"

definition ListBranches :: "api_cfg \<Rightarrow> jwt_claims option \<Rightarrow> uuid_text \<Rightarrow> (string list \<times> string) resp aprog" where
  [op_defs]: "ListBranches cfg cl x = with_id x (\<lambda>i. or_code not_found (RepoGet i) (\<lambda>r. do {
     out1 \<leftarrow> run_shell cfg (ls_remote (rp_clone r));
     out \<leftarrow> (if out1 = None \<and> clone_token cfg cl r \<noteq> [] \<and> has_prefix (rp_clone r) ''https://''
       then run_shell cfg (ls_remote_token (clone_token cfg cl r) (rp_clone r)) else ret out1);
     ret (case out of None \<Rightarrow> Fail 500 | Some text \<Rightarrow> Reply 200 (branches_of text, rp_branch r)) }))"

section \<open>Reviews\<close>

definition ListReviews ::
  "api_cfg \<Rightarrow> jwt_claims option \<Rightarrow> string \<Rightarrow> string \<Rightarrow> string \<Rightarrow> review page resp aprog" where
  [op_defs]: "ListReviews cfg cl repo_text limit offset =
     (let lo = parsePagination limit offset in
      if repo_text \<noteq> [] then
        (case cf_parse cfg repo_text of
          None \<Rightarrow> ret (Fail 400)
        | Some i \<Rightarrow> or_code (\<lambda>_. 500) (ReviewListByRepo i (fst lo) (snd lo)) (\<lambda>r. ret (Reply 200 (page_of lo r))))
      else with_user (user_of cl) (\<lambda>u.
        or_code (\<lambda>_. 500) (ReviewListByUser u (fst lo) (snd lo)) (\<lambda>r. ret (Reply 200 (page_of lo r)))))"

definition start_job :: "review_job \<Rightarrow> unit aprog" where
  "start_job j = modify (\<lambda>s. s\<lparr>a_jobs := a_jobs s @ [j]\<rparr>)"

definition review_quota :: "api_cfg \<Rightarrow> uuid \<Rightarrow> time \<Rightarrow> 'b resp aprog \<Rightarrow> 'b resp aprog" where
  "review_quota cfg i now k =
     (if \<not> cf_quota cfg then k
      else do {
        r \<leftarrow> RepoGet i;
        case r of
          Inl _ \<Rightarrow> k
        | Inr repo \<Rightarrow> org_quota cfg (rp_org repo)
            (\<lambda>row. do { q \<leftarrow> CheckReviewQuota (o_id row) (o_plan row) now; ret (Inr q) }) k })"

definition TriggerReview :: "api_cfg \<Rightarrow> jwt_claims option \<Rightarrow> trigger_request option \<Rightarrow> time \<Rightarrow> unit resp aprog" where
  [op_defs]: "TriggerReview cfg cl body now = with_user (user_of cl) (\<lambda>u. with_body body (\<lambda>req.
     validated (validate_trigger req) (case cf_parse cfg (tr_repo req) of
       None \<Rightarrow> ret (Fail 400)
     | Some i \<Rightarrow> review_quota cfg i now (do {
         _ \<leftarrow> start_job \<lparr>jb_repo = i, jb_pr = tr_pr req, jb_by = u\<rparr>;
         _ \<leftarrow> LogRequest cl ''review.trigger'' ''review'' (cf_us cfg i);
         ret (Reply 202 ()) }))))"

definition GetReview :: "uuid_text \<Rightarrow> review resp aprog" where
  [op_defs]: "GetReview x = with_id x (\<lambda>i. or_code not_found (ReviewGet i) (\<lambda>v. ret (Reply 200 v)))"

definition GetReviewComments :: "api_cfg \<Rightarrow> uuid_text \<Rightarrow> review_comment list resp aprog" where
  [op_defs]: "GetReviewComments cfg x = with_id x (\<lambda>i.
     or_code (\<lambda>_. 500) (ListCommentsByReview (cf_rank cfg) i) (\<lambda>cs. ret (Reply 200 cs)))"

end
