(* ===== verification/Glob.thy ===== *)
theory Glob
  imports Regex
begin

text \<open>
  \<open>path/filepath.Match\<close> on Unix and the skip patterns of the review pipeline
  (\<open>internal/review/pipeline.go\<close>, \<open>matchesSkipPattern\<close>).  A pattern is parsed into items; a malformed
  one, for which \<open>Match\<close> returns an error, matches nothing.  Names are UTF-8: \<open>?\<close> and a class take one
  byte or one well-formed sequence; classes compare single bytes.
\<close>

datatype glob_item = GLit char | GOne | GStar | GClass bool "(char \<times> char) list"

text \<open>A bound of a range: any character but \<open>-\<close> and \<open>]\<close>, or an escaped one; more text has to follow.\<close>

fun glob_esc :: "string \<Rightarrow> (char \<times> string) option" where
  "glob_esc [] = None"
| "glob_esc (c # cs) =
     (if c = CHR ''-'' \<or> c = CHR '']'' then None
      else if c = CHR 0x5C then (case cs of d # e # ds \<Rightarrow> Some (d, e # ds) | _ \<Rightarrow> None)
      else if cs = [] then None else Some (c, cs))"

lemma glob_esc_shorter: "glob_esc s = Some (c, t) \<Longrightarrow> length t < length s"
  by (cases s) (auto split: if_splits list.splits)

text \<open>The ranges of a class up to the closing bracket; at least one.\<close>

function glob_ranges :: "nat \<Rightarrow> string \<Rightarrow> ((char \<times> char) list \<times> string) option" where
  "glob_ranges n s =
     (case s of [] \<Rightarrow> None | c # cs \<Rightarrow>
      if c = CHR '']'' \<and> 0 < n then Some ([], cs)
      else (case glob_esc s of
        None \<Rightarrow> None
      | Some (lo, t) \<Rightarrow>
          (case (case t of [] \<Rightarrow> None | d # ds \<Rightarrow> if d = CHR ''-'' then glob_esc ds else Some (lo, t)) of
            None \<Rightarrow> None
          | Some (hi, u) \<Rightarrow>
              if length u < length s then
                (case glob_ranges (Suc n) u of None \<Rightarrow> None | Some (rs, v) \<Rightarrow> Some ((lo, hi) # rs, v))
              else None)))"
  by pat_completeness auto
termination by (relation "measure (length \<circ> snd)") auto

declare glob_ranges.simps [simp del]

function glob_parse :: "string \<Rightarrow> glob_item list option" where
  "glob_parse s =
     (case s of [] \<Rightarrow> Some [] | c # cs \<Rightarrow>
      if c = CHR ''*'' then map_option ((#) GStar) (glob_parse cs)
      else if c = CHR ''?'' then map_option ((#) GOne) (glob_parse cs)
      else if c = CHR 0x5C then (case cs of [] \<Rightarrow> None | d # ds \<Rightarrow> map_option ((#) (GLit d)) (glob_parse ds))
      else if c = CHR ''['' then
        (let neg = (cs \<noteq> [] \<and> hd cs = CHR ''^''); body = (if neg then tl cs else cs) in
         case glob_ranges 0 body of
           None \<Rightarrow> None
         | Some (rs, t) \<Rightarrow> if length t < length s then map_option ((#) (GClass neg rs)) (glob_parse t) else None)
      else map_option ((#) (GLit c)) (glob_parse cs))"
  by pat_completeness auto
termination by (relation "measure length") auto

declare glob_parse.simps [simp del]

definition byte_in :: "nat \<Rightarrow> nat \<Rightarrow> char \<Rightarrow> bool" where
  "byte_in lo hi c \<longleftrightarrow> lo \<le> of_char c \<and> of_char c \<le> hi"

text \<open>One rune; a single byte satisfies \<open>p\<close>, and \<open>multi\<close> says whether longer ones match.\<close>

definition rx_rune :: "(char \<Rightarrow> bool) \<Rightarrow> bool \<Rightarrow> rx" where
  "rx_rune p multi =
     (let cont = RChar (byte_in 128 191) in
      RAlt (RChar (\<lambda>c. byte_in 0 127 c \<and> p c))
        (if \<not> multi then RNever
         else rx_any [rx_cat [RChar (byte_in 194 223), cont], rx_cat [RChar (byte_in 224 239), cont, cont],
           rx_cat [RChar (byte_in 240 244), cont, cont, cont]]))"

fun rx_item :: "glob_item \<Rightarrow> rx" where
  "rx_item (GLit c) = RChar (\<lambda>d. d = c)"
| "rx_item GOne = rx_rune (\<lambda>c. c \<noteq> CHR ''/'') True"
| "rx_item GStar = RMany (RChar (\<lambda>c. c \<noteq> CHR ''/''))"
| "rx_item (GClass neg rs) = rx_rune (\<lambda>c. list_ex (\<lambda>(lo, hi). lo \<le> c \<and> c \<le> hi) rs \<noteq> neg) neg"

definition glob_match :: "string \<Rightarrow> string \<Rightarrow> bool" where
  "glob_match pat name = (case glob_parse pat of None \<Rightarrow> False | Some is \<Rightarrow> accepts (rx_cat (map rx_item is)) name)"

section \<open>Skip patterns\<close>

text \<open>\<open>filepath.Base\<close>.\<close>

definition path_base :: "string \<Rightarrow> string" where
  "path_base s = (if s = [] then ''.''
     else (let t = rev (dropWhile (\<lambda>c. c = CHR ''/'') (rev s)) in
       if t = [] then ''/'' else rev (takeWhile (\<lambda>c. c \<noteq> CHR ''/'') (rev t))))"

text \<open>The suffixes of a path that start at a component.\<close>

fun path_tails :: "string \<Rightarrow> string list" where
  "path_tails [] = []"
| "path_tails (c # cs) = (if c = CHR ''/'' then cs # path_tails cs else path_tails cs)"

definition path_suffixes :: "string \<Rightarrow> string list" where
  "path_suffixes s = s # path_tails s"

text \<open>\<open>strings.ReplaceAll(pattern, "**/", "")\<close>.\<close>

function drop_double_star :: "string \<Rightarrow> string" where
  "drop_double_star s =
     (if has_prefix s ''**/'' then drop_double_star (drop 3 s)
      else case s of [] \<Rightarrow> [] | c # cs \<Rightarrow> c # drop_double_star cs)"
  by pat_completeness auto
termination by (relation "measure length") (auto simp: has_prefix_def prefix_def)

declare drop_double_star.simps [simp del]

definition matches_pattern :: "string \<Rightarrow> string \<Rightarrow> bool" where
  "matches_pattern pat name \<longleftrightarrow> glob_match pat name \<or> glob_match pat (path_base name) \<or>
     (str_contains pat ''**'' \<and> (let simple = drop_double_star pat in
        glob_match simple (path_base name) \<or> list_ex (glob_match simple) (path_suffixes name)))"

definition matchesSkipPattern :: "string list \<Rightarrow> string \<Rightarrow> bool" where
  "matchesSkipPattern pats name \<longleftrightarrow> list_ex (\<lambda>p. matches_pattern p name) pats"

section \<open>Facts\<close>

text \<open>A pattern without special characters matches itself only.\<close>

definition plain :: "string \<Rightarrow> bool" where
  "plain s \<longleftrightarrow> (\<forall>c\<in>set s. c \<notin> {CHR ''*'', CHR ''?'', CHR ''['', CHR 0x5C})"

lemma glob_parse_plain: "plain s \<Longrightarrow> glob_parse s = Some (map GLit s)"
  by (induction s) (simp_all add: plain_def glob_parse.simps)

lemma rx_lits: "rx_match (rx_cat (map rx_item (map GLit s))) t \<longleftrightarrow> t = s"
  by (induction s arbitrary: t) (auto simp: rx_seq)

lemma glob_match_plain: "plain s \<Longrightarrow> glob_match s t \<longleftrightarrow> t = s"
  by (simp add: glob_match_def glob_parse_plain accepts_match rx_lits del: map_map)

text \<open>A leading star matches every name in one directory level that ends in the rest.\<close>

lemma glob_match_star:
  assumes "plain s"
  shows "glob_match (CHR ''*'' # s) t \<longleftrightarrow> (\<exists>u. t = u @ s \<and> CHR ''/'' \<notin> set u)"
proof -
  have "glob_parse (CHR ''*'' # s) = Some (GStar # map GLit s)"
    using assms by (subst glob_parse.simps) (simp add: glob_parse_plain)
  then have "glob_match (CHR ''*'' # s) t \<longleftrightarrow> rx_match (RSeq (RMany (RChar (\<lambda>c. c \<noteq> CHR ''/''))) (rx_cat (map rx_item (map GLit s)))) t"
    by (simp add: glob_match_def accepts_match del: map_map)
  then show ?thesis by (auto simp: rx_seq rx_lits simp del: map_map)
qed

end
