(* ===== verification/ReviewPipeline.thy ===== *)
theory ReviewPipeline
  imports AccountAPI Glob
begin

text \<open>
  \<open>internal/review/pipeline.go\<close> with the credential lookup of \<open>internal/vcs/resolver.go\<close>.  The platform
  client, the analysis engine, the language model, the enricher (modelled in \<open>CrossRepoAPI\<close> over its own
  tables), the JSON decoder and the vault are parameters; every call to them enters a log, and their
  answers depend on the calls before.  The state pairs the account tables with this log and the reported
  steps.  Deadlines, durations and metrics are left out; an expired context is a failing statement.
\<close>

section \<open>Outside\<close>

record pr_info =
  pi_number :: int
  pi_title :: string
  pi_description :: string
  pi_author :: string
  pi_source :: string
  pi_target :: string
  pi_sha :: string

record diff_file =
  df_name :: string
  df_status :: string
  df_patch :: string

record review_chunk =
  ck_path :: string
  ck_start :: nat
  ck_end :: nat
  ck_score :: real
  ck_language :: string
  ck_content :: string

record touched_symbol =
  ts_name :: string
  ts_kind :: string
  ts_file :: string
  ts_change :: string
  ts_callers :: "string list"

record context_pack =
  cp_chunks :: "review_chunk list"
  cp_symbols :: "touched_symbol list"
  cp_warnings :: "string list"

record heuristic_finding =
  hf_category :: string
  hf_severity :: string
  hf_file :: string
  hf_line :: nat
  hf_end :: nat
  hf_message :: string
  hf_suggestion :: string
  hf_evidence :: string
  hf_rule :: string

record llm_item =
  li_line :: int
  li_severity :: string
  li_category :: string
  li_title :: string
  li_body :: string
  li_suggestion :: string

record posted_comment =
  po_body :: string
  po_path :: string
  po_line :: int
  po_side :: string
  po_sha :: string

datatype out_call =
    CallPR string string int
  | CallDiff string string int
  | CallContext uuid string string string
  | CallEnrich uuid uuid "string list" string
  | CallHeuristics string
  | CallLLM string
  | CallComment string string int posted_comment
  | CallSummary string string int string

record creds =
  cd_platform :: string
  cd_token :: string
  cd_secret :: string

record outside =
  wk_calls :: "out_call list"
  wk_steps :: "(string \<times> nat \<times> string) list"

record pipe_cfg =
  pp_max_files :: int
  pp_skip :: "string list"
  pp_vault :: "string \<Rightarrow> string \<Rightarrow> string option"
  pp_pr :: "out_call list \<Rightarrow> out_call \<Rightarrow> string + pr_info"
  pp_diff :: "out_call list \<Rightarrow> out_call \<Rightarrow> string + diff_file list"
  pp_post :: "out_call list \<Rightarrow> out_call \<Rightarrow> bool"
  pp_context :: "(out_call list \<Rightarrow> out_call \<Rightarrow> context_pack option) option"
  pp_heuristics :: "out_call list \<Rightarrow> out_call \<Rightarrow> heuristic_finding list option"
  pp_enrich :: "(out_call list \<Rightarrow> out_call \<Rightarrow> cross_context) option"
  pp_llm :: "(out_call list \<Rightarrow> out_call \<Rightarrow> string option) option"
  pp_json :: "string \<Rightarrow> llm_item list option"
  pp_took :: string
  pp_took_ms :: nat

type_synonym 'a pprog = "(account_state \<times> outside, 'a) state"

definition call_out :: "out_call \<Rightarrow> (out_call list \<Rightarrow> out_call \<Rightarrow> 'a) \<Rightarrow> 'a pprog" where
  "call_out c f = on_snd (State (\<lambda>w. (f (wk_calls w) c, w\<lparr>wk_calls := wk_calls w @ [c]\<rparr>)))"

definition emitProgress :: "string \<Rightarrow> nat \<Rightarrow> string \<Rightarrow> unit pprog" where
  "emitProgress step i status = on_snd (modify (\<lambda>w. w\<lparr>wk_steps := wk_steps w @ [(step, i, status)]\<rparr>))"

definition totalPipelineSteps :: nat where "totalPipelineSteps = 15"

definition NewPipeline :: "pipe_cfg \<Rightarrow> pipe_cfg" where
  "NewPipeline c = (if pp_max_files c = 0 then c\<lparr>pp_max_files := 50\<rparr> else c)"

section \<open>Credentials\<close>

text \<open>The row of some owner: \<open>LIMIT 1\<close> without an order, here the first.\<close>

definition owner_row :: "account_db \<Rightarrow> uuid \<Rightarrow> account option" where
  "owner_row d g = (case concat (map (\<lambda>u. map (\<lambda>_. u)
       (filter (\<lambda>m. m_user m = us_id u \<and> m_org m = g \<and> m_role m = ''owner'') (ac_members d))) (ac_users d)) of
     [] \<Rightarrow> None | u # _ \<Rightarrow> Some u)"

definition resolveOrgOwnerCreds ::
  "(string \<Rightarrow> string \<Rightarrow> string option) \<Rightarrow> uuid \<Rightarrow> string \<Rightarrow> (store_error + creds) aprog" where
  [op_defs]: "resolveOrgOwnerCreds vault g platform = do {
     r \<leftarrow> afetch (\<lambda>d. owner_row d g);
     case r of
       Inl e \<Rightarrow> ret (Inl e)
     | Inr u \<Rightarrow>
         if us_vault u = [] then ret (Inl ErrStore)
         else do {
           _ \<leftarrow> a_io;
           ret (Inr \<lparr>cd_platform = platform,
             cd_token = (case vault (us_vault u) (token_key platform) of Some t \<Rightarrow> t | None \<Rightarrow> []),
             cd_secret = (case vault (us_vault u) (''vcs.'' @ platform @ ''.webhook_secret'') of Some t \<Rightarrow> t | None \<Rightarrow> [])\<rparr>) } }"

definition supported_platforms :: "string list" where
  "supported_platforms = [''github'', ''gitlab'', ''bitbucket'', ''azure_devops'']"

text \<open>\<open>buildClient\<close> fails for an unknown platform only.\<close>

definition ForRepoDirect ::
  "(string \<Rightarrow> string \<Rightarrow> string option) \<Rightarrow> uuid \<Rightarrow> string \<Rightarrow> string \<Rightarrow> (store_error + creds) aprog" where
  [op_defs]: "ForRepoDirect vault g platform secret = do {
     r \<leftarrow> resolveOrgOwnerCreds vault g platform;
     ret (case r of
         Inl e \<Rightarrow> Inl e
       | Inr c \<Rightarrow> if cd_platform c \<in> set supported_platforms then Inr (c\<lparr>cd_secret := secret\<rparr>) else Inl ErrStore) }"

definition ResolveWebhookSecretForOrg :: "(string \<Rightarrow> string \<Rightarrow> string option) \<Rightarrow> uuid \<Rightarrow> string \<Rightarrow> string aprog" where
  [op_defs]: "ResolveWebhookSecretForOrg vault g platform = do {
     r \<leftarrow> resolveOrgOwnerCreds vault g platform;
     ret (case r of Inl _ \<Rightarrow> [] | Inr c \<Rightarrow> cd_secret c) }"

section \<open>Files and comments\<close>

definition filterFiles :: "pipe_cfg \<Rightarrow> diff_file list \<Rightarrow> diff_file list" where
  "filterFiles cfg files =
     (let kept = filter (\<lambda>f. df_status f \<noteq> ''deleted'' \<and> df_patch f \<noteq> [] \<and> \<not> matchesSkipPattern (pp_skip cfg) (df_name f)) files in
      if int (length kept) > pp_max_files cfg then take (nat (pp_max_files cfg)) kept else kept)"

definition buildCombinedDiff :: "diff_file list \<Rightarrow> string" where
  "buildCombinedDiff files = concat (map (\<lambda>f.
     ''--- a/'' @ df_name f @ nl @ ''+++ b/'' @ df_name f @ nl @ df_patch f @ nl) files)"

definition valid_severities :: "string list" where
  "valid_severities = [''critical'', ''high'', ''medium'', ''low'', ''info'']"

definition severity_of :: "string \<Rightarrow> string" where
  "severity_of s = (if s \<in> set valid_severities then s else ''info'')"

definition new_comment :: "string \<Rightarrow> int \<Rightarrow> int option \<Rightarrow> string \<Rightarrow> string \<Rightarrow> string \<Rightarrow> string \<Rightarrow> string \<Rightarrow> review_comment" where
  "new_comment file line end_line sev cat title body sugg = \<lparr>rc_id = uuid_nil, rc_review = uuid_nil, rc_file = file,
     rc_line = line, rc_end = end_line, rc_severity = sev, rc_category = cat, rc_title = title, rc_body = body,
     rc_suggestion = sugg, rc_posted = False, rc_created = 0\<rparr>"

definition convertHeuristicFindings :: "heuristic_finding list \<Rightarrow> review_comment list" where
  "convertHeuristicFindings fs = map (\<lambda>f. new_comment (hf_file f) (int (hf_line f))
     (if hf_end f > 0 then Some (int (hf_end f)) else None) (severity_of (hf_severity f)) (hf_category f)
     (''[Heuristic: '' @ hf_rule f @ ''] '' @ hf_message f) (hf_evidence f) (hf_suggestion f)) fs"

text \<open>\<open>strings.Index\<close>.\<close>

fun str_index :: "string \<Rightarrow> string \<Rightarrow> nat option" where
  "str_index s sub = (if prefix sub s then Some 0
     else case s of [] \<Rightarrow> None | _ # cs \<Rightarrow> map_option Suc (str_index cs sub))"

declare str_index.simps [simp del]

definition upto_fence :: "string \<Rightarrow> string option" where
  "upto_fence rest = map_option (\<lambda>e. trim_space (take e rest)) (str_index rest fence)"

definition json_fence :: "string \<Rightarrow> string option" where
  "json_fence content = (case str_index content (fence @ ''json'') of
       None \<Rightarrow> None | Some i \<Rightarrow> upto_fence (drop (i + 7) content))"

definition any_fence :: "string \<Rightarrow> string option" where
  "any_fence content = (case str_index content fence of
       None \<Rightarrow> None
     | Some i \<Rightarrow> (let r = drop (i + 3) content in
         upto_fence (if CHR 0x0A \<in> set r then drop 1 (dropWhile (\<lambda>c. c \<noteq> CHR 0x0A) r) else r)))"

text \<open>From the first \<open>[\<close> to the last \<open>]\<close>.\<close>

definition raw_json :: "string \<Rightarrow> string" where
  "raw_json content =
     (let t = dropWhile (\<lambda>c. c \<noteq> CHR ''['') content; u = rev (dropWhile (\<lambda>c. c \<noteq> CHR '']'') (rev t)) in u)"

definition extractJSON :: "string \<Rightarrow> string" where
  "extractJSON content = (case json_fence content of
       Some x \<Rightarrow> x
     | None \<Rightarrow> (case any_fence content of Some x \<Rightarrow> x | None \<Rightarrow> raw_json content))"

definition parseReviewResponse :: "(string \<Rightarrow> llm_item list option) \<Rightarrow> string \<Rightarrow> string \<Rightarrow> review_comment list" where
  "parseReviewResponse json content file =
     (let js = extractJSON content in
      if js = [] then []
      else case json js of
        None \<Rightarrow> []
      | Some items \<Rightarrow> map (\<lambda>x. new_comment file (li_line x) None (severity_of (li_severity x)) (li_category x)
          (li_title x) (li_body x) (li_suggestion x)) items)"

section \<open>Prompts\<close>

definition buildFileContextMap :: "context_pack option \<Rightarrow> string \<Rightarrow> review_chunk list" where
  "buildFileContextMap pack file = (case pack of
       None \<Rightarrow> [] | Some p \<Rightarrow> filter (\<lambda>c. ck_path c = file) (cp_chunks p))"

definition arrow :: string where "arrow = [CHR 0xE2, CHR 0x86, CHR 0x92]"

definition warning_sign :: string where
  "warning_sign = [CHR 0xE2, CHR 0x9A, CHR 0xA0, CHR 0xEF, CHR 0xB8, CHR 0x8F]"

definition prompt_chunk :: "review_chunk \<Rightarrow> string" where
  "prompt_chunk c = ''### '' @ ck_path c @ '' (L'' @ show_nat (ck_start c) @ en_dash @ ''L'' @ show_nat (ck_end c) @
     '', relevance: '' @ fmt2f (ck_score c) @ '')'' @ nl @ fence @ ck_language c @ nl @ ck_content c @ nl @ fence @ nl @ nl"

definition prompt_symbol :: "touched_symbol \<Rightarrow> string" where
  "prompt_symbol s = ''- `'' @ ts_name s @ ''` ('' @ ts_kind s @ '', '' @ ts_change s @ '')'' @
     (if ts_callers s = [] then [] else '' '' @ em_dash @ '' called by: '' @ str_join '', '' (ts_callers s)) @ nl"

definition buildEnrichedFileReviewPrompt :: "pr_info \<Rightarrow> diff_file \<Rightarrow> review_chunk list \<Rightarrow> context_pack option \<Rightarrow> string" where
  "buildEnrichedFileReviewPrompt pr f chunks pack =
     ''## Pull Request Context'' @ nl @ ''- **Title:** '' @ pi_title pr @ nl @ ''- **Author:** '' @ pi_author pr @ nl @
     ''- **Branch:** '' @ pi_source pr @ '' '' @ arrow @ '' '' @ pi_target pr @ nl @ nl @
     ''## File: '' @ df_name f @ '' ('' @ df_status f @ '')'' @ nl @ nl @ ''### Diff:'' @ nl @ df_patch f @
     (if chunks = [] then []
      else nl @ nl @ ''## Related Code Context (from repository index)'' @ nl @
        ''The following code snippets are related to the changes above. Use them to understand the broader impact:'' @ nl @ nl @
        concat (map prompt_chunk (take 5 chunks))) @
     (case pack of
        None \<Rightarrow> []
      | Some p \<Rightarrow>
          (if cp_symbols p = [] then []
           else nl @ ''## Touched Symbols'' @ nl @ ''These symbols are affected by this change:'' @ nl @ nl @
             concat (map prompt_symbol (filter (\<lambda>s. ts_file s = df_name f) (cp_symbols p)))) @
          (if cp_warnings p = [] then []
           else nl @ ''## Engine Warnings'' @ nl @ concat (map (\<lambda>w. ''- '' @ warning_sign @ '' '' @ w @ nl) (cp_warnings p))))"

text \<open>One completion per file; a failing completion skips the file.\<close>

primrec analyze_files ::
  "pipe_cfg \<Rightarrow> (out_call list \<Rightarrow> out_call \<Rightarrow> string option) \<Rightarrow> pr_info \<Rightarrow> context_pack option \<Rightarrow> string \<Rightarrow>
   diff_file list \<Rightarrow> review_comment list pprog" where
  "analyze_files cfg llm pr pack section [] = ret []"
| "analyze_files cfg llm pr pack section (f # fs) = do {
     r \<leftarrow> call_out (CallLLM (buildEnrichedFileReviewPrompt pr f (buildFileContextMap pack (df_name f)) pack @ section)) llm;
     rest \<leftarrow> analyze_files cfg llm pr pack section fs;
     ret ((case r of None \<Rightarrow> [] | Some content \<Rightarrow> parseReviewResponse (pp_json cfg) content (df_name f)) @ rest) }"

definition analyzeFilesWithContext ::
  "pipe_cfg \<Rightarrow> pr_info \<Rightarrow> diff_file list \<Rightarrow> context_pack option \<Rightarrow> cross_context option \<Rightarrow> (string + review_comment list) pprog" where
  [op_defs]: "analyzeFilesWithContext cfg pr files pack cross = (case pp_llm cfg of
       None \<Rightarrow> ret (Inl ''no LLM provider configured'')
     | Some llm \<Rightarrow> do {
         cs \<leftarrow> analyze_files cfg llm pr pack (case cross of None \<Rightarrow> [] | Some x \<Rightarrow> FormatForPrompt x) files;
         ret (Inr cs) })"

section \<open>Summary\<close>

definition severity_counts :: "review_comment list \<Rightarrow> nat \<times> nat \<times> nat \<times> nat" where
  "severity_counts cs =
     (count_where (\<lambda>c. rc_severity c = ''critical'') cs, count_where (\<lambda>c. rc_severity c = ''high'') cs,
      count_where (\<lambda>c. rc_severity c = ''medium'') cs,
      count_where (\<lambda>c. rc_severity c \<notin> {''critical'', ''high'', ''medium''}) cs)"

definition circle :: "char \<Rightarrow> string" where
  "circle c = [CHR 0xF0, CHR 0x9F, CHR 0x94, c]"

definition buildSummary :: "pr_info \<Rightarrow> review_comment list \<Rightarrow> string \<Rightarrow> string" where
  "buildSummary pr cs took =
     (case severity_counts cs of (crit, high, med, low) \<Rightarrow>
      ''## '' @ circle CHR 0x8D @ '' RTVortex Code Review'' @ nl @ nl @
      ''**PR:** '' @ pi_title pr @ '' (#'' @ show_int (pi_number pr) @ '')'' @ nl @ ''**Duration:** '' @ took @ nl @
      ''**Files reviewed:** analyzed'' @ nl @ ''**Comments:** '' @ show_nat (length cs) @ '' total'' @ nl @ nl @
      ''| Severity | Count |'' @ nl @ ''|----------|-------|'' @ nl @
      ''| '' @ circle CHR 0xB4 @ '' Critical | '' @ show_nat crit @ '' |'' @ nl @
      ''| '' @ [CHR 0xF0, CHR 0x9F, CHR 0x9F, CHR 0xA0] @ '' High | '' @ show_nat high @ '' |'' @ nl @
      ''| '' @ [CHR 0xF0, CHR 0x9F, CHR 0x9F, CHR 0xA1] @ '' Medium | '' @ show_nat med @ '' |'' @ nl @
      ''| '' @ circle CHR 0xB5 @ '' Low/Info | '' @ show_nat low @ '' |'' @ nl @ nl @ ''---'' @ nl @
      ''*Powered by [RTVortex](https://github.com/AuralithAI/rtvortex) '' @ em_dash @ '' AI Code Review Engine*'')"

section \<open>Execute\<close>

datatype exec_error = LookupFailed store_error | ClientFailed store_error | CreateFailed store_error

record review_result =
  rz_review :: uuid
  rz_status :: review_status
  rz_comments :: nat
  rz_error :: "string option"

definition failed_result :: "uuid \<Rightarrow> string \<Rightarrow> review_result" where
  "failed_result i msg = \<lparr>rz_review = i, rz_status = ReviewFailed, rz_comments = 0, rz_error = Some msg\<rparr>"

definition failReview :: "uuid \<Rightarrow> string \<Rightarrow> time \<Rightarrow> unit pprog" where
  [op_defs]: "failReview i msg now = on_fst (void (ReviewUpdateStatus i ReviewFailed (Some [(''error'', msg)]) now))"

definition fail_step :: "uuid \<Rightarrow> string \<Rightarrow> nat \<Rightarrow> string \<Rightarrow> time \<Rightarrow> (exec_error + review_result) pprog" where
  [op_defs]: "fail_step i step n msg now = do {
     _ \<leftarrow> emitProgress step n ''failed'';
     _ \<leftarrow> failReview i msg now;
     ret (Inr (failed_result i msg)) }"

definition new_review :: "repository \<Rightarrow> review_job \<Rightarrow> review" where
  "new_review r j = \<lparr>rv_id = uuid_nil, rv_repo = jb_repo j, rv_by = jb_by j, rv_platform = rp_platform r, rv_pr = jb_pr j,
     rv_title = [], rv_author = [], rv_base = [], rv_head = [], rv_status = ReviewPending, rv_files = 0, rv_additions = 0,
     rv_deletions = 0, rv_meta = [], rv_created = 0, rv_completed = None\<rparr>"

primrec persist_comments :: "(nat \<Rightarrow> uuid) \<Rightarrow> time \<Rightarrow> uuid \<Rightarrow> review_comment list \<Rightarrow> nat \<Rightarrow> unit pprog" where
  "persist_comments ids now i [] n = ret ()"
| "persist_comments ids now i (c # cs) n = do {
     _ \<leftarrow> on_fst (CreateComment (c\<lparr>rc_review := i\<rparr>) (ids n) now);
     persist_comments ids now i cs (Suc n) }"

definition comment_body :: "review_comment \<Rightarrow> string" where
  "comment_body c = ''**['' @ rc_severity c @ ''] '' @ rc_category c @ ''** '' @ em_dash @ '' '' @ rc_title c @ nl @ nl @ rc_body c @
     (if rc_suggestion c = [] then [] else nl @ nl @ fence @ ''suggestion'' @ nl @ rc_suggestion c @ nl @ fence)"

definition post_comment :: "pipe_cfg \<Rightarrow> repository \<Rightarrow> int \<Rightarrow> pr_info \<Rightarrow> review_comment \<Rightarrow> unit pprog" where
  [op_defs]: "post_comment cfg r n pr c = void (call_out (CallComment (rp_owner r) (rp_name r) n
     \<lparr>po_body = comment_body c, po_path = rc_file c, po_line = rc_line c, po_side = ''RIGHT'', po_sha = pi_sha pr\<rparr>) (pp_post cfg))"

definition engine_context :: "pipe_cfg \<Rightarrow> uuid \<Rightarrow> string \<Rightarrow> pr_info \<Rightarrow> context_pack option pprog" where
  [op_defs]: "engine_context cfg i diff pr = (case pp_context cfg of
       None \<Rightarrow> do { _ \<leftarrow> emitProgress ''engine_context'' 8 ''completed''; ret None }
     | Some f \<Rightarrow> do {
         _ \<leftarrow> emitProgress ''engine_context'' 8 ''started'';
         r \<leftarrow> call_out (CallContext i diff (pi_title pr) (pi_description pr)) f;
         _ \<leftarrow> emitProgress ''engine_context'' 8 ''completed'';
         ret r })"

definition cross_context_of :: "pipe_cfg \<Rightarrow> review_job \<Rightarrow> context_pack option \<Rightarrow> pr_info \<Rightarrow> cross_context option pprog" where
  [op_defs]: "cross_context_of cfg j pack pr = (case (pp_enrich cfg, pack) of
       (Some f, Some p) \<Rightarrow> do {
         _ \<leftarrow> emitProgress ''cross_repo_enrich'' 9 ''started'';
         x \<leftarrow> call_out (CallEnrich (jb_by j) (jb_repo j) (map ts_name (cp_symbols p)) (pi_title pr)) f;
         _ \<leftarrow> emitProgress ''cross_repo_enrich'' 9 ''completed'';
         ret (Some x) }
     | _ \<Rightarrow> do { _ \<leftarrow> emitProgress ''cross_repo_enrich'' 9 ''completed''; ret None })"

definition heuristic_comments :: "pipe_cfg \<Rightarrow> string \<Rightarrow> review_comment list pprog" where
  [op_defs]: "heuristic_comments cfg diff = (case pp_context cfg of
       None \<Rightarrow> do { _ \<leftarrow> emitProgress ''engine_heuristics'' 10 ''completed''; ret [] }
     | Some _ \<Rightarrow> do {
         _ \<leftarrow> emitProgress ''engine_heuristics'' 10 ''started'';
         r \<leftarrow> call_out (CallHeuristics diff) (pp_heuristics cfg);
         _ \<leftarrow> emitProgress ''engine_heuristics'' 10 ''completed'';
         ret (case r of None \<Rightarrow> [] | Some fs \<Rightarrow> convertHeuristicFindings fs) })"

text \<open>Steps 12 to 15.\<close>

definition publish ::
  "pipe_cfg \<Rightarrow> repository \<Rightarrow> review_job \<Rightarrow> uuid \<Rightarrow> pr_info \<Rightarrow> review_comment list \<Rightarrow> (string \<times> string) list \<Rightarrow>
   (nat \<Rightarrow> uuid) \<Rightarrow> time \<Rightarrow> (exec_error + review_result) pprog" where
  [op_defs]: "publish cfg r j i pr cs meta ids now = do {
     _ \<leftarrow> emitProgress ''persist_comments'' 12 ''started'';
     _ \<leftarrow> persist_comments ids now i cs 0;
     _ \<leftarrow> emitProgress ''persist_comments'' 12 ''completed'';
     _ \<leftarrow> emitProgress ''post_comments'' 13 ''started'';
     _ \<leftarrow> for_each (post_comment cfg r (jb_pr j) pr) cs;
     _ \<leftarrow> emitProgress ''post_comments'' 13 ''completed'';
     _ \<leftarrow> emitProgress ''post_summary'' 14 ''started'';
     _ \<leftarrow> call_out (CallSummary (rp_owner r) (rp_name r) (jb_pr j) (buildSummary pr cs (pp_took cfg))) (pp_post cfg);
     _ \<leftarrow> emitProgress ''post_summary'' 14 ''completed'';
     _ \<leftarrow> emitProgress ''mark_completed'' 15 ''started'';
     _ \<leftarrow> on_fst (ReviewUpdateStatus i ReviewCompleted (Some meta) now);
     _ \<leftarrow> emitProgress ''mark_completed'' 15 ''completed'';
     ret (Inr \<lparr>rz_review = i, rz_status = ReviewCompleted, rz_comments = length cs, rz_error = None\<rparr>) }"

definition bool_text :: "bool \<Rightarrow> string" where
  "bool_text b = (if b then ''true'' else ''false'')"

definition review_meta ::
  "pipe_cfg \<Rightarrow> diff_file list \<Rightarrow> context_pack option \<Rightarrow> cross_context option \<Rightarrow> review_comment list \<Rightarrow>
   review_comment list \<Rightarrow> (string \<times> string) list" where
  "review_meta cfg kept pack cross cs heur =
     [(''duration_ms'', show_nat (pp_took_ms cfg)), (''files_reviewed'', show_nat (length kept)),
      (''comments_count'', show_nat (length cs)), (''heuristic_count'', show_nat (length heur)),
      (''engine_context'', bool_text (pack \<noteq> None)),
      (''cross_repo_chunks'', show_nat (case cross of None \<Rightarrow> 0 | Some x \<Rightarrow> length (cx_chunks x))),
      (''cross_repo_enabled'', bool_text (case cross of None \<Rightarrow> False | Some x \<Rightarrow> \<not> cx_empty x))]"

text \<open>Steps 7 to 11.\<close>

definition review_files ::
  "pipe_cfg \<Rightarrow> repository \<Rightarrow> review_job \<Rightarrow> uuid \<Rightarrow> pr_info \<Rightarrow> diff_file list \<Rightarrow> (nat \<Rightarrow> uuid) \<Rightarrow> time \<Rightarrow>
   (exec_error + review_result) pprog" where
  [op_defs]: "review_files cfg r j i pr files ids now = do {
     _ \<leftarrow> emitProgress ''filter_files'' 7 ''started'';
     (let kept = filterFiles cfg files; diff = buildCombinedDiff kept in
      if kept = [] then do {
        _ \<leftarrow> emitProgress ''filter_files'' 7 ''completed'';
        _ \<leftarrow> on_fst (ReviewUpdateStatus i ReviewCompleted (Some [(''reason'', ''no reviewable files'')]) now);
        _ \<leftarrow> emitProgress ''completed'' 12 ''completed'';
        ret (Inr \<lparr>rz_review = i, rz_status = ReviewCompleted, rz_comments = 0, rz_error = None\<rparr>) }
      else do {
        _ \<leftarrow> emitProgress ''filter_files'' 7 ''completed'';
        pack \<leftarrow> engine_context cfg (rp_id r) diff pr;
        cross \<leftarrow> cross_context_of cfg j pack pr;
        heur \<leftarrow> heuristic_comments cfg diff;
        _ \<leftarrow> emitProgress ''analyze_files'' 11 ''started'';
        res \<leftarrow> analyzeFilesWithContext cfg pr kept pack cross;
        case res of
          Inl msg \<Rightarrow> fail_step i ''analyze_files'' 11 msg now
        | Inr cs \<Rightarrow> do {
            _ \<leftarrow> emitProgress ''analyze_files'' 11 ''completed'';
            publish cfg r j i pr (cs @ heur) (review_meta cfg kept pack cross (cs @ heur) heur) ids now } }) }"

text \<open>Steps 4 to 6.\<close>

definition review_pr ::
  "pipe_cfg \<Rightarrow> repository \<Rightarrow> review_job \<Rightarrow> uuid \<Rightarrow> (nat \<Rightarrow> uuid) \<Rightarrow> time \<Rightarrow> (exec_error + review_result) pprog" where
  [op_defs]: "review_pr cfg r j i ids now = do {
     _ \<leftarrow> emitProgress ''status_update'' 4 ''started'';
     _ \<leftarrow> on_fst (ReviewUpdateStatus i ReviewInProgress None now);
     _ \<leftarrow> emitProgress ''status_update'' 4 ''completed'';
     _ \<leftarrow> emitProgress ''fetch_pr'' 5 ''started'';
     p \<leftarrow> call_out (CallPR (rp_owner r) (rp_name r) (jb_pr j)) (pp_pr cfg);
     case p of
       Inl msg \<Rightarrow> fail_step i ''fetch_pr'' 5 msg now
     | Inr pr \<Rightarrow> do {
         _ \<leftarrow> emitProgress ''fetch_pr'' 5 ''completed'';
         _ \<leftarrow> emitProgress ''fetch_diff'' 6 ''started'';
         d \<leftarrow> call_out (CallDiff (rp_owner r) (rp_name r) (jb_pr j)) (pp_diff cfg);
         case d of
           Inl msg \<Rightarrow> fail_step i ''fetch_diff'' 6 msg now
         | Inr files \<Rightarrow> do {
             _ \<leftarrow> emitProgress ''fetch_diff'' 6 ''completed'';
             review_files cfg r j i pr files ids now } } }"

definition Execute ::
  "pipe_cfg \<Rightarrow> review_job \<Rightarrow> uuid \<Rightarrow> (nat \<Rightarrow> uuid) \<Rightarrow> time \<Rightarrow> time \<Rightarrow> (exec_error + review_result) pprog" where
  [op_defs]: "Execute cfg j new_id ids start now = do {
     _ \<leftarrow> emitProgress ''lookup_repo'' 1 ''started'';
     q \<leftarrow> on_fst (RepoGet (jb_repo j));
     case q of
       Inl e \<Rightarrow> ret (Inl (LookupFailed e))
     | Inr r \<Rightarrow> do {
         _ \<leftarrow> emitProgress ''lookup_repo'' 1 ''completed'';
         _ \<leftarrow> emitProgress ''get_vcs_client'' 2 ''started'';
         c \<leftarrow> on_fst (ForRepoDirect (pp_vault cfg) (rp_org r) (rp_platform r) (rp_secret r));
         case c of
           Inl e \<Rightarrow> ret (Inl (ClientFailed e))
         | Inr _ \<Rightarrow> do {
             _ \<leftarrow> emitProgress ''get_vcs_client'' 2 ''completed'';
             _ \<leftarrow> emitProgress ''create_review'' 3 ''started'';
             v \<leftarrow> on_fst (ReviewCreate (new_review r j) new_id start);
             case v of
               Inl e \<Rightarrow> ret (Inl (CreateFailed e))
             | Inr rev0 \<Rightarrow> do {
                 _ \<leftarrow> emitProgress ''create_review'' 3 ''completed'';
                 review_pr cfg r j (rv_id rev0) ids now } } } }"

end
