(* ===== verification/Session.thy ===== *)
theory Session
  imports AgentAuth
begin

text \<open>
  \<open>internal/session\<close>: user sessions and OAuth states (\<open>manager.go\<close>), the sliding window rate limiter
  (\<open>ratelimit.go\<close>) and its middleware.  Redis holds values with an expiry and sorted sets of
  microsecond stamps, whose members are the decimal text of their score.  A key is gone once its time
  to live is over.  The script of failures decides which command or pipeline is refused; a refused
  pipeline has no effect.
\<close>

section \<open>Redis\<close>

record session_data =
  sd_user :: uuid
  sd_email :: string
  sd_name :: string
  sd_role :: string
  sd_org :: uuid
  sd_created_at :: time

record oauth_data =
  oa_provider :: string
  oa_redirect :: string
  oa_user :: string
  oa_org :: string

datatype stored = StoredSession session_data | StoredState oauth_data

record redis =
  rd_values :: "string \<rightharpoonup> stored \<times> time"
  rd_windows :: "string \<rightharpoonup> int list \<times> time"
  rd_faults :: "bool list"

type_synonym 'a rprog = "(redis, 'a) state"

definition rd_io :: "bool rprog" where
  "rd_io = State (\<lambda>s. case rd_faults s of
       [] \<Rightarrow> (True, s)
     | b # bs \<Rightarrow> (\<not> b, s\<lparr>rd_faults := bs\<rparr>))"

definition rd_do :: "(redis \<Rightarrow> 'a \<times> redis) \<Rightarrow> 'a option rprog" where
  "rd_do f = do { ok \<leftarrow> rd_io; if \<not> ok then ret None else State (\<lambda>s. apfst Some (f s)) }"

definition live_value :: "time \<Rightarrow> string \<Rightarrow> redis \<Rightarrow> stored option" where
  "live_value now k s = (case rd_values s k of
       None \<Rightarrow> None | Some (v, e) \<Rightarrow> if now < e then Some v else None)"

definition live_window :: "time \<Rightarrow> string \<Rightarrow> redis \<Rightarrow> int list" where
  "live_window now k s = (case rd_windows s k of
       None \<Rightarrow> [] | Some (xs, e) \<Rightarrow> if now < e then xs else [])"

text \<open>EXPIRE counts in whole seconds, at least one.\<close>

definition expire_ttl :: "time \<Rightarrow> time" where
  "expire_ttl ttl = (if 0 < ttl \<and> ttl < second then second else whole_second ttl)"

definition set_value :: "time \<Rightarrow> string \<Rightarrow> stored \<Rightarrow> time \<Rightarrow> redis \<Rightarrow> redis" where
  "set_value now k v ttl s = s\<lparr>rd_values := (rd_values s)(k \<mapsto> (v, now + ttl))\<rparr>"

definition del_value :: "string \<Rightarrow> redis \<Rightarrow> redis" where
  "del_value k s = s\<lparr>rd_values := (rd_values s)(k := None)\<rparr>"

section \<open>Sessions\<close>

definition defaultTTL :: time where "defaultTTL = 24 * hour"

definition oauthStateTTL :: time where "oauthStateTTL = 10 * minute"

definition manager_ttl :: "time \<Rightarrow> time" where
  "manager_ttl ttl = (if ttl = 0 then defaultTTL else ttl)"

datatype session_error = NoSession | BadState | RedisError | BadJSON

definition SessionCreate :: "(uuid \<Rightarrow> string) \<Rightarrow> time \<Rightarrow> session_data \<Rightarrow> uuid \<Rightarrow> time \<Rightarrow> (session_error + string) rprog" where
  [op_defs]: "SessionCreate us ttl d new_id now = do {
     r \<leftarrow> rd_do (\<lambda>s. ((), set_value now (''session:'' @ us new_id) (StoredSession (d\<lparr>sd_created_at := now\<rparr>)) ttl s));
     ret (case r of None \<Rightarrow> Inl RedisError | Some _ \<Rightarrow> Inr (us new_id)) }"

definition SessionGet :: "string \<Rightarrow> time \<Rightarrow> (session_error + session_data) rprog" where
  [op_defs]: "SessionGet sid now = do {
     r \<leftarrow> rd_do (\<lambda>s. (live_value now (''session:'' @ sid) s, s));
     ret (case r of
         None \<Rightarrow> Inl RedisError
       | Some None \<Rightarrow> Inl NoSession
       | Some (Some (StoredSession d)) \<Rightarrow> Inr d
       | Some (Some (StoredState o')) \<Rightarrow> Inl BadJSON) }"

definition SessionRefresh :: "time \<Rightarrow> string \<Rightarrow> time \<Rightarrow> (session_error + unit) rprog" where
  [op_defs]: "SessionRefresh ttl sid now = do {
     r \<leftarrow> rd_do (\<lambda>s. case live_value now (''session:'' @ sid) s of
         None \<Rightarrow> (False, s) | Some v \<Rightarrow> (True, set_value now (''session:'' @ sid) v (expire_ttl ttl) s));
     ret (case r of None \<Rightarrow> Inl RedisError | Some False \<Rightarrow> Inl NoSession | Some True \<Rightarrow> Inr ()) }"

definition SessionDestroy :: "string \<Rightarrow> (session_error + unit) rprog" where
  [op_defs]: "SessionDestroy sid = do {
     r \<leftarrow> rd_do (\<lambda>s. ((), del_value (''session:'' @ sid) s));
     ret (case r of None \<Rightarrow> Inl RedisError | Some _ \<Rightarrow> Inr ()) }"

definition StoreOAuthStateWithUser :: "string \<Rightarrow> oauth_data \<Rightarrow> time \<Rightarrow> (session_error + unit) rprog" where
  [op_defs]: "StoreOAuthStateWithUser st d now = do {
     r \<leftarrow> rd_do (\<lambda>s. ((), set_value now (''oauth_state:'' @ st) (StoredState d) oauthStateTTL s));
     ret (case r of None \<Rightarrow> Inl RedisError | Some _ \<Rightarrow> Inr ()) }"

definition StoreOAuthState :: "string \<Rightarrow> string \<Rightarrow> string \<Rightarrow> time \<Rightarrow> (session_error + unit) rprog" where
  [op_defs]: "StoreOAuthState st provider redirect now =
     StoreOAuthStateWithUser st \<lparr>oa_provider = provider, oa_redirect = redirect, oa_user = [], oa_org = []\<rparr> now"

text \<open>GET and DEL are two commands; the outcome of DEL is ignored.\<close>

definition oauth_get :: "string \<Rightarrow> time \<Rightarrow> (session_error + stored) rprog" where
  [op_defs]: "oauth_get st now = do {
     r \<leftarrow> rd_do (\<lambda>s. (live_value now (''oauth_state:'' @ st) s, s));
     ret (case r of None \<Rightarrow> Inl RedisError | Some None \<Rightarrow> Inl BadState | Some (Some v) \<Rightarrow> Inr v) }"

definition oauth_del :: "string \<Rightarrow> unit rprog" where
  [op_defs]: "oauth_del st = void (rd_do (\<lambda>s. ((), del_value (''oauth_state:'' @ st) s)))"

definition oauth_result :: "stored \<Rightarrow> session_error + oauth_data" where
  "oauth_result v = (case v of StoredState d \<Rightarrow> Inr d | StoredSession _ \<Rightarrow> Inl BadJSON)"

definition ValidateOAuthStateWithUser :: "string \<Rightarrow> time \<Rightarrow> (session_error + oauth_data) rprog" where
  [op_defs]: "ValidateOAuthStateWithUser st now = do {
     r \<leftarrow> oauth_get st now;
     case r of
       Inl e \<Rightarrow> ret (Inl e)
     | Inr v \<Rightarrow> do { _ \<leftarrow> oauth_del st; ret (oauth_result v) } }"

definition ValidateOAuthState :: "string \<Rightarrow> time \<Rightarrow> (session_error + string \<times> string) rprog" where
  [op_defs]: "ValidateOAuthState st now = do {
     r \<leftarrow> ValidateOAuthStateWithUser st now;
     ret (case r of Inl e \<Rightarrow> Inl e | Inr d \<Rightarrow> Inr (oa_provider d, oa_redirect d)) }"

section \<open>Rate limiter\<close>

record limit_config =
  rc_max :: int
  rc_window :: time

text \<open>The limiters the server configures.\<close>

definition server_limits :: "string \<rightharpoonup> limit_config" where
  "server_limits = [''api'' \<mapsto> \<lparr>rc_max = 100, rc_window = minute\<rparr>,
     ''api:org'' \<mapsto> \<lparr>rc_max = 500, rc_window = minute\<rparr>, ''auth'' \<mapsto> \<lparr>rc_max = 20, rc_window = minute\<rparr>,
     ''webhook'' \<mapsto> \<lparr>rc_max = 60, rc_window = minute\<rparr>,
     ''keychain_sensitive'' \<mapsto> \<lparr>rc_max = 5, rc_window = minute\<rparr>]"

definition micro :: "time \<Rightarrow> int" where
  "micro t = t div 1000"

record limit_result =
  lr_allowed :: bool
  lr_remaining :: int
  lr_reset :: time

definition redis_key :: "string \<Rightarrow> string \<Rightarrow> string" where
  "redis_key name key = ''rl:'' @ name @ '':'' @ key"

definition put_window :: "string \<Rightarrow> int list \<Rightarrow> time \<Rightarrow> redis \<Rightarrow> redis" where
  "put_window k xs e s = s\<lparr>rd_windows := (rd_windows s)(k := if xs = [] then None else Some (xs, e))\<rparr>"

definition window_expiry :: "time \<Rightarrow> string \<Rightarrow> redis \<Rightarrow> time" where
  "window_expiry now k s = (case rd_windows s k of None \<Rightarrow> now | Some (_, e) \<Rightarrow> e)"

text \<open>First pipeline: ZREMRANGEBYSCORE from 0 to the start of the window, then ZCARD.\<close>

definition prune_and_count :: "string \<Rightarrow> int \<Rightarrow> time \<Rightarrow> nat option rprog" where
  [op_defs]: "prune_and_count k from_micro now = rd_do (\<lambda>s.
     (let xs = filter (\<lambda>x. \<not> (0 \<le> x \<and> x \<le> from_micro)) (live_window now k s) in
      (length xs, put_window k xs (window_expiry now k s) s)))"

text \<open>Second pipeline: ZADD, which does not add a member twice, then EXPIRE.\<close>

definition add_stamp :: "string \<Rightarrow> time \<Rightarrow> time \<Rightarrow> unit option rprog" where
  [op_defs]: "add_stamp k ttl now = rd_do (\<lambda>s.
     (let xs = live_window now k s; m = micro now in
      ((), put_window k (if m \<in> set xs then xs else insort m xs) (now + expire_ttl ttl) s)))"

definition first_stamp :: "string \<Rightarrow> time \<Rightarrow> int list option rprog" where
  [op_defs]: "first_stamp k now = rd_do (\<lambda>s. (take 1 (live_window now k s), s))"

definition refuse :: "string \<Rightarrow> limit_config \<Rightarrow> time \<Rightarrow> limit_result rprog" where
  [op_defs]: "refuse k cfg now = do {
     es \<leftarrow> first_stamp k now;
     ret \<lparr>lr_allowed = False, lr_remaining = 0,
       lr_reset = (case es of Some (x # _) \<Rightarrow> x * 1000 + rc_window cfg | _ \<Rightarrow> now + rc_window cfg)\<rparr> }"

definition RateAllow :: "(string \<rightharpoonup> limit_config) \<Rightarrow> string \<Rightarrow> string \<Rightarrow> time \<Rightarrow> limit_result rprog" where
  [op_defs]: "RateAllow configs name key now = (case configs name of
       None \<Rightarrow> ret \<lparr>lr_allowed = True, lr_remaining = - 1, lr_reset = time_zero\<rparr>
     | Some cfg \<Rightarrow> (let k = redis_key name key in do {
         c \<leftarrow> prune_and_count k (micro (now - rc_window cfg)) now;
         case c of
           None \<Rightarrow> ret \<lparr>lr_allowed = True, lr_remaining = rc_max cfg, lr_reset = time_zero\<rparr>
         | Some n \<Rightarrow> (let remaining = rc_max cfg - int n in
             if remaining \<le> 0 then refuse k cfg now
             else do {
               _ \<leftarrow> add_stamp k (rc_window cfg + second) now;
               ret \<lparr>lr_allowed = True, lr_remaining = remaining - 1, lr_reset = now + rc_window cfg\<rparr> }) }))"

section \<open>Middleware\<close>

text \<open>The caller: the identifier of the user if authenticated, the remote address, the organisation of the claims.\<close>

record caller =
  ca_user :: "uuid option"
  ca_addr :: string
  ca_org :: "uuid option"

datatype limit_verdict = Pass | RejectOrg int | RejectClient int

definition retry_after :: "time \<Rightarrow> time \<Rightarrow> int" where
  "retry_after now reset = (if reset - now < second then 1 else (reset - now) div second)"

definition client_key :: "(uuid \<Rightarrow> string) \<Rightarrow> caller \<Rightarrow> string" where
  "client_key us c = (case ca_user c of None \<Rightarrow> ca_addr c | Some u \<Rightarrow> us u)"

definition RateLimitMiddleware ::
  "(uuid \<Rightarrow> string) \<Rightarrow> (string \<rightharpoonup> limit_config) option \<Rightarrow> string \<Rightarrow> caller \<Rightarrow> time \<Rightarrow> limit_verdict rprog" where
  [op_defs]: "RateLimitMiddleware us limiter name c now = (case limiter of
       None \<Rightarrow> ret Pass
     | Some configs \<Rightarrow> do {
         result \<leftarrow> RateAllow configs name (client_key us c) now;
         org_result \<leftarrow> (case ca_org c of
             Some g \<Rightarrow> if g \<noteq> uuid_nil then
                 do { r \<leftarrow> RateAllow configs (name @ '':org'') (us g) now; ret (Some r) }
               else ret None
           | None \<Rightarrow> ret None);
         ret (case org_result of
             Some r \<Rightarrow> if \<not> lr_allowed r then RejectOrg (retry_after now (lr_reset r))
               else if \<not> lr_allowed result then RejectClient (retry_after now (lr_reset result)) else Pass
           | None \<Rightarrow> if \<not> lr_allowed result then RejectClient (retry_after now (lr_reset result)) else Pass) })"

section \<open>The sliding window\<close>

lemma rd_do_no_faults [simp]:
  "rd_faults s = [] \<Longrightarrow> run_state (rd_do f) s = (case f s of (a, t) \<Rightarrow> (Some a, t))"
  by (simp add: rd_do_def rd_io_def split_beta apfst_def map_prod_def)

text \<open>The reference: a request is allowed if fewer than the maximum were allowed within the window before it.\<close>

definition in_window :: "time \<Rightarrow> time \<Rightarrow> int \<Rightarrow> bool" where
  "in_window w t x \<longleftrightarrow> micro (t - w) < x"

fun window_spec :: "time \<Rightarrow> int \<Rightarrow> int list \<Rightarrow> time list \<Rightarrow> bool list" where
  "window_spec w m hist [] = []"
| "window_spec w m hist (t # ts) =
     (let ok = int (length (filter (in_window w t) hist)) < m in
      ok # window_spec w m (if ok then hist @ [micro t] else hist) ts)"

fun decisions :: "(string \<rightharpoonup> limit_config) \<Rightarrow> string \<Rightarrow> string \<Rightarrow> redis \<Rightarrow> time list \<Rightarrow> bool list" where
  "decisions configs name key s [] = []"
| "decisions configs name key s (t # ts) =
     (let (r, s') = run_state (RateAllow configs name key t) s in lr_allowed r # decisions configs name key s' ts)"

definition accepted :: "time list \<Rightarrow> bool list \<Rightarrow> int list" where
  "accepted ts ds = map (micro \<circ> fst) (filter snd (zip ts ds))"

lemma micro_mono: "a \<le> b \<Longrightarrow> micro a \<le> micro b"
  by (simp add: micro_def zdiv_mono1)

lemma in_window_later: "t \<le> t' \<Longrightarrow> in_window w t' x \<Longrightarrow> in_window w t x"
  using micro_mono [of "t - w" "t' - w"] by (simp add: in_window_def)

lemma filter_later:
  "t \<le> t' \<Longrightarrow> filter (\<lambda>x. in_window w t x \<and> in_window w t' x) xs = filter (in_window w t') xs"
  by (rule filter_cong) (auto simp: in_window_later)

text \<open>What Redis holds agrees with the history from the time of the last request on.\<close>

definition tracks :: "time \<Rightarrow> string \<Rightarrow> time \<Rightarrow> int list \<Rightarrow> redis \<Rightarrow> bool" where
  "tracks w k now hist s \<longleftrightarrow> rd_faults s = [] \<and> sorted hist \<and> (\<forall>x\<in>set hist. 0 \<le> x) \<and>
     (\<forall>t\<ge>now. filter (in_window w t) (live_window t k s) = filter (in_window w t) hist \<and>
       set (live_window t k s) \<subseteq> set hist)"

definition pruned :: "time \<Rightarrow> string \<Rightarrow> time \<Rightarrow> redis \<Rightarrow> redis" where
  "pruned w k now s = put_window k (filter (in_window w now) (live_window now k s)) (window_expiry now k s) s"

lemma live_put: "live_window t k (put_window k xs e s) = (if t < e then xs else [])"
  by (simp add: live_window_def put_window_def)

lemma put_window_faults [simp]: "rd_faults (put_window k xs e s) = rd_faults s"
  by (simp add: put_window_def)

lemma prune_and_count_run:
  assumes "tracks w k now hist s"
  shows "run_state (prune_and_count k (micro (now - w)) now) s =
    (Some (length (filter (in_window w now) hist)), pruned w k now s)"
proof -
  have "filter (\<lambda>x. \<not> (0 \<le> x \<and> x \<le> micro (now - w))) (live_window now k s) = filter (in_window w now) (live_window now k s)"
    using assms by (intro filter_cong) (auto simp: tracks_def in_window_def)
  with assms show ?thesis by (simp add: prune_and_count_def tracks_def pruned_def Let_def)
qed

lemma live_expired: "window_expiry now k s \<le> t \<Longrightarrow> now \<le> t \<Longrightarrow> live_window t k s = []"
  by (auto simp: live_window_def window_expiry_def split: option.splits)

lemma tracks_pruned:
  assumes "tracks w k now hist s"
  shows "tracks w k now hist (pruned w k now s)"
proof -
  have eq: "filter (in_window w now) (live_window now k s) = filter (in_window w now) hist"
    using assms by (simp add: tracks_def)
  have "filter (in_window w t) (live_window t k (pruned w k now s)) = filter (in_window w t) hist \<and>
      set (live_window t k (pruned w k now s)) \<subseteq> set hist" if t: "now \<le> t" for t
  proof (cases "t < window_expiry now k s")
    case True
    then show ?thesis by (auto simp: pruned_def live_put eq filter_later [OF t])
  next
    case False
    then have "filter (in_window w t) hist = []"
      using assms t live_expired [of now k s t] by (simp add: tracks_def) (metis filter.simps(1) linorder_not_less)
    with False show ?thesis by (simp add: pruned_def live_put)
  qed
  with assms show ?thesis by (simp add: tracks_def pruned_def)
qed

lemma expire_ttl_gt: "0 \<le> w \<Longrightarrow> w < expire_ttl (w + second)"
  using pos_mod_bound [of second "w + second"] minus_mod_eq_div_mult [of "w + second" second]
  by (simp add: expire_ttl_def whole_second_def second_def)

lemma add_stamp_tracks:
  assumes "tracks w k now hist s" and "\<forall>x\<in>set hist. x < micro now" and "0 \<le> w" and "0 \<le> micro now"
  shows "tracks w k now (hist @ [micro now]) (snd (run_state (add_stamp k (w + second) now) (pruned w k now s)))"
proof -
  let ?e = "now + expire_ttl (w + second)" and ?xs = "filter (in_window w now) hist"
  have f: "rd_faults (pruned w k now s) = []" and srt: "sorted hist"
    and nn: "\<forall>x\<in>set hist. 0 \<le> x" using assms(1) by (simp_all add: tracks_def pruned_def)
  have live: "live_window now k (pruned w k now s) = ?xs"
  proof (cases "now < window_expiry now k s")
    case True
    then show ?thesis using assms(1) by (simp add: pruned_def live_put tracks_def)
  next
    case False
    then have "live_window now k s = []" by (intro live_expired) auto
    then have "?xs = []" using assms(1) by (simp add: tracks_def) (metis filter.simps(1) order_refl)
    with False show ?thesis by (simp add: pruned_def live_put)
  qed
  have "insort (micro now) ?xs = ?xs @ [micro now]"
    using assms(2) srt by (intro sorted_insort_is_snoc) (auto simp: sorted_wrt_filter less_imp_le)
  moreover have "micro now \<notin> set ?xs" using assms(2) by auto
  ultimately have run: "snd (run_state (add_stamp k (w + second) now) (pruned w k now s)) =
      put_window k (?xs @ [micro now]) ?e (pruned w k now s)"
    by (auto simp: add_stamp_def f live Let_def)
  have "filter (in_window w t) (live_window t k (put_window k (?xs @ [micro now]) ?e (pruned w k now s))) =
      filter (in_window w t) (hist @ [micro now]) \<and>
      set (live_window t k (put_window k (?xs @ [micro now]) ?e (pruned w k now s))) \<subseteq> set (hist @ [micro now])"
    if t: "now \<le> t" for t
  proof (cases "t < ?e")
    case True
    then show ?thesis by (auto simp: live_put filter_later [OF t])
  next
    case False
    then have "now \<le> t - w" using expire_ttl_gt [OF assms(3)] by simp
    then have "micro now \<le> micro (t - w)" by (rule micro_mono)
    then have "\<forall>x\<in>set (hist @ [micro now]). \<not> in_window w t x" using assms(2) by (auto simp: in_window_def)
    then have "filter (in_window w t) (hist @ [micro now]) = []" by (simp only: filter_empty_conv) 
    with False show ?thesis by (simp add: live_put)
  qed
  moreover have "sorted (hist @ [micro now])" using srt assms(2) by (auto simp: sorted_append less_imp_le)
  ultimately show ?thesis using f nn assms(4) by (simp add: tracks_def run)
qed

lemma RateAllow_step:
  assumes "tracks w k now hist s" and "configs name = Some \<lparr>rc_max = m, rc_window = w\<rparr>"
    and "k = redis_key name key" and "\<forall>x\<in>set hist. x < micro now" and "0 \<le> w" and "0 \<le> micro now"
  shows "let ok = int (length (filter (in_window w now) hist)) < m in
    lr_allowed (fst (run_state (RateAllow configs name key now) s)) = ok \<and>
    tracks w k now (if ok then hist @ [micro now] else hist) (snd (run_state (RateAllow configs name key now) s))"
proof -
  note prune = prune_and_count_run [OF assms(1)] tracks_pruned [OF assms(1)] add_stamp_tracks [OF assms(1,4,5,6)]
  have f: "rd_faults (pruned w k now s) = []" using assms(1) by (simp add: tracks_def pruned_def)
  show ?thesis
    using prune f
    by (auto simp: RateAllow_def assms(2) assms(3) [symmetric] Let_def split_beta refuse_def first_stamp_def)
qed

lemma decisions_spec:
  assumes "tracks w k now hist s" and "configs name = Some \<lparr>rc_max = m, rc_window = w\<rparr>"
    and "k = redis_key name key" and "\<forall>x\<in>set hist. x \<le> micro now" and "0 \<le> w" and "0 \<le> micro now"
    and "sorted_wrt (\<lambda>a b. micro a < micro b) (now # ts)"
  shows "decisions configs name key s ts = window_spec w m hist ts"
  using assms(1,4,6,7)
proof (induction ts arbitrary: now hist s)
  case (Cons t ts)
  have t: "now \<le> t" "micro now < micro t" using Cons.prems(4) micro_mono [of t now] by force+
  have tr: "tracks w k t hist s" using Cons.prems(1) t(1) by (auto simp: tracks_def)
  have h: "\<forall>x\<in>set hist. x < micro t" using Cons.prems(2) t(2) by auto
  let ?ok = "int (length (filter (in_window w t) hist)) < m" and ?s = "snd (run_state (RateAllow configs name key t) s)"
  have step: "lr_allowed (fst (run_state (RateAllow configs name key t) s)) = ?ok"
    "tracks w k t (if ?ok then hist @ [micro t] else hist) ?s"
    using RateAllow_step [where configs = configs and name = name and key = key, OF tr assms(2,3) h assms(5)] t(2) Cons.prems(3) by (simp_all add: Let_def)
  have "decisions configs name key ?s ts = window_spec w m (if ?ok then hist @ [micro t] else hist) ts"
    by (rule Cons.IH [OF step(2)]) (use h t(2) Cons.prems(3,4) in \<open>auto simp: less_imp_le\<close>)
  then show ?case using step(1) by (simp add: Let_def split_beta)
qed simp

lemma window_spec_bound:
  assumes "sorted_wrt (\<lambda>a b. micro a < micro b) ts" and "\<forall>t\<in>set ts. int (length (filter (in_window w t) hist)) \<le> m"
    and "i < length ts"
  shows "int (length (filter (in_window w (ts ! i)) (hist @ accepted (take (Suc i) ts) (window_spec w m hist ts)))) \<le> m"
  using assms
proof (induction ts arbitrary: hist i)
  case (Cons t ts)
  let ?ok = "int (length (filter (in_window w t) hist)) < m"
  let ?h = "if ?ok then hist @ [micro t] else hist"
  have later: "t \<le> t'" if "t' \<in> set ts" for t'
    using Cons.prems(1) that micro_mono [of t' t] by force
  have bound: "int (length (filter (in_window w t') ?h)) \<le> m" if "t' \<in> set (t # ts)" for t'
  proof (cases ?ok)
    case True
    have "length (filter (in_window w t') hist) \<le> length (filter (in_window w t) hist)"
      using that later filter_later [of t t' w hist] length_filter_le [of "in_window w t'" "filter (in_window w t) hist"]
      by (cases "t' = t") (auto simp: )
    with True show ?thesis by auto
  qed (use that Cons.prems(2) in auto)
  show ?case
  proof (cases i)
    case 0
    then show ?thesis using bound [of t] by (auto simp: accepted_def Let_def)
  next
    case (Suc j)
    have "int (length (filter (in_window w (ts ! j)) (?h @ accepted (take (Suc j) ts) (window_spec w m ?h ts)))) \<le> m"
      by (rule Cons.IH) (use Cons.prems Suc bound in auto)
    with Suc show ?thesis by (auto simp: accepted_def Let_def)
  qed
qed simp

text \<open>
  C4: with Redis up, requests at different microseconds are decided exactly as a sliding window
  demands: a request passes if and only if fewer than the maximum passed within the window before it,
  so no window ever holds more than the maximum.
\<close>

theorem RateAllow_is_sliding_window:
  assumes "configs name = Some \<lparr>rc_max = m, rc_window = w\<rparr>" and "0 \<le> w" and "0 \<le> m"
    and "rd_faults s = []" and "rd_windows s (redis_key name key) = None"
    and "sorted_wrt (\<lambda>a b. micro a < micro b) ts" and "\<forall>t\<in>set ts. 0 < t"
  shows "decisions configs name key s ts = window_spec w m [] ts \<and>
    (\<forall>i<length ts. int (length (filter (in_window w (ts ! i)) (accepted (take (Suc i) ts) (decisions configs name key s ts)))) \<le> m)"
proof -
  have eq: "decisions configs name key s ts = window_spec w m [] ts"
  proof (cases ts)
    case (Cons t ts')
    have tr: "tracks w (redis_key name key) t [] s"
      using assms(4,5) by (simp add: tracks_def live_window_def)
    have m: "0 \<le> micro t" using assms(7) Cons by (simp add: micro_def pos_imp_zdiv_nonneg_iff)
    from RateAllow_step [where configs = configs and name = name and key = key, OF tr assms(1) refl _ assms(2) m]
    have step: "lr_allowed (fst (run_state (RateAllow configs name key t) s)) = (0 < m)"
      "tracks w (redis_key name key) t (if 0 < m then [micro t] else []) (snd (run_state (RateAllow configs name key t) s))"
      by (cases "0 < m"; simp add: Let_def)+
    have "decisions configs name key (snd (run_state (RateAllow configs name key t) s)) ts' =
        window_spec w m (if 0 < m then [micro t] else []) ts'"
      by (rule decisions_spec [where configs = configs and name = name and key = key, OF step(2) assms(1) refl _ assms(2) m]) (use assms(6) Cons in auto)
    with step(1) show ?thesis by (simp add: Cons Let_def split_beta)
  qed simp
  show ?thesis
    using eq window_spec_bound [OF assms(6), of w "[]" m] assms(3) by simp
qed

lemma RateAllow_is_sliding_window_witness:
  "let s = \<lparr>rd_values = Map.empty, rd_windows = Map.empty, rd_faults = []\<rparr>;
       ts = [second, 2 * second, 3 * second, 62 * second] in
   decisions [''x'' \<mapsto> \<lparr>rc_max = 2, rc_window = minute\<rparr>] ''x'' ''k'' s ts = [True, True, False, True]"
proof -
  let ?s = "\<lparr>rd_values = Map.empty, rd_windows = Map.empty, rd_faults = []\<rparr>"
  let ?ts = "[second, 2 * second, 3 * second, 62 * second]"
  have "decisions [''x'' \<mapsto> \<lparr>rc_max = 2, rc_window = minute\<rparr>] ''x'' ''k'' ?s ?ts = window_spec minute 2 [] ?ts"
    by (rule RateAllow_is_sliding_window [THEN conjunct1])
      (simp_all add: micro_def second_def minute_def)
  then show ?thesis by (simp add: in_window_def micro_def second_def minute_def)
qed

section \<open>Gaps of the limiter\<close>

lemma live_window_other: "k' \<noteq> k \<Longrightarrow> live_window t k' (put_window k xs e s) = live_window t k' s"
  by (simp add: live_window_def put_window_def)

text \<open>Requests in the same microsecond share one member of the sorted set.\<close>

lemma same_microsecond_unlimited:
  assumes "configs name = Some \<lparr>rc_max = m, rc_window = w\<rparr>" and "1 < m" and "0 \<le> w" and "1000 \<le> now"
    and "rd_faults s = []" and "live_window now (redis_key name key) s \<in> {[], [micro now]}"
  shows "decisions configs name key s (replicate n now) = replicate n True"
  using assms(5,6)
proof (induction n arbitrary: s)
  case (Suc n)
  let ?k = "redis_key name key"
  let ?t = "snd (run_state (RateAllow configs name key now) s)"
  have pos: "0 \<le> micro now" "now < now + expire_ttl (w + second)"
    using assms(3,4) expire_ttl_gt [OF assms(3)] by (simp_all add: micro_def pos_imp_zdiv_nonneg_iff)
  have le: "length (filter (\<lambda>x. 0 \<le> x \<longrightarrow> \<not> x \<le> micro (now - w)) (live_window now ?k s)) \<le> 1"
    using Suc.prems(2) by auto
  have "lr_allowed (fst (run_state (RateAllow configs name key now) s)) \<and> rd_faults ?t = [] \<and>
      live_window now ?k ?t \<in> {[], [micro now]}"
    using Suc.prems le assms(2) pos
    by (auto simp: RateAllow_def assms(1) Let_def prune_and_count_def add_stamp_def split_beta live_put split: if_splits)
  then show ?case using Suc.IH [of ?t] by (simp add: Let_def split_beta)
qed simp

text \<open>
  a client over its own limit still spends the budget of its organisation: the request is
  rejected, and yet its stamp enters the window of the organisation.
\<close>

lemma throttled_client_spends_org_budget:
  assumes "configs name = Some cfg" and "configs (name @ '':org'') = Some org_cfg"
    and "rd_faults s = []" and "ca_org c = Some g" and "g \<noteq> uuid_nil"
    and "redis_key name (client_key us c) \<noteq> redis_key (name @ '':org'') (us g)"
    and "rc_max cfg \<le> int (length (filter (in_window (rc_window cfg) now) (live_window now (redis_key name (client_key us c)) s)))"
    and "int (length (live_window now (redis_key (name @ '':org'') (us g)) s)) < rc_max org_cfg"
    and "0 \<le> rc_window org_cfg"
  shows "\<exists>retry t. run_state (RateLimitMiddleware us (Some configs) name c now) s = (RejectClient retry, t) \<and>
    micro now \<in> set (live_window now (redis_key (name @ '':org'') (us g)) t)"
proof -
  let ?k = "redis_key name (client_key us c)" and ?o = "redis_key (name @ '':org'') (us g)"
  have le: "length (filter (in_window (rc_window cfg) now) xs) \<le>
      length (filter (\<lambda>x. 0 \<le> x \<longrightarrow> \<not> x \<le> micro (now - rc_window cfg)) xs)" for xs
    by (induction xs) (auto simp: in_window_def)
  define t1 where "t1 = snd (run_state (RateAllow configs name (client_key us c) now) s)"
  have client: "\<not> lr_allowed (fst (run_state (RateAllow configs name (client_key us c) now) s))"
    "rd_faults t1 = []" "live_window now ?o t1 = live_window now ?o s"
    using assms(3,6,7) le [of "live_window now ?k s"] unfolding t1_def
    by (auto simp: RateAllow_def assms(1) Let_def prune_and_count_def refuse_def first_stamp_def split_beta
        live_window_other split: if_splits)
  define t2 where "t2 = snd (run_state (RateAllow configs (name @ '':org'') (us g) now) t1)"
  have few: "\<not> rc_max org_cfg \<le> int (length (filter p (live_window now ?o t1)))" for p
    unfolding client(3) not_le by (rule le_less_trans [OF _ assms(8)]) simp
  have ttl: "now < now + expire_ttl (rc_window org_cfg + second)"
    using expire_ttl_gt [OF assms(9)] assms(9) by simp
  have org: "lr_allowed (fst (run_state (RateAllow configs (name @ '':org'') (us g) now) t1))"
    "micro now \<in> set (live_window now ?o t2)"
    using client(2) ttl unfolding t2_def
    by (auto simp: RateAllow_def assms(2) Let_def prune_and_count_def add_stamp_def split_beta live_put
        set_insort_key few)
  show ?thesis
    using client(1) org
    by (auto simp: RateLimitMiddleware_def assms(4,5) split_beta t1_def [symmetric] t2_def [symmetric])
qed

definition full_window :: redis where
  "full_window = \<lparr>rd_values = Map.empty, rd_windows = [redis_key ''api'' ''u'' \<mapsto> ([micro second], 90 * second)],
     rd_faults = []\<rparr>"

section \<open>Sessions and OAuth states\<close>

text \<open>
  An OAuth state is accepted once: after a validation that succeeded the state is gone; if the
  delete command fails, which the code ignores, the same state is accepted again until it expires.
\<close>

lemma oauth_state_use:
  assumes "live_value now (''oauth_state:'' @ st) s = Some (StoredState d)"
  shows "(rd_faults s = [] \<longrightarrow>
      fst (run_state (ValidateOAuthStateWithUser st now) s) = Inr d \<and>
      fst (run_state (ValidateOAuthStateWithUser st now') (snd (run_state (ValidateOAuthStateWithUser st now) s))) = Inl BadState) \<and>
    (rd_faults s = [False, True] \<longrightarrow>
      fst (run_state (ValidateOAuthStateWithUser st now) (snd (run_state (ValidateOAuthStateWithUser st now) s))) = Inr d)"
  using assms
  by (auto simp: ValidateOAuthStateWithUser_def oauth_get_def oauth_del_def oauth_result_def rd_do_def rd_io_def
      live_value_def del_value_def)

definition demo_state :: oauth_data where
  "demo_state = \<lparr>oa_provider = ''github'', oa_redirect = ''/'', oa_user = [], oa_org = []\<rparr>"

lemma oauth_state_use_witness:
  "let s = \<lparr>rd_values = [''oauth_state:abc'' \<mapsto> (StoredState demo_state, 600)], rd_windows = Map.empty, rd_faults = []\<rparr> in
   fst (run_state (ValidateOAuthStateWithUser ''abc'' 1) s) = Inr demo_state \<and>
   fst (run_state (ValidateOAuthStateWithUser ''abc'' 2) (snd (run_state (ValidateOAuthStateWithUser ''abc'' 1) s))) = Inl BadState"
  using oauth_state_use [of 1 "''abc''" "\<lparr>rd_values = [''oauth_state:abc'' \<mapsto> (StoredState demo_state, 600)],
      rd_windows = Map.empty, rd_faults = []\<rparr>" demo_state 2]
  by (simp add: live_value_def)

text \<open>Two requests that both read the state before one deletes it are both accepted.\<close>

lemma oauth_state_race:
  assumes "live_value now (''oauth_state:'' @ st) s = Some (StoredState d)" and "rd_faults s = []"
  shows "fst (run_state (oauth_get st now) s) = Inr (StoredState d) \<and>
    fst (run_state (oauth_get st now) (snd (run_state (oauth_get st now) s))) = Inr (StoredState d)"
  using assms by (simp add: oauth_get_def)

text \<open>A session is found until its time to live has passed since it was created or last refreshed.\<close>

lemma session_lifetime:
  assumes "rd_faults s = []" and "second \<le> ttl" and "run_state (SessionCreate us ttl d i t0) s = (r, s1)"
    and "t0 \<le> t1" and "t1 < t0 + ttl" and "snd (run_state (SessionRefresh ttl (us i) t1) s1) = s2"
  shows "fst (run_state (SessionGet (us i) t) s1) = (if t < t0 + ttl then Inr (d\<lparr>sd_created_at := t0\<rparr>) else Inl NoSession)"
    and "fst (run_state (SessionGet (us i) t) s2) =
      (if t < t1 + whole_second ttl then Inr (d\<lparr>sd_created_at := t0\<rparr>) else Inl NoSession)"
  using assms
  by (auto simp: SessionCreate_def SessionGet_def SessionRefresh_def set_value_def live_value_def expire_ttl_def
      second_def)

end
