(* ===== verification/AuthAPI.thy ===== *)
theory AuthAPI
  imports AccountAPI AgentAuth Session
begin

text \<open>
  \<open>internal/auth\<close> (\<open>jwt.go\<close>, \<open>middleware.go\<close>, the provider registry of \<open>oauth2.go\<close>) and the login
  endpoints of \<open>internal/api/handlers.go\<close>.  The state pairs the account tables with Redis.  Signing and
  parsing of tokens, the OAuth providers and the encryption of provider tokens are parameters.  Cookies
  carry the same tokens as the answer.
\<close>

section \<open>Tokens\<close>

datatype token_error = ErrTokenExpired | ErrTokenInvalid | ErrTokenMalformed | ErrMissingClaims | ErrSigning

record jwt_manager =
  jm_issuer :: string
  jm_access :: time
  jm_refresh :: time
  jm_us :: "uuid \<Rightarrow> string"
  jm_sign :: "jwt_claims \<Rightarrow> string option"
  jm_parse :: "time \<Rightarrow> string \<Rightarrow> token_error + jwt_claims"

definition generateToken ::
  "jwt_manager \<Rightarrow> uuid \<Rightarrow> string \<Rightarrow> string \<Rightarrow> string \<Rightarrow> uuid \<Rightarrow> string \<Rightarrow> time \<Rightarrow> uuid \<Rightarrow> time \<Rightarrow> token_error + string" where
  "generateToken m u email name role org_id ty duration jti now =
     (case jm_sign m \<lparr>jc_user = u, jc_email = email, jc_name = name, jc_role = role, jc_org = org_id, jc_type = ty,
         jc_issuer = jm_issuer m, jc_subject = jm_us m u, jc_issued = whole_second now,
         jc_expires = whole_second (now + duration), jc_id = jti\<rparr> of
       None \<Rightarrow> Inl ErrSigning | Some t \<Rightarrow> Inr t)"

definition GenerateAccessToken ::
  "jwt_manager \<Rightarrow> uuid \<Rightarrow> string \<Rightarrow> string \<Rightarrow> string \<Rightarrow> uuid \<Rightarrow> uuid \<Rightarrow> time \<Rightarrow> token_error + string" where
  "GenerateAccessToken m u email name role org_id jti now =
     generateToken m u email name role org_id ''access'' (jm_access m) jti now"

definition GenerateRefreshToken :: "jwt_manager \<Rightarrow> uuid \<Rightarrow> uuid \<Rightarrow> time \<Rightarrow> token_error + string" where
  "GenerateRefreshToken m u jti now = generateToken m u [] [] [] uuid_nil ''refresh'' (jm_refresh m) jti now"

definition ValidateUserToken :: "jwt_manager \<Rightarrow> time \<Rightarrow> string \<Rightarrow> token_error + jwt_claims" where
  "ValidateUserToken m now tok = (case jm_parse m now tok of
       Inl e \<Rightarrow> Inl (if e = ErrTokenExpired then ErrTokenExpired else ErrTokenInvalid)
     | Inr c \<Rightarrow> if jc_user c = uuid_nil then Inl ErrMissingClaims else Inr c)"

record token_pair =
  tp_access :: string
  tp_refresh :: string
  tp_type :: string
  tp_expires_in :: int

definition GenerateTokenPair ::
  "jwt_manager \<Rightarrow> uuid \<Rightarrow> string \<Rightarrow> string \<Rightarrow> string \<Rightarrow> uuid \<Rightarrow> uuid \<Rightarrow> uuid \<Rightarrow> time \<Rightarrow> token_error + token_pair" where
  "GenerateTokenPair m u email name role org_id jti1 jti2 now =
     (case GenerateAccessToken m u email name role org_id jti1 now of
       Inl e \<Rightarrow> Inl e
     | Inr a \<Rightarrow> (case GenerateRefreshToken m u jti2 now of
         Inl e \<Rightarrow> Inl e
       | Inr r \<Rightarrow> Inr \<lparr>tp_access = a, tp_refresh = r, tp_type = ''Bearer'', tp_expires_in = jm_access m div second\<rparr>))"

section \<open>Middleware\<close>

record http_auth =
  ha_header :: string
  ha_cookies :: "(string \<times> string) list"

definition bearer_of_header :: "string \<Rightarrow> string" where
  "bearer_of_header h = (let parts = split_n CHR '' '' 2 h in
     if h \<noteq> [] \<and> length parts = 2 \<and> to_lower (parts ! 0) = ''bearer'' then trim_space (parts ! 1) else [])"

definition cookie :: "http_auth \<Rightarrow> string \<Rightarrow> string option" where
  "cookie h name = map_of (ha_cookies h) name"

text \<open>A header without a usable token falls through to the cookies.\<close>

definition userBearerToken :: "http_auth \<Rightarrow> string" where
  "userBearerToken h =
     (if bearer_of_header (ha_header h) \<noteq> [] then bearer_of_header (ha_header h)
      else case cookie h ''token'' of
        Some v \<Rightarrow> if v \<noteq> [] then v else (case cookie h ''access_token'' of Some w \<Rightarrow> w | None \<Rightarrow> [])
      | None \<Rightarrow> (case cookie h ''access_token'' of Some w \<Rightarrow> w | None \<Rightarrow> []))"

text \<open>\<open>Middleware\<close>: the handler runs with the claims of an access token or the answer is 401.\<close>

definition auth_middleware :: "jwt_manager \<Rightarrow> time \<Rightarrow> http_auth \<Rightarrow> (jwt_claims option \<Rightarrow> ('s, 'b resp) state) \<Rightarrow> ('s, 'b resp) state" where
  "auth_middleware m now h handler =
     (let tok = userBearerToken h in
      if tok = [] then ret (Fail 401)
      else case ValidateUserToken m now tok of
        Inl _ \<Rightarrow> ret (Fail 401)
      | Inr c \<Rightarrow> if jc_type c \<noteq> ''access'' then ret (Fail 401) else handler (Some c))"

definition RequireRole :: "string list \<Rightarrow> jwt_claims option \<Rightarrow> ('s, 'b resp) state \<Rightarrow> ('s, 'b resp) state" where
  "RequireRole roles cl k = (case cl of
       None \<Rightarrow> ret (Fail 401)
     | Some c \<Rightarrow> if jc_role c \<in> set roles then k else ret (Fail 403))"

definition RequireOrg :: "jwt_claims option \<Rightarrow> ('s, 'b resp) state \<Rightarrow> ('s, 'b resp) state" where
  "RequireOrg cl k = (case cl of
       None \<Rightarrow> ret (Fail 403)
     | Some c \<Rightarrow> if jc_org c = uuid_nil then ret (Fail 403) else k)"

section \<open>Providers\<close>

record provider_token =
  pt_access :: string
  pt_refresh :: string
  pt_expiry :: "time option"

record oauth_user =
  ou_id :: string
  ou_email :: string
  ou_name :: string
  ou_avatar :: string
  ou_access :: string

record provider =
  pv_auth_url :: "string \<Rightarrow> string"
  pv_exchange :: "string \<Rightarrow> string \<Rightarrow> provider_token option"
  pv_user :: "provider_token \<Rightarrow> oauth_user option"

text \<open>The registry: an association list, one entry per name.\<close>

type_synonym registry = "(string \<times> provider) list"

definition register_provider :: "string \<Rightarrow> provider \<Rightarrow> registry \<Rightarrow> registry" where
  "register_provider name p reg = AList.update name p reg"

definition get_provider :: "registry \<Rightarrow> string \<Rightarrow> provider option" where
  "get_provider reg name = map_of reg name"

definition display_names :: "string \<rightharpoonup> string" where
  "display_names = [''github'' \<mapsto> ''GitHub'', ''gitlab'' \<mapsto> ''GitLab'', ''google'' \<mapsto> ''Google'', ''microsoft'' \<mapsto> ''Microsoft'',
     ''bitbucket'' \<mapsto> ''Bitbucket'', ''linkedin'' \<mapsto> ''LinkedIn'', ''apple'' \<mapsto> ''Apple'', ''x'' \<mapsto> ''X'']"

definition ListProviders :: "registry \<Rightarrow> (string \<times> string) list resp" where
  "ListProviders reg = Reply 200 (map (\<lambda>(n, _). (n, case display_names n of Some dn \<Rightarrow> dn | None \<Rightarrow> n)) reg)"

section \<open>Login\<close>

type_synonym 'a lprog = "(account_state \<times> redis, 'a) state"

record login_cfg =
  lc_registry :: registry
  lc_jwt :: jwt_manager
  lc_encrypt :: "string \<Rightarrow> string option"

text \<open>\<open>st\<close> is the hexadecimal text of 16 random bytes; the answer redirects to the provider.\<close>

definition OAuthLogin :: "login_cfg \<Rightarrow> string \<Rightarrow> string \<Rightarrow> string \<Rightarrow> time \<Rightarrow> string resp lprog" where
  [op_defs]: "OAuthLogin cfg name redirect st now = (case get_provider (lc_registry cfg) name of
       None \<Rightarrow> ret (Fail 400)
     | Some p \<Rightarrow> or_fail 500 (on_snd (StoreOAuthState st name (if redirect = [] then ''/'' else redirect) now))
         (\<lambda>_. ret (Reply 307 (pv_auth_url p st))))"

text \<open>The user with the email of the profile, created if there is none.\<close>

definition find_or_create :: "oauth_user \<Rightarrow> uuid \<Rightarrow> string \<Rightarrow> time \<Rightarrow> (store_error + account) aprog" where
  [op_defs]: "find_or_create ou new_id vault now = do {
     r \<leftarrow> GetByEmail (ou_email ou);
     case r of
       Inr u \<Rightarrow> ret (Inr u)
     | Inl ErrNotFound \<Rightarrow> UserCreate \<lparr>us_id = uuid_nil, us_email = ou_email ou, us_name = ou_name ou, us_avatar = ou_avatar ou,
         us_vault = [], us_created = 0, us_updated = 0\<rparr> new_id vault now
     | Inl e \<Rightarrow> ret (Inl e) }"

datatype login_answer = Redirected string token_pair | Answered token_pair

definition redirect_target :: "string \<Rightarrow> token_pair \<Rightarrow> string" where
  "redirect_target url p = url @ (if CHR ''?'' \<in> set url then ''&'' else ''?'') @ ''token='' @ tp_access p @
     ''&refresh_token='' @ tp_refresh p"

definition link_identity :: "login_cfg \<Rightarrow> account \<Rightarrow> string \<Rightarrow> oauth_user \<Rightarrow> provider_token \<Rightarrow> bool aprog" where
  [op_defs]: "link_identity cfg u name ou t = (case (lc_encrypt cfg (ou_access ou), lc_encrypt cfg (pt_refresh t)) of
       (Some a, Some r) \<Rightarrow> do {
         _ \<leftarrow> UpsertOAuthIdentity \<lparr>id_user = us_id u, id_provider = name, id_external = ou_id ou, id_access = a,
           id_refresh = r, id_scopes = ''read'', id_expires = pt_expiry t\<rparr>;
         ret True }
     | _ \<Rightarrow> ret False)"

definition user_tokens :: "login_cfg \<Rightarrow> account \<Rightarrow> uuid \<Rightarrow> uuid \<Rightarrow> time \<Rightarrow> token_error + token_pair" where
  "user_tokens cfg u jti1 jti2 now =
     GenerateTokenPair (lc_jwt cfg) (us_id u) (us_email u) (us_name u) ''user'' uuid_nil jti1 jti2 now"

definition finish_login ::
  "login_cfg \<Rightarrow> account \<Rightarrow> string \<Rightarrow> uuid \<Rightarrow> uuid \<Rightarrow> time \<Rightarrow> login_answer resp aprog" where
  [op_defs]: "finish_login cfg u redirect jti1 jti2 now = (case user_tokens cfg u jti1 jti2 now of
       Inl _ \<Rightarrow> ret (Fail 500)
     | Inr p \<Rightarrow> do {
         _ \<leftarrow> LogRequest None ''auth.login'' ''user'' (jm_us (lc_jwt cfg) (us_id u));
         ret (if redirect \<noteq> [] \<and> redirect \<noteq> ''/'' then Reply 307 (Redirected (redirect_target redirect p) p)
              else Reply 200 (Answered p)) })"

definition OAuthCallback ::
  "login_cfg \<Rightarrow> string \<Rightarrow> string \<Rightarrow> uuid \<Rightarrow> string \<Rightarrow> uuid \<Rightarrow> uuid \<Rightarrow> time \<Rightarrow> login_answer resp lprog" where
  [op_defs]: "OAuthCallback cfg st auth_code new_id vault jti1 jti2 now =
     (if st = [] \<or> auth_code = [] then ret (Fail 400)
      else or_fail 400 (on_snd (ValidateOAuthState st now)) (\<lambda>(name, redirect).
        case get_provider (lc_registry cfg) name of
          None \<Rightarrow> ret (Fail 400)
        | Some p \<Rightarrow> (case pv_exchange p auth_code st of
            None \<Rightarrow> ret (Fail 502)
          | Some t \<Rightarrow> (case pv_user p t of
              None \<Rightarrow> ret (Fail 502)
            | Some ou \<Rightarrow> or_fail 500 (on_fst (find_or_create ou new_id vault now)) (\<lambda>u. do {
                ok \<leftarrow> on_fst (link_identity cfg u name ou t);
                if \<not> ok then ret (Fail 500) else on_fst (finish_login cfg u redirect jti1 jti2 now) })))))"

text \<open>The body is the refresh token; without a readable body the cookie is used.\<close>

definition RefreshToken :: "login_cfg \<Rightarrow> string option \<Rightarrow> http_auth \<Rightarrow> uuid \<Rightarrow> uuid \<Rightarrow> time \<Rightarrow> token_pair resp aprog" where
  [op_defs]: "RefreshToken cfg body h jti1 jti2 now =
     (case (case body of Some t \<Rightarrow> Some t | None \<Rightarrow> cookie h ''refresh_token'') of
       None \<Rightarrow> ret (Fail 400)
     | Some tok \<Rightarrow> (case ValidateUserToken (lc_jwt cfg) now tok of
         Inl _ \<Rightarrow> ret (Fail 401)
       | Inr c \<Rightarrow>
           if jc_type c \<noteq> ''refresh'' then ret (Fail 401)
           else or_code (\<lambda>_. 401) (UserGetByID (jc_user c)) (\<lambda>u.
             ret (case user_tokens cfg u jti1 jti2 now of Inl _ \<Rightarrow> Fail 500 | Inr p \<Rightarrow> Reply 200 p))))"

text \<open>The answer expires both cookies.\<close>

definition Logout :: "jwt_claims option \<Rightarrow> unit resp aprog" where
  [op_defs]: "Logout cl = do { _ \<leftarrow> LogRequest cl ''auth.logout'' ''user'' []; ret (Reply 200 ()) }"

end
