(* ===== verification/AccountStore.thy ===== *)
theory AccountStore
  imports ReviewPipeline AuthAPI
begin

text \<open>
  The invariant of the account tables and its preservation by every statement that the endpoints and
  the review pipeline issue.  \<open>table_write\<close> lists these statements with what the callers guarantee about
  their arguments: roles, platforms and severities come from the validated sets, a repository has a
  webhook secret, and a new user has an identifier that is not nil.
\<close>

section \<open>The invariant\<close>

definition org_roles :: "string set" where
  "org_roles = {''owner'', ''admin'', ''member'', ''viewer''}"

definition grant_roles :: "string set" where
  "grant_roles = {''admin'', ''reviewer'', ''viewer''}"

definition unique_rows :: "account_db \<Rightarrow> bool" where
  "unique_rows d \<longleftrightarrow>
     distinct (map us_id (ac_users d)) \<and> distinct (map us_email (ac_users d)) \<and> distinct (map us_vault (ac_users d)) \<and>
     distinct (map (\<lambda>x. (id_provider x, id_external x)) (ac_identities d)) \<and>
     distinct (map o_id (ac_orgs d)) \<and> distinct (map o_slug (ac_orgs d)) \<and>
     distinct (map (\<lambda>m. (m_org m, m_user m)) (ac_members d)) \<and>
     distinct (map rp_id (ac_repos d)) \<and> distinct (map (\<lambda>r. (rp_platform r, rp_external r)) (ac_repos d)) \<and>
     distinct (map (\<lambda>g. (rg_repo g, rg_user g)) (ac_grants d)) \<and>
     distinct (map rv_id (ac_reviews d)) \<and> distinct (map rc_id (ac_comments d)) \<and> distinct (map we_id (ac_webhooks d))"

definition user_ids :: "account_db \<Rightarrow> uuid set" where "user_ids d = us_id ` set (ac_users d)"
definition org_ids :: "account_db \<Rightarrow> uuid set" where "org_ids d = o_id ` set (ac_orgs d)"
definition repo_ids :: "account_db \<Rightarrow> uuid set" where "repo_ids d = rp_id ` set (ac_repos d)"
definition review_ids :: "account_db \<Rightarrow> uuid set" where "review_ids d = rv_id ` set (ac_reviews d)"

definition account_refs_ok :: "account_db \<Rightarrow> bool" where
  "account_refs_ok d \<longleftrightarrow>
     (\<forall>x\<in>set (ac_identities d). id_user x \<in> user_ids d) \<and>
     (\<forall>m\<in>set (ac_members d). m_org m \<in> org_ids d \<and> m_user m \<in> user_ids d) \<and>
     (\<forall>r\<in>set (ac_repos d). rp_org r \<in> org_ids d) \<and>
     (\<forall>g\<in>set (ac_grants d). rg_repo g \<in> repo_ids d \<and> rg_user g \<in> user_ids d) \<and>
     (\<forall>v\<in>set (ac_reviews d). rv_repo v \<in> repo_ids d \<and> rv_by v \<in> user_ids d) \<and>
     (\<forall>c\<in>set (ac_comments d). rc_review c \<in> review_ids d)"

definition typed_rows :: "account_db \<Rightarrow> bool" where
  "typed_rows d \<longleftrightarrow>
     uuid_nil \<notin> user_ids d \<and> ac_usage d = [] \<and>
     (\<forall>m\<in>set (ac_members d). m_role m \<in> org_roles) \<and>
     (\<forall>r\<in>set (ac_repos d). rp_platform r \<in> set supported_platforms \<and> rp_secret r \<noteq> []) \<and>
     (\<forall>g\<in>set (ac_grants d). rg_role g \<in> grant_roles) \<and>
     (\<forall>c\<in>set (ac_comments d). rc_severity c \<in> set valid_severities) \<and>
     (\<forall>e\<in>set (ac_webhooks d). we_repo e = None)"

definition accounts_ok :: "account_db \<Rightarrow> bool" where
  "accounts_ok d \<longleftrightarrow> unique_rows d \<and> account_refs_ok d \<and> typed_rows d"

section \<open>Statements\<close>

inductive table_write :: "(account_db \<Rightarrow> store_error + account_db) \<Rightarrow> bool" where
  "us_id u \<noteq> uuid_nil \<Longrightarrow> table_write (insert_user u)"
| "table_write (update_user u now)"
| "table_write (upsert_identity x)"
| "table_write (insert_org g)"
| "table_write (update_org g now)"
| "m_role m \<in> org_roles \<Longrightarrow> table_write (upsert_member m)"
| "table_write (delete_member g i)"
| "rp_platform r \<in> set supported_platforms \<Longrightarrow> rp_secret r \<noteq> [] \<Longrightarrow> table_write (insert_repo r)"
| "rp_platform r \<in> set supported_platforms \<Longrightarrow> table_write (update_repo r now)"
| "table_write (delete_repo i)"
| "table_write (mark_indexed i now)"
| "rg_role h \<in> grant_roles \<Longrightarrow> table_write (upsert_grant h)"
| "table_write (delete_grant i j)"
| "table_write (insert_review v)"
| "table_write (update_review i st meta now)"
| "rc_severity c \<in> set valid_severities \<Longrightarrow> table_write (insert_review_comment c)"
| "we_repo e = None \<Longrightarrow> table_write (insert_webhook jsonb e)"
| "table_write (\<lambda>d. Inr (d\<lparr>ac_webhooks := update_where (\<lambda>e. we_id e = i)
     (\<lambda>e. e\<lparr>we_processed := True, we_error := msg\<rparr>) (ac_webhooks d)\<rparr>))"

lemma update_where_none: "(\<And>r. r \<in> set rs \<Longrightarrow> \<not> p r) \<Longrightarrow> update_where p f rs = rs"
  by (simp add: update_where_def map_idI)

lemma distinct_update_key:
  assumes "distinct (map key rs)" and "distinct (map g rs)"
    and "\<And>r. r \<in> set rs \<Longrightarrow> key r \<noteq> i \<Longrightarrow> g r \<noteq> k" and "\<And>r. r \<in> set rs \<Longrightarrow> key r = i \<Longrightarrow> g (f r) = k"
  shows "distinct (map g (update_where (\<lambda>r. key r = i) f rs))"
  using assms
proof (induction rs)
  case (Cons r rs)
  have rest: "g x = g (if key x = i then f x else x)" if "key r = i" "x \<in> set rs" for x
    using Cons.prems(1) that by (auto simp: image_iff)
  show ?case
  proof (cases "key r = i")
    case True
    then have "update_where (\<lambda>r. key r = i) f rs = rs"
      using Cons.prems(1) by (intro update_where_none) (auto simp: image_iff)
    moreover have "g (f r) \<notin> g ` set rs"
      using Cons.prems(1,3,4) True by (force simp: image_iff)
    ultimately show ?thesis using Cons.prems True by simp
  next
    case False
    have "g r \<notin> g ` set (update_where (\<lambda>r. key r = i) f rs)"
      using Cons.prems(2-4) False by (auto simp: update_where_def image_iff split: if_splits)
    with Cons False show ?thesis by simp
  qed
qed simp

lemmas table_rules = unique_rows_def account_refs_ok_def typed_rows_def user_ids_def org_ids_def repo_ids_def review_ids_def

lemma set_update_keys: "(\<And>r. p r \<Longrightarrow> g (f r) = g r) \<Longrightarrow> g ` set (update_where p f rs) = g ` set rs"
  by (metis map_update_where set_map)

lemma all_update_where:
  "(\<forall>x\<in>set (update_where p f rs). Q x) \<longleftrightarrow> (\<forall>r\<in>set rs. if p r then Q (f r) else Q r)"
  by (auto simp: update_where_def)

lemma unique_update_user:
  assumes d: "unique_rows d" and run: "update_user u now d = Inr d'"
  shows "unique_rows d'"
proof -
  let ?f = "\<lambda>v. v\<lparr>us_email := us_email u, us_name := us_name u, us_avatar := us_avatar u, us_updated := now\<rparr>"
  have guard: "\<not> (\<exists>v\<in>set (ac_users d). us_email v = us_email u \<and> us_id v \<noteq> us_id u)"
    and d': "d' = d\<lparr>ac_users := update_where (\<lambda>v. us_id v = us_id u) ?f (ac_users d)\<rparr>"
    using run by (simp_all add: update_user_def split: if_splits)
  have "distinct (map us_email (update_where (\<lambda>v. us_id v = us_id u) ?f (ac_users d)))"
    using d by (intro distinct_update_key [where k = "us_email u"]) (use guard in \<open>auto simp: unique_rows_def\<close>)
  then show ?thesis using d by (simp add: unique_rows_def map_update_where d')
qed

lemma unique_update_org:
  assumes d: "unique_rows d" and run: "update_org g now d = Inr d'"
  shows "unique_rows d'"
proof -
  let ?f = "\<lambda>h. h\<lparr>o_name := o_name g, o_slug := o_slug g, o_plan := o_plan g, o_settings := o_settings g, o_updated := now\<rparr>"
  have guard: "\<not> (\<exists>h\<in>set (ac_orgs d). o_slug h = o_slug g \<and> o_id h \<noteq> o_id g)"
    and d': "d' = d\<lparr>ac_orgs := update_where (\<lambda>h. o_id h = o_id g) ?f (ac_orgs d)\<rparr>"
    using run by (simp_all add: update_org_def split: if_splits)
  have "distinct (map o_slug (update_where (\<lambda>h. o_id h = o_id g) ?f (ac_orgs d)))"
    using d by (intro distinct_update_key [where k = "o_slug g"]) (use guard in \<open>auto simp: unique_rows_def\<close>)
  then show ?thesis using d by (simp add: unique_rows_def map_update_where d')
qed

lemma unique_update_repo:
  assumes d: "unique_rows d" and run: "update_repo r now d = Inr d'"
  shows "unique_rows d'"
proof -
  let ?f = "\<lambda>q. q\<lparr>rp_platform := rp_platform r, rp_owner := rp_owner r, rp_name := rp_name r, rp_branch := rp_branch r,
           rp_clone := rp_clone r, rp_config := rp_config r, rp_updated := now\<rparr>"
  have guard: "\<not> (\<exists>q\<in>set (ac_repos d). rp_id q \<noteq> rp_id r \<and> rp_platform q = rp_platform r \<and>
        rp_external q \<in> rp_external ` {p \<in> set (ac_repos d). rp_id p = rp_id r})"
    and key: "rp_id r \<in> rp_id ` set (ac_repos d)"
    and d': "d' = d\<lparr>ac_repos := update_where (\<lambda>q. rp_id q = rp_id r) ?f (ac_repos d)\<rparr>"
    using run by (simp_all add: update_repo_def split: if_splits)
  obtain p where p: "p \<in> set (ac_repos d)" "rp_id p = rp_id r" using key by auto
  have same: "q = p" if "q \<in> set (ac_repos d)" "rp_id q = rp_id r" for q
    using d p that unfolding unique_rows_def distinct_map inj_on_def by metis
  have "distinct (map (\<lambda>r. (rp_platform r, rp_external r))
      (update_where (\<lambda>q. rp_id q = rp_id r) ?f (ac_repos d)))"
  proof (rule distinct_update_key [where k = "(rp_platform r, rp_external p)"])
    show "(rp_platform x, rp_external x) \<noteq> (rp_platform r, rp_external p)"
      if "x \<in> set (ac_repos d)" "rp_id x \<noteq> rp_id r" for x
      using guard p that by auto
    show "(rp_platform (?f x), rp_external (?f x)) = (rp_platform r, rp_external p)"
      if "x \<in> set (ac_repos d)" "rp_id x = rp_id r" for x
      using same [OF that] by simp
  qed (use d in \<open>simp_all add: unique_rows_def\<close>)
  then show ?thesis using d by (simp add: unique_rows_def map_update_where d')
qed

lemma unique_upserts:
  assumes d: "unique_rows d"
  shows "upsert_identity x d = Inr d' \<Longrightarrow> unique_rows d'"
    and "upsert_member m d = Inr d' \<Longrightarrow> unique_rows d'"
    and "upsert_grant h d = Inr d' \<Longrightarrow> unique_rows d'"
proof -
  have "distinct (map (\<lambda>x. (id_provider x, id_external x)) (update_where
      (\<lambda>y. id_provider y = id_provider x \<and> id_external y = id_external x) (\<lambda>y. x) (ac_identities d)))"
    using d by (subst map_update_where) (auto simp: unique_rows_def)
  then show "upsert_identity x d = Inr d' \<Longrightarrow> unique_rows d'"
    using d by (auto simp: upsert_identity_def image_iff unique_rows_def Let_def split: if_splits) blast
  have "distinct (map (\<lambda>m. (m_org m, m_user m)) (update_where
      (\<lambda>n. m_org n = m_org m \<and> m_user n = m_user m) (\<lambda>n. n\<lparr>m_role := m_role m\<rparr>) (ac_members d)))"
    using d by (subst map_update_where) (auto simp: unique_rows_def)
  then show "upsert_member m d = Inr d' \<Longrightarrow> unique_rows d'"
    using d by (auto simp: upsert_member_def image_iff unique_rows_def Let_def split: if_splits) blast
  have "distinct (map (\<lambda>g. (rg_repo g, rg_user g)) (update_where
      (\<lambda>n. rg_repo n = rg_repo h \<and> rg_user n = rg_user h) (\<lambda>n. n\<lparr>rg_role := rg_role h\<rparr>) (ac_grants d)))"
    using d by (subst map_update_where) (auto simp: unique_rows_def)
  then show "upsert_grant h d = Inr d' \<Longrightarrow> unique_rows d'"
    using d by (auto simp: upsert_grant_def image_iff unique_rows_def Let_def split: if_splits) blast
qed

lemma unique_plain_writes:
  assumes d: "unique_rows d"
  shows "insert_user u d = Inr d' \<Longrightarrow> unique_rows d'"
    and "insert_org g d = Inr d' \<Longrightarrow> unique_rows d'"
    and "insert_repo r d = Inr d' \<Longrightarrow> unique_rows d'"
    and "insert_review v d = Inr d' \<Longrightarrow> unique_rows d'"
    and "insert_review_comment c d = Inr d' \<Longrightarrow> unique_rows d'"
    and "insert_webhook jsonb e d = Inr d' \<Longrightarrow> unique_rows d'"
    and "delete_member i j d = Inr d' \<Longrightarrow> unique_rows d'"
    and "delete_grant i j d = Inr d' \<Longrightarrow> unique_rows d'"
    and "delete_repo i d = Inr d' \<Longrightarrow> unique_rows d'"
    and "mark_indexed i now d = Inr d' \<Longrightarrow> unique_rows d'"
    and "update_review i st meta now d = Inr d' \<Longrightarrow> unique_rows d'"
  using d
            apply (auto simp: insert_user_def unique_rows_def split: if_splits)[1]
  using d apply (auto simp: insert_org_def unique_rows_def split: if_splits)[1]
  using d apply (auto simp: insert_repo_def unique_rows_def split: if_splits)[1]
  using d apply (auto simp: insert_review_def unique_rows_def split: if_splits)[1]
  using d apply (auto simp: insert_review_comment_def unique_rows_def split: if_splits)[1]
  using d apply (auto simp: insert_webhook_def unique_rows_def split: if_splits)[1]
  using d apply (auto simp: delete_member_def unique_rows_def distinct_delete_where split: if_splits)[1]
  using d apply (auto simp: delete_grant_def unique_rows_def distinct_delete_where split: if_splits)[1]
  using d apply (auto simp: delete_repo_def unique_rows_def distinct_delete_where Let_def split: if_splits)[1]
  using d apply (auto simp: mark_indexed_def unique_rows_def map_update_where split: if_splits)[1]
  using d apply (auto simp: update_review_def unique_rows_def map_update_where split: if_splits)[1]
  done

lemma unique_table_write:
  assumes "table_write f" and "unique_rows d" and "f d = Inr d'"
  shows "unique_rows d'"
proof -
  note unique = unique_update_user [OF assms(2)] unique_update_org [OF assms(2)] unique_update_repo [OF assms(2)]
    unique_upserts [OF assms(2)] unique_plain_writes [OF assms(2)]
  have hook: "unique_rows (d\<lparr>ac_webhooks := update_where (\<lambda>e. we_id e = i)
      (\<lambda>e. e\<lparr>we_processed := True, we_error := msg\<rparr>) (ac_webhooks d)\<rparr>)" for i msg
    using assms(2) by (simp add: unique_rows_def map_update_where)
  show ?thesis using assms(1,3)
    by induction ((erule unique)+, use hook in auto)
qed

lemma in_image_update_where:
  "(\<And>r. p r \<Longrightarrow> g (f r) = g r) \<Longrightarrow> y \<in> g ` set (update_where p f rs) \<longleftrightarrow> y \<in> g ` set rs"
  by (simp add: set_update_keys)

lemma all_update_keep:
  "\<forall>r\<in>set rs. Q r \<Longrightarrow> (\<And>r. Q r \<Longrightarrow> Q (f r)) \<Longrightarrow> \<forall>x\<in>set (update_where p f rs). Q x"
  by (simp add: all_update_where)

lemma refs_new_members:
  "account_refs_ok d \<Longrightarrow> \<forall>m\<in>set xs. m_org m \<in> org_ids d \<and> m_user m \<in> user_ids d \<Longrightarrow> account_refs_ok (d\<lparr>ac_members := xs\<rparr>)"
  by (simp add: table_rules)

lemma refs_new_grants:
  "account_refs_ok d \<Longrightarrow> \<forall>g\<in>set xs. rg_repo g \<in> repo_ids d \<and> rg_user g \<in> user_ids d \<Longrightarrow> account_refs_ok (d\<lparr>ac_grants := xs\<rparr>)"
  by (simp add: table_rules)

lemmas refs_new_rows = refs_new_members refs_new_grants

lemma refs_upsert_member:
  assumes d: "account_refs_ok d" and run: "upsert_member m d = Inr d'"
  shows "account_refs_ok d'"
proof -
  let ?ok = "\<lambda>x. m_org x \<in> org_ids d \<and> m_user x \<in> user_ids d"
  have old: "\<forall>n\<in>set (ac_members d). ?ok n" using d by (simp add: account_refs_ok_def)
  show ?thesis
  proof (cases "\<exists>n\<in>set (ac_members d). m_org n = m_org m \<and> m_user n = m_user m")
    case True
    then have "d' = d\<lparr>ac_members := update_where (\<lambda>n. m_org n = m_org m \<and> m_user n = m_user m)
        (\<lambda>n. n\<lparr>m_role := m_role m\<rparr>) (ac_members d)\<rparr>"
      using run by (simp add: upsert_member_def Let_def split: if_splits)
    then show ?thesis by (simp only:) (intro refs_new_rows d all_update_keep [OF old]; simp)
  next
    case False
    then have "d' = d\<lparr>ac_members := ac_members d @ [m]\<rparr>" and "?ok m"
      using run by (simp_all add: upsert_member_def org_ids_def user_ids_def Let_def split: if_splits) blast+
    then show ?thesis using old by (simp add: refs_new_rows d)
  qed
qed

lemma refs_upsert_grant:
  assumes d: "account_refs_ok d" and run: "upsert_grant h d = Inr d'"
  shows "account_refs_ok d'"
proof -
  let ?ok = "\<lambda>x. rg_repo x \<in> repo_ids d \<and> rg_user x \<in> user_ids d"
  have old: "\<forall>n\<in>set (ac_grants d). ?ok n" using d by (simp add: account_refs_ok_def)
  show ?thesis
  proof (cases "\<exists>n\<in>set (ac_grants d). rg_repo n = rg_repo h \<and> rg_user n = rg_user h")
    case True
    then have "d' = d\<lparr>ac_grants := update_where (\<lambda>n. rg_repo n = rg_repo h \<and> rg_user n = rg_user h)
        (\<lambda>n. n\<lparr>rg_role := rg_role h\<rparr>) (ac_grants d)\<rparr>"
      using run by (simp add: upsert_grant_def Let_def split: if_splits)
    then show ?thesis by (simp only:) (intro refs_new_rows d all_update_keep [OF old]; simp)
  next
    case False
    then have "d' = d\<lparr>ac_grants := ac_grants d @ [h]\<rparr>" and "?ok h"
      using run by (simp_all add: upsert_grant_def repo_ids_def user_ids_def Let_def split: if_splits) blast+
    then show ?thesis using old by (simp add: refs_new_rows d)
  qed
qed

lemma refs_repo_columns:
  assumes d: "account_refs_ok d" and f: "\<And>q. rp_id (f q) = rp_id q" "\<And>q. rp_org (f q) = rp_org q"
  shows "account_refs_ok (d\<lparr>ac_repos := update_where p f (ac_repos d)\<rparr>)"
proof -
  have "\<forall>r\<in>set (ac_repos d). rp_org r \<in> org_ids d" using d by (simp add: account_refs_ok_def)
  then have "\<forall>r\<in>set (update_where p f (ac_repos d)). rp_org r \<in> org_ids d"
    by (rule all_update_keep) (simp add: f)
  then show ?thesis using d by (simp add: table_rules set_update_keys f)
qed

lemma refs_review_columns:
  assumes d: "account_refs_ok d"
    and f: "\<And>q. rv_id (f q) = rv_id q" "\<And>q. rv_repo (f q) = rv_repo q" "\<And>q. rv_by (f q) = rv_by q"
  shows "account_refs_ok (d\<lparr>ac_reviews := update_where p f (ac_reviews d)\<rparr>)"
proof -
  have "\<forall>v\<in>set (ac_reviews d). rv_repo v \<in> repo_ids d \<and> rv_by v \<in> user_ids d" using d by (simp add: account_refs_ok_def)
  then have "\<forall>v\<in>set (update_where p f (ac_reviews d)). rv_repo v \<in> repo_ids d \<and> rv_by v \<in> user_ids d"
    by (rule all_update_keep) (simp add: f)
  then show ?thesis using d by (simp add: table_rules set_update_keys f)
qed

lemma refs_delete_repo:
  assumes d: "account_refs_ok d" and run: "delete_repo i d = Inr d'"
  shows "account_refs_ok d'"
proof -
  let ?gone = "set (map rv_id (filter (\<lambda>v. rv_repo v = i) (ac_reviews d)))"
  have d': "d' = d\<lparr>ac_repos := delete_where (\<lambda>r. rp_id r = i) (ac_repos d),
      ac_grants := delete_where (\<lambda>g. rg_repo g = i) (ac_grants d),
      ac_reviews := delete_where (\<lambda>v. rv_repo v = i) (ac_reviews d),
      ac_comments := delete_where (\<lambda>c. rc_review c \<in> ?gone) (ac_comments d)\<rparr>"
    using run by (simp add: delete_repo_def Let_def split: if_splits)
  have repos: "x \<in> repo_ids d'" if "x \<in> repo_ids d" "x \<noteq> i" for x
    using that by (auto simp: repo_ids_def d')
  have reviews: "x \<in> review_ids d'" if "x \<in> review_ids d" "x \<notin> ?gone" for x
    using that by (auto simp: review_ids_def d')
  have same: "user_ids d' = user_ids d" "org_ids d' = org_ids d"
    by (simp_all add: user_ids_def org_ids_def d')
  have rows: "set (ac_identities d') = set (ac_identities d)" "set (ac_members d') = set (ac_members d)"
    "set (ac_repos d') \<subseteq> set (ac_repos d)"
    "set (ac_grants d') = {g \<in> set (ac_grants d). rg_repo g \<noteq> i}"
    "set (ac_reviews d') = {v \<in> set (ac_reviews d). rv_repo v \<noteq> i}"
    "set (ac_comments d') = {c \<in> set (ac_comments d). rc_review c \<notin> ?gone}"
    by (auto simp: d')
  show ?thesis
    using d repos reviews rows(3) unfolding account_refs_ok_def same rows(1,2,4,5,6)
    by (intro conjI ballI) blast+
qed

lemma refs_table_write:
  assumes "table_write f" and d: "account_refs_ok d" and "f d = Inr d'"
  shows "account_refs_ok d'"
  using assms(1,3)
proof induction
  case (1 u) then show ?case using d by (auto simp: insert_user_def table_rules split: if_splits)
next
  case (2 u now) then show ?case using d
    by (simp add: update_user_def table_rules set_update_keys all_update_where split: if_splits) (erule subst, simp add: set_update_keys)
next
  case (3 x) then show ?case using d
    by (cases "\<exists>y\<in>set (ac_identities d). id_provider y = id_provider x \<and> id_external y = id_external x")
      (simp_all add: upsert_identity_def Let_def split: if_splits, (erule subst, simp add: table_rules all_update_where)+)
next
  case (4 g) then show ?case using d by (auto simp: insert_org_def table_rules split: if_splits)
next
  case (5 g now) then show ?case using d
    by (simp add: update_org_def table_rules set_update_keys all_update_where split: if_splits) (erule subst, simp add: set_update_keys)
next
  case (6 m) then show ?case using d refs_upsert_member by blast
next
  case (7 g i) then show ?case using d by (auto simp: delete_member_def table_rules split: if_splits)
next
  case (8 r) then show ?case using d
    by (simp add: insert_repo_def split: if_splits) (erule subst, simp add: table_rules, blast?)
next
  case (9 r now) then show ?case by (simp add: update_repo_def split: if_splits) (erule subst, rule refs_repo_columns [OF d]; simp)
next
  case (10 i) then show ?case using d refs_delete_repo by blast
next
  case (11 i now) then show ?case by (simp add: mark_indexed_def split: if_splits) (erule subst, rule refs_repo_columns [OF d]; simp)
next
  case (12 h) then show ?case using d refs_upsert_grant by blast
next
  case (13 i j) then show ?case using d by (auto simp: delete_grant_def table_rules split: if_splits)
next
  case (14 v) then show ?case using d
    by (simp add: insert_review_def split: if_splits) (erule subst, simp add: table_rules, blast?)
next
  case (15 i st meta now) then show ?case
    by (simp add: update_review_def split: if_splits) (erule subst, rule refs_review_columns [OF d]; simp)
next
  case (16 c) then show ?case using d
    by (simp add: insert_review_comment_def split: if_splits) (erule subst, simp add: table_rules, blast?)
next
  case (17 e jsonb) then show ?case using d by (auto simp: insert_webhook_def table_rules split: if_splits)
next
  case (18 i msg) then show ?case using d by (auto simp: table_rules)
qed

lemma typed_table_write:
  assumes "table_write f" and d: "typed_rows d" and "f d = Inr d'"
  shows "typed_rows d'"
  using assms(1,3)
proof induction
  case (1 u) then show ?case using d by (auto simp: insert_user_def table_rules split: if_splits)
next
  case (2 u now) then show ?case using d
    by (simp add: update_user_def table_rules split: if_splits) (erule subst, simp add: set_update_keys)
next
  case (3 x) then show ?case using d by (auto simp: upsert_identity_def table_rules Let_def split: if_splits)
next
  case (4 g) then show ?case using d by (auto simp: insert_org_def table_rules split: if_splits)
next
  case (5 g now) then show ?case using d by (simp add: update_org_def split: if_splits) (erule subst, simp add: table_rules)
next
  case (6 m) then show ?case using d
    by (auto simp: upsert_member_def table_rules in_update_where Let_def split: if_splits)
next
  case (7 g i) then show ?case using d by (auto simp: delete_member_def table_rules split: if_splits)
next
  case (8 r) then show ?case using d by (auto simp: insert_repo_def table_rules split: if_splits)
next
  case (9 r now) then show ?case using d
    by (simp add: update_repo_def table_rules split: if_splits) (erule subst, simp add: all_update_where)
next
  case (10 i) then show ?case using d by (auto simp: delete_repo_def table_rules Let_def split: if_splits)
next
  case (11 i now) then show ?case using d
    by (simp add: mark_indexed_def table_rules split: if_splits) (erule subst, simp add: all_update_where)
next
  case (12 h) then show ?case using d
    by (auto simp: upsert_grant_def table_rules in_update_where Let_def split: if_splits)
next
  case (13 i j) then show ?case using d by (auto simp: delete_grant_def table_rules split: if_splits)
next
  case (14 v) then show ?case using d by (auto simp: insert_review_def table_rules split: if_splits)
next
  case (15 i st meta now) then show ?case using d by (auto simp: update_review_def table_rules split: if_splits)
next
  case (16 c) then show ?case using d by (auto simp: insert_review_comment_def table_rules split: if_splits)
next
  case (17 e jsonb) then show ?case using d by (auto simp: insert_webhook_def table_rules split: if_splits)
next
  case (18 i msg) then show ?case using d by (auto simp: table_rules in_update_where)
qed

lemma accounts_table_write:
  "table_write f \<Longrightarrow> accounts_ok d \<Longrightarrow> f d = Inr d' \<Longrightarrow> accounts_ok d'"
  by (auto simp: accounts_ok_def intro: unique_table_write refs_table_write typed_table_write)

end
