(* ===== verification/WebhookQueue.thy ===== *)
theory WebhookQueue
  imports SwarmDB
begin

text \<open>
  \<open>internal/webhookq/delivery.go\<close>: webhook deliveries with retries.  The state holds the table, a clock
  whose script says how much time passes before each reading, the runs of the review executor and
  a script of database failures.  The executor is a parameter: its outcome is a function of the runs
  before.  One worker runs at a time.
\<close>

section \<open>State\<close>

datatype delivery_status = DPending | DProcessing | DCompleted | DFailed | DDead

record delivery =
  wd_id :: uuid
  wd_event :: uuid
  wd_repo :: uuid
  wd_platform :: string
  wd_pr :: int
  wd_status :: delivery_status
  wd_attempts :: nat
  wd_max :: int
  wd_error :: string
  wd_next :: "time option"
  wd_created :: time
  wd_completed :: "time option"

definition DefaultMaxAttempts :: int where "DefaultMaxAttempts = 5"

record queue_state =
  wq_rows :: "delivery list"
  wq_runs :: "uuid list"
  wq_now :: time
  wq_ticks :: "nat list"
  wq_faults :: "bool list"
  wq_pool :: bool

type_synonym 'a wprog = "(queue_state, 'a) state"
type_synonym executor = "uuid list \<Rightarrow> uuid \<Rightarrow> int \<Rightarrow> string option"

datatype queue_error = NoPool | QueueDB

definition wq_clock :: "time wprog" where
  "wq_clock = State (\<lambda>s. case wq_ticks s of
       [] \<Rightarrow> (wq_now s, s)
     | n # ns \<Rightarrow> (wq_now s + int n, s\<lparr>wq_now := wq_now s + int n, wq_ticks := ns\<rparr>))"

definition wq_io :: "(queue_error + unit) wprog" where
  "wq_io = State (\<lambda>s. if \<not> wq_pool s then (Inl NoPool, s) else case wq_faults s of
       [] \<Rightarrow> (Inr (), s)
     | b # bs \<Rightarrow> (if b then Inl QueueDB else Inr (), s\<lparr>wq_faults := bs\<rparr>))"

definition wq_query :: "(queue_state \<Rightarrow> 'a) \<Rightarrow> (queue_error + 'a) wprog" where
  "wq_query f = do { r \<leftarrow> wq_io; case r of Inl e \<Rightarrow> ret (Inl e) | Inr _ \<Rightarrow> gets (\<lambda>s. Inr (f s)) }"

definition wq_exec :: "(delivery list \<Rightarrow> delivery list) \<Rightarrow> (queue_error + unit) wprog" where
  "wq_exec f = do { r \<leftarrow> wq_io; case r of Inl e \<Rightarrow> ret (Inl e)
     | Inr _ \<Rightarrow> do { _ \<leftarrow> modify (\<lambda>s. s\<lparr>wq_rows := f (wq_rows s)\<rparr>); ret (Inr ()) } }"

section \<open>Repository\<close>

definition new_delivery :: "delivery \<Rightarrow> uuid \<Rightarrow> time \<Rightarrow> delivery" where
  "new_delivery d i now = d\<lparr>wd_id := i, wd_status := DPending, wd_attempts := 0, wd_created := now,
     wd_max := (if wd_max d = 0 then DefaultMaxAttempts else wd_max d)\<rparr>"

definition DeliveryCreate :: "delivery \<Rightarrow> uuid \<Rightarrow> (queue_error + unit) wprog" where
  [op_defs]: "DeliveryCreate d new_id = do {
     now \<leftarrow> wq_clock;
     wq_exec (\<lambda>rs. if new_id \<in> set (map wd_id rs) then rs else rs @ [new_delivery d new_id now]) }"

definition set_row :: "uuid \<Rightarrow> (delivery \<Rightarrow> delivery) \<Rightarrow> (queue_error + unit) wprog" where
  "set_row i f = wq_exec (update_where (\<lambda>r. wd_id r = i) f)"

definition to_processing :: "delivery \<Rightarrow> delivery" where
  "to_processing r = r\<lparr>wd_status := DProcessing, wd_attempts := wd_attempts r + 1\<rparr>"

definition MarkProcessing :: "uuid \<Rightarrow> (queue_error + unit) wprog" where
  [op_defs]: "MarkProcessing i = set_row i to_processing"

definition to_completed :: "time \<Rightarrow> delivery \<Rightarrow> delivery" where
  "to_completed now r = r\<lparr>wd_status := DCompleted, wd_completed := Some now, wd_error := []\<rparr>"

definition MarkCompleted :: "uuid \<Rightarrow> (queue_error + unit) wprog" where
  [op_defs]: "MarkCompleted i = do { now \<leftarrow> wq_clock; set_row i (to_completed now) }"

definition to_dead :: "string \<Rightarrow> delivery \<Rightarrow> delivery" where
  "to_dead msg r = r\<lparr>wd_status := DDead, wd_error := msg\<rparr>"

definition to_failed :: "string \<Rightarrow> time \<Rightarrow> delivery \<Rightarrow> delivery" where
  "to_failed msg nxt r = r\<lparr>wd_status := DFailed, wd_error := msg, wd_next := Some nxt\<rparr>"

text \<open>
  \<open>time.Duration(math.Pow(4, attempts)) * 30 * time.Second\<close>, capped at two hours.  The power is a
  float; from \<open>4 ^ 32\<close> on it does not fit an \<open>int64\<close> and the conversion gives, on amd64, the least one.
  Products wrap around.
\<close>

definition pow4_duration :: "nat \<Rightarrow> int" where
  "pow4_duration n = (if n < 32 then 4 ^ n else - (2 ^ 63))"

definition max_backoff :: time where "max_backoff = 2 * hour"

definition retry_backoff :: "nat \<Rightarrow> time" where
  "retry_backoff n = (let b = wrap64 (wrap64 (pow4_duration n * 30) * second) in
     if b > max_backoff then max_backoff else b)"

definition MarkFailed :: "uuid \<Rightarrow> string \<Rightarrow> (queue_error + unit) wprog" where
  [op_defs]: "MarkFailed i msg = do {
     q \<leftarrow> wq_query (\<lambda>s. List.find (\<lambda>r. wd_id r = i) (wq_rows s));
     case q of
       Inl e \<Rightarrow> ret (Inl e)
     | Inr None \<Rightarrow> ret (Inl QueueDB)
     | Inr (Some row) \<Rightarrow>
         if int (wd_attempts row) \<ge> wd_max row then set_row i (to_dead msg)
         else do {
           now \<leftarrow> wq_clock;
           set_row i (to_failed msg (now + retry_backoff (wd_attempts row))) } }"

definition retryable :: "time \<Rightarrow> delivery \<Rightarrow> bool" where
  "retryable now r \<longleftrightarrow> wd_status r = DFailed \<and> (case wd_next r of None \<Rightarrow> False | Some t \<Rightarrow> t \<le> now)"

definition ListRetryable :: "nat \<Rightarrow> (queue_error + delivery list) wprog" where
  [op_defs]: "ListRetryable limit = do {
     now \<leftarrow> wq_clock;
     wq_query (\<lambda>s. take limit (sort_key (\<lambda>r. case wd_next r of None \<Rightarrow> 0 | Some t \<Rightarrow> t)
       (filter (retryable now) (wq_rows s)))) }"

definition ListPending :: "nat \<Rightarrow> (queue_error + delivery list) wprog" where
  [op_defs]: "ListPending limit =
     wq_query (\<lambda>s. take limit (sort_key wd_created (filter (\<lambda>r. wd_status r = DPending) (wq_rows s))))"

definition ListDeadLetters :: "nat \<Rightarrow> (queue_error + delivery list) wprog" where
  [op_defs]: "ListDeadLetters limit =
     wq_query (\<lambda>s. take limit (sort_key (\<lambda>r. - wd_created r) (filter (\<lambda>r. wd_status r = DDead) (wq_rows s))))"

definition CountByStatus :: "(queue_error + (delivery_status \<times> nat) list) wprog" where
  [op_defs]: "CountByStatus = wq_query (\<lambda>s.
     filter (\<lambda>(st, n). 0 < n) (map (\<lambda>st. (st, count_where (\<lambda>r. wd_status r = st) (wq_rows s)))
       [DPending, DProcessing, DCompleted, DFailed, DDead]))"

definition CleanupOld :: "time \<Rightarrow> (queue_error + unit) wprog" where
  [op_defs]: "CleanupOld older = do {
     now \<leftarrow> wq_clock;
     wq_exec (delete_where (\<lambda>r. wd_status r \<in> {DCompleted, DDead} \<and> wd_created r < now - older)) }"

section \<open>Worker\<close>

definition run_executor :: "executor \<Rightarrow> delivery \<Rightarrow> string option wprog" where
  "run_executor ex d = State (\<lambda>s. (ex (wq_runs s) (wd_repo d) (wd_pr d), s\<lparr>wq_runs := wq_runs s @ [wd_id d]\<rparr>))"

definition processDelivery :: "executor \<Rightarrow> delivery \<Rightarrow> unit wprog" where
  [op_defs]: "processDelivery ex d = do {
     r \<leftarrow> MarkProcessing (wd_id d);
     case r of
       Inl _ \<Rightarrow> ret ()
     | Inr _ \<Rightarrow> do {
         out \<leftarrow> run_executor ex d;
         case out of
           Some msg \<Rightarrow> void (MarkFailed (wd_id d) msg)
         | None \<Rightarrow> void (MarkCompleted (wd_id d)) } }"

definition process_list :: "executor \<Rightarrow> (queue_error + delivery list) wprog \<Rightarrow> bool wprog" where
  [op_defs]: "process_list ex listing = do {
     r \<leftarrow> listing;
     case r of
       Inl _ \<Rightarrow> ret False
     | Inr ds \<Rightarrow> do { _ \<leftarrow> for_each (processDelivery ex) ds; ret True } }"

definition processBatch :: "executor \<Rightarrow> unit wprog" where
  [op_defs]: "processBatch ex = do {
     ok \<leftarrow> process_list ex (ListPending 10);
     if ok then void (process_list ex (ListRetryable 10)) else ret () }"

section \<open>A queue for the witnesses\<close>

definition demo_delivery :: delivery where
  "demo_delivery = \<lparr>wd_id = 1, wd_event = 2, wd_repo = 3, wd_platform = ''github'', wd_pr = 7, wd_status = DPending,
     wd_attempts = 0, wd_max = 2, wd_error = [], wd_next = None, wd_created = 0, wd_completed = None\<rparr>"

definition demo_queue :: queue_state where
  "demo_queue = \<lparr>wq_rows = [demo_delivery], wq_runs = [], wq_now = 0, wq_ticks = [], wq_faults = [], wq_pool = True\<rparr>"

section \<open>Backoff\<close>

text \<open>
  up to fourteen attempts the backoff is thirty seconds times a power of four, at most two
  hours; after fifteen attempts the product has wrapped around and the retry is due in the past.
\<close>

lemma retry_backoff_bounds:
  "(\<forall>n\<le>14. retry_backoff n = min (4 ^ n * 30 * second) (2 * hour)) \<and> retry_backoff 15 < 0"
proof -
  have "retry_backoff n = min (4 ^ n * 30 * second) (2 * hour)" if n: "n \<le> 14" for n
  proof -
    define x :: int where "x = 4 ^ n"
    have "x \<le> 4 ^ 14" unfolding x_def by (rule power_increasing) (use n in auto)
    moreover have "0 \<le> x" by (simp add: x_def)
    ultimately have w1: "wrap64 (x * 30) = x * 30" and w2: "wrap64 (x * 30 * second) = x * 30 * second"
      by (auto simp: second_def intro!: wrap64_id)
    have "pow4_duration n = x" using n by (simp add: pow4_duration_def x_def)
    then show ?thesis by (simp add: retry_backoff_def w1 w2 max_backoff_def Let_def min_def flip: x_def)
  qed
  moreover have "retry_backoff 15 < 0"
    by (simp add: retry_backoff_def pow4_duration_def max_backoff_def wrap64_def second_def minute_def hour_def Let_def)
  ultimately show ?thesis by blast
qed

section \<open>One attempt\<close>

definition attempt :: "delivery \<Rightarrow> delivery \<Rightarrow> bool" where
  "attempt r r' \<longleftrightarrow> r' = to_processing r \<or> (\<exists>now. r' = to_completed now (to_processing r)) \<or>
     (\<exists>msg. wd_max r \<le> int (wd_attempts r + 1) \<and> r' = to_dead msg (to_processing r)) \<or>
     (\<exists>msg now. int (wd_attempts r + 1) < wd_max r \<and>
        r' = to_failed msg (now + retry_backoff (wd_attempts r + 1)) (to_processing r))"

lemma row_fields [simp]:
  "wd_id (to_processing r) = wd_id r" "wd_id (to_completed now r) = wd_id r"
  "wd_id (to_dead msg r) = wd_id r" "wd_id (to_failed msg nxt r) = wd_id r"
  "wd_max (to_processing r) = wd_max r" "wd_attempts (to_processing r) = wd_attempts r + 1"
  by (simp_all add: to_processing_def to_completed_def to_dead_def to_failed_def)

lemma attempt_id: "attempt r r' \<Longrightarrow> wd_id r' = wd_id r"
  by (auto simp: attempt_def)

text \<open>The parts of the state that a program changes.\<close>

definition rows_runs :: "queue_state \<Rightarrow> delivery list \<times> uuid list" where
  "rows_runs s = (wq_rows s, wq_runs s)"

lemma wq_clock_parts [simp]: "rows_runs (snd (run_state wq_clock s)) = rows_runs s"
  by (simp add: wq_clock_def rows_runs_def split: list.splits)

lemma wq_io_parts [simp]: "rows_runs (snd (run_state wq_io s)) = rows_runs s"
  by (simp add: wq_io_def rows_runs_def split: list.splits)

lemma wq_query_parts:
  "rows_runs (snd (run_state (wq_query f) s)) = rows_runs s \<and>
   (\<forall>x. fst (run_state (wq_query f) s) = Inr x \<longrightarrow> (\<exists>t. rows_runs t = rows_runs s \<and> x = f t))"
  by (auto simp: wq_query_def split_beta split: sum.splits) (metis wq_io_parts)+

lemma wq_exec_parts:
  "rows_runs (snd (run_state (wq_exec f) s)) =
    (case fst (run_state (wq_exec f) s) of Inl _ \<Rightarrow> rows_runs s | Inr _ \<Rightarrow> (f (wq_rows s), wq_runs s))"
  using wq_io_parts [of s] by (auto simp: wq_exec_def split_beta rows_runs_def split: sum.splits)

lemma update_where_twice:
  "(\<And>r. p r \<Longrightarrow> p (f r)) \<Longrightarrow> update_where p g (update_where p f rs) = update_where p (g \<circ> f) rs"
  by (simp add: update_where_def)

lemma update_where_const:
  assumes "distinct (map wd_id rs)" and "d \<in> set rs"
  shows "update_where (\<lambda>r. wd_id r = wd_id d) f rs = update_where (\<lambda>r. wd_id r = wd_id d) (\<lambda>_. f d) rs"
  using assms by (auto simp: update_where_def distinct_map dest: inj_onD)

definition put_row :: "delivery \<Rightarrow> delivery list \<Rightarrow> delivery list" where
  "put_row r' = update_where (\<lambda>r. wd_id r = wd_id r') (\<lambda>_. r')"

lemma MarkCompleted_parts:
  "\<exists>now. rows_runs (snd (run_state (MarkCompleted i) s)) \<in>
    {rows_runs s, (update_where (\<lambda>r. wd_id r = i) (to_completed now) (wq_rows s), wq_runs s)}"
proof -
  let ?s = "snd (run_state wq_clock s)" and ?f = "update_where (\<lambda>r. wd_id r = i) (to_completed (fst (run_state wq_clock s)))"
  have "rows_runs (snd (run_state (wq_exec ?f) ?s)) \<in> {rows_runs s, (?f (wq_rows s), wq_runs s)}"
    using wq_exec_parts [of ?f ?s] wq_clock_parts [of s] by (auto simp: rows_runs_def split: sum.splits)
  then show ?thesis by (auto simp: MarkCompleted_def set_row_def split_beta)
qed

lemma MarkFailed_parts:
  assumes "List.find (\<lambda>r. wd_id r = i) (wq_rows s) = Some row"
  shows "\<exists>f. rows_runs (snd (run_state (MarkFailed i msg) s)) \<in>
      {rows_runs s, (update_where (\<lambda>r. wd_id r = i) f (wq_rows s), wq_runs s)} \<and>
    (if wd_max row \<le> int (wd_attempts row) then f = to_dead msg
     else \<exists>now. f = to_failed msg (now + retry_backoff (wd_attempts row)))"
proof -
  let ?q = "wq_query (\<lambda>s. List.find (\<lambda>r. wd_id r = i) (wq_rows s))"
  let ?s = "snd (run_state ?q s)" and ?c = "snd (run_state wq_clock (snd (run_state ?q s)))"
  have q: "rows_runs ?s = rows_runs s" "\<And>x. fst (run_state ?q s) = Inr x \<Longrightarrow> x = Some row"
    using wq_query_parts [of "\<lambda>s. List.find (\<lambda>r. wd_id r = i) (wq_rows s)" s] assms by (auto simp: rows_runs_def)
  have ex: "rows_runs (snd (run_state (set_row i f) t)) \<in>
      {rows_runs s, (update_where (\<lambda>r. wd_id r = i) f (wq_rows s), wq_runs s)}" if "rows_runs t = rows_runs s" for f t
    using wq_exec_parts [of "update_where (\<lambda>r. wd_id r = i) f" t] that
    by (auto simp: set_row_def rows_runs_def split: sum.splits)
  show ?thesis
  proof (cases "fst (run_state ?q s)")
    case (Inl e)
    then show ?thesis using q(1) by (auto simp: MarkFailed_def split_beta)
  next
    case (Inr x)
    with q(2) have x: "fst (run_state ?q s) = Inr (Some row)" by simp
    show ?thesis
    proof (cases "wd_max row \<le> int (wd_attempts row)")
      case True
      with x ex [OF q(1), of "to_dead msg"] show ?thesis
        by (intro exI [of _ "to_dead msg"]) (simp add: MarkFailed_def split_beta)
    next
      case False
      let ?f = "to_failed msg (fst (run_state wq_clock ?s) + retry_backoff (wd_attempts row))"
      have "rows_runs ?c = rows_runs s" using q(1) by simp
      from x False ex [OF this, of ?f] show ?thesis
        by (intro exI [of _ ?f]) (auto simp: MarkFailed_def split_beta)
    qed
  qed
qed

lemma processDelivery_effect:
  assumes "distinct (map wd_id (wq_rows s))" and "d \<in> set (wq_rows s)"
  shows "rows_runs (snd (run_state (processDelivery ex d) s)) = rows_runs s \<or>
    (\<exists>r'. attempt d r' \<and> rows_runs (snd (run_state (processDelivery ex d) s)) =
       (put_row r' (wq_rows s), wq_runs s @ [wd_id d]))"
proof -
  let ?p = "\<lambda>r. wd_id r = wd_id d"
  let ?s1 = "snd (run_state (MarkProcessing (wd_id d)) s)"
  let ?s2 = "snd (run_state (run_executor ex d) ?s1)"
  have put: "update_where ?p f (wq_rows s) = put_row (f d) (wq_rows s)" if "wd_id (f d) = wd_id d" for f
    using update_where_const [OF assms] that by (simp add: put_row_def)
  show ?thesis
  proof (cases "fst (run_state (MarkProcessing (wd_id d)) s)")
    case (Inl e)
    then show ?thesis
      using wq_exec_parts [of "update_where ?p to_processing" s]
      by (simp add: processDelivery_def split_beta MarkProcessing_def set_row_def)
  next
    case (Inr u)
    then have s1: "rows_runs ?s1 = (update_where ?p to_processing (wq_rows s), wq_runs s)"
      using wq_exec_parts [of "update_where ?p to_processing" s] by (simp add: MarkProcessing_def set_row_def)
    then have s2: "rows_runs ?s2 = (update_where ?p to_processing (wq_rows s), wq_runs s @ [wd_id d])"
      by (simp add: run_executor_def rows_runs_def)
    have compose: "update_where ?p g (update_where ?p to_processing (wq_rows s)) = put_row (g (to_processing d)) (wq_rows s)"
      if "wd_id (g (to_processing d)) = wd_id d" for g
    proof -
      have "update_where ?p g (update_where ?p to_processing (wq_rows s)) = update_where ?p (g \<circ> to_processing) (wq_rows s)"
        by (rule update_where_twice) simp
      also have "\<dots> = put_row ((g \<circ> to_processing) d) (wq_rows s)" by (rule put) (simp add: that)
      finally show ?thesis by simp
    qed
    show ?thesis
    proof (cases "fst (run_state (run_executor ex d) ?s1)")
      case None
      obtain now where "rows_runs (snd (run_state (MarkCompleted (wd_id d)) ?s2)) \<in>
          {rows_runs ?s2, (update_where ?p (to_completed now) (wq_rows ?s2), wq_runs ?s2)}"
        using MarkCompleted_parts by blast
      then have "rows_runs (snd (run_state (MarkCompleted (wd_id d)) ?s2)) \<in>
          {(put_row (to_processing d) (wq_rows s), wq_runs s @ [wd_id d]),
           (put_row (to_completed now (to_processing d)) (wq_rows s), wq_runs s @ [wd_id d])}"
        using s2 put compose by (simp add: rows_runs_def)
      with Inr None show ?thesis
        by (auto simp: processDelivery_def split_beta attempt_def)
    next
      case (Some msg)
      have "List.find ?p (wq_rows ?s2) = Some (to_processing d)"
        using s2 find_update_where [of ?p ?p to_processing "wq_rows s"] find_unique [OF assms]
        by (simp add: rows_runs_def)
      from MarkFailed_parts [OF this, of msg, unfolded row_fields] obtain f where
        f: "rows_runs (snd (run_state (MarkFailed (wd_id d) msg) ?s2)) \<in>
          {rows_runs ?s2, (update_where ?p f (wq_rows ?s2), wq_runs ?s2)}"
          "if wd_max d \<le> int (wd_attempts d + 1) then f = to_dead msg
           else \<exists>now. f = to_failed msg (now + retry_backoff (wd_attempts d + 1))" by blast
      have "wd_id (f (to_processing d)) = wd_id d" using f(2) by (auto split: if_splits)
      then have "rows_runs (snd (run_state (MarkFailed (wd_id d) msg) ?s2)) \<in>
          {(put_row (to_processing d) (wq_rows s), wq_runs s @ [wd_id d]),
           (put_row (f (to_processing d)) (wq_rows s), wq_runs s @ [wd_id d])}"
        using f(1) s2 put compose by (simp add: rows_runs_def)
      moreover have "attempt d (f (to_processing d))" "attempt d (to_processing d)"
        using f(2) by (auto simp: attempt_def split: if_splits)
      ultimately show ?thesis using Inr Some by (auto simp: processDelivery_def split_beta)
    qed
  qed
qed

section \<open>Reachable queues\<close>

text \<open>
  The attempts of a delivery bound its runs, and its status says how many attempts it may have had.
\<close>

definition row_ok :: "uuid list \<Rightarrow> delivery \<Rightarrow> bool" where
  "row_ok runs r \<longleftrightarrow> count_list runs (wd_id r) \<le> wd_attempts r \<and> int (wd_attempts r) \<le> max 1 (wd_max r) \<and>
     (wd_status r \<in> {DPending, DFailed} \<longrightarrow> int (wd_attempts r) < max 1 (wd_max r))"

definition queue_ok :: "queue_state \<Rightarrow> bool" where
  "queue_ok s \<longleftrightarrow> distinct (map wd_id (wq_rows s)) \<and> (\<forall>r\<in>set (wq_rows s). row_ok (wq_runs s) r)"

lemma in_put_row: "x \<in> set (put_row r' rs) \<Longrightarrow> x = r' \<or> (x \<in> set rs \<and> wd_id x \<noteq> wd_id r')"
  by (auto simp: put_row_def elim: update_where_cases)

lemma put_row_ids: "map wd_id (put_row r' rs) = map wd_id rs"
  by (auto simp: put_row_def update_where_def)

lemma put_row_keeps: "x \<in> set rs \<Longrightarrow> wd_id x \<noteq> wd_id r' \<Longrightarrow> x \<in> set (put_row r' rs)"
  by (auto simp: put_row_def in_update_where)

lemma attempt_fields:
  "attempt d r' \<Longrightarrow> wd_id r' = wd_id d \<and> wd_max r' = wd_max d \<and> wd_attempts r' = wd_attempts d + 1 \<and>
     wd_status r' \<noteq> DPending \<and> (wd_status r' = DFailed \<longrightarrow> int (wd_attempts d + 1) < wd_max d)"
  by (auto simp: attempt_def to_processing_def to_completed_def to_dead_def to_failed_def)

lemma row_ok_attempt:
  assumes "attempt d r'" and "row_ok runs d" and "wd_status d \<in> {DPending, DFailed}"
  shows "row_ok (runs @ [wd_id d]) r'"
proof -
  have "count_list (runs @ [wd_id d]) (wd_id d) = count_list runs (wd_id d) + 1" by simp
  with attempt_fields [OF assms(1)] assms(2,3) show ?thesis unfolding row_ok_def by auto
qed

lemma queue_ok_attempt:
  assumes "queue_ok s" and "d \<in> set (wq_rows s)" and "wd_status d \<in> {DPending, DFailed}"
  shows "queue_ok (snd (run_state (processDelivery ex d) s)) \<and>
    (\<forall>x\<in>set (wq_rows s). wd_id x \<noteq> wd_id d \<longrightarrow> x \<in> set (wq_rows (snd (run_state (processDelivery ex d) s))))"
proof -
  have dist: "distinct (map wd_id (wq_rows s))" and ok: "row_ok (wq_runs s) r" if "r \<in> set (wq_rows s)" for r
    using assms(1) that by (simp_all add: queue_ok_def)
  from processDelivery_effect [OF dist [OF assms(2)] assms(2), of ex] show ?thesis
  proof (elim disjE exE conjE)
    assume "rows_runs (snd (run_state (processDelivery ex d) s)) = rows_runs s"
    then show ?thesis using assms(1) by (simp add: rows_runs_def queue_ok_def)
  next
    fix r' assume r': "attempt d r'" and
      t: "rows_runs (snd (run_state (processDelivery ex d) s)) = (put_row r' (wq_rows s), wq_runs s @ [wd_id d])"
    have "row_ok (wq_runs s @ [wd_id d]) x" if "x \<in> set (put_row r' (wq_rows s))" for x
      using in_put_row [OF that] row_ok_attempt [OF r' ok [OF assms(2)] assms(3)] ok attempt_id [OF r']
      by (auto simp: row_ok_def)
    then show ?thesis
      using t dist [OF assms(2)] put_row_keeps attempt_id [OF r'] by (auto simp: rows_runs_def queue_ok_def put_row_ids)
  qed
qed

lemma queue_ok_for_each:
  assumes "queue_ok s" and "distinct (map wd_id ds)"
    and "\<forall>d\<in>set ds. d \<in> set (wq_rows s) \<and> wd_status d \<in> {DPending, DFailed}"
  shows "queue_ok (snd (run_state (for_each (processDelivery ex) ds) s)) \<and>
    (\<forall>x\<in>set (wq_rows s). wd_id x \<notin> wd_id ` set ds \<longrightarrow>
       x \<in> set (wq_rows (snd (run_state (for_each (processDelivery ex) ds) s))))"
  using assms
proof (induction ds arbitrary: s)
  case (Cons d ds)
  let ?t = "snd (run_state (processDelivery ex d) s)"
  have "queue_ok ?t" and keep: "\<forall>x\<in>set (wq_rows s). wd_id x \<noteq> wd_id d \<longrightarrow> x \<in> set (wq_rows ?t)"
    using queue_ok_attempt [OF Cons.prems(1)] Cons.prems(3) by auto
  moreover have "wd_id x \<noteq> wd_id d" if "x \<in> set ds" for x
    using Cons.prems(2) that by (auto simp: image_iff)
  ultimately have "queue_ok (snd (run_state (for_each (processDelivery ex) ds) ?t)) \<and>
    (\<forall>x\<in>set (wq_rows ?t). wd_id x \<notin> wd_id ` set ds \<longrightarrow>
       x \<in> set (wq_rows (snd (run_state (for_each (processDelivery ex) ds) ?t))))"
    using Cons.prems by (intro Cons.IH) auto
  then show ?case using keep by (simp add: split_beta)
qed simp

text \<open>A listing returns distinct live rows of the table and changes nothing.\<close>

definition lists_live :: "(queue_error + delivery list) wprog \<Rightarrow> bool" where
  "lists_live m \<longleftrightarrow> (\<forall>s. rows_runs (snd (run_state m s)) = rows_runs s \<and>
     (\<forall>ds. fst (run_state m s) = Inr ds \<longrightarrow> distinct (map wd_id (wq_rows s)) \<longrightarrow>
        distinct (map wd_id ds) \<and> (\<forall>d\<in>set ds. d \<in> set (wq_rows s) \<and> wd_status d \<in> {DPending, DFailed})))"

lemma distinct_listing:
  assumes "distinct (map f rs)"
  shows "distinct (map f (take n (sort_key k (filter p rs))))"
proof -
  have "distinct (map f (filter p rs))" using assms by (rule distinct_map_filter)
  then have "distinct (map f (sort_key k (filter p rs)))"
    by (simp add: distinct_map)
  then show ?thesis by (simp flip: take_map)
qed

lemma lists_query:
  assumes "\<And>r. p r \<Longrightarrow> wd_status r \<in> {DPending, DFailed}"
  shows "lists_live (wq_query (\<lambda>s. take n (sort_key k (filter p (wq_rows s)))))"
  unfolding lists_live_def
proof (intro allI conjI impI)
  fix s ds
  let ?q = "wq_query (\<lambda>s. take n (sort_key k (filter p (wq_rows s))))"
  show "rows_runs (snd (run_state ?q s)) = rows_runs s"
    using wq_query_parts by blast
  assume "fst (run_state ?q s) = Inr ds" and dist: "distinct (map wd_id (wq_rows s))"
  then have ds: "ds = take n (sort_key k (filter p (wq_rows s)))"
    using wq_query_parts [of "\<lambda>s. take n (sort_key k (filter p (wq_rows s)))" s] by (auto simp: rows_runs_def)
  show "distinct (map wd_id ds)" unfolding ds by (rule distinct_listing [OF dist])
  show "\<forall>d\<in>set ds. d \<in> set (wq_rows s) \<and> wd_status d \<in> {DPending, DFailed}"
    unfolding ds by (auto dest!: in_set_takeD assms)
qed

lemma lists_pending: "lists_live (ListPending n)"
  unfolding ListPending_def by (rule lists_query) simp

lemma lists_retryable: "lists_live (ListRetryable n)"
  unfolding lists_live_def
proof
  fix s
  let ?c = "snd (run_state wq_clock s)"
  let ?q = "wq_query (\<lambda>s'. take n (sort_key (\<lambda>r. case wd_next r of None \<Rightarrow> 0 | Some t \<Rightarrow> t)
      (filter (retryable (fst (run_state wq_clock s))) (wq_rows s'))))"
  have "lists_live ?q" by (rule lists_query) (simp add: retryable_def)
  from this [unfolded lists_live_def, THEN spec, of ?c] have live:
    "rows_runs (snd (run_state ?q ?c)) = rows_runs ?c \<and>
     (\<forall>ds. fst (run_state ?q ?c) = Inr ds \<longrightarrow> distinct (map wd_id (wq_rows ?c)) \<longrightarrow>
        distinct (map wd_id ds) \<and> (\<forall>d\<in>set ds. d \<in> set (wq_rows ?c) \<and> wd_status d \<in> {DPending, DFailed}))" .
  have eq: "run_state (ListRetryable n) s = run_state ?q ?c" by (simp add: ListRetryable_def split_beta)
  have rows: "rows_runs ?c = rows_runs s" "wq_rows ?c = wq_rows s"
    using wq_clock_parts [of s] by (simp_all add: rows_runs_def)
  show "rows_runs (snd (run_state (ListRetryable n) s)) = rows_runs s \<and>
     (\<forall>ds. fst (run_state (ListRetryable n) s) = Inr ds \<longrightarrow> distinct (map wd_id (wq_rows s)) \<longrightarrow>
        distinct (map wd_id ds) \<and> (\<forall>d\<in>set ds. d \<in> set (wq_rows s) \<and> wd_status d \<in> {DPending, DFailed}))"
    using live unfolding eq rows .
qed

lemma queue_ok_list:
  assumes "lists_live m" and "queue_ok s"
  shows "queue_ok (snd (run_state (process_list ex m) s)) \<and>
    (\<forall>x\<in>set (wq_rows s). wd_status x \<notin> {DPending, DFailed} \<longrightarrow>
       x \<in> set (wq_rows (snd (run_state (process_list ex m) s))))"
proof -
  let ?t = "snd (run_state m s)"
  have t: "rows_runs ?t = rows_runs s" using assms(1) by (simp add: lists_live_def)
  then have ok: "queue_ok ?t" using assms(2) by (simp add: rows_runs_def queue_ok_def)
  show ?thesis
  proof (cases "fst (run_state m s)")
    case (Inl e)
    then show ?thesis using ok t by (simp add: process_list_def split_beta rows_runs_def)
  next
    case (Inr ds)
    then have ds: "distinct (map wd_id ds) \<and> (\<forall>d\<in>set ds. d \<in> set (wq_rows ?t) \<and> wd_status d \<in> {DPending, DFailed})"
      using assms t by (simp add: lists_live_def queue_ok_def rows_runs_def)
    have "wd_id x \<notin> wd_id ` set ds" if "x \<in> set (wq_rows ?t)" "wd_status x \<notin> {DPending, DFailed}" for x
      using ds ok that by (auto simp: queue_ok_def distinct_map dest: inj_onD)
    with queue_ok_for_each [OF ok, of ds ex] ds Inr t show ?thesis
      by (auto simp: process_list_def split_beta rows_runs_def)
  qed
qed

lemma queue_ok_batch:
  assumes "queue_ok s"
  shows "queue_ok (snd (run_state (processBatch ex) s)) \<and>
    (\<forall>x\<in>set (wq_rows s). wd_status x \<notin> {DPending, DFailed} \<longrightarrow> x \<in> set (wq_rows (snd (run_state (processBatch ex) s))))"
proof -
  let ?t = "snd (run_state (process_list ex (ListPending 10)) s)"
  have "queue_ok ?t" and "\<forall>x\<in>set (wq_rows s). wd_status x \<notin> {DPending, DFailed} \<longrightarrow> x \<in> set (wq_rows ?t)"
    using queue_ok_list [OF lists_pending assms] by blast+
  then show ?thesis
    using queue_ok_list [OF lists_retryable, of ?t] by (auto simp: processBatch_def split_beta)
qed

inductive queue_reach :: "queue_state \<Rightarrow> bool" where
  start: "wq_rows s = [] \<Longrightarrow> wq_runs s = [] \<Longrightarrow> queue_reach s"
| create: "queue_reach s \<Longrightarrow> i \<notin> set (wq_runs s) \<Longrightarrow> queue_reach (snd (run_state (DeliveryCreate d i) s))"
| batch: "queue_reach s \<Longrightarrow> queue_reach (snd (run_state (processBatch ex) s))"
| cleanup: "queue_reach s \<Longrightarrow> queue_reach (snd (run_state (CleanupOld older) s))"
| outside: "queue_reach s \<Longrightarrow> queue_reach (s\<lparr>wq_now := n, wq_ticks := ts, wq_faults := fs, wq_pool := b\<rparr>)"

lemma queue_reach_ok: "queue_reach s \<Longrightarrow> queue_ok s"
proof (induction rule: queue_reach.induct)
  case (create s i d)
  let ?c = "snd (run_state wq_clock s)" and ?n = "new_delivery d i (fst (run_state wq_clock s))"
  let ?f = "\<lambda>rs. if i \<in> set (map wd_id rs) then rs else rs @ [?n]"
  have "queue_ok t" if "rows_runs t \<in> {rows_runs s, (?f (wq_rows s), wq_runs s)}" for t
    using that create.IH create.hyps(2)
    by (auto simp: rows_runs_def queue_ok_def row_ok_def new_delivery_def count_list_0_iff split: if_splits)
  then show ?case
    using wq_exec_parts [of ?f ?c] wq_clock_parts [of s]
    by (auto simp: DeliveryCreate_def split_beta rows_runs_def split: sum.splits)
  next
  case (batch s ex)
  then show ?case
    using queue_ok_batch by blast
  next
  case (cleanup s older)
  let ?c = "snd (run_state wq_clock s)"
  let ?f = "delete_where (\<lambda>r. wd_status r \<in> {DCompleted, DDead} \<and> wd_created r < fst (run_state wq_clock s) - older)"
  have "queue_ok t" if "rows_runs t \<in> {rows_runs s, (?f (wq_rows s), wq_runs s)}" for t
    using that cleanup.IH by (auto simp: rows_runs_def queue_ok_def distinct_delete_where)
  then show ?case
    using wq_exec_parts [of ?f ?c] wq_clock_parts [of s]
    by (auto simp: CleanupOld_def split_beta rows_runs_def split: sum.splits)
qed (simp_all add: queue_ok_def)

text \<open>
  C27: whatever the executor returns and whichever statements fail, no delivery is ever run more often
  than its maximum of attempts (once if the maximum is not positive).
\<close>

theorem runs_bounded:
  assumes "queue_reach s" and "r \<in> set (wq_rows s)"
  shows "int (count_list (wq_runs s) (wd_id r)) \<le> max 1 (wd_max r)"
  using queue_reach_ok [OF assms(1)] assms(2) by (force simp: queue_ok_def row_ok_def)

text \<open>
  A delivery left in processing, by a crash or a failed statement after its executor ran, stays
  there: no batch picks it up again and no cleanup removes it.
\<close>

lemma processing_is_never_resumed:
  assumes "queue_reach s" and "r \<in> set (wq_rows s)" and "wd_status r = DProcessing"
  shows "r \<in> set (wq_rows (snd (run_state (processBatch ex) s))) \<and>
    r \<in> set (wq_rows (snd (run_state (CleanupOld older) s)))"
proof
  show "r \<in> set (wq_rows (snd (run_state (processBatch ex) s)))"
    using queue_ok_batch [OF queue_reach_ok [OF assms(1)]] assms(2,3) by auto
  let ?c = "snd (run_state wq_clock s)"
  let ?f = "delete_where (\<lambda>r. wd_status r \<in> {DCompleted, DDead} \<and> wd_created r < fst (run_state wq_clock s) - older)"
  show "r \<in> set (wq_rows (snd (run_state (CleanupOld older) s)))"
    using wq_exec_parts [of ?f ?c] wq_clock_parts [of s] assms(2,3)
    by (auto simp: CleanupOld_def split_beta rows_runs_def split: sum.splits)
qed

text \<open>A delivery whose run fails and whose failure cannot be recorded.\<close>

definition crashed_queue :: queue_state where
  "crashed_queue = snd (run_state (processBatch (\<lambda>_ _ _. Some ''down''))
     (snd (run_state (DeliveryCreate demo_delivery 1)
       (demo_queue\<lparr>wq_rows := [], wq_faults := [False, False, False, True]\<rparr>))))"

lemma crashed_queue_reach: "queue_reach crashed_queue"
  unfolding crashed_queue_def by (intro queue_reach.batch queue_reach.create queue_reach.start) (simp_all add: demo_queue_def)

lemma crashed_queue_row:
  "wq_rows crashed_queue = [to_processing demo_delivery]"
  by (simp add: crashed_queue_def demo_queue_def demo_delivery_def DeliveryCreate_def processBatch_def process_list_def
      ListPending_def ListRetryable_def wq_query_def wq_exec_def wq_io_def wq_clock_def new_delivery_def processDelivery_def
      MarkProcessing_def MarkFailed_def set_row_def run_executor_def to_processing_def update_where_def retryable_def)

lemma runs_bounded_witness: "int (count_list (wq_runs crashed_queue) 1) \<le> 2"
  using runs_bounded [OF crashed_queue_reach, of "to_processing demo_delivery"]
  by (simp add: crashed_queue_row) (simp add: demo_delivery_def)

lemma processing_is_never_resumed_witness:
  "to_processing demo_delivery \<in> set (wq_rows (snd (run_state (processBatch (\<lambda>_ _ _. None)) crashed_queue)))"
  using processing_is_never_resumed [OF crashed_queue_reach, of "to_processing demo_delivery" "\<lambda>_ _ _. None" hour]
  by (simp add: crashed_queue_row) (simp add: demo_delivery_def to_processing_def)

end
