(* ===== verification/Webhooks.thy ===== *)
theory Webhooks
  imports ReviewPipeline WebhookQueue
begin

text \<open>
  The webhook endpoints of \<open>internal/api/handlers.go\<close>, their payloads (\<open>internal/api/webhooks.go\<close>) and
  the signature checks of \<open>internal/vcs/resolver.go\<close>.  HMAC-SHA256 in hexadecimal and the JSON decoders
  are parameters.  A review runs in a goroutine: the handler adds a job, \<open>run_webhook_job\<close> is the job.
\<close>

section \<open>Payloads and signatures\<close>

record github_payload =
  gh_action :: string
  gh_number :: int
  gh_repo :: int

record gitlab_payload =
  gl_action :: string
  gl_iid :: int
  gl_project :: int

record bitbucket_payload =
  bb_id :: int
  bb_repo :: string

record azure_payload =
  az_event :: string
  az_id :: int
  az_repo :: string

record hook_cfg =
  hk_api :: api_cfg
  hk_hmac :: "string \<Rightarrow> string \<Rightarrow> string"
  hk_jsonb :: "string \<Rightarrow> bool"
  hk_vault :: "string \<Rightarrow> string \<Rightarrow> string option"
  hk_github :: "string \<Rightarrow> github_payload option"
  hk_gitlab :: "string \<Rightarrow> gitlab_payload option"
  hk_bitbucket :: "string \<Rightarrow> bitbucket_payload option"
  hk_azure :: "string \<Rightarrow> azure_payload option"
  hk_delivery :: bool

definition trim_prefix :: "string \<Rightarrow> string \<Rightarrow> string" where
  "trim_prefix p s = (if has_prefix s p then drop (length p) s else s)"

definition ValidateWebhookHMAC :: "(string \<Rightarrow> string \<Rightarrow> string) \<Rightarrow> string \<Rightarrow> string \<Rightarrow> string \<Rightarrow> bool" where
  "ValidateWebhookHMAC hmac payload signature secret \<longleftrightarrow>
     secret = [] \<or> trim_prefix ''sha256='' signature = hmac secret payload"

definition ValidateWebhookToken :: "string \<Rightarrow> string \<Rightarrow> bool" where
  "ValidateWebhookToken tok secret \<longleftrightarrow> secret = [] \<or> tok = secret"

section \<open>Handlers\<close>

datatype hook_reply = Ignored string | Accepted

text \<open>At most 5 MB of the body are read; \<open>None\<close> is a read error.\<close>

definition hook_body :: "string option \<Rightarrow> string option" where
  "hook_body raw = map_option (take (5 * 2 ^ 20)) raw"

definition record_event :: "hook_cfg \<Rightarrow> string \<Rightarrow> string \<Rightarrow> string \<Rightarrow> uuid \<Rightarrow> unit aprog" where
  [op_defs]: "record_event cfg platform ty body ev = void (RecordEvent (hk_jsonb cfg)
     \<lparr>we_id = uuid_nil, we_platform = platform, we_type = ty, we_repo = None, we_payload = body,
      we_processed = False, we_error = []\<rparr> ev)"

definition hook_repo :: "string \<Rightarrow> string \<Rightarrow> (repository \<Rightarrow> hook_reply resp aprog) \<Rightarrow> hook_reply resp aprog" where
  [op_defs]: "hook_repo platform ext k = do {
     r \<leftarrow> GetByPlatformAndExternalID platform ext;
     case r of
       Inl ErrNotFound \<Rightarrow> ret (Reply 200 (Ignored ''repo not registered''))
     | Inl _ \<Rightarrow> ret (Fail 500)
     | Inr repo \<Rightarrow> k repo }"

text \<open>The secret of the repository, or else the one in the vault of an owner.\<close>

definition hook_secret :: "hook_cfg \<Rightarrow> repository \<Rightarrow> string \<Rightarrow> string aprog" where
  [op_defs]: "hook_secret cfg repo platform =
     (if rp_secret repo = [] then ResolveWebhookSecretForOrg (hk_vault cfg) (rp_org repo) platform else ret (rp_secret repo))"

definition accept_hook :: "uuid \<Rightarrow> review_job \<Rightarrow> hook_reply resp aprog" where
  [op_defs]: "accept_hook ev j = do {
     _ \<leftarrow> start_job j;
     _ \<leftarrow> MarkProcessed ev [];
     ret (Reply 200 Accepted) }"

definition webhook_job :: "uuid \<Rightarrow> int \<Rightarrow> review_job" where
  "webhook_job i n = \<lparr>jb_repo = i, jb_pr = n, jb_by = uuid_nil\<rparr>"

definition HandleGitHubWebhook ::
  "hook_cfg \<Rightarrow> string option \<Rightarrow> string \<Rightarrow> string \<Rightarrow> uuid \<Rightarrow> hook_reply resp aprog" where
  [op_defs]: "HandleGitHubWebhook cfg raw event signature ev = with_body (hook_body raw) (\<lambda>body. do {
     _ \<leftarrow> record_event cfg ''github'' event body ev;
     if event \<noteq> ''pull_request'' then ret (Reply 200 (Ignored event))
     else with_body (hk_github cfg body) (\<lambda>p.
       hook_repo ''github'' (show_int (gh_repo p)) (\<lambda>repo. do {
         secret \<leftarrow> hook_secret cfg repo ''github'';
         if \<not> ValidateWebhookHMAC (hk_hmac cfg) body signature secret then ret (Fail 401)
         else if gh_action p \<noteq> ''opened'' \<and> gh_action p \<noteq> ''synchronize'' then ret (Reply 200 (Ignored (gh_action p)))
         else do {
           r \<leftarrow> accept_hook ev (webhook_job (rp_id repo) (gh_number p));
           _ \<leftarrow> LogRequest None ''webhook.received'' ''webhook'' (cf_us (hk_api cfg) (rp_id repo));
           ret r } })) })"

definition HandleGitLabWebhook ::
  "hook_cfg \<Rightarrow> string option \<Rightarrow> string \<Rightarrow> string \<Rightarrow> uuid \<Rightarrow> hook_reply resp aprog" where
  [op_defs]: "HandleGitLabWebhook cfg raw event tok ev = with_body (hook_body raw) (\<lambda>body. do {
     _ \<leftarrow> record_event cfg ''gitlab'' event body ev;
     if event \<noteq> ''Merge Request Hook'' then ret (Reply 200 (Ignored event))
     else with_body (hk_gitlab cfg body) (\<lambda>p.
       hook_repo ''gitlab'' (show_int (gl_project p)) (\<lambda>repo. do {
         secret \<leftarrow> hook_secret cfg repo ''gitlab'';
         if \<not> ValidateWebhookToken tok secret then ret (Fail 401)
         else if gl_action p \<noteq> ''open'' \<and> gl_action p \<noteq> ''update'' then ret (Reply 200 (Ignored (gl_action p)))
         else accept_hook ev (webhook_job (rp_id repo) (gl_iid p)) })) })"

definition HandleBitbucketWebhook ::
  "hook_cfg \<Rightarrow> string option \<Rightarrow> string \<Rightarrow> string \<Rightarrow> uuid \<Rightarrow> hook_reply resp aprog" where
  [op_defs]: "HandleBitbucketWebhook cfg raw event signature ev = with_body (hook_body raw) (\<lambda>body. do {
     _ \<leftarrow> record_event cfg ''bitbucket'' event body ev;
     if event \<noteq> ''pullrequest:created'' \<and> event \<noteq> ''pullrequest:updated'' then ret (Reply 200 (Ignored event))
     else with_body (hk_bitbucket cfg body) (\<lambda>p.
       hook_repo ''bitbucket'' (bb_repo p) (\<lambda>repo. do {
         secret \<leftarrow> hook_secret cfg repo ''bitbucket'';
         if \<not> ValidateWebhookHMAC (hk_hmac cfg) body signature secret then ret (Fail 401)
         else accept_hook ev (webhook_job (rp_id repo) (bb_id p)) })) })"

definition HandleAzureDevOpsWebhook :: "hook_cfg \<Rightarrow> string option \<Rightarrow> string \<Rightarrow> uuid \<Rightarrow> hook_reply resp aprog" where
  [op_defs]: "HandleAzureDevOpsWebhook cfg raw tok ev = with_body (hook_body raw) (\<lambda>body. do {
     _ \<leftarrow> record_event cfg ''azure_devops'' ''pull_request'' body ev;
     with_body (hk_azure cfg body) (\<lambda>p.
       if az_event p \<noteq> ''git.pullrequest.created'' \<and> az_event p \<noteq> ''git.pullrequest.updated''
       then ret (Reply 200 (Ignored (az_event p)))
       else hook_repo ''azure_devops'' (az_repo p) (\<lambda>repo. do {
         secret \<leftarrow> hook_secret cfg repo ''azure_devops'';
         if \<not> ValidateWebhookToken tok secret then ret (Fail 401)
         else accept_hook ev (webhook_job (rp_id repo) (az_id p)) })) })"

section \<open>The goroutine of a GitHub event\<close>

type_synonym 'a jprog = "((account_state \<times> outside) \<times> queue_state, 'a) state"

definition failed_delivery :: "uuid \<Rightarrow> review_job \<Rightarrow> delivery" where
  "failed_delivery ev j = \<lparr>wd_id = uuid_nil, wd_event = ev, wd_repo = jb_repo j, wd_platform = ''github'', wd_pr = jb_pr j,
     wd_status = DPending, wd_attempts = 0, wd_max = 0, wd_error = [], wd_next = None, wd_created = 0, wd_completed = None\<rparr>"

text \<open>A pipeline that ends with an error is queued for a retry if there is a delivery repository.\<close>

definition run_github_job ::
  "hook_cfg \<Rightarrow> pipe_cfg \<Rightarrow> uuid \<Rightarrow> review_job \<Rightarrow> uuid \<Rightarrow> (nat \<Rightarrow> uuid) \<Rightarrow> uuid \<Rightarrow> time \<Rightarrow> time \<Rightarrow> unit jprog" where
  [op_defs]: "run_github_job cfg pipe ev j review_id ids delivery_id start now = do {
     r \<leftarrow> on_fst (Execute pipe j review_id ids start now);
     case r of
       Inr _ \<Rightarrow> ret ()
     | Inl _ \<Rightarrow> if hk_delivery cfg then void (on_snd (DeliveryCreate (failed_delivery ev j) delivery_id)) else ret () }"

end
