(* ===== verification/AccountSystem.thy ===== *)
theory AccountSystem
  imports AccountStore Webhooks
begin

text \<open>
  The account endpoints, the login, the webhooks and the review jobs as one transition system.  The
  locale \<open>account_store\<close> is the contract between the tables and these programs: a predicate that every
  listed statement preserves and that gives each repository a supported platform.
\<close>

section \<open>Programs over the account tables\<close>

lemma stable_bind_meets:
  assumes "meets I m Q" and "\<And>x. Q x \<Longrightarrow> stable (keeps I) (f x)"
  shows "stable (keeps I) (State_Monad.bind m f)"
  by (rule meets_keeps, rule meets_bind [OF assms(1)], rule meets_stable, rule assms(2))

text \<open>What a program returns from any state.\<close>

abbreviation yields :: "('s, 'a) state \<Rightarrow> ('a \<Rightarrow> bool) \<Rightarrow> bool" where
  "yields m Q \<equiv> meets (\<lambda>_. True) m Q"

lemma yields_any: "yields m (\<lambda>_. True)"
  by (simp add: meets_def)

lemma yields_skip: "(\<And>x. yields (f x) Q) \<Longrightarrow> yields (State_Monad.bind m f) Q"
  by (rule meets_bind [OF yields_any])

context state_preorder
begin

lemma stable_bind_yields:
  assumes "stable R m" and "yields m Q" and "\<And>x. Q x \<Longrightarrow> stable R (f x)"
  shows "stable R (State_Monad.bind m f)"
proof (rule stableI)
  fix s
  obtain a t where run: "run_state m s = (a, t)" by fastforce
  have "R s t" using assms(1) run by (rule stable_run)
  moreover have "Q a" using meetsD [OF assms(2), of s] run by simp
  then have "R t (snd (run_state (f a) t))" using assms(3) by (simp add: stableD)
  ultimately show "R s (snd (run_state (State_Monad.bind m f) s))"
    using run by (simp add: R_trans)
qed

end

lemma invite_role: "validate_invite r = None \<Longrightarrow> iv_role r = [] \<or> iv_role r \<in> org_roles"
proof -
  assume "validate_invite r = None"
  moreover have "rx_match rolePattern v \<longleftrightarrow> v \<in> org_roles" for v
    unfolding rolePattern_def any_lit org_roles_def by simp
  ultimately show ?thesis
    by (cases "iv_role r = []") (simp_all add: validate_invite_def Let_def Role_def)
qed

lemma stable_case_list:
  "stable R m \<Longrightarrow> (\<And>y ys. stable R (f y ys)) \<Longrightarrow> stable R (case xs of [] \<Rightarrow> m | y # ys \<Rightarrow> f y ys)"
  by (cases xs) simp_all

lemma register_platform: "validate_register_repo r = None \<Longrightarrow> rr_platform r \<in> set supported_platforms"
  using register_repo_accepts [of r] by (auto simp: supported_platforms_def)

text \<open>The comments of a review carry one of the known severities.\<close>

definition graded :: "review_comment list \<Rightarrow> bool" where
  "graded cs \<longleftrightarrow> (\<forall>c\<in>set cs. rc_severity c \<in> set valid_severities)"

lemma severity_of_valid: "severity_of s \<in> set valid_severities"
  by (simp add: severity_of_def valid_severities_def)

lemma graded_results:
  "graded (convertHeuristicFindings fs)" "graded (parseReviewResponse json content file)"
  "graded (cs @ ds) \<longleftrightarrow> graded cs \<and> graded ds" "graded []"
  by (auto simp: graded_def convertHeuristicFindings_def parseReviewResponse_def new_comment_def severity_of_valid
      Let_def split: option.splits)

lemma graded_files: "yields (analyze_files cfg llm pr pack sec fs) graded"
proof (induction fs)
  case (Cons f fs)
  then show ?case
    by (auto intro!: yields_skip meets_bind [OF Cons] meets_ret simp: graded_results split: option.split)
qed (simp add: meets_ret graded_results)

lemma graded_analysis:
  "yields (analyzeFilesWithContext cfg pr fs pack cross) (\<lambda>r. case r of Inl _ \<Rightarrow> True | Inr cs \<Rightarrow> graded cs)"
  unfolding analyzeFilesWithContext_def
  by (auto intro!: meets_bind [OF graded_files] meets_ret split: option.split)

lemma graded_heuristics: "yields (heuristic_comments cfg diff) graded"
  unfolding heuristic_comments_def
  by (auto intro!: yields_skip meets_ret simp: graded_results split: option.split)

definition anything :: "'s \<Rightarrow> 's \<Rightarrow> bool" where
  "anything s t \<longleftrightarrow> True"

lemma stable_anything: "stable anything m"
  by (simp add: stable_def anything_def)

interpretation free: state_preorder anything
  by unfold_locales (simp_all add: anything_def)

locale account_store =
  fixes P :: "account_db \<Rightarrow> bool"
  assumes kept: "table_write f \<Longrightarrow> P d \<Longrightarrow> f d = Inr d' \<Longrightarrow> P d'"
    and platform: "P d \<Longrightarrow> r \<in> set (ac_repos d) \<Longrightarrow> rp_platform r \<in> set supported_platforms"
begin

abbreviation K :: "account_state \<Rightarrow> account_state \<Rightarrow> bool" where
  "K \<equiv> keeps (\<lambda>s. P (a_db s))"

lemma keep_io: "stable K a_io"
  by (rule stableI) (auto simp: a_io_def keeps_def split: list.splits)

lemma keep_select: "stable K (aselect f)"
  unfolding aselect_def by (intro keep_io keeping.stable_combinators)

lemma keep_fetch: "stable K (afetch f)"
  unfolding afetch_def by (intro keep_select keeping.stable_combinators)

lemma keep_page: "stable K (apage f l n)"
  unfolding apage_def by (intro keep_select keeping.stable_combinators)

lemma keep_exec: "table_write f \<Longrightarrow> stable K (aexec f)"
  unfolding aexec_def
  by (intro keep_io keeping.stable_combinators stableI) (auto simp: keeps_def split: sum.splits intro: kept)

lemma keep_log: "stable K (LogRequest cl a t r)"
  unfolding LogRequest_def by (rule stable_modify) (simp add: keeps_def)

lemma keep_index: "stable K (modify (\<lambda>s. s\<lparr>a_index := g s\<rparr>))"
  by (rule stable_modify) (simp add: keeps_def)

lemma keep_job: "stable K (start_job j)"
  unfolding start_job_def by (rule stable_modify) (simp add: keeps_def)

lemma keep_shell: "stable K (run_shell cfg cmd)"
  by (rule stableI) (simp add: run_shell_def keeps_def)

lemma keep_or_code: "stable K m \<Longrightarrow> (\<And>x. stable K (f x)) \<Longrightarrow> stable K (or_code c m f)"
  unfolding or_code_def by (intro keeping.stable_combinators)

lemma keep_validated: "(v = None \<Longrightarrow> stable K k) \<Longrightarrow> stable K (validated v k)"
  unfolding validated_def by (intro keeping.stable_combinators)

lemma keep_with:
  "(\<And>x. stable K (f x)) \<Longrightarrow> stable K (with_user u f)"
  "(\<And>x. stable K (f x)) \<Longrightarrow> stable K (with_id x f)"
  "(\<And>x. stable K (h x)) \<Longrightarrow> stable K (with_body b h)"
  "(\<And>x. stable K (g x)) \<Longrightarrow> stable K (with_claims c g)"
  unfolding with_user_def with_id_def with_body_def with_claims_def
  by (intro keeping.stable_combinators; assumption)+

lemmas keep_calls = keep_select keep_fetch keep_page keep_log keep_index keep_job keep_shell keep_or_code
  keep_validated keep_with keeping.stable_combinators keeping.stable_void keep_io

lemma keep_org_quota:
  "(\<And>r. stable K (check r)) \<Longrightarrow> stable K k \<Longrightarrow> stable K (org_quota cfg g check k)"
  unfolding org_quota_def OrgGet_def by (intro keep_calls; assumption?)

lemma keep_checks: "stable K (CheckMemberQuota g p)" "stable K (CheckRepoQuota g p)" "stable K (CheckReviewQuota g p now)"
  unfolding CheckMemberQuota_def CheckRepoQuota_def CheckReviewQuota_def Let_def by (intro keep_calls)+

lemma keep_review_quota: "stable K k \<Longrightarrow> stable K (review_quota cfg i now k)"
  unfolding review_quota_def RepoGet_def by (intro keep_org_quota keep_checks keep_calls; assumption?)

text \<open>The statements of the stores.\<close>

lemma keep_user_store:
  "new_id \<noteq> uuid_nil \<Longrightarrow> stable K (UserCreate u new_id vault now)"
  "stable K (UserUpdate u now)" "stable K (UpsertOAuthIdentity x)"
  unfolding UserCreate_def UserUpdate_def UpsertOAuthIdentity_def Let_def
  by (intro keep_exec keep_calls table_write.intros; simp)+

lemma keep_org_store:
  "stable K (OrgCreate g new_id now)" "stable K (OrgUpdate g now)" "stable K (RemoveMember i j)"
  "role \<in> org_roles \<Longrightarrow> stable K (AddMember i j role now)"
  unfolding OrgCreate_def OrgUpdate_def RemoveMember_def AddMember_def Let_def
  by (intro keep_exec keep_calls table_write.intros; simp)+

lemma keep_repo_store:
  "rp_platform r \<in> set supported_platforms \<Longrightarrow> rp_secret r \<noteq> [] \<Longrightarrow> stable K (RepoCreate r new_id now)"
  "rp_platform r \<in> set supported_platforms \<Longrightarrow> stable K (RepoUpdate r now)"
  "stable K (RepoDelete i)" "stable K (MarkIndexed i now)" "stable K (GrantRemove i j)"
  "role \<in> grant_roles \<Longrightarrow> stable K (GrantAdd i j role now)"
  unfolding RepoCreate_def RepoUpdate_def RepoDelete_def MarkIndexed_def GrantAdd_def GrantRemove_def Let_def
  by (intro keep_exec keep_calls table_write.intros; simp)+

lemma keep_review_store:
  "stable K (ReviewCreate v new_id now)" "stable K (ReviewUpdateStatus i st meta now)"
  "rc_severity c \<in> set valid_severities \<Longrightarrow> stable K (CreateComment c new_id now)"
  "we_repo e = None \<Longrightarrow> stable K (RecordEvent jsonb e new_id)" "stable K (MarkProcessed i msg)"
  unfolding ReviewCreate_def ReviewUpdateStatus_def CreateComment_def RecordEvent_def MarkProcessed_def Let_def
  by (intro keep_exec keep_calls table_write.intros; simp)+

lemmas keep_stores = keep_user_store keep_org_store keep_repo_store keep_review_store
  keep_org_quota keep_checks keep_review_quota

lemmas read_defs = UserGetByID_def GetByEmail_def OrgGet_def OrgListByUser_def ListMembers_def RepoGet_def
  GetByPlatformAndExternalID_def RepoListByOrg_def RepoListByUser_def GrantList_def ReviewGet_def ReviewListByRepo_def
  ReviewListByUser_def ListCommentsByReview_def

text \<open>The endpoints.\<close>

lemma keep_user_handlers:
  "stable K (GetCurrentUser cl)" "stable K (UpdateCurrentUser cl ub now)"
  "stable K (ListOrgs cfg cl l n)" "stable K (CreateOrg cfg cl cb new_id now)" "stable K (GetOrg x)"
  "stable K (UpdateOrg x ob now)" "stable K (ListOrgMembers x l n)" "stable K (RemoveOrgMember cfg cl x y)"
  unfolding GetCurrentUser_def UpdateCurrentUser_def ListOrgs_def CreateOrg_def GetOrg_def UpdateOrg_def
    ListOrgMembers_def RemoveOrgMember_def Let_def read_defs
  by (intro keep_calls keep_stores; simp add: org_roles_def)+

lemma keep_invite: "stable K (InviteOrgMember cfg cl x body now)"
  unfolding InviteOrgMember_def Let_def read_defs
  by (intro keep_calls keep_stores) (auto simp: org_roles_def dest: invite_role)

lemma keep_personal_org: "stable K (personal_org cfg c i now)"
  unfolding personal_org_def read_defs by (intro stable_case_list keep_calls keep_stores; simp add: org_roles_def)

lemma keep_create_repo:
  "rr_platform req \<in> set supported_platforms \<Longrightarrow> secret \<noteq> [] \<Longrightarrow> stable K (create_repo cfg c req g secret new_id now)"
  unfolding create_repo_def Let_def by (intro keep_calls keep_stores; simp add: repo_of_request_def)

lemma keep_register: "secret \<noteq> [] \<Longrightarrow> stable K (RegisterRepo cfg cl body secret org_id new_id now)"
  unfolding RegisterRepo_def Let_def
  by (intro keep_calls keep_create_repo keep_personal_org; simp add: register_platform)

lemma meets_repo_get:
  "meets (\<lambda>s. P (a_db s)) (RepoGet i) (\<lambda>r. case r of Inl _ \<Rightarrow> True | Inr x \<Rightarrow> rp_platform x \<in> set supported_platforms)"
  by (auto simp: meets_def RepoGet_def afetch_def aselect_def a_io_def gets_def run_state_if dest: find_Some_in platform
      split: list.splits option.splits sum.splits prod.splits)

lemma keep_update_repo: "stable K (UpdateRepo x body now)"
  unfolding UpdateRepo_def Let_def or_code_def
  by (intro keep_calls stable_bind_meets [OF meets_repo_get] keep_stores; simp split: option.split)

lemma keep_repo_handlers:
  "stable K (ListRepos cfg cl t l n)" "stable K (GetRepo x)" "stable K (DeleteRepo cfg cl x)"
  "stable K (ListRepoMembers x)" "stable K (AddRepoMember x gb now)" "stable K (RemoveRepoMember x y)"
  "stable K (TriggerIndex cfg cl x tb)" "stable K (ListBranches cfg cl x)"
  unfolding ListRepos_def GetRepo_def DeleteRepo_def ListRepoMembers_def AddRepoMember_def RemoveRepoMember_def
    TriggerIndex_def ListBranches_def Let_def read_defs
  by (intro keep_calls keep_stores; auto simp: grant_roles_def)+

lemma keep_review_handlers:
  "stable K (ListReviews cfg cl t l n)" "stable K (TriggerReview cfg cl rb now)" "stable K (GetReview x)"
  "stable K (GetReviewComments cfg x)"
  unfolding ListReviews_def TriggerReview_def GetReview_def GetReviewComments_def Let_def read_defs
  by (intro keep_calls keep_stores)+

lemmas keep_handlers = keep_user_handlers keep_invite keep_register keep_update_repo keep_repo_handlers keep_review_handlers

text \<open>Webhooks.\<close>

lemma keep_hook_parts:
  "stable K (record_event cfg p t b ev)"
  "(\<And>r. stable K (f r)) \<Longrightarrow> stable K (hook_repo p ext f)"
  "stable K (hook_secret cfg repo p)" "stable K (accept_hook ev j)"
  unfolding record_event_def hook_repo_def hook_secret_def accept_hook_def ResolveWebhookSecretForOrg_def
    resolveOrgOwnerCreds_def read_defs
  by (intro keep_calls keep_stores stable_case_store_error; simp)+

lemma keep_webhooks:
  "stable K (HandleGitHubWebhook cfg raw event sig ev)" "stable K (HandleGitLabWebhook cfg raw event sig ev)"
  "stable K (HandleBitbucketWebhook cfg raw event sig ev)" "stable K (HandleAzureDevOpsWebhook cfg raw sig ev)"
  unfolding HandleGitHubWebhook_def HandleGitLabWebhook_def HandleBitbucketWebhook_def HandleAzureDevOpsWebhook_def
  by (intro keep_calls keep_hook_parts)+

text \<open>The login, over the tables and Redis.\<close>

sublocale login: two_stores K "anything :: redis \<Rightarrow> redis \<Rightarrow> bool" ..

lemma keep_login_parts:
  "new_id \<noteq> uuid_nil \<Longrightarrow> stable K (find_or_create ou new_id vault now)" "stable K (link_identity lc u name ou t)"
  "stable K (finish_login lc u redirect j1 j2 now)"
  unfolding find_or_create_def link_identity_def finish_login_def read_defs
  by (intro keep_calls keep_stores stable_case_store_error ; simp)+

lemma keep_login:
  "stable (both K anything) (OAuthLogin lc name redirect st now)"
  "new_id \<noteq> uuid_nil \<Longrightarrow> stable (both K anything) (OAuthCallback lc st code' new_id vault j1 j2 now)"
  unfolding OAuthLogin_def OAuthCallback_def or_fail_def
  by (intro login.pair_calls keep_login_parts stable_anything; simp)+

lemma keep_sessions:
  "stable K (RefreshToken lc b h j1 j2 now)" "stable K (Logout cl)"
  unfolding RefreshToken_def Logout_def read_defs by (intro keep_calls)+

text \<open>The review job, over the tables and the outside.\<close>

sublocale job: two_stores K "anything :: outside \<Rightarrow> outside \<Rightarrow> bool" ..

lemma job_outside: "stable (both K anything) (call_out c f)" "stable (both K anything) (emitProgress x n st)"
  unfolding call_out_def emitProgress_def by (intro job.stable_on_snd stable_anything)+

lemmas job_calls = job_outside job.pair_calls keep_stores

lemma keep_job_parts:
  "stable (both K anything) (fail_step i x n m now)" "stable (both K anything) (engine_context cfg i diff pr)"
  "stable (both K anything) (cross_context_of cfg j pack pr)" "stable (both K anything) (heuristic_comments cfg diff)"
  "stable (both K anything) (post_comment cfg r k pr c)"
  unfolding fail_step_def failReview_def engine_context_def cross_context_of_def heuristic_comments_def post_comment_def
  by (intro job_calls keeping.stable_void)+

lemma keep_persist: "graded cs \<Longrightarrow> stable (both K anything) (persist_comments ids now i cs n)"
  by (induction cs arbitrary: n) (auto intro!: job_calls simp: graded_def)

lemma keep_publish: "graded cs \<Longrightarrow> stable (both K anything) (publish cfg r j i pr cs meta ids now)"
  unfolding publish_def by (intro job_calls keep_persist keep_job_parts; assumption?)

lemma keep_analysis: "stable (both K anything) (analyzeFilesWithContext cfg pr fs pack cross)"
proof -
  have "stable (both K anything) (analyze_files cfg llm pr pack sec fs)" for llm sec
    by (induction fs) (auto intro!: job_calls)
  then show ?thesis unfolding analyzeFilesWithContext_def by (intro job_calls)
qed

lemmas graded_binds = job.pair.stable_bind_yields [OF keep_job_parts(4) graded_heuristics]
  job.pair.stable_bind_yields [OF keep_analysis graded_analysis]

lemma keep_review_files: "stable (both K anything) (review_files cfg r j i pr fs ids now)"
proof -
  have last: "stable (both K anything) (case res of Inl m \<Rightarrow> fail_step i x n m now
      | Inr cs \<Rightarrow> do { _ \<leftarrow> emitProgress x n ''completed''; publish cfg r j i pr (cs @ heur) (f cs) ids now })"
    if "graded heur" "case res of Inl _ \<Rightarrow> True | Inr cs \<Rightarrow> graded cs" for heur res x n f
    using that by (cases res) (auto intro!: job_calls keep_job_parts keep_publish simp: graded_results)
  show ?thesis
    unfolding review_files_def Let_def
    by (rule graded_binds last job_calls keep_job_parts | assumption)+
qed

lemma keep_execute: "stable (both K anything) (Execute cfg j new_id ids start now)"
  unfolding Execute_def review_pr_def ForRepoDirect_def resolveOrgOwnerCreds_def RepoGet_def
  by (intro keep_review_files keep_job_parts job_calls keep_calls)

end

section \<open>Routes\<close>

text \<open>The authenticated routes of \<open>internal/server/server.go\<close> with their decoded bodies and query texts.\<close>

datatype account_request =
    RqGetMe | RqPutMe "update_user_request option"
  | RqGetOrgs string string | RqPostOrg "create_org_request option" | RqGetOrg uuid_text
  | RqPutOrg uuid_text "(string \<rightharpoonup> setting) update_org_request option"
  | RqGetMembers uuid_text string string | RqPostMember uuid_text "invite_request option"
  | RqDeleteMember uuid_text uuid_text
  | RqGetRepos string string string | RqPostRepo "register_repo_request option" | RqGetRepo uuid_text
  | RqPutRepo uuid_text "(string \<rightharpoonup> setting) update_repo_request option" | RqDeleteRepo uuid_text
  | RqPostIndex uuid_text "(string \<times> string) option option" | RqGetBranches uuid_text
  | RqGetGrants uuid_text | RqPostGrant uuid_text "(string \<times> string) option" | RqDeleteGrant uuid_text uuid_text
  | RqGetReviews string string string | RqPostReview "trigger_request option"
  | RqGetReview uuid_text | RqGetComments uuid_text

definition status_only :: "'b resp aprog \<Rightarrow> unit resp aprog" where
  "status_only m = do { r \<leftarrow> m; ret (case r of Reply n _ \<Rightarrow> Reply n () | Fail n \<Rightarrow> Fail n) }"

text \<open>\<open>new_id\<close>, \<open>org_id\<close> and \<open>secret\<close> are drawn while the request runs.\<close>

fun account_endpoint ::
  "api_cfg \<Rightarrow> jwt_claims option \<Rightarrow> uuid \<Rightarrow> uuid \<Rightarrow> string \<Rightarrow> time \<Rightarrow> account_request \<Rightarrow> unit resp aprog" where
  "account_endpoint cfg cl new_id org_id secret now RqGetMe = status_only (GetCurrentUser cl)"
| "account_endpoint cfg cl new_id org_id secret now (RqPutMe b) = status_only (UpdateCurrentUser cl b now)"
| "account_endpoint cfg cl new_id org_id secret now (RqGetOrgs l n) = status_only (ListOrgs cfg cl l n)"
| "account_endpoint cfg cl new_id org_id secret now (RqPostOrg b) = status_only (CreateOrg cfg cl b new_id now)"
| "account_endpoint cfg cl new_id org_id secret now (RqGetOrg x) = status_only (GetOrg x)"
| "account_endpoint cfg cl new_id org_id secret now (RqPutOrg x b) = status_only (UpdateOrg x b now)"
| "account_endpoint cfg cl new_id org_id secret now (RqGetMembers x l n) = status_only (ListOrgMembers x l n)"
| "account_endpoint cfg cl new_id org_id secret now (RqPostMember x b) = status_only (InviteOrgMember cfg cl x b now)"
| "account_endpoint cfg cl new_id org_id secret now (RqDeleteMember x y) = status_only (RemoveOrgMember cfg cl x y)"
| "account_endpoint cfg cl new_id org_id secret now (RqGetRepos t l n) = status_only (ListRepos cfg cl t l n)"
| "account_endpoint cfg cl new_id org_id secret now (RqPostRepo b) = status_only (RegisterRepo cfg cl b secret org_id new_id now)"
| "account_endpoint cfg cl new_id org_id secret now (RqGetRepo x) = status_only (GetRepo x)"
| "account_endpoint cfg cl new_id org_id secret now (RqPutRepo x b) = status_only (UpdateRepo x b now)"
| "account_endpoint cfg cl new_id org_id secret now (RqDeleteRepo x) = status_only (DeleteRepo cfg cl x)"
| "account_endpoint cfg cl new_id org_id secret now (RqPostIndex x b) = status_only (TriggerIndex cfg cl x b)"
| "account_endpoint cfg cl new_id org_id secret now (RqGetBranches x) = status_only (ListBranches cfg cl x)"
| "account_endpoint cfg cl new_id org_id secret now (RqGetGrants x) = status_only (ListRepoMembers x)"
| "account_endpoint cfg cl new_id org_id secret now (RqPostGrant x b) = status_only (AddRepoMember x b now)"
| "account_endpoint cfg cl new_id org_id secret now (RqDeleteGrant x y) = status_only (RemoveRepoMember x y)"
| "account_endpoint cfg cl new_id org_id secret now (RqGetReviews t l n) = status_only (ListReviews cfg cl t l n)"
| "account_endpoint cfg cl new_id org_id secret now (RqPostReview b) = status_only (TriggerReview cfg cl b now)"
| "account_endpoint cfg cl new_id org_id secret now (RqGetReview x) = status_only (GetReview x)"
| "account_endpoint cfg cl new_id org_id secret now (RqGetComments x) = status_only (GetReviewComments cfg x)"

text \<open>The four webhook routes: platform, raw body, event header and signature or token header.\<close>

datatype hook_request =
    HookGitHub "string option" string string | HookGitLab "string option" string string
  | HookBitbucket "string option" string string | HookAzure "string option" string

fun hook_endpoint :: "hook_cfg \<Rightarrow> uuid \<Rightarrow> hook_request \<Rightarrow> hook_reply resp aprog" where
  "hook_endpoint cfg ev (HookGitHub raw event sig) = HandleGitHubWebhook cfg raw event sig ev"
| "hook_endpoint cfg ev (HookGitLab raw event sig) = HandleGitLabWebhook cfg raw event sig ev"
| "hook_endpoint cfg ev (HookBitbucket raw event sig) = HandleBitbucketWebhook cfg raw event sig ev"
| "hook_endpoint cfg ev (HookAzure raw sig) = HandleAzureDevOpsWebhook cfg raw sig ev"

definition take_job :: "nat \<Rightarrow> account_state \<Rightarrow> account_state" where
  "take_job n s = s\<lparr>a_jobs := take n (a_jobs s) @ drop (Suc n) (a_jobs s)\<rparr>"

definition no_accounts :: account_db where
  "no_accounts = \<lparr>ac_users = [], ac_identities = [], ac_orgs = [], ac_members = [], ac_repos = [], ac_grants = [],
     ac_reviews = [], ac_comments = [], ac_usage = [], ac_webhooks = []\<rparr>"

text \<open>Redis and the outside are arbitrary at every step; so are the failing statements.\<close>

inductive account_reach :: "account_state \<Rightarrow> bool" where
  start: "account_reach \<lparr>a_db = no_accounts, a_audit = [], a_jobs = [], a_index = [], a_shell = [], a_faults = []\<rparr>"
| faults: "account_reach s \<Longrightarrow> account_reach (s\<lparr>a_faults := fs\<rparr>)"
| request: "account_reach s \<Longrightarrow> secret \<noteq> [] \<Longrightarrow> account_reach (snd (run_state
     (auth_middleware jwt now h (\<lambda>cl. account_endpoint cfg cl new_id org_id secret now req)) s))"
| login: "account_reach s \<Longrightarrow> new_id \<noteq> uuid_nil \<Longrightarrow> account_reach (fst (snd (run_state
     (OAuthCallback lc st auth_code new_id vault jti1 jti2 now) (s, r))))"
| refresh: "account_reach s \<Longrightarrow> account_reach (snd (run_state (RefreshToken lc body h jti1 jti2 now) s))"
| logout: "account_reach s \<Longrightarrow> account_reach (snd (run_state (Logout None) s))"
| hook: "account_reach s \<Longrightarrow> account_reach (snd (run_state (hook_endpoint hk ev hreq) s))"
| job: "account_reach s \<Longrightarrow> n < length (a_jobs s) \<Longrightarrow> account_reach (fst (snd (run_state
     (Execute pipe (a_jobs s ! n) review_id ids begun now) (take_job n s, w))))"

section \<open>The invariant of reachable states\<close>

context account_store
begin

lemma keep_status: "stable K m \<Longrightarrow> stable K (status_only m)"
  unfolding status_only_def by (intro keeping.stable_combinators)

lemma keep_endpoint: "secret \<noteq> [] \<Longrightarrow> stable K (account_endpoint cfg cl new_id org_id secret now req)"
  by (cases req) (auto intro!: keep_status keep_handlers)

lemma keep_hook: "stable K (hook_endpoint hk ev hreq)"
  by (cases hreq) (auto intro!: keep_webhooks)

lemma keep_middleware: "(\<And>cl. stable K (f cl)) \<Longrightarrow> stable K (auth_middleware m now h f)"
  unfolding auth_middleware_def Let_def by (intro keeping.stable_combinators)

lemma reach_keeps:
  assumes "account_reach s" and "P no_accounts"
  shows "P (a_db s)"
  using assms(1)
proof induction
  case (request s secret jwt now h cfg new_id org_id req)
  then show ?case using stableD [OF keep_middleware [OF keep_endpoint]] by (fastforce simp: keeps_def)
next
  case (login s new_id lc st auth_code vault jti1 jti2 now r)
  then show ?case using stableD [OF keep_login(2) [OF login.hyps(2)], where s = "(s, r)"]
    by (simp add: both_def keeps_def)
next
  case (job s n pipe review_id ids begun now w)
  then show ?case using stableD [OF keep_execute, where s = "(take_job n s, w)"]
    by (simp add: both_def keeps_def take_job_def)
qed (use assms(2) stableD [OF keep_sessions(1)] stableD [OF keep_sessions(2)] stableD [OF keep_hook] in
  \<open>auto simp: keeps_def\<close>)

end

interpretation tables: account_store accounts_ok
  by unfold_locales (erule (2) accounts_table_write, simp add: accounts_ok_def typed_rows_def)

lemma reachable_tables: "account_reach s \<Longrightarrow> accounts_ok (a_db s)"
  by (rule tables.reach_keeps)
    (simp_all add: no_accounts_def accounts_ok_def unique_rows_def table_rules)

end
