(* ===== verification/SelfHeal.thy ===== *)
theory SelfHeal
  imports TaskStore "HOL-Library.AList" "HOL-Library.List_Lexorder"
begin

text \<open>
  \<open>internal/swarm/self_heal.go\<close>: per-provider circuit breakers and recovery of stuck tasks.  The
  in-memory map of breakers is an association list (its order is the iteration order of the Go
  map), and so is the table \<open>swarm_provider_circuit_state\<close>; the event log is a list.  The JSON details of events are not modelled.  \<open>scan_closes\<close> is the behaviour of
  the database driver after a failed \<open>rows.Scan\<close>: whether it closes the result set or goes on.
\<close>

section \<open>State\<close>

datatype circuit_state = CircuitClosed | CircuitOpen | CircuitHalfOpen

datatype sh_type =
    SHEventCircuitOpened | SHEventCircuitClosed | SHEventCircuitHalfOpen
  | SHEventTaskTimeoutRecover | SHEventProviderFailover | SHEventStuckTask

datatype severity = SeverityInfo | SeverityWarn | SeverityCritical

definition circuitFailureThreshold :: int where "circuitFailureThreshold = 5"
definition circuitOpenDuration :: time where "circuitOpenDuration = 2 * minute"
definition halfOpenMaxProbes :: int where "halfOpenMaxProbes = 3"
definition stuckTaskThreshold :: time where "stuckTaskThreshold = 45 * minute"
definition eventRetentionDays :: int where "eventRetentionDays = 30"

record circuit =
  pc_state :: circuit_state
  pc_failures :: int
  pc_total_failures :: int
  pc_total_successes :: int
  pc_last_failure_at :: "time option"
  pc_last_success_at :: "time option"
  pc_open_until :: "time option"
  pc_probes :: int

record sh_event =
  ev_id :: nat
  ev_type :: sh_type
  ev_provider :: string
  ev_task :: "uuid option"
  ev_severity :: severity
  ev_resolved :: bool
  ev_resolved_at :: "time option"
  ev_created_at :: time

record selfheal =
  sh_swarm :: swarm
  circuits :: "(string \<times> circuit) list"
  circuit_rows :: "(string \<times> circuit) list"
  sh_events :: "sh_event list"
  next_event :: nat

record outcome_report =
  rp_provider :: string
  rp_success :: bool
  rp_task :: "uuid option"

type_synonym 'a sprog = "(selfheal, 'a) state"

definition new_circuit :: circuit where
  "new_circuit = \<lparr>pc_state = CircuitClosed, pc_failures = 0, pc_total_failures = 0,
     pc_total_successes = 0, pc_last_failure_at = None, pc_last_success_at = None,
     pc_open_until = None, pc_probes = 0\<rparr>"

definition init_selfheal :: selfheal where
  "init_selfheal = \<lparr>sh_swarm = init_swarm, circuits = [], circuit_rows = [], sh_events = [],
     next_event = 0\<rparr>"

definition lift :: "'a prog \<Rightarrow> 'a sprog" where
  "lift m = State (\<lambda>S. case run_state m (sh_swarm S) of (a, s) \<Rightarrow> (a, S\<lparr>sh_swarm := s\<rparr>))"

lemma run_state_lift [simp]:
  "run_state (lift m) S = (case run_state m (sh_swarm S) of (a, s) \<Rightarrow> (a, S\<lparr>sh_swarm := s\<rparr>))"
  by (simp add: lift_def)

definition lookup_circuit :: "string \<Rightarrow> selfheal \<Rightarrow> circuit option" where
  "lookup_circuit p S = map_of (circuits S) p"

definition put_circuit :: "string \<Rightarrow> circuit \<Rightarrow> selfheal \<Rightarrow> selfheal" where
  "put_circuit p c S = S\<lparr>circuits := AList.update p c (circuits S)\<rparr>"

definition circuit_or_new :: "string \<Rightarrow> selfheal \<Rightarrow> circuit" where
  "circuit_or_new p S = (case lookup_circuit p S of None \<Rightarrow> new_circuit | Some c \<Rightarrow> c)"

section \<open>Circuit breakers\<close>

definition recordEvent :: "sh_type \<Rightarrow> string \<Rightarrow> uuid option \<Rightarrow> severity \<Rightarrow> time \<Rightarrow> unit sprog" where
  [op_defs]: "recordEvent ty p task sev now = do {
     ok \<leftarrow> lift io_ok;
     unless_nil ok (modify (\<lambda>S. S\<lparr>sh_events := sh_events S @ [\<lparr>ev_id = next_event S, ev_type = ty,
         ev_provider = p, ev_task = task, ev_severity = sev, ev_resolved = False,
         ev_resolved_at = None, ev_created_at = now\<rparr>], next_event := Suc (next_event S)\<rparr>)) }"

text \<open>A \<open>TIMESTAMPTZ\<close> column holds microseconds: the driver cuts off the rest of a time.\<close>

definition column_time :: "time \<Rightarrow> time" where
  "column_time t = t div 1000 * 1000"

definition stored_circuit :: "circuit \<Rightarrow> circuit" where
  "stored_circuit c = c\<lparr>pc_last_failure_at := map_option column_time (pc_last_failure_at c),
     pc_last_success_at := map_option column_time (pc_last_success_at c),
     pc_open_until := map_option column_time (pc_open_until c)\<rparr>"

definition persistCircuit :: "string \<Rightarrow> unit sprog" where
  [op_defs]: "persistCircuit p = do {
     r \<leftarrow> gets (lookup_circuit p);
     case r of
       None \<Rightarrow> ret ()
     | Some c \<Rightarrow> do {
         ok \<leftarrow> lift io_ok;
         unless_nil ok (modify (\<lambda>S. S\<lparr>circuit_rows := AList.update p (stored_circuit c) (circuit_rows S)\<rparr>)) } }"

definition enter_state :: "circuit_state \<Rightarrow> time \<Rightarrow> circuit \<Rightarrow> circuit" where
  "enter_state st now c = (case st of
       CircuitHalfOpen \<Rightarrow> c\<lparr>pc_state := st, pc_probes := 0\<rparr>
     | CircuitClosed \<Rightarrow> c\<lparr>pc_state := st, pc_failures := 0, pc_probes := 0, pc_open_until := None\<rparr>
     | CircuitOpen \<Rightarrow> c\<lparr>pc_state := st, pc_open_until := Some (now + circuitOpenDuration)\<rparr>)"

fun transition_event :: "circuit_state \<Rightarrow> sh_type" where
  "transition_event CircuitOpen = SHEventCircuitOpened"
| "transition_event CircuitHalfOpen = SHEventCircuitHalfOpen"
| "transition_event CircuitClosed = SHEventCircuitClosed"

fun transition_severity :: "circuit_state \<Rightarrow> severity" where
  "transition_severity CircuitOpen = SeverityCritical"
| "transition_severity CircuitHalfOpen = SeverityWarn"
| "transition_severity CircuitClosed = SeverityInfo"

definition transitionCircuit :: "string \<Rightarrow> circuit_state \<Rightarrow> time \<Rightarrow> unit sprog" where
  [op_defs]: "transitionCircuit p st now = do {
     _ \<leftarrow> modify (\<lambda>S. put_circuit p (enter_state st now (circuit_or_new p S)) S);
     _ \<leftarrow> recordEvent (transition_event st) p None (transition_severity st) now;
     _ \<leftarrow> persistCircuit p;
     lift (broadcast (CircuitEvent p)) }"

definition on_success :: "time \<Rightarrow> circuit \<Rightarrow> circuit" where
  "on_success now c = (let c' = c\<lparr>pc_total_successes := pc_total_successes c + 1, pc_failures := 0,
       pc_last_success_at := Some now\<rparr> in
     if pc_state c = CircuitHalfOpen then c'\<lparr>pc_probes := pc_probes c + 1\<rparr> else c')"

definition on_failure :: "time \<Rightarrow> circuit \<Rightarrow> circuit" where
  "on_failure now c = c\<lparr>pc_total_failures := pc_total_failures c + 1,
     pc_failures := pc_failures c + 1, pc_last_failure_at := Some now\<rparr>"

definition RecordProviderOutcome :: "outcome_report \<Rightarrow> time \<Rightarrow> unit sprog" where
  [op_defs]: "RecordProviderOutcome rp now = (let p = rp_provider rp in do {
     c \<leftarrow> gets (circuit_or_new p);
     if rp_success rp then do {
       _ \<leftarrow> modify (put_circuit p (on_success now c));
       if pc_state c = CircuitHalfOpen \<and> pc_probes (on_success now c) \<ge> halfOpenMaxProbes then do {
         _ \<leftarrow> transitionCircuit p CircuitClosed now;
         persistCircuit p }
       else persistCircuit p }
     else if pc_failures (on_failure now c) \<ge> circuitFailureThreshold \<and> pc_state c = CircuitClosed then do {
       _ \<leftarrow> modify (put_circuit p ((on_failure now c)\<lparr>pc_open_until := Some (now + circuitOpenDuration),
              pc_state := CircuitOpen\<rparr>));
       _ \<leftarrow> transitionCircuit p CircuitOpen now;
       _ \<leftarrow> persistCircuit p;
       case rp_task rp of
         None \<Rightarrow> ret ()
       | Some tid \<Rightarrow> recordEvent SHEventProviderFailover p (Some tid) SeverityWarn now }
     else do {
       _ \<leftarrow> modify (put_circuit p (on_failure now c));
       persistCircuit p } })"

definition IsProviderAvailable :: "string \<Rightarrow> selfheal \<Rightarrow> bool" where
  "IsProviderAvailable p S = (case lookup_circuit p S of
       None \<Rightarrow> True
     | Some c \<Rightarrow> (case pc_state c of CircuitOpen \<Rightarrow> False | CircuitHalfOpen \<Rightarrow> True | CircuitClosed \<Rightarrow> True))"

definition due_half_open :: "time \<Rightarrow> circuit \<Rightarrow> bool" where
  "due_half_open now c \<longleftrightarrow> pc_state c = CircuitOpen \<and>
     (case pc_open_until c of None \<Rightarrow> False | Some u \<Rightarrow> u < now)"

definition probeHalfOpenCircuits :: "time \<Rightarrow> unit sprog" where
  [op_defs]: "probeHalfOpenCircuits now = do {
     ps \<leftarrow> gets (\<lambda>S. map fst (filter (\<lambda>(p, c). due_half_open now c) (circuits S)));
     for_each (\<lambda>p. transitionCircuit p CircuitHalfOpen now) ps }"

definition reset_circuit :: "circuit \<Rightarrow> circuit" where
  "reset_circuit c = c\<lparr>pc_state := CircuitClosed, pc_failures := 0, pc_probes := 0, pc_open_until := None\<rparr>"

definition ResetCircuit :: "string \<Rightarrow> time \<Rightarrow> (swarm_error + unit) sprog" where
  [op_defs]: "ResetCircuit p now = do {
     _ \<leftarrow> modify (\<lambda>S. case lookup_circuit p S of
            None \<Rightarrow> S | Some c \<Rightarrow> put_circuit p (reset_circuit c) S);
     ok \<leftarrow> lift io_ok;
     if \<not> ok then ret (Inl (ErrDB ''reset circuit''))
     else do {
       _ \<leftarrow> modify (\<lambda>S. S\<lparr>circuit_rows :=
              map (\<lambda>(q, c). (q, if q = p then reset_circuit c else c)) (circuit_rows S)\<rparr>);
       _ \<leftarrow> recordEvent SHEventCircuitClosed p None SeverityInfo now;
       ret (Inr ()) } }"

text \<open>Start-up: the breakers are reloaded from the table, in the order of its rows.\<close>

definition hydrateCircuits :: "unit sprog" where
  [op_defs]: "hydrateCircuits = do {
     ok \<leftarrow> lift io_ok;
     rows \<leftarrow> gets circuit_rows;
     unless_nil ok (for_each (\<lambda>(p, c). modify (put_circuit p c)) rows) }"

definition listCircuitStates :: "(string \<times> circuit) list option sprog" where
  [op_defs]: "listCircuitStates = do {
     ok \<leftarrow> lift io_ok;
     if \<not> ok then ret None else gets (\<lambda>S. Some (sort_key fst (circuit_rows S))) }"

section \<open>Stuck tasks\<close>

definition is_stuck :: "time \<Rightarrow> task \<Rightarrow> bool" where
  "is_stuck now t \<longleftrightarrow> \<not> terminal (t_status t) \<and> t_created_at t < now - stuckTaskThreshold"

definition stuck_rows :: "time \<Rightarrow> swarm \<Rightarrow> task list" where
  "stuck_rows now s = take 20 (sort_key t_created_at (filter (is_stuck now) (tasks s)))"

definition recovered :: "task \<Rightarrow> task" where
  "recovered t = t\<lparr>t_status := StatusSubmitted, t_retry_count := t_retry_count t + 1,
     t_failure_reason := Some ''self-heal: automatic retry after stuck detection'',
     t_assigned_team_id := None, t_timeout_at := None\<rparr>"

definition sql_recover_task :: "uuid \<Rightarrow> stmt" where
  [sql_defs]: "sql_recover_task tid = stmt_tasks (\<lambda>t. t_id t = tid) recovered"

definition recoverStuckTask :: "uuid \<Rightarrow> time \<Rightarrow> unit sprog" where
  [op_defs]: "recoverStuckTask tid now = do {
     r \<leftarrow> lift (exec (sql_recover_task tid));
     case r of
       None \<Rightarrow> ret ()
     | Some _ \<Rightarrow> do {
         _ \<leftarrow> lift (metric (\<lambda>g. g\<lparr>n_task_retries := Suc (n_task_retries g)\<rparr>));
         _ \<leftarrow> recordEvent SHEventTaskTimeoutRecover [] (Some tid) SeverityInfo now;
         lift (broadcast (TaskEvent ''self_heal_retry'' tid)) } }"

definition heal_task :: "time \<Rightarrow> task \<Rightarrow> unit sprog" where
  [op_defs]: "heal_task now t = do {
     _ \<leftarrow> recordEvent SHEventStuckTask [] (Some (t_id t)) SeverityWarn now;
     if t_retry_count t < MaxRetries then recoverStuckTask (t_id t) now
     else do {
       _ \<leftarrow> lift (exec (sql_end_task (t_id t) StatusTimedOut
              ''self-heal: stuck task exhausted retries'' now));
       lift (metric (count_status StatusTimedOut)) } }"

fun heal_rows :: "bool \<Rightarrow> time \<Rightarrow> task list \<Rightarrow> unit sprog" where
  "heal_rows scan_closes now [] = ret ()"
| "heal_rows scan_closes now (t # ts) =
     (if t_failure_reason t = None then (if scan_closes then ret () else heal_rows scan_closes now ts)
      else do { _ \<leftarrow> heal_task now t; heal_rows scan_closes now ts })"

definition detectStuckTasks :: "bool \<Rightarrow> time \<Rightarrow> unit sprog" where
  [op_defs]: "detectStuckTasks scan_closes now = do {
     r \<leftarrow> lift (query (stuck_rows now));
     case r of None \<Rightarrow> ret () | Some ts \<Rightarrow> heal_rows scan_closes now ts }"

section \<open>Events\<close>

definition gcOldEvents :: "time \<Rightarrow> unit sprog" where
  [op_defs]: "gcOldEvents now = do {
     ok \<leftarrow> lift io_ok;
     unless_nil ok (modify (\<lambda>S. S\<lparr>sh_events := delete_where
       (\<lambda>e. ev_resolved e \<and> ev_created_at e < now - eventRetentionDays * day) (sh_events S)\<rparr>)) }"

definition ResolveEvent :: "nat \<Rightarrow> time \<Rightarrow> (swarm_error + unit) sprog" where
  [op_defs]: "ResolveEvent eid now = do {
     ok \<leftarrow> lift io_ok;
     if \<not> ok then ret (Inl (ErrDB ''resolve event''))
     else do {
       n \<leftarrow> gets (\<lambda>S. count_where (\<lambda>e. ev_id e = eid \<and> \<not> ev_resolved e) (sh_events S));
       _ \<leftarrow> modify (\<lambda>S. S\<lparr>sh_events := update_where (\<lambda>e. ev_id e = eid \<and> \<not> ev_resolved e)
              (\<lambda>e. e\<lparr>ev_resolved := True, ev_resolved_at := Some now\<rparr>) (sh_events S)\<rparr>);
       ret (if n = 0 then Inl ErrNotFound else Inr ()) } }"

definition match_opt :: "'a option \<Rightarrow> 'a \<Rightarrow> bool" where
  "match_opt f x = (case f of None \<Rightarrow> True | Some y \<Rightarrow> x = y)"

definition GetEvents ::
  "sh_type option \<Rightarrow> severity option \<Rightarrow> string \<Rightarrow> int \<Rightarrow> nat \<Rightarrow> (swarm_error + sh_event list \<times> nat) sprog" where
  [op_defs]: "GetEvents ty sev p limit offset = do {
     ok \<leftarrow> lift io_ok;
     if \<not> ok then ret (Inl (ErrDB ''self-heal events count''))
     else do {
       ok2 \<leftarrow> lift io_ok;
       if \<not> ok2 then ret (Inl (ErrDB ''self-heal events''))
       else gets (\<lambda>S.
         let rows = filter (\<lambda>e. match_opt ty (ev_type e) \<and> match_opt sev (ev_severity e) \<and>
               (p = [] \<or> ev_provider e = p)) (sh_events S) in
         Inr (take (nat (if limit \<le> 0 then 50 else limit))
               (drop offset (sort_key (\<lambda>e. - ev_created_at e) rows)), length rows)) } }"

definition listRecentEvents :: "int \<Rightarrow> sh_event list option sprog" where
  [op_defs]: "listRecentEvents limit = do {
     ok \<leftarrow> lift io_ok;
     if \<not> ok then ret None
     else gets (\<lambda>S. Some (take (nat limit) (sort_key (\<lambda>e. - ev_created_at e) (sh_events S)))) }"

record selfheal_summary =
  sm_total :: nat
  sm_unresolved :: nat
  sm_open :: nat
  sm_half_open :: nat
  sm_closed :: nat
  sm_providers :: "(string \<times> circuit) list"
  sm_recent :: "sh_event list"

definition count_circuits :: "circuit_state \<Rightarrow> (string \<times> circuit) list \<Rightarrow> nat" where
  "count_circuits st ps = count_where (\<lambda>(p, c). pc_state c = st) ps"

definition event_count :: "(sh_event \<Rightarrow> bool) \<Rightarrow> nat sprog" where
  [op_defs]: "event_count q = do {
     ok \<leftarrow> lift io_ok;
     if \<not> ok then ret 0 else gets (\<lambda>S. count_where q (sh_events S)) }"

definition GetSummary :: "int \<Rightarrow> (swarm_error + selfheal_summary) sprog" where
  [op_defs]: "GetSummary limit = do {
     ps \<leftarrow> listCircuitStates;
     case ps of
       None \<Rightarrow> ret (Inl (ErrDB ''self-heal summary: circuits''))
     | Some providers \<Rightarrow> do {
         es \<leftarrow> listRecentEvents (if limit \<le> 0 then 25 else limit);
         case es of
           None \<Rightarrow> ret (Inl (ErrDB ''self-heal summary: events''))
         | Some events \<Rightarrow> do {
             total \<leftarrow> event_count (\<lambda>_. True);
             unresolved \<leftarrow> event_count (\<lambda>e. \<not> ev_resolved e);
             ret (Inr \<lparr>sm_total = total, sm_unresolved = unresolved,
               sm_open = count_circuits CircuitOpen providers,
               sm_half_open = count_circuits CircuitHalfOpen providers,
               sm_closed = count_circuits CircuitClosed providers,
               sm_providers = providers, sm_recent = events\<rparr>) } } }"

definition cycle :: "bool \<Rightarrow> time \<Rightarrow> unit sprog" where
  [op_defs]: "cycle scan_closes now = do {
     _ \<leftarrow> detectStuckTasks scan_closes now;
     _ \<leftarrow> probeHalfOpenCircuits now;
     gcOldEvents now }"

end
