(* ===== verification/CircuitBreaker.thy ===== *)
theory CircuitBreaker
  imports SelfHeal
begin

text \<open>
  Correctness of the provider circuit breakers of \<open>SelfHeal\<close>.  The breaker of a provider is
  abstracted to a three-state machine \<open>breaker\<close>; \<open>RecordProviderOutcome\<close> and the half-open probe
  refine it whichever of their database writes fail.  An invariant bounds the counters, and without
  faults the table always holds the breakers of the memory, so that a restart restores them.
\<close>

section \<open>Circuit breakers: lemmas\<close>

lemma lookup_put [simp]:
  "lookup_circuit q (put_circuit p c S) = (if q = p then Some c else lookup_circuit q S)"
  by (simp add: lookup_circuit_def put_circuit_def AList.update_conv)

lemma circuits_put [simp]: "circuits (put_circuit p c S) = AList.update p c (circuits S)"
  by (simp add: put_circuit_def)

lemma stable_lift_circuits: "stable (same circuits) (lift m)"
  by (rule stableI) (simp add: same_def split: prod.splits)

lemma stable_recordEvent: "stable (same circuits) (recordEvent ty p task sev now)"
  unfolding recordEvent_def
  by (intro framing.stable_combinators stable_lift_circuits stable_modify) (simp add: same_def)

lemma stable_persistCircuit: "stable (same circuits) (persistCircuit p)"
  unfolding persistCircuit_def
  by (intro framing.stable_combinators stable_lift_circuits stable_modify) (simp add: same_def)

lemmas circuit_frame = framing.stable_combinators stable_lift_circuits stable_recordEvent stable_persistCircuit

lemma circuits_run:
  assumes "stable (same circuits) m"
  shows "circuits (snd (run_state m S)) = circuits S"
  using stableD [OF assms, of S] by (simp add: same_def)

section \<open>The abstract breaker\<close>

datatype breaker = BClosed int | BOpen time | BHalfOpen int

fun breaker_next :: "bool \<Rightarrow> time \<Rightarrow> breaker \<Rightarrow> breaker" where
  "breaker_next True now (BClosed n) = BClosed 0"
| "breaker_next True now (BHalfOpen k) = (if k + 1 \<ge> 3 then BClosed 0 else BHalfOpen (k + 1))"
| "breaker_next False now (BClosed n) = (if n + 1 \<ge> 5 then BOpen (now + 2 * minute) else BClosed (n + 1))"
| "breaker_next False now (BHalfOpen k) = BHalfOpen k"
| "breaker_next ok now (BOpen u) = BOpen u"

definition breaker_of :: "circuit \<Rightarrow> breaker" where
  "breaker_of c = (case pc_state c of
       CircuitClosed \<Rightarrow> BClosed (pc_failures c)
     | CircuitOpen \<Rightarrow> BOpen (the (pc_open_until c))
     | CircuitHalfOpen \<Rightarrow> BHalfOpen (pc_probes c))"

definition breaker_at :: "string \<Rightarrow> selfheal \<Rightarrow> breaker" where
  "breaker_at p S = breaker_of (circuit_or_new p S)"

lemma circuit_or_new_put [simp]:
  "circuit_or_new q (put_circuit p c S) = (if q = p then c else circuit_or_new q S)"
  by (simp add: circuit_or_new_def)

text \<open>What an outcome leaves in the map, on each of the four branches.\<close>

definition outcome_circuit :: "outcome_report \<Rightarrow> time \<Rightarrow> circuit \<Rightarrow> circuit" where
  "outcome_circuit rp now c =
     (if rp_success rp then
        (if pc_state c = CircuitHalfOpen \<and> pc_probes c + 1 \<ge> halfOpenMaxProbes
         then enter_state CircuitClosed now (on_success now c) else on_success now c)
      else if pc_failures c + 1 \<ge> circuitFailureThreshold \<and> pc_state c = CircuitClosed
      then enter_state CircuitOpen now (on_failure now c) else on_failure now c)"

text \<open>The part of a transition after the breaker has been stored.\<close>

definition announce :: "string \<Rightarrow> circuit_state \<Rightarrow> time \<Rightarrow> unit sprog" where
  "announce p st now = do {
     _ \<leftarrow> recordEvent (transition_event st) p None (transition_severity st) now;
     _ \<leftarrow> persistCircuit p;
     lift (broadcast (CircuitEvent p)) }"

definition outcome_rest :: "outcome_report \<Rightarrow> time \<Rightarrow> circuit \<Rightarrow> unit sprog" where
  "outcome_rest rp now c = (let p = rp_provider rp in
     if rp_success rp then
       (if pc_state c = CircuitHalfOpen \<and> pc_probes c + 1 \<ge> halfOpenMaxProbes
        then do { _ \<leftarrow> announce p CircuitClosed now; persistCircuit p } else persistCircuit p)
     else if pc_failures c + 1 \<ge> circuitFailureThreshold \<and> pc_state c = CircuitClosed then do {
       _ \<leftarrow> announce p CircuitOpen now;
       _ \<leftarrow> persistCircuit p;
       case rp_task rp of
         None \<Rightarrow> ret ()
       | Some tid \<Rightarrow> recordEvent SHEventProviderFailover p (Some tid) SeverityWarn now }
     else persistCircuit p)"

lemma put_put [simp]: "put_circuit p c (put_circuit p c' S) = put_circuit p c S"
  by (simp add: put_circuit_def)

lemma transition_run:
  "run_state (transitionCircuit p st now) S =
   run_state (announce p st now) (put_circuit p (enter_state st now (circuit_or_new p S)) S)"
  by (simp add: transitionCircuit_def announce_def)

text \<open>
  An outcome first stores the new breaker, whatever the fault script does, and then only writes
  events and rows.
\<close>

lemma outcome_run:
  "run_state (RecordProviderOutcome rp now) S =
   run_state (outcome_rest rp now (circuit_or_new (rp_provider rp) S))
     (put_circuit (rp_provider rp) (outcome_circuit rp now (circuit_or_new (rp_provider rp) S)) S)"
  by (auto simp: RecordProviderOutcome_def outcome_rest_def outcome_circuit_def Let_def transition_run
      on_success_def on_failure_def enter_state_def)

lemma stable_announce: "stable (same circuits) (announce p st now)"
  unfolding announce_def by (intro circuit_frame)

lemma stable_outcome_rest: "stable (same circuits) (outcome_rest rp now c)"
  unfolding outcome_rest_def Let_def by (intro circuit_frame stable_announce)

lemma circuits_transition:
  "circuits (snd (run_state (transitionCircuit p st now) S)) =
   AList.update p (enter_state st now (circuit_or_new p S)) (circuits S)"
  unfolding transition_run by (simp add: circuits_run [OF stable_announce])

lemma circuits_outcome:
  "circuits (snd (run_state (RecordProviderOutcome rp now) S)) =
   AList.update (rp_provider rp) (outcome_circuit rp now (circuit_or_new (rp_provider rp) S)) (circuits S)"
  unfolding outcome_run by (simp add: circuits_run [OF stable_outcome_rest])

lemma circuit_after_outcome:
  "circuit_or_new q (snd (run_state (RecordProviderOutcome rp now) S)) =
   (if q = rp_provider rp then outcome_circuit rp now (circuit_or_new q S) else circuit_or_new q S)"
  by (simp add: circuit_or_new_def lookup_circuit_def circuits_outcome AList.update_conv)

lemma breaker_outcome:
  "breaker_at q (snd (run_state (RecordProviderOutcome rp now) S)) =
   (if q = rp_provider rp then breaker_next (rp_success rp) now (breaker_at q S) else breaker_at q S)"
  unfolding breaker_at_def circuit_after_outcome
  by (cases "pc_state (circuit_or_new (rp_provider rp) S)"; cases "rp_success rp")
    (auto simp: breaker_of_def outcome_circuit_def on_success_def on_failure_def enter_state_def
      Let_def circuitFailureThreshold_def halfOpenMaxProbes_def circuitOpenDuration_def)

text \<open>
  C11: Recording an outcome is one step of the abstract breaker of the reported provider and leaves
  the breaker of every other provider as it is, for every fault script.
\<close>

theorem RecordProviderOutcome_refines_breaker:
  "breaker_at q (snd (run_state (RecordProviderOutcome rp now) S)) =
   (if q = rp_provider rp then breaker_next (rp_success rp) now (breaker_at q S) else breaker_at q S)"
  by (rule breaker_outcome)

section \<open>Half-open probing\<close>

lemma circuit_after_transition:
  "circuit_or_new q (snd (run_state (transitionCircuit p st now) S)) =
   (if q = p then enter_state st now (circuit_or_new q S) else circuit_or_new q S)"
  by (simp add: circuit_or_new_def lookup_circuit_def circuits_transition AList.update_conv)

lemma circuit_after_transitions:
  "circuit_or_new q (snd (run_state (for_each (\<lambda>p. transitionCircuit p CircuitHalfOpen now) ps) S)) =
   (if q \<in> set ps then enter_state CircuitHalfOpen now (circuit_or_new q S) else circuit_or_new q S)"
  by (induction ps arbitrary: S)
    (auto simp: split_beta circuit_after_transition enter_state_def)

lemma due_providers:
  assumes "distinct (map fst cs)"
  shows "q \<in> set (map fst (filter (\<lambda>(p, c). due_half_open now c) cs)) \<longleftrightarrow>
    (\<exists>c. map_of cs q = Some c \<and> due_half_open now c)"
  using assms by (force simp: map_of_eq_Some_iff)

lemma due_iff_open:
  "(\<exists>c. lookup_circuit q S = Some c \<and> due_half_open now c) \<longleftrightarrow> due_half_open now (circuit_or_new q S)"
  by (auto simp: circuit_or_new_def due_half_open_def new_circuit_def split: option.splits)

lemma circuit_after_probe:
  assumes "distinct (map fst (circuits S))"
  shows "circuit_or_new q (snd (run_state (probeHalfOpenCircuits now) S)) =
    (if due_half_open now (circuit_or_new q S)
     then enter_state CircuitHalfOpen now (circuit_or_new q S) else circuit_or_new q S)"
  using due_providers [OF assms, of q now] due_iff_open [of q S now]
  by (simp add: probeHalfOpenCircuits_def circuit_after_transitions lookup_circuit_def)

section \<open>Invariant of the breakers\<close>

definition circuit_ok :: "circuit \<Rightarrow> bool" where
  "circuit_ok c \<longleftrightarrow> pc_failures c \<ge> 0 \<and> pc_probes c \<ge> 0 \<and> (case pc_state c of
       CircuitClosed \<Rightarrow> pc_failures c < circuitFailureThreshold \<and> pc_open_until c = None
     | CircuitOpen \<Rightarrow> pc_open_until c \<noteq> None
     | CircuitHalfOpen \<Rightarrow> pc_probes c < halfOpenMaxProbes)"

definition breakers_ok :: "selfheal \<Rightarrow> bool" where
  "breakers_ok S \<longleftrightarrow> distinct (map fst (circuits S)) \<and> distinct (map fst (circuit_rows S)) \<and>
     (\<forall>c\<in>snd ` set (circuits S). circuit_ok c) \<and> (\<forall>c\<in>snd ` set (circuit_rows S). circuit_ok c)"

lemma circuit_ok_new: "circuit_ok new_circuit"
  by (simp add: circuit_ok_def new_circuit_def circuitFailureThreshold_def)

lemma circuit_ok_stored: "circuit_ok c \<Longrightarrow> circuit_ok (stored_circuit c)"
  by (simp add: circuit_ok_def stored_circuit_def split: circuit_state.splits)

lemma circuit_ok_reset: "circuit_ok c \<Longrightarrow> circuit_ok (reset_circuit c)"
  by (simp add: circuit_ok_def reset_circuit_def circuitFailureThreshold_def)

lemma circuit_ok_half_open: "circuit_ok c \<Longrightarrow> circuit_ok (enter_state CircuitHalfOpen now c)"
  by (simp add: circuit_ok_def enter_state_def halfOpenMaxProbes_def)

lemma circuit_ok_outcome: "circuit_ok c \<Longrightarrow> circuit_ok (outcome_circuit rp now c)"
  by (cases "pc_state c")
    (auto simp: circuit_ok_def outcome_circuit_def enter_state_def on_success_def on_failure_def
      circuitFailureThreshold_def halfOpenMaxProbes_def Let_def)

lemma update_values:
  "c \<in> snd ` set (AList.update p c' cs) \<Longrightarrow> c = c' \<or> c \<in> snd ` set cs"
  by (induction cs) (auto split: if_splits)

lemma breakers_ok_put: "circuit_ok c \<Longrightarrow> breakers_ok S \<Longrightarrow> breakers_ok (put_circuit p c S)"
  using update_values unfolding breakers_ok_def put_circuit_def by (fastforce simp: distinct_update)

lemma breakers_ok_lookup: "breakers_ok S \<Longrightarrow> lookup_circuit p S = Some c \<Longrightarrow> circuit_ok c"
  by (auto simp: breakers_ok_def lookup_circuit_def dest!: map_of_SomeD)

lemma breakers_ok_current: "breakers_ok S \<Longrightarrow> circuit_ok (circuit_or_new p S)"
  by (auto simp: circuit_or_new_def circuit_ok_new breakers_ok_lookup split: option.splits)

lemma breakers_ok_row:
  "circuit_ok c \<Longrightarrow> breakers_ok S \<Longrightarrow> breakers_ok (S\<lparr>circuit_rows := AList.update p c (circuit_rows S)\<rparr>)"
  using update_values unfolding breakers_ok_def by (fastforce simp: distinct_update)

lemma ok_lift: "stable (keeps breakers_ok) (lift m)"
  by (rule stableI) (simp add: keeps_def breakers_ok_def split: prod.splits)

lemma ok_recordEvent: "stable (keeps breakers_ok) (recordEvent ty p task sev now)"
  unfolding recordEvent_def
  by (intro keeping.stable_combinators ok_lift stable_modify) (simp add: keeps_def breakers_ok_def)

lemma ok_gets_bind:
  "(\<And>S. I S \<Longrightarrow> stable (keeps I) (f (g S))) \<Longrightarrow> stable (keeps I) (do { x \<leftarrow> gets g; f x })"
  by (rule stableI) (auto simp: keeps_def stable_def)

lemma ok_modify: "(\<And>S. I S \<Longrightarrow> I (f S)) \<Longrightarrow> stable (keeps I) (modify f)"
  by (rule stable_modify) (simp add: keeps_def)

lemma ok_persistCircuit: "stable (keeps breakers_ok) (persistCircuit p)"
  unfolding persistCircuit_def
proof (rule ok_gets_bind)
  fix S assume "breakers_ok S"
  then show "stable (keeps breakers_ok) (case lookup_circuit p S of None \<Rightarrow> ret ()
    | Some c \<Rightarrow> do { ok \<leftarrow> lift io_ok;
        unless_nil ok (modify (\<lambda>S. S\<lparr>circuit_rows := AList.update p (stored_circuit c) (circuit_rows S)\<rparr>)) })"
    by (intro keeping.stable_combinators ok_lift ok_modify breakers_ok_row circuit_ok_stored breakers_ok_lookup)
qed

lemma ok_announce: "stable (keeps breakers_ok) (announce p st now)"
  unfolding announce_def
  by (intro keeping.stable_combinators ok_recordEvent ok_persistCircuit ok_lift)

lemma ok_outcome: "stable (keeps breakers_ok) (RecordProviderOutcome rp now)"
proof (rule stableI, rule keepsI)
  fix S assume ok: "breakers_ok S"
  let ?c = "circuit_or_new (rp_provider rp) S"
  have "stable (keeps breakers_ok) (outcome_rest rp now ?c)"
    unfolding outcome_rest_def Let_def
    by (intro keeping.stable_combinators ok_announce ok_persistCircuit ok_recordEvent)
  moreover have "breakers_ok (put_circuit (rp_provider rp) (outcome_circuit rp now ?c) S)"
    using ok by (intro breakers_ok_put circuit_ok_outcome breakers_ok_current)
  ultimately show "breakers_ok (snd (run_state (RecordProviderOutcome rp now) S))"
    unfolding outcome_run by (auto simp: stable_def keeps_def)
qed

lemma ok_transition_half_open: "stable (keeps breakers_ok) (transitionCircuit p CircuitHalfOpen now)"
proof (rule stableI, rule keepsI)
  fix S assume "breakers_ok S"
  then have "breakers_ok (put_circuit p (enter_state CircuitHalfOpen now (circuit_or_new p S)) S)"
    by (intro breakers_ok_put circuit_ok_half_open breakers_ok_current)
  then show "breakers_ok (snd (run_state (transitionCircuit p CircuitHalfOpen now) S))"
    unfolding transition_run using ok_announce by (auto simp: stable_def keeps_def)
qed

lemma ok_probe: "stable (keeps breakers_ok) (probeHalfOpenCircuits now)"
  unfolding probeHalfOpenCircuits_def by (intro keeping.stable_combinators ok_transition_half_open)

lemma breakers_ok_reset:
  assumes "breakers_ok S"
  shows "breakers_ok (case lookup_circuit p S of None \<Rightarrow> S | Some c \<Rightarrow> put_circuit p (reset_circuit c) S)"
  using assms by (auto split: option.splits intro!: breakers_ok_put circuit_ok_reset
      dest: breakers_ok_lookup)

lemma breakers_ok_reset_rows:
  assumes "breakers_ok S"
  shows "breakers_ok (S\<lparr>circuit_rows :=
    map (\<lambda>(q, c). (q, if q = p then reset_circuit c else c)) (circuit_rows S)\<rparr>)"
proof -
  have "fst \<circ> (\<lambda>(q, c). (q, if q = p then reset_circuit c else c)) = fst"
    by (auto simp: fun_eq_iff)
  then show ?thesis
    using assms unfolding breakers_ok_def by (auto simp: circuit_ok_reset)
qed

lemma ok_reset: "stable (keeps breakers_ok) (ResetCircuit p now)"
  unfolding ResetCircuit_def
  by (intro keeping.stable_combinators ok_modify ok_lift ok_recordEvent breakers_ok_reset
      breakers_ok_reset_rows)

lemma ok_hydrate: "stable (keeps breakers_ok) hydrateCircuits"
proof -
  have "stable (keeps breakers_ok) (unless_nil ok (for_each (\<lambda>(p, c). modify (put_circuit p c)) (circuit_rows S)))"
    if "breakers_ok S" for ok S
    using that by (intro keeping.stable_unless_nil keeping.stable_for_each)
      (auto simp: breakers_ok_def intro!: ok_modify breakers_ok_put split: prod.splits)
  then show ?thesis
    unfolding hydrateCircuits_def by (intro keeping.stable_bind ok_lift ok_gets_bind)
qed

lemma ok_detect: "stable (keeps breakers_ok) (detectStuckTasks sc now)"
proof -
  have heal: "stable (keeps breakers_ok) (heal_task now t)" for t
    unfolding heal_task_def recoverStuckTask_def
    by (intro keeping.stable_combinators ok_lift ok_recordEvent)
  have "stable (keeps breakers_ok) (heal_rows sc now ts)" for ts
    by (induction ts) (auto intro!: keeping.stable_ret keeping.stable_bind heal)
  then show ?thesis
    unfolding detectStuckTasks_def by (intro keeping.stable_combinators ok_lift)
qed

lemma ok_gc: "stable (keeps breakers_ok) (gcOldEvents now)"
  unfolding gcOldEvents_def
  by (intro keeping.stable_combinators ok_lift ok_modify) (simp add: breakers_ok_def)

lemma ok_resolve: "stable (keeps breakers_ok) (ResolveEvent eid now)"
  unfolding ResolveEvent_def
  by (intro keeping.stable_combinators ok_lift ok_modify) (simp add: breakers_ok_def)

lemma ok_cycle: "stable (keeps breakers_ok) (cycle sc now)"
  unfolding cycle_def by (intro keeping.stable_combinators ok_detect ok_probe ok_gc)

lemmas breaker_ops = ok_outcome ok_probe ok_reset ok_hydrate ok_detect ok_gc ok_resolve ok_cycle

text \<open>
  Every operation of the self-heal service keeps the breaker invariant, whichever database
  writes fail: one breaker per provider in memory and in the table, a closed breaker has fewer than
  five failures and no open period, an open one has an open period, a half-open one fewer than three
  successful probes.
\<close>

lemma selfheal_ops_keep_breakers_ok:
  "stable (keeps breakers_ok) (RecordProviderOutcome rp now) \<and>
   stable (keeps breakers_ok) (probeHalfOpenCircuits now) \<and>
   stable (keeps breakers_ok) (ResetCircuit p now) \<and>
   stable (keeps breakers_ok) hydrateCircuits \<and>
   stable (keeps breakers_ok) (ResolveEvent eid now) \<and>
   stable (keeps breakers_ok) (cycle scan_closes now)"
  by (intro conjI breaker_ops)


section \<open>Sequences of outcomes\<close>

definition reports :: "outcome_report \<Rightarrow> time list \<Rightarrow> selfheal \<Rightarrow> selfheal" where
  "reports rp ts S = fold (\<lambda>t S. snd (run_state (RecordProviderOutcome rp t) S)) ts S"

lemma breaker_reports:
  "breaker_at (rp_provider rp) (reports rp ts S) =
   fold (breaker_next (rp_success rp)) ts (breaker_at (rp_provider rp) S)"
  unfolding reports_def
proof (induction ts arbitrary: S)
  case (Cons t ts)
  then show ?case by (simp add: breaker_outcome)
qed simp

lemma fold_open: "fold (breaker_next ok) ts (BOpen u) = BOpen u"
  by (induction ts) auto

lemma fold_failures:
  assumes "0 \<le> n" "n < 5"
  shows "fold (breaker_next False) ts (BClosed n) =
    (if n + int (length ts) < 5 then BClosed (n + int (length ts))
     else BOpen (ts ! nat (4 - n) + 2 * minute))"
  using assms
proof (induction ts arbitrary: n)
  case (Cons t ts)
  show ?case
  proof (cases "n + 1 \<ge> 5")
    case True
    then have "n = 4" using Cons.prems by simp
    then show ?thesis by (simp add: fold_open)
  next
    case False
    then have "nat (4 - n) = Suc (nat (4 - (n + 1)))" by simp
    then show ?thesis using False Cons.prems Cons.IH [of "n + 1"] by simp
  qed
qed simp

lemma available_breaker: "IsProviderAvailable p S \<longleftrightarrow> (\<forall>u. breaker_at p S \<noteq> BOpen u)"
  by (auto simp: IsProviderAvailable_def breaker_at_def breaker_of_def circuit_or_new_def new_circuit_def
      split: option.splits circuit_state.splits)

text \<open>
  A provider whose breaker is closed with no failure counted stays available for exactly four
  consecutive failures; the fifth opens the breaker for two minutes from the time of that fifth
  failure, and later failures change nothing.
\<close>

lemma circuit_opens_at_fifth_failure:
  assumes "breaker_at (rp_provider rp) S = BClosed 0" and "\<not> rp_success rp"
  shows "breaker_at (rp_provider rp) (reports rp ts S) =
      (if length ts < 5 then BClosed (int (length ts)) else BOpen (ts ! 4 + 2 * minute)) \<and>
    (IsProviderAvailable (rp_provider rp) (reports rp ts S) \<longleftrightarrow> length ts < 5)"
  using assms by (auto simp: available_breaker breaker_reports fold_failures)

lemma breaker_after_probe:
  assumes "breakers_ok S"
  shows "breaker_at q (snd (run_state (probeHalfOpenCircuits now) S)) =
    (case breaker_at q S of BOpen u \<Rightarrow> if u < now then BHalfOpen 0 else BOpen u | b \<Rightarrow> b)"
proof -
  have "circuit_ok (circuit_or_new q S)" using assms by (rule breakers_ok_current)
  moreover have "distinct (map fst (circuits S))" using assms by (simp add: breakers_ok_def)
  ultimately show ?thesis
    unfolding breaker_at_def circuit_after_probe [OF \<open>distinct (map fst (circuits S))\<close>]
    by (auto simp: breaker_of_def due_half_open_def enter_state_def circuit_ok_def
        split: circuit_state.splits)
qed

text \<open>
  C33: Once the open period is over, one tick of the half-open probe and three successes close the
  breaker again with a clean failure count, whichever writes to the database fail on the way.
\<close>

theorem circuit_recovers:
  assumes "breakers_ok S" and "breaker_at (rp_provider rp) S = BOpen u" and "u < now" and "rp_success rp"
  shows "breaker_at (rp_provider rp) (reports rp [a, b, c] (snd (run_state (probeHalfOpenCircuits now) S))) = BClosed 0"
  using assms by (simp add: breaker_reports breaker_after_probe)

lemma fold_half_open: "fold (breaker_next False) ts (BHalfOpen k) = BHalfOpen k"
  by (induction ts) auto

text \<open>
  A half-open breaker is never opened again by failures: however many are reported, it stays
  half-open with its probe count, and the provider stays available.
\<close>

lemma half_open_failures_never_reopen:
  assumes "breaker_at (rp_provider rp) S = BHalfOpen k" and "\<not> rp_success rp"
  shows "breaker_at (rp_provider rp) (reports rp ts S) = BHalfOpen k \<and>
    IsProviderAvailable (rp_provider rp) (reports rp ts S)"
  using assms by (simp add: breaker_reports fold_half_open available_breaker)

section \<open>Restart\<close>

definition synced :: "selfheal \<Rightarrow> bool" where
  "synced S \<longleftrightarrow> faults (sh_swarm S) = [] \<and> (\<forall>q. map_of (circuit_rows S) q = map_option stored_circuit (map_of (circuits S) q))"

definition synced_but :: "string \<Rightarrow> selfheal \<Rightarrow> bool" where
  "synced_but p S \<longleftrightarrow> faults (sh_swarm S) = [] \<and>
     (\<forall>q. q \<noteq> p \<longrightarrow> map_of (circuit_rows S) q = map_option stored_circuit (map_of (circuits S) q)) \<and> lookup_circuit p S \<noteq> None"

lemma run_recordEvent:
  assumes "faults (sh_swarm S) = []"
  shows "circuits (snd (run_state (recordEvent ty p task sev now) S)) = circuits S"
    "circuit_rows (snd (run_state (recordEvent ty p task sev now) S)) = circuit_rows S"
    "sh_swarm (snd (run_state (recordEvent ty p task sev now) S)) = sh_swarm S"
  using assms by (simp_all add: recordEvent_def)

lemma run_persist:
  assumes "faults (sh_swarm S) = []" and "lookup_circuit p S = Some c"
  shows "run_state (persistCircuit p) S = ((), S\<lparr>circuit_rows := AList.update p (stored_circuit c) (circuit_rows S)\<rparr>)"
  using assms by (simp add: persistCircuit_def)

lemma persist_syncs:
  assumes "synced_but p S"
  shows "synced (snd (run_state (persistCircuit p) S))"
proof -
  obtain c where c: "lookup_circuit p S = Some c" using assms by (auto simp: synced_but_def)
  then show ?thesis
    using assms run_persist [OF _ c]
    by (auto simp: synced_but_def synced_def lookup_circuit_def AList.update_conv' fun_eq_iff)
qed

lemma synced_event: "synced S \<Longrightarrow> synced (snd (run_state (recordEvent ty p task sev now) S))"
  by (simp add: synced_def run_recordEvent)

lemma synced_but_event: "synced_but p S \<Longrightarrow> synced_but p (snd (run_state (recordEvent ty q task sev now) S))"
  by (simp add: synced_but_def run_recordEvent lookup_circuit_def)

lemma synced_weaken: "synced S \<Longrightarrow> lookup_circuit p S \<noteq> None \<Longrightarrow> synced_but p S"
  by (simp add: synced_def synced_but_def)

lemma synced_put: "synced S \<Longrightarrow> synced_but p (put_circuit p c S)"
  by (simp add: synced_def synced_but_def AList.update_conv' put_circuit_def lookup_circuit_def)

lemma synced_broadcast: "synced S \<Longrightarrow> synced (snd (run_state (lift (broadcast e)) S))"
  by (simp add: synced_def broadcast_def)

lemma announce_syncs: "synced_but p S \<Longrightarrow> synced (snd (run_state (announce p st now) S))"
  unfolding announce_def
  by (simp add: split_beta synced_broadcast [simplified] persist_syncs synced_but_event)


lemma lookup_announce: "lookup_circuit p (snd (run_state (announce p' st now) S)) = lookup_circuit p S"
  by (simp add: lookup_circuit_def circuits_run [OF stable_announce])

lemma announce_persist_syncs:
  assumes "synced_but p S"
  shows "synced (snd (run_state (do { _ \<leftarrow> announce p st now; persistCircuit p }) S))"
proof -
  let ?T = "snd (run_state (announce p st now) S)"
  have "synced_but p ?T"
    using assms announce_syncs [OF assms]
    by (intro synced_weaken) (auto simp: lookup_announce synced_but_def)
  then show ?thesis by (simp add: split_beta persist_syncs)
qed

lemma outcome_syncs:
  assumes "synced S"
  shows "synced (snd (run_state (RecordProviderOutcome rp now) S))"
proof -
  let ?p = "rp_provider rp" and ?c = "circuit_or_new (rp_provider rp) S"
  let ?T = "put_circuit ?p (outcome_circuit rp now ?c) S"
  have T: "synced_but ?p ?T" using assms by (rule synced_put)
  show ?thesis
    unfolding outcome_run outcome_rest_def Let_def
    using persist_syncs [OF T] announce_persist_syncs [OF T, of CircuitClosed now]
      announce_persist_syncs [OF T, of CircuitOpen now]
    by (auto simp: split_beta synced_event split: option.splits)
qed

lemma transition_syncs: "synced S \<Longrightarrow> synced (snd (run_state (transitionCircuit p st now) S))"
  unfolding transition_run by (intro announce_syncs synced_put)

lemma probe_syncs:
  assumes "synced S"
  shows "synced (snd (run_state (probeHalfOpenCircuits now) S))"
proof -
  have "synced (snd (run_state (for_each (\<lambda>p. transitionCircuit p CircuitHalfOpen now) ps) S))" for ps
    using assms by (induction ps arbitrary: S) (auto simp: split_beta transition_syncs)
  then show ?thesis by (simp add: probeHalfOpenCircuits_def)
qed

lemma stored_reset: "stored_circuit (reset_circuit c) = reset_circuit (stored_circuit c)"
  by (simp add: stored_circuit_def reset_circuit_def)

lemma map_of_reset:
  "map_of (map (\<lambda>(q, c). (q, if q = p then reset_circuit c else c)) cs) =
   (map_of cs)(p := map_option reset_circuit (map_of cs p))"
  by (induction cs) (auto simp: fun_eq_iff)

lemma reset_syncs:
  assumes "synced S"
  shows "synced (snd (run_state (ResetCircuit p now) S))"
proof -
  let ?T = "case lookup_circuit p S of None \<Rightarrow> S | Some c \<Rightarrow> put_circuit p (reset_circuit c) S"
  let ?U = "?T\<lparr>circuit_rows := map (\<lambda>(q, c). (q, if q = p then reset_circuit c else c)) (circuit_rows ?T)\<rparr>"
  have "faults (sh_swarm ?T) = []"
    using assms by (auto simp: synced_def put_circuit_def split: option.splits)
  moreover have "synced ?U"
    using assms by (auto simp: synced_def lookup_circuit_def put_circuit_def map_of_reset stored_reset option.map_comp o_def
        AList.update_conv' fun_eq_iff split: option.splits)
  ultimately show ?thesis
    by (simp add: ResetCircuit_def split_beta synced_event)
qed

lemma map_of_puts:
  assumes "distinct (map fst rows)"
  shows "lookup_circuit q (snd (run_state (for_each (\<lambda>(p, c). modify (put_circuit p c)) rows) S)) =
    (case map_of rows q of None \<Rightarrow> lookup_circuit q S | Some c \<Rightarrow> Some c)"
  using assms
proof (induction rows arbitrary: S)
  case (Cons x rows)
  obtain p c where x: "x = (p, c)" by (cases x)
  have "q = p \<Longrightarrow> map_of rows q = None"
    using Cons.prems x by (simp add: map_of_eq_None_iff)
  then show ?case using Cons by (auto simp: x split: option.splits)
qed simp

lemma hydrate_lookup:
  assumes "synced S" and "distinct (map fst (circuit_rows S))"
  shows "lookup_circuit q (snd (run_state hydrateCircuits (S\<lparr>circuits := []\<rparr>))) = map_option stored_circuit (lookup_circuit q S)"
  using assms map_of_puts [of "circuit_rows S" q "S\<lparr>circuits := []\<rparr>"]
  by (auto simp: hydrateCircuits_def synced_def lookup_circuit_def split: option.splits)

datatype breaker_cmd = Report outcome_report | ProbeTick | ResetCmd string

fun run_cmd :: "breaker_cmd \<times> time \<Rightarrow> selfheal \<Rightarrow> selfheal" where
  "run_cmd (Report rp, now) S = snd (run_state (RecordProviderOutcome rp now) S)"
| "run_cmd (ProbeTick, now) S = snd (run_state (probeHalfOpenCircuits now) S)"
| "run_cmd (ResetCmd p, now) S = snd (run_state (ResetCircuit p now) S)"

lemma run_cmd_keeps: "synced S \<Longrightarrow> breakers_ok S \<Longrightarrow> synced (run_cmd x S) \<and> breakers_ok (run_cmd x S)"
  using ok_outcome ok_probe ok_reset
  by (cases "(x, S)" rule: run_cmd.cases)
    (auto simp: outcome_syncs probe_syncs reset_syncs stable_def keeps_def)

lemma run_cmds_keep:
  "synced S \<Longrightarrow> breakers_ok S \<Longrightarrow> synced (fold run_cmd xs S) \<and> breakers_ok (fold run_cmd xs S)"
  by (induction xs arbitrary: S) (simp_all add: run_cmd_keeps)

text \<open>
  C34: without database faults, after any sequence of outcomes, probe ticks and resets, restarting the
  service (an empty map, filled from the table) gives every provider, and no other, the breaker it
  had: the same state, failure counts, success count and number of probes, and the times of the last
  failure, the last success and the end of the open phase cut to the microsecond.
\<close>

theorem hydrate_restores_breakers:
  assumes "faults (sh_swarm S) = []" and "circuits S = []" and "circuit_rows S = []"
  shows "lookup_circuit q (snd (run_state hydrateCircuits ((fold run_cmd xs S)\<lparr>circuits := []\<rparr>))) =
    map_option (\<lambda>c. c\<lparr>pc_last_failure_at := map_option (\<lambda>t. t - t mod 1000) (pc_last_failure_at c),
      pc_last_success_at := map_option (\<lambda>t. t - t mod 1000) (pc_last_success_at c),
      pc_open_until := map_option (\<lambda>t. t - t mod 1000) (pc_open_until c)\<rparr>) (lookup_circuit q (fold run_cmd xs S))"
proof -
  have "synced S" and "breakers_ok S" using assms by (simp_all add: synced_def breakers_ok_def)
  then have "synced (fold run_cmd xs S)" "breakers_ok (fold run_cmd xs S)"
    using run_cmds_keep by blast+
  then have "lookup_circuit q (snd (run_state hydrateCircuits ((fold run_cmd xs S)\<lparr>circuits := []\<rparr>))) =
      map_option stored_circuit (lookup_circuit q (fold run_cmd xs S))"
    by (intro hydrate_lookup) (simp_all add: breakers_ok_def)
  moreover have "column_time = (\<lambda>t. t - t mod 1000)"
    by (simp add: column_time_def fun_eq_iff minus_mod_eq_div_mult)
  ultimately show ?thesis by (simp add: stored_circuit_def [abs_def])
qed

section \<open>Witnesses\<close>

definition example_report :: "bool \<Rightarrow> outcome_report" where
  "example_report ok = \<lparr>rp_provider = ''openai'', rp_success = ok, rp_task = None\<rparr>"

lemma init_breaker: "breaker_at p init_selfheal = BClosed 0" "breakers_ok init_selfheal"
  by (simp_all add: breaker_at_def breaker_of_def circuit_or_new_def lookup_circuit_def
      init_selfheal_def new_circuit_def breakers_ok_def)

definition open_selfheal :: selfheal where
  "open_selfheal = reports (example_report False) [1, 2, 3, 4, 5] init_selfheal"

lemma open_breaker: "breaker_at ''openai'' open_selfheal = BOpen (5 + 2 * minute)"
  using breaker_reports [of "example_report False" "[1, 2, 3, 4, 5]" init_selfheal]
  by (simp add: open_selfheal_def example_report_def init_breaker)

lemma open_ok: "breakers_ok open_selfheal"
  using ok_outcome init_breaker(2)
  by (simp add: open_selfheal_def reports_def stable_def keeps_def)

theorem circuit_recovers_witness:
  "breaker_at ''openai'' (reports (example_report True) [1, 2, 3]
     (snd (run_state (probeHalfOpenCircuits (3 * minute)) open_selfheal))) = BClosed 0"
  using circuit_recovers [of open_selfheal "example_report True" "5 + 2 * minute" "3 * minute" 1 2 3]
  by (simp add: example_report_def open_breaker open_ok time_units)

theorem hydrate_restores_breakers_witness:
  "map_option pc_last_failure_at (lookup_circuit ''openai'' (snd (run_state hydrateCircuits
     ((fold run_cmd [(Report (example_report False), 1234567)] init_selfheal)\<lparr>circuits := []\<rparr>)))) = Some (Some 1234000)"
proof -
  have "map_option pc_last_failure_at (lookup_circuit ''openai'' (fold run_cmd [(Report (example_report False), 1234567)] init_selfheal)) =
      Some (Some 1234567)"
    by (simp add: lookup_circuit_def circuits_outcome outcome_circuit_def on_failure_def on_success_def circuit_or_new_def init_selfheal_def
        new_circuit_def example_report_def circuitFailureThreshold_def Let_def)
  then show ?thesis
    using hydrate_restores_breakers [of init_selfheal "''openai''" "[(Report (example_report False), 1234567)]"]
    by (auto simp: init_selfheal_def init_swarm_def)
qed

end
