(* ===== verification/StuckTasks.thy ===== *)
theory StuckTasks
  imports CircuitBreaker
begin

text \<open>
  Correctness of the stuck-task detector of \<open>SelfHeal\<close>: the exact effect of one run on the task
  table, for either behaviour of the driver after a failed scan, and what a run with faults can do
  at most.
\<close>

section \<open>Stuck tasks: lemmas\<close>

definition timed_out_row :: "time \<Rightarrow> task \<Rightarrow> task" where
  "timed_out_row now t = t\<lparr>t_status := StatusTimedOut,
     t_failure_reason := Some ''self-heal: stuck task exhausted retries'', t_completed_at := Some now\<rparr>"

definition heal_result :: "time \<Rightarrow> task \<Rightarrow> task" where
  "heal_result now t = (if t_retry_count t < MaxRetries then recovered t else timed_out_row now t)"

definition healable :: "bool \<Rightarrow> task list \<Rightarrow> task list" where
  "healable scan_closes ts =
     (if scan_closes then takeWhile (\<lambda>t. t_failure_reason t \<noteq> None) ts
      else filter (\<lambda>t. t_failure_reason t \<noteq> None) ts)"

abbreviation db_tasks :: "selfheal \<Rightarrow> task list" where
  "db_tasks S \<equiv> tasks (sh_swarm S)"

abbreviation heal_in :: "time \<Rightarrow> task set \<Rightarrow> task list \<Rightarrow> task list" where
  "heal_in now \<equiv> rewrite_in (heal_result now)"

lemma heal_result_id [simp]: "t_id (heal_result now t) = t_id t"
  by (simp add: heal_result_def recovered_def timed_out_row_def)

lemma faults_self: "faults s = [] \<Longrightarrow> s\<lparr>faults := []\<rparr> = s"
  by (cases s) simp

lemma exec_step:
  "run_state (exec st) s =
   (let s' = s\<lparr>faults := tl (faults s)\<rparr> in
    if faults s \<noteq> [] \<and> hd (faults s) then (None, s')
    else case st s' of None \<Rightarrow> (None, s') | Some (n, t) \<Rightarrow> (Some n, t))"
  by (cases "faults s") (simp_all add: exec_def io_ok_def Let_def faults_self)

lemma tasks_lift_io [simp]: "db_tasks (snd (run_state (lift io_ok) S)) = db_tasks S"
  by (cases "faults (sh_swarm S)") (auto simp: io_ok_def)

lemma tasks_recordEvent [simp]: "db_tasks (snd (run_state (recordEvent ty p task sev now) S)) = db_tasks S"
  by (cases "faults (sh_swarm S)") (auto simp: recordEvent_def io_ok_def)

lemma faults_recordEvent:
  "faults (sh_swarm S) = [] \<Longrightarrow> faults (sh_swarm (snd (run_state (recordEvent ty p task sev now) S))) = []"
  by (simp add: run_recordEvent)

lemma heal_task_cases:
  fixes S now t
  defines "T \<equiv> snd (run_state (heal_task now t) S)"
  shows "db_tasks T = db_tasks S \<and> faults (sh_swarm S) \<noteq> [] \<or>
    db_tasks T = update_where (\<lambda>x. t_id x = t_id t)
      (if t_retry_count t < MaxRetries then recovered else timed_out_row now) (db_tasks S) \<and>
    (faults (sh_swarm S) = [] \<longrightarrow> faults (sh_swarm T) = [])"
proof -
  let ?U = "snd (run_state (recordEvent SHEventStuckTask [] (Some (t_id t)) SeverityWarn now) S)"
  have U: "db_tasks ?U = db_tasks S" "faults (sh_swarm S) = [] \<Longrightarrow> faults (sh_swarm ?U) = []"
    by (simp_all add: faults_recordEvent)
  let ?st = "if t_retry_count t < MaxRetries then sql_recover_task (t_id t)
    else sql_end_task (t_id t) StatusTimedOut ''self-heal: stuck task exhausted retries'' now"
  have run: "run_state (exec ?st) (sh_swarm ?U) =
      (if faults (sh_swarm ?U) \<noteq> [] \<and> hd (faults (sh_swarm ?U))
       then (None, (sh_swarm ?U)\<lparr>faults := tl (faults (sh_swarm ?U))\<rparr>)
       else (Some (count_where (\<lambda>x. t_id x = t_id t) (db_tasks S)),
         (sh_swarm ?U)\<lparr>faults := tl (faults (sh_swarm ?U)),
           tasks := update_where (\<lambda>x. t_id x = t_id t)
             (if t_retry_count t < MaxRetries then recovered else timed_out_row now) (db_tasks S)\<rparr>))"
    by (simp add: exec_step Let_def sql_recover_task_def sql_end_task_def stmt_tasks_def U
        timed_out_row_def [abs_def])
  show ?thesis
    using U run unfolding T_def heal_task_def recoverStuckTask_def
    by (auto simp: split_beta faults_recordEvent broadcast_def split: if_splits)
qed


lemma healableD: "t \<in> set (healable sc ts) \<Longrightarrow> t \<in> set ts \<and> t_failure_reason t \<noteq> None"
  by (auto simp: healable_def simp del: not_None_eq dest: set_takeWhileD split: if_splits)

lemma heal_task_heals:
  assumes "distinct (map t_id (db_tasks S))" and "t \<in> set (db_tasks S)"
  shows "\<exists>K \<subseteq> {t}. db_tasks (snd (run_state (heal_task now t) S)) = heal_in now K (db_tasks S) \<and>
    (faults (sh_swarm S) = [] \<longrightarrow> K = {t} \<and> faults (sh_swarm (snd (run_state (heal_task now t) S))) = [])"
  using heal_task_cases [of now t S]
proof (elim disjE conjE)
  assume "db_tasks (snd (run_state (heal_task now t) S)) = db_tasks S" "faults (sh_swarm S) \<noteq> []"
  then show ?thesis by (intro exI [of _ "{}"]) simp
next
  let ?f = "if t_retry_count t < MaxRetries then recovered else timed_out_row now"
  assume "db_tasks (snd (run_state (heal_task now t) S)) = update_where (\<lambda>x. t_id x = t_id t) ?f (db_tasks S)"
    "faults (sh_swarm S) = [] \<longrightarrow> faults (sh_swarm (snd (run_state (heal_task now t) S))) = []"
  moreover have "update_where (\<lambda>x. t_id x = t_id t) ?f (db_tasks S) = heal_in now {t} (db_tasks S)"
    using assms by (rule update_by_key [where key = t_id]) (simp add: heal_result_def)
  ultimately show ?thesis by (intro exI [of _ "{t}"]) simp
qed

lemma heal_rows_effect:
  assumes "distinct (map t_id (db_tasks S))" and "distinct ts" and "set ts \<subseteq> set (db_tasks S)"
  shows "\<exists>H \<subseteq> set (healable sc ts).
    db_tasks (snd (run_state (heal_rows sc now ts) S)) = heal_in now H (db_tasks S) \<and>
    (faults (sh_swarm S) = [] \<longrightarrow> H = set (healable sc ts))"
  using assms
proof (induction ts arbitrary: S)
  case Nil
  show ?case by (simp add: healable_def)
next
  case (Cons t ts)
  note ids = Cons.prems(1)
  show ?case
  proof (cases "t_failure_reason t = None")
    case True
    have "\<exists>H \<subseteq> set (healable sc ts).
        db_tasks (snd (run_state (heal_rows sc now ts) S)) = heal_in now H (db_tasks S) \<and>
        (faults (sh_swarm S) = [] \<longrightarrow> H = set (healable sc ts))"
      using Cons.prems by (intro Cons.IH) simp_all
    then show ?thesis
      using True by (cases sc) (simp_all add: healable_def)
  next
    case False
    let ?T = "snd (run_state (heal_task now t) S)"
    have t: "t \<in> set (db_tasks S)" "t \<notin> set ts" using Cons.prems by auto
    obtain K where K: "K \<subseteq> {t}" "db_tasks ?T = heal_in now K (db_tasks S)"
      "faults (sh_swarm S) = [] \<Longrightarrow> K = {t} \<and> faults (sh_swarm ?T) = []"
      using heal_task_heals [OF ids t(1)] by blast
    have "x \<in> set (db_tasks ?T)" if "x \<in> set ts" for x
    proof -
      have "x \<in> set (db_tasks S)" and "x \<notin> K" using that Cons.prems(3) t(2) K(1) by auto
      then show ?thesis unfolding K(2) by (rule in_rewrite_in)
    qed
    then have "set ts \<subseteq> set (db_tasks ?T)" by blast
    then obtain H where H: "H \<subseteq> set (healable sc ts)"
      "db_tasks (snd (run_state (heal_rows sc now ts) ?T)) = heal_in now H (db_tasks ?T)"
      "faults (sh_swarm ?T) = [] \<Longrightarrow> H = set (healable sc ts)"
      using Cons.IH [of ?T] Cons.prems(2) ids by (simp add: K(2) rewrite_in_keys [where key = t_id]) blast
    have Hts: "H \<subseteq> set ts" using H(1) by (auto dest: healableD)
    have step: "heal_in now H (heal_in now {t} (db_tasks S)) = heal_in now (insert t H) (db_tasks S)"
      using ids t Hts Cons.prems(3) by (intro rewrite_in_step [where key = t_id]) auto
    have "K = {} \<or> K = {t}" using K(1) by blast
    then have "heal_in now H (heal_in now K (db_tasks S)) = heal_in now (K \<union> H) (db_tasks S)"
      using step by auto
    then have "db_tasks (snd (run_state (heal_rows sc now (t # ts)) S)) = heal_in now (K \<union> H) (db_tasks S)"
      using False H(2) K(2) by (auto simp: split_beta)
    moreover have "set (healable sc (t # ts)) = insert t (set (healable sc ts))"
      using False by (simp add: healable_def)
    ultimately show ?thesis
      using H(1,3) K(1,3) by (intro exI [of _ "K \<union> H"]) auto
  qed
qed

lemma stuck_rows_props:
  assumes "distinct (map t_id (tasks s))"
  shows "distinct (stuck_rows now s)" "set (stuck_rows now s) \<subseteq> set (tasks s)"
    "t \<in> set (stuck_rows now s) \<Longrightarrow> is_stuck now t"
  using assms by (auto simp: stuck_rows_def distinct_map dest!: in_set_takeD)

lemma detect_effect:
  assumes "distinct (map t_id (db_tasks S))"
  shows "\<exists>H \<subseteq> set (healable sc (stuck_rows now (sh_swarm S))).
    db_tasks (snd (run_state (detectStuckTasks sc now) S)) = heal_in now H (db_tasks S) \<and>
    (faults (sh_swarm S) = [] \<longrightarrow> H = set (healable sc (stuck_rows now (sh_swarm S))))"
proof (cases "faults (sh_swarm S)")
  case Nil
  with heal_rows_effect [where sc = sc and now = now, OF assms stuck_rows_props(1,2) [OF assms]]
  show ?thesis using assms by (simp add: detectStuckTasks_def)
next
  case (Cons b bs)
  let ?S = "S\<lparr>sh_swarm := (sh_swarm S)\<lparr>faults := bs\<rparr>\<rparr>"
  have rows: "stuck_rows now (sh_swarm ?S) = stuck_rows now (sh_swarm S)"
    by (simp add: stuck_rows_def)
  show ?thesis
  proof (cases b)
    case True
    with Cons show ?thesis
      by (intro exI [of _ "{}"]) (simp add: detectStuckTasks_def query_def io_ok_def)
  next
    case False
    have "\<exists>H \<subseteq> set (healable sc (stuck_rows now (sh_swarm S))).
        db_tasks (snd (run_state (heal_rows sc now (stuck_rows now (sh_swarm S))) ?S)) = heal_in now H (db_tasks S)"
      using heal_rows_effect [of ?S "stuck_rows now (sh_swarm S)" sc now] assms
        stuck_rows_props(1,2) [OF assms] by auto
    with Cons False rows show ?thesis
      by (simp add: detectStuckTasks_def query_def io_ok_def)
  qed
qed

text \<open>
  C32: Without faults, one run of the detector rewrites exactly the rows that are stuck (not terminal,
  older than 45 minutes), among the twenty oldest of these, and readable, that is with a failure
  reason: a task with retries left goes back to submitted with one more retry counted, the others
  are timed out.  Every other row is untouched.
\<close>

theorem detectStuckTasks_effect:
  assumes "faults (sh_swarm S) = []" and "distinct (map t_id (db_tasks S))"
  shows "db_tasks (snd (run_state (detectStuckTasks sc now) S)) =
    map (\<lambda>t. if t \<in> set (healable sc (stuck_rows now (sh_swarm S))) then heal_result now t else t) (db_tasks S)"
  using detect_effect [OF assms(2), of sc now] assms(1) by (auto simp: rewrite_in_def)

text \<open>
  A task whose failure reason is NULL, as every task that never failed has it, is left as it is by
  the detector, however long it has been stuck and whatever the database does.
\<close>

lemma stuck_task_without_reason_is_never_healed:
  assumes "distinct (map t_id (db_tasks S))" and "t \<in> set (db_tasks S)" and "t_failure_reason t = None"
  shows "t \<in> set (db_tasks (snd (run_state (detectStuckTasks sc now) S)))"
proof -
  obtain H where H: "H \<subseteq> set (healable sc (stuck_rows now (sh_swarm S)))"
    "db_tasks (snd (run_state (detectStuckTasks sc now) S)) = heal_in now H (db_tasks S)"
    using detect_effect [OF assms(1)] by blast
  have "t \<notin> H" using H(1) assms(3) by (auto dest: healableD)
  then show ?thesis unfolding H(2) using assms(2) by (intro in_rewrite_in)
qed

lemma detect_retries:
  assumes "distinct (map t_id (db_tasks S))" and "retries_bounded (sh_swarm S)"
  shows "retries_bounded (sh_swarm (snd (run_state (detectStuckTasks sc now) S)))"
  using detect_effect [OF assms(1), of sc now] assms(2)
  by (fastforce simp: retries_bounded_def rewrite_in_def heal_result_def recovered_def timed_out_row_def
      split: if_splits)
section \<open>Witnesses\<close>

definition stuck_task :: "uuid \<Rightarrow> string option \<Rightarrow> task" where
  "stuck_task i reason = (new_task i ''repo'' ''title'' ''fix the parser'' 1 0)\<lparr>t_failure_reason := reason\<rparr>"

definition stuck_selfheal :: selfheal where
  "stuck_selfheal = init_selfheal\<lparr>sh_swarm := init_swarm\<lparr>tasks := [stuck_task 7 (Some []), stuck_task 8 None]\<rparr>\<rparr>"

lemmas stuck_defs = stuck_selfheal_def init_selfheal_def init_swarm_def stuck_task_def new_task_def

theorem detectStuckTasks_effect_witness:
  "map t_retry_count (db_tasks (snd (run_state (detectStuckTasks False hour) stuck_selfheal))) = [1, 0]"
proof -
  have "stuck_rows hour (sh_swarm stuck_selfheal) = [stuck_task 7 (Some []), stuck_task 8 None]"
    by (simp add: stuck_rows_def stuck_defs is_stuck_def stuckTaskThreshold_def time_units)
  then show ?thesis
    using detectStuckTasks_effect [of stuck_selfheal False hour]
    by (simp add: stuck_defs healable_def heal_result_def recovered_def MaxRetries_def)
qed

end
