(* ===== verification/Janitor.thy ===== *)
theory Janitor
  imports Memory
begin

text \<open>
  \<open>internal/swarm/janitor.go\<close>: the periodic cleanup of idle teams, heartbeat keys, short-term-memory
  keys, memory tables and offline agents.  A SCAN over the short-term-memory keys is one pass over
  them.  The record \<open>janitor\<close> says which of the optional fields of the Go struct are set.
\<close>

definition IdleTeamTimeout :: time where "IdleTeamTimeout = 10 * minute"
definition OfflineAgentRecycleAge :: time where "OfflineAgentRecycleAge = 1 * hour"

definition MTMMaxAge :: time where "MTMMaxAge = 7 * 24 * hour"
definition InsightMaxAge :: time where "InsightMaxAge = 30 * 24 * hour"

record janitor =
  jn_redis :: bool
  jn_memory :: bool

definition sql_kill_idle_teams :: "time \<Rightarrow> stmt" where
  [sql_defs]: "sql_kill_idle_teams cutoff s = stmt_teams (\<lambda>m. m_status m = TeamIdle \<and>
       m_id m \<notin> set warmPoolTeamIDs \<and>
       \<not> (\<exists>t\<in>set (tasks s). t_assigned_team_id t = Some (m_id m) \<and> \<not> terminal (t_status t)) \<and>
       m_formed_at m < cutoff) (\<lambda>m. m\<lparr>m_status := TeamOffline\<rparr>) s"

definition killIdleTeams :: "time \<Rightarrow> nat prog" where
  [op_defs]: "killIdleTeams now = do {
     r \<leftarrow> exec (sql_kill_idle_teams (now - IdleTeamTimeout));
     ret (case r of None \<Rightarrow> 0 | Some n \<Rightarrow> n) }"

definition clear_heartbeat :: "uuid \<Rightarrow> nat prog" where
  [op_defs]: "clear_heartbeat aid = do {
     had \<leftarrow> gets (\<lambda>s. heartbeats s aid \<noteq> None);
     ok \<leftarrow> redis_do (del_heartbeat aid);
     ret (if ok \<and> had then 1 else 0) }"

definition clearStaleHeartbeats :: "janitor \<Rightarrow> nat prog" where
  [op_defs]: "clearStaleHeartbeats j = (if \<not> jn_redis j then ret 0 else do {
     r \<leftarrow> query (\<lambda>s. map a_id (filter (\<lambda>a. a_status a = AgentOffline) (agents s)));
     case r of None \<Rightarrow> ret 0 | Some ids \<Rightarrow> sum_each clear_heartbeat ids })"

definition pruneStaleMTM :: "janitor \<Rightarrow> time \<Rightarrow> nat prog" where
  [op_defs]: "pruneStaleMTM j now = (if \<not> jn_memory j then ret 0 else do {
     r \<leftarrow> PruneStaleMTM MTMMaxAge now;
     ret (case r of Inl _ \<Rightarrow> 0 | Inr n \<Rightarrow> n) })"

definition pruneStaleInsights :: "janitor \<Rightarrow> time \<Rightarrow> nat prog" where
  [op_defs]: "pruneStaleInsights j now = (if \<not> jn_memory j then ret 0 else do {
     r \<leftarrow> PruneStaleInsights InsightMaxAge now;
     ret (case r of Inl _ \<Rightarrow> 0 | Inr n \<Rightarrow> n) })"

text \<open>\<open>splitKey\<close>: the loop over the bytes of the key, with the segment read so far.\<close>

fun splitKey_loop :: "string \<Rightarrow> string \<Rightarrow> string list" where
  "splitKey_loop seg [] = (if seg = [] then [] else [seg])"
| "splitKey_loop seg (c # cs) =
     (if c = CHR '':'' then seg # splitKey_loop [] cs else splitKey_loop (seg @ [c]) cs)"

definition splitKey :: "string \<Rightarrow> string list" where
  "splitKey key = splitKey_loop [] key"

definition orphaned_key :: "string list \<Rightarrow> string \<Rightarrow> bool" where
  "orphaned_key active key \<longleftrightarrow>
     (let parts = splitKey key in length parts \<ge> 3 \<and> parts ! 2 \<notin> set active)"

definition clean_key :: "string list \<Rightarrow> string \<Rightarrow> nat prog" where
  [op_defs]: "clean_key active key =
     (if orphaned_key active key then do {
        _ \<leftarrow> redis_do (\<lambda>s. s\<lparr>stm_keys := filter (\<lambda>k. k \<noteq> key) (stm_keys s)\<rparr>);
        ret 1 }
      else ret 0)"

definition cleanOrphanedSTM :: "(uuid \<Rightarrow> string) \<Rightarrow> janitor \<Rightarrow> nat prog" where
  [op_defs]: "cleanOrphanedSTM uuid_str j = (if \<not> jn_redis j then ret 0 else do {
     r \<leftarrow> query (\<lambda>s. map (\<lambda>t. uuid_str (t_id t)) (filter (\<lambda>t. \<not> terminal (t_status t)) (tasks s)));
     case r of
       None \<Rightarrow> ret 0
     | Some active \<Rightarrow> do {
         ks \<leftarrow> query (\<lambda>s. filter (\<lambda>k. has_prefix k ''swarm:stm:'') (stm_keys s));
         case ks of None \<Rightarrow> ret 0 | Some keys \<Rightarrow> sum_each (clean_key active) keys } })"

definition sql_recycle_agents :: "time \<Rightarrow> stmt" where
  [sql_defs]: "sql_recycle_agents cutoff = delete_agents (stale_agent cutoff)"

definition recycleOfflineAgents :: "time \<Rightarrow> nat prog" where
  [op_defs]: "recycleOfflineAgents now = do {
     r \<leftarrow> exec (sql_recycle_agents (now - OfflineAgentRecycleAge));
     ret (case r of None \<Rightarrow> 0 | Some n \<Rightarrow> n) }"

definition runCycle :: "(uuid \<Rightarrow> string) \<Rightarrow> janitor \<Rightarrow> time \<Rightarrow> nat prog" where
  [op_defs]: "runCycle uuid_str j now = do {
     a \<leftarrow> killIdleTeams now;
     b \<leftarrow> clearStaleHeartbeats j;
     c \<leftarrow> pruneStaleMTM j now;
     d \<leftarrow> pruneStaleInsights j now;
     e \<leftarrow> cleanOrphanedSTM uuid_str j;
     f \<leftarrow> recycleOfflineAgents now;
     ret (a + b + c + d + e + f) }"

section \<open>Splitting keys\<close>

lemma splitKey_loop_append:
  "CHR '':'' \<notin> set u \<Longrightarrow> splitKey_loop seg (u @ CHR '':'' # v) = (seg @ u) # splitKey_loop [] v"
  by (induction u arbitrary: seg) auto

lemma splitKey_loop_no_sep:
  "CHR '':'' \<notin> set u \<Longrightarrow> splitKey_loop seg u = (if seg @ u = [] then [] else [seg @ u])"
  by (induction u arbitrary: seg) auto

lemma splitKey_segment:
  "CHR '':'' \<notin> set u \<Longrightarrow> splitKey (u @ CHR '':'' # v) = u # splitKey v"
  by (simp add: splitKey_def splitKey_loop_append)

lemma splitKey_loop_join:
  "concat (map (\<lambda>p. p @ [CHR '':'']) (splitKey_loop seg key)) =
   seg @ key @ (if seg @ key = [] \<or> key \<noteq> [] \<and> last key = CHR '':'' then [] else [CHR '':''])"
  by (induction seg key rule: splitKey_loop.induct) auto

section \<open>Keys of the short-term memory\<close>

definition live_ids :: "(uuid \<Rightarrow> string) \<Rightarrow> task list \<Rightarrow> string list" where
  "live_ids us ts = map (\<lambda>t. us (t_id t)) (filter (\<lambda>t. \<not> terminal (t_status t)) ts)"

definition stm_key :: "string \<Rightarrow> string \<Rightarrow> string" where
  "stm_key tid rest = ''swarm:stm:'' @ tid @ '':'' @ rest"

lemma splitKey_stm:
  assumes "CHR '':'' \<notin> set tid"
  shows "splitKey (stm_key tid rest) = ''swarm'' # ''stm'' # tid # splitKey rest"
  using splitKey_segment [of "''swarm''" "''stm:'' @ tid @ '':'' @ rest"]
    splitKey_segment [of "''stm''" "tid @ '':'' @ rest"] splitKey_segment [OF assms, of rest]
  by (simp add: stm_key_def)

lemma orphaned_stm:
  "CHR '':'' \<notin> set tid \<Longrightarrow> orphaned_key active (stm_key tid rest) \<longleftrightarrow> tid \<notin> set active"
  by (simp add: orphaned_key_def splitKey_stm Let_def)

lemma run_clean_keys:
  assumes "faults s = []"
  shows "run_state (sum_each (clean_key active) keys) s =
    (count_where (orphaned_key active) keys,
     s\<lparr>stm_keys := filter (\<lambda>k. \<not> (k \<in> set keys \<and> orphaned_key active k)) (stm_keys s)\<rparr>)"
  using assms
proof (induction keys arbitrary: s)
  case (Cons k keys)
  let ?t = "if orphaned_key active k then s\<lparr>stm_keys := filter (\<lambda>x. x \<noteq> k) (stm_keys s)\<rparr> else s"
  have "run_state (clean_key active k) s = (of_bool (orphaned_key active k), ?t)"
    using Cons.prems by (simp add: clean_key_def)
  moreover have "filter (\<lambda>x. \<not> (x \<in> set keys \<and> orphaned_key active x)) (stm_keys ?t) =
      filter (\<lambda>x. \<not> (x \<in> set (k # keys) \<and> orphaned_key active x)) (stm_keys s)"
    by (auto intro!: filter_cong)
  ultimately show ?case
    using Cons.IH [of ?t] Cons.prems by (auto split: if_splits)
qed simp

text \<open>
  Without faults, the cleanup of the short-term memory removes exactly the keys with the
  memory prefix whose third segment is not a live task, and returns their number.
\<close>

lemma cleanOrphanedSTM_effect:
  assumes "faults s = []" and "jn_redis j"
  shows "run_state (cleanOrphanedSTM us j) s =
    (count_where (orphaned_key (live_ids us (tasks s))) (filter (\<lambda>k. has_prefix k ''swarm:stm:'') (stm_keys s)),
     s\<lparr>stm_keys := filter (\<lambda>k. \<not> (has_prefix k ''swarm:stm:'' \<and> orphaned_key (live_ids us (tasks s)) k)) (stm_keys s)\<rparr>)"
proof -
  have "filter (\<lambda>k. \<not> (k \<in> set (filter (\<lambda>k. has_prefix k ''swarm:stm:'') (stm_keys s)) \<and>
      orphaned_key (live_ids us (tasks s)) k)) (stm_keys s) =
    filter (\<lambda>k. \<not> (has_prefix k ''swarm:stm:'' \<and> orphaned_key (live_ids us (tasks s)) k)) (stm_keys s)"
    by (rule filter_cong) auto
  then show ?thesis
    using assms by (simp add: cleanOrphanedSTM_def run_clean_keys live_ids_def [symmetric])
qed

section \<open>A cycle spares live work\<close>

definition busy_team :: "task list \<Rightarrow> team \<Rightarrow> bool" where
  "busy_team ts m \<longleftrightarrow> m_status m \<noteq> TeamIdle \<or> m_id m \<in> set warmPoolTeamIDs \<or>
     (\<exists>t\<in>set ts. t_assigned_team_id t = Some (m_id m) \<and> \<not> terminal (t_status t))"

definition guarded :: "task list \<Rightarrow> agent set \<Rightarrow> team set \<Rightarrow> string set \<Rightarrow> swarm \<Rightarrow> bool" where
  "guarded ts A M K s \<longleftrightarrow> tasks s = ts \<and> A \<subseteq> set (agents s) \<and> K \<subseteq> set (stm_keys s) \<and>
     (\<forall>m\<in>M. \<exists>m'\<in>set (teams s). m_id m' = m_id m \<and> m_status m' = m_status m)"

lemma book_free_guarded: "book_free (guarded ts A M K)"
  by (simp add: book_free_def guarded_def)

interpretation guard: swarm_store "keeps (guarded ts A M K)" for ts A M K
  by (rule swarm_store_keeps) (rule book_free_guarded)

lemma guarded_kill:
  assumes "\<forall>m\<in>M. busy_team ts m"
  shows "stmt_stable (keeps (guarded ts A M K)) (sql_kill_idle_teams cutoff)"
proof (rule stmt_stableI, rule keepsI)
  fix s n t
  assume st: "sql_kill_idle_teams cutoff s = Some (n, t)" and g: "guarded ts A M K s"
  let ?p = "\<lambda>m. m_status m = TeamIdle \<and> m_id m \<notin> set warmPoolTeamIDs \<and>
     \<not> (\<exists>t\<in>set (tasks s). t_assigned_team_id t = Some (m_id m) \<and> \<not> terminal (t_status t)) \<and> m_formed_at m < cutoff"
  have t: "t = s\<lparr>teams := update_where ?p (\<lambda>m. m\<lparr>m_status := TeamOffline\<rparr>) (teams s)\<rparr>"
    using st by (simp add: sql_kill_idle_teams_def stmt_teams_def)
  have "\<exists>m'\<in>set (teams t). m_id m' = m_id m \<and> m_status m' = m_status m" if m: "m \<in> M" for m
  proof -
    obtain m' where m': "m' \<in> set (teams s)" "m_id m' = m_id m" "m_status m' = m_status m"
      using g m by (auto simp: guarded_def)
    then have "\<not> ?p m'" using assms m g by (auto simp: busy_team_def guarded_def)
    then have "m' \<in> set (teams t)" using m'(1) unfolding t by (auto simp: in_update_where)
    with m' show ?thesis by blast
  qed
  then show "guarded ts A M K t" using g by (simp add: guarded_def t)
qed

lemma guarded_recycle:
  assumes "\<forall>a\<in>A. a_status a \<noteq> AgentOffline"
  shows "stmt_stable (keeps (guarded ts A M K)) (sql_recycle_agents cutoff)"
  using assms
  by (auto simp: stmt_stable_def keeps_def guarded_def sql_recycle_agents_def delete_agents_def Let_def
      stale_agent_def)

lemma guarded_prunes:
  "stmt_stable (keeps (guarded ts A M K)) (sql_prune_mtm cutoff)"
  "stmt_stable (keeps (guarded ts A M K)) (sql_prune_insights cutoff)"
  by (simp_all add: stmt_stable_def keeps_def guarded_def sql_prune_mtm_def sql_prune_insights_def)

lemma guarded_heartbeat: "keeps (guarded ts A M K) s (del_heartbeat aid s)"
  by (simp add: keeps_def guarded_def del_heartbeat_def)

lemma guarded_clean_key:
  assumes "\<forall>k\<in>K. \<not> orphaned_key active k"
  shows "stable (keeps (guarded ts A M K)) (clean_key active key)"
proof (cases "orphaned_key active key")
  case True
  then have "key \<notin> K" using assms by blast
  then have "keeps (guarded ts A M K) s (s\<lparr>stm_keys := filter (\<lambda>k. k \<noteq> key) (stm_keys s)\<rparr>)" for s
    by (auto simp: keeps_def guarded_def)
  then show ?thesis unfolding clean_key_def by (intro guard.stable_calls guard.stable_redis_do)
qed (simp add: clean_key_def keeping.stable_ret)

lemma guarded_STM:
  assumes "\<forall>k\<in>K. \<not> orphaned_key (live_ids us ts) k"
  shows "stable (keeps (guarded ts A M K)) (cleanOrphanedSTM us j)"
proof -
  have q: "meets (guarded ts A M K) (query (\<lambda>s. map (\<lambda>t. us (t_id t)) (filter (\<lambda>t. \<not> terminal (t_status t)) (tasks s))))
      (\<lambda>r. \<forall>act. r = Some act \<longrightarrow> act = live_ids us ts)"
    unfolding query_def
    by (rule meets_bind [OF meets_stable [OF guard.stable_io_ok]])
      (auto intro!: meets_if meets_ret meets_gets simp: guarded_def live_ids_def)
  have keys: "stable (keeps (guarded ts A M K)) (do {
      ks \<leftarrow> query (\<lambda>s. filter (\<lambda>k. has_prefix k ''swarm:stm:'') (stm_keys s));
      case ks of None \<Rightarrow> ret 0 | Some keys \<Rightarrow> sum_each (clean_key (live_ids us ts)) keys })"
    by (intro guard.stable_calls keeping.stable_sum_each guarded_clean_key assms)
  show ?thesis
    unfolding cleanOrphanedSTM_def
    by (intro stable_if keeping.stable_ret, rule meets_keeps [where Q = "\<lambda>_. True"],
        rule meets_bind [OF q], rule meets_stable)
      (auto split: option.splits intro!: keeping.stable_ret keys)
qed

lemma guarded_runCycle:
  assumes "\<forall>m\<in>M. busy_team ts m" and "\<forall>a\<in>A. a_status a \<noteq> AgentOffline"
    and "\<forall>k\<in>K. \<not> orphaned_key (live_ids us ts) k"
  shows "stable (keeps (guarded ts A M K)) (runCycle us j now)"
  unfolding runCycle_def killIdleTeams_def clearStaleHeartbeats_def clear_heartbeat_def
    pruneStaleMTM_def PruneStaleMTM_def pruneStaleInsights_def PruneStaleInsights_def recycleOfflineAgents_def
  using assms
  by (intro guard.stable_calls keeping.stable_sum_each guard.stable_redis_do guarded_kill guarded_recycle
      guarded_prunes guarded_heartbeat guarded_STM)

text \<open>
  C37: For every fault script a whole janitor cycle spares live work: the task table is unchanged,
  agents that are not offline stay, a team that is not idle, is in the warm pool or has a live task
  keeps its status, and the short-term-memory keys of live tasks stay.
\<close>

theorem runCycle_spares_live_work:
  assumes "\<And>i. CHR '':'' \<notin> set (us i)" and "t = snd (run_state (runCycle us j now) s)"
  shows "tasks t = tasks s \<and>
    (\<forall>a\<in>set (agents s). a_status a \<noteq> AgentOffline \<longrightarrow> a \<in> set (agents t)) \<and>
    (\<forall>m\<in>set (teams s). busy_team (tasks s) m \<longrightarrow>
      (\<exists>m'\<in>set (teams t). m_id m' = m_id m \<and> m_status m' = m_status m)) \<and>
    (\<forall>x\<in>set (tasks s). \<not> terminal (t_status x) \<longrightarrow>
      (\<forall>rest. stm_key (us (t_id x)) rest \<in> set (stm_keys s) \<longrightarrow> stm_key (us (t_id x)) rest \<in> set (stm_keys t)))"
proof -
  let ?A = "{a \<in> set (agents s). a_status a \<noteq> AgentOffline}"
  let ?M = "{m \<in> set (teams s). busy_team (tasks s) m}"
  let ?K = "{k \<in> set (stm_keys s). \<not> orphaned_key (live_ids us (tasks s)) k}"
  have "guarded (tasks s) ?A ?M ?K s" by (auto simp: guarded_def)
  then have g: "guarded (tasks s) ?A ?M ?K t"
    using stableD [OF guarded_runCycle [of ?M "tasks s" ?A ?K us j now], of s] assms(2)
    by (auto simp: keeps_def)
  have "\<not> orphaned_key (live_ids us (tasks s)) (stm_key (us (t_id x)) rest)"
    if "x \<in> set (tasks s)" "\<not> terminal (t_status x)" for x rest
    using that assms(1) by (auto simp: orphaned_stm live_ids_def)
  with g show ?thesis by (auto simp: guarded_def)
qed

section \<open>Witnesses\<close>

definition janitor_swarm :: swarm where
  "janitor_swarm = init_swarm\<lparr>tasks := [new_task 7 ''repo'' ''title'' ''fix the parser'' 1 0],
     stm_keys := [stm_key ''7'' ''a'', stm_key ''8'' ''a'']\<rparr>"

definition example_str :: "uuid \<Rightarrow> string" where
  "example_str i = (if i = 7 then ''7'' else ''x'')"

theorem runCycle_spares_live_work_witness:
  "stm_key ''7'' ''a'' \<in> set (stm_keys (snd (run_state
     (runCycle example_str \<lparr>jn_redis = True, jn_memory = True\<rparr> day) janitor_swarm)))"
proof -
  have "CHR '':'' \<notin> set (example_str i)" for i by (simp add: example_str_def)
  from runCycle_spares_live_work [where us = example_str and now = day and s = janitor_swarm and
      j = "\<lparr>jn_redis = True, jn_memory = True\<rparr>", OF this refl]
  show ?thesis by (simp add: janitor_swarm_def new_task_def example_str_def)
qed

end
