(* ===== verification/TeamFormation.thy ===== *)
theory TeamFormation
  imports TaskStore RoleELOCorrect "HOL-Library.AList" "HOL-Library.List_Lexorder"
begin

text \<open>
  \<open>internal/swarm/team_formation.go\<close>: from a plan document to a complexity score, a label, a list of
  roles and the adjustments by role ELO.  \<open>parse_plan\<close> stands for \<open>json.Unmarshal\<close> into the anonymous
  struct of \<open>ExtractSignalsFromPlan\<close> and \<open>to_json\<close> for \<open>json.Marshal\<close> of the formation.
  Floating-point numbers are real numbers.
\<close>

section \<open>Types\<close>

record plan =
  pl_summary :: string
  pl_steps :: nat
  pl_files :: "string list"

record signals =
  sg_files :: int
  sg_steps :: int
  sg_desc :: int
  sg_langs :: int
  sg_tests :: int
  sg_migrations :: bool
  sg_cross :: bool
  sg_api :: bool
  sg_security :: bool
  sg_ui :: bool
  sg_languages :: "string list"

definition no_signals :: signals where
  "no_signals = \<lparr>sg_files = 0, sg_steps = 0, sg_desc = 0, sg_langs = 0, sg_tests = 0,
     sg_migrations = False, sg_cross = False, sg_api = False, sg_security = False, sg_ui = False,
     sg_languages = []\<rparr>"

record team_formation =
  tf_score :: real
  tf_label :: string
  tf_signals :: signals
  tf_roles :: "string list"
  tf_elos :: "(string \<times> tier \<times> real) list"
  tf_size :: int
  tf_reasoning :: string
  tf_strategy :: string
  tf_created_at :: time

section \<open>Helpers\<close>

definition formationSigmoid :: "real \<Rightarrow> real \<Rightarrow> real" where
  "formationSigmoid value midpoint = (if value \<le> 0 then 0 else value / (value + midpoint))"

definition formationTitleCase :: "string \<Rightarrow> string" where
  "formationTitleCase s = (case s of [] \<Rightarrow> [] | c # cs \<Rightarrow> upper_char c # cs)"

text \<open>The loop of \<open>formationFileExtension\<close>: from the last byte backwards, \<open>i\<close> bytes left.\<close>

fun file_ext_loop :: "string \<Rightarrow> nat \<Rightarrow> string" where
  "file_ext_loop path 0 = ''''"
| "file_ext_loop path (Suc i) =
     (if path ! i = CHR ''.'' then drop i path
      else if path ! i = CHR ''/'' then ''''
      else file_ext_loop path i)"

definition formationFileExtension :: "string \<Rightarrow> string" where
  "formationFileExtension path = file_ext_loop path (length path)"

definition language_table :: "(string \<times> string) list" where
  "language_table = [(''.go'', ''go''), (''.py'', ''python''), (''.ts'', ''typescript''),
     (''.tsx'', ''typescript''), (''.js'', ''javascript''), (''.jsx'', ''javascript''),
     (''.java'', ''java''), (''.rs'', ''rust''), (''.c'', ''c''), (''.h'', ''c''), (''.cpp'', ''cpp''),
     (''.cc'', ''cpp''), (''.hpp'', ''cpp''), (''.rb'', ''ruby''), (''.sql'', ''sql''),
     (''.proto'', ''protobuf''), (''.yaml'', ''yaml''), (''.yml'', ''yaml''), (''.json'', ''json''),
     (''.md'', ''markdown''), (''.mdx'', ''markdown''), (''.css'', ''css''), (''.scss'', ''css''),
     (''.html'', ''html''), (''.sh'', ''shell''), (''.bash'', ''shell'')]"

definition formationExtensionToLanguage :: "string \<Rightarrow> string" where
  "formationExtensionToLanguage ext =
     (case map_of language_table (to_lower ext) of None \<Rightarrow> '''' | Some l \<Rightarrow> l)"

definition contains_any :: "string \<Rightarrow> string list \<Rightarrow> bool" where
  "contains_any s kws \<longleftrightarrow> list_ex (str_contains s) kws"

definition formationIsTestFile :: "string \<Rightarrow> bool" where
  "formationIsTestFile path =
     contains_any path [''_test.'', ''.test.'', ''.spec.'', ''/test/'', ''/tests/'', ''__tests__/'']"

section \<open>Signals\<close>

definition scan_file :: "signals \<Rightarrow> string \<Rightarrow> signals" where
  "scan_file sg f = (let lower = to_lower f in sg\<lparr>
     sg_tests := (if formationIsTestFile lower then sg_tests sg + 1 else sg_tests sg),
     sg_migrations := (sg_migrations sg \<or> contains_any lower [''migration'', ''migrate'']),
     sg_api := (sg_api sg \<or>
       contains_any lower [''handler'', ''route'', ''endpoint'', ''api'', ''proto'', ''schema'']),
     sg_ui := (sg_ui sg \<or>
       contains_any lower [''component'', ''page.tsx'', ''.css'', ''.scss'', ''/web/'', ''/ui/''])\<rparr>)"

definition languages_of :: "string list \<Rightarrow> string list" where
  "languages_of fs = sort (remdups (filter (\<lambda>l. l \<noteq> '''')
     (map (\<lambda>f. formationExtensionToLanguage (formationFileExtension f)) fs)))"

definition top_dirs :: "string list \<Rightarrow> string list" where
  "top_dirs fs = remdups (List.map_filter (\<lambda>f. let parts = split_n (CHR ''/'') 3 f in
     if length parts \<ge> 2 then Some (parts ! 0 @ ''/'' @ parts ! 1) else None) fs)"

definition securityKeywords :: "string list" where
  "securityKeywords = [''auth'', ''security'', ''permission'', ''rbac'', ''jwt'', ''token'', ''encrypt'',
     ''credential'', ''secret'', ''vulnerability'', ''cve'']"

definition signals_of_plan :: "plan \<Rightarrow> signals" where
  "signals_of_plan pl =
     (let sg = foldl scan_file (no_signals\<lparr>sg_files := int (length (pl_files pl)),
            sg_steps := int (pl_steps pl), sg_desc := int (length (pl_summary pl))\<rparr>) (pl_files pl) in
      sg\<lparr>sg_cross := length (top_dirs (pl_files pl)) \<ge> 3,
         sg_security := contains_any (to_lower (pl_summary pl)) securityKeywords,
         sg_languages := languages_of (pl_files pl),
         sg_langs := int (length (languages_of (pl_files pl)))\<rparr>)"

definition ExtractSignalsFromPlan :: "(string \<Rightarrow> plan option) \<Rightarrow> string \<Rightarrow> signals" where
  "ExtractSignalsFromPlan parse_plan planJSON =
     (if planJSON = [] then no_signals
      else case parse_plan planJSON of None \<Rightarrow> no_signals | Some pl \<Rightarrow> signals_of_plan pl)"

section \<open>Score and label\<close>

definition flag_score :: "signals \<Rightarrow> real" where
  "flag_score s = (if sg_migrations s then 15 / 100 else 0) + (if sg_cross s then 12 / 100 else 0) +
     (if sg_api s then 10 / 100 else 0) + (if sg_security s then 10 / 100 else 0) +
     (if sg_ui s then 5 / 100 else 0) +
     (if sg_tests s > 0 then 3 / 100 * min (real_of_int (sg_tests s)) 3 else 0)"

definition raw_score :: "signals \<Rightarrow> real" where
  "raw_score s =
     30 / 100 * formationSigmoid (real_of_int (sg_files s)) 8 +
     25 / 100 * formationSigmoid (real_of_int (sg_steps s)) 6 +
     10 / 100 * formationSigmoid (real_of_int (sg_desc s)) 300 +
     10 / 100 * formationSigmoid (real_of_int (sg_langs s)) 2 +
     25 / 100 * min (flag_score s) (50 / 100)"

definition ComputeComplexityScore :: "signals \<Rightarrow> real" where
  "ComputeComplexityScore s = max 0 (min 1 (raw_score s))"

definition FormationComplexityLabel :: "real \<Rightarrow> string" where
  "FormationComplexityLabel score =
     (if score < 15 / 100 then ''trivial'' else if score < 35 / 100 then ''small''
      else if score < 60 / 100 then ''medium'' else if score < 80 / 100 then ''large''
      else ''critical'')"

section \<open>Roles\<close>

definition RecommendRoles :: "string \<Rightarrow> signals \<Rightarrow> string list" where
  "RecommendRoles label sg =
     (if label = ''trivial'' then [''senior_dev'']
      else if label = ''small'' then
        [''senior_dev''] @ (if sg_tests sg > 0 \<or> sg_api sg then [''qa''] else [])
      else if label = ''medium'' then
        [''senior_dev'', ''qa''] @ (if sg_security sg then [''security''] else []) @
        (if sg_ui sg then [''ui_ux''] else [])
      else if label = ''large'' then
        [''architect'', ''senior_dev'', ''junior_dev'', ''qa'', ''security''] @
        (if sg_ui sg then [''ui_ux''] else [])
      else if label = ''critical'' then
        [''architect'', ''senior_dev'', ''senior_dev'', ''junior_dev'', ''qa'', ''security''] @
        (if sg_ui sg then [''ui_ux''] else []) @
        (if sg_migrations sg \<or> sg_api sg then [''docs''] else [])
      else [''senior_dev'', ''qa''])"

fun tier_str :: "tier \<Rightarrow> string" where
  "tier_str TierStandard = ''standard''"
| "tier_str TierExpert = ''expert''"
| "tier_str TierRestricted = ''restricted''"

type_synonym role_elos = "(string \<times> tier \<times> real) list"

definition tier_count :: "tier \<Rightarrow> role_elos \<Rightarrow> nat" where
  "tier_count t elos = count_where (\<lambda>(r, t', e). t' = t) elos"

definition adjust_supervision :: "role_elos \<Rightarrow> string \<Rightarrow> string list \<Rightarrow> string list \<times> string list" where
  "adjust_supervision elos label roles =
     (let n = tier_count TierRestricted elos in
      if n > 0 \<and> (label = ''large'' \<or> label = ''critical'') \<and> count_list roles ''senior_dev'' < 2
      then (roles @ [''senior_dev''],
            [''Added extra senior_dev: '' @ show_nat n @ '' restricted-tier roles need supervision''])
      else (roles, []))"

definition adjust_trim :: "role_elos \<Rightarrow> string \<Rightarrow> string list \<Rightarrow> string list \<times> string list" where
  "adjust_trim elos label roles =
     (let n = tier_count TierExpert elos in
      if n = length elos \<and> n > 0 \<and> label = ''medium'' \<and> ''junior_dev'' \<in> set roles
      then (remove1 ''junior_dev'' roles, [''Trimmed junior_dev: all roles are expert-tier''])
      else (roles, []))"

definition adjust_security :: "role_elos \<Rightarrow> signals \<Rightarrow> string list \<Rightarrow> string list \<times> string list" where
  "adjust_security elos sg roles =
     (case map_of elos ''security'' of
        Some (TierRestricted, e) \<Rightarrow>
          if sg_security sg \<and> ''architect'' \<notin> set roles
          then (roles @ [''architect''],
            [''Added architect: security role is restricted-tier but task has security impact''])
          else (roles, [])
      | _ \<Rightarrow> (roles, []))"

definition elo_summary :: "role_elos \<Rightarrow> string list" where
  "elo_summary elos = (if elos = [] then []
     else [''ELO: '' @ str_join '', '' (sort (map (\<lambda>(r, t, e).
             r @ ''='' @ fmt0f e @ ''('' @ tier_str t @ '')'') elos))])"

definition eloAdjustments :: "string list \<Rightarrow> role_elos \<Rightarrow> string \<Rightarrow> signals \<Rightarrow> string list \<times> string" where
  "eloAdjustments roles elos label sg =
     (let head = formationTitleCase label @ '' complexity: '' @ show_int (sg_files sg) @ '' files, '' @
            show_int (sg_steps sg) @ '' steps, '' @ show_int (sg_langs sg) @ '' languages'';
          (r1, why1) = adjust_supervision elos label roles;
          (r2, why2) = adjust_trim elos label r1;
          (r3, why3) = adjust_security elos sg r2 in
      (r3, str_join ''. '' ([head] @ why1 @ why2 @ why3 @ elo_summary elos)))"

section \<open>The service\<close>

fun query_elos :: "string \<Rightarrow> string list \<Rightarrow> role_elos \<Rightarrow> role_elos eprog" where
  "query_elos repo [] acc = ret acc"
| "query_elos repo (r # rs) acc = do {
     x \<leftarrow> TierForRole r repo;
     query_elos repo rs (AList.update r x acc) }"

definition RecommendTeam ::
  "(string \<Rightarrow> plan option) \<Rightarrow> bool \<Rightarrow> string \<Rightarrow> string \<Rightarrow> signals option \<Rightarrow> time \<Rightarrow> team_formation eprog" where
  [op_defs]: "RecommendTeam parse_plan has_role_elo repo plan override now =
     (let sg = (case override of Some x \<Rightarrow> x | None \<Rightarrow> ExtractSignalsFromPlan parse_plan plan);
          score = ComputeComplexityScore sg;
          label = FormationComplexityLabel score;
          roles = RecommendRoles label sg in do {
        elos \<leftarrow> (if has_role_elo then query_elos repo roles [] else ret []);
        let (adjusted, reasoning) = eloAdjustments roles elos label sg;
        ret \<lparr>tf_score = real_of_int (round (score * 1000)) / 1000, tf_label = label, tf_signals = sg,
          tf_roles = adjusted, tf_elos = elos, tf_size = int (length adjusted) + 1,
          tf_reasoning = reasoning, tf_strategy = ''elo_weighted'', tf_created_at = now\<rparr> })"

definition sql_store_formation :: "uuid \<Rightarrow> string \<Rightarrow> stmt" where
  [sql_defs]: "sql_store_formation tid data =
     stmt_tasks (\<lambda>t. t_id t = tid) (\<lambda>t. t\<lparr>t_team_formation := Some data\<rparr>)"

definition StoreFormation ::
  "(team_formation \<Rightarrow> string option) \<Rightarrow> uuid \<Rightarrow> team_formation \<Rightarrow> (swarm_error + unit) prog" where
  [op_defs]: "StoreFormation to_json tid formation = (case to_json formation of
       None \<Rightarrow> ret (Inl (ErrBadRequest ''marshalling team formation''))
     | Some data \<Rightarrow> do {
         r \<leftarrow> exec (sql_store_formation tid data);
         ret (case r of None \<Rightarrow> Inl (ErrDB ''storing team formation'') | Some _ \<Rightarrow> Inr ()) })"

section \<open>Correctness\<close>

section \<open>Score\<close>

lemma sigmoid_bounds: "0 < m \<Longrightarrow> 0 \<le> formationSigmoid v m \<and> formationSigmoid v m < 1"
  by (auto simp: formationSigmoid_def divide_less_eq)

lemma sigmoid_mono:
  assumes "0 < m" and "v \<le> w"
  shows "formationSigmoid v m \<le> formationSigmoid w m"
proof (cases "v \<le> 0")
  case True
  then show ?thesis using sigmoid_bounds [OF assms(1), of w] by (simp add: formationSigmoid_def)
next
  case False
  then have "v * (w + m) \<le> w * (v + m)" using assms by (simp add: algebra_simps)
  then show ?thesis using False assms by (simp add: formationSigmoid_def frac_le_eq divide_le_eq field_simps)
qed

lemma flag_score_nonneg: "0 \<le> flag_score s"
  by (simp add: flag_score_def)

lemma raw_score_bounds: "0 \<le> raw_score s" "raw_score s < 7 / 8"
  using sigmoid_bounds [of 8 "real_of_int (sg_files s)"] sigmoid_bounds [of 6 "real_of_int (sg_steps s)"]
    sigmoid_bounds [of 300 "real_of_int (sg_desc s)"] sigmoid_bounds [of 2 "real_of_int (sg_langs s)"]
    flag_score_nonneg [of s]
  by (auto simp: raw_score_def min_def)

definition signals_le :: "signals \<Rightarrow> signals \<Rightarrow> bool" where
  "signals_le a b \<longleftrightarrow> sg_files a \<le> sg_files b \<and> sg_steps a \<le> sg_steps b \<and> sg_desc a \<le> sg_desc b \<and>
     sg_langs a \<le> sg_langs b \<and> sg_tests a \<le> sg_tests b \<and> (sg_migrations a \<longrightarrow> sg_migrations b) \<and>
     (sg_cross a \<longrightarrow> sg_cross b) \<and> (sg_api a \<longrightarrow> sg_api b) \<and> (sg_security a \<longrightarrow> sg_security b) \<and>
     (sg_ui a \<longrightarrow> sg_ui b)"

lemma flag_score_mono: "signals_le a b \<Longrightarrow> flag_score a \<le> flag_score b"
  unfolding flag_score_def signals_le_def
  by (intro add_mono) (auto simp: min_def)

lemma raw_score_mono:
  assumes "signals_le a b"
  shows "raw_score a \<le> raw_score b"
proof -
  have "min (flag_score a) (50 / 100) \<le> min (flag_score b) (50 / 100)"
    using flag_score_mono [OF assms] by (auto simp: min_def)
  then show ?thesis
    unfolding raw_score_def using assms
    by (intro add_mono mult_left_mono sigmoid_mono) (simp_all add: signals_le_def)
qed

fun label_rank :: "string \<Rightarrow> nat" where
  "label_rank l = (if l = ''trivial'' then 0 else if l = ''small'' then 1 else if l = ''medium'' then 2
     else if l = ''large'' then 3 else 4)"

lemma label_rank_mono: "x \<le> y \<Longrightarrow> label_rank (FormationComplexityLabel x) \<le> label_rank (FormationComplexityLabel y)"
  by (auto simp: FormationComplexityLabel_def)

text \<open>
  The complexity score of a plan lies between zero and 7/8 and, like the rank of its label,
  never falls when a plan touches more files, has more steps, a longer summary, more languages or
  tests, or raises more flags.
\<close>

lemma complexity_score_monotone:
  assumes "signals_le a b"
  shows "0 \<le> ComputeComplexityScore a \<and> ComputeComplexityScore a \<le> ComputeComplexityScore b \<and>
    ComputeComplexityScore b < 7 / 8 \<and>
    label_rank (FormationComplexityLabel (ComputeComplexityScore a)) \<le>
      label_rank (FormationComplexityLabel (ComputeComplexityScore b))"
  using raw_score_mono [OF assms] raw_score_bounds [of a] raw_score_bounds [of b] label_rank_mono
  by (auto simp: ComputeComplexityScore_def)

section \<open>Adjustments\<close>

lemma label_cases: "FormationComplexityLabel x \<in> {''trivial'', ''small'', ''medium'', ''large'', ''critical''}"
  by (simp add: FormationComplexityLabel_def)

lemma no_junior_on_medium: "''junior_dev'' \<notin> set (RecommendRoles ''medium'' sg)"
  by (simp add: RecommendRoles_def)

lemma trim_never_applies:
  "adjust_trim elos label (fst (adjust_supervision elos label (RecommendRoles label sg))) =
   (fst (adjust_supervision elos label (RecommendRoles label sg)), [])"
  by (auto simp: adjust_trim_def adjust_supervision_def Let_def RecommendRoles_def)

lemma no_restricted_no_change:
  assumes "\<forall>(r, t, e)\<in>set elos. t \<noteq> TierRestricted"
  shows "fst (eloAdjustments (RecommendRoles label sg) elos label sg) = RecommendRoles label sg"
proof -
  have "tier_count TierRestricted elos = 0"
    using assms by (auto simp: tier_count_def count_where_zero)
  then have sup: "adjust_supervision elos label roles = (roles, [])" for roles
    by (simp add: adjust_supervision_def)
  have trim: "adjust_trim elos label (RecommendRoles label sg) = (RecommendRoles label sg, [])"
    using trim_never_applies [of elos label sg] by (simp add: sup)
  have "adjust_security elos sg roles = (roles, [])" for roles
    using assms by (auto simp: adjust_security_def dest!: map_of_SomeD split: option.splits tier.splits prod.splits)
  then show ?thesis by (simp add: eloAdjustments_def sup trim)
qed

lemma tier_not_restricted: "meets (rows_all score_row) (TierForRole role repo) (\<lambda>x. fst x \<noteq> TierRestricted)"
  unfolding TierForRole_def
  by (rule meets_bind [OF meets_stable [OF rows_elo_io]])
    (auto intro!: meets_if meets_ret meets_gets simp: rows_all_def score_row_def tier_floor
      split: option.splits dest!: find_Some_in)

lemma update_entries:
  "x \<in> set (AList.update k v al) \<Longrightarrow> x = (k, v) \<or> x \<in> set al"
  by (induction al) (auto split: if_splits)

lemma query_elos_tiers:
  assumes "\<forall>(r, t, e)\<in>set acc. t \<noteq> TierRestricted"
  shows "meets (rows_all score_row) (query_elos repo roles acc) (\<lambda>elos. \<forall>(r, t, e)\<in>set elos. t \<noteq> TierRestricted)"
  using assms
proof (induction roles arbitrary: acc)
  case (Cons r rs)
  show ?case unfolding query_elos.simps
  proof (rule meets_bind [OF tier_not_restricted])
    fix x :: "tier \<times> real" assume "fst x \<noteq> TierRestricted"
    then show "meets (rows_all score_row) (query_elos repo rs (AList.update r x acc))
        (\<lambda>elos. \<forall>(r, t, e)\<in>set elos. t \<noteq> TierRestricted)"
      using Cons.prems by (intro Cons.IH) (auto dest!: update_entries)
  qed
qed (simp add: meets_ret)

lemma RecommendTeam_fields:
  fixes parse_plan has_elo repo plan override now s
  defines "f \<equiv> fst (run_state (RecommendTeam parse_plan has_elo repo plan override now) s)"
  shows "\<exists>elos. tf_roles f = fst (eloAdjustments (RecommendRoles (tf_label f) (tf_signals f)) elos (tf_label f) (tf_signals f)) \<and>
    tf_size f = int (length (tf_roles f)) + 1 \<and>
    tf_label f = FormationComplexityLabel (ComputeComplexityScore (tf_signals f)) \<and>
    (rows_all score_row s \<longrightarrow> (\<forall>(r, t, e)\<in>set elos. t \<noteq> TierRestricted))"
proof -
  let ?sg = "case override of Some x \<Rightarrow> x | None \<Rightarrow> ExtractSignalsFromPlan parse_plan plan"
  let ?label = "FormationComplexityLabel (ComputeComplexityScore ?sg)"
  let ?m = "if has_elo then query_elos repo (RecommendRoles ?label ?sg) [] else ret []"
  let ?elos = "fst (run_state ?m s)"
  have "rows_all score_row s \<longrightarrow> (\<forall>(r, t, e)\<in>set ?elos. t \<noteq> TierRestricted)"
    using meetsD [OF query_elos_tiers [of "[]" repo "RecommendRoles ?label ?sg"], of s] by auto
  then show ?thesis
    unfolding f_def RecommendTeam_def Let_def
    by (intro exI [of _ ?elos]) (simp add: split_beta)
qed

lemma adjusted_size:
  "1 \<le> length (fst (eloAdjustments (RecommendRoles label sg) elos label sg)) \<and>
   length (fst (eloAdjustments (RecommendRoles label sg) elos label sg)) \<le> 8"
proof -
  let ?r1 = "fst (adjust_supervision elos label (RecommendRoles label sg))"
  have r1: "1 \<le> length ?r1" "length ?r1 \<le> 8" "length ?r1 = 8 \<longrightarrow> ''architect'' \<in> set ?r1"
    by (auto simp: adjust_supervision_def Let_def RecommendRoles_def)
  have sec: "length (fst (adjust_security elos sg ?r1)) \<le> Suc (length ?r1)"
    "length ?r1 \<le> length (fst (adjust_security elos sg ?r1))"
    "''architect'' \<in> set ?r1 \<Longrightarrow> fst (adjust_security elos sg ?r1) = ?r1"
    by (auto simp: adjust_security_def split: option.splits prod.splits tier.splits)
  have adj: "fst (eloAdjustments (RecommendRoles label sg) elos label sg) = fst (adjust_security elos sg ?r1)"
    using trim_never_applies [of elos label sg] by (simp add: eloAdjustments_def split_beta)
  show ?thesis unfolding adj
  proof (cases "''architect'' \<in> set ?r1")
    case True
    then show "1 \<le> length (fst (adjust_security elos sg ?r1)) \<and> length (fst (adjust_security elos sg ?r1)) \<le> 8"
      unfolding sec(3) [OF True] using r1(1,2) by blast
  next
    case False
    then have "length ?r1 \<noteq> 8" using r1(3) by blast
    then show "1 \<le> length (fst (adjust_security elos sg ?r1)) \<and> length (fst (adjust_security elos sg ?r1)) \<le> 8"
      using r1(1,2) sec(1,2) by linarith
  qed
qed

text \<open>
  A recommended team, including the orchestrator, has between two and nine members, for any
  plan, any override and any role ELO table.
\<close>

lemma team_size_bounds:
  "2 \<le> tf_size (fst (run_state (RecommendTeam parse_plan has_elo repo plan override now) s)) \<and>
   tf_size (fst (run_state (RecommendTeam parse_plan has_elo repo plan override now) s)) \<le> 9"
  using RecommendTeam_fields [of parse_plan has_elo repo plan override now s] adjusted_size by fastforce

text \<open>
  With any role ELO table the service can reach, the adjustments by ELO never change the
  recommended roles: no role is restricted, and the one rule for expert roles cannot apply.
\<close>

lemma elo_never_changes_the_team:
  assumes "elo_reach s"
  shows "tf_roles (fst (run_state (RecommendTeam parse_plan has_elo repo plan override now) s)) =
    RecommendRoles (tf_label (fst (run_state (RecommendTeam parse_plan has_elo repo plan override now) s)))
      (tf_signals (fst (run_state (RecommendTeam parse_plan has_elo repo plan override now) s)))"
  using RecommendTeam_fields [of parse_plan has_elo repo plan override now s] reach_score_rows [OF assms]
    no_restricted_no_change by metis

section \<open>File extensions\<close>

definition plain :: "string \<Rightarrow> bool" where
  "plain b \<longleftrightarrow> CHR ''.'' \<notin> set b \<and> CHR ''/'' \<notin> set b"

lemma ext_loop_plain:
  "plain b \<Longrightarrow> file_ext_loop (p @ b @ c) (length p + length b) = file_ext_loop (p @ b @ c) (length p)"
proof (induction b arbitrary: c rule: rev_induct)
  case (snoc x b)
  have "(p @ (b @ [x]) @ c) ! (length p + length b) = x" by (simp add: nth_append)
  moreover have "x \<noteq> CHR ''.''" "x \<noteq> CHR ''/''" "plain b" using snoc.prems by (auto simp: plain_def)
  ultimately show ?case using snoc.IH [of "x # c"] by simp
qed simp

lemma ext_plain: "plain b \<Longrightarrow> formationFileExtension (p @ b) = file_ext_loop (p @ b) (length p)"
  using ext_loop_plain [of b p "[]"] by (simp add: formationFileExtension_def)

text \<open>
  The extension of a path is the part from its last dot, if that dot comes after the last
  slash, and empty otherwise.
\<close>

lemma file_extension_spec:
  assumes "plain b"
  shows "formationFileExtension b = [] \<and>
    formationFileExtension (p @ CHR ''/'' # b) = [] \<and>
    formationFileExtension (p @ CHR ''.'' # b) = CHR ''.'' # b"
  using ext_plain [OF assms, of "[]"] ext_plain [OF assms, of "p @ [CHR ''/'']"]
    ext_plain [OF assms, of "p @ [CHR ''.'']"]
  by (simp add: nth_append)

section \<open>Witnesses\<close>

end
