(* ===== verification/SwarmSystem.thy ===== *)
theory SwarmSystem
  imports Memory TaskCorrect StuckTasks RoleELOCorrect AgentELO Janitor TeamFormation
begin

text \<open>
  The swarm controller as one transition system.  Its state is the database and Redis state together
  with the breakers of the self-heal service and the role ELO tables; a step is one call of a service
  method or one tick of a background loop, under any fault script.  The interface \<open>service_store\<close>
  adds the statements of the smaller services to that of the task manager, \<open>heal_store\<close> the recovery
  statement of the self-heal service.
\<close>

locale service_store = task_store R for R :: "swarm \<Rightarrow> swarm \<Rightarrow> bool" +
  assumes st_feedback: "stmt_stable R (sql_feedback aid e avg)"
    and st_tasks_done: "stmt_stable R (sql_tasks_done aid)"
    and st_set_tier: "stmt_stable R (sql_set_tier aid t)"
    and st_kill: "stmt_stable R (sql_kill_idle_teams cutoff)"
    and st_recycle: "stmt_stable R (sql_recycle_agents cutoff)"
    and st_upsert_mtm: "stmt_stable R (sql_upsert_mtm m)"
    and st_upsert_insight: "stmt_stable R (sql_upsert_insight c)"
    and st_prune_mtm: "stmt_stable R (sql_prune_mtm cutoff)"
    and st_prune_insights: "stmt_stable R (sql_prune_insights cutoff)"
    and st_formation: "stmt_stable R (sql_store_formation tid data)"
    and R_stm: "R s (s\<lparr>stm_keys := ks\<rparr>)"
begin

lemmas service_calls = task_calls st_feedback st_tasks_done st_set_tier st_kill st_recycle
  st_upsert_mtm st_upsert_insight st_prune_mtm st_prune_insights st_formation R_stm

lemma stable_RecordFeedback: "stable R (RecordFeedback aid rating)"
  unfolding RecordFeedback_def by (intro service_calls)

lemma stable_IncrementTasksDone: "stable R (IncrementTasksDone aid)"
  unfolding IncrementTasksDone_def by (intro service_calls)

lemma stable_reviewTiers: "stable R reviewTiers"
  unfolding reviewTiers_def review_agent_def Let_def by (intro service_calls)

lemma stable_StoreMTM: "stable R (StoreMTM m i now)"
  unfolding StoreMTM_def Let_def by (intro service_calls)

lemma stable_StoreInsight: "stable R (StoreConsensusInsight c i now)"
  unfolding StoreConsensusInsight_def Let_def by (intro service_calls)

lemma stable_Extract: "stable R (ExtractAndStoreInsights ev ids now)"
  unfolding ExtractAndStoreInsights_def store_opt_def Let_def
  by (intro service_calls stable_StoreInsight)

lemma stable_StoreFormation: "stable R (StoreFormation to_json tid f)"
  unfolding StoreFormation_def by (intro service_calls)

lemma stable_runCycle: "stable R (runCycle us j now)"
  unfolding runCycle_def killIdleTeams_def clearStaleHeartbeats_def clear_heartbeat_def pruneStaleMTM_def
    PruneStaleMTM_def pruneStaleInsights_def PruneStaleInsights_def recycleOfflineAgents_def
    cleanOrphanedSTM_def clean_key_def
  by (intro service_calls)

lemmas service_ops = stable_RecordFeedback stable_IncrementTasksDone stable_reviewTiers stable_StoreMTM
  stable_StoreInsight stable_Extract stable_StoreFormation stable_runCycle

end

section \<open>Instances of the interface\<close>

lemma wf_view:
  "(\<And>s n t. st s = Some (n, t) \<Longrightarrow> tasks t = tasks s \<and> teams t = teams s \<and> agents t = agents s \<and>
      diffs t = diffs s \<and> comments t = comments s \<and> logs t = logs s) \<Longrightarrow> stmt_stable (keeps db_wf) st"
  by (auto simp: stmt_stable_def keeps_def wf_defs)

lemma wf_memory:
  "stmt_stable (keeps db_wf) (sql_upsert_mtm m)" "stmt_stable (keeps db_wf) (sql_upsert_insight c)"
  "stmt_stable (keeps db_wf) (sql_prune_mtm cutoff)" "stmt_stable (keeps db_wf) (sql_prune_insights cutoff)"
  by (rule wf_view, auto simp: sql_upsert_mtm_def sql_upsert_insight_def sql_prune_mtm_def
      sql_prune_insights_def split: if_splits)+

lemma wf_kill: "stmt_stable (keeps db_wf) (sql_kill_idle_teams cutoff)"
proof (rule stmt_stableI)
  fix s n t
  assume "sql_kill_idle_teams cutoff s = Some (n, t)"
  then show "keeps db_wf s t"
    unfolding sql_kill_idle_teams_def by (rule stmt_stableD [OF wf_teams, rotated -1]) simp_all
qed

interpretation service_wf: service_store "keeps db_wf"
  by unfold_locales
    (simp_all add: wf_memory wf_kill wf_agents wf_tasks wf_delete_agents sql_feedback_def
      sql_tasks_done_def sql_set_tier_def sql_recycle_agents_def sql_store_formation_def
      keeps_def wf_defs)

lemma retries_services:
  "stmt_stable (keeps retries_bounded) (sql_upsert_mtm m)"
  "stmt_stable (keeps retries_bounded) (sql_upsert_insight c)"
  "stmt_stable (keeps retries_bounded) (sql_prune_mtm cutoff)"
  "stmt_stable (keeps retries_bounded) (sql_prune_insights cutoff)"
  "stmt_stable (keeps retries_bounded) (sql_kill_idle_teams cutoff)"
  "stmt_stable (keeps retries_bounded) (sql_recycle_agents cutoff)"
  by (rule retries_same_tasks, auto simp: sql_upsert_mtm_def sql_upsert_insight_def sql_prune_mtm_def
      sql_prune_insights_def sql_kill_idle_teams_def stmt_teams_def sql_recycle_agents_def
      delete_agents_def Let_def split: if_splits)+

interpretation service_retries: service_store "keeps retries_bounded"
  by unfold_locales
    (simp_all add: retries_services retries_stmt_agents retries_tasks sql_feedback_def sql_tasks_done_def
      sql_set_tier_def sql_store_formation_def keeps_def retries_bounded_def)

lemma memory_view:
  "(\<And>s n t. st s = Some (n, t) \<Longrightarrow> mtm t = mtm s \<and> insights t = insights s) \<Longrightarrow> stmt_stable (keeps memory_ok) st"
  by (auto simp: stmt_stable_def keeps_def memory_ok_def)

lemma memory_shapes:
  "stmt_stable (keeps memory_ok) (stmt_tasks p f)" "stmt_stable (keeps memory_ok) (stmt_teams q g)"
  "stmt_stable (keeps memory_ok) (stmt_agents r h)" "stmt_stable (keeps memory_ok) (delete_agents r)"
  "stmt_stable (keeps memory_ok) (delete_tasks p)"
  by (rule memory_view, auto simp: stmt_tasks_def stmt_teams_def stmt_agents_def delete_agents_def
      delete_tasks_def Let_def)+

lemma memory_teams:
  "stmt_stable (keeps memory_ok) (sql_insert_team i name now)"
  "stmt_stable (keeps memory_ok) (sql_ensure_team i name now)"
  "stmt_stable (keeps memory_ok) (sql_upsert_agent aid role team ast host ver now)"
  "stmt_stable (keeps memory_ok) sql_delete_empty_teams"
  "stmt_stable (keeps memory_ok) (sql_kill_idle_teams cutoff)"
  by (rule memory_view, auto simp: sql_insert_team_def sql_ensure_team_def sql_upsert_agent_def
      stmt_agents_def sql_delete_empty_teams_def delete_teams_def Let_def sql_kill_idle_teams_def
      stmt_teams_def split: if_splits)+

lemma memory_tasks:
  "stmt_stable (keeps memory_ok) (sql_insert_task t)"
  "stmt_stable (keeps memory_ok) (sql_insert_diff d)"
  "stmt_stable (keeps memory_ok) (sql_insert_comment c)"
  "stmt_stable (keeps memory_ok) (sql_insert_log l)"
  "stmt_stable (keeps memory_ok) (sql_assign_task tid team timeout)"
  by (rule memory_view, auto simp: sql_insert_task_def sql_insert_diff_def sql_insert_comment_def
      sql_insert_log_def sql_assign_task_def stmt_tasks_def split: if_splits)+

interpretation service_memory: service_store "keeps memory_ok"
  by unfold_locales
    (simp_all add: memory_shapes memory_teams memory_tasks memory_upserts memory_prunes sql_team_status_def
      sql_team_agents_busy_def sql_team_agents_offline_def sql_append_agent_def sql_task_status_def
      sql_delete_task_def sql_set_plan_def sql_complete_task_def sql_heartbeat_def sql_rate_task_def
      sql_retry_task_def sql_end_task_def sql_agent_offline_def sql_delete_stale_agents_def
      sql_feedback_def sql_tasks_done_def sql_set_tier_def sql_recycle_agents_def
      sql_store_formation_def keeps_def memory_ok_def)

section \<open>The self-heal service on the shared state\<close>

definition on_swarm :: "(swarm \<Rightarrow> swarm \<Rightarrow> bool) \<Rightarrow> selfheal \<Rightarrow> selfheal \<Rightarrow> bool" where
  "on_swarm R S T \<longleftrightarrow> R (sh_swarm S) (sh_swarm T)"

sublocale swarm_store \<subseteq> heal: state_preorder "on_swarm R"
  by unfold_locales (auto simp: on_swarm_def R_refl intro: R_trans)

context swarm_store
begin

lemma stable_lift: "stable R m \<Longrightarrow> stable (on_swarm R) (lift m)"
  by (rule stableI) (auto simp: on_swarm_def stable_def split_beta)

lemma stable_own: "(\<And>S. sh_swarm (f S) = sh_swarm S) \<Longrightarrow> stable (on_swarm R) (modify f)"
  by (rule stable_modify) (simp add: on_swarm_def R_refl)

lemmas heal_calls = heal.stable_combinators stable_lift stable_calls stable_own

lemma on_recordEvent: "stable (on_swarm R) (recordEvent ty p task sev now)"
  unfolding recordEvent_def by (intro heal_calls) simp

lemma on_persistCircuit: "stable (on_swarm R) (persistCircuit p)"
  unfolding persistCircuit_def by (intro heal_calls) simp

lemma stable_transitionCircuit: "stable (on_swarm R) (transitionCircuit p st now)"
  unfolding transitionCircuit_def
  by (intro heal_calls on_recordEvent on_persistCircuit) (simp_all add: put_circuit_def)

lemma stable_RecordProviderOutcome: "stable (on_swarm R) (RecordProviderOutcome rp now)"
  unfolding RecordProviderOutcome_def Let_def
  by (intro heal_calls on_recordEvent on_persistCircuit stable_transitionCircuit)
    (simp_all add: put_circuit_def)

lemma stable_probe: "stable (on_swarm R) (probeHalfOpenCircuits now)"
  unfolding probeHalfOpenCircuits_def by (intro heal_calls stable_transitionCircuit)

lemma stable_ResetCircuit: "stable (on_swarm R) (ResetCircuit p now)"
  unfolding ResetCircuit_def
  by (intro heal_calls on_recordEvent) (simp_all add: put_circuit_def split: option.splits)

lemma stable_hydrate: "stable (on_swarm R) hydrateCircuits"
  unfolding hydrateCircuits_def by (intro heal_calls) (simp add: put_circuit_def)

lemma stable_events: "stable (on_swarm R) (gcOldEvents now)" "stable (on_swarm R) (ResolveEvent eid now)"
  unfolding gcOldEvents_def ResolveEvent_def by (intro heal_calls; simp)+

lemmas heal_ops = stable_RecordProviderOutcome stable_probe stable_ResetCircuit stable_hydrate stable_events

end

locale heal_store = swarm_store R for R :: "swarm \<Rightarrow> swarm \<Rightarrow> bool" +
  assumes st_recover: "stmt_stable R (sql_recover_task tid)"
    and st_give_up: "stmt_stable R (sql_end_task tid StatusTimedOut reason now)"
begin

lemma stable_heal_task: "stable (on_swarm R) (heal_task now t)"
  unfolding heal_task_def recoverStuckTask_def
  by (intro heal_calls on_recordEvent st_recover st_give_up)

lemma stable_detect: "stable (on_swarm R) (detectStuckTasks sc now)"
proof -
  have "stable (on_swarm R) (heal_rows sc now ts)" for ts
    by (induction ts) (auto intro!: heal.stable_ret heal.stable_bind stable_heal_task)
  then show ?thesis unfolding detectStuckTasks_def by (intro heal_calls)
qed

end

interpretation heal_wf: heal_store "keeps db_wf"
  by unfold_locales (simp_all add: sql_recover_task_def sql_end_task_def wf_tasks recovered_def)

interpretation heal_memory: heal_store "keeps memory_ok"
  by unfold_locales (simp_all add: sql_recover_task_def sql_end_task_def memory_shapes)

definition stream_view :: "swarm \<Rightarrow> stream_msg list \<times> stream_msg list" where
  "stream_view s = (pending_new s, pending_pel s)"

interpretation stream_store: swarm_store "same stream_view"
  by (rule swarm_store_same) (simp add: book_free_def stream_view_def)

interpretation heal_streams: heal_store "same stream_view"
  by unfold_locales
    (auto simp: stmt_stable_def same_def stream_view_def sql_recover_task_def sql_end_task_def stmt_tasks_def)

section \<open>The controller\<close>

datatype swarm_cmd =
    CmdCreateTeam string uuid
  | CmdScaleTeam uuid int
  | CmdDisbandTeam uuid
  | CmdRegisterAgent "uuid \<Rightarrow> string" uuid string uuid string string
  | CmdCreateTask "uuid \<Rightarrow> string" string string string uuid uuid
  | CmdUpdateStatus uuid task_status
  | CmdDeleteTask uuid
  | CmdSetPlan uuid "string option"
  | CmdCompleteTask uuid
  | CmdFailTask uuid string
  | CmdRetryTask uuid
  | CmdAddDiff uuid task_diff uuid
  | CmdAddDiffComment uuid diff_comment uuid
  | CmdHeartbeat uuid
  | CmdRateTask uuid int string
  | CmdContribution task_log
  | CmdAssignTask uuid uuid
  | CmdAssignLoop
  | CmdCheckHeartbeats
  | CmdReconcile
  | CmdReapStale
  | CmdRefreshMetrics
  | CmdFeedback uuid int
  | CmdTasksDone uuid
  | CmdReviewTiers
  | CmdStoreMTM mtm_insight uuid
  | CmdStoreInsight consensus_insight uuid
  | CmdExtractInsights consensus_event "nat \<Rightarrow> uuid"
  | CmdStoreFormation "team_formation \<Rightarrow> string option" uuid team_formation
  | CmdJanitor "uuid \<Rightarrow> string" janitor

fun swarm_call :: "swarm_cmd \<Rightarrow> time \<Rightarrow> unit prog" where
  "swarm_call (CmdCreateTeam name i) now = void (CreateTeam name i now)"
| "swarm_call (CmdScaleTeam tid n) now = void (ScaleTeam tid n)"
| "swarm_call (CmdDisbandTeam tid) now = void (DisbandTeam tid)"
| "swarm_call (CmdRegisterAgent us aid role tid host ver) now = void (RegisterAgent us aid role tid host ver now)"
| "swarm_call (CmdCreateTask us repo title desc by i) now = void (CreateTask us repo title desc by i now)"
| "swarm_call (CmdUpdateStatus tid st) now = void (UpdateStatus tid st)"
| "swarm_call (CmdDeleteTask tid) now = void (DeleteTask tid)"
| "swarm_call (CmdSetPlan tid plan) now = void (SetPlan tid plan)"
| "swarm_call (CmdCompleteTask tid) now = void (CompleteTask tid now)"
| "swarm_call (CmdFailTask tid reason) now = void (FailTask tid reason now)"
| "swarm_call (CmdRetryTask tid) now = void (RetryTask tid)"
| "swarm_call (CmdAddDiff tid d i) now = void (AddDiff tid d i now)"
| "swarm_call (CmdAddDiffComment did c i) now = void (AddDiffComment did c i now)"
| "swarm_call (CmdHeartbeat aid) now = void (Heartbeat aid now)"
| "swarm_call (CmdRateTask tid rating text) now = void (RateTask tid rating text)"
| "swarm_call (CmdContribution l) now = void (RecordAgentContribution l)"
| "swarm_call (CmdAssignTask tid team) now = void (assignTask tid team now)"
| "swarm_call CmdAssignLoop now = assignLoop_tick now"
| "swarm_call CmdCheckHeartbeats now = checkHeartbeats now"
| "swarm_call CmdReconcile now = reconcileOnStartup now"
| "swarm_call CmdReapStale now = reapStaleRows now"
| "swarm_call CmdRefreshMetrics now = refreshMetrics"
| "swarm_call (CmdFeedback aid rating) now = void (RecordFeedback aid rating)"
| "swarm_call (CmdTasksDone aid) now = void (IncrementTasksDone aid)"
| "swarm_call CmdReviewTiers now = reviewTiers"
| "swarm_call (CmdStoreMTM m i) now = void (StoreMTM m i now)"
| "swarm_call (CmdStoreInsight c i) now = void (StoreConsensusInsight c i now)"
| "swarm_call (CmdExtractInsights ev ids) now = void (ExtractAndStoreInsights ev ids now)"
| "swarm_call (CmdStoreFormation to_json tid f) now = void (StoreFormation to_json tid f)"
| "swarm_call (CmdJanitor us j) now = void (runCycle us j now)"

context service_store
begin

lemma stable_swarm_call: "stable R (swarm_call cmd now)"
  by (cases cmd)
    (simp_all only: swarm_call.simps, (intro stable_void team_ops task_ops loop_ops service_ops)+)

end

section \<open>The controller\<close>

record controller =
  ctl_heal :: selfheal
  ctl_elo :: elo_db

datatype heal_cmd =
    HealOutcome outcome_report
  | HealCycle
  | HealReset string
  | HealHydrate
  | HealResolve nat

fun heal_call :: "bool \<Rightarrow> heal_cmd \<Rightarrow> time \<Rightarrow> unit sprog" where
  "heal_call sc (HealOutcome rp) now = RecordProviderOutcome rp now"
| "heal_call sc HealCycle now = cycle sc now"
| "heal_call sc (HealReset p) now = void (ResetCircuit p now)"
| "heal_call sc HealHydrate now = hydrateCircuits"
| "heal_call sc (HealResolve i) now = void (ResolveEvent i now)"

text \<open>
  The steps.  \<open>sc\<close> is the behaviour of the driver after a failed scan, fixed for a run.  A fault
  script may be replaced at any time: outages begin and end on their own.
\<close>

inductive ctl_step :: "bool \<Rightarrow> controller \<Rightarrow> controller \<Rightarrow> bool" for sc where
  swarm: "ctl_step sc c (c\<lparr>ctl_heal := snd (run_state (lift (swarm_call cmd now)) (ctl_heal c))\<rparr>)"
| heal: "ctl_step sc c (c\<lparr>ctl_heal := snd (run_state (heal_call sc cmd now) (ctl_heal c))\<rparr>)"
| elo: "elo_step (ctl_elo c) e \<Longrightarrow> ctl_step sc c (c\<lparr>ctl_elo := e\<rparr>)"
| elo_outage: "ctl_step sc c (c\<lparr>ctl_elo := (ctl_elo c)\<lparr>elo_faults := fs\<rparr>\<rparr>)"
| outage: "ctl_step sc c (c\<lparr>ctl_heal := (ctl_heal c)\<lparr>sh_swarm := (sh_swarm (ctl_heal c))\<lparr>faults := fs\<rparr>\<rparr>\<rparr>)"

definition init_controller :: "repo_row list \<Rightarrow> controller" where
  "init_controller rs = \<lparr>ctl_heal = init_selfheal\<lparr>sh_swarm := init_swarm\<lparr>repos := rs\<rparr>\<rparr>,
     ctl_elo = \<lparr>role_rows = [], elo_hist = [], elo_faults = []\<rparr>\<rparr>"

inductive ctl_reach :: "bool \<Rightarrow> controller \<Rightarrow> bool" for sc where
  init: "ctl_reach sc (init_controller rs)"
| step: "ctl_reach sc c \<Longrightarrow> ctl_step sc c d \<Longrightarrow> ctl_reach sc d"

definition ctl_ok :: "controller \<Rightarrow> bool" where
  "ctl_ok c \<longleftrightarrow> db_wf (sh_swarm (ctl_heal c)) \<and> retries_bounded (sh_swarm (ctl_heal c)) \<and>
     memory_ok (sh_swarm (ctl_heal c)) \<and> breakers_ok (ctl_heal c) \<and> rows_all score_row (ctl_elo c)"

definition heal_ok :: "selfheal \<Rightarrow> bool" where
  "heal_ok S \<longleftrightarrow> db_wf (sh_swarm S) \<and> retries_bounded (sh_swarm S) \<and> memory_ok (sh_swarm S) \<and> breakers_ok S"

lemma swarm_call_ok: "stable (keeps heal_ok) (lift (swarm_call cmd now))"
  using service_wf.stable_swarm_call [of cmd now] service_retries.stable_swarm_call [of cmd now]
    service_memory.stable_swarm_call [of cmd now] ok_lift [of "swarm_call cmd now"]
  by (auto simp: heal_ok_def stable_def keeps_def split_beta)

lemma keeps_heal_ok:
  assumes "stable (on_swarm (keeps db_wf)) m" and "stable (on_swarm (keeps memory_ok)) m"
    and "stable (keeps breakers_ok) m"
    and "\<And>S. db_wf (sh_swarm S) \<Longrightarrow> retries_bounded (sh_swarm S) \<Longrightarrow> retries_bounded (sh_swarm (snd (run_state m S)))"
  shows "stable (keeps heal_ok) m"
  using assms by (auto simp: heal_ok_def stable_def keeps_def on_swarm_def)

lemma keeps_heal_ok':
  assumes "stable (on_swarm (keeps db_wf)) m" and "stable (on_swarm (keeps memory_ok)) m"
    and "stable (keeps breakers_ok) m" and "stable (on_swarm (keeps retries_bounded)) m"
  shows "stable (keeps heal_ok) m"
  using assms(1-3) by (rule keeps_heal_ok) (use assms(4) in \<open>auto simp: stable_def keeps_def on_swarm_def\<close>)

lemma detect_ok: "stable (keeps heal_ok) (detectStuckTasks sc now)"
  by (rule keeps_heal_ok [OF heal_wf.stable_detect heal_memory.stable_detect ok_detect detect_retries])
    (simp_all add: wf_defs)

lemma probe_ok: "stable (keeps heal_ok) (probeHalfOpenCircuits now)"
  by (rule keeps_heal_ok' [OF wf_store.stable_probe memo.stable_probe ok_probe
      retry_teams.stable_probe])

lemma gc_ok: "stable (keeps heal_ok) (gcOldEvents now)"
  by (rule keeps_heal_ok' [OF wf_store.stable_events(1) memo.stable_events(1) ok_gc
      retry_teams.stable_events(1)])

lemma heal_call_ok: "stable (keeps heal_ok) (heal_call sc cmd now)"
proof (cases cmd)
  case HealCycle
  then show ?thesis
    by (simp add: cycle_def keeping.stable_bind detect_ok probe_ok gc_ok)
next
  case (HealOutcome rp)
  then show ?thesis
    by (simp add: keeps_heal_ok' wf_store.heal_ops memo.heal_ops retry_teams.heal_ops ok_outcome)
next
  case (HealReset p)
  then show ?thesis
    by (simp add: keeping.stable_void keeps_heal_ok' wf_store.heal_ops memo.heal_ops
        retry_teams.heal_ops ok_reset)
next
  case HealHydrate
  then show ?thesis
    by (simp add: keeps_heal_ok' wf_store.heal_ops memo.heal_ops retry_teams.heal_ops ok_hydrate)
next
  case (HealResolve i)
  then show ?thesis
    by (simp add: keeping.stable_void keeps_heal_ok' wf_store.heal_ops memo.heal_ops
        retry_teams.heal_ops ok_resolve)
qed

lemma ctl_ok_split: "ctl_ok c \<longleftrightarrow> heal_ok (ctl_heal c) \<and> rows_all score_row (ctl_elo c)"
  by (simp add: ctl_ok_def heal_ok_def conj_ac)

lemma elo_step_score: "elo_step s t \<Longrightarrow> rows_all score_row s \<Longrightarrow> rows_all score_row t"
  using score_inv.rows_ApplyDecay score_inv.rows_RecordRoleOutcome meets_keeps [OF score_inv.rows_GetRoleELO]
  by (elim elo_step_cases) (auto simp: stable_def keeps_def)

lemma heal_ok_faults: "heal_ok S \<Longrightarrow> heal_ok (S\<lparr>sh_swarm := (sh_swarm S)\<lparr>faults := fs\<rparr>\<rparr>)"
  by (simp add: heal_ok_def wf_defs retries_bounded_def memory_ok_def breakers_ok_def)

lemma score_faults: "rows_all score_row e \<Longrightarrow> rows_all score_row (e\<lparr>elo_faults := fs\<rparr>)"
  by (simp add: rows_all_def)

lemma ctl_step_ok:
  assumes "ctl_step sc c d" and "ctl_ok c"
  shows "ctl_ok d"
  using assms(1)
proof (cases rule: ctl_step.cases)
  case (swarm cmd now)
  have "heal_ok (snd (run_state (lift (swarm_call cmd now)) (ctl_heal c)))"
    by (rule keepsD [OF stableD [OF swarm_call_ok]]) (use assms(2) in \<open>simp add: ctl_ok_split\<close>)
  with assms(2) show ?thesis unfolding swarm by (simp add: ctl_ok_split)
next
  case (heal cmd now)
  have "heal_ok (snd (run_state (heal_call sc cmd now) (ctl_heal c)))"
    by (rule keepsD [OF stableD [OF heal_call_ok]]) (use assms(2) in \<open>simp add: ctl_ok_split\<close>)
  with assms(2) show ?thesis unfolding heal by (simp add: ctl_ok_split)
qed (use assms(2) in \<open>simp_all add: ctl_ok_split heal_ok_faults elo_step_score score_faults\<close>)

lemma init_ok: "ctl_ok (init_controller rs)"
  by (simp add: ctl_ok_def init_controller_def init_selfheal_def init_swarm_def wf_defs retries_bounded_def
      memory_ok_def breakers_ok_def rows_all_def)

end
