(* ===== verification/APICorrect.thy ===== *)
theory APICorrect
  imports UserAPI
begin

text \<open>
  What the HTTP endpoints of the swarm do: requests without a valid token are rejected, malformed
  requests change nothing, decisions of users and their effect on tasks and teams, query parameters.
\<close>

section \<open>Shapes\<close>

lemma run_with_id [simp]:
  "run_state (with_id x f) s = (case parse_uuid x of None \<Rightarrow> (Fail 400, s) | Some i \<Rightarrow> run_state (f i) s)"
  by (simp add: with_id_def split: option.splits)

lemma run_with_body [simp]:
  "run_state (with_body b f) s = (case b of None \<Rightarrow> (Fail 400, s) | Some x \<Rightarrow> run_state (f x) s)"
  by (simp add: with_body_def split: option.splits)

lemma run_or_fail [simp]:
  "run_state (or_fail n m f) s = (case run_state m s of
     (Inl _, t) \<Rightarrow> (Fail n, t) | (Inr x, t) \<Rightarrow> run_state (f x) t)"
  by (simp add: or_fail_def split: prod.splits sum.splits)

lemma run_code [simp]:
  "run_state (code m) s = (case run_state m s of (r, t) \<Rightarrow>
     (case r of Fail n \<Rightarrow> Fail n | Reply n _ \<Rightarrow> Reply n [], t))"
  by (simp add: code_def split: prod.splits)

section \<open>Decimal parameters\<close>

lemma digits_value_snoc: "digits_value (ds @ [c]) = 10 * digits_value ds + (of_char c - 48)"
  by (simp add: digits_value_def)

lemma of_char_digit: "n < 10 \<Longrightarrow> of_char (char_of (48 + n) :: char) = (48 + int n :: int)"
proof -
  assume "n < 10"
  have "of_char (char_of (48 + n) :: char) = int (of_char (char_of (48 + n) :: char))"
    by (rule of_nat_of_char [symmetric])
  also have "\<dots> = 48 + int n" using \<open>n < 10\<close> by (simp add: of_char_of)
  finally show ?thesis .
qed

lemma is_digit_char: "n < 10 \<Longrightarrow> is_digit (char_of (48 + n))" for n :: nat
  by (simp add: is_digit_def less_eq_char_def)

lemma show_nat_digits: "show_nat n \<noteq> [] \<and> (\<forall>c\<in>set (show_nat n). is_digit c) \<and> digits_value (show_nat n) = int n"
proof (induction n rule: show_nat.induct)
  case (1 n)
  show ?case
  proof (cases "n < 10")
    case True
    then show ?thesis
      by (subst (1 2 3) show_nat.simps) (simp add: is_digit_char digits_value_def of_char_digit)
  next
    case False
    with 1 have "digits_value (show_nat (n div 10)) = int (n div 10)" "\<forall>c\<in>set (show_nat (n div 10)). is_digit c" by auto
    moreover have "int n = 10 * int (n div 10) + int (n mod 10)"
      by (metis mult_div_mod_eq of_nat_add of_nat_mult of_nat_numeral)
    ultimately show ?thesis using False
      by (subst (1 2 3) show_nat.simps) (simp add: is_digit_char digits_value_snoc of_char_digit)
  qed
qed

lemma hd_digit: "ds \<noteq> [] \<Longrightarrow> \<forall>c\<in>set ds. is_digit c \<Longrightarrow> hd ds \<noteq> CHR ''-'' \<and> hd ds \<noteq> CHR ''+''"
  using hd_in_set [of ds] by (cases ds) (auto simp: is_digit_def less_eq_char_def)

lemma atoi_show_int: "- (2 ^ 63) \<le> n \<Longrightarrow> n < 2 ^ 63 \<Longrightarrow> atoi (show_int n) = Some n"
proof -
  assume range: "- (2 ^ 63) \<le> n" "n < 2 ^ 63"
  note digits = show_nat_digits [of "nat (- n)"] show_nat_digits [of "nat n"]
  show ?thesis
  proof (cases "n < 0")
    case True
    then show ?thesis using range digits(1) by (auto simp: atoi_def show_int_def Let_def)
  next
    case False
    then show ?thesis using range digits(2) hd_digit [of "show_nat (nat n)"]
      by (auto simp: atoi_def show_int_def Let_def)
  qed
qed

text \<open>
  Query parameters that are numbers.  A parameter written in decimal is read back exactly when it
  is not negative and fits 64 bits; for every text the value used is the default or a number in that
  range, so a page limit or offset can neither be negative nor overflow.
\<close>

lemma parseIntParam_correct:
  "parseIntParam (show_int n) d = (if 0 \<le> n \<and> n < 2 ^ 63 then n else d) \<and>
   (parseIntParam txt d = d \<or> 0 \<le> parseIntParam txt d \<and> parseIntParam txt d < 2 ^ 63)"
proof
  have shown: "show_int n \<noteq> []" using show_nat_digits [of "nat n"] by (simp add: show_int_def)
  have big: "atoi (show_int n) = None" if "\<not> (- (2 ^ 63) \<le> n \<and> n < 2 ^ 63)"
  proof (cases "n < 0")
    case True
    then show ?thesis using that show_nat_digits [of "nat (- n)"] by (simp add: atoi_def show_int_def Let_def)
  next
    case False
    then show ?thesis using that show_nat_digits [of "nat n"] hd_digit [of "show_nat (nat n)"]
      by (simp add: atoi_def show_int_def Let_def)
  qed
  show "parseIntParam (show_int n) d = (if 0 \<le> n \<and> n < 2 ^ 63 then n else d)"
  proof (cases "- (2 ^ 63) \<le> n \<and> n < 2 ^ 63")
    case True
    then show ?thesis using shown by (simp add: parseIntParam_def atoi_show_int)
  next
    case False
    then show ?thesis using shown big by (auto simp: parseIntParam_def)
  qed
  show "parseIntParam txt d = d \<or> 0 \<le> parseIntParam txt d \<and> parseIntParam txt d < 2 ^ 63"
    by (auto simp: parseIntParam_def atoi_def Let_def)
qed

section \<open>Tokens in front of the routes\<close>

lemma query_faults: "\<exists>r. run_state (query f) s = (r, s\<lparr>faults := tl (faults s)\<rparr>)"
proof -
  have "s = s\<lparr>faults := faults s\<rparr>" by simp
  then show ?thesis by (cases "faults s") (auto simp: query_def io_ok_def)
qed

lemma ValidateToken_faults: "\<exists>fs. snd (run_state (ValidateToken verify sha tok now) s) = s\<lparr>faults := fs\<rparr>"
proof (cases "\<exists>c. verify now tok = Some c \<and> cl_type c = ''agent''")
  case True
  then obtain c where c: "verify now tok = Some c" "cl_type c = ''agent''" by blast
  then show ?thesis using query_faults [of "live_token now (cl_subject c)" s]
    by (auto simp: ValidateToken_def)
next
  case False
  then show ?thesis
    by (intro exI [of _ "faults s"]) (auto simp: ValidateToken_def split: option.splits)
qed

lemma serve_agent_denied:
  assumes "\<not> accepts (run_state (ValidateToken (sv_verify cfg) (sv_sha cfg) (extractBearerToken header) now) s)"
  shows "\<exists>fs. run_state (serve_agent cfg header req now) s = (Fail 401, s\<lparr>faults := fs\<rparr>)"
proof (cases "extractBearerToken header = []")
  case True
  then show ?thesis by (auto simp: serve_agent_def RequireAgentToken_def intro!: exI [of _ "faults s"])
next
  case False
  let ?m = "ValidateToken (sv_verify cfg) (sv_sha cfg) (extractBearerToken header) now"
  obtain r t where run: "run_state ?m s = (r, t)" by fastforce
  moreover obtain e where "r = Inl e" using assms run by (cases r) (auto simp: accepts_def)
  moreover obtain fs where "t = s\<lparr>faults := fs\<rparr>"
    using ValidateToken_faults [of "sv_verify cfg" "sv_sha cfg" "extractBearerToken header" now s] run by auto
  ultimately show ?thesis using False by (auto simp: serve_agent_def RequireAgentToken_def)
qed

lemma CompleteTask_tokens:
  assumes "faults s = []" and "has_auth s" and "find_task tid s = Some x" and "t_assigned_team_id x = Some team"
    and t_def: "t = snd (run_state (CompleteTask tid done_at) s)"
  shows "tokens t = tokens s |` (- Canonical ` set (members team s))" and "faults t = []"
proof -
  have "find_task tid (s\<lparr>tasks := ts, gauges := g\<rparr>) = find_task tid (s\<lparr>tasks := ts\<rparr>)" for ts g
    by (simp add: find_task_def)
  then show "tokens t = tokens s |` (- Canonical ` set (members team s))" "faults t = []"
    using assms unfolding t_def run_CompleteTask [OF assms(1)]
    by (auto simp: ended_def release_of_def released_fields members_def)
qed

text \<open>
  C7: Completing a task locks its team out of the internal API.  Without faults, afterwards every
  request with a token whose subject is the canonical identifier of a member is answered 401 and
  changes nothing, whatever the endpoint.  Tokens stored under another spelling of an identifier
  stay as they are.  Cancelling an active task instead leaves every token as it was: a member's
  request is then served as the handler serves it.
\<close>

theorem completed_team_is_locked_out:
  assumes ok: "faults s = []" "has_auth s" and x: "find_task tid s = Some x" "t_assigned_team_id x = Some team"
    and c: "sv_verify cfg now (extractBearerToken header) = Some c"
    and a: "a \<in> set (agents s)" "a_team_id a = Some team" "cl_subject c = Canonical (a_id a)"
  shows "(let t = snd (run_state (CompleteTask tid done_at) s) in
      (\<exists>fs. run_state (serve_agent cfg header req now) t = (Fail 401, t\<lparr>faults := fs\<rparr>)) \<and>
      tokens t (Variant i spelling) = tokens s (Variant i spelling)) \<and>
    (let t = snd (run_state (CancelTask (Canonical tid)) s) in tokens t = tokens s \<and>
      (extractBearerToken header \<noteq> [] \<and>
       fst (run_state (ValidateToken (sv_verify cfg) (sv_sha cfg) (extractBearerToken header) now) s) = Inr c \<longrightarrow>
       run_state (serve_agent cfg header req now) t = run_state (agent_handler cfg req now (Some c)) t))"
proof -
  define t where "t = snd (run_state (CompleteTask tid done_at) s)"
  have t: "tokens t = tokens s |` (- Canonical ` set (members team s))" "faults t = []"
    using CompleteTask_tokens [OF ok x t_def] by auto
  have "live_token now (cl_subject c) t = None"
    using a member_iff [of "a_id a" team s] by (auto simp: live_token_def t restrict_map_def)
  then have "\<not> accepts (run_state (ValidateToken (sv_verify cfg) (sv_sha cfg) (extractBearerToken header) now) t)"
    using c by (simp add: run_ValidateToken [OF t(2)] accepts_def)
  then have out: "\<exists>fs. run_state (serve_agent cfg header req now) t = (Fail 401, t\<lparr>faults := fs\<rparr>)"
    by (rule serve_agent_denied)
  have variant: "tokens t (Variant i spelling) = tokens s (Variant i spelling)" for i
    by (auto simp: t restrict_map_def)
  define u where "u = snd (run_state (CancelTask (Canonical tid)) s)"
  have u: "tokens u = tokens s" "faults u = []"
    using ok x by (auto simp: u_def CancelTask_def run_GetTask set_status_def UpdateStatus_def sql_task_status_def
        stmt_tasks_def release_team_of_def run_ReleaseTeam offline_team_def coalesce_task_def
        split: if_splits option.splits)
  have "run_state (serve_agent cfg header req now) u = run_state (agent_handler cfg req now (Some c)) u"
    if "extractBearerToken header \<noteq> []"
      "fst (run_state (ValidateToken (sv_verify cfg) (sv_sha cfg) (extractBearerToken header) now) s) = Inr c"
    using that c u ok(1)
    by (simp add: serve_agent_def RequireAgentToken_def run_ValidateToken live_token_def Let_def split: if_splits option.splits)
  then show ?thesis using out variant u(1) by (simp only: Let_def flip: t_def u_def) blast
qed

section \<open>Decisions of users\<close>

definition status_set :: "uuid \<Rightarrow> task_status \<Rightarrow> swarm \<Rightarrow> swarm" where
  "status_set tid st s = s\<lparr>tasks := update_where (\<lambda>t. t_id t = tid) (\<lambda>t. t\<lparr>t_status := st\<rparr>) (tasks s)\<rparr>"

lemma find_task_count: "find_task tid s = Some x \<Longrightarrow> count_where (\<lambda>t. t_id t = tid) (tasks s) \<noteq> 0"
  by (auto simp: count_where_zero find_task_def dest: find_Some_in)

lemma run_set_status:
  assumes "faults s = []" and "find_task tid s = Some x"
  shows "run_state (set_status tid st k) s = run_state k (status_set tid st s)"
  using assms find_task_count [OF assms(2)]
  by (simp add: set_status_def UpdateStatus_def sql_task_status_def stmt_tasks_def status_set_def)

text \<open>The rows of a task's team, if it has one, go offline.\<close>

definition crew_off :: "task \<Rightarrow> swarm \<Rightarrow> swarm" where
  "crew_off x s = s\<lparr>
     teams := update_where (\<lambda>m. t_assigned_team_id x = Some (m_id m)) (\<lambda>m. m\<lparr>m_status := TeamOffline\<rparr>) (teams s),
     agents := update_where (\<lambda>a. a_team_id a \<noteq> None \<and> a_team_id a = t_assigned_team_id x)
       (\<lambda>a. a\<lparr>a_status := AgentOffline\<rparr>) (agents s)\<rparr>"

lemma run_release_team_of:
  assumes "faults s = []"
  shows "run_state (release_team_of x) s = ((), crew_off x s)"
proof (cases "t_assigned_team_id x")
  case None
  then have "crew_off x s = s"
    using map_idI [of "agents s"] by (auto simp: crew_off_def update_where_def intro!: swarm.equality map_idI)
  then show ?thesis using None by (simp add: release_team_of_def)
next
  case (Some team)
  then show ?thesis
    using run_ReleaseTeam [OF assms, of team]
    by (auto simp: release_team_of_def crew_off_def offline_team_def update_where_def)
qed

definition cancelled :: "uuid \<Rightarrow> task \<Rightarrow> swarm \<Rightarrow> swarm" where
  "cancelled tid x s = notify (TaskEvent ''cancelled'' tid) (crew_off x ((status_set tid StatusCancelled s)
     \<lparr>gauges := add_active (-1) (count_status StatusCancelled (gauges s))\<rparr>))"

lemma run_CancelTask:
  assumes ok: "faults s = []" and x: "find_task tid s = Some x" and tid: "parse_uuid i = Some tid"
  shows "run_state (CancelTask i) s =
    (if terminal (t_status x) then (Fail 400, s) else (Reply 200 (), cancelled tid x s))"
proof -
  have "run_state (release_team_of (coalesce_task x)) (status_set tid StatusCancelled s\<lparr>gauges := g\<rparr>) =
      ((), crew_off x (status_set tid StatusCancelled s\<lparr>gauges := g\<rparr>))" for g
    using ok run_release_team_of [of "status_set tid StatusCancelled s\<lparr>gauges := g\<rparr>" "coalesce_task x"]
    by (simp add: status_set_def crew_off_def)
  moreover have "gauges (status_set tid st s) = gauges s" for st by (simp add: status_set_def)
  moreover have "t_status (coalesce_task x) = t_status x" by (simp add: coalesce_task_def)
  ultimately show ?thesis using assms
    by (simp add: CancelTask_def run_GetTask run_set_status [OF ok x(1)] cancelled_def notify_def)
qed

lemma run_reject:
  assumes "faults s = []" and "find_task tid s = Some x" and "parse_uuid i = Some tid"
  shows "snd (run_state (PlanAction i (Some (''reject'', txt))) s) =
      notify (TaskEvent ''status_changed'' tid) (notify (PlanEvent tid ''plan_rejected'') (status_set tid StatusCancelled s))"
    and "snd (run_state (DiffAction cfg i (Some ''reject'')) s) = status_set tid StatusCancelled s"
    and "snd (run_state (PlanAction i (Some (''approve'', txt))) s) =
      notify (TaskEvent ''status_changed'' tid) (notify (PlanEvent tid ''plan_approved'') (status_set tid StatusImplementing s))"
  using assms by (simp_all add: PlanAction_def DiffAction_def run_set_status [OF assms(1,2)] notify_def)

definition crew_gauges :: "swarm \<Rightarrow> team list \<times> agent list \<times> metrics" where
  "crew_gauges s = (teams s, agents s, gauges s)"

lemma crew_gauges_simps [simp]:
  "crew_gauges (notify e s) = crew_gauges s" "crew_gauges (status_set tid st s) = crew_gauges s"
  "tasks (notify e s) = tasks s"
  by (simp_all add: crew_gauges_def notify_def status_set_def)

text \<open>
  C38: decisions of users on a known task, without faults.  Rejecting the plan or the diff sets the task to
  cancelled and approving the plan sets it to implementing, whatever its status was before, finished
  tasks included; each of the three leaves all teams, agents and gauges untouched, so the team of a rejected task
  stays busy.  Cancelling answers 400 and changes nothing for a finished task; otherwise it answers 200,
  sets the status, lowers the gauge of active tasks by one and takes exactly the assigned team and its agents
  offline, nobody if the task has no team.
\<close>

theorem decisions_and_teams:
  assumes ok: "faults s = []" and x: "find_task tid s = Some x" and tid: "parse_uuid i = Some tid"
  shows "(let t = snd (run_state (PlanAction i (Some (''reject'', txt))) s) in
      tasks t = tasks (status_set tid StatusCancelled s) \<and> crew_gauges t = crew_gauges s) \<and>
    (let t = snd (run_state (DiffAction cfg i (Some ''reject'')) s) in
      tasks t = tasks (status_set tid StatusCancelled s) \<and> crew_gauges t = crew_gauges s) \<and>
    (let t = snd (run_state (PlanAction i (Some (''approve'', txt))) s) in
      tasks t = tasks (status_set tid StatusImplementing s) \<and> crew_gauges t = crew_gauges s) \<and>
    (if terminal (t_status x) then run_state (CancelTask i) s = (Fail 400, s)
     else case run_state (CancelTask i) s of (r, t) \<Rightarrow> r = Reply 200 () \<and>
       tasks t = tasks (status_set tid StatusCancelled s) \<and> g_tasks_active (gauges t) = g_tasks_active (gauges s) - 1 \<and>
       teams t = update_where (\<lambda>m. t_assigned_team_id x = Some (m_id m)) (\<lambda>m. m\<lparr>m_status := TeamOffline\<rparr>) (teams s) \<and>
       agents t = update_where (\<lambda>a. a_team_id a \<noteq> None \<and> a_team_id a = t_assigned_team_id x)
         (\<lambda>a. a\<lparr>a_status := AgentOffline\<rparr>) (agents s))"
proof -
  have "tasks (cancelled tid x s) = tasks (status_set tid StatusCancelled s)"
    "g_tasks_active (gauges (cancelled tid x s)) = g_tasks_active (gauges s) - 1"
    "teams (cancelled tid x s) = teams (crew_off x s)" "agents (cancelled tid x s) = agents (crew_off x s)"
    by (simp_all add: cancelled_def crew_off_def add_active_def count_status_def notify_def status_set_def)
  then show ?thesis
    by (simp add: Let_def run_reject [OF ok x tid] run_CancelTask [OF ok x tid] crew_off_def)
qed

section \<open>The next task of a team\<close>

text \<open>
  What an agent of a team is told to work on, without faults: only the newest planning task of the
  whole swarm is looked at.  When some planning task of another team is newer than every planning
  task of the caller's team, the answer is 204, although the caller's team has work.
\<close>

lemma GetNextTask_only_newest:
  assumes ok: "faults s = []" and team: "parse_or_nil (cl_team c) = u" "u \<noteq> uuid_nil"
    and y: "y \<in> set (tasks s)" "t_status y = StatusPlanning" "t_assigned_team_id y \<noteq> Some u"
    and newer: "\<forall>x\<in>set (tasks s). t_status x = StatusPlanning \<and> t_assigned_team_id x = Some u \<longrightarrow> t_created_at x < t_created_at y"
  shows "run_state (GetNextTask (Some c)) s = (Fail 204, s)"
proof -
  let ?rows = "sort_key (\<lambda>t. - t_created_at t) (filter (\<lambda>t. t_status t = StatusPlanning) (tasks s))"
  have "y \<in> set ?rows" using y by simp
  then obtain z zs where z: "?rows = z # zs" by (cases ?rows) auto
  have "sorted (map (\<lambda>t. - t_created_at t) ?rows)" by simp
  then have "t_created_at y \<le> t_created_at z" using \<open>y \<in> set ?rows\<close> unfolding z by auto
  moreover have "z \<in> set ?rows" using z by simp
  ultimately have "t_assigned_team_id z \<noteq> Some u" using newer by force
  then show ?thesis using ok team z by (simp add: GetNextTask_def ListTasks_def)
qed

section \<open>Team sizes\<close>

text \<open>
  The capacity check of a team of n members, in 64-bit arithmetic and without faults.  For
  requests that do not overflow it admits exactly those that stay within ten members; the largest
  64-bit number is admitted for every team with at least one member, because the sum wraps around.
\<close>

lemma ScaleTeam_capacity:
  assumes "faults s = []" and "find_team team s = Some m" and n: "n = int (length (coalesce (m_agent_ids m)))" "n < 2 ^ 62"
    and k: "0 \<le> k" "k < 2 ^ 62"
  shows "fst (run_state (ScaleTeam team k) s) = (if n + k \<le> 10 then Inr () else Inl ErrTeamCapacity) \<and>
    (0 < n \<longrightarrow> fst (run_state (ScaleTeam team (2 ^ 63 - 1)) s) = Inr ())"
proof -
  have run: "fst (run_state (ScaleTeam team j) s) = (if wrap64 (n + j) > 10 then Inl ErrTeamCapacity else Inr ())" for j
    using assms by (simp add: ScaleTeam_def maxAgentsPerTeam_def)
  have "\<not> 10 < wrap64 (n + (2 ^ 63 - 1))" if "0 < n"
  proof -
    have "(n + (2 ^ 63 - 1) + 2 ^ 63) mod 2 ^ 64 = ((n - 1) + 2 ^ 64) mod 2 ^ 64" by simp
    also have "\<dots> = (n - 1) mod 2 ^ 64" by (rule mod_add_self2)
    also have "\<dots> = n - 1" using that n(2) by (simp add: mod_pos_pos_trivial)
    finally show ?thesis using n(2) by (simp add: wrap64_def)
  qed
  moreover have "wrap64 (n + k) = n + k" using n k by simp
  ultimately show ?thesis unfolding run by (simp only: linorder_not_le [symmetric] if_not_P) auto
qed

section \<open>Malformed requests\<close>

fun agent_path :: "agent_request \<Rightarrow> uuid_text option" where
  "agent_path (AGetTask i) = Some i"
| "agent_path (ATaskStatus i) = Some i"
| "agent_path (APlan i b) = Some i"
| "agent_path (ADiff i b n) = Some i"
| "agent_path (AListDiffs i) = Some i"
| "agent_path (AComment i b n) = Some i"
| "agent_path (AComplete i) = Some i"
| "agent_path (AFail i b) = Some i"
| "agent_path (ADeclareSize i b) = Some i"
| "agent_path (AContribution i b n) = Some i"
| "agent_path (AHeartbeat i) = Some i"
| "agent_path _ = None"

fun agent_undecodable :: "agent_request \<Rightarrow> bool" where
  "agent_undecodable (APlan i b) = (b = None)"
| "agent_undecodable (ADiff i b n) = (b = None)"
| "agent_undecodable (AComment i b n) = (b = None)"
| "agent_undecodable (AFail i b) = (b = None)"
| "agent_undecodable (ADeclareSize i b) = (b = None)"
| "agent_undecodable (AContribution i b n) = (b = None)"
| "agent_undecodable (AMessage i b) = (b = None)"
| "agent_undecodable (ADiscussion i b) = (b = None)"
| "agent_undecodable (AConsensus i b) = (b = None)"
| "agent_undecodable _ = False"

fun user_path :: "user_request \<Rightarrow> uuid_text option" where
  "user_path (UGet i) = Some i"
| "user_path (UAgents i) = Some i"
| "user_path (UPlanAction i b) = Some i"
| "user_path (UDiffs i full) = Some i"
| "user_path (UDiffContent i) = Some i"
| "user_path (UComment i b n) = Some i"
| "user_path (UDiffAction i b) = Some i"
| "user_path (URate i b ids) = Some i"
| "user_path (URetry i) = Some i"
| "user_path (UCancel i) = Some i"
| "user_path (UDelete i) = Some i"
| "user_path _ = None"

fun user_undecodable :: "user_request \<Rightarrow> bool" where
  "user_undecodable (UCreate b n) = (b = None)"
| "user_undecodable (UPlanAction i b) = (b = None)"
| "user_undecodable (UComment i b n) = (b = None)"
| "user_undecodable (UDiffAction i b) = (b = None)"
| "user_undecodable (URate i b ids) = (b = None)"
| "user_undecodable _ = False"

definition rejected_path :: "uuid_text option \<Rightarrow> bool" where
  "rejected_path p \<longleftrightarrow> (\<exists>x. p = Some x \<and> parse_uuid x = None)"

text \<open>
  C40: what becomes of a malformed request, whatever the state and the faults ahead.  If the path identifier
  is not a UUID on one of the endpoints of agents or users that read or write the task, diff, agent or
  contribution it names, or if the decoder rejects the body of any request that has one, the answer
  is 400, no goroutine starts and nothing changes.  The endpoints that only relay events, agent messages,
  discussion events and consensus results, do not look at the identifier: they broadcast whatever text it
  is and answer 200; the goroutine that a consensus result starts then does nothing for a text that is
  not a UUID.
\<close>

theorem malformed_requests_change_nothing:
  "(rejected_path (agent_path req) \<or> agent_undecodable req \<longrightarrow>
      run_state (agent_handler cfg req now claims) s = (Fail 400, s)) \<and>
   (rejected_path (user_path ureq) \<or> user_undecodable ureq \<longrightarrow>
      run_state (user_handler cfg ureq user now) p = (Fail 400, p)) \<and>
   (w \<noteq> [] \<longrightarrow>
      run_state (agent_handler cfg (AMessage (NotUUID w) (Some m)) now claims) s =
        (Reply 200 [], notify (MessageEvent (am_kind m) w (am_agent m)) s) \<and>
      (de_event d \<noteq> [] \<longrightarrow> run_state (agent_handler cfg (ADiscussion (NotUUID w) (Some d)) now claims) s =
          (Reply 200 [], notify (DiscussionMsg w (de_event d) (discussion_thread d)) s)) \<and>
      (cb_strategy e \<noteq> [] \<longrightarrow> run_state (agent_handler cfg (AConsensus (NotUUID w) (Some e)) now claims) s =
          (Reply 200 (if sv_memory cfg then [JobConsensus (NotUUID w) e] else []),
           notify (DiscussionMsg w ''consensus_result'' (Some (cb_thread e))) s) \<and>
        run_state (consensus_job cfg (NotUUID w) e ids now) p = ((), p)))"
proof (intro conjI)
  show "rejected_path (agent_path req) \<or> agent_undecodable req \<longrightarrow>
      run_state (agent_handler cfg req now claims) s = (Fail 400, s)"
    by (cases req)
      (auto simp: rejected_path_def GetTaskInternal_def GetTaskStatus_def SubmitPlan_def SubmitDiff_def
        ListDiffs_http_def AddDiffComment_http_def CompleteTask_http_def FailTask_http_def DeclareTeamSize_def
        RecordContribution_def AgentMessage_def DiscussionEvent_def ConsensusEvent_def Heartbeat_http_def
        split: option.splits)
  show "rejected_path (user_path ureq) \<or> user_undecodable ureq \<longrightarrow>
      run_state (user_handler cfg ureq user now) p = (Fail 400, p)"
    by (cases p; cases ureq)
      (auto simp: rejected_path_def CreateTaskUser_def GetTaskUser_def GetTaskAgents_http_def PlanAction_def
        GetDiffsUser_def GetDiffContent_def UserDiffComment_def DiffAction_def RateTaskUser_def RetryTask_http_def
        CancelTask_def DeleteTaskUser_def split: option.splits)
  show "w \<noteq> [] \<longrightarrow>
      run_state (agent_handler cfg (AMessage (NotUUID w) (Some m)) now claims) s =
        (Reply 200 [], notify (MessageEvent (am_kind m) w (am_agent m)) s) \<and>
      (de_event d \<noteq> [] \<longrightarrow> run_state (agent_handler cfg (ADiscussion (NotUUID w) (Some d)) now claims) s =
          (Reply 200 [], notify (DiscussionMsg w (de_event d) (discussion_thread d)) s)) \<and>
      (cb_strategy e \<noteq> [] \<longrightarrow> run_state (agent_handler cfg (AConsensus (NotUUID w) (Some e)) now claims) s =
          (Reply 200 (if sv_memory cfg then [JobConsensus (NotUUID w) e] else []),
           notify (DiscussionMsg w ''consensus_result'' (Some (cb_thread e))) s) \<and>
        run_state (consensus_job cfg (NotUUID w) e ids now) p = ((), p))"
    by (simp add: AgentMessage_def with_body_def DiscussionEvent_def ConsensusEvent_def consensus_job_def code_def notify_def)
qed

section \<open>Ratings\<close>

text \<open>Those a rating of a task may reach: its assigned agents and the authors of its diffs.\<close>

definition contributors :: "uuid \<Rightarrow> swarm \<Rightarrow> uuid set" where
  "contributors tid s = {i. \<exists>t\<in>set (tasks s). t_id t = tid \<and> i \<in> set (coalesce (t_assigned_agents t))} \<union>
     {i. \<exists>d\<in>set (diffs s). d_task_id d = tid \<and> d_agent_id d = Some i}"

lemma contributors_cong:
  assumes "map (\<lambda>t. (t_id t, t_assigned_agents t)) (tasks s') = map (\<lambda>t. (t_id t, t_assigned_agents t)) (tasks s)"
    and "diffs s' = diffs s"
  shows "contributors tid s' = contributors tid s"
proof -
  have *: "{i. \<exists>t\<in>set (tasks s). t_id t = tid \<and> i \<in> set (coalesce (t_assigned_agents t))} =
      {i. \<exists>p\<in>set (map (\<lambda>t. (t_id t, t_assigned_agents t)) (tasks s)). fst p = tid \<and> i \<in> set (coalesce (snd p))}" for s
    by auto
  show ?thesis unfolding contributors_def by (simp only: assms *)
qed

definition outsiders :: "uuid set \<Rightarrow> swarm \<Rightarrow> agent list" where
  "outsiders C s = filter (\<lambda>a. a_id a \<notin> C) (agents s)"

interpretation outside: swarm_store "same (outsiders C)" for C
  by (rule swarm_store_same) (simp add: book_free_def outsiders_def)

lemma outsiders_feedback:
  assumes "aid \<in> C"
  shows "stable (same (outsiders C)) (RecordFeedback aid rating)"
proof -
  have "stmt_stable (same (outsiders C)) (sql_feedback aid e avg)" for e avg
    using assms by (intro stmt_stableI)
      (auto simp: sql_feedback_def stmt_agents_def same_def outsiders_def intro!: filter_update_where)
  then show ?thesis unfolding RecordFeedback_def by (intro outside.stable_calls)
qed

definition foreign_rows :: "string \<Rightarrow> elo_db \<Rightarrow> role_elo list" where
  "foreign_rows repo e = filter (\<lambda>r. re_repo r \<noteq> repo) (role_rows e)"

lemma foreign_elo_io: "stable (same (foreign_rows repo)) elo_io"
  by (rule stableI) (auto simp: elo_io_def same_def foreign_rows_def split: list.splits)

lemma foreign_modify:
  "(\<And>s. foreign_rows repo (f s) = foreign_rows repo s) \<Longrightarrow> stable (same (foreign_rows repo)) (modify f)"
  by (rule stable_modify) (simp add: same_def)

lemma foreign_fetch: "stable (same (foreign_rows repo)) (fetchRoleELO role repo)"
  unfolding fetchRoleELO_def by (intro framing.stable_combinators foreign_elo_io)

lemma foreign_outcome: "stable (same (foreign_rows repo)) (RecordRoleOutcome role repo out i now)"
  unfolding RecordRoleOutcome_def GetRoleELO_def appendHistory_def
  by (intro framing.stable_combinators foreign_elo_io foreign_fetch foreign_modify)
    (auto simp: foreign_rows_def insert_default_def default_row_def is_row_def split: option.split
      intro!: filter_update_where framing.stable_combinators foreign_elo_io)


lemma rated_agents_contribute:
  assumes "run_state (rated_agents tid (coalesce_task x)) s = (ids, t)" and "x \<in> set (tasks s)" "t_id x = tid"
  shows "set ids \<subseteq> contributors tid s"
proof (cases "coalesce (t_assigned_agents x) = []")
  case False
  then show ?thesis using assms by (auto simp: rated_agents_def coalesce_task_def contributors_def)
next
  case True
  have "set (List.map_filter d_agent_id (filter (\<lambda>d. d_task_id d = tid) (diffs s))) \<subseteq> contributors tid s"
    by (auto simp: contributors_def List.map_filter_def)
  then show ?thesis using assms True
    by (cases "faults s")
      (auto simp: rated_agents_def coalesce_task_def AgentsForTask_def query_def io_ok_def split: if_splits)
qed


lemma rated_agents_frame: "stable (same (outsiders C)) (rated_agents tid x)"
  unfolding rated_agents_def AgentsForTask_def Let_def by (intro outside.stable_calls)

lemma resolveAgentRoles_frame: "stable (same (outsiders C)) (resolveAgentRoles cfg ids)"
  unfolding resolveAgentRoles_def by (intro outside.stable_calls)

lemma apply_rating_frame:
  assumes "x \<in> set (tasks s)" "t_id x = tid"
    and run: "run_state (apply_rating cfg tid (coalesce_task x) rating new_ids now) (s, e) = (u, (t, e'))"
  shows "outsiders (contributors tid s) t = outsiders (contributors tid s) s \<and>
    foreign_rows (t_repo_id x) e' = foreign_rows (t_repo_id x) e"
proof -
  let ?C = "contributors tid s"
  obtain ids s1 where ids: "run_state (rated_agents tid (coalesce_task x)) s = (ids, s1)" by fastforce
  let ?rate = "for_each (\<lambda>aid. void (RecordFeedback aid rating)) ids"
  obtain s2 where s2: "run_state ?rate s1 = ((), s2)" by (cases "run_state ?rate s1") auto
  obtain roles s3 where roles: "run_state (resolveAgentRoles cfg ids) s2 = (roles, s3)" by fastforce
  have rate: "stable (same (outsiders ?C)) ?rate"
    using rated_agents_contribute [OF ids assms(1,2)]
    by (intro framing.stable_for_each framing.stable_void outsiders_feedback) auto
  have "outsiders ?C s1 = outsiders ?C s" "outsiders ?C s2 = outsiders ?C s1" "outsiders ?C s3 = outsiders ?C s2"
    using stable_run [OF rated_agents_frame ids] stable_run [OF rate s2] stable_run [OF resolveAgentRoles_frame roles]
    by (simp_all add: same_def)
  moreover have "stable (same (foreign_rows (t_repo_id x))) (for_each (\<lambda>(k, role). void (RecordRoleOutcome role
      (t_repo_id x) (rating_outcome (sv_us cfg tid) rating) (new_ids k) now)) (enumerate 0 roles))"
    by (intro framing.stable_for_each) (auto intro!: framing.stable_void foreign_outcome split: prod.split)
  then have "foreign_rows (t_repo_id x) (snd (run_state (for_each (\<lambda>(k, role). void (RecordRoleOutcome role
      (t_repo_id x) (rating_outcome (sv_us cfg tid) rating) (new_ids k) now)) (enumerate 0 roles)) e)) =
      foreign_rows (t_repo_id x) e"
    using stableD by (fastforce simp: same_def)
  moreover have "t_repo_id (coalesce_task x) = t_repo_id x" by (simp add: coalesce_task_def)
  ultimately show ?thesis using run ids s2 roles
    by (auto simp: apply_rating_def split: if_splits)
qed

lemma RateTask_row:
  "\<exists>f fs. snd (run_state (RateTask tid rating txt) s) =
     s\<lparr>tasks := update_where (\<lambda>t. t_id t = tid) f (tasks s), faults := fs\<rparr> \<and>
     (\<forall>t. t_id (f t) = t_id t \<and> t_assigned_agents (f t) = t_assigned_agents t \<and> t_repo_id (f t) = t_repo_id t)"
proof (cases "run_state io_ok s")
  case (Pair ok s1)
  have s1: "s1 = s\<lparr>faults := tl (faults s)\<rparr>" using Pair by (cases "faults s") (auto simp: io_ok_def)
  have kept: "update_where p (\<lambda>t. t) ts = ts" for p and ts :: "task list" by (simp add: update_where_def)
  show ?thesis
  proof (cases ok)
    case False
    then show ?thesis using Pair s1
      by (intro exI [of _ "\<lambda>t. t"] exI [of _ "tl (faults s)"]) (simp add: RateTask_def exec_def kept)
  next
    case True
    then show ?thesis using Pair s1
      by (intro exI [of _ "\<lambda>t. t\<lparr>t_human_rating := Some rating, t_human_comment := Some txt\<rparr>"] exI [of _ "tl (faults s)"])
        (simp add: RateTask_def exec_def sql_rate_task_def stmt_tasks_def)
  qed
qed

text \<open>
  Rating a task, for every configuration and every script of faults.  A rating outside 1 to 5 is
  answered 400 and changes nothing.  A valid one reaches only the agents assigned to the task and
  the authors of its diffs, and only role scores of the repository of the task: every other agent
  row and every role row of another repository is unchanged.
\<close>

lemma rating_reaches_contributors_only:
  assumes x: "find_task tid s = Some x" and tid: "parse_uuid i = Some tid"
    and run: "run_state (RateTaskUser cfg i (Some (rating, txt)) ids now) (s, e) = (r, (t, e'))"
  shows "(rating < 1 \<or> 5 < rating \<longrightarrow> r = Fail 400 \<and> t = s \<and> e' = e) \<and>
    outsiders (contributors tid s) t = outsiders (contributors tid s) s \<and>
    foreign_rows (t_repo_id x) e' = foreign_rows (t_repo_id x) e"
proof (cases "rating < 1 \<or> 5 < rating")
  case True
  then show ?thesis using run tid by (auto simp: RateTaskUser_def)
next
  case False
  obtain q s1 where rate: "run_state (RateTask tid rating txt) s = (q, s1)" by fastforce
  then obtain f fs where s1: "s1 = s\<lparr>tasks := update_where (\<lambda>t. t_id t = tid) f (tasks s), faults := fs\<rparr>"
    and f: "\<And>t. t_id (f t) = t_id t \<and> t_assigned_agents (f t) = t_assigned_agents t \<and> t_repo_id (f t) = t_repo_id t"
    using RateTask_row [of tid rating "txt" s] by auto
  have same_agents: "outsiders C s1 = outsiders C s" for C by (simp add: outsiders_def s1)
  have same_contributors: "contributors tid s1 = contributors tid s"
    by (rule contributors_cong) (simp_all add: s1 map_update_where f)
  obtain g s2 where get: "run_state (GetTask tid) s1 = (g, s2)" by fastforce
  note got = GetTask_reads [OF get]
  have "find_task tid s1 = map_option (\<lambda>t. if t_id t = tid then f t else t) (find_task tid s)"
    using f by (simp add: s1 find_task_def find_update_where)
  then have y: "find_task tid s1 = Some (f x)" using x find_task_id [OF x] by simp
  show ?thesis
  proof (cases "\<exists>z. q = Inr z \<and> sv_elo cfg \<and> g = Inr (coalesce_task (f x))")
    case True
    obtain u where app: "run_state (apply_rating cfg tid (coalesce_task (f x)) rating ids now) (s2, e) = (u, (t, e'))"
      using run rate get tid True False by (auto simp: RateTaskUser_def split: prod.splits)
    have s2: "tasks s2 = tasks s1" "diffs s2 = diffs s1" "agents s2 = agents s1"
      using got by (auto simp: reads_def)
    then have "f x \<in> set (tasks s2)" "t_id (f x) = tid" "contributors tid s2 = contributors tid s"
      using y find_Some_in [of _ "tasks s1"] same_contributors find_task_id [OF y]
      by (auto simp: find_task_def contributors_def)
    from apply_rating_frame [OF this(1,2) app] this(3) s2 False show ?thesis
      using f same_agents by (simp add: outsiders_def)
  next
    case no: False
    consider (fail) er where "q = Inl er" | (off) z where "q = Inr z" "\<not> sv_elo cfg"
      | (unread) z er where "q = Inr z" "sv_elo cfg" "g = Inl er"
      using no got y by (cases q; cases g) auto
    then have "agents t = agents s1 \<and> e' = e"
    proof cases
      case unread
      then show ?thesis using run rate get got tid False by (auto simp: RateTaskUser_def reads_def)
    qed (use run rate tid False in \<open>auto simp: RateTaskUser_def\<close>)
    then show ?thesis using False same_agents by (auto simp: outsiders_def)
  qed
qed

section \<open>Witnesses\<close>

definition demo_cfg :: server_cfg where
  "demo_cfg = \<lparr>sv_us = (\<lambda>_. ''0123456789''), sv_sign = demo_sign, sv_verify = demo_verify, sv_sha = id,
     sv_secret = ''s'', sv_elo = True, sv_role_elo = True, sv_memory = True, sv_pr = True, sv_db = True,
     sv_llm = None\<rparr>"

lemma demo_bearer: "extractBearerToken ''bearer first'' = ''first''"
  by (simp add: extractBearerToken_def split_n_two to_lower_def lower_char_def)

theorem completed_team_is_locked_out_witness:
  "\<exists>fs. run_state (serve_agent demo_cfg ''bearer first'' (AHeartbeat (Canonical 3)) hour) (snd (run_state (CompleteTask 7 20) demo_swarm)) =
     (Fail 401, (snd (run_state (CompleteTask 7 20) demo_swarm))\<lparr>faults := fs\<rparr>)"
proof -
  have "sv_verify demo_cfg hour (extractBearerToken ''bearer first'') = Some (claims_for (Canonical 3) demo_request 20 0)"
    by (simp add: demo_cfg_def demo_bearer demo_verify_def whole_second_def AgentTokenTTL_def time_units)
  moreover have "has_auth demo_swarm" "hd (agents demo_swarm) \<in> set (agents demo_swarm)"
    "a_team_id (hd (agents demo_swarm)) = Some 5" "a_id (hd (agents demo_swarm)) = 3"
    by (simp_all add: demo_defs)
  ultimately show ?thesis
    using completed_team_is_locked_out [OF demo_basic(1) _ demo_basic(2,3), of demo_cfg hour "''bearer first''"
        "claims_for (Canonical 3) demo_request 20 0" "hd (agents demo_swarm)" 20 "AHeartbeat (Canonical 3)"]
    by (simp add: claims_for_def Let_def)
qed

theorem decisions_and_teams_witness:
  "crew_gauges (snd (run_state (PlanAction (Canonical 7) (Some (''reject'', []))) demo_swarm)) = crew_gauges demo_swarm \<and>
   map a_status (agents (snd (run_state (CancelTask (Canonical 7)) demo_swarm))) = [AgentOffline]"
proof -
  have team: "t_assigned_team_id demo_task = Some 5" "\<not> terminal (t_status demo_task)" "parse_uuid (Canonical 7) = Some 7"
    "map a_team_id (agents demo_swarm) = [Some 5]"
    by (simp_all add: demo_defs)
  note all = decisions_and_teams [OF demo_basic(1,2) team(3), of "[]" demo_cfg]
  from all team(2) have "agents (snd (run_state (CancelTask (Canonical 7)) demo_swarm)) =
      update_where (\<lambda>a. a_team_id a \<noteq> None \<and> a_team_id a = Some 5) (\<lambda>a. a\<lparr>a_status := AgentOffline\<rparr>) (agents demo_swarm)"
    by (simp add: split_beta team(1))
  then have "map a_status (agents (snd (run_state (CancelTask (Canonical 7)) demo_swarm))) = [AgentOffline]"
    by (simp add: demo_defs)
  then show ?thesis using all by (simp only: Let_def)
qed

definition starved_swarm :: swarm where
  "starved_swarm = demo_swarm\<lparr>tasks := [demo_task\<lparr>t_created_at := 9\<rparr>,
     demo_task\<lparr>t_id := 11, t_assigned_team_id := Some 6, t_created_at := 4\<rparr>]\<rparr>"

theorem malformed_requests_change_nothing_witness:
  "run_state (agent_handler demo_cfg (AComplete (NotUUID ''x'')) 0 None) demo_swarm = (Fail 400, demo_swarm) \<and>
   run_state (user_handler demo_cfg (UPlanAction (Canonical 7) None) None 0) (demo_swarm, \<lparr>role_rows = [], elo_hist = [], elo_faults = []\<rparr>) =
     (Fail 400, (demo_swarm, \<lparr>role_rows = [], elo_hist = [], elo_faults = []\<rparr>)) \<and>
   fst (run_state (agent_handler demo_cfg (AMessage (NotUUID ''x'') (Some \<lparr>am_agent = ''a'', am_kind = ''note''\<rparr>)) 0 None) demo_swarm) =
     Reply 200 []"
  using malformed_requests_change_nothing [of "AComplete (NotUUID ''x'')" demo_cfg 0 None demo_swarm
      "UPlanAction (Canonical 7) None" None "(demo_swarm, \<lparr>role_rows = [], elo_hist = [], elo_faults = []\<rparr>)" "''x''"
      "\<lparr>am_agent = ''a'', am_kind = ''note''\<rparr>"]
  by (simp add: rejected_path_def)

end
