(* ===== verification/ServerSystem.thy ===== *)
theory ServerSystem
  imports SwarmSystem APICorrect
begin

text \<open>
  The server as one transition system: the controller of \<open>SwarmSystem\<close> together with the requests of
  agents and users and the goroutines they start.  A goroutine runs at any time after its request and
  in any order; the calls it makes to the VCS platform are recorded.
\<close>

section \<open>Handlers are stable\<close>

context state_preorder
begin

lemma stable_with_id: "(\<And>i. stable R (f i)) \<Longrightarrow> stable R (with_id x f)"
  unfolding with_id_def by (intro stable_combinators)

lemma stable_with_body: "(\<And>x. stable R (f x)) \<Longrightarrow> stable R (with_body b f)"
  unfolding with_body_def by (intro stable_combinators)

lemma stable_or_fail: "stable R m \<Longrightarrow> (\<And>x. stable R (f x)) \<Longrightarrow> stable R (or_fail n m f)"
  unfolding or_fail_def by (intro stable_combinators)

lemma stable_code: "stable R m \<Longrightarrow> stable R (code m)"
  unfolding code_def by (intro stable_combinators)

lemmas stable_shapes = stable_combinators stable_void stable_with_id stable_with_body stable_or_fail stable_code

end

locale api_store = service_store R for R :: "swarm \<Rightarrow> swarm \<Rightarrow> bool" +
  assumes st_pr_done: "stmt_stable R (sql_pr_done tid url n)"
begin

lemma R_tokens: "R s (s\<lparr>tokens := tk\<rparr>)"
  using R_keys [where s = s and hb = "heartbeats s" and dd = "team_create_sent s"] by simp

lemmas api_calls = stable_shapes team_ops task_ops service_ops stable_calls stable_redis_do R_tokens

lemma stable_reads:
  "stable R (ListTasks repo st n)" "stable R (GetTaskAgents tid)" "stable R (ListDiffs tid)"
  "stable R (ListDiffsMeta tid)" "stable R (GetDiff did)" "stable R (AgentsForTask tid)"
  "stable R (ListTaskHistory repo n k)" "stable R GetOverview"
  "stable R (ListAgents st')" "stable R ListTeams"
  unfolding ListTasks_def GetTaskAgents_def ListDiffs_def ListDiffsMeta_def GetDiff_def AgentsForTask_def
    ListTaskHistory_def GetOverview_def count_or_zero_def ListAgents_def ListTeams_def
  by (intro api_calls)+

lemma stable_tokens:
  "stable R (Register sign sha us req fresh jti now)" "stable R (ValidateToken verify sha tok now)"
  "stable R (Revoke a)"
  unfolding Register_def ValidateToken_def Revoke_def Let_def set_token_def by (intro api_calls)+

lemma stable_agent_handler: "stable R (agent_handler cfg req now claims)"
  by (cases req)
    (simp_all only: agent_handler.simps RevokeAgent_http_def GetNextTask_def GetTaskInternal_def
      GetTaskStatus_def SubmitPlan_def SubmitDiff_def ListDiffs_http_def AddDiffComment_http_def CompleteTask_http_def
      FailTask_http_def DeclareTeamSize_def scale_and_reply_def RecordContribution_def AgentMessage_def
      DiscussionEvent_def ConsensusEvent_def Heartbeat_http_def Let_def,
     (intro api_calls stable_reads stable_tokens)+)

lemma stable_serve_agent: "stable R (serve_agent cfg header req now)"
  unfolding serve_agent_def RequireAgentToken_def Let_def
  by (intro api_calls stable_tokens stable_agent_handler)

lemma stable_user_ops:
  "stable R (CreateTaskUser us user b1 n now)" "stable R (ListTasksUser repo st)" "stable R (GetTaskUser i)"
  "stable R (GetTaskAgents_http i)" "stable R (PlanAction i b2)" "stable R (GetDiffsUser i full)"
  "stable R (GetDiffContent i)" "stable R (UserDiffComment us user i b3 n now)" "stable R (DiffAction cfg i b4)"
  "stable R (RetryTask_http i)" "stable R (CancelTask i)" "stable R (DeleteTaskUser i)"
  "stable R (TaskHistory repo l k)" "stable R ListAgentsUser" "stable R ListTeamsUser" "stable R SwarmOverview_http"
  unfolding CreateTaskUser_def ListTasksUser_def GetTaskUser_def GetTaskAgents_http_def
    PlanAction_def set_status_def GetDiffsUser_def ListDiffs_http_def GetDiffContent_def UserDiffComment_def DiffAction_def
    RetryTask_http_def CancelTask_def release_team_of_def DeleteTaskUser_def TaskHistory_def ListAgentsUser_def
    ListTeamsUser_def SwarmOverview_http_def Let_def
  by (intro api_calls stable_reads)+

end

text \<open>With the role ELO tables as the second store.\<close>

locale api_pair = api_store R + elo: state_preorder Q
  for R :: "swarm \<Rightarrow> swarm \<Rightarrow> bool" and Q :: "elo_db \<Rightarrow> elo_db \<Rightarrow> bool" +
  assumes Q_outcome: "stable Q (RecordRoleOutcome role repo out i now)"
    and Q_tier: "stable Q (TierForRole role repo)"
begin

sublocale two: two_stores R Q
  by unfold_locales

lemmas pair_api = two.pair.stable_shapes two.stable_on_fst two.stable_on_snd Q_outcome Q_tier
  elo.stable_for_each elo.stable_void

lemma stable_serve_register: "stable (both R Q) (serve_register cfg given body new_id fresh jti now)"
  unfolding serve_register_def RequireServiceSecret_def RegisterAgent_http_def Let_def
  by (intro pair_api api_calls stable_tokens)

lemma stable_consensus_job: "stable (both R Q) (consensus_job cfg task e ids now)"
  unfolding consensus_job_def by (intro pair_api api_calls)

lemma stable_rating: "stable (both R Q) (RateTaskUser cfg i body ids now)"
  unfolding RateTaskUser_def apply_rating_def rated_agents_def resolveAgentRoles_def Let_def
  by (intro pair_api api_calls stable_reads)

lemma stable_user_handler: "stable (both R Q) (user_handler cfg req user now)"
  by (cases req)
    (simp_all only: user_handler.simps two.stable_on_fst two.pair.stable_code stable_code stable_user_ops stable_rating)

end

section \<open>Pull requests\<close>

definition grows :: "'x list \<Rightarrow> 'x list \<Rightarrow> bool" where
  "grows l l' \<longleftrightarrow> (\<exists>k. l' = l @ k)"

interpretation log: state_preorder grows
  by unfold_locales (auto simp: grows_def)

context api_store
begin

lemma stable_on_vcs: "stable (both R grows) (vcs c f)"
  by (rule stableI) (auto simp: both_def grows_def R_refl split: option.splits)

sublocale pr: two_stores R grows
  by unfold_locales

lemmas pr_api = pr.pair.stable_shapes pr.stable_on_fst stable_on_vcs

lemma stable_broadcastPREvent: "stable (both R grows) (broadcastPREvent tid event)"
  unfolding broadcastPREvent_def by (intro pr_api stable_broadcast)

lemma stable_failPR: "stable (both R grows) (failPR tid e)"
  unfolding failPR_def by (intro pr_api stable_broadcastPREvent stable_UpdateStatus)

lemma stable_commit_diffs: "stable (both R grows) (commit_diffs us c tid owner name ds)"
  by (induction ds) (auto intro!: pr_api stable_broadcastPREvent split: option.split)

lemma stable_CreatePR: "stable (both R grows) (CreatePR us pu rfc3339 full_name for_repo tid now)"
  unfolding CreatePR_def resolve_and_open_def open_pr_def finish_pr_def getRepoInfo_def Let_def
  by (intro pr_api stable_broadcastPREvent stable_failPR stable_commit_diffs stable_GetTask stable_reads
      stable_calls st_pr_done)

end

section \<open>The server\<close>

record server =
  sr_ctl :: controller
  sr_vcs :: "vcs_call list"
  sr_jobs :: "job list"

definition sr_swarm :: "server \<Rightarrow> swarm" where
  "sr_swarm x = sh_swarm (ctl_heal (sr_ctl x))"

definition set_stores :: "swarm \<Rightarrow> elo_db \<Rightarrow> server \<Rightarrow> server" where
  "set_stores s e x = x\<lparr>sr_ctl := (sr_ctl x)\<lparr>ctl_heal := (ctl_heal (sr_ctl x))\<lparr>sh_swarm := s\<rparr>, ctl_elo := e\<rparr>\<rparr>"

fun jobs_of :: "job list resp \<Rightarrow> job list" where
  "jobs_of (Fail n) = []"
| "jobs_of (Reply n js) = js"

text \<open>
  The parameters of a run: the configuration of the server, \<open>uuid.Parse\<close> and \<open>time.Format\<close>, the column
  \<open>full_name\<close>, the clients of the platforms, and what the database driver does after a failed scan.
\<close>

record env =
  en_cfg :: server_cfg
  en_parse :: "string \<Rightarrow> uuid option"
  en_rfc3339 :: "time \<Rightarrow> string"
  en_full_name :: "(repo_row \<Rightarrow> string) option"
  en_client :: "uuid \<Rightarrow> vcs_client option"
  en_scan :: bool

inductive srv_step :: "env \<Rightarrow> server \<Rightarrow> server \<Rightarrow> bool" for en where
  controller: "ctl_step (en_scan en) (sr_ctl x) c \<Longrightarrow> srv_step en x (x\<lparr>sr_ctl := c\<rparr>)"
| register: "run_state (serve_register (en_cfg en) given body i j k now) (sr_swarm x, ctl_elo (sr_ctl x)) = (r, (s, e)) \<Longrightarrow>
    srv_step en x (set_stores s e x)"
| agent: "run_state (serve_agent (en_cfg en) header req now) (sr_swarm x) = (r, s) \<Longrightarrow>
    srv_step en x ((set_stores s (ctl_elo (sr_ctl x)) x)\<lparr>sr_jobs := sr_jobs x @ jobs_of r\<rparr>)"
| user: "run_state (user_handler (en_cfg en) ureq u now) (sr_swarm x, ctl_elo (sr_ctl x)) = (r, (s, e)) \<Longrightarrow>
    srv_step en x ((set_stores s e x)\<lparr>sr_jobs := sr_jobs x @ jobs_of r\<rparr>)"
| pr_job: "sr_jobs x = js @ JobPR tid # ks \<Longrightarrow>
    run_state (CreatePR (sv_us (en_cfg en)) (en_parse en) (en_rfc3339 en) (en_full_name en) (en_client en) tid now)
      (sr_swarm x, sr_vcs x) = (r, (s, l)) \<Longrightarrow>
    srv_step en x ((set_stores s (ctl_elo (sr_ctl x)) x)\<lparr>sr_jobs := js @ ks, sr_vcs := l\<rparr>)"
| consensus_job: "sr_jobs x = js @ JobConsensus task ev # ks \<Longrightarrow>
    run_state (consensus_job (en_cfg en) task ev ids now) (sr_swarm x, ctl_elo (sr_ctl x)) = (r, (s, e)) \<Longrightarrow>
    srv_step en x ((set_stores s e x)\<lparr>sr_jobs := js @ ks\<rparr>)"

inductive srv_reach :: "env \<Rightarrow> server \<Rightarrow> bool" for en where
  init: "srv_reach en \<lparr>sr_ctl = init_controller rs, sr_vcs = [], sr_jobs = []\<rparr>"
| step: "srv_reach en x \<Longrightarrow> srv_step en x y \<Longrightarrow> srv_reach en y"

section \<open>Invariants\<close>

interpretation api_wf: api_store "keeps db_wf"
  by unfold_locales (simp add: sql_pr_done_def wf_tasks)

interpretation api_retries: api_store "keeps retries_bounded"
  by unfold_locales (simp add: sql_pr_done_def retries_tasks)

interpretation api_memory: api_store "keeps memory_ok"
  by unfold_locales (simp add: sql_pr_done_def memory_shapes)

lemma score_tier: "stable (keeps (rows_all score_row)) (TierForRole role repo)"
  unfolding TierForRole_def
  by (intro keeping.stable_combinators stableI) (auto simp: elo_io_def keeps_def rows_all_def split: list.splits)

interpretation pair_wf: api_pair "keeps db_wf" "keeps (rows_all score_row)"
  by unfold_locales (rule score_inv.rows_RecordRoleOutcome score_tier; simp)+

interpretation pair_retries: api_pair "keeps retries_bounded" "keeps (rows_all score_row)"
  by unfold_locales (rule score_inv.rows_RecordRoleOutcome score_tier; simp)+

interpretation pair_memory: api_pair "keeps memory_ok" "keeps (rows_all score_row)"
  by unfold_locales (rule score_inv.rows_RecordRoleOutcome score_tier; simp)+

definition stores_ok :: "swarm \<Rightarrow> bool" where
  "stores_ok s \<longleftrightarrow> db_wf s \<and> retries_bounded s \<and> memory_ok s"

lemma ctl_ok_stores: "ctl_ok c \<longleftrightarrow> stores_ok (sh_swarm (ctl_heal c)) \<and> breakers_ok (ctl_heal c) \<and> rows_all score_row (ctl_elo c)"
  by (auto simp: ctl_ok_def stores_ok_def)

lemma ctl_ok_set_stores:
  "ctl_ok (sr_ctl x) \<Longrightarrow> stores_ok s \<Longrightarrow> rows_all score_row e \<Longrightarrow> ctl_ok (sr_ctl (set_stores s e x))"
  by (simp add: ctl_ok_stores set_stores_def breakers_ok_def)

lemma pair_ok:
  assumes "run_state m (s, e) = (r, (s', e'))" and "stores_ok s" "rows_all score_row e"
    and "stable (both (keeps db_wf) (keeps (rows_all score_row))) m"
    and "stable (both (keeps retries_bounded) (keeps (rows_all score_row))) m"
    and "stable (both (keeps memory_ok) (keeps (rows_all score_row))) m"
  shows "stores_ok s' \<and> rows_all score_row e'"
  using assms(2,3) stable_run [OF assms(4) assms(1)] stable_run [OF assms(5) assms(1)] stable_run [OF assms(6) assms(1)]
  by (auto simp: both_def keeps_def stores_ok_def)

lemma swarm_ok:
  assumes "run_state m s = (r, s')" and "stores_ok s"
    and "stable (keeps db_wf) m" "stable (keeps retries_bounded) m" "stable (keeps memory_ok) m"
  shows "stores_ok s'"
  using assms(2) stable_run [OF assms(3) assms(1)] stable_run [OF assms(4) assms(1)] stable_run [OF assms(5) assms(1)]
  by (auto simp: keeps_def stores_ok_def)

lemma pr_ok:
  assumes "run_state (CreatePR us pu rfc fn cl tid now) (s, l) = (r, (s', l'))" and "stores_ok s"
  shows "stores_ok s'"
  using assms(2) stable_run [OF api_wf.stable_CreatePR assms(1)] stable_run [OF api_retries.stable_CreatePR assms(1)]
    stable_run [OF api_memory.stable_CreatePR assms(1)]
  by (auto simp: both_def keeps_def stores_ok_def)

lemmas register_ok = pair_ok [OF _ _ _ pair_wf.stable_serve_register pair_retries.stable_serve_register
    pair_memory.stable_serve_register]
lemmas user_ok = pair_ok [OF _ _ _ pair_wf.stable_user_handler pair_retries.stable_user_handler
    pair_memory.stable_user_handler]
lemmas consensus_ok = pair_ok [OF _ _ _ pair_wf.stable_consensus_job pair_retries.stable_consensus_job
    pair_memory.stable_consensus_job]
lemmas agent_ok = swarm_ok [OF _ _ api_wf.stable_serve_agent api_retries.stable_serve_agent
    api_memory.stable_serve_agent]

lemma srv_step_ok:
  assumes "srv_step en x y" and ok: "ctl_ok (sr_ctl x)"
  shows "ctl_ok (sr_ctl y)"
proof -
  have stores: "stores_ok (sr_swarm x)" "rows_all score_row (ctl_elo (sr_ctl x))"
    using ok by (simp_all add: ctl_ok_stores sr_swarm_def)
  show ?thesis using assms(1)
  proof cases
    case (controller c)
    then show ?thesis using ctl_step_ok ok by simp
  next
    case register
    then show ?thesis using ctl_ok_set_stores [OF ok] register_ok [OF _ stores] by blast
  next
    case agent
    then show ?thesis using ctl_ok_set_stores [OF ok] agent_ok [OF _ stores(1)] stores(2) by auto
  next
    case user
    then show ?thesis using ctl_ok_set_stores [OF ok] user_ok [OF _ stores] by auto
  next
    case pr_job
    then show ?thesis using ctl_ok_set_stores [OF ok] pr_ok [OF _ stores(1)] stores(2) by auto
  next
    case consensus_job
    then show ?thesis using ctl_ok_set_stores [OF ok] consensus_ok [OF _ stores] by auto
  qed
qed

lemma srv_reach_ok: "srv_reach en x \<Longrightarrow> ctl_ok (sr_ctl x)"
  by (induction rule: srv_reach.induct) (simp_all add: init_ok srv_step_ok)

lemma srv_step_vcs:
  assumes "srv_step en x y" and "en_full_name en = None"
  shows "sr_vcs y = sr_vcs x"
  using assms
proof cases
  case (pr_job js tid ks now r s l)
  have "l = sr_vcs x" using CreatePR_cases [OF pr_job(3)] assms(2) by auto
  then show ?thesis using pr_job by simp
qed (simp_all add: set_stores_def)

end
