(* ===== verification/CISystem.thy ===== *)
theory CISystem
  imports CISignal AccountSystem ServerSystem
begin

text \<open>
  The signals beside the rest of the server as one transition system, with its invariant, and which rows
  a cycle can reach.
\<close>

section \<open>What the programs keep\<close>

lemma stable_case_resp:
  "(\<And>n. stable R (f n)) \<Longrightarrow> (\<And>n y. stable R (g n y)) \<Longrightarrow> stable R (case x of Fail n \<Rightarrow> f n | Reply n y \<Rightarrow> g n y)"
  by (cases x) simp_all

locale ci_store = swarm_store R + elo: state_preorder Q
  for R :: "swarm \<Rightarrow> swarm \<Rightarrow> bool" and Q :: "elo_db \<Rightarrow> elo_db \<Rightarrow> bool" +
  assumes outcome: "stable Q (RecordRoleOutcome role repo out i now)"
begin

sublocale stores: two_stores R Q
  by unfold_locales

sublocale ci: two_stores "both R Q" "anything :: ci_signal list \<Rightarrow> ci_signal list \<Rightarrow> bool"
  by unfold_locales

abbreviation CK :: "(swarm \<times> elo_db) \<times> ci_signal list \<Rightarrow> (swarm \<times> elo_db) \<times> ci_signal list \<Rightarrow> bool" where
  "CK \<equiv> both (both R Q) anything"

lemma ci_statements: "stable CK (ci_query f)" "stable CK (ci_exec g)"
proof -
  have io: "stable CK (on_fst (on_fst io_ok))"
    by (intro ci.stable_on_fst stores.stable_on_fst stable_io_ok)
  show "stable CK (ci_query f)"
    unfolding ci_query_def by (intro ci.pair.stable_combinators io)
  have "stable CK (State (\<lambda>((s, e), xs). case g s xs of
      None \<Rightarrow> (None, ((s, e), xs)) | Some (n, ys) \<Rightarrow> (Some n, ((s, e), ys))))"
    by (rule stableI) (auto simp: both_def anything_def R_refl elo.R_refl split: option.split)
  then show "stable CK (ci_exec g)"
    unfolding ci_exec_def by (intro ci.pair.stable_combinators io)
qed

lemma stable_swarm_call: "stable R m \<Longrightarrow> stable CK (on_fst (on_fst m))"
  by (intro ci.stable_on_fst stores.stable_on_fst)

lemma stable_record_outcomes: "stable CK (record_outcomes roles repo out ids now)"
  unfolding record_outcomes_def
  by (intro ci.stable_on_fst stores.stable_on_snd elo.stable_combinators elo.stable_void outcome)

lemmas ci_calls = ci_statements stable_swarm_call stable_record_outcomes ci.pair.stable_shapes stable_calls

lemma ci_steps:
  "stable CK (finalizeSignal i now)" "stable CK (bumpPollCount i now)"
  "stable CK (ci_getRepoInfo fn repo)"
  "stable CK (settle en j pr st ids now)"
  unfolding finalizeSignal_def bumpPollCount_def ci_getRepoInfo_def settle_def ingestIntoELO_def getTaskRoles_def update_signal_def
  by (intro ci_calls)+

lemma stable_poll_one: "stable CK (poll_one en ids now j)"
  unfolding poll_one_def pollSingleSignal_def broadcastSignalUpdate_def update_signal_def Let_def
  by (intro ci_calls ci_steps)

lemma stable_cycle: "stable CK (ci_runCycle en seeds ids now)"
proof -
  have "stable CK (poll_all en ids now js)" for js
    by (induction js) (auto intro!: ci_calls stable_poll_one)
  then show ?thesis
    unfolding ci_runCycle_def seedNewSignals_def pollSignals_def by (intro ci_calls)
qed

lemma stable_ingest_now: "stable CK (ingest_now cfg t out ids now)"
  unfolding ingest_now_def update_signal_def resolveAgentRoles_def by (intro ci_calls)

lemma stable_GetTask_ci: "stable R (GetTask tid)"
  unfolding GetTask_def by (intro stable_calls)

lemma stable_serve_ci: "stable CK (serve_ci cfg header req i ids now)"
proof -
  have handler: "stable CK (ci_handler cfg req i ids now)"
    by (cases req; simp only: ci_handler.simps HandleCISignalWebhook_def HandleCISignalReport_def upsert_signal_def Let_def)
      (intro ci_calls stable_ingest_now stable_case_resp stable_GetTask_ci)+
  show ?thesis
    unfolding serve_ci_def RequireAgentToken_def ValidateToken_def Let_def
    by (intro ci_calls stable_case_resp handler)
qed

end

interpretation ci_ok: ci_store "keeps stores_ok" "keeps (rows_all score_row)"
  by (intro ci_store.intro ci_store_axioms.intro swarm_store_keeps keeping.state_preorder_axioms
      score_inv.rows_RecordRoleOutcome TrueI)
    (use book_free_db_wf book_free_memory in \<open>simp add: book_free_def stores_ok_def retries_bounded_def\<close>)

interpretation ci_tasks: ci_store "same (\<lambda>s. t_id ` set (tasks s))" "anything"
  by (intro ci_store.intro ci_store_axioms.intro swarm_store_same free.state_preorder_axioms stable_anything) (auto simp: book_free_def)

section \<open>What a poll does to the table\<close>

definition signal_ok :: "ci_signal \<Rightarrow> bool" where
  "signal_ok x \<longleftrightarrow> 0 \<le> sg_polls x \<and> sg_polls x \<le> CISignalMaxPolls \<and> (sg_final x \<longleftrightarrow> sg_final_at x \<noteq> None) \<and>
     (sg_ingested x \<longleftrightarrow> sg_ingested_at x \<noteq> None)"

definition signals_ok :: "swarm \<Rightarrow> ci_signal list \<Rightarrow> bool" where
  "signals_ok s xs \<longleftrightarrow> distinct (map sg_id xs) \<and> distinct (map sg_task xs) \<and>
     sg_task ` set xs \<subseteq> t_id ` set (tasks s) \<and> (\<forall>x\<in>set xs. signal_ok x)"

text \<open>One row step: \<open>n\<close> polls more at most, and the columns that identify the row stay.\<close>

definition row_step :: "int \<Rightarrow> ci_signal \<Rightarrow> ci_signal \<Rightarrow> bool" where
  "row_step n x y \<longleftrightarrow> sg_id y = sg_id x \<and> sg_task y = sg_task x \<and> sg_created y = sg_created x \<and>
     sg_polls x \<le> sg_polls y \<and> sg_polls y \<le> sg_polls x + n \<and>
     ((sg_final x \<longleftrightarrow> sg_final_at x \<noteq> None) \<longrightarrow> (sg_final y \<longleftrightarrow> sg_final_at y \<noteq> None)) \<and>
     ((sg_ingested x \<longleftrightarrow> sg_ingested_at x \<noteq> None) \<longrightarrow> (sg_ingested y \<longleftrightarrow> sg_ingested_at y \<noteq> None))"

definition touches :: "uuid \<Rightarrow> int \<Rightarrow> ci_signal list \<Rightarrow> ci_signal list \<Rightarrow> bool" where
  "touches j n xs ys \<longleftrightarrow> (\<exists>g. ys = update_where (\<lambda>x. sg_id x = j) g xs \<and> (\<forall>x. row_step n x (g x)))"

definition acts :: "uuid \<Rightarrow> int \<Rightarrow> 'a ciprog \<Rightarrow> bool" where
  "acts j n m \<longleftrightarrow> (\<forall>p xs. touches j n xs (snd (snd (run_state m (p, xs)))))"

lemma row_step_refl: "0 \<le> n \<Longrightarrow> row_step n x x"
  by (simp add: row_step_def)

lemma row_step_trans: "row_step n x y \<Longrightarrow> row_step k y z \<Longrightarrow> row_step (n + k) x z"
  by (auto simp: row_step_def)

lemma touches_refl: "0 \<le> n \<Longrightarrow> touches j n xs xs"
  unfolding touches_def
  by (rule exI [of _ "\<lambda>x. x"]) (simp add: row_step_refl update_where_def)

lemma touches_trans:
  assumes "touches j n xs ys" and "touches j k ys zs"
  shows "touches j (n + k) xs zs"
proof -
  obtain g h where g: "ys = update_where (\<lambda>x. sg_id x = j) g xs" "\<And>x. row_step n x (g x)"
    and h: "zs = update_where (\<lambda>x. sg_id x = j) h ys" "\<And>x. row_step k x (h x)"
    using assms by (auto simp: touches_def)
  have "sg_id (g x) = sg_id x" for x using g(2) [of x] by (simp add: row_step_def)
  then have "zs = update_where (\<lambda>x. sg_id x = j) (\<lambda>x. h (g x)) xs"
    unfolding h(1) g(1) by (simp add: update_where_def)
  then show ?thesis using row_step_trans [OF g(2) h(2)] by (auto simp: touches_def)
qed

lemma actsD: "acts j n m \<Longrightarrow> run_state m (p, xs) = (a, (p', ys)) \<Longrightarrow> touches j n xs ys"
  unfolding acts_def by (metis snd_conv)

lemma acts_bind_sum: "acts j n m \<Longrightarrow> (\<And>x. acts j k (f x)) \<Longrightarrow> acts j (n + k) (State_Monad.bind m f)"
proof -
  assume m: "acts j n m" and f: "\<And>x. acts j k (f x)"
  have "touches j (n + k) xs (snd (snd (run_state (f a) (p', ys))))"
    if "run_state m (p, xs) = (a, (p', ys))" for p xs a p' ys
    using m [unfolded acts_def, rule_format, of xs p] f [unfolded acts_def, rule_format, of ys a p'] that
    by (auto intro: touches_trans)
  then have step: "run_state m (p, xs) = (a, (p', ys)) \<Longrightarrow>
      touches j (n + k) xs (snd (snd (run_state (State_Monad.bind m f) (p, xs))))" for p xs a p' ys
    by simp
  show ?thesis
    unfolding acts_def
  proof (intro allI)
    fix p xs
    obtain a p' ys where "run_state m (p, xs) = (a, (p', ys))" by (metis prod.exhaust)
    then show "touches j (n + k) xs (snd (snd (run_state (State_Monad.bind m f) (p, xs))))" by (rule step)
  qed
qed

lemmas acts_quiet = acts_bind_sum [where n = 0, simplified]
  and acts_first = acts_bind_sum [where k = 0, simplified]

lemma acts_idle: "0 \<le> n \<Longrightarrow> acts j n (ret x)" "0 \<le> n \<Longrightarrow> acts j n (gets f)" "0 \<le> n \<Longrightarrow> acts j n (on_fst m)"
  by (auto simp: acts_def touches_refl)

lemma acts_query: "0 \<le> n \<Longrightarrow> acts j n (ci_query f)"
  unfolding ci_query_def by (intro acts_quiet) (auto intro: acts_idle simp: acts_def touches_refl)

lemma acts_update:
  assumes "\<And>x. row_step n x (f x)" and "0 \<le> n"
  shows "acts j n (update_signal (\<lambda>x. sg_id x = j) f)"
  using assms touches_refl
  by (auto simp: acts_def update_signal_def ci_exec_def split_beta touches_def split: prod.split)

lemma acts_cases:
  "(c \<Longrightarrow> acts j n m) \<Longrightarrow> (\<not> c \<Longrightarrow> acts j n m') \<Longrightarrow> acts j n (if c then m else m')"
  "acts j n m \<Longrightarrow> (\<And>y. acts j n (f y)) \<Longrightarrow> acts j n (case x of None \<Rightarrow> m | Some y \<Rightarrow> f y)"
  "(\<And>a b. acts j n (g a b)) \<Longrightarrow> acts j n (case z of (a, b) \<Rightarrow> g a b)"
  by (simp, cases x, simp_all add: split_beta)

lemma acts_finalize: "acts j 0 (finalizeSignal j now)"
  unfolding finalizeSignal_def by (intro acts_quiet acts_update acts_idle) (simp_all add: row_step_def)

lemma acts_bump: "acts j 1 (bumpPollCount j now)"
  unfolding bumpPollCount_def by (intro acts_first acts_update acts_idle) (simp_all add: row_step_def)

lemma acts_repo_info: "acts j 0 (ci_getRepoInfo fn repo)"
  unfolding ci_getRepoInfo_def by (intro acts_quiet acts_query acts_idle) simp_all

lemma acts_ingest: "acts j 0 (ingestIntoELO en j tid repo m st ids now)"
  unfolding ingestIntoELO_def getTaskRoles_def record_outcomes_def
  by (intro acts_quiet acts_query acts_cases acts_update acts_idle) (simp_all add: row_step_def)

lemma acts_settle: "acts (sg_id j) 0 (settle en j pr st ids now)"
  unfolding settle_def by (intro acts_cases acts_quiet acts_ingest acts_finalize acts_idle) simp_all

lemma acts_poll: "acts (sg_id j) 1 (pollSingleSignal en j ids now)"
proof -
  have polled: "acts (sg_id j) 1 (do {
      r \<leftarrow> update_signal (\<lambda>x. sg_id x = sg_id j) (write_poll pr st now);
      case r of
        None \<Rightarrow> ret (True, False, False)
      | Some _ \<Rightarrow> do {
          _ \<leftarrow> broadcastSignalUpdate (sg_task j);
          settle en j pr (cb_state (fst st)) ids now } })" for pr st
    unfolding broadcastSignalUpdate_def
    by (intro acts_first acts_update acts_cases acts_quiet acts_settle acts_idle) (simp_all add: row_step_def write_poll_def)
  have first: "acts (sg_id j) 1 (do { _ \<leftarrow> finalizeSignal (sg_id j) now; ret (False, False, True) })"
    by (intro acts_quiet acts_finalize acts_idle) simp_all
  have bump: "acts (sg_id j) 1 (do { _ \<leftarrow> bumpPollCount (sg_id j) now; ret (True, False, False) })"
    by (intro acts_first acts_bump acts_idle) simp
  show ?thesis
    unfolding pollSingleSignal_def Let_def
    by (intro acts_cases first acts_quiet acts_repo_info bump polled acts_idle) simp_all
qed

lemma acts_poll_one: "acts (sg_id j) (if expired now j then 0 else 1) (poll_one en ids now j)"
proof -
  have "acts (sg_id j) 0 (do { _ \<leftarrow> finalizeSignal (sg_id j) now; ret (0, 0, 1) :: (nat \<times> nat \<times> nat) ciprog })"
    by (intro acts_quiet acts_finalize acts_idle) simp
  moreover have "acts (sg_id j) 1 (do { (p, i, f) \<leftarrow> pollSingleSignal en j (ids (sg_id j)) now;
      ret (of_bool p, of_bool i, of_bool f) :: (nat \<times> nat \<times> nat) ciprog })"
    by (intro acts_first acts_poll acts_cases acts_idle) simp
  ultimately show ?thesis unfolding poll_one_def by simp
qed

definition rows_ok :: "ci_signal list \<Rightarrow> bool" where
  "rows_ok xs \<longleftrightarrow> distinct (map sg_id xs) \<and> distinct (map sg_task xs) \<and> (\<forall>x\<in>set xs. signal_ok x)"

lemma touches_rows:
  assumes "touches j n xs ys"
  shows "map sg_id ys = map sg_id xs" and "map sg_task ys = map sg_task xs"
    and "y \<in> set ys \<Longrightarrow> sg_id y \<noteq> j \<Longrightarrow> y \<in> set xs"
    and "\<forall>x\<in>set xs. signal_ok x \<Longrightarrow> \<forall>x\<in>set xs. sg_id x = j \<longrightarrow> sg_polls x + n \<le> CISignalMaxPolls \<Longrightarrow>
      \<forall>y\<in>set ys. signal_ok y"
proof -
  obtain g where ys: "ys = update_where (\<lambda>x. sg_id x = j) g xs" and g: "\<And>x. row_step n x (g x)"
    using assms by (auto simp: touches_def)
  show "map sg_id ys = map sg_id xs" "map sg_task ys = map sg_task xs"
    unfolding ys by (rule map_update_where, use g in \<open>simp add: row_step_def\<close>)+
  show "y \<in> set ys \<Longrightarrow> sg_id y \<noteq> j \<Longrightarrow> y \<in> set xs"
    unfolding ys in_update_where using g by (auto simp: row_step_def)
  show "\<forall>y\<in>set ys. signal_ok y" if "\<forall>x\<in>set xs. signal_ok x" "\<forall>x\<in>set xs. sg_id x = j \<longrightarrow> sg_polls x + n \<le> CISignalMaxPolls"
  proof
    fix y
    assume "y \<in> set ys"
    then obtain x where x: "x \<in> set xs" "y = (if sg_id x = j then g x else x)" unfolding ys in_update_where by blast
    then show "signal_ok y"
      using that g [of x] by (cases "sg_id x = j") (fastforce simp: signal_ok_def row_step_def)+
  qed
qed

lemma poll_all_step:
  "snd (run_state (poll_all en ids now (j # js)) s) =
   snd (run_state (poll_all en ids now js) (snd (run_state (poll_one en ids now j) s)))"
  by (simp add: split_beta)

lemma poll_all_rows:
  assumes "rows_ok xs" and "distinct (map sg_id js)"
    and "\<forall>j\<in>set js. \<forall>x\<in>set xs. sg_id x = sg_id j \<longrightarrow> sg_polls x = sg_polls j"
  shows "rows_ok (snd (snd (run_state (poll_all en ids now js) (p, xs)))) \<and>
    map sg_task (snd (snd (run_state (poll_all en ids now js) (p, xs)))) = map sg_task xs"
  using assms
proof (induction js arbitrary: p xs)
  case (Cons j js)
  obtain a p' ys where run: "run_state (poll_one en ids now j) (p, xs) = (a, (p', ys))" by (metis prod.exhaust)
  have t: "touches (sg_id j) (if expired now j then 0 else 1) xs ys"
    by (rule actsD [OF acts_poll_one run])
  note keep = touches_rows [OF t]
  have room: "sg_polls x + (if expired now j then 0 else 1) \<le> CISignalMaxPolls" if "x \<in> set xs" "sg_id x = sg_id j" for x
  proof -
    have "sg_polls x = sg_polls j" using Cons.prems(3) that by (meson list.set_intros(1))
    moreover have "sg_polls x \<le> CISignalMaxPolls" using Cons.prems(1) that(1) by (simp add: rows_ok_def signal_ok_def)
    ultimately show ?thesis by (simp add: expired_def)
  qed
  have rows: "\<forall>x\<in>set xs. signal_ok x" "distinct (map sg_id xs)" "distinct (map sg_task xs)"
    using Cons.prems(1) by (simp_all add: rows_ok_def)
  have "\<forall>y\<in>set ys. signal_ok y" by (rule keep(4) [OF rows(1)]) (blast intro: room)
  then have ok: "rows_ok ys" using rows(2,3) keep(1,2) by (simp add: rows_ok_def)
  have d: "distinct (map sg_id js)" "sg_id j \<notin> sg_id ` set js" using Cons.prems(2) by simp_all
  have "sg_polls x = sg_polls i" if "i \<in> set js" "x \<in> set ys" "sg_id x = sg_id i" for i x
  proof -
    have "sg_id x \<noteq> sg_id j" using d(2) that(1,3) by (metis image_eqI)
    then have "x \<in> set xs" by (rule keep(3) [OF that(2)])
    then show ?thesis using Cons.prems(3) that(1,3) by simp
  qed
  then have "\<forall>i\<in>set js. \<forall>x\<in>set ys. sg_id x = sg_id i \<longrightarrow> sg_polls x = sg_polls i" by blast
  from Cons.IH [OF ok d(1) this, of p'] show ?case
    unfolding poll_all_step run snd_conv keep(2) .
qed simp

lemma poll_batch_rows: "distinct (map sg_id xs) \<Longrightarrow> distinct (map sg_id (poll_batch tie now xs)) \<and> set (poll_batch tie now xs) \<subseteq> set xs"
proof -
  assume keys: "distinct (map sg_id xs)"
  have sub: "set (poll_batch tie now xs) \<subseteq> set xs"
    unfolding poll_batch_def Let_def by (auto dest!: in_set_takeD)
  moreover have "distinct (poll_batch tie now xs)"
    using keys unfolding poll_batch_def Let_def by (intro distinct_take) (auto simp: distinct_map)
  ultimately show ?thesis
    using keys by (auto simp: distinct_map intro: inj_on_subset)
qed

section \<open>The invariant of the table\<close>

lemma signals_ok_rows: "signals_ok s xs \<longleftrightarrow> rows_ok xs \<and> sg_task ` set xs \<subseteq> t_id ` set (tasks s)"
  by (auto simp: signals_ok_def rows_ok_def)

lemma new_signal_ok: "signal_ok (new_signal i t repo pr now)"
  by (simp add: signal_ok_def new_signal_def CISignalMaxPolls_def)

lemma seeded_tasks: "map sg_task (seed_rows tie ids now s xs) = map t_id (take CISignalBatchSize (sort_key (\<lambda>t. tie (t_id t)) (filter (needs_signal xs) (tasks s))))"
  by (rule nth_equalityI) (simp_all add: seed_rows_def new_signal_def enumerate_eq_zip)

lemma seed_ok:
  assumes "signals_ok s xs" and "distinct (map t_id (tasks s))" and "distinct (map sg_id (xs @ seed_rows tie ids now s xs))"
  shows "signals_ok s (xs @ seed_rows tie ids now s xs)"
proof -
  let ?ts = "take CISignalBatchSize (sort_key (\<lambda>t. tie (t_id t)) (filter (needs_signal xs) (tasks s)))"
  have "distinct (map t_id (sort_key (\<lambda>t. tie (t_id t)) (filter (needs_signal xs) (tasks s))))"
    using assms(2) by (auto simp: distinct_map intro: inj_on_subset)
  then have "distinct (map t_id ?ts)"
    by (simp add: take_map [symmetric])
  moreover have sub: "t_id ` set ?ts \<inter> sg_task ` set xs = {}" "t_id ` set ?ts \<subseteq> t_id ` set (tasks s)"
    by (auto simp: needs_signal_def dest!: in_set_takeD)
  moreover have img: "sg_task ` set (seed_rows tie ids now s xs) = t_id ` set ?ts"
    by (metis seeded_tasks list.set_map)
  moreover have "\<forall>x\<in>set (seed_rows tie ids now s xs). sg_task x \<in> t_id ` set (tasks s)"
    using img sub(2) by (metis imageI subsetD)
  moreover have "\<forall>x\<in>set (seed_rows tie ids now s xs). signal_ok x"
    by (auto simp: seed_rows_def new_signal_ok)
  ultimately show ?thesis
    using assms(1,3) by (auto simp: signals_ok_def seeded_tasks)
qed

lemma run_ci_query: "run_state (ci_query f) ((s, e), xs) =
    (if fst (run_state io_ok s) then Some (f (snd (run_state io_ok s)) xs) else None, ((snd (run_state io_ok s), e), xs))"
  by (simp add: ci_query_def)

lemma run_ci_exec: "run_state (ci_exec f) ((s, e), xs) =
    (if fst (run_state io_ok s) then
       (case f (snd (run_state io_ok s)) xs of
         None \<Rightarrow> (None, ((snd (run_state io_ok s), e), xs))
       | Some (n, ys) \<Rightarrow> (Some n, ((snd (run_state io_ok s), e), ys)))
     else (None, ((snd (run_state io_ok s), e), xs)))"
  by (simp add: ci_exec_def)

lemma io_ok_tables: "tasks (snd (run_state io_ok s)) = tasks s" "agents (snd (run_state io_ok s)) = agents s"
  by (rule io_ok_cases [of s]; simp)+

lemma seed_step:
  assumes "signals_ok s xs" and "distinct (map t_id (tasks s))"
    and "run_state (seedNewSignals tie seeds now) ((s, e), xs) = (r, ((s', e'), ys))"
  shows "signals_ok s ys"
proof -
  have same: "seed_rows tie seeds now (snd (run_state io_ok s)) xs = seed_rows tie seeds now s xs"
    by (simp add: seed_rows_def io_ok_tables)
  show ?thesis
    using assms seed_ok [OF assms(1,2)]
    by (auto simp: seedNewSignals_def run_ci_exec same Let_def split: if_splits)
qed

lemma poll_step:
  assumes "rows_ok xs"
  shows "rows_ok (snd (snd (run_state (pollSignals en ids now) ((s, e), xs)))) \<and>
    map sg_task (snd (snd (run_state (pollSignals en ids now) ((s, e), xs)))) = map sg_task xs"
proof -
  have d: "distinct (map sg_id (poll_batch (ce_tie en) now xs))" and sub: "set (poll_batch (ce_tie en) now xs) \<subseteq> set xs"
    using poll_batch_rows [of xs "ce_tie en" now] assms by (simp_all add: rows_ok_def)
  have "inj_on sg_id (set xs)" using assms by (simp add: rows_ok_def distinct_map)
  then have "\<forall>j\<in>set (poll_batch (ce_tie en) now xs). \<forall>x\<in>set xs. sg_id x = sg_id j \<longrightarrow> sg_polls x = sg_polls j"
    using sub by (metis inj_onD subsetD)
  note poll_all_rows [OF assms d this, of en ids now]
  then show ?thesis
    unfolding pollSignals_def by (simp add: run_ci_query assms split_beta)
qed

lemma cycle_signals:
  assumes "signals_ok s xs" and "distinct (map t_id (tasks s))"
    and "run_state (ci_runCycle en seeds ids now) ((s, e), xs) = (r, ((s', e'), ys))"
  shows "signals_ok s' ys"
proof -
  obtain a s1 e1 xs1 where seed: "run_state (seedNewSignals (ce_tie en) seeds now) ((s, e), xs) = (a, ((s1, e1), xs1))"
    by (metis prod.exhaust)
  have ok: "signals_ok s xs1" by (rule seed_step [OF assms(1,2) seed])
  have ys: "ys = snd (snd (run_state (pollSignals en ids now) ((s1, e1), xs1)))"
    using assms(3) by (simp add: ci_runCycle_def seed)
  have "t_id ` set (tasks s') = t_id ` set (tasks s)"
    using stable_run [OF ci_tasks.stable_cycle assms(3)] by (simp add: both_def same_def)
  moreover have "rows_ok ys" "map sg_task ys = map sg_task xs1"
    using poll_step [of xs1] ok unfolding ys by (simp_all add: signals_ok_rows)
  moreover have "sg_task ` set ys = sg_task ` set xs1"
    using calculation(3) by (metis list.set_map)
  ultimately show ?thesis using ok by (simp add: signals_ok_rows)
qed

abbreviation SK :: "(swarm \<times> elo_db) \<times> ci_signal list \<Rightarrow> (swarm \<times> elo_db) \<times> ci_signal list \<Rightarrow> bool" where
  "SK \<equiv> keeps (\<lambda>(p, xs). signals_ok (fst p) xs)"

lemma signals_keys: "t_id ` set (tasks s') = t_id ` set (tasks s) \<Longrightarrow> signals_ok s' xs \<longleftrightarrow> signals_ok s xs"
  by (simp add: signals_ok_def)

lemma keep_signal_calls:
  "stable (same (\<lambda>s. t_id ` set (tasks s))) m \<Longrightarrow> stable SK (on_fst (on_fst m))" "stable SK (on_fst (on_snd k))"
proof -
  assume m: "stable (same (\<lambda>s. t_id ` set (tasks s))) m"
  have "signals_ok (snd (run_state m s)) xs \<longleftrightarrow> signals_ok s xs" for s xs
    using stableD [OF m, of s] by (intro signals_keys) (simp add: same_def)
  then show "stable SK (on_fst (on_fst m))" by (auto simp: stable_def keeps_def)
next
  show "stable SK (on_fst (on_snd k))" by (auto simp: stable_def keeps_def)
qed

lemma keep_signal_exec:
  assumes "\<And>s xs n ys. signals_ok s xs \<Longrightarrow> f s xs = Some (n, ys) \<Longrightarrow> signals_ok s ys"
  shows "stable SK (ci_exec f)"
proof (rule stableI)
  fix u :: "(swarm \<times> elo_db) \<times> ci_signal list"
  obtain s e xs where u: "u = ((s, e), xs)" by (metis prod.exhaust)
  have "signals_ok (snd (run_state io_ok s)) zs \<longleftrightarrow> signals_ok s zs" for zs
    by (rule signals_keys) (simp add: io_ok_tables)
  then show "SK u (snd (run_state (ci_exec f) u))"
    using assms [of "snd (run_state io_ok s)" xs] by (auto simp: u run_ci_exec keeps_def split: option.split)
qed

lemma keep_signal_update:
  assumes "\<And>x. sg_id (f x) = sg_id x \<and> sg_task (f x) = sg_task x \<and> (signal_ok x \<longrightarrow> signal_ok (f x))"
  shows "signals_ok s xs \<Longrightarrow> signals_ok s (update_where p f xs)" and "stable SK (update_signal p f)"
proof -
  show ok: "signals_ok s (update_where p f xs)" if "signals_ok s xs" for s xs
  proof -
    have keys: "map sg_id (update_where p f xs) = map sg_id xs" "map sg_task (update_where p f xs) = map sg_task xs"
      using assms by (intro map_update_where; simp)+
    then have "sg_task ` set (update_where p f xs) = sg_task ` set xs" by (metis list.set_map)
    moreover have "\<forall>y\<in>set (update_where p f xs). signal_ok y"
      using that assms by (auto simp: in_update_where signals_ok_def)
    ultimately show ?thesis using that keys by (simp add: signals_ok_def)
  qed
  show "stable SK (update_signal p f)"
    unfolding update_signal_def by (rule keep_signal_exec) (auto intro: ok)
qed

lemma upsert_keeps:
  assumes "\<And>x. row_step 0 x (f x)" "\<And>x. row_step 0 x (g x)"
  shows "stable SK (upsert_signal i t f g now)"
  unfolding upsert_signal_def
proof (intro keep_signal_exec)
  fix s xs n ys
  assume ok: "signals_ok s xs"
    and up: "(if t_id t \<notin> set (map t_id (tasks s)) then None
       else if t_id t \<in> set (map sg_task xs) then
         Some (1, update_where (\<lambda>x. sg_task x = t_id t) (\<lambda>x. (g x)\<lparr>sg_polled_at := Some now, sg_updated := now\<rparr>) xs)
       else if i \<in> set (map sg_id xs) then None
       else Some (1, xs @ [(f (new_signal i (t_id t) (t_repo_id t) (the (t_pr_number t)) now))\<lparr>sg_polled_at := Some now\<rparr>])) =
      Some (n, ys)"
  have g: "sg_id (g x) = sg_id x \<and> sg_task (g x) = sg_task x \<and> (signal_ok x \<longrightarrow> signal_ok ((g x)\<lparr>sg_polled_at := Some now, sg_updated := now\<rparr>))" for x
    using assms(2) [of x] by (auto simp: row_step_def signal_ok_def)
  have new: "sg_id (f x) = i \<and> sg_task (f x) = t_id t \<and> signal_ok ((f x)\<lparr>sg_polled_at := Some now\<rparr>)"
    if "x = new_signal i (t_id t) (t_repo_id t) (the (t_pr_number t)) now" for x
    using assms(1) [of x] new_signal_ok [of i "t_id t" "t_repo_id t" "the (t_pr_number t)" now]
    unfolding that by (auto simp: row_step_def signal_ok_def new_signal_def)
  show "signals_ok s ys"
  proof (cases "t_id t \<in> set (map sg_task xs)")
    case True
    then have "ys = update_where (\<lambda>x. sg_task x = t_id t) (\<lambda>x. (g x)\<lparr>sg_polled_at := Some now, sg_updated := now\<rparr>) xs"
      using up by (simp split: if_splits)
    then show ?thesis using keep_signal_update(1) [OF _ ok, of "\<lambda>x. (g x)\<lparr>sg_polled_at := Some now, sg_updated := now\<rparr>"] g by simp
  next
    case False
    then have ids: "t_id t \<in> set (map t_id (tasks s))" "i \<notin> set (map sg_id xs)"
      and ys: "ys = xs @ [(f (new_signal i (t_id t) (t_repo_id t) (the (t_pr_number t)) now))\<lparr>sg_polled_at := Some now\<rparr>]"
      using up by (simp_all split: if_splits)
    show ?thesis
      using ok ids False new [OF refl] unfolding ys by (simp add: signals_ok_def)
  qed
qed

lemma keep_ingest_now: "stable SK (ingest_now cfg t out ids now)"
  unfolding ingest_now_def record_outcomes_def resolveAgentRoles_def
  by (intro keeping.stable_combinators keeping.stable_void keep_signal_calls keep_signal_update(2) ci_tasks.stable_calls)
    (simp add: signal_ok_def)

lemma keep_serve_ci: "stable SK (serve_ci cfg header req i ids now)"
proof -
  have steps: "row_step 0 x (write_signal pr m st x)" "row_step 0 x (merge_signal pr m st x)" for x pr m st
    by (simp_all add: row_step_def write_signal_def merge_signal_def)
  have "stable SK (ci_handler cfg req i ids now)"
    by (cases req; simp only: ci_handler.simps HandleCISignalWebhook_def HandleCISignalReport_def Let_def)
      (intro keeping.stable_shapes stable_case_resp keep_ingest_now upsert_keeps steps keep_signal_calls ci_tasks.stable_GetTask_ci)+
  then show ?thesis
    unfolding serve_ci_def RequireAgentToken_def ValidateToken_def Let_def
    by (intro keeping.stable_shapes stable_case_resp keep_signal_calls ci_tasks.stable_calls)
qed

section \<open>The server with its signals\<close>

record ci_server =
  cs_server :: server
  cs_signals :: "ci_signal list"

definition with_stores :: "ci_server \<Rightarrow> (swarm \<times> elo_db) \<times> ci_signal list \<Rightarrow> ci_server" where
  "with_stores x u = (case u of ((s, e), xs) \<Rightarrow> \<lparr>cs_server = set_stores s e (cs_server x), cs_signals = xs\<rparr>)"

definition stores_of :: "ci_server \<Rightarrow> (swarm \<times> elo_db) \<times> ci_signal list" where
  "stores_of x = ((sr_swarm (cs_server x), ctl_elo (sr_ctl (cs_server x))), cs_signals x)"

text \<open>Rows of deleted tasks go with them.\<close>

definition cascade :: "swarm \<Rightarrow> ci_signal list \<Rightarrow> ci_signal list" where
  "cascade s xs = filter (\<lambda>x. sg_task x \<in> t_id ` set (tasks s)) xs"

inductive ci_reach :: "env \<Rightarrow> ci_server \<Rightarrow> bool" for en where
  init: "ci_reach en \<lparr>cs_server = \<lparr>sr_ctl = init_controller rs, sr_vcs = [], sr_jobs = []\<rparr>, cs_signals = []\<rparr>"
| server: "ci_reach en x \<Longrightarrow> srv_step en (cs_server x) y \<Longrightarrow>
    ci_reach en \<lparr>cs_server = y, cs_signals = cascade (sr_swarm y) (cs_signals x)\<rparr>"
| cycle: "ci_reach en x \<Longrightarrow> ci_reach en (with_stores x (snd (run_state (ci_runCycle ce seeds ids now) (stores_of x))))"
| request: "ci_reach en x \<Longrightarrow>
    ci_reach en (with_stores x (snd (run_state (serve_ci (en_cfg en) header req i ids2 now) (stores_of x))))"

lemma cascade_ok: "signals_ok s xs \<Longrightarrow> signals_ok s' (cascade s' xs)"
  by (auto simp: signals_ok_def cascade_def distinct_map_filter)

lemma sr_swarm_set_stores: "sr_swarm (set_stores s e x) = s" "ctl_elo (sr_ctl (set_stores s e x)) = e"
  by (simp_all add: sr_swarm_def set_stores_def)

lemma with_stores_ok:
  assumes "ctl_ok (sr_ctl (cs_server x))" and "stores_ok s" and "rows_all score_row e" and "signals_ok s xs"
  shows "ctl_ok (sr_ctl (cs_server (with_stores x ((s, e), xs)))) \<and>
    signals_ok (sr_swarm (cs_server (with_stores x ((s, e), xs)))) (cs_signals (with_stores x ((s, e), xs)))"
  using assms ctl_ok_set_stores [OF assms(1-3)] by (simp add: with_stores_def sr_swarm_set_stores)

lemma ci_reach_ok:
  "ci_reach en x \<Longrightarrow> ctl_ok (sr_ctl (cs_server x)) \<and> signals_ok (sr_swarm (cs_server x)) (cs_signals x)"
proof (induction rule: ci_reach.induct)
  case (init rs)
  then show ?case by (simp add: init_ok signals_ok_def)
next
  case (server x y)
  then show ?case using srv_step_ok cascade_ok by auto
next
  case (cycle x ce seeds ids now)
  then have ok: "stores_ok (sr_swarm (cs_server x))" "rows_all score_row (ctl_elo (sr_ctl (cs_server x)))"
    "distinct (map t_id (tasks (sr_swarm (cs_server x))))"
    by (auto simp: ctl_ok_stores sr_swarm_def stores_ok_def wf_defs)
  obtain r s e xs where run: "run_state (ci_runCycle ce seeds ids now) (stores_of x) = (r, ((s, e), xs))"
    by (metis prod.exhaust)
  have "stores_ok s" "rows_all score_row e"
    using stable_run [OF ci_ok.stable_cycle run] ok by (simp_all add: stores_of_def both_def keeps_def)
  moreover have "signals_ok s xs"
    by (rule cycle_signals [OF _ ok(3) run [unfolded stores_of_def]]) (use cycle.IH in simp)
  ultimately show ?case unfolding run snd_conv using cycle.IH by (intro with_stores_ok) simp_all
next
  case (request x header req i ids2 now)
  then have ok: "stores_ok (sr_swarm (cs_server x))" "rows_all score_row (ctl_elo (sr_ctl (cs_server x)))"
    by (auto simp: ctl_ok_stores sr_swarm_def)
  obtain r s e xs where run: "run_state (serve_ci (en_cfg en) header req i ids2 now) (stores_of x) = (r, ((s, e), xs))"
    by (metis prod.exhaust)
  have "stores_ok s" "rows_all score_row e"
    using stable_run [OF ci_ok.stable_serve_ci run] ok by (simp_all add: stores_of_def both_def keeps_def)
  moreover have "signals_ok s xs"
    using stable_run [OF keep_serve_ci run] request.IH by (simp add: stores_of_def keeps_def)
  ultimately show ?case unfolding run snd_conv using request.IH by (intro with_stores_ok) simp_all
qed

end
