(* ===== verification/Unassigned.thy ===== *)
theory Unassigned
  imports ServerSystem
begin

text \<open>
  The column \<open>assigned_agents\<close> of \<open>swarm_tasks\<close> is read for the roles of a task, its contributors and
  its agent count, but no statement of the server writes an agent to it.  The predicate below is kept
  by every service, handler, goroutine and background loop.
\<close>

section \<open>Statements\<close>

definition no_agents :: "swarm \<Rightarrow> bool" where
  "no_agents s \<longleftrightarrow> (\<forall>t\<in>set (tasks s). coalesce (t_assigned_agents t) = [])"

lemma book_free_no_agents: "book_free no_agents"
  by (simp add: book_free_def no_agents_def)

lemma unassigned_tasks:
  "(\<And>t. coalesce (t_assigned_agents t) = [] \<Longrightarrow> coalesce (t_assigned_agents (f t)) = []) \<Longrightarrow>
   stmt_stable (keeps no_agents) (stmt_tasks p f)"
  by (auto simp: stmt_stable_def keeps_def stmt_tasks_def no_agents_def in_update_where)

lemma unassigned_same:
  "(\<And>s n t. st s = Some (n, t) \<Longrightarrow> set (tasks t) \<subseteq> set (tasks s)) \<Longrightarrow> stmt_stable (keeps no_agents) st"
  by (auto simp: stmt_stable_def keeps_def no_agents_def subset_iff)

lemma unassigned_task_rows:
  "stmt_stable (keeps no_agents) (sql_insert_task (new_task i repo title desc by now))"
  "stmt_stable (keeps no_agents) (sql_assign_task tid team timeout)"
  by (auto simp: stmt_stable_def keeps_def no_agents_def sql_insert_task_def new_task_def coalesce_def
      sql_assign_task_def stmt_tasks_def in_update_where split: if_splits)

lemma unassigned_deletes:
  "stmt_stable (keeps no_agents) (sql_delete_task tid)"
  "stmt_stable (keeps no_agents) (sql_delete_stale_agents cutoff)"
  "stmt_stable (keeps no_agents) sql_delete_empty_teams"
  "stmt_stable (keeps no_agents) (sql_recycle_agents cutoff)"
  by (auto simp: stmt_stable_def keeps_def no_agents_def sql_defs delete_tasks_def delete_agents_def
      delete_teams_def sql_recycle_agents_def Let_def)

lemma unassigned_shapes:
  "stmt_stable (keeps no_agents) (stmt_teams p f)" "stmt_stable (keeps no_agents) (stmt_agents q g)"
  by (rule unassigned_same, auto simp: stmt_teams_def stmt_agents_def)+

lemma unassigned_inserts:
  "stmt_stable (keeps no_agents) (sql_insert_team i name now)"
  "stmt_stable (keeps no_agents) (sql_ensure_team i name now)"
  "stmt_stable (keeps no_agents) (sql_upsert_agent aid role team ast host ver now)"
  "stmt_stable (keeps no_agents) (sql_insert_diff d)"
  "stmt_stable (keeps no_agents) (sql_insert_comment c)"
  "stmt_stable (keeps no_agents) (sql_insert_log l)"
  "stmt_stable (keeps no_agents) (sql_upsert_mtm m)"
  "stmt_stable (keeps no_agents) (sql_upsert_insight ins)"
  "stmt_stable (keeps no_agents) (sql_prune_mtm cutoff)"
  "stmt_stable (keeps no_agents) (sql_prune_insights cutoff)"
  "stmt_stable (keeps no_agents) (sql_kill_idle_teams cutoff)"
  by (rule unassigned_same, auto simp: sql_defs stmt_agents_def stmt_teams_def sql_upsert_mtm_def
      sql_upsert_insight_def sql_prune_mtm_def sql_prune_insights_def sql_kill_idle_teams_def split: if_splits)+

section \<open>Services\<close>

interpretation unassigned_store: swarm_store "keeps no_agents"
  by (rule swarm_store_keeps) (rule book_free_no_agents)

lemma unassigned_fields: "keeps no_agents s (s\<lparr>heartbeats := hb, tokens := tk, team_create_sent := dd,
    pending_new := pn, pending_pel := pp, next_msg := nm, team_create_stream := tc, assigned_stream := asg\<rparr>)"
  "keeps no_agents s (s\<lparr>stm_keys := ks\<rparr>)"
  by (simp_all add: keeps_def no_agents_def)

lemma coalesced_none: "coalesce None = []"
  by (simp add: coalesce_def)

lemmas unassigned_statements = unassigned_task_rows unassigned_deletes unassigned_shapes unassigned_inserts
  unassigned_tasks unassigned_fields

interpretation unassigned_teams: team_store "keeps no_agents"
  by unfold_locales
    (simp_all add: unassigned_statements sql_team_status_def sql_team_agents_busy_def sql_team_agents_offline_def
      sql_append_agent_def)

interpretation unassigned_tasks: task_store "keeps no_agents"
  by unfold_locales
    (simp_all add: unassigned_statements sql_task_status_def sql_set_plan_def sql_complete_task_def
      sql_heartbeat_def sql_rate_task_def sql_retry_task_def sql_end_task_def sql_agent_offline_def coalesced_none)

interpretation unassigned: api_store "keeps no_agents"
  by unfold_locales
    (simp_all add: unassigned_statements sql_feedback_def sql_tasks_done_def sql_set_tier_def
      sql_store_formation_def sql_pr_done_def)

interpretation unassigned_pair: api_pair "keeps no_agents" "keeps (rows_all score_row)"
  by unfold_locales (rule score_inv.rows_RecordRoleOutcome score_tier; simp)+

interpretation unassigned_heal: heal_store "keeps no_agents"
  by unfold_locales (simp_all add: sql_recover_task_def sql_end_task_def unassigned_tasks recovered_def)

section \<open>The server\<close>

lemma unassigned_heal_call: "stable (on_swarm (keeps no_agents)) (heal_call sc cmd now)"
  by (cases cmd)
    (simp_all add: cycle_def unassigned_store.heal.stable_bind unassigned_store.heal.stable_void
      unassigned_heal.stable_detect unassigned_store.heal_ops)

lemma unassigned_ctl_step:
  assumes "ctl_step sc c d" and "no_agents (sh_swarm (ctl_heal c))"
  shows "no_agents (sh_swarm (ctl_heal d))"
  using assms
proof cases
  case (swarm cmd now)
  then show ?thesis
    using unassigned.stable_swarm_call [of cmd now] assms(2) by (simp add: stable_def keeps_def split_beta)
next
  case (heal cmd now)
  then show ?thesis
    using unassigned_heal_call [of sc cmd now] assms(2) by (simp add: stable_def keeps_def on_swarm_def)
qed (simp_all add: no_agents_def)

lemma sr_swarm_stores: "sr_swarm (set_stores s e x) = s" "sr_swarm (y\<lparr>sr_jobs := js, sr_vcs := l\<rparr>) = sr_swarm y"
    "sr_swarm (y\<lparr>sr_jobs := js\<rparr>) = sr_swarm y"
  by (simp_all add: sr_swarm_def set_stores_def)

lemma unassigned_srv_step:
  assumes "srv_step en x y" and ok: "no_agents (sr_swarm x)"
  shows "no_agents (sr_swarm y)"
  using assms(1)
proof cases
  case (controller c)
  then show ?thesis using unassigned_ctl_step ok by (simp add: sr_swarm_def)
next
  case register
  then show ?thesis
    using stable_run [OF unassigned_pair.stable_serve_register] ok by (fastforce simp: both_def keeps_def sr_swarm_stores)
next
  case agent
  then show ?thesis
    using stable_run [OF unassigned.stable_serve_agent] ok by (fastforce simp: keeps_def sr_swarm_stores)
next
  case user
  then show ?thesis
    using stable_run [OF unassigned_pair.stable_user_handler] ok by (fastforce simp: both_def keeps_def sr_swarm_stores)
next
  case pr_job
  then show ?thesis
    using stable_run [OF unassigned.stable_CreatePR] ok by (fastforce simp: both_def keeps_def sr_swarm_stores)
next
  case consensus_job
  then show ?thesis
    using stable_run [OF unassigned_pair.stable_consensus_job] ok by (fastforce simp: both_def keeps_def sr_swarm_stores)
qed

lemma unassigned_init: "no_agents (sr_swarm \<lparr>sr_ctl = init_controller rs, sr_vcs = [], sr_jobs = []\<rparr>)"
  by (simp add: no_agents_def sr_swarm_def init_controller_def init_selfheal_def init_swarm_def)

end
