(* ===== verification/CICorrect.thy ===== *)
theory CICorrect
  imports CISystem Unassigned
begin

text \<open>
  The signals never reach the scores of the roles, and which signals the poller never reaches.
\<close>

section \<open>Scores\<close>

text \<open>The role scores are \<open>e\<close>, and no task has an agent in its column \<open>assigned_agents\<close>.\<close>

abbreviation uncounted :: "elo_db \<Rightarrow> (swarm \<times> elo_db) \<times> ci_signal list \<Rightarrow> bool" where
  "uncounted e \<equiv> (\<lambda>(p, xs). no_agents (fst p) \<and> snd p = e)"

lemma no_agents_io: "no_agents (snd (run_state io_ok s)) \<longleftrightarrow> no_agents s"
  by (simp add: no_agents_def io_ok_tables)

lemma uncounted_query: "(\<And>s xs. no_agents s \<Longrightarrow> P (Some (f s xs))) \<Longrightarrow> P None \<Longrightarrow> meets (uncounted e) (ci_query f) P"
  by (auto simp: meets_def run_ci_query no_agents_io)

lemma uncounted_exec: "stable (keeps (uncounted e)) (ci_exec f)"
proof (rule stableI)
  fix u :: "(swarm \<times> elo_db) \<times> ci_signal list"
  obtain s d xs where u: "u = ((s, d), xs)" by (metis prod.exhaust)
  show "keeps (uncounted e) u (snd (run_state (ci_exec f) u))"
    by (simp add: u run_ci_exec keeps_def no_agents_io split: option.split prod.split)
qed

lemma uncounted_swarm: "meets no_agents m P \<Longrightarrow> meets (uncounted e) (on_fst (on_fst m)) P"
  by (auto simp: meets_def split_beta)

lemma uncounted_stable: "stable (keeps no_agents) m \<Longrightarrow> stable (keeps (uncounted e)) (on_fst (on_fst m))"
  by (rule meets_keeps, rule uncounted_swarm, rule meets_stable)

lemma uncounted_no_roles: "stable (keeps (uncounted e)) (record_outcomes [] repo out ids now)"
  by (rule stableI) (auto simp: record_outcomes_def keeps_def)

lemma stable_after: "meets I m P \<Longrightarrow> (\<And>x. P x \<Longrightarrow> stable (keeps I) (f x)) \<Longrightarrow> stable (keeps I) (State_Monad.bind m f)"
  by (rule meets_keeps, rule meets_bind, assumption, rule meets_stable, blast)

lemma no_task_roles: "no_agents s \<Longrightarrow> task_roles tid s = []"
  by (auto simp: task_roles_def no_agents_def)

lemma uncounted_roles: "meets (uncounted e) (getTaskRoles tid) (\<lambda>r. r = None \<or> r = Some [])"
  unfolding getTaskRoles_def by (rule uncounted_query) (simp_all add: no_task_roles)

lemma uncounted_task:
  "meets (uncounted e) (on_fst (on_fst (GetTask tid))) (\<lambda>r. \<forall>t. r = Inr t \<longrightarrow> coalesce (t_assigned_agents t) = [])"
proof (rule uncounted_swarm)
  have "meets no_agents (query (find_task tid)) (\<lambda>r. \<forall>t. r = Some (Some t) \<longrightarrow> coalesce (t_assigned_agents t) = [])"
    by (auto simp: meets_def query_def split_beta io_ok_tables find_task_def no_agents_def dest!: find_Some_in split: if_splits)
  then show "meets no_agents (GetTask tid) (\<lambda>r. \<forall>t. r = Inr t \<longrightarrow> coalesce (t_assigned_agents t) = [])"
    unfolding GetTask_def by (rule meets_bind) (auto intro!: meets_ret simp: coalesce_task_def split: option.splits)
qed

lemmas uncounted_calls = keeping.stable_shapes uncounted_exec uncounted_stable
  meets_keeps [OF uncounted_query [where P = "\<lambda>_. True"]]

lemma uncounted_ingest: "stable (keeps (uncounted e)) (ingestIntoELO en i tid repo m st ids now)"
  unfolding ingestIntoELO_def by (rule stable_after [OF uncounted_roles]) (auto intro: keeping.stable_ret)

lemma uncounted_poll_one: "stable (keeps (uncounted e)) (poll_one en ids now j)"
  unfolding poll_one_def pollSingleSignal_def finalizeSignal_def bumpPollCount_def ci_getRepoInfo_def settle_def
    update_signal_def broadcastSignalUpdate_def Let_def
  by (intro uncounted_calls uncounted_ingest unassigned_store.stable_broadcast TrueI)

lemma uncounted_cycle: "stable (keeps (uncounted e)) (ci_runCycle en seeds ids now)"
proof -
  have "stable (keeps (uncounted e)) (poll_all en ids now js)" for js
    by (induction js) (auto intro!: keeping.stable_shapes uncounted_poll_one)
  then show ?thesis
    unfolding ci_runCycle_def seedNewSignals_def pollSignals_def by (intro uncounted_calls TrueI)
qed

lemma uncounted_ingest_now:
  "coalesce (t_assigned_agents t) = [] \<Longrightarrow> stable (keeps (uncounted e)) (ingest_now cfg t out ids now)"
proof -
  assume none: "coalesce (t_assigned_agents t) = []"
  have "meets (uncounted e) (on_fst (on_fst (resolveAgentRoles cfg (coalesce (t_assigned_agents t))))) (\<lambda>r. r = [])"
    by (auto simp: none resolveAgentRoles_def meets_def)
  then show ?thesis
    unfolding ingest_now_def update_signal_def
    by (rule stable_after) (auto intro!: keeping.stable_shapes uncounted_exec uncounted_no_roles)
qed

lemma uncounted_handler: "stable (keeps (uncounted e)) (ci_handler cfg req i ids now)"
proof (cases req)
  case (CIWebhook b)
  show ?thesis
    unfolding CIWebhook ci_handler.simps HandleCISignalWebhook_def or_fail_def upsert_signal_def Let_def
    by (intro keeping.stable_bind keeping.stable_with_body keeping.stable_with_id stable_after [OF uncounted_task]
        stable_case_sum keeping.stable_ret uncounted_exec stable_case_option keeping.stable_unless_nil uncounted_ingest_now) simp
next
  case (CIReport b)
  show ?thesis
    unfolding CIReport ci_handler.simps HandleCISignalReport_def or_fail_def upsert_signal_def Let_def
    by (intro keeping.stable_bind keeping.stable_with_body keeping.stable_with_id stable_after [OF uncounted_task]
        stable_case_sum keeping.stable_ret uncounted_exec stable_case_option keeping.stable_unless_nil uncounted_ingest_now) simp
qed

lemma uncounted_serve_ci: "stable (keeps (uncounted e)) (serve_ci cfg header req i ids now)"
  unfolding serve_ci_def RequireAgentToken_def Let_def
  by (intro uncounted_calls stable_case_resp uncounted_handler unassigned.stable_tokens unassigned_store.stable_calls)

lemma ci_reach_unassigned: "ci_reach en x \<Longrightarrow> no_agents (sr_swarm (cs_server x))"
proof (induction rule: ci_reach.induct)
  case (init rs)
  show ?case using unassigned_init [of rs] by simp
next
  case (server x y)
  then show ?case using unassigned_srv_step by simp
next
  case (cycle x ce seeds ids now)
  then show ?case
    using stableD [OF uncounted_cycle [of "ctl_elo (sr_ctl (cs_server x))" ce seeds ids now], of "stores_of x"]
    by (auto simp: keeps_def stores_of_def with_stores_def sr_swarm_set_stores split: prod.splits)
next
  case (request x header req i ids2 now)
  then show ?case
    using stableD [OF uncounted_serve_ci [of "ctl_elo (sr_ctl (cs_server x))" "en_cfg en" header req i ids2 now], of "stores_of x"]
    by (auto simp: keeps_def stores_of_def with_stores_def sr_swarm_set_stores split: prod.splits)
qed

section \<open>Rows the poller does not reach\<close>

definition fresh_rows :: "ci_signal list \<Rightarrow> ci_signal list" where
  "fresh_rows xs = filter (\<lambda>x. \<not> sg_final x \<and> sg_polled_at x = None) xs"

definition unresolved :: "ci_env \<Rightarrow> ci_signal \<Rightarrow> bool" where
  "unresolved en j \<longleftrightarrow> (case ce_parse en (sg_repo j) of None \<Rightarrow> False
     | Some repo \<Rightarrow> ce_platform en repo = None \<or> ce_full_name en = None)"

lemma fresh_due: "filter (\<lambda>x. sg_polled_at x = None) (filter (\<lambda>x. \<not> sg_final x \<and>
    (case sg_polled_at x of None \<Rightarrow> True | Some t \<Rightarrow> t < now - CISignalCooldown)) xs) = fresh_rows xs"
  by (induction xs) (auto simp: fresh_rows_def)

text \<open>A batch takes polled rows only when fewer than a batch were never polled, whatever the order of ties.\<close>

lemma batch_fresh:
  assumes "CISignalBatchSize \<le> length (fresh_rows xs)"
  shows "set (poll_batch tie now xs) \<subseteq> set (fresh_rows xs)"
proof -
  let ?due = "filter (\<lambda>x. \<not> sg_final x \<and> (case sg_polled_at x of None \<Rightarrow> True | Some t \<Rightarrow> t < now - CISignalCooldown)) xs"
  let ?first = "filter (\<lambda>x. sg_polled_at x = None) (sort_key (\<lambda>x. tie (sg_id x)) ?due)"
  have first: "?first = sort_key (\<lambda>x. tie (sg_id x)) (fresh_rows xs)" unfolding filter_sort fresh_due ..
  have "poll_batch tie now xs = take CISignalBatchSize ?first"
    using assms unfolding poll_batch_def Let_def first by simp
  then show ?thesis unfolding first by (auto dest: in_set_takeD)
qed

lemma no_repo_info: "\<exists>s'. run_state (ci_getRepoInfo None repo) ((s, e), xs) = (None, ((s', e), xs))"
  by (auto simp: ci_getRepoInfo_def run_ci_query)

lemma poll_unresolved:
  assumes "unresolved en j" and "\<not> expired now j"
  shows "\<exists>s' c. run_state (poll_one en ids now j) ((s, e), xs) = (c, ((s', e), xs))"
proof -
  obtain repo where repo: "ce_parse en (sg_repo j) = Some repo" "ce_platform en repo = None \<or> ce_full_name en = None"
    using assms(1) by (auto simp: unresolved_def split: option.splits)
  obtain s' where "run_state (ci_getRepoInfo None repo) ((s, e), xs) = (None, ((s', e), xs))"
    using no_repo_info by blast
  then show ?thesis
    using repo assms(2) by (cases "ce_platform en repo") (auto simp: poll_one_def pollSingleSignal_def)
qed

lemma poll_all_unresolved:
  assumes "\<forall>j\<in>set js. unresolved en j \<and> \<not> expired now j"
  shows "\<exists>s' c. run_state (poll_all en ids now js) ((s, e), xs) = (c, ((s', e), xs))"
  using assms
proof (induction js arbitrary: s)
  case (Cons j js)
  obtain s1 c1 where one: "run_state (poll_one en ids now j) ((s, e), xs) = (c1, ((s1, e), xs))"
    using poll_unresolved Cons.prems by (meson list.set_intros(1))
  obtain s2 c2 where "run_state (poll_all en ids now js) ((s1, e), xs) = (c2, ((s2, e), xs))"
    using Cons.IH [of s1] Cons.prems by auto
  then show ?case by (simp add: one split_beta)
qed simp

text \<open>No task waits for its row.\<close>

abbreviation seeded :: "ci_signal list \<Rightarrow> task list \<Rightarrow> bool" where
  "seeded xs ts \<equiv> filter (needs_signal xs) ts = []"

interpretation ci_rows: ci_store "same tasks" "anything"
  by (intro ci_store.intro ci_store_axioms.intro swarm_store_same free.state_preorder_axioms stable_anything) (auto simp: book_free_def)

lemma cycle_blocked:
  assumes "CISignalBatchSize \<le> length (fresh_rows xs)" and "\<forall>j\<in>set (fresh_rows xs). unresolved en j \<and> \<not> expired now j"
    and "seeded xs (tasks s)"
  shows "\<exists>s'. run_state (ci_runCycle en seeds ids now) ((s, e), xs) = ((), ((s', e), xs)) \<and> tasks s' = tasks s"
proof -
  have none: "seed_rows (ce_tie en) seeds now (snd (run_state io_ok s)) xs = []"
    using assms(3) by (simp add: seed_rows_def io_ok_tables)
  have "\<exists>r s1. run_state (seedNewSignals (ce_tie en) seeds now) ((s, e), xs) = (r, ((s1, e), xs))"
    unfolding seedNewSignals_def run_ci_exec none Let_def by (cases "fst (run_state io_ok s)") simp_all
  then obtain r s1 where seed: "run_state (seedNewSignals (ce_tie en) seeds now) ((s, e), xs) = (r, ((s1, e), xs))" by blast
  have "\<forall>j\<in>set (poll_batch (ce_tie en) now xs). unresolved en j \<and> \<not> expired now j"
    using batch_fresh [OF assms(1)] assms(2) by blast
  from poll_all_unresolved [OF this] obtain s2 c where
    poll: "run_state (poll_all en ids now (poll_batch (ce_tie en) now xs)) ((snd (run_state io_ok s1), e), xs) = (c, ((s2, e), xs))"
    by blast
  have "\<exists>s3. run_state (ci_runCycle en seeds ids now) ((s, e), xs) = ((), ((s3, e), xs))"
    using poll by (auto simp: ci_runCycle_def seed void_def pollSignals_def run_ci_query)
  then obtain s3 where run: "run_state (ci_runCycle en seeds ids now) ((s, e), xs) = ((), ((s3, e), xs))" by blast
  moreover have "tasks s3 = tasks s" using stable_run [OF ci_rows.stable_cycle run] by (simp add: both_def same_def)
  ultimately show ?thesis by blast
qed

text \<open>
  C18: rows whose repository has no client starve the other pull requests.  A batch prefers rows that
  were never polled, and a poll that finds no client leaves its row never polled.  Suppose at least
  fifty open rows were never polled, all of them without a client, and every finished task has its row.
  Then no number of cycles of the next seven days, whatever order the database gives tied rows and
  whichever statements fail, changes a row or a score: no pull request that was polled before is polled again.
\<close>

theorem unresolved_signals_block:
  assumes "CISignalBatchSize \<le> length (fresh_rows xs)" and "seeded xs (tasks s)"
    and "\<forall>(en, seeds, ids, now)\<in>set cs. \<forall>j\<in>set (fresh_rows xs). unresolved en j \<and> \<not> expired now j"
  shows "case run_state (for_each (\<lambda>(en, seeds, ids, now). ci_runCycle en seeds ids now) cs) ((s, e), xs) of
    (r, ((s', e'), ys)) \<Rightarrow> e' = e \<and> ys = xs"
proof -
  have "\<exists>s'. run_state (for_each (\<lambda>(en, seeds, ids, now). ci_runCycle en seeds ids now) cs) ((s, e), xs) = ((), ((s', e), xs))"
    using assms(2,3)
  proof (induction cs arbitrary: s)
    case (Cons c cs)
    obtain en seeds ids now where c: "c = (en, seeds, ids, now)" by (metis prod_cases4)
    have "\<forall>j\<in>set (fresh_rows xs). unresolved en j \<and> \<not> expired now j" using Cons.prems(2) c by simp
    from cycle_blocked [OF assms(1) this Cons.prems(1)] obtain s1 where
      one: "run_state (ci_runCycle en seeds ids now) ((s, e), xs) = ((), ((s1, e), xs))" "tasks s1 = tasks s" by blast
    obtain s2 where "run_state (for_each (\<lambda>(en, seeds, ids, now). ci_runCycle en seeds ids now) cs) ((s1, e), xs) = ((), ((s2, e), xs))"
      using Cons.IH [of s1] Cons.prems one(2) by auto
    then show ?case by (simp add: c one(1))
  qed simp
  then show ?thesis by auto
qed

text \<open>Nothing is known of the pull request, and nothing was counted.\<close>

definition unpolled :: "ci_signal \<Rightarrow> bool" where
  "unpolled x \<longleftrightarrow> sg_polls x = 0 \<and> sg_polled_at x = None \<and> sg_pr_state x = ''unknown'' \<and> \<not> sg_merged x \<and>
     sg_state x = ''unknown'' \<and> \<not> sg_ingested x"

abbreviation silent :: "elo_db \<Rightarrow> (swarm \<times> elo_db) \<times> ci_signal list \<Rightarrow> bool" where
  "silent e \<equiv> (\<lambda>(p, xs). snd p = e \<and> (\<forall>x\<in>set xs. unpolled x))"

lemma silent_exec:
  assumes "\<And>s xs n ys. \<forall>x\<in>set xs. unpolled x \<Longrightarrow> f s xs = Some (n, ys) \<Longrightarrow> \<forall>y\<in>set ys. unpolled y"
  shows "stable (keeps (silent e)) (ci_exec f)"
proof (rule stableI)
  fix u :: "(swarm \<times> elo_db) \<times> ci_signal list"
  obtain s d xs where u: "u = ((s, d), xs)" by (metis prod.exhaust)
  show "keeps (silent e) u (snd (run_state (ci_exec f) u))"
    using assms [of xs "snd (run_state io_ok s)"] by (simp add: u run_ci_exec keeps_def split: option.split prod.split)
qed

lemma silent_finalize: "stable (keeps (silent e)) (finalizeSignal i now)"
  unfolding finalizeSignal_def update_signal_def
  by (intro keeping.stable_shapes silent_exec) (auto simp: in_update_where unpolled_def split: if_splits)

lemma silent_poll_one:
  assumes "ce_full_name en = None"
  shows "stable (keeps (silent e)) (poll_one en ids now j)"
proof (rule stableI)
  fix u :: "(swarm \<times> elo_db) \<times> ci_signal list"
  obtain s d xs where u: "u = ((s, d), xs)" by (metis prod.exhaust)
  obtain b v where fin: "run_state (finalizeSignal (sg_id j) now) u = (b, v)" by (metis prod.exhaust)
  have v: "keeps (silent e) u v" using stable_run [OF silent_finalize fin] .
  show "keeps (silent e) u (snd (run_state (poll_one en ids now j) u))"
  proof (cases "expired now j \<or> ce_parse en (sg_repo j) = None")
    case True
    then show ?thesis using v fin by (auto simp: poll_one_def pollSingleSignal_def)
  next
    case False
    then have "unresolved en j" using assms by (auto simp: unresolved_def)
    then obtain s' c where "run_state (poll_one en ids now j) ((s, d), xs) = (c, ((s', d), xs))"
      using poll_unresolved False by blast
    then show ?thesis by (simp add: u keeps_def)
  qed
qed

lemma silent_cycle:
  assumes "ce_full_name en = None"
  shows "stable (keeps (silent e)) (ci_runCycle en seeds ids now)"
proof -
  have seed: "stable (keeps (silent e)) (seedNewSignals tie seeds now)" for tie
    unfolding seedNewSignals_def
    by (rule silent_exec) (auto simp: Let_def seed_rows_def new_signal_def unpolled_def split: if_splits)
  have query: "stable (keeps (silent e)) (ci_query f)" for f
    by (rule stableI) (auto simp: run_ci_query keeps_def)
  have "stable (keeps (silent e)) (poll_all en ids now js)" for js
    by (induction js) (auto intro!: keeping.stable_shapes silent_poll_one assms)
  then show ?thesis
    unfolding ci_runCycle_def pollSignals_def
    by (intro keeping.stable_shapes keeping.stable_void seed query)
qed

text \<open>
  C19: on the shipped schema the poller learns nothing.  The column full_name it selects does not exist,
  so whatever platforms, tables and outages there are, any number of cycles leaves the scores alone and
  every row without a state, a poll or an ingestion.
\<close>

theorem shipped_poller_learns_nothing:
  assumes "\<forall>(en, seeds, ids, now)\<in>set cs. ce_full_name en = None" and "\<forall>x\<in>set xs. unpolled x"
  shows "case run_state (for_each (\<lambda>(en, seeds, ids, now). ci_runCycle en seeds ids now) cs) ((s, e), xs) of
    (r, ((s', e'), ys)) \<Rightarrow> e' = e \<and> (\<forall>y\<in>set ys. unpolled y)"
proof -
  have "stable (keeps (silent e)) (for_each (\<lambda>(en, seeds, ids, now). ci_runCycle en seeds ids now) cs)"
    using assms(1) by (intro keeping.stable_for_each) (auto intro: silent_cycle)
  from stableD [OF this, of "((s, e), xs)"] assms(2) show ?thesis
    by (auto simp: keeps_def split: prod.splits)
qed

section \<open>Witnesses\<close>

definition no_scores :: elo_db where
  "no_scores = \<lparr>role_rows = [], elo_hist = [], elo_faults = []\<rparr>"

definition demo_report :: ci_report where
  "demo_report = \<lparr>cr_task = Canonical 7, cr_build = True, cr_tests = False, cr_accepted = False\<rparr>"

definition demo_signal :: ci_signal where
  "demo_signal = new_signal 50 7 ''repo'' 12 0"

definition demo_platform :: ci_platform where
  "demo_platform = \<lparr>pf_pr = (\<lambda>_ _ _. Some (''merged'', ''abc'')), pf_status = (\<lambda>_ _ _. Some (Some
     \<lparr>cb_state = ''failure'', cb_total = 1, cb_passed = 0, cb_failed = 1, cb_pending = 0, cb_statuses = ''[]''\<rparr>))\<rparr>"

definition demo_ci :: ci_env where
  "demo_ci = \<lparr>ce_us = (\<lambda>_. ''t''), ce_parse = (\<lambda>_. Some 9), ce_full_name = Some (\<lambda>r. r_owner r @ ''/'' @ r_name r),
     ce_platform = (\<lambda>_. Some demo_platform), ce_elo = True, ce_tie = (\<lambda>_. 0)\<rparr>"

text \<open>Fifty rows without a client, and one that was polled an hour ago and is due again.\<close>

definition stuck_demo :: "ci_signal list" where
  "stuck_demo = map (\<lambda>k. new_signal k (1000 + k) ''repo'' 12 0) [0..<50] @
     [(new_signal 70 7 ''repo'' 12 0)\<lparr>sg_polls := 1, sg_polled_at := Some 0\<rparr>]"

lemma stuck_demo_fresh: "fresh_rows stuck_demo = map (\<lambda>k. new_signal k (1000 + k) ''repo'' 12 0) [0..<50]"
  by (simp add: fresh_rows_def stuck_demo_def new_signal_def filter_map o_def)

theorem unresolved_signals_block_witness:
  "case run_state (for_each (\<lambda>(en, seeds, ids, now). ci_runCycle en seeds ids now)
      [(demo_ci\<lparr>ce_platform := \<lambda>_. None\<rparr>, \<lambda>k. 100 + k, \<lambda>_ _. 60, hour),
       (demo_ci\<lparr>ce_platform := \<lambda>_. None, ce_tie := \<lambda>i. 99 - i\<rparr>, \<lambda>k. 200 + k, \<lambda>_ _. 60, 2 * hour)]) ((demo_swarm, no_scores), stuck_demo) of
    (r, ((s', e'), ys)) \<Rightarrow> e' = no_scores \<and> ys = stuck_demo"
proof (rule unresolved_signals_block)
  show "CISignalBatchSize \<le> length (fresh_rows stuck_demo)" by (simp add: stuck_demo_fresh CISignalBatchSize_def)
  show "seeded stuck_demo (tasks demo_swarm)" by (simp add: stuck_demo_def demo_defs needs_signal_def new_signal_def)
qed (auto simp: stuck_demo_fresh unresolved_def demo_ci_def new_signal_def expired_def CISignalMaxPollAge_def
    CISignalMaxPolls_def time_units)

theorem shipped_poller_learns_nothing_witness:
  "case run_state (for_each (\<lambda>(en, seeds, ids, now). ci_runCycle en seeds ids now)
      [(demo_ci\<lparr>ce_full_name := None\<rparr>, \<lambda>k. 100 + k, \<lambda>_ _. 60, 20)]) ((demo_swarm, no_scores), [demo_signal]) of
    (r, ((s', e'), ys)) \<Rightarrow> e' = no_scores \<and> (\<forall>y\<in>set ys. unpolled y)"
  by (rule shipped_poller_learns_nothing) (simp_all add: unpolled_def demo_signal_def new_signal_def)

end
