(* ===== verification/CrossRepoAuth.thy ===== *)
theory CrossRepoAuth
  imports CrossRepo
begin

text \<open>
  The authorizer of \<open>CrossRepo\<close> decides exactly the access matrix \<open>permitted\<close>: whatever query fails it
  never allows more, and without failures it allows all of it.
\<close>

section \<open>Runs of statements\<close>

lemma x_io_cases:
  obtains (ok) t where "run_state x_io s = (True, t)" "x_db t = x_db s" "x_engine t = x_engine s"
      "x_audit t = x_audit s" "x_pending t = x_pending s"
    | (fault) t where "run_state x_io s = (False, t)" "x_db t = x_db s" "x_engine t = x_engine s"
      "x_audit t = x_audit s" "x_pending t = x_pending s"
  by (cases "x_faults s"; cases "hd (x_faults s)") (auto simp: x_io_def)

lemma x_io_no_faults [simp]: "x_faults s = [] \<Longrightarrow> run_state x_io s = (True, s)"
  by (simp add: x_io_def)

lemma xselect_no_faults [simp]: "x_faults s = [] \<Longrightarrow> run_state (xselect f) s = (Inr (f (x_db s)), s)"
  by (simp add: xselect_def)

lemma xfetch_no_faults [simp]:
  "x_faults s = [] \<Longrightarrow>
   run_state (xfetch f) s = (case f (x_db s) of None \<Rightarrow> Inl ErrNotFound | Some x \<Rightarrow> Inr x, s)"
  by (simp add: xfetch_def split: option.splits)

lemma xexec_no_faults [simp]:
  "x_faults s = [] \<Longrightarrow>
   run_state (xexec f) s = (case f (x_db s) of Inl e \<Rightarrow> (Inl e, s) | Inr d \<Rightarrow> (Inr (), s\<lparr>x_db := d\<rparr>))"
  by (simp add: xexec_def)

text \<open>
  A program that reads: whatever fails, only the fault script changes, and without failures nothing.
\<close>

definition steady :: "xstate \<Rightarrow> link_tables \<times> (string \<times> uuid) list \<times> link_event list \<times> engine_call list" where
  "steady s = (x_db s, x_audit s, x_pending s, x_engine s)"

definition quiet :: "xstate \<Rightarrow> xstate \<Rightarrow> bool" where
  "quiet s t \<longleftrightarrow> steady t = steady s \<and> (x_faults s = [] \<longrightarrow> t = s)"

interpretation quietly: state_preorder quiet
  by unfold_locales (auto simp: quiet_def)

lemma quiet_fields: "quiet s t \<Longrightarrow> x_db t = x_db s \<and> x_audit t = x_audit s \<and> x_pending t = x_pending s \<and> x_engine t = x_engine s"
  by (simp add: quiet_def steady_def)

definition at_db :: "link_tables \<Rightarrow> xstate \<Rightarrow> bool" where
  "at_db d s \<longleftrightarrow> x_db s = d"

lemma reads_io: "stable quiet x_io"
proof (rule stableI)
  fix s show "quiet s (snd (run_state x_io s))"
    by (cases rule: x_io_cases [of s]) (auto simp: quiet_def steady_def)
qed

lemma reads_select: "stable quiet (xselect f)"
  unfolding xselect_def by (intro quietly.stable_combinators reads_io)

lemma reads_fetch: "stable quiet (xfetch f)"
  unfolding xfetch_def by (intro quietly.stable_combinators reads_select)

lemmas reads = quietly.stable_combinators reads_select reads_fetch

lemma reads_store:
  "stable quiet (RepoGetByID i)" "stable quiet (OrgGetByID i)"
  "stable quiet (GetMember i u)" "stable quiet (ListReposByUser u)"
  "stable quiet (LinkGetByID i)" "stable quiet (GetByRepos i j k)"
  "stable quiet (ListLinkedRepoIDs i)" "stable quiet (CountByOrg i)"
  "stable quiet (LinksByOrg i n m)" "stable quiet (LinksByRepo i)"
  "stable quiet (ListEvents i lk n)"
  unfolding RepoGetByID_def OrgGetByID_def GetMember_def ListReposByUser_def LinkGetByID_def GetByRepos_def
    ListLinkedRepoIDs_def CountByOrg_def LinksByOrg_def LinksByRepo_def ListEvents_def Let_def
  by (intro reads)+

lemma reads_user: "stable quiet (authorize_user g u t a)"
  unfolding authorize_user_def userHasTargetAccess_def
  by (intro quietly.stable_combinators reads_store stable_case_store_error)

lemma reads_link: "stable quiet (authorize_link g u i j a)"
  unfolding authorize_link_def
  by (intro quietly.stable_combinators reads_store stable_case_store_error reads_user)

lemma reads_authorizer:
  "stable quiet (Authorize u i j a)" "stable quiet (AuthorizeLink u g)"
  "stable quiet (CheckOrgLinkBudget g)"
  unfolding Authorize_def AuthorizeLink_def CheckOrgLinkBudget_def Let_def
  by (intro quietly.stable_combinators reads_store reads_link)+

section \<open>The access matrix\<close>

text \<open>
  Profiles, actions and roles on one scale: 1 for metadata and the graph, 2 for symbols and mentions
  in a chat, 3 for everything else.
\<close>

definition profile_level :: "string \<Rightarrow> nat" where
  "profile_level p = (if p = ''full'' then 3 else if p = ''symbols'' then 2 else if p = ''metadata'' then 1 else 0)"

definition action_level :: "string \<Rightarrow> nat" where
  "action_level a =
     (if a \<in> {''cross_repo.metadata'', ''cross_repo.graph_view''} then 1
      else if a \<in> {''cross_repo.symbols'', ''cross_repo.chat_mention''} then 2 else 3)"

definition role_level :: "string \<Rightarrow> nat" where
  "role_level r = (if r = ''viewer'' then 1 else 3)"

definition permitted :: "link_tables \<Rightarrow> uuid \<Rightarrow> uuid \<Rightarrow> uuid \<Rightarrow> string \<Rightarrow> bool" where
  "permitted d user src tgt action \<longleftrightarrow>
     (\<exists>a\<in>set (xrepos d). \<exists>b\<in>set (xrepos d). \<exists>g\<in>set (orgs d). \<exists>l\<in>set (links d). \<exists>m\<in>set (org_members d).
        xr_id a = src \<and> xr_id b = tgt \<and> xr_org a = xr_org b \<and>
        og_id g = xr_org a \<and> IsOrgCrossRepoEnabled g \<and>
        link_key l = (xr_org a, src, tgt) \<and> action_level action \<le> profile_level (lk_profile l) \<and>
        om_org m = xr_org a \<and> om_user m = user \<and> action_level action \<le> role_level (om_role m) \<and>
        (action \<in> {''cross_repo.search'', ''cross_repo.file_read''} \<longrightarrow>
           om_role m \<in> {''owner'', ''admin''} \<or> (tgt, user) \<in> set (repo_members d)))"

lemma AllowsAction_level: "AllowsAction l a \<longleftrightarrow> action_level a \<le> profile_level (lk_profile l)"
  by (auto simp: AllowsAction_def action_level_def profile_level_def)

lemma IsActive_level: "AllowsAction l a \<Longrightarrow> IsActive l"
  by (auto simp: AllowsAction_def IsActive_def)

lemma viewer_level:
  "action_level a \<le> role_level r \<longleftrightarrow> \<not> (r = ''viewer'' \<and> a \<noteq> ActionMetadata \<and> a \<noteq> ActionGraphView)"
  by (auto simp: action_level_def role_level_def)

definition keys_ok :: "link_tables \<Rightarrow> bool" where
  "keys_ok d \<longleftrightarrow> distinct (map og_id (orgs d)) \<and> distinct (map xr_id (xrepos d)) \<and>
     distinct (map (\<lambda>m. (om_org m, om_user m)) (org_members d)) \<and>
     distinct (map lk_id (links d)) \<and> distinct (map link_key (links d))"

lemma find_key: "distinct (map g rs) \<Longrightarrow> r \<in> set rs \<Longrightarrow> g r = k \<Longrightarrow> List.find (\<lambda>x. g x = k) rs = Some r"
  using find_unique [of g rs r] by simp

lemma find_member:
  "distinct (map (\<lambda>m. (om_org m, om_user m)) ms) \<Longrightarrow> m \<in> set ms \<Longrightarrow> om_org m = g \<Longrightarrow> om_user m = u \<Longrightarrow>
   List.find (\<lambda>m. om_org m = g \<and> om_user m = u) ms = Some m"
  using find_key [of "\<lambda>m. (om_org m, om_user m)" ms m "(g, u)"] by simp

text \<open>Whatever fails, \<open>Allow\<close> means permitted.\<close>

lemma at_fetch: "meets (at_db d) (xfetch f) (\<lambda>r. \<forall>x. r = Inr x \<longrightarrow> f d = Some x)"
proof -
  have "at_db d (snd (run_state (xfetch f) s)) \<and> (\<forall>x. fst (run_state (xfetch f) s) = Inr x \<longrightarrow> f d = Some x)"
    if "at_db d s" for s
    using that by (cases rule: x_io_cases [of s])
      (auto simp: xfetch_def xselect_def at_db_def split_beta split: option.splits sum.splits)
  then show ?thesis by (simp add: meets_def)
qed

lemma at_select: "meets (at_db d) (xselect f) (\<lambda>r. \<forall>x. r = Inr x \<longrightarrow> x = f d)"
proof -
  have "at_db d (snd (run_state (xselect f) s)) \<and> (\<forall>x. fst (run_state (xselect f) s) = Inr x \<longrightarrow> x = f d)"
    if "at_db d s" for s
    using that by (cases rule: x_io_cases [of s]) (auto simp: xselect_def at_db_def split_beta)
  then show ?thesis by (simp add: meets_def)
qed

lemma meets_case_sum:
  "(\<And>e. x = Inl e \<Longrightarrow> meets I (f e) Q) \<Longrightarrow> (\<And>y. x = Inr y \<Longrightarrow> meets I (g y) Q) \<Longrightarrow>
   meets I (case x of Inl e \<Rightarrow> f e | Inr y \<Rightarrow> g y) Q"
  by (cases x) simp_all

lemma meets_case_store_error:
  "meets I a Q \<Longrightarrow> meets I b Q \<Longrightarrow> meets I c Q \<Longrightarrow> meets I g Q \<Longrightarrow>
   meets I (case e of ErrNotFound \<Rightarrow> a | ErrConflict \<Rightarrow> b | ErrStore \<Rightarrow> c | ErrEngine \<Rightarrow> g) Q"
  by (cases e) auto

lemma target_access_sound:
  "meets (at_db d) (userHasTargetAccess tgt user role)
     (\<lambda>ok. ok \<longrightarrow> role \<in> {''owner'', ''admin''} \<or> (tgt, user) \<in> set (repo_members d))"
  unfolding userHasTargetAccess_def ListReposByUser_def
  by (intro meets_if meets_bind [OF at_select] meets_ret) (simp, simp split: sum.split, force)

definition user_permitted :: "link_tables \<Rightarrow> uuid \<Rightarrow> uuid \<Rightarrow> uuid \<Rightarrow> string \<Rightarrow> bool" where
  "user_permitted d org_id user tgt action \<longleftrightarrow> (\<exists>m\<in>set (org_members d).
     om_org m = org_id \<and> om_user m = user \<and> action_level action \<le> role_level (om_role m) \<and>
     (action \<in> {''cross_repo.search'', ''cross_repo.file_read''} \<longrightarrow>
        om_role m \<in> {''owner'', ''admin''} \<or> (tgt, user) \<in> set (repo_members d)))"

lemma authorize_user_sound:
  "meets (at_db d) (authorize_user org_id user tgt action) (\<lambda>r. r = Allow \<longrightarrow> user_permitted d org_id user tgt action)"
proof -
  have "user_permitted d org_id user tgt action"
    if "List.find (\<lambda>m. om_org m = org_id \<and> om_user m = user) (org_members d) = Some m"
      and "\<not> (om_role m = ''viewer'' \<and> action \<noteq> ActionMetadata \<and> action \<noteq> ActionGraphView)"
      and "RequiresTargetRepoAccess action \<longrightarrow> om_role m \<in> {''owner'', ''admin''} \<or> (tgt, user) \<in> set (repo_members d)"
    for m
    unfolding user_permitted_def
    using find_Some_in [OF that(1)] that(2,3) viewer_level [of action "om_role m"]
    by (intro bexI [of _ m]) (simp_all add: RequiresTargetRepoAccess_def)
  then show ?thesis
    unfolding authorize_user_def GetMember_def
    by (intro meets_bind [OF at_fetch] meets_bind [OF target_access_sound] meets_if meets_ret meets_case_sum
        meets_case_store_error) auto
qed

lemma authorize_link_sound:
  "meets (at_db d) (authorize_link org_id user src tgt action)
     (\<lambda>r. r = Allow \<longrightarrow> user_permitted d org_id user tgt action \<and>
        (\<exists>l\<in>set (links d). link_key l = (org_id, src, tgt) \<and> AllowsAction l action))"
  unfolding authorize_link_def GetByRepos_def
  by (intro meets_bind [OF at_fetch] meets_if meets_ret meets_case_sum meets_case_store_error
      meets_weaken [OF authorize_user_sound]) (auto dest: find_Some_in)

lemma permitted_alt:
  "permitted d user src tgt action \<longleftrightarrow> (\<exists>a\<in>set (xrepos d). \<exists>b\<in>set (xrepos d). \<exists>g\<in>set (orgs d).
     xr_id a = src \<and> xr_id b = tgt \<and> xr_org a = xr_org b \<and> og_id g = xr_org a \<and> IsOrgCrossRepoEnabled g \<and>
     user_permitted d (xr_org a) user tgt action \<and>
     (\<exists>l\<in>set (links d). link_key l = (xr_org a, src, tgt) \<and> AllowsAction l action))"
  unfolding permitted_def user_permitted_def AllowsAction_level by blast

lemma permittedI:
  assumes "List.find (\<lambda>r. xr_id r = src) (xrepos d) = Some a" "List.find (\<lambda>r. xr_id r = tgt) (xrepos d) = Some b"
    and "List.find (\<lambda>o'. og_id o' = xr_org b) (orgs d) = Some g"
    and "xr_org a = xr_org b" "IsOrgCrossRepoEnabled g"
    and "user_permitted d (xr_org b) user tgt action"
    and "\<exists>l\<in>set (links d). link_key l = (xr_org b, src, tgt) \<and> AllowsAction l action"
  shows "permitted d user src tgt action"
  unfolding permitted_alt
  using find_Some_in [OF assms(1)] find_Some_in [OF assms(2)] assms(4)
    find_Some_in [OF assms(3), folded assms(4)] assms(5-7) [folded assms(4)] by blast

lemma Authorize_sound:
  "meets (at_db d) (Authorize user src tgt action) (\<lambda>r. r = Allow \<longrightarrow> permitted d user src tgt action)"
  unfolding Authorize_def RepoGetByID_def OrgGetByID_def
  by (intro meets_bind [OF at_fetch] meets_if meets_ret meets_case_sum meets_weaken [OF authorize_link_sound])
    (auto intro: permittedI)

text \<open>Without failures, permitted means \<open>Allow\<close>.\<close>

lemma authorize_user_complete:
  assumes "keys_ok (x_db s)" and "x_faults s = []" and "user_permitted (x_db s) org_id user tgt action"
  shows "run_state (authorize_user org_id user tgt action) s = (Allow, s)"
proof -
  obtain m where m: "m \<in> set (org_members (x_db s))" "om_org m = org_id" "om_user m = user"
    and lev: "action_level action \<le> role_level (om_role m)"
    and acc: "action \<in> {''cross_repo.search'', ''cross_repo.file_read''} \<longrightarrow>
      om_role m \<in> {''owner'', ''admin''} \<or> (tgt, user) \<in> set (repo_members (x_db s))"
    using assms(3) unfolding user_permitted_def by blast
  have "List.find (\<lambda>m. om_org m = org_id \<and> om_user m = user) (org_members (x_db s)) = Some m"
    using assms(1) m by (intro find_member) (simp_all add: keys_ok_def)
  moreover have "\<not> (om_role m = ''viewer'' \<and> action \<noteq> ActionMetadata \<and> action \<noteq> ActionGraphView)"
    using lev viewer_level by blast
  moreover have "run_state (userHasTargetAccess tgt user (om_role m)) s = (True, s)"
    if "RequiresTargetRepoAccess action"
  proof -
    have "om_role m \<in> {''owner'', ''admin''} \<or> tgt \<in> set (map fst (filter (\<lambda>(r, u). u = user) (repo_members (x_db s))))"
      using acc that by (auto simp: RequiresTargetRepoAccess_def image_iff)
    then show ?thesis
      by (simp only: userHasTargetAccess_def ListReposByUser_def) (auto simp: assms(2))
  qed
  ultimately show ?thesis
    by (simp add: authorize_user_def GetMember_def assms(2) del: de_Morgan_conj)
qed

lemma Authorize_complete:
  assumes "keys_ok (x_db s)" and "x_faults s = []" and "permitted (x_db s) user src tgt action"
  shows "run_state (Authorize user src tgt action) s = (Allow, s)"
proof -
  obtain a b g l where a: "a \<in> set (xrepos (x_db s))" "xr_id a = src"
    and b: "b \<in> set (xrepos (x_db s))" "xr_id b = tgt" "xr_org a = xr_org b"
    and g: "g \<in> set (orgs (x_db s))" "og_id g = xr_org a" "IsOrgCrossRepoEnabled g"
    and u: "user_permitted (x_db s) (xr_org a) user tgt action"
    and l: "l \<in> set (links (x_db s))" "link_key l = (xr_org a, src, tgt)" "AllowsAction l action"
    using assms(3) unfolding permitted_alt by blast
  have "List.find (\<lambda>r. xr_id r = src) (xrepos (x_db s)) = Some a"
    "List.find (\<lambda>r. xr_id r = tgt) (xrepos (x_db s)) = Some b"
    "List.find (\<lambda>o'. og_id o' = xr_org b) (orgs (x_db s)) = Some g"
    "List.find (\<lambda>l. link_key l = (xr_org b, src, tgt)) (links (x_db s)) = Some l"
    using assms(1) a b g l by (auto simp: keys_ok_def intro: find_key)
  with b(3) g(3) IsActive_level [OF l(3)] l(3) u show ?thesis
    by (simp add: Authorize_def RepoGetByID_def OrgGetByID_def authorize_link_def GetByRepos_def assms(2)
        authorize_user_complete [OF assms(1,2)])
qed

lemma Authorize_no_faults:
  assumes "keys_ok (x_db s)" and "x_faults s = []"
  shows "fst (run_state (Authorize user src tgt action) s) = Allow \<longleftrightarrow> permitted (x_db s) user src tgt action"
  using meetsD [OF Authorize_sound, of "x_db s" s] Authorize_complete [OF assms]
  by (auto simp: at_db_def)

end
