(* ===== verification/CrossRepoCorrect.thy ===== *)
theory CrossRepoCorrect
  imports CrossRepoAPI CrossRepoAuth
begin

text \<open>
  What the cross-repository component promises: what the engine is asked, the invariant of the link
  tables, the budget of links and the record of link events.
\<close>

section \<open>What the engine is asked\<close>

text \<open>
  A call is in order for a user when it is a search or a question about dependencies whose targets the
  user may reach from the source, or a graph of repositories each of which the user may view towards
  some other repository.  A manifest is never in order: nothing is checked before it is asked for.
\<close>

fun call_allowed :: "link_tables \<Rightarrow> uuid \<Rightarrow> engine_call \<Rightarrow> bool" where
  "call_allowed d user (EngSearch q rs symbols cfg) \<longleftrightarrow> (\<exists>src ts. rs = src # ts \<and> ts \<noteq> [] \<and>
     (\<forall>t\<in>set ts. permitted d user src t ''cross_repo.search''))"
| "call_allowed d user (EngManifest repo) \<longleftrightarrow> False"
| "call_allowed d user (EngDeps src ts depth) \<longleftrightarrow> ts \<noteq> [] \<and>
     (\<forall>t\<in>set ts. permitted d user src t ''cross_repo.graph_view'')"
| "call_allowed d user (EngGraph org_id rs force) \<longleftrightarrow> rs \<noteq> [] \<and>
     (\<forall>r\<in>set rs. \<exists>t. t \<noteq> r \<and> permitted d user r t ''cross_repo.graph_view'')"

definition asked_ok :: "link_tables \<Rightarrow> uuid \<Rightarrow> engine_call list \<Rightarrow> xstate \<Rightarrow> bool" where
  "asked_ok d user old s \<longleftrightarrow>
     x_db s = d \<and> (\<exists>cs. x_engine s = old @ cs \<and> (\<forall>c\<in>set cs. call_allowed d user c))"

lemma quiet_asked: "quiet s t \<Longrightarrow> asked_ok d user old s \<Longrightarrow> asked_ok d user old t"
  by (simp add: asked_ok_def quiet_fields)

lemma asked_read: "meets (at_db d) m Q \<Longrightarrow> stable quiet m \<Longrightarrow> meets (asked_ok d user old) m Q"
  using quiet_asked by (fastforce simp: meets_def stable_def at_db_def asked_ok_def)

lemma asked_quiet: "stable quiet m \<Longrightarrow> meets (asked_ok d user old) m (\<lambda>_. True)"
  using quiet_asked by (fastforce simp: meets_def stable_def)

lemma asked_engine: "call_allowed d user c \<Longrightarrow> meets (asked_ok d user old) (engine_do c f) (\<lambda>_. True)"
  by (fastforce simp: meets_def asked_ok_def engine_do_def)

lemmas asked_authorize = asked_read [OF Authorize_sound reads_authorizer(1)]

lemma asked_each:
  assumes "\<forall>t\<in>set (fst acc). permitted d user src t action"
  shows "meets (asked_ok d user old) (authorize_each user src action ts acc)
    (\<lambda>r. \<forall>t\<in>set (fst r). permitted d user src t action)"
  using assms
proof (induction ts arbitrary: acc)
  case Nil
  then show ?case by (simp add: meets_ret)
next
  case (Cons t ts)
  show ?case
    unfolding authorize_each.simps
    by (rule meets_bind [OF asked_authorize], rule Cons.IH) (use Cons.prems in \<open>auto split: decision.splits\<close>)
qed

lemma asked_count:
  assumes "\<forall>t\<in>set (fst acc). permitted d user src t ActionGraphView"
  shows "meets (asked_ok d user old) (count_allowed user src ts acc)
    (\<lambda>r. \<forall>t\<in>set (fst r). permitted d user src t ActionGraphView)"
  using assms
proof (induction ts arbitrary: acc)
  case Nil
  then show ?case by (simp add: meets_ret)
next
  case (Cons t ts)
  show ?case
    unfolding count_allowed.simps
    by (rule meets_bind [OF asked_authorize], rule Cons.IH) (use Cons.prems in auto)
qed

lemma asked_sees:
  "meets (asked_ok d user old) (sees_other user r xs) (\<lambda>ok. ok \<longrightarrow> (\<exists>t. t \<noteq> r \<and> permitted d user r t ActionGraphView))"
proof (induction xs)
  case Nil
  show ?case by (simp add: meets_ret)
next
  case (Cons x xs)
  then show ?case
    unfolding sees_other.simps by (intro meets_if meets_bind [OF asked_authorize] meets_ret) auto
qed

lemma asked_graph:
  assumes "\<forall>r\<in>set acc. \<exists>t. t \<noteq> r \<and> permitted d user r t ActionGraphView"
  shows "meets (asked_ok d user old) (graph_repos user everyone rs acc)
    (\<lambda>res. \<forall>r\<in>set res. \<exists>t. t \<noteq> r \<and> permitted d user r t ActionGraphView)"
  using assms
proof (induction rs arbitrary: acc)
  case Nil
  then show ?case by (simp add: meets_ret)
next
  case (Cons r rs)
  show ?case
    unfolding graph_repos.simps
    by (rule meets_bind [OF asked_sees], rule Cons.IH) (use Cons.prems in \<open>auto simp: add_new_def\<close>)
qed

lemma reads_names: "stable quiet (resolveRepoNames us is)"
  by (induction "is") (auto intro!: quietly.stable_combinators reads_store)

lemma reads_targets: "stable quiet (target_ids src given)" "stable quiet (graph_candidates g given)"
  unfolding target_ids_def graph_candidates_def by (intro quietly.stable_combinators reads_store)+

lemma meets_case_prod: "(\<And>a b. x = (a, b) \<Longrightarrow> meets I (f a b) Q) \<Longrightarrow> meets I (case x of (a, b) \<Rightarrow> f a b) Q"
  by (cases x) simp

lemma meets_true: "Q = (\<lambda>_. True) \<Longrightarrow> meets I (ret x) Q"
  by (simp add: meets_ret)

lemma asked_Search: "meets (asked_ok d user old) (Search us eng user src q symbols cfg) (\<lambda>_. True)"
  unfolding Search_def
  by (intro meets_bind [OF asked_quiet] meets_bind [OF asked_each] meets_bind [OF asked_engine] meets_case_sum
      meets_case_prod meets_if reads_store reads_names meets_ret TrueI) auto

lemma asked_GetDependencies: "meets (asked_ok d user old) (GetDependencies eng user src given depth) (\<lambda>_. True)"
  unfolding GetDependencies_def
  by (intro meets_bind [OF asked_quiet] meets_bind [OF asked_count] meets_bind [OF asked_engine] meets_case_sum
      meets_case_prod meets_if reads_targets meets_ret TrueI) auto

lemma asked_BuildGraph: "meets (asked_ok d user old) (BuildGraph eng user g given force) (\<lambda>_. True)"
  unfolding BuildGraph_def
  by (intro meets_bind [OF asked_quiet] meets_bind [OF asked_graph] meets_bind [OF asked_engine] meets_case_sum
      meets_case_prod meets_if reads_targets meets_ret TrueI) auto

section \<open>Effects of link management\<close>

definition hoare :: "('s \<Rightarrow> bool) \<Rightarrow> ('s, 'a) state \<Rightarrow> ('a \<Rightarrow> 's \<Rightarrow> bool) \<Rightarrow> bool" where
  "hoare P m Q \<longleftrightarrow> (\<forall>s. P s \<longrightarrow> Q (fst (run_state m s)) (snd (run_state m s)))"

lemma hoareD: "hoare P m Q \<Longrightarrow> P s \<Longrightarrow> Q (fst (run_state m s)) (snd (run_state m s))"
  by (simp add: hoare_def)

lemma hoare_ret: "(\<And>s. P s \<Longrightarrow> Q x s) \<Longrightarrow> hoare P (ret x) Q"
  by (simp add: hoare_def)

lemma hoare_bind: "hoare P m R \<Longrightarrow> (\<And>x. hoare (R x) (f x) Q) \<Longrightarrow> hoare P (State_Monad.bind m f) Q"
  by (fastforce simp: hoare_def split: prod.splits)

lemma hoare_pre: "hoare P' m Q \<Longrightarrow> (\<And>s. P s \<Longrightarrow> P' s) \<Longrightarrow> hoare P m Q"
  by (simp add: hoare_def)

lemma hoare_ex: "(\<And>x. hoare (P x) m Q) \<Longrightarrow> hoare (\<lambda>s. \<exists>x. P x s) m Q"
  by (auto simp: hoare_def)

lemma hoare_conj: "(c \<Longrightarrow> hoare P m Q) \<Longrightarrow> hoare (\<lambda>s. c \<and> P s) m Q"
  by (auto simp: hoare_def)

text \<open>States that agree up to the fault script.\<close>

definition like :: "xstate \<Rightarrow> xstate \<Rightarrow> bool" where
  "like s t \<longleftrightarrow> steady t = steady s"

lemma like_refl [simp]: "like s s"
  by (simp add: like_def)

lemma like_fields:
  "like s t \<Longrightarrow> x_db t = x_db s \<and> x_audit t = x_audit s \<and> x_pending t = x_pending s \<and> x_engine t = x_engine s"
  by (simp add: like_def steady_def)

lemma hoare_read:
  assumes "meets (at_db (x_db s0)) m R" and "stable quiet m"
  shows "hoare (like s0) m (\<lambda>r t. R r \<and> like s0 t)"
  unfolding hoare_def
proof (intro allI impI)
  fix s assume s: "like s0 s"
  then have "at_db (x_db s0) s" by (simp add: at_db_def like_fields)
  from meetsD [OF assms(1) this] stableD [OF assms(2), of s] s
  show "R (fst (run_state m s)) \<and> like s0 (snd (run_state m s))"
    by (simp add: quiet_def like_def)
qed

lemma hoare_exec:
  "hoare (like s0) (xexec f) (\<lambda>r t. case r of
     Inl e \<Rightarrow> like s0 t | Inr _ \<Rightarrow> \<exists>d. f (x_db s0) = Inr d \<and> like (s0\<lparr>x_db := d\<rparr>) t)"
  unfolding hoare_def
proof (intro allI impI)
  fix s assume "like s0 s"
  then show "case fst (run_state (xexec f) s) of
     Inl e \<Rightarrow> like s0 (snd (run_state (xexec f) s))
   | Inr _ \<Rightarrow> \<exists>d. f (x_db s0) = Inr d \<and> like (s0\<lparr>x_db := d\<rparr>) (snd (run_state (xexec f) s))"
    by (cases rule: x_io_cases [of s]; cases "f (x_db s0)")
      (auto simp: xexec_def like_def steady_def split_beta)
qed

lemma hoare_audit:
  "hoare (like s0) (log_audit a i) (\<lambda>_. like (s0\<lparr>x_audit := x_audit s0 @ [(a, i)]\<rparr>))"
  by (simp add: hoare_def log_audit_def like_def steady_def)

definition event_of :: "repo_link \<Rightarrow> string \<Rightarrow> uuid \<Rightarrow> link_event" where
  "event_of l action actor = \<lparr>le_link = Some (lk_id l), le_org = lk_org l, le_source = lk_source l,
     le_target = lk_target l, le_action = action, le_actor = Some actor, le_created_at = 0\<rparr>"

definition logged :: "repo_link \<Rightarrow> string \<Rightarrow> uuid \<Rightarrow> xstate \<Rightarrow> xstate" where
  "logged l action actor s = s\<lparr>x_audit := x_audit s @ [(action, lk_id l)],
     x_pending := x_pending s @ [event_of l action actor]\<rparr>"

lemma hoare_log: "hoare (like s0) (logLinkEvent l a actor) (\<lambda>_. like (logged l a actor s0))"
  by (simp add: hoare_def logLinkEvent_def log_audit_def like_def steady_def logged_def event_of_def)

text \<open>The shapes of the handlers, for postconditions every failing answer meets.\<close>

locale handler_post =
  fixes s0 :: xstate and Q :: "'b resp \<Rightarrow> xstate \<Rightarrow> bool"
  assumes fail: "like s0 t \<Longrightarrow> Q (Fail n) t"
    and denied: "like (s0\<lparr>x_audit := x_audit s0 @ [(''crossrepo.access_denied'', i)]\<rparr>) t \<Longrightarrow> Q (Fail n) t"
begin

lemma post_fail: "hoare (like s0) (ret (Fail n)) Q"
  by (rule hoare_ret) (rule fail)

lemma post_if: "(c \<Longrightarrow> hoare (like s0) m Q) \<Longrightarrow> (\<not> c \<Longrightarrow> hoare (like s0) n Q) \<Longrightarrow> hoare (like s0) (if c then m else n) Q"
  by simp

lemma post_user: "(\<And>i. u = Some i \<Longrightarrow> hoare (like s0) (f i) Q) \<Longrightarrow> hoare (like s0) (with_user u f) Q"
  by (cases u) (simp_all add: with_user_def post_fail)

lemma post_id: "(\<And>i. parse_uuid x = Some i \<Longrightarrow> hoare (like s0) (f i) Q) \<Longrightarrow> hoare (like s0) (with_id x f) Q"
  by (cases "parse_uuid x") (simp_all add: with_id_def post_fail)

lemma post_body: "(\<And>i. x = Some i \<Longrightarrow> hoare (like s0) (f i) Q) \<Longrightarrow> hoare (like s0) (with_body x f) Q"
  by (cases x) (simp_all add: with_body_def post_fail)

lemma post_status:
  assumes "meets (at_db (x_db s0)) m R" and "stable quiet m"
    and "\<And>x. R (Inr x) \<Longrightarrow> hoare (like s0) (f x) Q"
  shows "hoare (like s0) (or_status st m f) Q"
  unfolding or_status_def
proof (rule hoare_bind [OF hoare_read [OF assms(1,2)]])
  fix r show "hoare (\<lambda>t. R r \<and> like s0 t) (case r of Inl e \<Rightarrow> ret (Fail (st e)) | Inr x \<Rightarrow> f x) Q"
    using assms(3) by (cases r) (auto intro!: hoare_conj post_fail)
qed

lemma post_allowed:
  assumes "meets (at_db (x_db s0)) m R" and "stable quiet m"
    and "R Allow \<Longrightarrow> hoare (like s0) k Q"
  shows "hoare (like s0) (if_allowed i m k) Q"
  unfolding if_allowed_def
proof (rule hoare_bind [OF hoare_read [OF assms(1,2)]])
  fix d
  show "hoare (\<lambda>t. R d \<and> like s0 t) (case d of Deny reason \<Rightarrow>
      do { _ \<leftarrow> log_audit ''crossrepo.access_denied'' i; ret (Fail 403) } | Allow \<Rightarrow> k) Q"
    using assms(3)
    by (cases d) (auto intro!: hoare_conj hoare_bind [OF hoare_audit] hoare_ret denied)
qed

lemma post_write:
  assumes "\<And>d x. f (x_db s0) = Inr d \<Longrightarrow> hoare (like (s0\<lparr>x_db := d\<rparr>)) (k x) Q"
  shows "hoare (like s0) (or_status st (xexec f) k) Q"
  unfolding or_status_def
proof (rule hoare_bind [OF hoare_exec])
  fix r :: "store_error + unit"
  show "hoare (\<lambda>t. case r of Inl e \<Rightarrow> like s0 t | Inr _ \<Rightarrow> \<exists>d. f (x_db s0) = Inr d \<and> like (s0\<lparr>x_db := d\<rparr>) t)
     (case r of Inl e \<Rightarrow> ret (Fail (st e)) | Inr x \<Rightarrow> k x) Q"
    using assms by (cases r) (auto intro!: hoare_ex hoare_conj post_fail)
qed

lemmas post_shapes = post_fail post_if post_user post_id post_body

end

text \<open>Who manages links, and when the budget has room.\<close>

definition manages :: "link_tables \<Rightarrow> uuid \<Rightarrow> uuid \<Rightarrow> bool" where
  "manages d user org_id \<longleftrightarrow>
     (\<exists>g\<in>set (orgs d). og_id g = org_id \<and> IsOrgCrossRepoEnabled g) \<and>
     (\<exists>m\<in>set (org_members d). om_org m = org_id \<and> om_user m = user \<and> om_role m \<in> {''owner'', ''admin''})"

definition active_links :: "uuid \<Rightarrow> link_tables \<Rightarrow> nat" where
  "active_links org_id d = count_where (\<lambda>l. lk_org l = org_id \<and> lk_profile l \<noteq> ''none'') (links d)"

definition has_room :: "link_tables \<Rightarrow> uuid \<Rightarrow> bool" where
  "has_room d org_id \<longleftrightarrow> (\<exists>g\<in>set (orgs d). og_id g = org_id \<and>
     (GetOrgMaxLinks g \<le> 0 \<or> int (active_links org_id d) < GetOrgMaxLinks g))"

lemma AuthorizeLink_sound: "meets (at_db d) (AuthorizeLink user org_id) (\<lambda>r. r = Allow \<longrightarrow> manages d user org_id)"
  unfolding AuthorizeLink_def OrgGetByID_def GetMember_def
  by (intro meets_bind [OF at_fetch] meets_if meets_ret meets_case_sum)
    (auto simp: manages_def dest!: find_Some_in split: sum.splits store_error.splits if_splits)

lemma CheckOrgLinkBudget_sound: "meets (at_db d) (CheckOrgLinkBudget org_id) (\<lambda>r. r = Allow \<longrightarrow> has_room d org_id)"
  unfolding CheckOrgLinkBudget_def OrgGetByID_def CountByOrg_def Let_def
  by (intro meets_bind [OF at_fetch] meets_bind [OF at_select] meets_if meets_ret meets_case_sum)
    (auto simp: has_room_def active_links_def dest!: find_Some_in split: sum.splits)

lemma RepoGetByID_sound:
  "meets (at_db d) (RepoGetByID i) (\<lambda>r. \<forall>x. r = Inr x \<longrightarrow> x \<in> set (xrepos d) \<and> xr_id x = i)"
  unfolding RepoGetByID_def by (rule meets_weaken [OF at_fetch]) (auto dest: find_Some_in)

lemma LinkGetByID_sound:
  "meets (at_db d) (LinkGetByID i) (\<lambda>r. \<forall>x. r = Inr x \<longrightarrow> x \<in> set (links d) \<and> lk_id x = i)"
  unfolding LinkGetByID_def by (rule meets_weaken [OF at_fetch]) (auto dest: find_Some_in)

text \<open>The effect of the three handlers that write.\<close>

definition refused :: "xstate \<Rightarrow> xstate \<Rightarrow> bool" where
  "refused s0 t \<longleftrightarrow> like s0 t \<or> (\<exists>i. like (s0\<lparr>x_audit := x_audit s0 @ [(''crossrepo.access_denied'', i)]\<rparr>) t)"

definition ends_in_org :: "link_tables \<Rightarrow> repo_link \<Rightarrow> bool" where
  "ends_in_org d l \<longleftrightarrow> (\<exists>a\<in>set (xrepos d). xr_id a = lk_source l \<and> xr_org a = lk_org l) \<and>
     (\<exists>b\<in>set (xrepos d). xr_id b = lk_target l \<and> xr_org b = lk_org l)"

definition created :: "xstate \<Rightarrow> uuid option \<Rightarrow> uuid \<Rightarrow> repo_link resp \<Rightarrow> xstate \<Rightarrow> bool" where
  "created s0 u new_id r t = (case r of
       Fail n \<Rightarrow> refused s0 t
     | Reply n l \<Rightarrow> \<exists>user d. u = Some user \<and> manages (x_db s0) user (lk_org l) \<and> has_room (x_db s0) (lk_org l) \<and>
         ends_in_org (x_db s0) l \<and> lk_id l = new_id \<and> insert_link l (x_db s0) = Inr d \<and>
         like (logged l ''crossrepo.link_created'' user (s0\<lparr>x_db := d\<rparr>)) t)"

definition updated :: "xstate \<Rightarrow> uuid option \<Rightarrow> time \<Rightarrow> repo_link resp \<Rightarrow> xstate \<Rightarrow> bool" where
  "updated s0 u now r t = (case r of
       Fail n \<Rightarrow> refused s0 t
     | Reply n l' \<Rightarrow> \<exists>user l d. u = Some user \<and> l \<in> set (links (x_db s0)) \<and> manages (x_db s0) user (lk_org l) \<and>
         l' = l\<lparr>lk_profile := lk_profile l', lk_label := lk_label l'\<rparr> \<and>
         update_link (lk_id l) (lk_profile l') (lk_label l') now (x_db s0) = Inr d \<and>
         like (logged l ''crossrepo.link_updated'' user (s0\<lparr>x_db := d\<rparr>)) t)"

definition deleted :: "xstate \<Rightarrow> uuid option \<Rightarrow> unit resp \<Rightarrow> xstate \<Rightarrow> bool" where
  "deleted s0 u r t = (case r of
       Fail n \<Rightarrow> refused s0 t
     | Reply n _ \<Rightarrow> \<exists>user l d. u = Some user \<and> l \<in> set (links (x_db s0)) \<and> manages (x_db s0) user (lk_org l) \<and>
         delete_link (lk_id l) (x_db s0) = Inr d \<and>
         like (logged l ''crossrepo.link_deleted'' user (s0\<lparr>x_db := d\<rparr>)) t)"

interpretation create: handler_post s0 "created s0 u new_id" for s0 u new_id
  by unfold_locales (auto simp: created_def refused_def)

interpretation update: handler_post s0 "updated s0 u now" for s0 u now
  by unfold_locales (auto simp: updated_def refused_def)

interpretation delete: handler_post s0 "deleted s0 u" for s0 u
  by unfold_locales (auto simp: deleted_def refused_def)

lemma or_status_create:
  "or_status st (LinkCreate l i now) k =
   or_status st (xexec (insert_link (l\<lparr>lk_id := i, lk_created_at := now, lk_updated_at := now\<rparr>)))
     (\<lambda>_. k (l\<lparr>lk_id := i, lk_created_at := now, lk_updated_at := now\<rparr>))"
  by (rule state.expand, rule ext) (simp add: or_status_def LinkCreate_def Let_def split: sum.splits prod.splits)

lemma hoare_log_reply:
  assumes "\<And>t. like (logged l a user s1) t \<Longrightarrow> Q (Reply n x) t"
  shows "hoare (like s1) (do { _ \<leftarrow> logLinkEvent l a user; ret (Reply n x) }) Q"
  by (rule hoare_bind [OF hoare_log]) (auto intro!: hoare_ret assms)

lemma insert_and_log_effect:
  assumes "u = Some user" "a \<in> set (xrepos (x_db s0))" "xr_id a = src"
    and "manages (x_db s0) user (xr_org a)" "has_room (x_db s0) (xr_org a)"
  shows "hoare (like s0) (insert_and_log user a src tgt profile label new_id now) (created s0 u new_id)"
  unfolding insert_and_log_def
proof (intro create.post_status [OF RepoGetByID_sound reads_store(1)] create.post_if create.post_fail)
  fix b
  let ?l = "\<lparr>lk_id = new_id, lk_org = xr_org a, lk_source = src, lk_target = tgt, lk_profile = profile,
    lk_label = label, lk_created_by = user, lk_created_at = now, lk_updated_at = now\<rparr>"
  assume b: "\<forall>x. Inr b = Inr x \<longrightarrow> x \<in> set (xrepos (x_db s0)) \<and> xr_id x = tgt" "\<not> xr_org a \<noteq> xr_org b"
  have "ends_in_org (x_db s0) ?l" using assms(2,3) b by (auto simp: ends_in_org_def)
  then show "hoare (like s0) (or_status (\<lambda>e. if e = ErrConflict then 409 else 500)
       (LinkCreate \<lparr>lk_id = uuid_nil, lk_org = xr_org a, lk_source = src, lk_target = tgt,
          lk_profile = profile, lk_label = label, lk_created_by = user, lk_created_at = time_zero,
          lk_updated_at = time_zero\<rparr> new_id now)
       (\<lambda>l. do { _ \<leftarrow> logLinkEvent l ''crossrepo.link_created'' user; ret (Reply 201 l) })) (created s0 u new_id)"
    unfolding or_status_create
    by (intro create.post_write hoare_log_reply) (use assms(1,4,5) in \<open>simp add: created_def\<close>)
qed

lemma CreateLink_effect: "hoare (like s0) (CreateLink u repo body new_id now) (created s0 u new_id)"
  unfolding CreateLink_def Let_def
  by (intro create.post_shapes create.post_status [OF RepoGetByID_sound reads_store(1)]
      create.post_allowed [OF AuthorizeLink_sound reads_authorizer(2)]
      hoare_bind [OF hoare_read [OF CheckOrgLinkBudget_sound reads_authorizer(3)]] hoare_conj insert_and_log_effect)
    auto

lemma UpdateLink_effect: "hoare (like s0) (UpdateLink u link body now) (updated s0 u now)"
  unfolding UpdateLink_def Let_def UpdateShareProfile_def split_beta
  by (intro update.post_shapes update.post_status [OF LinkGetByID_sound reads_store(5)]
      update.post_allowed [OF AuthorizeLink_sound reads_authorizer(2)] update.post_write hoare_log_reply)
    (auto simp: updated_def)

lemma DeleteLink_effect: "hoare (like s0) (DeleteLink u link) (deleted s0 u)"
  unfolding DeleteLink_def LinkDelete_def
  by (intro delete.post_shapes delete.post_status [OF LinkGetByID_sound reads_store(5)]
      delete.post_allowed [OF AuthorizeLink_sound reads_authorizer(2)] delete.post_write hoare_log_reply)
    (auto simp: deleted_def)

end
