(* ===== verification/CrossRepoSystem.thy ===== *)
theory CrossRepoSystem
  imports CrossRepoCorrect ServerSystem
begin

text \<open>
  The cross-repository component as a transition system: requests of any user, the goroutines that
  write link events, and the statements by which the other endpoints change organisations, members,
  repositories and grants, the deletion of a repository with its cascade among them.
\<close>

section \<open>Changes by other endpoints\<close>

text \<open>
  The statements of \<open>org_repo.go\<close>, \<open>repo_repo.go\<close> and \<open>repo_member_repo.go\<close> on the tables the links refer
  to, as far as their columns are modelled here: slugs, external identifiers and users, whose keys can only
  make a statement fail, are left out.  No statement moves a repository to another organisation or deletes
  an organisation.
\<close>

definition add_org :: "org \<Rightarrow> link_tables \<Rightarrow> store_error + link_tables" where
  "add_org g d = (if og_id g \<in> set (map og_id (orgs d)) then Inl ErrStore else Inr (d\<lparr>orgs := orgs d @ [g]\<rparr>))"

definition set_org :: "uuid \<Rightarrow> (string \<rightharpoonup> setting) option \<Rightarrow> link_tables \<Rightarrow> store_error + link_tables" where
  "set_org i m d = (if i \<notin> set (map og_id (orgs d)) then Inl ErrNotFound
     else Inr (d\<lparr>orgs := update_where (\<lambda>g. og_id g = i) (\<lambda>g. g\<lparr>og_settings := m\<rparr>) (orgs d)\<rparr>))"

definition put_org_member :: "org_member \<Rightarrow> link_tables \<Rightarrow> store_error + link_tables" where
  "put_org_member m d =
     (let mine = (\<lambda>x. (om_org x, om_user x) = (om_org m, om_user m)) in
      if om_org m \<notin> set (map og_id (orgs d)) then Inl ErrStore
      else if \<exists>x\<in>set (org_members d). mine x then
        Inr (d\<lparr>org_members := update_where mine (\<lambda>x. x\<lparr>om_role := om_role m\<rparr>) (org_members d)\<rparr>)
      else Inr (d\<lparr>org_members := org_members d @ [m]\<rparr>))"

definition drop_org_member :: "uuid \<Rightarrow> uuid \<Rightarrow> link_tables \<Rightarrow> store_error + link_tables" where
  "drop_org_member g u d =
     (if \<not> (\<exists>m\<in>set (org_members d). om_org m = g \<and> om_user m = u) then Inl ErrNotFound
      else Inr (d\<lparr>org_members := delete_where (\<lambda>m. om_org m = g \<and> om_user m = u) (org_members d)\<rparr>))"

definition add_xrepo :: "xrepo \<Rightarrow> link_tables \<Rightarrow> store_error + link_tables" where
  "add_xrepo r d =
     (if xr_id r \<in> set (map xr_id (xrepos d)) \<or> xr_org r \<notin> set (map og_id (orgs d)) then Inl ErrStore
      else Inr (d\<lparr>xrepos := xrepos d @ [r]\<rparr>))"

definition set_xrepo :: "uuid \<Rightarrow> string \<Rightarrow> string \<Rightarrow> link_tables \<Rightarrow> store_error + link_tables" where
  "set_xrepo i owner name d = (if i \<notin> set (map xr_id (xrepos d)) then Inl ErrNotFound
     else Inr (d\<lparr>xrepos := update_where (\<lambda>r. xr_id r = i) (\<lambda>r. r\<lparr>xr_owner := owner, xr_name := name\<rparr>) (xrepos d)\<rparr>))"

text \<open>DELETE of a repository: its grants and links go with it, and events of those links lose their reference.\<close>

definition drop_xrepo :: "uuid \<Rightarrow> link_tables \<Rightarrow> store_error + link_tables" where
  "drop_xrepo i d = (if i \<notin> set (map xr_id (xrepos d)) then Inl ErrNotFound
     else (let gone = (\<lambda>l. lk_source l = i \<or> lk_target l = i);
               ids = set (map lk_id (filter gone (links d))) in
       Inr (d\<lparr>xrepos := delete_where (\<lambda>r. xr_id r = i) (xrepos d),
         repo_members := delete_where (\<lambda>(r, u). r = i) (repo_members d),
         links := delete_where gone (links d),
         link_events := update_where (\<lambda>e. \<exists>l\<in>ids. le_link e = Some l) (\<lambda>e. e\<lparr>le_link := None\<rparr>) (link_events d)\<rparr>)))"

definition put_repo_member :: "uuid \<Rightarrow> uuid \<Rightarrow> link_tables \<Rightarrow> store_error + link_tables" where
  "put_repo_member r u d = (if r \<notin> set (map xr_id (xrepos d)) then Inl ErrStore
     else Inr (d\<lparr>repo_members := List.insert (r, u) (repo_members d)\<rparr>))"

definition drop_repo_member :: "uuid \<Rightarrow> uuid \<Rightarrow> link_tables \<Rightarrow> store_error + link_tables" where
  "drop_repo_member r u d = (if (r, u) \<notin> set (repo_members d) then Inl ErrNotFound
     else Inr (d\<lparr>repo_members := delete_where (\<lambda>m. m = (r, u)) (repo_members d)\<rparr>))"

datatype store_change =
    ChAddOrg org
  | ChSetOrg uuid "(string \<rightharpoonup> setting) option"
  | ChPutMember org_member
  | ChDropMember uuid uuid
  | ChAddRepo xrepo
  | ChSetRepo uuid string string
  | ChDropRepo uuid
  | ChPutGrant uuid uuid
  | ChDropGrant uuid uuid

fun change_tables :: "store_change \<Rightarrow> link_tables \<Rightarrow> store_error + link_tables" where
  "change_tables (ChAddOrg g) d = add_org g d"
| "change_tables (ChSetOrg i m) d = set_org i m d"
| "change_tables (ChPutMember m) d = put_org_member m d"
| "change_tables (ChDropMember g u) d = drop_org_member g u d"
| "change_tables (ChAddRepo r) d = add_xrepo r d"
| "change_tables (ChSetRepo i owner name) d = set_xrepo i owner name d"
| "change_tables (ChDropRepo i) d = drop_xrepo i d"
| "change_tables (ChPutGrant r u) d = put_repo_member r u d"
| "change_tables (ChDropGrant r u) d = drop_repo_member r u d"

lemmas change_defs = add_org_def set_org_def put_org_member_def drop_org_member_def add_xrepo_def set_xrepo_def
  put_repo_member_def drop_repo_member_def

section \<open>Steps\<close>

definition used_ids :: "xstate \<Rightarrow> uuid set" where
  "used_ids s = lk_id ` set (links (x_db s)) \<union> snd ` set (x_audit s)"

definition run_goroutine :: "nat \<Rightarrow> time \<Rightarrow> xstate \<Rightarrow> xstate" where
  "run_goroutine n now s = snd (run_state (LogEvent (x_pending s ! n) now)
     (s\<lparr>x_pending := take n (x_pending s) @ drop (Suc n) (x_pending s)\<rparr>))"

text \<open>
  A run starts in a deployment that has no links yet, and new links get identifiers never used before.
\<close>

inductive link_reach ::
  "(uuid \<Rightarrow> string) \<Rightarrow> (string \<Rightarrow> uuid option) \<Rightarrow> 'r engine \<Rightarrow> xstate \<Rightarrow> bool"
  for us pu eng where
  start: "keys_ok d \<Longrightarrow> links d = [] \<Longrightarrow> link_events d = [] \<Longrightarrow>
     link_reach us pu eng \<lparr>x_db = d, x_audit = [], x_pending = [], x_engine = [], x_faults = fs\<rparr>"
| request: "link_reach us pu eng s \<Longrightarrow> new_id \<notin> used_ids s \<Longrightarrow>
     link_reach us pu eng (snd (run_state (link_handler us pu eng u req new_id now) s))"
| goroutine: "link_reach us pu eng s \<Longrightarrow> n < length (x_pending s) \<Longrightarrow>
     link_reach us pu eng (run_goroutine n now s)"
| other: "link_reach us pu eng s \<Longrightarrow> change_tables c (x_db s) = Inr d \<Longrightarrow> link_reach us pu eng (s\<lparr>x_db := d\<rparr>)"
| outage: "link_reach us pu eng s \<Longrightarrow> link_reach us pu eng (s\<lparr>x_faults := fs\<rparr>)"

section \<open>Invariants\<close>

definition link_ids :: "link_tables \<Rightarrow> uuid set" where
  "link_ids d = set (map lk_id (links d))"

definition row_ok :: "link_tables \<Rightarrow> repo_link \<Rightarrow> bool" where
  "row_ok d l \<longleftrightarrow> lk_source l \<noteq> lk_target l \<and> lk_profile l \<in> set ValidShareProfiles \<and>
     lk_org l \<in> set (map og_id (orgs d)) \<and> ends_in_org d l"

definition links_ok :: "link_tables \<Rightarrow> bool" where
  "links_ok d \<longleftrightarrow> keys_ok d \<and> (\<forall>l\<in>set (links d). row_ok d l) \<and>
     (\<forall>e\<in>set (link_events d). \<forall>i. le_link e = Some i \<longrightarrow> i \<in> link_ids d)"

definition trail_ok :: "xstate \<Rightarrow> bool" where
  "trail_ok s \<longleftrightarrow>
     (\<forall>e\<in>set (link_events (x_db s)). le_action e \<noteq> ''crossrepo.link_deleted'') \<and>
     (\<forall>e\<in>set (x_pending s). le_action e = ''crossrepo.link_deleted'' \<longrightarrow>
        (\<exists>i. le_link e = Some i \<and> i \<notin> link_ids (x_db s) \<and> i \<in> snd ` set (x_audit s)))"

definition link_inv :: "xstate \<Rightarrow> bool" where
  "link_inv s \<longleftrightarrow> links_ok (x_db s) \<and> trail_ok s"

lemma row_ok_cong: "orgs d' = orgs d \<Longrightarrow> xrepos d' = xrepos d \<Longrightarrow> row_ok d' l = row_ok d l"
  by (simp add: row_ok_def ends_in_org_def)

lemma link_inv_like: "like s t \<Longrightarrow> link_inv s \<Longrightarrow> link_inv t"
  by (simp add: link_inv_def trail_ok_def like_fields)

lemma link_inv_audit: "link_inv s \<Longrightarrow> link_inv (s\<lparr>x_audit := x_audit s @ xs\<rparr>)"
  by (fastforce simp: link_inv_def trail_ok_def)

lemma refused_inv: "refused s t \<Longrightarrow> link_inv s \<Longrightarrow> link_inv t"
  unfolding refused_def by (blast intro: link_inv_like link_inv_audit)

lemma insert_link_ok:
  assumes "insert_link l d = Inr d'" and "links_ok d" and "ends_in_org d l"
  shows "links_ok d' \<and> link_ids d' = insert (lk_id l) (link_ids d) \<and> link_events d' = link_events d"
proof -
  have d': "d' = d\<lparr>links := links d @ [l]\<rparr>" and row: "row_ok d l"
    and key: "link_key l \<notin> set (map link_key (links d))" "lk_id l \<notin> set (map lk_id (links d))"
    using assms(1,3) by (auto simp: insert_link_def row_ok_def split: if_splits)
  have "row_ok d' x = row_ok d x" for x by (rule row_ok_cong) (simp_all add: d')
  with assms(2) row key show ?thesis
    by (auto simp: links_ok_def keys_ok_def link_ids_def d')
qed

lemma update_link_ok:
  assumes "update_link i p lb now d = Inr d'" and "links_ok d"
  shows "links_ok d' \<and> link_ids d' = link_ids d \<and> link_events d' = link_events d"
proof -
  let ?f = "\<lambda>l. l\<lparr>lk_profile := p, lk_label := lb, lk_updated_at := now\<rparr>"
  have d': "d' = d\<lparr>links := update_where (\<lambda>l. lk_id l = i) ?f (links d)\<rparr>" and p: "p \<in> set ValidShareProfiles"
    using assms(1) by (auto simp: update_link_def split: if_splits)
  have ids: "map lk_id (links d') = map lk_id (links d)" and keys: "map link_key (links d') = map link_key (links d)"
    by (simp_all add: d' map_update_where link_key_def)
  have "row_ok d' x = row_ok d x" for x by (rule row_ok_cong) (simp_all add: d')
  moreover have "row_ok d (?f x)" if "row_ok d x" for x
    using that p by (simp add: row_ok_def ends_in_org_def)
  ultimately have "\<forall>l\<in>set (links d'). row_ok d' l"
    using assms(2) by (auto simp: d' links_ok_def in_update_where)
  with assms(2) ids keys show ?thesis
    by (auto simp: links_ok_def keys_ok_def link_ids_def d')
qed

lemma delete_link_ok:
  assumes "delete_link i d = Inr d'" and "links_ok d"
  shows "links_ok d' \<and> link_ids d' = link_ids d - {i} \<and>
    le_action ` set (link_events d') = le_action ` set (link_events d)"
proof -
  have d': "d' = d\<lparr>links := delete_where (\<lambda>l. lk_id l = i) (links d),
      link_events := update_where (\<lambda>e. le_link e = Some i) (\<lambda>e. e\<lparr>le_link := None\<rparr>) (link_events d)\<rparr>"
    using assms(1) by (auto simp: delete_link_def split: if_splits)
  have ids: "link_ids d' = link_ids d - {i}" by (auto simp: d' link_ids_def)
  have acts: "map le_action (link_events d') = map le_action (link_events d)"
    by (simp add: d' map_update_where)
  have "row_ok d' x = row_ok d x" for x by (rule row_ok_cong) (simp_all add: d')
  then have "\<forall>l\<in>set (links d'). row_ok d' l" using assms(2) by (simp add: d' links_ok_def)
  moreover have "\<forall>e\<in>set (link_events d'). \<forall>j. le_link e = Some j \<longrightarrow> j \<in> link_ids d - {i}"
    using assms(2) by (auto simp: d' links_ok_def elim!: update_where_cases)
  moreover have "keys_ok d'" using assms(2) by (simp add: d' links_ok_def keys_ok_def distinct_delete_where)
  ultimately show ?thesis using ids acts by (simp add: links_ok_def flip: set_map)
qed

text \<open>A write with its log keeps the invariant when the trail of deletions stays right.\<close>

lemma logged_fields [simp]:
  "x_db (logged l a u s) = x_db s"
  "x_audit (logged l a u s) = x_audit s @ [(a, lk_id l)]"
  "x_pending (logged l a u s) = x_pending s @ [event_of l a u]"
  by (simp_all add: logged_def)

lemma event_of_fields [simp]: "le_link (event_of l a u) = Some (lk_id l)" "le_action (event_of l a u) = a"
  by (simp_all add: event_of_def)

lemma logged_inv:
  assumes "link_inv s" and "links_ok d"
    and "le_action ` set (link_events d) = le_action ` set (link_events (x_db s))"
    and "\<forall>i\<in>snd ` set (x_audit s). i \<in> link_ids d \<longrightarrow> i \<in> link_ids (x_db s)"
    and "a = ''crossrepo.link_deleted'' \<Longrightarrow> lk_id l \<notin> link_ids d"
  shows "link_inv (logged l a u (s\<lparr>x_db := d\<rparr>))"
proof -
  have "le_action e \<noteq> ''crossrepo.link_deleted''" if "e \<in> set (link_events d)" for e
    using assms(1,3) that unfolding link_inv_def trail_ok_def by (metis imageE imageI)
  moreover have "\<exists>i. le_link e = Some i \<and> i \<notin> link_ids d \<and> i \<in> snd ` set (x_audit s @ [(a, lk_id l)])"
    if "e \<in> set (x_pending s @ [event_of l a u])" "le_action e = ''crossrepo.link_deleted''" for e
    using that assms(1,4,5) unfolding link_inv_def trail_ok_def by fastforce
  ultimately show ?thesis using assms(2) by (simp add: link_inv_def trail_ok_def)
qed

lemma created_inv:
  assumes "created s u new_id r t" and "link_inv s" and "new_id \<notin> used_ids s"
  shows "link_inv t"
proof (cases r)
  case (Fail n)
  with assms(1,2) show ?thesis by (auto simp: created_def intro: refused_inv)
next
  case (Reply n l)
  then obtain user d where l: "ends_in_org (x_db s) l" "lk_id l = new_id" "insert_link l (x_db s) = Inr d"
    and t: "like (logged l ''crossrepo.link_created'' user (s\<lparr>x_db := d\<rparr>)) t"
    using assms(1) by (auto simp: created_def)
  from assms(2) have "links_ok (x_db s)" by (simp add: link_inv_def)
  from insert_link_ok [OF l(3) this l(1)] assms(3)
  have "link_inv (logged l ''crossrepo.link_created'' user (s\<lparr>x_db := d\<rparr>))"
    by (intro logged_inv [OF assms(2)]) (auto simp: used_ids_def l(2))
  with t show ?thesis by (rule link_inv_like)
qed

lemma updated_inv:
  assumes "updated s u now r t" and "link_inv s"
  shows "link_inv t"
proof (cases r)
  case (Fail n)
  with assms show ?thesis by (auto simp: updated_def intro: refused_inv)
next
  case (Reply n l')
  then obtain user l p lb d where l: "update_link (lk_id l) p lb now (x_db s) = Inr d"
    and t: "like (logged l ''crossrepo.link_updated'' user (s\<lparr>x_db := d\<rparr>)) t"
    using assms(1) by (auto simp: updated_def)
  from assms(2) have "links_ok (x_db s)" by (simp add: link_inv_def)
  from update_link_ok [OF l this]
  have "link_inv (logged l ''crossrepo.link_updated'' user (s\<lparr>x_db := d\<rparr>))"
    by (intro logged_inv [OF assms(2)]) auto
  with t show ?thesis by (rule link_inv_like)
qed

lemma deleted_inv:
  assumes "deleted s u r t" and "link_inv s"
  shows "link_inv t"
proof (cases r)
  case (Fail n)
  with assms show ?thesis by (auto simp: deleted_def intro: refused_inv)
next
  case (Reply n x)
  then obtain user l d where l: "delete_link (lk_id l) (x_db s) = Inr d"
    and t: "like (logged l ''crossrepo.link_deleted'' user (s\<lparr>x_db := d\<rparr>)) t"
    using assms(1) by (auto simp: deleted_def)
  from assms(2) have "links_ok (x_db s)" by (simp add: link_inv_def)
  from delete_link_ok [OF l this]
  have "link_inv (logged l ''crossrepo.link_deleted'' user (s\<lparr>x_db := d\<rparr>))"
    by (intro logged_inv [OF assms(2)]) auto
  with t show ?thesis by (rule link_inv_like)
qed

text \<open>The handlers that do not write links.\<close>

context state_preorder
begin

lemma stable_with_user: "(\<And>i. stable R (f i)) \<Longrightarrow> stable R (with_user u f)"
  unfolding with_user_def by (intro stable_combinators)

lemma stable_respond: "stable R m \<Longrightarrow> stable R (respond m)"
  unfolding respond_def by (intro stable_combinators)

end

text \<open>
  A relation on states of the component under which reads, calls of the engine and entries of the
  audit log are stable: then so are all handlers but the three that write.
\<close>

locale link_frame = state_preorder R for R :: "xstate \<Rightarrow> xstate \<Rightarrow> bool" +
  assumes R_quiet: "quiet s t \<Longrightarrow> R s t"
    and R_engine: "R s (s\<lparr>x_engine := x_engine s @ cs\<rparr>)"
    and R_audit: "R s (s\<lparr>x_audit := x_audit s @ xs\<rparr>)"
begin

lemma stable_quiet: "stable quiet m \<Longrightarrow> stable R m"
  unfolding stable_def using R_quiet by blast

lemma stable_engine_do: "stable R (engine_do c f)"
  by (rule stableI) (simp add: engine_do_def R_engine)

lemma stable_log_audit: "stable R (log_audit a i)"
  unfolding log_audit_def by (rule stable_modify) (rule R_audit)

lemma stable_or_status: "stable R m \<Longrightarrow> (\<And>x. stable R (f x)) \<Longrightarrow> stable R (or_status st m f)"
  unfolding or_status_def by (intro stable_combinators)

lemmas frame_calls = stable_shapes stable_with_user stable_or_status stable_engine_do stable_log_audit

lemmas stable_reads = reads_store [THEN stable_quiet] reads_authorizer [THEN stable_quiet]
  reads_names [THEN stable_quiet] reads_targets [THEN stable_quiet]

lemma stable_loops:
  "stable R (authorize_each user src action ts acc)" "stable R (count_allowed user src ts acc')"
  "stable R (sees_other user r ts)" "stable R (graph_repos user everyone rs acc'')"
proof -
  show "stable R (authorize_each user src action ts acc)"
  proof (induction ts arbitrary: acc)
    case (Cons t ts)
    show ?case unfolding authorize_each.simps by (intro stable_combinators stable_reads Cons.IH)
  qed (simp add: stable_ret)
  show "stable R (count_allowed user src ts acc')"
    by (induction ts arbitrary: acc') (auto intro!: stable_combinators stable_reads)
  have sees: "stable R (sees_other user r ts)" for r ts
    by (induction ts) (auto intro!: stable_combinators stable_reads)
  then show "stable R (sees_other user r ts)" .
  show "stable R (graph_repos user everyone rs acc'')"
    by (induction rs arbitrary: acc'') (auto intro!: stable_combinators sees)
qed

lemma stable_services:
  "stable R (Search us eng user src q symbols cfg)" "stable R (GetManifest eng user repo)"
  "stable R (GetDependencies eng user src given depth)" "stable R (BuildGraph eng user g given force)"
  unfolding Search_def GetManifest_def GetDependencies_def BuildGraph_def
  by (intro frame_calls stable_reads stable_loops)+

lemma stable_readers:
  "stable R (ListLinks u repo)" "stable R (GetLink u link)" "stable R (ListLinkEvents u link limit)"
  "stable R (ListOrgLinks u g limit offset)" "stable R (ListOrgEvents u g limit)"
  "stable R (GetManifest_http eng u repo)" "stable R (GetDependencies_http pu eng u repo ids depth)"
  "stable R (BuildGraph_http eng u g b)" "stable R (FederatedSearch_http us eng u repo b')"
  unfolding ListLinks_def GetLink_def ListLinkEvents_def ListOrgLinks_def ListOrgEvents_def GetManifest_http_def
    GetDependencies_http_def BuildGraph_http_def FederatedSearch_http_def
  by (intro frame_calls stable_reads stable_services)+

end

interpretation link_invariant: link_frame "keeps link_inv"
proof unfold_locales
  fix s t :: xstate and cs xs
  show "quiet s t \<Longrightarrow> keeps link_inv s t"
    by (rule keepsI, rule link_inv_like) (auto simp: quiet_def like_def)
  show "keeps link_inv s (s\<lparr>x_engine := x_engine s @ cs\<rparr>)"
    by (simp add: keeps_def link_inv_def trail_ok_def)
  show "keeps link_inv s (s\<lparr>x_audit := x_audit s @ xs\<rparr>)"
    by (rule keepsI) (rule link_inv_audit)
qed

lemma run_respond: "snd (run_state (respond m) s) = snd (run_state m s)"
  by (simp add: respond_def split_beta)

lemma handler_inv:
  assumes "link_inv s" and "new_id \<notin> used_ids s"
  shows "link_inv (snd (run_state (link_handler us pu eng u req new_id now) s))"
proof (cases req)
  case (RqCreate repo b)
  show ?thesis
    using hoareD [OF CreateLink_effect, of s s] created_inv assms by (simp add: RqCreate run_respond) blast
next
  case (RqUpdate link b)
  show ?thesis
    using hoareD [OF UpdateLink_effect, of s s] updated_inv assms by (simp add: RqUpdate run_respond) blast
next
  case (RqDelete link)
  show ?thesis
    using hoareD [OF DeleteLink_effect, of s s] deleted_inv assms by (simp add: RqDelete run_respond) blast
qed (use link_invariant.stable_readers [THEN stableD, THEN keepsD, OF assms(1)] in \<open>simp_all add: run_respond\<close>)

lemma goroutine_inv:
  assumes "link_inv s" and "n < length (x_pending s)"
  shows "link_inv (run_goroutine n now s)"
proof -
  let ?e = "x_pending s ! n" and ?s = "s\<lparr>x_pending := take n (x_pending s) @ drop (Suc n) (x_pending s)\<rparr>"
  have "?e \<in> set (x_pending s)" using assms(2) by simp
  have s: "link_inv ?s"
    using assms(1) set_take_subset [of n "x_pending s"] set_drop_subset [of "Suc n" "x_pending s"]
    by (auto simp: link_inv_def trail_ok_def)
  have "link_inv (s'\<lparr>x_db := d\<rparr>)"
    if "insert_event (?e\<lparr>le_created_at := now\<rparr>) (x_db s) = Inr d" "s' = ?s" for d s'
  proof -
    have d: "d = x_db s\<lparr>link_events := link_events (x_db s) @ [?e\<lparr>le_created_at := now\<rparr>]\<rparr>"
      and ref: "\<forall>i. le_link ?e = Some i \<longrightarrow> i \<in> link_ids (x_db s)"
      using that(1) by (auto simp: insert_event_def link_ids_def split: if_splits option.splits)
    then have "le_action ?e \<noteq> ''crossrepo.link_deleted''"
      using assms(1) \<open>?e \<in> set (x_pending s)\<close> by (fastforce simp: link_inv_def trail_ok_def)
    have "row_ok d x = row_ok (x_db s) x" for x by (rule row_ok_cong) (simp_all add: d)
    with s ref \<open>le_action ?e \<noteq> _\<close> that(2) show ?thesis
      by (auto simp: link_inv_def links_ok_def trail_ok_def keys_ok_def link_ids_def d)
  qed
  then show ?thesis
    using hoareD [OF hoare_exec, of ?s ?s "insert_event (?e\<lparr>le_created_at := now\<rparr>)"] s
    by (auto simp: run_goroutine_def LogEvent_def intro: link_inv_like split: sum.splits)
qed

lemma drop_xrepo_ok:
  assumes "drop_xrepo i d = Inr d'" and "links_ok d"
  shows "links_ok d' \<and> link_ids d' \<subseteq> link_ids d \<and> le_action ` set (link_events d') = le_action ` set (link_events d)"
proof -
  let ?gone = "\<lambda>l. lk_source l = i \<or> lk_target l = i"
  let ?ids = "set (map lk_id (filter ?gone (links d)))"
  have d': "d' = d\<lparr>xrepos := delete_where (\<lambda>r. xr_id r = i) (xrepos d),
      repo_members := delete_where (\<lambda>(r, u). r = i) (repo_members d), links := delete_where ?gone (links d),
      link_events := update_where (\<lambda>e. \<exists>l\<in>?ids. le_link e = Some l) (\<lambda>e. e\<lparr>le_link := None\<rparr>) (link_events d)\<rparr>"
    using assms(1) by (auto simp: drop_xrepo_def Let_def split: if_splits)
  have rows: "\<forall>l\<in>set (links d'). row_ok d' l"
    using assms(2) by (fastforce simp: d' links_ok_def row_ok_def ends_in_org_def)
  have keys: "keys_ok d'"
    using assms(2) by (simp add: d' links_ok_def keys_ok_def distinct_delete_where)
  have "k \<in> link_ids d'" if "k \<in> link_ids d" "k \<notin> ?ids" for k
    using that by (auto simp: d' link_ids_def)
  moreover have "k \<in> link_ids d \<and> k \<notin> ?ids" if "e \<in> set (link_events d')" "le_link e = Some k" for e k
    using that assms(2) by (auto simp: d' links_ok_def elim!: update_where_cases)
  ultimately have refs: "\<forall>e\<in>set (link_events d'). \<forall>k. le_link e = Some k \<longrightarrow> k \<in> link_ids d'" by blast
  have "map le_action (link_events d') = map le_action (link_events d)" by (simp add: d' map_update_where)
  then have "le_action ` set (link_events d') = le_action ` set (link_events d)" by (metis list.set_map)
  moreover have "link_ids d' \<subseteq> link_ids d" by (auto simp: d' link_ids_def)
  ultimately show ?thesis using rows keys refs by (simp add: links_ok_def)
qed

text \<open>The other changes keep links, organisations and the place of every repository.\<close>

lemma change_keeps_links:
  assumes "change_tables c d = Inr d'" and "links_ok d" and "\<And>i. c \<noteq> ChDropRepo i"
  shows "keys_ok d'" and "links d' = links d" and "link_events d' = link_events d"
    and "og_id ` set (orgs d) \<subseteq> og_id ` set (orgs d')"
    and "\<forall>r\<in>set (xrepos d). \<exists>r'\<in>set (xrepos d'). xr_id r' = xr_id r \<and> xr_org r' = xr_org r"
proof -
  have keys: "keys_ok d" using assms(2) by (simp add: links_ok_def)
  show "keys_ok d'"
    using assms(1,3) keys
    by (cases c) (auto simp: change_defs keys_ok_def Let_def map_update_where distinct_delete_where split: if_splits, blast)
  show "links d' = links d" "link_events d' = link_events d"
    using assms(1,3) by (cases c; auto simp: change_defs Let_def split: if_splits)+
  show "og_id ` set (orgs d) \<subseteq> og_id ` set (orgs d')"
    using assms(1,3) by (cases c) (auto simp: change_defs Let_def image_update_where split: if_splits)
  have "(\<lambda>r. (xr_id r, xr_org r)) ` set (xrepos d) \<subseteq> (\<lambda>r. (xr_id r, xr_org r)) ` set (xrepos d')"
    using assms(1,3) by (cases c) (auto simp: change_defs Let_def image_update_where split: if_splits)
  then show "\<forall>r\<in>set (xrepos d). \<exists>r'\<in>set (xrepos d'). xr_id r' = xr_id r \<and> xr_org r' = xr_org r" by fastforce
qed

lemma change_ok:
  assumes "change_tables c d = Inr d'" and "links_ok d"
  shows "links_ok d' \<and> link_ids d' \<subseteq> link_ids d \<and> le_action ` set (link_events d') = le_action ` set (link_events d)"
proof (cases "\<exists>i. c = ChDropRepo i")
  case True
  then obtain i where "drop_xrepo i d = Inr d'" using assms(1) by auto
  from drop_xrepo_ok [OF this assms(2)] show ?thesis .
next
  case False
  then have keep: "keys_ok d'" "links d' = links d" "link_events d' = link_events d"
      "og_id ` set (orgs d) \<subseteq> og_id ` set (orgs d')"
      "\<forall>r\<in>set (xrepos d). \<exists>r'\<in>set (xrepos d'). xr_id r' = xr_id r \<and> xr_org r' = xr_org r"
    using change_keeps_links [OF assms] by blast+
  have "row_ok d' l" if "row_ok d l" for l
    using that keep(4,5) unfolding row_ok_def ends_in_org_def by (metis image_set subsetD)
  then show ?thesis
    using assms(2) keep(1-3) by (simp add: links_ok_def link_ids_def)
qed

lemma change_inv:
  assumes "link_inv s" and "change_tables c (x_db s) = Inr d"
  shows "link_inv (s\<lparr>x_db := d\<rparr>)"
proof -
  have ok: "links_ok d" "link_ids d \<subseteq> link_ids (x_db s)"
    "le_action ` set (link_events d) = le_action ` set (link_events (x_db s))"
    using change_ok [OF assms(2)] assms(1) by (simp_all add: link_inv_def)
  have "le_action e \<noteq> ''crossrepo.link_deleted''" if "e \<in> set (link_events d)" for e
    using assms(1) ok(3) that unfolding link_inv_def trail_ok_def by (metis imageE imageI)
  moreover have "\<exists>i. le_link e = Some i \<and> i \<notin> link_ids d \<and> i \<in> snd ` set (x_audit s)"
    if "e \<in> set (x_pending s)" "le_action e = ''crossrepo.link_deleted''" for e
    using that assms(1) ok(2) unfolding link_inv_def trail_ok_def by blast
  ultimately show ?thesis using ok(1) by (simp add: link_inv_def trail_ok_def)
qed

lemma outage_inv: "link_inv s \<Longrightarrow> link_inv (s\<lparr>x_faults := fs\<rparr>)"
  by (simp add: link_inv_def trail_ok_def)

lemma link_reach_inv: "link_reach us pu eng s \<Longrightarrow> link_inv s"
proof (induction rule: link_reach.induct)
  case (start d fs)
  then show ?case by (simp add: link_inv_def links_ok_def trail_ok_def)
qed (auto intro: handler_inv goroutine_inv change_inv outage_inv)

end
