(* ===== verification/CrossRepoProps.thy ===== *)
theory CrossRepoProps
  imports CrossRepoSystem
begin

text \<open>The properties of the cross-repository component, each with a concrete instance.\<close>

section \<open>Calls of the engine\<close>

lemma asked_shapes:
  "meets (asked_ok d user old) (ret x) (\<lambda>_. True)"
  "(\<And>i. u = Some i \<Longrightarrow> meets (asked_ok d user old) (f i) (\<lambda>_. True)) \<Longrightarrow>
   meets (asked_ok d user old) (with_user u f) (\<lambda>_. True)"
  "(\<And>i. meets (asked_ok d user old) (f' i) (\<lambda>_. True)) \<Longrightarrow>
   meets (asked_ok d user old) (with_id y f') (\<lambda>_. True)"
  "(\<And>i. meets (asked_ok d user old) (f'' i) (\<lambda>_. True)) \<Longrightarrow>
   meets (asked_ok d user old) (with_body z f'') (\<lambda>_. True)"
  "meets (asked_ok d user old) m (\<lambda>_. True) \<Longrightarrow> (\<And>v. meets (asked_ok d user old) (k v) (\<lambda>_. True)) \<Longrightarrow>
   meets (asked_ok d user old) (or_status st m k) (\<lambda>_. True)"
  "meets (asked_ok d user old) (log_audit a j) (\<lambda>_. True)"
  by (auto simp: with_user_def with_id_def with_body_def or_status_def log_audit_def asked_ok_def
      intro!: meets_ret meets_modify elim!: meets_bind split: option.splits sum.splits)

lemma quiet_readers:
  "stable quiet (ListLinks u repo)" "stable quiet (GetLink u link)" "stable quiet (ListLinkEvents u link limit)"
  "stable quiet (ListOrgLinks u g limit offset)" "stable quiet (ListOrgEvents u g limit)"
  unfolding ListLinks_def GetLink_def ListLinkEvents_def ListOrgLinks_def ListOrgEvents_def
    or_status_def with_user_def with_id_def
  by (intro quietly.stable_combinators reads_store)+

lemma asked_http:
  "meets (asked_ok d user old) (GetDependencies_http pu eng (Some user) repo ids depth) (\<lambda>_. True)"
  "meets (asked_ok d user old) (BuildGraph_http eng (Some user) g b) (\<lambda>_. True)"
  "meets (asked_ok d user old) (FederatedSearch_http us eng (Some user) repo b') (\<lambda>_. True)"
  unfolding GetDependencies_http_def BuildGraph_http_def FederatedSearch_http_def with_user_def
    option.case split_beta
  by (intro asked_shapes asked_Search asked_GetDependencies asked_BuildGraph meets_if
      meets_bind [OF asked_shapes(6)])+

lemma writers_ask_nothing:
  "created s u i r t \<Longrightarrow> x_engine t = x_engine s" "updated s u now r t \<Longrightarrow> x_engine t = x_engine s"
  "deleted s u r' t \<Longrightarrow> x_engine t = x_engine s"
  by (auto simp: created_def updated_def deleted_def refused_def logged_def dest!: like_fields split: resp.splits)

lemma reader_asks: "stable quiet m \<Longrightarrow> x_engine (snd (run_state (respond m) s)) = x_engine s @ []"
  by (simp add: run_respond quiet_fields stableD)

lemma searcher_asks:
  "meets (asked_ok (x_db s) user (x_engine s)) m (\<lambda>_. True) \<Longrightarrow>
   \<exists>cs. x_engine (snd (run_state (respond m) s)) = x_engine s @ cs \<and> (\<forall>c\<in>set cs. call_allowed (x_db s) user c)"
  using meetsD [of "asked_ok (x_db s) user (x_engine s)" m _ s] by (auto simp: asked_ok_def run_respond)

lemma writer_asks:
  "x_engine (snd (run_state (CreateLink u repo b i now) s)) = x_engine s"
  "x_engine (snd (run_state (UpdateLink u link b' now) s)) = x_engine s"
  "x_engine (snd (run_state (DeleteLink u link) s)) = x_engine s"
  by (rule writers_ask_nothing(1) [OF hoareD [OF CreateLink_effect like_refl]])
    (rule writers_ask_nothing(2) [OF hoareD [OF UpdateLink_effect like_refl]],
     rule writers_ask_nothing(3) [OF hoareD [OF DeleteLink_effect like_refl]])

lemma manifest_asks:
  "x_engine (snd (run_state (respond (GetManifest_http eng (Some user) x)) s)) =
     x_engine s @ (case parse_uuid x of None \<Rightarrow> [] | Some r \<Rightarrow> [EngManifest r])"
  by (simp add: run_respond GetManifest_http_def with_user_def with_id_def or_status_def GetManifest_def engine_do_def
      split: option.split)

text \<open>
  C20: which calls of the engine a request of a user makes, whatever queries fail.  A search and a question
  about dependencies name only targets that the access matrix lets this user search, or view, from the
  source repository; a graph names only repositories from which the user may view some other one;
  the requests that manage links ask nothing.  The manifest request checks nothing: every user gets the
  manifest of every repository asked for.
\<close>

theorem engine_asked_only_for_permitted:
  "\<exists>cs. x_engine (snd (run_state (link_handler us pu eng (Some user) req new_id now) s)) = x_engine s @ cs \<and>
     (case req of
        RqManifest x \<Rightarrow> cs = (case parse_uuid x of None \<Rightarrow> [] | Some r \<Rightarrow> [EngManifest r])
      | RqSearch x b \<Rightarrow> list_all (call_allowed (x_db s) user) cs
      | RqDependencies x ids depth \<Rightarrow> list_all (call_allowed (x_db s) user) cs
      | RqGraph g b \<Rightarrow> list_all (call_allowed (x_db s) user) cs
      | _ \<Rightarrow> cs = [])"
proof (cases req)
  case (RqManifest repo)
  show ?thesis unfolding RqManifest link_handler.simps manifest_asks by simp
next
  case (RqDependencies repo ids depth)
  then show ?thesis
    using searcher_asks [OF asked_http(1) [where user = user and d = "x_db s" and old = "x_engine s" and pu = pu and eng = eng and repo = repo and ids = ids and depth = depth]]
    by (simp add: list_all_iff)
next
  case (RqSearch repo b)
  then show ?thesis
    using searcher_asks [OF asked_http(3) [where user = user and d = "x_db s" and old = "x_engine s" and us = us and eng = eng and repo = repo and b' = b]]
    by (simp add: list_all_iff)
next
  case (RqGraph g b)
  then show ?thesis
    using searcher_asks [OF asked_http(2) [where user = user and d = "x_db s" and old = "x_engine s" and eng = eng and g = g and b = b]]
    by (simp add: list_all_iff)
qed (simp_all add: writer_asks run_respond quiet_readers [THEN reader_asks, unfolded run_respond])

section \<open>Search\<close>

definition allowed_targets :: "link_tables \<Rightarrow> uuid \<Rightarrow> uuid \<Rightarrow> uuid list" where
  "allowed_targets d user src = filter (\<lambda>t. permitted d user src t ''cross_repo.search'')
     (map lk_target (filter (\<lambda>l. lk_source l = src \<and> lk_profile l \<noteq> ''none'') (links d)))"

lemma Authorize_decision:
  assumes "keys_ok (x_db s)" and "x_faults s = []"
  shows "\<exists>dec. run_state (Authorize user src tgt action) s = (dec, s) \<and> (dec = Allow \<longleftrightarrow> permitted (x_db s) user src tgt action)"
  using Authorize_no_faults [OF assms] stableD [OF reads_authorizer(1), of s] assms(2)
  by (metis prod.collapse quiet_def)

lemma authorize_each_exact:
  assumes "keys_ok (x_db s)" and "x_faults s = []"
  shows "\<exists>den. run_state (authorize_each user src action ts acc) s =
    ((fst acc @ filter (\<lambda>t. permitted (x_db s) user src t action) ts, den), s)"
proof (induction ts arbitrary: acc)
  case Nil
  show ?case by (cases acc) simp
next
  case (Cons t ts)
  obtain dec where dec: "run_state (Authorize user src t action) s = (dec, s)"
      "dec = Allow \<longleftrightarrow> permitted (x_db s) user src t action"
    using Authorize_decision [OF assms] by blast
  show ?case
    using dec Cons.IH [of "(fst acc @ [t], snd acc)"] Cons.IH [of "(fst acc, AList.update t r (snd acc))" for r]
    by (cases dec) auto
qed

text \<open>
  C21: with a database that answers, a federated search asks the engine once, about the source
  repository followed by exactly the linked repositories the user may search, in the order of the
  links; it asks nothing when there is none.
\<close>

theorem Search_asks_exactly:
  assumes "keys_ok (x_db s)" and "x_faults s = []"
  shows "x_engine (snd (run_state (Search us eng user src q symbols cfg) s)) =
    x_engine s @ (if allowed_targets (x_db s) user src = [] then []
      else [EngSearch q (src # allowed_targets (x_db s) user src) symbols cfg])"
proof -
  let ?linked = "map lk_target (filter (\<lambda>l. lk_source l = src \<and> lk_profile l \<noteq> ''none'') (links (x_db s)))"
  obtain den where each: "run_state (authorize_each user src ActionSearch ?linked ([], [])) s =
      ((allowed_targets (x_db s) user src, den), s)"
    using authorize_each_exact [OF assms, of user src ActionSearch ?linked "([], [])"]
    by (auto simp: allowed_targets_def)
  have names: "x_engine (snd (run_state (resolveRepoNames us ids) t)) = x_engine t" for ids t
    using stableD [OF reads_names] by (simp add: quiet_fields)
  have linked: "run_state (ListLinkedRepoIDs src) s = (Inr ?linked, s)"
    by (simp add: ListLinkedRepoIDs_def assms(2))
  show ?thesis
  proof (cases "allowed_targets (x_db s) user src = []")
    case True
    then show ?thesis using each by (simp add: Search_def linked)
  next
    case False
    then have "?linked \<noteq> []" by (auto simp: allowed_targets_def)
    with False each show ?thesis
      by (cases "en_search eng (x_engine s) (EngSearch q (src # allowed_targets (x_db s) user src) symbols cfg)")
        (simp_all add: Search_def linked engine_do_def names split_beta del: resolveRepoNames.simps)
  qed
qed

section \<open>Access\<close>

text \<open>
  C9: the authorizer never allows more than the access matrix, whatever query fails, and changes
  nothing; when the database answers and the keys of the tables hold, it allows exactly the matrix.
\<close>

theorem Authorize_decides_access:
  "x_db (snd (run_state (Authorize user src tgt action) s)) = x_db s \<and>
   (fst (run_state (Authorize user src tgt action) s) = Allow \<longrightarrow> permitted (x_db s) user src tgt action) \<and>
   (keys_ok (x_db s) \<and> x_faults s = [] \<and> permitted (x_db s) user src tgt action \<longrightarrow>
      run_state (Authorize user src tgt action) s = (Allow, s))"
  using meetsD [OF Authorize_sound, of "x_db s" s] Authorize_complete
  by (simp add: at_db_def)

section \<open>Link tables\<close>

text \<open>
  C13: in every state reached from a deployment without links, by any requests on links, any changes
  of organisations, members, repositories and grants, deletions of repositories included, by the
  goroutines in any order and under any database failures: the keys of all tables are unique, a link
  joins two different existing repositories of its own organisation under a valid profile, and an event
  refers to a link that exists.  New links get identifiers that were not used before.
\<close>

theorem reachable_links_ok: "link_reach us pu eng s \<Longrightarrow> links_ok (x_db s)"
  by (drule link_reach_inv) (simp add: link_inv_def)

text \<open>
  C23: the table of link events never holds the deletion of a link: the event is written after the
  link is gone and its foreign key refuses it, in whatever order the goroutines run.
\<close>

theorem deletions_are_never_recorded:
  "link_reach us pu eng s \<Longrightarrow> list_all (\<lambda>e. le_action e \<noteq> ''crossrepo.link_deleted'') (link_events (x_db s))"
  by (drule link_reach_inv) (simp add: link_inv_def trail_ok_def list_all_iff)

section \<open>Budget\<close>

lemma insert_active: "insert_link l d = Inr d' \<Longrightarrow> active_links g d' \<le> active_links g d + 1"
  by (auto simp: insert_link_def active_links_def split: if_splits)

text \<open>
  Creating a link never takes an organisation beyond its maximum of active links.
\<close>

lemma CreateLink_respects_budget:
  assumes "run_state (CreateLink u repo body new_id now) s = (Reply n l, t)"
    and "keys_ok (x_db s)" and "g \<in> set (orgs (x_db s))" and "og_id g = lk_org l" and "0 < GetOrgMaxLinks g"
  shows "int (active_links (lk_org l) (x_db t)) \<le> GetOrgMaxLinks g"
proof -
  have "created s u new_id (Reply n l) t"
    using hoareD [OF CreateLink_effect like_refl] assms(1) by (metis fst_conv snd_conv)
  then obtain user d where room: "has_room (x_db s) (lk_org l)" and ins: "insert_link l (x_db s) = Inr d"
    and t: "like (logged l ''crossrepo.link_created'' user (s\<lparr>x_db := d\<rparr>)) t"
    by (auto simp: created_def)
  have "g' = g" if "g' \<in> set (orgs (x_db s))" "og_id g' = lk_org l" for g'
    using that assms(2-4) inj_onD [of og_id "set (orgs (x_db s))" g' g] by (simp add: keys_ok_def distinct_map)
  with room assms(5) have "int (active_links (lk_org l) (x_db s)) < GetOrgMaxLinks g"
    by (fastforce simp: has_room_def)
  with insert_active [OF ins, of "lk_org l"] like_fields [OF t] show ?thesis by simp
qed

lemma AuthorizeLink_complete:
  assumes "keys_ok (x_db s)" and "x_faults s = []" and "manages (x_db s) user org_id"
  shows "run_state (AuthorizeLink user org_id) s = (Allow, s)"
proof -
  obtain g m where g: "g \<in> set (orgs (x_db s))" "og_id g = org_id" "IsOrgCrossRepoEnabled g"
    and m: "m \<in> set (org_members (x_db s))" "om_org m = org_id" "om_user m = user" "om_role m \<in> {''owner'', ''admin''}"
    using assms(3) by (auto simp: manages_def)
  have "List.find (\<lambda>o'. og_id o' = org_id) (orgs (x_db s)) = Some g"
    "List.find (\<lambda>m. om_org m = org_id \<and> om_user m = user) (org_members (x_db s)) = Some m"
    using assms(1) g m by (auto simp: keys_ok_def intro: find_key find_member)
  then show ?thesis
    using g(3) m(4) by (simp add: AuthorizeLink_def OrgGetByID_def GetMember_def assms(2))
qed

lemma count_where_switch:
  assumes "distinct (map k rs)" and "r \<in> set rs" and "\<not> q r" and "q (f r)"
  shows "count_where q (update_where (\<lambda>x. k x = k r) f rs) = count_where q rs + 1"
  using assms
proof (induction rs)
  case (Cons x rs)
  have keep: "count_where q (update_where (\<lambda>x. k x = k r) f rs) = count_where q rs" if "k r \<notin> set (map k rs)"
    using that by (induction rs) auto
  show ?case using Cons keep by (cases "x = r") auto
qed simp

text \<open>
  a paused link can be put into service whatever the budget: the update by a manager of the
  organisation succeeds and adds one active link, no limit is read.
\<close>

lemma UpdateLink_ignores_budget:
  assumes "keys_ok (x_db s)" and "x_faults s = []" and "l \<in> set (links (x_db s))" and "lk_profile l = ''none''"
    and "manages (x_db s) user (lk_org l)"
  shows "\<exists>l' t. run_state (UpdateLink (Some user) (Canonical (lk_id l)) (Some (''full'', lab)) now) s = (Reply 200 l', t) \<and>
    active_links (lk_org l) (x_db t) = active_links (lk_org l) (x_db s) + 1"
proof -
  have "List.find (\<lambda>x. lk_id x = lk_id l) (links (x_db s)) = Some l"
    using assms(1,3) by (auto simp: keys_ok_def intro: find_key)
  then have get: "run_state (LinkGetByID (lk_id l)) s = (Inr l, s)" by (simp add: LinkGetByID_def assms(2))
  have allow: "run_state (AuthorizeLink user (lk_org l)) s = (Allow, s)"
    by (rule AuthorizeLink_complete [OF assms(1,2,5)])
  have "lk_id l \<in> set (map lk_id (links (x_db s)))" using assms(3) by simp
  then have upd: "update_link (lk_id l) ''full'' lb now (x_db s) = Inr (x_db s\<lparr>links := update_where (\<lambda>x. lk_id x = lk_id l)
      (\<lambda>x. x\<lparr>lk_profile := ''full'', lk_label := lb, lk_updated_at := now\<rparr>) (links (x_db s))\<rparr>)" for lb
    by (simp add: update_link_def ValidShareProfiles_def)
  have "count_where (\<lambda>x. lk_org x = lk_org l \<and> lk_profile x \<noteq> ''none'') (update_where (\<lambda>x. lk_id x = lk_id l)
      (\<lambda>x. x\<lparr>lk_profile := ''full'', lk_label := lb, lk_updated_at := now\<rparr>) (links (x_db s)))
    = count_where (\<lambda>x. lk_org x = lk_org l \<and> lk_profile x \<noteq> ''none'') (links (x_db s)) + 1" for lb
    using assms(1,3,4) by (intro count_where_switch) (simp_all add: keys_ok_def)
  then show ?thesis
    by (simp add: UpdateLink_def with_user_def with_id_def with_body_def or_status_def if_allowed_def get allow
        UpdateShareProfile_def assms(2) upd ValidShareProfiles_def logLinkEvent_def log_audit_def active_links_def Let_def)
qed

section \<open>Texts\<close>

definition word :: "string \<Rightarrow> bool" where
  "word w \<longleftrightarrow> w \<noteq> [] \<and> CHR '','' \<notin> set w \<and> CHR '' '' \<notin> set w"

lemma split_comma_word:
  "CHR '','' \<notin> set w \<Longrightarrow> CHR '' '' \<notin> set w \<Longrightarrow>
   split_comma_loop cur res (w @ cs) = split_comma_loop (cur @ w) res cs"
  by (induction w arbitrary: cur) auto

lemma split_comma_join: "list_all word ws \<Longrightarrow> split_comma_loop [] res (str_join '','' ws) = res @ ws"
proof (induction "'','' :: string" ws arbitrary: res rule: str_join.induct)
  case (2 x)
  then show ?case using split_comma_word [of x "[]" res "[]"] by (simp add: word_def)
next
  case (3 x y xs)
  then show ?case by (simp add: word_def split_comma_word)
qed simp

text \<open>
  The list of target repositories in a query survives the way to the server: words without
  commas and spaces joined with commas are split into the same words.
\<close>

lemma splitComma_join: "list_all word ws \<Longrightarrow> splitComma (str_join '','' ws) = ws"
  by (simp add: splitComma_def split_comma_join)

lemma splitComma_join_example:
  "splitComma (str_join '','' [''a1'', ''b2'', ''c3'']) = [''a1'', ''b2'', ''c3'']"
  by (rule splitComma_join) (simp add: word_def)

lemma format_chunks_take: "i \<le> 9 \<Longrightarrow> format_chunks i cs = concat (map format_chunk (take (10 - i) cs))"
proof (induction cs arbitrary: i)
  case (Cons c cs)
  show ?case
  proof (cases "i = 9")
    case False
    with Cons have "format_chunks (i + 1) cs = concat (map format_chunk (take (10 - (i + 1)) cs))" by simp
    moreover have "10 - i = Suc (10 - (i + 1))" using Cons.prems False by simp
    ultimately show ?thesis using Cons.prems False by (simp del: diff_Suc_Suc)
  qed simp
qed simp

definition context_ok :: "real \<Rightarrow> cross_context \<Rightarrow> bool" where
  "context_ok m x \<longleftrightarrow> list_all (\<lambda>c. m \<le> fc_score c) (cx_chunks x)"

lemma filterAndCap_scores: "list_all (\<lambda>c. m \<le> fc_score c) (filterAndCapChunks cs m n)"
  by (auto simp: filterAndCapChunks_def Let_def list_all_iff dest: in_set_takeD)

lemma no_context_chunks [simp]: "cx_chunks no_context = []"
  by (simp add: no_context_def)

lemma Enrich_context: "context_ok (ec_min_score c) (fst (run_state (Enrich us eng c user repo sy q) s))"
  unfolding Enrich_def
  by (auto simp: split_beta filterAndCap_scores context_ok_def Let_def split: sum.splits)

text \<open>
  Whatever fails, the enricher gives the review a section that is empty or holds at most ten
  chunks, each with a score of at least the configured minimum.
\<close>

lemma Enrich_prompt:
  "let x = fst (run_state (Enrich us eng c user repo sy q) s); shown = take 10 (cx_chunks x) in
     list_all (\<lambda>ch. ec_min_score c \<le> fc_score ch) shown \<and>
     FormatForPrompt x \<in> {[], prompt_header (cx_searched x) @ concat (map format_chunk shown)}"
  using Enrich_context [of c us eng user repo sy q s] format_chunks_take [of 0]
  by (auto simp: Let_def FormatForPrompt_def context_ok_def list_all_iff dest: in_set_takeD)

section \<open>An example\<close>

text \<open>
  An organisation with a budget of one link; repository 11 is linked to 12, and the link to 13 is
  paused.  User 5 owns the organisation, 6 is a member with access to 12, 7 a viewer.
\<close>

definition demo_tables :: link_tables where
  "demo_tables = \<lparr>orgs = [\<lparr>og_id = 1, og_settings = Some [''max_linked_repos'' \<mapsto> SetNum 1]\<rparr>],
     xrepos = [\<lparr>xr_id = 11, xr_org = 1, xr_owner = ''o'', xr_name = ''a''\<rparr>,
       \<lparr>xr_id = 12, xr_org = 1, xr_owner = ''o'', xr_name = ''b''\<rparr>,
       \<lparr>xr_id = 13, xr_org = 1, xr_owner = ''o'', xr_name = ''c''\<rparr>],
     org_members = [\<lparr>om_org = 1, om_user = 5, om_role = ''owner''\<rparr>,
       \<lparr>om_org = 1, om_user = 6, om_role = ''member''\<rparr>, \<lparr>om_org = 1, om_user = 7, om_role = ''viewer''\<rparr>],
     repo_members = [(12, 6)],
     links = [], link_events = []\<rparr>"

definition demo_link :: "uuid \<Rightarrow> uuid \<Rightarrow> string \<Rightarrow> repo_link" where
  "demo_link i tgt p = \<lparr>lk_id = i, lk_org = 1, lk_source = 11, lk_target = tgt, lk_profile = p, lk_label = [],
     lk_created_by = 5, lk_created_at = 0, lk_updated_at = 0\<rparr>"

definition demo :: "repo_link list \<Rightarrow> xstate" where
  "demo ls = \<lparr>x_db = demo_tables\<lparr>links := ls\<rparr>, x_audit = [], x_pending = [], x_engine = [], x_faults = []\<rparr>"

lemmas demo_defs = demo_def demo_tables_def demo_link_def

lemma demo_keys: "keys_ok (x_db (demo [demo_link 101 12 ''full'', demo_link 102 13 ''none'']))"
  by (simp add: keys_ok_def demo_defs link_key_def)


lemma Authorize_decides_access_witness:
  "run_state (Authorize 6 11 12 ActionSearch) (demo [demo_link 101 12 ''full'', demo_link 102 13 ''none'']) =
     (Allow, demo [demo_link 101 12 ''full'', demo_link 102 13 ''none'']) \<and>
   fst (run_state (Authorize 7 11 12 ActionSearch) (demo [demo_link 101 12 ''full''])) \<noteq> Allow"
proof (intro conjI)
  show "run_state (Authorize 6 11 12 ActionSearch) (demo [demo_link 101 12 ''full'', demo_link 102 13 ''none'']) =
     (Allow, demo [demo_link 101 12 ''full'', demo_link 102 13 ''none''])"
    by (rule Authorize_decides_access [THEN conjunct2, THEN conjunct2, rule_format], intro conjI demo_keys)
      (simp_all add: permitted_def demo_defs link_key_def IsOrgCrossRepoEnabled_def profile_level_def action_level_def
        role_level_def)
  have "\<not> permitted (x_db (demo [demo_link 101 12 ''full''])) 7 11 12 ActionSearch"
    by (simp add: permitted_def demo_defs link_key_def profile_level_def action_level_def role_level_def)
  then show "fst (run_state (Authorize 7 11 12 ActionSearch) (demo [demo_link 101 12 ''full''])) \<noteq> Allow"
    using Authorize_decides_access [THEN conjunct2, THEN conjunct1, rule_format] by blast
qed

definition demo_engine :: "unit engine" where
  "demo_engine = \<lparr>en_search = (\<lambda>_ _. Some []), en_other = (\<lambda>_ _. Some ())\<rparr>"

definition demo_config :: search_config where
  "demo_config = \<lparr>fs_top_k = 20, fs_max_total = 30, fs_max_concurrent = 4, fs_normalization = ''min_max''\<rparr>"

lemma demo_allowed:
  "allowed_targets (x_db (demo [demo_link 101 12 ''full'', demo_link 102 13 ''none''])) 6 11 = [12]"
  by (simp add: allowed_targets_def permitted_def demo_defs link_key_def IsOrgCrossRepoEnabled_def
      profile_level_def action_level_def role_level_def)

lemma Search_asks_exactly_witness:
  "x_engine (snd (run_state (Search (\<lambda>_. []) demo_engine 6 11 ''q'' [] demo_config)
     (demo [demo_link 101 12 ''full'', demo_link 102 13 ''none'']))) = [EngSearch ''q'' [11, 12] [] demo_config]"
  by (subst Search_asks_exactly) (simp_all add: demo_keys demo_allowed, simp_all add: demo_defs)

text \<open>A run: the owner links the repositories, the event is written, and the link is deleted again.\<close>

definition us0 :: "uuid \<Rightarrow> string" where "us0 = (\<lambda>_. [])"
definition pu0 :: "string \<Rightarrow> uuid option" where "pu0 = (\<lambda>_. None)"

definition demo_run :: xstate where
  "demo_run =
    (let s1 = snd (run_state (link_handler us0 pu0 demo_engine (Some 5) (RqCreate (Canonical 11)
            (Some \<lparr>lb_target = Canonical 12, lb_profile = ''full'', lb_label = []\<rparr>)) 101 0) (demo []));
         s2 = run_goroutine 0 1 s1;
         s3 = snd (run_state (link_handler us0 pu0 demo_engine (Some 5) (RqDelete (Canonical 101)) 102 2) s2)
     in run_goroutine 0 3 s3)"

lemmas demo_eval = demo_defs run_respond CreateLink_def DeleteLink_def with_user_def with_id_def with_body_def
  or_status_def if_allowed_def op_defs sql_defs ValidShareProfiles_def IsOrgCrossRepoEnabled_def GetOrgMaxLinks_def
  int_of_float_def log_audit_def link_key_def event_of_def Let_def

definition demo_created :: xstate where
  "demo_created = (demo [demo_link 101 12 ''full''])\<lparr>x_audit := [(''crossrepo.link_created'', 101)],
     x_pending := [event_of (demo_link 101 12 ''full'') ''crossrepo.link_created'' 5]\<rparr>"

lemma demo_create:
  "snd (run_state (link_handler us0 pu0 demo_engine (Some 5) (RqCreate (Canonical 11)
      (Some \<lparr>lb_target = Canonical 12, lb_profile = ''full'', lb_label = []\<rparr>)) 101 0) (demo [])) = demo_created"
  by (simp add: demo_created_def demo_eval)

definition demo_event :: link_event where
  "demo_event = (event_of (demo_link 101 12 ''full'') ''crossrepo.link_created'' 5)\<lparr>le_created_at := 1\<rparr>"

definition demo_recorded :: xstate where
  "demo_recorded = demo_created\<lparr>x_pending := [],
     x_db := demo_tables\<lparr>links := [demo_link 101 12 ''full''], link_events := [demo_event]\<rparr>\<rparr>"

lemma demo_record: "run_goroutine 0 1 demo_created = demo_recorded"
  by (simp add: run_goroutine_def demo_created_def demo_recorded_def demo_event_def demo_eval)

definition demo_deleted :: xstate where
  "demo_deleted = demo_created\<lparr>x_db := demo_tables\<lparr>link_events := [demo_event\<lparr>le_link := None\<rparr>]\<rparr>,
     x_audit := [(''crossrepo.link_created'', 101), (''crossrepo.link_deleted'', 101)],
     x_pending := [event_of (demo_link 101 12 ''full'') ''crossrepo.link_deleted'' 5]\<rparr>"

lemma demo_delete:
  "snd (run_state (link_handler us0 pu0 demo_engine (Some 5) (RqDelete (Canonical 101)) 102 2) demo_recorded) = demo_deleted"
  by (simp add: demo_recorded_def demo_deleted_def demo_created_def demo_event_def demo_eval delete_where_def)

lemma demo_refuse: "run_goroutine 0 3 demo_deleted = demo_deleted\<lparr>x_pending := []\<rparr>"
  by (simp add: run_goroutine_def demo_deleted_def demo_created_def demo_event_def demo_eval)

lemma demo_run_eq: "demo_run = demo_deleted\<lparr>x_pending := []\<rparr>"
  unfolding demo_run_def Let_def demo_create demo_record demo_delete demo_refuse ..

lemma demo_reach_recorded: "link_reach us0 pu0 demo_engine demo_recorded"
proof -
  have "link_reach us0 pu0 demo_engine (demo [])"
    unfolding demo_def by (rule link_reach.start) (simp_all add: keys_ok_def demo_tables_def)
  then have "link_reach us0 pu0 demo_engine demo_created"
    unfolding demo_create [symmetric] by (rule link_reach.request) (simp add: used_ids_def demo_defs)
  then show ?thesis
    unfolding demo_record [symmetric] by (rule link_reach.goroutine) (simp add: demo_created_def)
qed

lemma demo_reach: "link_reach us0 pu0 demo_engine demo_run"
proof -
  have "link_reach us0 pu0 demo_engine demo_deleted"
    unfolding demo_delete [symmetric]
    by (rule link_reach.request [OF demo_reach_recorded])
      (simp add: used_ids_def demo_recorded_def demo_created_def demo_link_def)
  then show ?thesis
    unfolding demo_run_eq demo_refuse [symmetric] by (rule link_reach.goroutine) (simp add: demo_deleted_def)
qed

text \<open>The target repository is deleted: the link goes and its event loses the reference.\<close>

definition demo_dropped :: xstate where
  "demo_dropped = demo_recorded\<lparr>x_db := demo_tables\<lparr>xrepos := delete_where (\<lambda>r. xr_id r = 12) (xrepos demo_tables),
     repo_members := [], link_events := [demo_event\<lparr>le_link := None\<rparr>]\<rparr>\<rparr>"

lemma demo_reach_dropped: "link_reach us0 pu0 demo_engine demo_dropped"
proof -
  have "change_tables (ChDropRepo 12) (x_db demo_recorded) = Inr (x_db demo_dropped)"
    by (simp add: drop_xrepo_def demo_recorded_def demo_dropped_def demo_event_def demo_tables_def demo_link_def
        event_of_def delete_where_def update_where_def)
  from link_reach.other [OF demo_reach_recorded this] show ?thesis by (simp add: demo_dropped_def)
qed

lemma reachable_links_ok_witness:
  "links_ok (x_db demo_dropped) \<and> links (x_db demo_dropped) = [] \<and> map le_link (link_events (x_db demo_dropped)) = [None]"
  by (rule conjI, rule reachable_links_ok [OF demo_reach_dropped]) (simp add: demo_dropped_def demo_tables_def)

lemma deletions_are_never_recorded_witness:
  "list_all (\<lambda>e. le_action e \<noteq> ''crossrepo.link_deleted'') (link_events (x_db demo_run)) \<and>
   (''crossrepo.link_deleted'', 101) \<in> set (x_audit demo_run) \<and> x_pending demo_run = [] \<and> links (x_db demo_run) = []"
  by (rule conjI, rule deletions_are_never_recorded [OF demo_reach])
    (simp add: demo_run_eq demo_deleted_def demo_tables_def)

lemma CreateLink_respects_budget_example:
  "int (active_links 1 (x_db demo_created)) \<le> 1"
proof -
  have "run_state (CreateLink (Some 5) (Canonical 11)
      (Some \<lparr>lb_target = Canonical 12, lb_profile = ''full'', lb_label = []\<rparr>) 101 0) (demo []) =
    (Reply 201 (demo_link 101 12 ''full''), demo_created)"
    by (simp add: demo_created_def demo_eval)
  from CreateLink_respects_budget [OF this, of "\<lparr>og_id = 1, og_settings = Some [''max_linked_repos'' \<mapsto> SetNum 1]\<rparr>"]
  show ?thesis by (simp add: keys_ok_def demo_eval)
qed

end
