(* ===== verification/WebhookDrain.thy ===== *)
theory WebhookDrain
  imports WebhookQueue
begin

text \<open>
  Termination of the retries: while the database answers, every round of the worker that comes two
  hours after the last one brings the queue closer to a state without live deliveries.
\<close>

section \<open>Rounds without failures\<close>

definition calm :: "queue_state \<Rightarrow> bool" where
  "calm s \<longleftrightarrow> wq_pool s \<and> wq_faults s = []"

lemma calm_io [simp]: "calm s \<Longrightarrow> run_state wq_io s = (Inr (), s)"
  by (simp add: calm_def wq_io_def)

lemma calm_query [simp]: "calm s \<Longrightarrow> run_state (wq_query f) s = (Inr (f s), s)"
  by (simp add: wq_query_def)

lemma calm_exec [simp]: "calm s \<Longrightarrow> run_state (wq_exec f) s = (Inr (), s\<lparr>wq_rows := f (wq_rows s)\<rparr>)"
  by (simp add: wq_exec_def)

lemma calm_rows [simp]: "calm (s\<lparr>wq_rows := rs\<rparr>) = calm s" "calm (s\<lparr>wq_runs := us\<rparr>) = calm s"
  by (simp_all add: calm_def)

lemma calm_clock:
  "calm s \<Longrightarrow> \<exists>now t. run_state wq_clock s = (now, t) \<and> calm t \<and> wq_now s \<le> now \<and> wq_now t = now \<and>
     wq_rows t = wq_rows s \<and> wq_runs t = wq_runs s"
  by (cases "wq_ticks s") (auto simp: wq_clock_def calm_def)

definition live :: "delivery \<Rightarrow> bool" where
  "live r \<longleftrightarrow> wd_status r \<in> {DPending, DFailed}"

definition weight :: "delivery \<Rightarrow> nat" where
  "weight r = (if live r then nat (max 1 (wd_max r - int (wd_attempts r))) else 0)"

definition work :: "delivery list \<Rightarrow> nat" where
  "work rs = sum_list (map weight rs)"

definition due_by :: "time \<Rightarrow> delivery \<Rightarrow> bool" where
  "due_by t r \<longleftrightarrow> wd_status r \<noteq> DProcessing \<and>
     (wd_status r = DFailed \<longrightarrow> (\<exists>x. wd_next r = Some x \<and> x \<le> t))"

text \<open>A row is in order by a time, or is one of some rows \<open>P\<close> left in processing.\<close>

definition row_due :: "delivery set \<Rightarrow> time \<Rightarrow> delivery \<Rightarrow> bool" where
  "row_due P t r \<longleftrightarrow> due_by t r \<or> r \<in> P \<and> wd_status r = DProcessing"

definition healthy :: "delivery set \<Rightarrow> queue_state \<Rightarrow> bool" where
  "healthy P s \<longleftrightarrow> calm s \<and> distinct (map wd_id (wq_rows s)) \<and> (\<forall>r\<in>set (wq_rows s). row_due P (wq_now s + max_backoff) r)"

lemma retry_backoff_le: "retry_backoff n \<le> max_backoff"
  by (simp add: retry_backoff_def Let_def)

lemma due_by_later: "row_due P t r \<Longrightarrow> t \<le> t' \<Longrightarrow> row_due P t' r"
  by (force simp: due_by_def row_due_def)

lemma weight_attempt:
  assumes "attempt d r'" and "wd_status r' \<noteq> DProcessing" and "live d"
  shows "weight r' < weight d"
  using attempt_fields [OF assms(1)] assms(2,3) by (auto simp: weight_def live_def)

lemma work_put:
  assumes "distinct (map wd_id rs)" and "d \<in> set rs" and "wd_id r' = wd_id d"
  shows "work (put_row r' rs) + weight d = work rs + weight r'"
  using assms
proof (induction rs)
  case (Cons x rs)
  have same: "put_row r' rs = rs" if "wd_id r' \<notin> set (map wd_id rs)"
    using that by (induction rs) (auto simp: put_row_def)
  show ?case
  proof (cases "x = d")
    case True
    with Cons.prems same show ?thesis by (simp add: work_def put_row_def)
  next
    case False
    then have "wd_id x \<noteq> wd_id d" "d \<in> set rs" using Cons.prems by (auto simp: image_iff)
    with Cons show ?thesis by (simp add: work_def put_row_def)
  qed
qed simp

lemma calm_find:
  assumes "distinct (map wd_id rs)" and "d \<in> set rs"
  shows "List.find (\<lambda>r. wd_id r = wd_id d) (update_where (\<lambda>r. wd_id r = wd_id d) to_processing rs) = Some (to_processing d)"
  using find_update_where [of "\<lambda>r. wd_id r = wd_id d" "\<lambda>r. wd_id r = wd_id d" to_processing rs] find_unique [OF assms]
  by simp

lemma update_twice_put:
  assumes "distinct (map wd_id rs)" and "d \<in> set rs" and "wd_id (g (to_processing d)) = wd_id d"
  shows "update_where (\<lambda>r. wd_id r = wd_id d) g (update_where (\<lambda>r. wd_id r = wd_id d) to_processing rs) =
    put_row (g (to_processing d)) rs"
proof -
  have "update_where (\<lambda>r. wd_id r = wd_id d) g (update_where (\<lambda>r. wd_id r = wd_id d) to_processing rs) =
      update_where (\<lambda>r. wd_id r = wd_id d) (g \<circ> to_processing) rs"
    by (rule update_where_twice) simp
  also have "\<dots> = put_row (g (to_processing d)) rs"
    using update_where_const [OF assms(1,2), of "g \<circ> to_processing"] assms(3) by (simp add: put_row_def)
  finally show ?thesis .
qed

text \<open>One delivery: it ends, or fails with a retry due within two hours.\<close>

lemma processDelivery_calm:
  assumes "healthy P s" and "d \<in> set (wq_rows s)"
  shows "\<exists>r'. let t = snd (run_state (processDelivery ex d) s) in
    attempt d r' \<and> calm t \<and> wq_now s \<le> wq_now t \<and> wq_rows t = put_row r' (wq_rows s) \<and> due_by (wq_now t + max_backoff) r'"
proof -
  have c: "calm s" and dist: "distinct (map wd_id (wq_rows s))" using assms(1) by (simp_all add: healthy_def)
  let ?p = "\<lambda>r. wd_id r = wd_id d"
  let ?s2 = "s\<lparr>wq_rows := update_where ?p to_processing (wq_rows s), wq_runs := wq_runs s @ [wd_id d]\<rparr>"
  have c2: "calm ?s2" using c by simp
  obtain now u where clk: "run_state wq_clock ?s2 = (now, u)" "calm u" "wq_now s \<le> now" "wq_now u = now"
      "wq_rows u = update_where ?p to_processing (wq_rows s)"
    using calm_clock [OF c2] by auto
  note put = update_twice_put [OF dist assms(2)]
  show ?thesis
  proof (cases "ex (wq_runs s) (wd_repo d) (wd_pr d)")
    case None
    let ?r = "to_completed now (to_processing d)"
    have run: "snd (run_state (processDelivery ex d) s) = u\<lparr>wq_rows := put_row ?r (wq_rows s)\<rparr>"
      using None c clk by (simp add: processDelivery_def MarkProcessing_def MarkCompleted_def set_row_def
          run_executor_def put)
    show ?thesis
      unfolding run Let_def using clk
      by (intro exI [of _ ?r]) (auto simp: attempt_def due_by_def to_completed_def)
  next
    case (Some msg)
    show ?thesis
    proof (cases "wd_max d \<le> int (wd_attempts d + 1)")
      case True
      let ?r = "to_dead msg (to_processing d)"
      have run: "snd (run_state (processDelivery ex d) s) = ?s2\<lparr>wq_rows := put_row ?r (wq_rows s)\<rparr>"
        using Some c True by (simp add: processDelivery_def MarkProcessing_def MarkFailed_def set_row_def
            run_executor_def put calm_find [OF dist assms(2)])
      show ?thesis
        unfolding run Let_def using c True
        by (intro exI [of _ ?r]) (auto simp: attempt_def due_by_def to_dead_def)
    next
      case False
      let ?r = "to_failed msg (now + retry_backoff (wd_attempts d + 1)) (to_processing d)"
      have run: "snd (run_state (processDelivery ex d) s) = u\<lparr>wq_rows := put_row ?r (wq_rows s)\<rparr>"
        using Some c False clk by (simp add: processDelivery_def MarkProcessing_def MarkFailed_def set_row_def
            run_executor_def put calm_find [OF dist assms(2)])
      show ?thesis
        unfolding run Let_def using clk False
        by (intro exI [of _ ?r]) (auto simp: attempt_def due_by_def to_failed_def intro: retry_backoff_le)
    qed
  qed
qed

lemma processDelivery_progress:
  assumes "healthy P s" and "d \<in> set (wq_rows s)" and "live d"
  shows "let t = snd (run_state (processDelivery ex d) s) in healthy P t \<and> wq_now s \<le> wq_now t \<and>
    work (wq_rows t) < work (wq_rows s) \<and> (\<forall>x\<in>set (wq_rows s). wd_id x \<noteq> wd_id d \<longrightarrow> x \<in> set (wq_rows t))"
proof -
  let ?t = "snd (run_state (processDelivery ex d) s)"
  obtain r' where r': "attempt d r'" "calm ?t" "wq_now s \<le> wq_now ?t" "wq_rows ?t = put_row r' (wq_rows s)"
      "due_by (wq_now ?t + max_backoff) r'"
    using processDelivery_calm [OF assms(1,2), of ex] by (auto simp: Let_def)
  have id: "wd_id r' = wd_id d" using r'(1) by (rule attempt_id)
  have dist: "distinct (map wd_id (wq_rows s))" and due: "\<And>x. x \<in> set (wq_rows s) \<Longrightarrow> row_due P (wq_now s + max_backoff) x"
    using assms(1) by (simp_all add: healthy_def)
  have "row_due P (wq_now ?t + max_backoff) x" if "x \<in> set (wq_rows ?t)" for x
    using in_put_row [of x r' "wq_rows s"] that r'(3,4,5) due_by_later [OF due, of x "wq_now ?t + max_backoff"]
    by (auto simp: row_due_def)
  then have "healthy P ?t" using r'(2,4) dist by (simp add: healthy_def put_row_ids)
  moreover have "work (wq_rows ?t) < work (wq_rows s)"
    using work_put [OF dist assms(2) id] weight_attempt [OF r'(1) _ assms(3)] r'(4,5) by (simp add: due_by_def)
  moreover have "\<forall>x\<in>set (wq_rows s). wd_id x \<noteq> wd_id d \<longrightarrow> x \<in> set (wq_rows ?t)"
    using put_row_keeps id r'(4) by auto
  ultimately show ?thesis using r'(3) by (simp add: Let_def)
qed

lemma for_each_progress:
  assumes "healthy P s" and "distinct (map wd_id ds)" and "\<forall>d\<in>set ds. d \<in> set (wq_rows s) \<and> live d"
  shows "let t = snd (run_state (for_each (processDelivery ex) ds) s) in healthy P t \<and> wq_now s \<le> wq_now t \<and>
    work (wq_rows t) + length ds \<le> work (wq_rows s)"
  using assms
proof (induction ds arbitrary: s)
  case (Cons d ds)
  let ?t = "snd (run_state (processDelivery ex d) s)"
  have t: "healthy P ?t" "wq_now s \<le> wq_now ?t" "work (wq_rows ?t) < work (wq_rows s)"
    and keep: "\<forall>x\<in>set (wq_rows s). wd_id x \<noteq> wd_id d \<longrightarrow> x \<in> set (wq_rows ?t)"
    using processDelivery_progress [OF Cons.prems(1), of d ex] Cons.prems(3) by (auto simp: Let_def)
  have "wd_id x \<noteq> wd_id d" if "x \<in> set ds" for x using Cons.prems(2) that by (auto simp: image_iff)
  then have "let u = snd (run_state (for_each (processDelivery ex) ds) ?t) in healthy P u \<and> wq_now ?t \<le> wq_now u \<and>
      work (wq_rows u) + length ds \<le> work (wq_rows ?t)"
    using Cons.prems keep by (intro Cons.IH t(1)) auto
  with t show ?case by (auto simp: Let_def split_beta)
qed (simp add: Let_def)

section \<open>Rounds of the worker\<close>

definition wq_round :: "executor \<Rightarrow> queue_state \<Rightarrow> queue_state" where
  "wq_round ex s = snd (run_state (processBatch ex) (s\<lparr>wq_now := wq_now s + max_backoff\<rparr>))"

lemma weight_zero: "weight r = 0 \<longleftrightarrow> \<not> live r"
proof -
  have "0 < nat (max 1 x)" for x :: int by simp
  then show ?thesis unfolding weight_def by (metis less_numeral_extra(3))
qed

lemma work_zero: "work rs = 0 \<longleftrightarrow> (\<forall>r\<in>set rs. \<not> live r)"
  by (simp add: work_def weight_zero)

lemma list_progress:
  assumes "healthy P s" and "run_state m s = (Inr ds, t)" and "healthy P t" and "wq_rows t = wq_rows s" and "wq_now s \<le> wq_now t"
    and "distinct (map wd_id ds)" and "\<forall>d\<in>set ds. d \<in> set (wq_rows s) \<and> live d"
  shows "let u = snd (run_state (process_list ex m) s) in healthy P u \<and> wq_now s \<le> wq_now u \<and>
      work (wq_rows u) + length ds \<le> work (wq_rows s) \<and> fst (run_state (process_list ex m) s) \<and> (ds = [] \<longrightarrow> u = t)"
  using for_each_progress [OF assms(3,6), of ex] assms(2,4,5,7) by (auto simp: process_list_def Let_def split_beta)

lemma pending_run:
  "calm s \<Longrightarrow> run_state (ListPending n) s =
    (Inr (take n (sort_key wd_created (filter (\<lambda>r. wd_status r = DPending) (wq_rows s)))), s)"
  by (simp add: ListPending_def)

lemma healthy_clock:
  assumes "healthy P s"
  shows "\<exists>now t. run_state wq_clock s = (now, t) \<and> healthy P t \<and> wq_now s \<le> now \<and> wq_now t = now \<and> wq_rows t = wq_rows s"
proof -
  obtain now t where t: "run_state wq_clock s = (now, t)" "calm t" "wq_now s \<le> now" "wq_now t = now" "wq_rows t = wq_rows s"
    using calm_clock [of s] assms by (auto simp: healthy_def)
  have "row_due P (wq_now t + max_backoff) x" if "x \<in> set (wq_rows s)" for x
    using assms that t(3,4) due_by_later [of P "wq_now s + max_backoff" x "wq_now t + max_backoff"] by (simp add: healthy_def)
  with t assms have "healthy P t" by (simp add: healthy_def)
  with t show ?thesis by blast
qed

lemma no_listing: "0 < n \<Longrightarrow> take n (sort_key k xs) = [] \<longleftrightarrow> xs = []"
proof -
  have "sort_key k xs = [] \<longleftrightarrow> xs = []" using length_sort [of k xs] by (simp flip: length_0_conv)
  then show "0 < n \<Longrightarrow> ?thesis" by simp
qed

lemma round_progress:
  assumes "healthy P s"
  shows "healthy P (wq_round ex s) \<and> work (wq_rows (wq_round ex s)) \<le> work (wq_rows s) - 1"
proof -
  let ?s = "s\<lparr>wq_now := wq_now s + max_backoff\<rparr>"
  let ?key = "\<lambda>r. case wd_next r of None \<Rightarrow> 0 | Some t \<Rightarrow> t"
  have "row_due P (wq_now ?s + max_backoff) x" if "x \<in> set (wq_rows s)" for x
    using assms that due_by_later [of P "wq_now s + max_backoff" x "wq_now ?s + max_backoff"]
    by (simp add: healthy_def max_backoff_def hour_def minute_def second_def)
  with assms have h: "healthy P ?s" by (simp add: healthy_def calm_def)
  have due: "row_due P (wq_now ?s) x" if "x \<in> set (wq_rows ?s)" for x using assms that by (simp add: healthy_def)
  define ps where "ps = take 10 (sort_key wd_created (filter (\<lambda>r. wd_status r = DPending) (wq_rows ?s)))"
  have ps: "run_state (ListPending 10) ?s = (Inr ps, ?s)"
    using h unfolding ps_def by (intro pending_run) (simp add: healthy_def)
  have "distinct (map wd_id ps)" "\<forall>d\<in>set ps. d \<in> set (wq_rows ?s) \<and> live d"
    using h distinct_listing [of wd_id "wq_rows ?s" 10 wd_created] unfolding ps_def
    by (auto simp: healthy_def live_def dest!: in_set_takeD)
  define u where "u = snd (run_state (process_list ex (ListPending 10)) ?s)"
  from list_progress [OF h ps h refl order_refl \<open>distinct (map wd_id ps)\<close> \<open>\<forall>d\<in>set ps. _\<close>, of ex]
  have u: "healthy P u" "wq_now ?s \<le> wq_now u" "work (wq_rows u) + length ps \<le> work (wq_rows s)"
    "fst (run_state (process_list ex (ListPending 10)) ?s)" "ps = [] \<longrightarrow> u = ?s"
    by (simp_all add: Let_def u_def)
  obtain now t where t: "run_state wq_clock u = (now, t)" "healthy P t" "wq_now u \<le> now" "wq_now t = now" "wq_rows t = wq_rows u"
    using healthy_clock [OF u(1)] by blast
  define fs where "fs = take 10 (sort_key ?key (filter (retryable now) (wq_rows u)))"
  have fs: "run_state (ListRetryable 10) u = (Inr fs, t)"
    using t unfolding fs_def by (simp add: ListRetryable_def healthy_def)
  have "distinct (map wd_id fs)" "\<forall>d\<in>set fs. d \<in> set (wq_rows u) \<and> live d"
    using u(1) distinct_listing [of wd_id "wq_rows u" 10 ?key] unfolding fs_def
    by (auto simp: healthy_def live_def retryable_def dest!: in_set_takeD)
  from list_progress [OF u(1) fs t(2,5) _ \<open>distinct (map wd_id fs)\<close> \<open>\<forall>d\<in>set fs. _\<close>, of ex] t(3,4)
  have v: "healthy P (wq_round ex s)" "work (wq_rows (wq_round ex s)) + length fs \<le> work (wq_rows u)"
    using u(4) by (simp_all add: Let_def wq_round_def processBatch_def split_beta u_def)
  have "work (wq_rows s) = 0 \<or> ps \<noteq> [] \<or> fs \<noteq> []"
  proof (rule ccontr)
    assume *: "\<not> ?thesis"
    then obtain r where r: "r \<in> set (wq_rows s)" "live r" by (auto simp: work_zero)
    from * have "u = ?s" and none: "filter (\<lambda>r. wd_status r = DPending) (wq_rows s) = []"
      "filter (retryable now) (wq_rows u) = []"
      using u(5) no_listing [of 10 wd_created "filter (\<lambda>r. wd_status r = DPending) (wq_rows s)"]
        no_listing [of 10 ?key "filter (retryable now) (wq_rows u)"] by (simp_all add: ps_def fs_def)
    from none(1) r have "wd_status r = DFailed" by (auto simp: live_def filter_empty_conv)
    moreover have "wq_now ?s \<le> now" using u(2) t(3) by simp
    ultimately have "retryable now r" using due [of r] r(1) by (auto simp: row_due_def due_by_def retryable_def)
    with none(2) r(1) \<open>u = ?s\<close> show False by (simp add: filter_empty_conv)
  qed
  then have "work (wq_rows s) = 0 \<or> 0 < length ps + length fs" by auto
  with v u(3) show ?thesis by linarith
qed

section \<open>Retries are due within two hours\<close>

text \<open>A failed row knows when it is due; \<open>now\<close> is a reading of the clock that has passed.\<close>

definition on_time :: "time \<Rightarrow> queue_state \<Rightarrow> bool" where
  "on_time now s \<longleftrightarrow> now \<le> wq_now s \<and>
     (\<forall>r\<in>set (wq_rows s). wd_status r = DFailed \<longrightarrow> (\<exists>x. wd_next r = Some x \<and> x \<le> wq_now s + max_backoff))"

lemma on_time_io: "stable (keeps (on_time now)) wq_io"
  by (rule stableI) (auto simp: wq_io_def keeps_def on_time_def split: list.splits)

lemma on_time_exec:
  assumes "\<And>s. on_time now s \<Longrightarrow> on_time now (s\<lparr>wq_rows := f (wq_rows s)\<rparr>)"
  shows "stable (keeps (on_time now)) (wq_exec f)"
  unfolding wq_exec_def
  by (intro keeping.stable_combinators stable_modify keepsI on_time_io assms)

lemma on_time_query: "stable (keeps (on_time now)) (wq_query f)"
  unfolding wq_query_def by (intro keeping.stable_combinators on_time_io)

lemma on_time_rows:
  assumes "\<And>r. wd_status (f r) = DFailed \<Longrightarrow> \<exists>x. wd_next (f r) = Some x \<and> x \<le> now + max_backoff"
  shows "stable (keeps (on_time now)) (set_row i f)"
  unfolding set_row_def
proof (rule on_time_exec)
  fix s assume s: "on_time now s"
  have "\<exists>x. wd_next y = Some x \<and> x \<le> wq_now s + max_backoff"
    if "y \<in> set (update_where (\<lambda>r. wd_id r = i) f (wq_rows s))" "wd_status y = DFailed" for y
  proof -
    from that(1) obtain r where r: "r \<in> set (wq_rows s)" "y = (if wd_id r = i then f r else r)"
      unfolding in_update_where by blast
    show ?thesis
    proof (cases "wd_id r = i")
      case True
      with r(2) have y: "y = f r" by simp
      with assms [of r] that(2) obtain x where "wd_next y = Some x" "x \<le> now + max_backoff" by blast
      then show ?thesis using s by (intro exI [of _ x]) (simp add: on_time_def)
    next
      case False
      then show ?thesis using s r that(2) by (simp add: on_time_def)
    qed
  qed
  then show "on_time now (s\<lparr>wq_rows := update_where (\<lambda>r. wd_id r = i) f (wq_rows s)\<rparr>)"
    using s by (simp add: on_time_def)
qed

lemma on_time_clock:
  assumes "\<And>t. stable (keeps (on_time t)) (f t)"
  shows "stable (keeps (on_time now)) (State_Monad.bind wq_clock f)"
proof (rule stableI, rule keepsI)
  fix s assume s: "on_time now s"
  obtain t u where clock: "run_state wq_clock s = (t, u)" by (metis prod.exhaust)
  have "now \<le> t" "on_time t u"
    using clock s by (cases "wq_ticks s"; fastforce simp: wq_clock_def on_time_def)+
  with keepsD [OF stableD [OF assms]] clock
  show "on_time now (snd (run_state (State_Monad.bind wq_clock f) s))"
    by (fastforce simp: on_time_def)
qed

lemmas on_time_calls = keeping.stable_combinators keeping.stable_void on_time_query on_time_clock

lemma on_time_processDelivery: "stable (keeps (on_time now)) (processDelivery ex d)"
proof -
  have run: "stable (keeps (on_time now)) (run_executor ex d)"
    by (rule stableI) (simp add: run_executor_def keeps_def on_time_def)
  have failed: "stable (keeps (on_time t)) (set_row i (to_failed msg (t + retry_backoff n)))" for t i msg n
    by (rule on_time_rows) (simp add: to_failed_def retry_backoff_le)
  have others: "stable (keeps (on_time t)) (set_row i to_processing)" "stable (keeps (on_time t)) (set_row i (to_dead msg))"
    "stable (keeps (on_time t)) (set_row i (to_completed u))" for t i msg u
    by (rule on_time_rows, simp add: to_processing_def to_dead_def to_completed_def)+
  show ?thesis
    unfolding processDelivery_def MarkProcessing_def MarkCompleted_def MarkFailed_def
    by (intro on_time_calls run failed others)
qed

lemma on_time_batch: "stable (keeps (on_time now)) (processBatch ex)"
  unfolding processBatch_def process_list_def ListPending_def ListRetryable_def
  by (intro on_time_calls on_time_processDelivery)

text \<open>Queues reached while the clock of the server is never set back.\<close>

inductive queue_runs :: "queue_state \<Rightarrow> bool" where
  start: "wq_rows s = [] \<Longrightarrow> wq_runs s = [] \<Longrightarrow> queue_runs s"
| create: "queue_runs s \<Longrightarrow> i \<notin> set (wq_runs s) \<Longrightarrow> queue_runs (snd (run_state (DeliveryCreate d i) s))"
| batch: "queue_runs s \<Longrightarrow> queue_runs (snd (run_state (processBatch ex) s))"
| cleanup: "queue_runs s \<Longrightarrow> queue_runs (snd (run_state (CleanupOld older) s))"
| outside: "queue_runs s \<Longrightarrow> wq_now s \<le> n \<Longrightarrow>
     queue_runs (s\<lparr>wq_now := n, wq_ticks := ts, wq_faults := fs, wq_pool := b\<rparr>)"

lemma queue_runs_reach: "queue_runs s \<Longrightarrow> queue_reach s"
  by (induction rule: queue_runs.induct) (auto intro: queue_reach.intros)

lemma on_time_create: "stable (keeps (on_time now)) (DeliveryCreate d i)"
  unfolding DeliveryCreate_def
  by (intro on_time_calls on_time_exec) (auto simp: on_time_def new_delivery_def)

lemma on_time_cleanup: "stable (keeps (on_time now)) (CleanupOld older)"
  unfolding CleanupOld_def by (intro on_time_calls on_time_exec) (simp add: on_time_def)

lemma on_time_now: "on_time now s \<Longrightarrow> on_time (wq_now s) s"
  by (simp add: on_time_def)

lemma queue_runs_on_time: "queue_runs s \<Longrightarrow> on_time (wq_now s) s"
proof (induction rule: queue_runs.induct)
  case (create s i d)
  show ?case using keepsD [OF stableD [OF on_time_create] create.IH] by (rule on_time_now)
next
  case (batch s ex)
  show ?case using keepsD [OF stableD [OF on_time_batch] batch.IH] by (rule on_time_now)
next
  case (cleanup s older)
  show ?case using keepsD [OF stableD [OF on_time_cleanup] cleanup.IH] by (rule on_time_now)
next
  case (outside s n ts fs b)
  then show ?case by (fastforce simp: on_time_def)
qed (simp add: on_time_def)

section \<open>The queue drains\<close>

text \<open>
  C14: the retries end.  Take any reachable queue, whatever failed before, on a server whose clock is
  never set back.  Once the database answers and rounds are two hours apart, after as many rounds as the
  pending and failed deliveries have attempts left, every delivery is completed or dead, whatever the
  executor does.  The exception are the deliveries that were in processing at the start, left
  there by an earlier failure: each of them that is still there is unchanged, and is never resumed.
\<close>

theorem queue_drains:
  assumes "queue_runs s" and "wq_pool s" and "wq_faults s = []" and "work (wq_rows s) \<le> n"
  shows "\<forall>r\<in>set (wq_rows ((wq_round ex ^^ n) s)).
    wd_status r \<in> {DCompleted, DDead} \<or> r \<in> set (wq_rows s) \<and> wd_status r = DProcessing"
proof -
  let ?P = "set (wq_rows s)"
  have start: "healthy ?P s"
    using queue_runs_on_time [OF assms(1)] queue_reach_ok [OF queue_runs_reach [OF assms(1)]] assms(2,3)
    by (auto simp: healthy_def calm_def queue_ok_def row_due_def due_by_def on_time_def)
  have "healthy ?P ((wq_round ex ^^ n) s) \<and> work (wq_rows ((wq_round ex ^^ n) s)) \<le> work (wq_rows s) - n"
  proof (induction n)
    case 0
    show ?case using start by simp
  next
    case (Suc n)
    then show ?case using round_progress [of ?P "(wq_round ex ^^ n) s" ex] by auto
  qed
  then have h: "healthy ?P ((wq_round ex ^^ n) s)" and w: "work (wq_rows ((wq_round ex ^^ n) s)) = 0"
    using assms(4) by auto
  show ?thesis
  proof
    fix r assume r: "r \<in> set (wq_rows ((wq_round ex ^^ n) s))"
    then have "row_due ?P (wq_now ((wq_round ex ^^ n) s) + max_backoff) r" "\<not> live r"
      using h w by (simp_all add: healthy_def work_zero)
    then show "wd_status r \<in> {DCompleted, DDead} \<or> r \<in> set (wq_rows s) \<and> wd_status r = DProcessing"
      by (cases "wd_status r") (auto simp: row_due_def due_by_def live_def)
  qed
qed

text \<open>One delivery is stuck in processing after a failure; a second one arrives and fails until it is dead.\<close>

definition recovered_queue :: queue_state where
  "recovered_queue = (snd (run_state (DeliveryCreate demo_delivery 4) crashed_queue))\<lparr>wq_now := 0, wq_ticks := [], wq_faults := [], wq_pool := True\<rparr>"

lemma recovered_queue_runs: "queue_runs recovered_queue"
proof -
  have "queue_runs crashed_queue"
    unfolding crashed_queue_def by (intro queue_runs.batch queue_runs.create queue_runs.start) (simp_all add: demo_queue_def)
  moreover have "4 \<notin> set (wq_runs crashed_queue)"
    by (simp add: crashed_queue_def demo_queue_def demo_delivery_def DeliveryCreate_def processBatch_def process_list_def
        ListPending_def ListRetryable_def wq_query_def wq_exec_def wq_io_def wq_clock_def new_delivery_def processDelivery_def
        MarkProcessing_def MarkFailed_def set_row_def run_executor_def to_processing_def update_where_def retryable_def)
  ultimately have "queue_runs (snd (run_state (DeliveryCreate demo_delivery 4) crashed_queue))" by (rule queue_runs.create)
  moreover have "wq_now (snd (run_state (DeliveryCreate demo_delivery 4) crashed_queue)) \<le> 0"
    by (simp add: crashed_queue_def demo_queue_def demo_delivery_def DeliveryCreate_def processBatch_def process_list_def
        ListPending_def ListRetryable_def wq_query_def wq_exec_def wq_io_def wq_clock_def new_delivery_def processDelivery_def
        MarkProcessing_def MarkFailed_def set_row_def run_executor_def to_processing_def update_where_def retryable_def)
  ultimately show ?thesis unfolding recovered_queue_def by (rule queue_runs.outside)
qed

lemma recovered_queue_rows:
  "wq_rows recovered_queue = [to_processing demo_delivery, demo_delivery\<lparr>wd_id := 4\<rparr>]"
  by (simp add: recovered_queue_def crashed_queue_def demo_queue_def demo_delivery_def DeliveryCreate_def processBatch_def
      process_list_def ListPending_def ListRetryable_def wq_query_def wq_exec_def wq_io_def wq_clock_def new_delivery_def
      processDelivery_def MarkProcessing_def MarkFailed_def set_row_def run_executor_def to_processing_def update_where_def
      retryable_def)

theorem queue_drains_witness:
  "list_all (\<lambda>r. wd_status r \<in> {DCompleted, DDead} \<or> r = to_processing demo_delivery)
     (wq_rows ((wq_round (\<lambda>_ _ _. Some ''down'') ^^ 2) recovered_queue))"
proof -
  have "wq_pool recovered_queue" "wq_faults recovered_queue = []" "work (wq_rows recovered_queue) \<le> 2"
    by (simp_all add: recovered_queue_rows work_def weight_def live_def demo_delivery_def to_processing_def)
      (simp_all add: recovered_queue_def)
  note drained = queue_drains [OF recovered_queue_runs this, of "\<lambda>_ _ _. Some ''down''"]
  have pending: "wd_status (demo_delivery\<lparr>wd_id := 4\<rparr>) \<noteq> DProcessing" by (simp add: demo_delivery_def)
  show ?thesis unfolding list_all_iff
  proof
    fix r assume "r \<in> set (wq_rows ((wq_round (\<lambda>_ _ _. Some ''down'') ^^ 2) recovered_queue))"
    with drained have "wd_status r \<in> {DCompleted, DDead} \<or> r \<in> set (wq_rows recovered_queue) \<and> wd_status r = DProcessing"
      by blast
    then show "wd_status r \<in> {DCompleted, DDead} \<or> r = to_processing demo_delivery"
      using pending unfolding recovered_queue_rows by auto
  qed
qed

end
