(* ===== verification/AccountCorrect.thy ===== *)
theory AccountCorrect
  imports AccountSystem CrossRepoCorrect APICorrect
begin

text \<open>
  What the account endpoints, the login, the webhooks and the review pipeline guarantee, and what they
  do not: theorems over runs of the handlers, most of them from reachable states.
\<close>

section \<open>Runs without failing statements\<close>

lemma calm_statements:
  assumes "a_faults s = []"
  shows "run_state (aselect f) s = (Inr (f (a_db s)), s)"
    and "run_state (afetch g) s = (case g (a_db s) of None \<Rightarrow> Inl ErrNotFound | Some x \<Rightarrow> Inr x, s)"
    and "run_state (aexec h) s = (case h (a_db s) of Inl e \<Rightarrow> (Inl e, s) | Inr d \<Rightarrow> (Inr (), s\<lparr>a_db := d\<rparr>))"
  using assms by (simp_all add: aselect_def afetch_def aexec_def a_io_def split: option.split sum.split)

lemma meets_on_fst: "meets I m Q \<Longrightarrow> meets (\<lambda>p. I (fst p) \<and> J (snd p)) (on_fst m) Q"
  by (auto simp: meets_def)

lemma meets_on_snd: "meets J m Q \<Longrightarrow> meets (\<lambda>p. I (fst p) \<and> J (snd p)) (on_snd m) Q"
  by (auto simp: meets_def)

section \<open>Webhook jobs\<close>

text \<open>Statements that read keep the tables, and the pipeline of a job without a user ends at the third step.\<close>

definition at_db :: "account_db \<Rightarrow> account_state \<Rightarrow> bool" where
  "at_db d s \<longleftrightarrow> a_db s = d"

lemma at_db_reads: "meets (at_db d) (aselect f) (\<lambda>_. True)" "meets (at_db d) (afetch g) (\<lambda>_. True)" "meets (at_db d) a_io (\<lambda>_. True)"
  by (auto simp: meets_def at_db_def aselect_def afetch_def a_io_def split: list.splits sum.splits option.splits prod.splits)

lemma no_user_no_review:
  assumes "jb_by j \<notin> user_ids d"
  shows "meets (at_db d) (ReviewCreate (new_review r j) i now) isl"
  using assms
  by (auto simp: meets_def at_db_def ReviewCreate_def Let_def aexec_def a_io_def insert_review_def new_review_def
      user_ids_def split: list.splits sum.splits prod.splits)

lemma at_db_creds: "meets (at_db d) (ForRepoDirect vault g p secret) (\<lambda>_. True)"
  unfolding ForRepoDirect_def resolveOrgOwnerCreds_def
  by (intro meets_bind [OF _ meets_ret] meets_bind [OF at_db_reads(2)] meets_bind [OF at_db_reads(3)] meets_case_sum
      meets_ret meets_if TrueI)

definition job_frame :: "account_db \<Rightarrow> out_call list \<Rightarrow> account_state \<times> outside \<Rightarrow> bool" where
  "job_frame d cs p \<longleftrightarrow> at_db d (fst p) \<and> wk_calls (snd p) = cs"

lemma frame_fst: "meets (at_db d) m Q \<Longrightarrow> meets (job_frame d cs) (on_fst m) Q"
  by (auto simp: meets_def job_frame_def)

lemma frame_progress: "meets (job_frame d cs) (emitProgress x n st) (\<lambda>_. True)"
  by (auto simp: meets_def job_frame_def emitProgress_def)

lemma orphan_job_stops:
  assumes "jb_by j \<notin> user_ids d"
  shows "meets (job_frame d cs) (Execute pipe j i ids start now) isl"
  unfolding Execute_def RepoGet_def
  by (intro meets_bind [OF frame_progress] meets_bind [OF frame_fst [OF at_db_reads(2)]]
      meets_bind [OF frame_fst [OF at_db_creds]] meets_bind [OF frame_fst [OF no_user_no_review [OF assms]]]
      meets_case_sum meets_ret) auto

text \<open>What makes a request of a platform an authentic event of a repository.\<close>

fun hook_signed :: "hook_cfg \<Rightarrow> hook_request \<Rightarrow> repository \<Rightarrow> bool" where
  "hook_signed cfg (HookGitHub raw event sig) r \<longleftrightarrow> rp_platform r = ''github'' \<and> (\<exists>n. rp_external r = show_int n) \<and>
     (\<exists>body. hook_body raw = Some body \<and> trim_prefix ''sha256='' sig = hk_hmac cfg (rp_secret r) body)"
| "hook_signed cfg (HookGitLab raw event sig) r \<longleftrightarrow> rp_platform r = ''gitlab'' \<and> (\<exists>n. rp_external r = show_int n) \<and>
     sig = rp_secret r"
| "hook_signed cfg (HookBitbucket raw event sig) r \<longleftrightarrow> rp_platform r = ''bitbucket'' \<and>
     (\<exists>body. hook_body raw = Some body \<and> trim_prefix ''sha256='' sig = hk_hmac cfg (rp_secret r) body)"
| "hook_signed cfg (HookAzure raw sig) r \<longleftrightarrow> rp_platform r = ''azure_devops'' \<and> sig = rp_secret r"

text \<open>The repositories stay, and every job is an old one or satisfies \<open>good\<close>.\<close>

definition hook_inv :: "repository list \<Rightarrow> review_job set \<Rightarrow> (review_job \<Rightarrow> bool) \<Rightarrow> account_state \<Rightarrow> bool" where
  "hook_inv rs old good s \<longleftrightarrow> ac_repos (a_db s) = rs \<and> (\<forall>j\<in>set (a_jobs s). j \<in> old \<or> good j)"

lemma hook_reads:
  "stable (keeps (hook_inv rs old good)) (aselect f)" "stable (keeps (hook_inv rs old good)) (afetch g)"
  "stable (keeps (hook_inv rs old good)) a_io"
  by (auto simp: stable_def keeps_def hook_inv_def aselect_def afetch_def a_io_def split: list.splits sum.splits option.splits prod.splits)

lemma hook_exec:
  "(\<And>d d'. f d = Inr d' \<Longrightarrow> ac_repos d' = ac_repos d) \<Longrightarrow> stable (keeps (hook_inv rs old good)) (aexec f)"
  by (auto simp: stable_def keeps_def hook_inv_def aexec_def a_io_def split: list.splits sum.splits prod.splits)

lemma hook_steps:
  "stable (keeps (hook_inv rs old good)) (record_event cfg p t b ev)"
  "stable (keeps (hook_inv rs old good)) (LogRequest cl a ty i)"
  "stable (keeps (hook_inv rs old good)) (hook_secret cfg repo p)"
  "stable (keeps (hook_inv rs old good)) (MarkProcessed ev msg)"
  "good j \<Longrightarrow> stable (keeps (hook_inv rs old good)) (start_job j)"
proof -
  show "stable (keeps (hook_inv rs old good)) (record_event cfg p t b ev)"
    unfolding record_event_def RecordEvent_def
    by (intro keeping.stable_void hook_exec) (auto simp: insert_webhook_def split: if_splits)
  show "stable (keeps (hook_inv rs old good)) (LogRequest cl a ty i)"
    unfolding LogRequest_def by (rule stable_modify) (simp add: keeps_def hook_inv_def)
  show "stable (keeps (hook_inv rs old good)) (hook_secret cfg repo p)"
    unfolding hook_secret_def ResolveWebhookSecretForOrg_def resolveOrgOwnerCreds_def
    by (intro hook_reads keeping.stable_combinators)
  show "stable (keeps (hook_inv rs old good)) (MarkProcessed ev msg)"
    unfolding MarkProcessed_def by (rule hook_exec) auto
  show "good j \<Longrightarrow> stable (keeps (hook_inv rs old good)) (start_job j)"
    unfolding start_job_def by (rule stable_modify) (auto simp: keeps_def hook_inv_def)
qed

lemma hook_accept: "good j \<Longrightarrow> stable (keeps (hook_inv rs old good)) (accept_hook ev j)"
  unfolding accept_hook_def by (intro hook_steps keeping.stable_combinators)

lemma hook_repo_row:
  "meets (hook_inv rs old good) (GetByPlatformAndExternalID p ext) (\<lambda>r. case r of Inl _ \<Rightarrow> True
     | Inr x \<Rightarrow> x \<in> set rs \<and> rp_platform x = p \<and> rp_external x = ext)"
  by (auto simp: meets_def hook_inv_def GetByPlatformAndExternalID_def aselect_def afetch_def a_io_def dest: find_Some_in
      split: list.splits sum.splits option.splits prod.splits)

lemma hook_repo_rule:
  assumes "\<And>r. r \<in> set rs \<Longrightarrow> rp_platform r = p \<Longrightarrow> rp_external r = ext \<Longrightarrow> stable (keeps (hook_inv rs old good)) (k r)"
  shows "stable (keeps (hook_inv rs old good)) (hook_repo p ext k)"
  unfolding hook_repo_def
  by (rule stable_bind_meets [OF hook_repo_row])
    (auto intro!: keeping.stable_combinators stable_case_store_error assms split: sum.split)

lemma hook_secret_rule:
  assumes "rp_secret r \<noteq> []" and "stable (keeps (hook_inv rs old good)) (k (rp_secret r))"
  shows "stable (keeps (hook_inv rs old good)) (State_Monad.bind (hook_secret cfg r p) k)"
  using assms by (simp add: hook_secret_def)

lemmas hook_calls = hook_steps(1,2) hook_accept hook_repo_rule hook_secret_rule keeping.stable_combinators

lemma hook_jobs:
  assumes secrets: "\<forall>r\<in>set rs. rp_secret r \<noteq> []"
    and good: "\<And>r j. r \<in> set rs \<Longrightarrow> hook_signed cfg req r \<Longrightarrow> good (webhook_job (rp_id r) j)"
  shows "stable (keeps (hook_inv rs old good)) (hook_endpoint cfg ev req)"
proof (cases req)
  case (HookGitHub raw event sig)
  have ok: "good (webhook_job (rp_id r) j)"
    if "r \<in> set rs" "rp_platform r = ''github''" "rp_external r = show_int n" "hook_body raw = Some body"
      "ValidateWebhookHMAC (hk_hmac cfg) body sig (rp_secret r)" for r n body j
    by (rule good) (use that secrets in \<open>auto simp: HookGitHub ValidateWebhookHMAC_def\<close>)
  show ?thesis
    unfolding HookGitHub hook_endpoint.simps HandleGitHubWebhook_def with_body_def
    by (intro hook_calls; (use secrets ok in blast)?)
next
  case (HookGitLab raw event sig)
  have ok: "good (webhook_job (rp_id r) j)"
    if "r \<in> set rs" "rp_platform r = ''gitlab''" "rp_external r = show_int n" "ValidateWebhookToken sig (rp_secret r)" for r n j
    by (rule good) (use that secrets in \<open>auto simp: HookGitLab ValidateWebhookToken_def\<close>)
  show ?thesis
    unfolding HookGitLab hook_endpoint.simps HandleGitLabWebhook_def with_body_def
    by (intro hook_calls; (use secrets ok in blast)?)
next
  case (HookBitbucket raw event sig)
  have ok: "good (webhook_job (rp_id r) j)"
    if "r \<in> set rs" "rp_platform r = ''bitbucket''" "hook_body raw = Some body"
      "ValidateWebhookHMAC (hk_hmac cfg) body sig (rp_secret r)" for r body j
    by (rule good) (use that secrets in \<open>auto simp: HookBitbucket ValidateWebhookHMAC_def\<close>)
  show ?thesis
    unfolding HookBitbucket hook_endpoint.simps HandleBitbucketWebhook_def with_body_def
    by (intro hook_calls; (use secrets ok in blast)?)
next
  case (HookAzure raw sig)
  have ok: "good (webhook_job (rp_id r) j)"
    if "r \<in> set rs" "rp_platform r = ''azure_devops''" "ValidateWebhookToken sig (rp_secret r)" for r j
    by (rule good) (use that secrets in \<open>auto simp: HookAzure ValidateWebhookToken_def\<close>)
  show ?thesis
    unfolding HookAzure hook_endpoint.simps HandleAzureDevOpsWebhook_def with_body_def
    by (intro hook_calls; (use secrets ok in blast)?)
qed

lemma hook_new_jobs:
  assumes reach: "account_reach s"
    and new: "j \<in> set (a_jobs (snd (run_state (hook_endpoint cfg ev req) s))) - set (a_jobs s)"
  shows "\<exists>r\<in>set (ac_repos (a_db s)). hook_signed cfg req r \<and> rp_secret r \<noteq> [] \<and> (\<exists>n. j = webhook_job (rp_id r) n)"
proof -
  have secrets: "\<forall>r\<in>set (ac_repos (a_db s)). rp_secret r \<noteq> []"
    using reachable_tables [OF reach] by (simp add: accounts_ok_def typed_rows_def)
  let ?good = "\<lambda>j. \<exists>r\<in>set (ac_repos (a_db s)). hook_signed cfg req r \<and> (\<exists>n. j = webhook_job (rp_id r) n)"
  have "stable (keeps (hook_inv (ac_repos (a_db s)) (set (a_jobs s)) ?good)) (hook_endpoint cfg ev req)"
    by (rule hook_jobs [OF secrets]) blast
  from stableD [OF this, of s] show ?thesis
    using new secrets by (auto simp: keeps_def hook_inv_def)
qed

section \<open>A small installation\<close>

text \<open>A parser of identifiers, a provider with one profile and a signature for the examples.\<close>

definition demo_api :: api_cfg where
  "demo_api = \<lparr>cf_us = (\<lambda>i. replicate i CHR ''u''), cf_parse = (\<lambda>t. if t = ''org'' then Some 2 else None),
     cf_rank = (\<lambda>t. length t), cf_quota = False, cf_vault = None, cf_shell = (\<lambda>_ _. None), cf_url_path = (\<lambda>_. None),
     cf_embed = DefaultEmbeddingConfig\<rparr>"

definition demo_jwt :: jwt_manager where
  "demo_jwt = \<lparr>jm_issuer = ''rtvortex'', jm_access = 900, jm_refresh = 9000, jm_us = (\<lambda>i. replicate i CHR ''u''),
     jm_sign = (\<lambda>c. Some (jc_type c)),
     jm_parse = (\<lambda>now t. if t = ''access'' \<or> t = ''refresh'' then Inr \<lparr>jc_user = 1, jc_email = ''ann@x.io'', jc_name = ''Ann'',
        jc_role = ''user'', jc_org = uuid_nil, jc_type = t, jc_issuer = ''rtvortex'', jc_subject = ''u'', jc_issued = 0,
        jc_expires = 900, jc_id = 1\<rparr> else Inl ErrTokenMalformed)\<rparr>"

definition demo_provider :: provider where
  "demo_provider = \<lparr>pv_auth_url = (\<lambda>st. st), pv_exchange = (\<lambda>_ _. Some \<lparr>pt_access = ''t'', pt_refresh = [], pt_expiry = None\<rparr>),
     pv_user = (\<lambda>_. Some \<lparr>ou_id = ''77'', ou_email = ''ann@x.io'', ou_name = ''Ann'', ou_avatar = [], ou_access = ''t''\<rparr>)\<rparr>"

definition demo_login :: login_cfg where
  "demo_login = \<lparr>lc_registry = [(''github'', demo_provider)], lc_jwt = demo_jwt, lc_encrypt = (\<lambda>t. Some t)\<rparr>"

definition demo_http :: http_auth where
  "demo_http = \<lparr>ha_header = ''Bearer access'', ha_cookies = []\<rparr>"

definition demo_start :: account_state where
  "demo_start = \<lparr>a_db = no_accounts, a_audit = [], a_jobs = [], a_index = [], a_shell = [], a_faults = []\<rparr>"

definition demo_redis :: redis where
  "demo_redis = snd (snd (run_state (OAuthLogin demo_login ''github'' [] ''st'' 0)
     (demo_start, \<lparr>rd_values = Map.empty, rd_windows = Map.empty, rd_faults = []\<rparr>)))"

text \<open>Ann logs in, creates an organisation and registers a repository.\<close>

definition demo_user :: account_state where
  "demo_user = fst (snd (run_state (OAuthCallback demo_login ''st'' ''c'' 1 ''vault'' 5 6 0) (demo_start, demo_redis)))"

definition demo_request :: "uuid \<Rightarrow> account_request \<Rightarrow> account_state \<Rightarrow> account_state" where
  "demo_request i req s = snd (run_state
     (auth_middleware demo_jwt 1 demo_http (\<lambda>cl. account_endpoint demo_api cl i 9 ''secret'' 1 req)) s)"

definition demo_org :: account_state where
  "demo_org = demo_request 2 (RqPostOrg (Some \<lparr>co_name = ''Acme'', co_slug = ''acme''\<rparr>)) demo_user"

definition demo_repo :: account_state where
  "demo_repo = demo_request 3 (RqPostRepo (Some \<lparr>rr_platform = ''github'', rr_owner = ''acme'', rr_name = ''web'',
     rr_branch = [], rr_clone = ''https://github.com/acme/web'', rr_external = ''42'', rr_org = ''org''\<rparr>)) demo_org"

lemma demo_reached:
  "account_reach demo_start" "account_reach demo_user" "account_reach demo_org" "account_reach demo_repo"
proof -
  show "account_reach demo_start" unfolding demo_start_def by (rule account_reach.start)
  then show user: "account_reach demo_user"
    unfolding demo_user_def by (rule account_reach.login) (simp add: uuid_nil_def)
  show org: "account_reach demo_org"
    unfolding demo_org_def demo_request_def by (rule account_reach.request [OF user]) simp
  show "account_reach demo_repo"
    unfolding demo_repo_def demo_request_def by (rule account_reach.request [OF org]) simp
qed

text \<open>The states of the example in full.\<close>

lemma varchar_short: "length s \<le> n \<Longrightarrow> varchar n s"
  using RuneCount_le [of s] by (simp add: varchar_def)

lemma short_request:
  assumes "rr_platform r \<in> set supported_platforms" and "trim_space (rr_owner r) \<noteq> []" and "trim_space (rr_name r) \<noteq> []"
    and "length (rr_owner r) \<le> 255" and "length (rr_name r) \<le> 255" and "rr_branch r = []" and "length (rr_clone r) \<le> 2048"
  shows "validate_register_repo r = None"
proof -
  have "\<forall>x\<in>set supported_platforms. trim_space x \<noteq> []" by code_simp
  then have "trim_space (rr_platform r) \<noteq> []" using assms(1) by blast
  moreover have "RuneCountInString s \<le> n" if "length s \<le> n" for s n
    using RuneCount_le [of s] that by simp
  ultimately show ?thesis
    using assms unfolding register_repo_accepts by (simp add: supported_platforms_def)
qed

definition ann_row :: account where
  "ann_row = \<lparr>us_id = 1, us_email = ''ann@x.io'', us_name = ''Ann'', us_avatar = [], us_vault = ''vault'', us_created = 0, us_updated = 0\<rparr>"

definition ann_identity :: identity where
  "ann_identity = \<lparr>id_user = 1, id_provider = ''github'', id_external = ''77'', id_access = ''t'', id_refresh = [],
     id_scopes = ''read'', id_expires = None\<rparr>"

lemma demo_user_eq:
  "demo_user = demo_start\<lparr>a_db := no_accounts\<lparr>ac_users := [ann_row], ac_identities := [ann_identity]\<rparr>,
     a_audit := [\<lparr>au_user = None, au_action = ''auth.login'', au_type = ''user'', au_resource = ''u''\<rparr>]\<rparr>"
proof -
  have redis: "run_state (ValidateOAuthState ''st'' 0) demo_redis = (Inr (''github'', ''/''), del_value ''oauth_state:st'' demo_redis)"
    by (simp add: demo_redis_def OAuthLogin_def get_provider_def demo_login_def or_fail_def StoreOAuthState_def
      StoreOAuthStateWithUser_def ValidateOAuthState_def ValidateOAuthStateWithUser_def oauth_get_def oauth_del_def oauth_result_def
      rd_do_def rd_io_def set_value_def live_value_def oauthStateTTL_def time_units)
  have calm: "a_faults demo_start = []" by (simp add: demo_start_def)
  have found: "run_state (find_or_create \<lparr>ou_id = ''77'', ou_email = ''ann@x.io'', ou_name = ''Ann'', ou_avatar = [], ou_access = ''t''\<rparr> 1 ''vault'' 0) demo_start
     = (Inr ann_row, demo_start\<lparr>a_db := no_accounts\<lparr>ac_users := [ann_row]\<rparr>\<rparr>)"
    by (simp add: find_or_create_def GetByEmail_def calm_statements [OF calm])
      (simp add: demo_start_def no_accounts_def UserCreate_def Let_def calm_statements insert_user_def varchar_short ann_row_def)
  note found = found [unfolded One_nat_def]
  show ?thesis
    by (simp add: demo_user_def OAuthCallback_def or_fail_def redis)
      (simp add: demo_login_def get_provider_def demo_provider_def found link_identity_def UpsertOAuthIdentity_def,
       simp add: calm_statements demo_start_def upsert_identity_def no_accounts_def varchar_short finish_login_def
         user_tokens_def GenerateTokenPair_def GenerateAccessToken_def GenerateRefreshToken_def generateToken_def demo_jwt_def
         LogRequest_def user_of_def ann_row_def ann_identity_def)
qed

definition demo_claims :: jwt_claims where
  "demo_claims = (case jm_parse demo_jwt 1 ''access'' of Inr c \<Rightarrow> c)"

lemma demo_middleware: "auth_middleware demo_jwt 1 demo_http f = f (Some demo_claims)"
proof -
  have "userBearerToken demo_http = ''access''" by code_simp
  then show ?thesis
    by (simp add: auth_middleware_def ValidateUserToken_def demo_jwt_def demo_claims_def uuid_nil_def)
qed

lemma demo_claims_user: "jc_user demo_claims = 1" "jc_org demo_claims = uuid_nil"
  by (simp_all add: demo_claims_def demo_jwt_def)

definition acme :: organization where
  "acme = \<lparr>o_id = 2, o_name = ''Acme'', o_slug = ''acme'', o_plan = ''free'', o_settings = Map.empty, o_created = 1, o_updated = 1\<rparr>"

lemma demo_org_eq:
  "demo_org = demo_user\<lparr>a_db := (a_db demo_user)\<lparr>ac_orgs := [acme],
      ac_members := [\<lparr>m_org = 2, m_user = 1, m_role = ''owner'', m_joined = 1\<rparr>]\<rparr>,
     a_audit := a_audit demo_user @ [\<lparr>au_user = Some 1, au_action = ''org.create'', au_type = ''org'', au_resource = ''uu''\<rparr>]\<rparr>"
proof -
  have valid: "validate_create_org \<lparr>co_name = ''Acme'', co_slug = ''acme''\<rparr> = None" by code_simp
  show ?thesis
    by (simp add: demo_org_def demo_request_def demo_middleware status_only_def CreateOrg_def with_user_def user_of_def
        with_body_def valid validated_def or_code_def OrgCreate_def Let_def demo_user_eq demo_start_def calm_statements)
      (simp add: insert_org_def no_accounts_def new_org_def varchar_short AddMember_def calm_statements upsert_member_def
        LogRequest_def user_of_def demo_claims_user acme_def ann_row_def demo_api_def numeral_2_eq_2)
qed

definition web_repo :: repository where
  "web_repo = \<lparr>rp_id = 3, rp_org = 2, rp_platform = ''github'', rp_external = ''42'', rp_owner = ''acme'', rp_name = ''web'',
     rp_branch = ''main'', rp_clone = ''https://github.com/acme/web'', rp_secret = ''secret'', rp_config = Map.empty,
     rp_indexed = None, rp_created = 1, rp_updated = 1\<rparr>"

lemma demo_repo_eq:
  "demo_repo = demo_org\<lparr>a_db := (a_db demo_org)\<lparr>ac_repos := [web_repo]\<rparr>,
     a_audit := a_audit demo_org @ [\<lparr>au_user = Some 1, au_action = ''repo.create'', au_type = ''repo'', au_resource = ''uuu''\<rparr>]\<rparr>"
proof -
  have valid: "validate_register_repo \<lparr>rr_platform = ''github'', rr_owner = ''acme'', rr_name = ''web'', rr_branch = [],
      rr_clone = ''https://github.com/acme/web'', rr_external = ''42'', rr_org = ''org''\<rparr> = None"
    by (rule short_request) (simp add: supported_platforms_def | code_simp)+
  show ?thesis
    by (simp add: demo_repo_def demo_request_def demo_middleware status_only_def RegisterRepo_def with_claims_def fill_owner_def
        with_body_def valid validated_def or_code_def RepoCreate_def Let_def demo_api_def create_repo_def org_quota_def
        demo_org_eq demo_user_eq demo_start_def calm_statements uuid_nil_def)
      (simp add: insert_repo_def no_accounts_def repo_of_request_def varchar_short acme_def
        LogRequest_def user_of_def demo_claims_user web_repo_def numeral_3_eq_3)
qed

lemmas demo_states = demo_repo_eq demo_org_eq demo_user_eq demo_start_def no_accounts_def

definition demo_hook :: hook_cfg where
  "demo_hook = \<lparr>hk_api = demo_api, hk_hmac = (\<lambda>k b. k @ b), hk_jsonb = (\<lambda>_. True), hk_vault = (\<lambda>_ _. None),
     hk_github = (\<lambda>_. Some \<lparr>gh_action = ''opened'', gh_number = 7, gh_repo = 42\<rparr>), hk_gitlab = (\<lambda>_. None),
     hk_bitbucket = (\<lambda>_. None), hk_azure = (\<lambda>_. None), hk_delivery = False\<rparr>"

definition demo_event :: hook_request where
  "demo_event = HookGitHub (Some ''{}'') ''pull_request'' ''sha256=secret{}''"

definition demo_hooked :: account_state where
  "demo_hooked = snd (run_state (hook_endpoint demo_hook 4 demo_event) demo_repo)"

definition demo_pipe :: pipe_cfg where
  "demo_pipe = \<lparr>pp_max_files = 50, pp_skip = [], pp_vault = (\<lambda>_ _. None),
     pp_pr = (\<lambda>_ _. Inr \<lparr>pi_number = 7, pi_title = ''T'', pi_description = [], pi_author = ''bob'', pi_source = ''b'',
        pi_target = ''main'', pi_sha = ''c0''\<rparr>),
     pp_diff = (\<lambda>_ _. Inr [\<lparr>df_name = ''a.go'', df_status = ''modified'', df_patch = ''+x''\<rparr>]), pp_post = (\<lambda>_ _. True),
     pp_context = None, pp_heuristics = (\<lambda>_ _. None), pp_enrich = None, pp_llm = Some (\<lambda>_ _. Some ''[1]''),
     pp_json = (\<lambda>_. Some [\<lparr>li_line = 3, li_severity = ''high'', li_category = ''bug'', li_title = ''t'', li_body = ''b'',
        li_suggestion = []\<rparr>]), pp_took = ''1s'', pp_took_ms = 1000\<rparr>"

definition demo_outside :: outside where
  "demo_outside = \<lparr>wk_calls = [], wk_steps = []\<rparr>"

lemma demo_hooked_reach: "account_reach demo_hooked"
  unfolding demo_hooked_def by (rule account_reach.hook [OF demo_reached(4)])

lemma demo_body: "hook_body (Some ''{}'') = Some ''{}''"
  by (simp add: hook_body_def)

lemma demo_jobs: "a_jobs demo_repo = []" "a_jobs demo_hooked = [webhook_job 3 7]"
proof -
  show "a_jobs demo_repo = []" by (simp add: demo_states)
  show "a_jobs demo_hooked = [webhook_job 3 7]"
    unfolding demo_hooked_def demo_event_def hook_endpoint.simps HandleGitHubWebhook_def demo_body with_body_def option.case
      demo_states
    by code_simp
qed

section \<open>The tables\<close>

text \<open>
  C2: in every reachable state the account tables satisfy their invariant: keys are unique, every
  reference points to a row, roles, platforms and severities are known ones, no user has the nil
  identifier, every repository has a webhook secret, and nothing ever counts usage.
\<close>

theorem reachable_accounts_ok: "account_reach s \<Longrightarrow> accounts_ok (a_db s)"
  by (rule reachable_tables)

lemma reachable_accounts_ok_witness: "accounts_ok (a_db demo_hooked)"
  by (rule reachable_accounts_ok [OF demo_hooked_reach])

section \<open>Theorems on webhooks\<close>

text \<open>
  C3: in every reachable state a webhook request starts a review job only if it is authentic for a
  registered repository of its platform: the HMAC of the body under the repository's secret, or the
  secret itself as token, and the secret is not empty.
\<close>

theorem webhook_needs_signature:
  assumes "account_reach s"
    and "j \<in> set (a_jobs (snd (run_state (hook_endpoint cfg ev req) s))) - set (a_jobs s)"
  shows "\<exists>r\<in>set (ac_repos (a_db s)). rp_id r = jb_repo j \<and> rp_secret r \<noteq> [] \<and> hook_signed cfg req r"
  using hook_new_jobs [OF assms] by (auto simp: webhook_job_def)

lemma webhook_needs_signature_witness:
  "\<exists>r\<in>set (ac_repos (a_db demo_repo)). rp_id r = 3 \<and> rp_secret r \<noteq> [] \<and> hook_signed demo_hook demo_event r"
  using webhook_needs_signature [OF demo_reached(4), of "webhook_job 3 7" demo_hook 4 demo_event]
  by (simp add: demo_hooked_def [symmetric] demo_jobs) (simp add: webhook_job_def)

text \<open>
  C12: no webhook ever leads to a review.  A job that a webhook started has no user, so in every reachable
  state the pipeline ends with an error before the first call to the platform, and the tables stay as
  they are: no review row is written.
\<close>

theorem webhook_reviews_never_run:
  assumes "account_reach s"
    and "j \<in> set (a_jobs (snd (run_state (hook_endpoint cfg ev req) s))) - set (a_jobs s)"
    and "account_reach t"
  shows "case run_state (Execute pipe j i ids start now) (t, w) of
    (r, t', w') \<Rightarrow> isl r \<and> a_db t' = a_db t \<and> wk_calls w' = wk_calls w"
proof -
  have "jb_by j = uuid_nil" using hook_new_jobs [OF assms(1,2)] by (auto simp: webhook_job_def)
  then have "jb_by j \<notin> user_ids (a_db t)"
    using reachable_tables [OF assms(3)] by (simp add: accounts_ok_def typed_rows_def)
  from meetsD [OF orphan_job_stops [OF this], of "wk_calls w" "(t, w)"] show ?thesis
    by (simp add: job_frame_def at_db_def split_beta)
qed

lemma webhook_reviews_never_run_witness:
  "case run_state (Execute demo_pipe (webhook_job 3 7) 8 (\<lambda>n. 10 + n) 2 3) (demo_hooked, demo_outside) of
    (r, t', w') \<Rightarrow> isl r \<and> a_db t' = a_db demo_hooked \<and> wk_calls w' = wk_calls demo_outside"
  by (rule webhook_reviews_never_run [OF demo_reached(4) _ demo_hooked_reach, of _ demo_hook 4 demo_event])
    (simp add: demo_hooked_def [symmetric] demo_jobs)

lemma show_int_chars: "c \<in> set (show_int n) \<Longrightarrow> is_digit c \<or> c = CHR ''-''"
  using show_nat_digits by (auto simp: show_int_def split: if_splits)

text \<open>
  A repository that was registered without an external identifier is called owner/name, and GitHub and
  GitLab webhooks name repositories by number: no such webhook ever starts a review of it.
\<close>

lemma named_repository_gets_no_webhook:
  assumes "account_reach s" and "r \<in> set (ac_repos (a_db s))" and "rp_external r = rp_owner r @ ''/'' @ rp_name r"
    and "j \<in> set (a_jobs (snd (run_state (hook_endpoint cfg ev req) s))) - set (a_jobs s)"
    and "rp_platform r = ''github'' \<or> rp_platform r = ''gitlab''"
  shows "jb_repo j \<noteq> rp_id r"
proof
  assume same: "jb_repo j = rp_id r"
  obtain q where q: "q \<in> set (ac_repos (a_db s))" "hook_signed cfg req q" "rp_id q = rp_id r"
    using hook_new_jobs [OF assms(1,4)] same by (auto simp: webhook_job_def)
  have "distinct (map rp_id (ac_repos (a_db s)))"
    using reachable_tables [OF assms(1)] by (simp add: accounts_ok_def unique_rows_def)
  then have "q = r" using q assms(2) by (metis distinct_map inj_on_def)
  moreover have "rp_external r \<noteq> show_int n" for n
  proof
    assume "rp_external r = show_int n"
    then have "CHR ''/'' \<in> set (show_int n)" using assms(3) by (metis append_Cons in_set_conv_decomp)
    then show False using show_int_chars by (fastforce simp: is_digit_def less_eq_char_def)
  qed
  ultimately show False using q(2) assms(5) by (cases req) auto
qed

definition demo_named :: account_state where
  "demo_named = demo_request 6 (RqPostRepo (Some \<lparr>rr_platform = ''github'', rr_owner = ''acme'', rr_name = ''api'',
     rr_branch = [], rr_clone = [], rr_external = [], rr_org = ''org''\<rparr>)) demo_repo"

definition api_repo :: repository where
  "api_repo = web_repo\<lparr>rp_id := 6, rp_external := ''acme/api'', rp_name := ''api'', rp_clone := []\<rparr>"

lemma demo_named_eq:
  "demo_named = demo_repo\<lparr>a_db := (a_db demo_repo)\<lparr>ac_repos := [web_repo, api_repo]\<rparr>,
     a_audit := a_audit demo_repo @ [\<lparr>au_user = Some 1, au_action = ''repo.create'', au_type = ''repo'', au_resource = ''uuuuuu''\<rparr>]\<rparr>"
proof -
  have valid: "validate_register_repo \<lparr>rr_platform = ''github'', rr_owner = ''acme'', rr_name = ''api'', rr_branch = [],
      rr_clone = [], rr_external = [], rr_org = ''org''\<rparr> = None"
    by (rule short_request) (simp add: supported_platforms_def | code_simp)+
  show ?thesis
    by (simp add: demo_named_def demo_request_def demo_middleware status_only_def RegisterRepo_def with_claims_def fill_owner_def
        with_body_def valid validated_def or_code_def RepoCreate_def Let_def demo_api_def create_repo_def org_quota_def
        demo_states calm_statements uuid_nil_def)
      (simp add: insert_repo_def repo_of_request_def varchar_short acme_def LogRequest_def user_of_def demo_claims_user
        web_repo_def api_repo_def eval_nat_numeral)
qed

lemma demo_named_facts:
  "account_reach demo_named"
  "\<exists>r\<in>set (ac_repos (a_db demo_named)). rp_id r = 6 \<and> rp_external r = rp_owner r @ ''/'' @ rp_name r \<and> rp_platform r = ''github''"
  "a_jobs demo_named = []" "a_jobs (snd (run_state (hook_endpoint demo_hook 4 demo_event) demo_named)) = [webhook_job 3 7]"
proof -
  show "account_reach demo_named"
    unfolding demo_named_def demo_request_def by (rule account_reach.request [OF demo_reached(4)]) simp
  show "\<exists>r\<in>set (ac_repos (a_db demo_named)). rp_id r = 6 \<and> rp_external r = rp_owner r @ ''/'' @ rp_name r \<and> rp_platform r = ''github''"
    unfolding demo_named_eq demo_states by code_simp
  show "a_jobs demo_named = []" unfolding demo_named_eq demo_states by code_simp
  show "a_jobs (snd (run_state (hook_endpoint demo_hook 4 demo_event) demo_named)) = [webhook_job 3 7]"
    unfolding demo_event_def hook_endpoint.simps HandleGitHubWebhook_def demo_body with_body_def option.case
      demo_named_eq demo_states
    by code_simp
qed

lemma named_repository_gets_no_webhook_witness: "jb_repo (webhook_job 3 7) \<noteq> 6"
  using demo_named_facts(2)
  by (auto dest!: named_repository_gets_no_webhook
      [OF demo_named_facts(1), where j = "webhook_job 3 7" and cfg = demo_hook and ev = 4 and req = demo_event]
      simp: demo_named_facts(3,4))

section \<open>Quotas\<close>

text \<open>
  No reachable state has used up a daily review quota: nothing in the server counts reviews, so the
  check allows every plan at every time.
\<close>

lemma review_quota_never_reached:
  assumes "account_reach s"
  shows "cr_allowed (fst (run_state (CheckReviewQuota g plan now) s)) \<and>
    cr_current (fst (run_state (CheckReviewQuota g plan now) s)) = 0"
proof -
  have usage: "ac_usage (a_db s) = []"
    using reachable_tables [OF assms] by (simp add: accounts_ok_def typed_rows_def)
  have limit: "ReviewsPerDay (GetLimits plan) = - 1 \<or> 0 < ReviewsPerDay (GetLimits plan)"
    by (simp add: GetLimits_cases free_limits_def pro_limits_def enterprise_limits_def)
  show ?thesis
    using limit usage
    by (auto simp: CheckReviewQuota_def Let_def afetch_def aselect_def a_io_def usage_row_def compare_limit_def
        unlimited_result_def split: list.split)
qed

lemma review_quota_never_reached_example:
  "cr_allowed (fst (run_state (CheckReviewQuota 2 ''free'' 5) demo_repo)) \<and>
    cr_current (fst (run_state (CheckReviewQuota 2 ''free'' 5) demo_repo)) = 0"
  by (rule review_quota_never_reached [OF demo_reached(4)])

definition reviews_used :: "account_db \<Rightarrow> uuid \<Rightarrow> int \<Rightarrow> int" where
  "reviews_used d g dt = (case usage_row d g dt of None \<Rightarrow> 0 | Some u \<Rightarrow> du_reviews u)"

lemma usage_row_put:
  assumes "usage_row d g dt = Some u" and "\<And>v. du_org (f v) = du_org v \<and> du_date (f v) = du_date v"
  shows "usage_row (d\<lparr>ac_usage := update_where (\<lambda>v. du_org v = g \<and> du_date v = dt) f (ac_usage d)\<rparr>) g dt = Some (f u)"
proof -
  have "List.find (\<lambda>v. du_org v = g \<and> du_date v = dt) (update_where (\<lambda>v. du_org v = g \<and> du_date v = dt) f rs) =
      map_option f (List.find (\<lambda>v. du_org v = g \<and> du_date v = dt) rs)" for rs
    using assms(2) by (induction rs) (auto simp: update_where_def)
  then show ?thesis using assms(1) by (simp add: usage_row_def)
qed

lemma increment_counts:
  assumes "g \<in> org_ids d" and "int4 n" and "int8 k"
    and "\<forall>u. usage_row d g dt = Some u \<longrightarrow> int4 (du_reviews u + n) \<and> int8 (du_tokens u + k)"
  shows "\<exists>d'. add_usage g dt n k d = Inr d' \<and> reviews_used d' g dt = reviews_used d g dt + n"
proof (cases "usage_row d g dt")
  case None
  then have "usage_row (d\<lparr>ac_usage := ac_usage d @ [x]\<rparr>) g dt = Some x" if "du_org x = g" "du_date x = dt" for x
    using that unfolding usage_row_def by (simp add: find_append)
  then show ?thesis using None assms by (simp add: add_usage_def reviews_used_def org_ids_def)
next
  case (Some u)
  then show ?thesis
    using assms(2-4) usage_row_put [OF Some, of "\<lambda>v. v\<lparr>du_reviews := du_reviews v + n, du_tokens := du_tokens v + k\<rparr>"]
    by (simp add: add_usage_def reviews_used_def)
qed

text \<open>
  C31: what the quotas decide.  While statements answer, a check changes nothing, and allows an organisation
  on the enterprise plan everything; on the pro plan fewer than 100 counted reviews on the day and
  fewer than 50 repositories and members, and on every other plan, the unknown ones included, fewer
  than 10 reviews and 5 repositories and members.  Counting adds the reviews of the call to those of the
  day.  The review check fails open: if its query fails, the answer is yes on every plan.
\<close>

theorem quota_checks_decide:
  assumes "a_faults s = []"
  shows "(\<exists>r. run_state (CheckReviewQuota g plan now) s = (r, s) \<and> (cr_allowed r \<longleftrightarrow> plan = ''enterprise'' \<or>
      reviews_used (a_db s) g (date_of now) < (if plan = ''pro'' then 100 else 10))) \<and>
    (\<exists>r. run_state (CheckRepoQuota g plan) s = (Inr r, s) \<and> (cr_allowed r \<longleftrightarrow> plan = ''enterprise'' \<or>
      count_where (\<lambda>q. rp_org q = g) (ac_repos (a_db s)) < (if plan = ''pro'' then 50 else 5))) \<and>
    (\<exists>r. run_state (CheckMemberQuota g plan) s = (Inr r, s) \<and> (cr_allowed r \<longleftrightarrow> plan = ''enterprise'' \<or>
      count_where (\<lambda>m. m_org m = g) (ac_members (a_db s)) < (if plan = ''pro'' then 50 else 5))) \<and>
    (g \<in> org_ids (a_db s) \<and> int4 n \<and> int8 k \<and> (\<forall>u. usage_row (a_db s) g (date_of now) = Some u \<longrightarrow>
        int4 (du_reviews u + n) \<and> int8 (du_tokens u + k)) \<longrightarrow>
      (case run_state (IncrementUsage g n k now) s of (r, t) \<Rightarrow> r = Inr () \<and>
        reviews_used (a_db t) g (date_of now) = reviews_used (a_db s) g (date_of now) + n)) \<and>
    cr_allowed (fst (run_state (CheckReviewQuota g plan now) (s\<lparr>a_faults := True # fs\<rparr>)))"
proof -
  have limits: "ReviewsPerDay (GetLimits plan) = (if plan = ''enterprise'' then - 1 else if plan = ''pro'' then 100 else 10)"
    "ReposPerOrg (GetLimits plan) = (if plan = ''enterprise'' then - 1 else if plan = ''pro'' then 50 else 5)"
    "MembersPerOrg (GetLimits plan) = (if plan = ''enterprise'' then - 1 else if plan = ''pro'' then 50 else 5)"
    by (simp_all add: GetLimits_cases free_limits_def pro_limits_def enterprise_limits_def)
  have review: "\<exists>r. run_state (CheckReviewQuota g plan now) s = (r, s) \<and> (cr_allowed r \<longleftrightarrow> plan = ''enterprise'' \<or>
      reviews_used (a_db s) g (date_of now) < (if plan = ''pro'' then 100 else 10))"
    by (auto simp: CheckReviewQuota_def Let_def limits calm_statements assms unlimited_result_def compare_limit_iff
        reviews_used_def split: option.split)
  have repo: "\<exists>r. run_state (CheckRepoQuota g plan) s = (Inr r, s) \<and> (cr_allowed r \<longleftrightarrow> plan = ''enterprise'' \<or>
      count_where (\<lambda>q. rp_org q = g) (ac_repos (a_db s)) < (if plan = ''pro'' then 50 else 5))"
    by (auto simp: CheckRepoQuota_def Let_def limits calm_statements assms unlimited_result_def compare_limit_iff)
  have member: "\<exists>r. run_state (CheckMemberQuota g plan) s = (Inr r, s) \<and> (cr_allowed r \<longleftrightarrow> plan = ''enterprise'' \<or>
      count_where (\<lambda>m. m_org m = g) (ac_members (a_db s)) < (if plan = ''pro'' then 50 else 5))"
    by (auto simp: CheckMemberQuota_def Let_def limits calm_statements assms unlimited_result_def compare_limit_iff)
  have count: "case run_state (IncrementUsage g n k now) s of (r, t) \<Rightarrow> r = Inr () \<and>
      reviews_used (a_db t) g (date_of now) = reviews_used (a_db s) g (date_of now) + n"
    if "g \<in> org_ids (a_db s) \<and> int4 n \<and> int8 k \<and> (\<forall>u. usage_row (a_db s) g (date_of now) = Some u \<longrightarrow>
        int4 (du_reviews u + n) \<and> int8 (du_tokens u + k))"
  proof -
    from that increment_counts [of g "a_db s" n k "date_of now"] obtain d' where
      "add_usage g (date_of now) n k (a_db s) = Inr d'"
      "reviews_used d' g (date_of now) = reviews_used (a_db s) g (date_of now) + n" by blast
    then show ?thesis by (simp add: IncrementUsage_def calm_statements assms)
  qed
  have open_check: "cr_allowed (fst (run_state (CheckReviewQuota g plan now) (s\<lparr>a_faults := True # fs\<rparr>)))"
    by (simp add: CheckReviewQuota_def Let_def limits afetch_def aselect_def a_io_def unlimited_result_def compare_limit_iff)
  show ?thesis using review repo member count open_check by blast
qed

theorem quota_checks_decide_witness:
  "\<exists>r. run_state (CheckRepoQuota 2 ''free'') demo_repo = (Inr r, demo_repo) \<and> (cr_allowed r \<longleftrightarrow> ''free'' = ''enterprise'' \<or>
      count_where (\<lambda>q. rp_org q = 2) (ac_repos (a_db demo_repo)) < (if ''free'' = ''pro'' then 50 else 5))"
proof -
  have calm: "a_faults demo_repo = []" by (simp add: demo_states)
  show ?thesis using quota_checks_decide [OF calm, of 2 "''free''"] by blast
qed

lemma register_columns:
  assumes "validate_register_repo req = None"
  shows "varchar 50 (rr_platform req)" "varchar 255 (rr_owner req)" "varchar 255 (rr_name req)" "varchar 100 (rr_branch req)"
proof -
  have "\<forall>x\<in>set supported_platforms. varchar 50 x" by code_simp
  then show "varchar 50 (rr_platform req)" using register_platform [OF assms] by blast
qed (use assms in \<open>simp_all add: register_repo_accepts varchar_def\<close>)

section \<open>Rights\<close>

text \<open>
  C17: the member endpoint asks for no right at all.  Whoever calls it, with or without claims, can give
  any registered user any role in any organisation: in every reachable state, with quotas off and no failing
  statement, a request with the email of the user and a role that pass the validation is answered 200,
  and afterwards the user has that role in the organisation.
\<close>

theorem anyone_grants_any_role:
  assumes "account_reach s" and "a_faults s = []" and "\<not> cf_quota cfg"
    and "g \<in> org_ids (a_db s)" and "u \<in> set (ac_users (a_db s))"
    and "validate_invite \<lparr>iv_email = us_email u, iv_role = role\<rparr> = None" and "role \<noteq> []"
  shows "case run_state (InviteOrgMember cfg cl (Canonical g) (Some \<lparr>iv_email = us_email u, iv_role = role\<rparr>) now) s of
    (r, t) \<Rightarrow> r = Reply 200 (us_id u) \<and> (\<exists>m\<in>set (ac_members (a_db t)). m_org m = g \<and> m_user m = us_id u \<and> m_role m = role)"
proof -
  have mail: "List.find (\<lambda>v. us_email v = us_email u) (ac_users (a_db s)) = Some u"
    using reachable_tables [OF assms(1)] assms(5) by (intro find_unique) (simp_all add: accounts_ok_def unique_rows_def)
  have short: "varchar 50 role"
  proof -
    have "\<forall>x\<in>set [''owner'', ''admin'', ''member'', ''viewer'']. varchar 50 x" by code_simp
    then show ?thesis using invite_role [OF assms(6)] assms(7) by (auto simp: org_roles_def)
  qed
  let ?m = "\<lparr>m_org = g, m_user = us_id u, m_role = role, m_joined = now\<rparr>"
  obtain d where d: "upsert_member ?m (a_db s) = Inr d"
    and row: "\<exists>m\<in>set (ac_members d). m_org m = g \<and> m_user m = us_id u \<and> m_role m = role"
  proof (cases "\<exists>n\<in>set (ac_members (a_db s)). m_org n = g \<and> m_user n = us_id u")
    case True
    then obtain n where n: "n \<in> set (ac_members (a_db s))" "m_org n = g" "m_user n = us_id u" by blast
    let ?rs = "update_where (\<lambda>n. m_org n = g \<and> m_user n = us_id u) (\<lambda>n. n\<lparr>m_role := role\<rparr>) (ac_members (a_db s))"
    have "n\<lparr>m_role := role\<rparr> \<in> set ?rs" using n by (auto simp: in_update_where intro!: bexI [of _ n])
    then have "\<exists>m\<in>set ?rs. m_org m = g \<and> m_user m = us_id u \<and> m_role m = role" using n by (intro bexI) auto
    then show ?thesis using short True by (intro that [of "a_db s\<lparr>ac_members := ?rs\<rparr>"]) (simp_all add: upsert_member_def Let_def)
  next
    case False
    then show ?thesis using short assms(4,5)
      by (intro that [of "a_db s\<lparr>ac_members := ac_members (a_db s) @ [?m]\<rparr>"]) (simp_all add: upsert_member_def org_ids_def Let_def, blast)
  qed
  show ?thesis
    using assms(3,6,7) mail d row
    by (simp add: InviteOrgMember_def with_id_def with_body_def validated_def org_quota_def or_code_def GetByEmail_def
        AddMember_def calm_statements [OF assms(2)] LogRequest_def)
qed


definition demo_ann :: account where
  "demo_ann = hd (ac_users (a_db demo_repo))"

lemma demo_ann_facts:
  "ac_users (a_db demo_repo) \<noteq> []" "a_faults demo_repo = []" "2 \<in> org_ids (a_db demo_repo)"
  "validate_invite \<lparr>iv_email = us_email demo_ann, iv_role = ''viewer''\<rparr> = None" "us_id demo_ann = 1"
proof -
  show "ac_users (a_db demo_repo) \<noteq> []" by (simp add: demo_states)
  show "a_faults demo_repo = []" by (simp add: demo_states)
  have "map o_id (ac_orgs (a_db demo_repo)) = [2]" by (simp add: demo_states acme_def)
  then show "2 \<in> org_ids (a_db demo_repo)" unfolding org_ids_def by (metis list.set_intros(1) set_map)
  show "validate_invite \<lparr>iv_email = us_email demo_ann, iv_role = ''viewer''\<rparr> = None"
    unfolding demo_ann_def demo_states by code_simp
  show "us_id demo_ann = 1" by (simp add: demo_ann_def demo_states ann_row_def)
qed

lemma anyone_grants_any_role_witness:
  "case run_state (InviteOrgMember demo_api None (Canonical 2) (Some \<lparr>iv_email = us_email demo_ann, iv_role = ''viewer''\<rparr>) 8) demo_repo of
    (r, t) \<Rightarrow> r = Reply 200 (us_id demo_ann) \<and>
      (\<exists>m\<in>set (ac_members (a_db t)). m_org m = 2 \<and> m_user m = us_id demo_ann \<and> m_role m = ''viewer'')"
  by (rule anyone_grants_any_role [OF demo_reached(4) demo_ann_facts(2) _ demo_ann_facts(3) _ demo_ann_facts(4)])
    (simp_all add: demo_api_def demo_ann_def demo_ann_facts(1))

text \<open>
  C24: a clone URL is a shell command.  If a registration request is accepted without a clone URL, it is
  accepted with every text of at most 2048 runes in its place; and the branch list puts the stored text
  into a command as it is.  So for every such text (without the null character, which PostgreSQL cannot
  store), with quotas off, no failing statement and a new external identifier, the request that registers
  the repository and one that lists its branches make the server run sh -c on git ls-remote --heads
  followed by the text.
\<close>

theorem clone_url_reaches_the_shell:
  assumes "accounts_ok (a_db s)" and "a_faults s = []" and "\<not> cf_quota cfg"
    and "validate_register_repo (req\<lparr>rr_clone := []\<rparr>) = None" and "cf_parse cfg (rr_org req) = Some g" and "rr_org req \<noteq> []"
    and "g \<noteq> uuid_nil" and "g \<in> org_ids (a_db s)" and "rr_external req \<noteq> []" and "varchar 255 (rr_external req)"
    and "(rr_platform req, rr_external req) \<notin> set (map (\<lambda>r. (rp_platform r, rp_external r)) (ac_repos (a_db s)))"
    and "i \<notin> repo_ids (a_db s)" and "secret \<noteq> []" and "varchar 255 secret"
    and "RuneCountInString (rr_clone req) \<le> 2048" and "CHR 0x00 \<notin> set (rr_clone req)"
  shows "\<exists>out. a_shell (snd (run_state (ListBranches cfg cl (Canonical i))
      (snd (run_state (RegisterRepo cfg (Some c) (Some req) secret org_id i now) s)))) =
    a_shell s @ [ls_remote (rr_clone req)] @ out"
proof -
  let ?r = "(repo_of_request req g secret)\<lparr>rp_id := i, rp_created := now, rp_updated := now\<rparr>"
  have valid: "validate_register_repo req = None" and named: "rr_owner req \<noteq> []" "rr_name req \<noteq> []"
    using assms(4,15) by (auto simp: register_repo_accepts trim_space_nil)
  have cols: "varchar 50 (rr_platform req)" "varchar 255 (rr_owner req)" "varchar 255 (rr_name req)" "varchar 100 (rr_branch req)"
    using register_columns [OF valid] by blast+
  have main: "varchar 100 ''main''" by code_simp
  have ins: "insert_repo ?r (a_db s) = Inr (a_db s\<lparr>ac_repos := ac_repos (a_db s) @ [?r]\<rparr>)"
    using assms(8-14) cols main by (simp add: insert_repo_def repo_of_request_def repo_ids_def org_ids_def)
  have reg: "snd (run_state (RegisterRepo cfg (Some c) (Some req) secret org_id i now) s) = s\<lparr>a_db := a_db s\<lparr>ac_repos := ac_repos (a_db s) @ [?r]\<rparr>, a_audit := a_audit s @
      [\<lparr>au_user = Some (jc_user c), au_action = ''repo.create'', au_type = ''repo'', au_resource = cf_us cfg i\<rparr>]\<rparr>"
    using assms(3,5-7) valid named ins
    by (simp add: RegisterRepo_def Let_def with_claims_def with_body_def fill_owner_def validated_def create_repo_def org_quota_def
        or_code_def RepoCreate_def calm_statements [OF assms(2)] LogRequest_def user_of_def)
  have found: "List.find (\<lambda>r. rp_id r = i) (ac_repos (a_db s) @ [?r]) = Some ?r"
    using assms(12) by (auto simp: repo_ids_def find_append find_None_iff_ex dest: find_Some_in split: option.split)
  show ?thesis
    unfolding reg
    using assms(2) found
    by (auto simp: ListBranches_def with_id_def or_code_def RepoGet_def calm_statements run_shell_def repo_of_request_def
        run_state_if)
qed


definition evil_repo :: register_repo_request where
  "evil_repo = \<lparr>rr_platform = ''github'', rr_owner = ''a'', rr_name = ''b'', rr_branch = [], rr_clone = ''x; id'',
     rr_external = ''e1'', rr_org = ''org''\<rparr>"

lemma evil_repo_facts:
  "validate_register_repo (evil_repo\<lparr>rr_clone := []\<rparr>) = None" "varchar 255 (rr_external evil_repo)" "varchar 255 ''k''"
  "(rr_platform evil_repo, rr_external evil_repo) \<notin> set (map (\<lambda>r. (rp_platform r, rp_external r)) (ac_repos (a_db demo_repo)))"
  "map rp_id (ac_repos (a_db demo_repo)) = [3]" "a_shell demo_repo = []"
proof -
  show "validate_register_repo (evil_repo\<lparr>rr_clone := []\<rparr>) = None"
    unfolding evil_repo_def register_repo_request.simps by (rule short_request) (simp add: supported_platforms_def | code_simp)+
qed (simp_all add: evil_repo_def varchar_short demo_states web_repo_def)

lemma evil_repo_fields:
  "rr_org evil_repo = ''org''" "rr_external evil_repo \<noteq> []"
  "RuneCountInString (rr_clone evil_repo) \<le> 2048" "CHR 0x00 \<notin> set (rr_clone evil_repo)"
  "cf_parse demo_api ''org'' = Some 2" "\<not> cf_quota demo_api" "5 \<notin> repo_ids (a_db demo_repo)"
proof -
  show "RuneCountInString (rr_clone evil_repo) \<le> 2048" "CHR 0x00 \<notin> set (rr_clone evil_repo)" by code_simp+
  show "5 \<notin> repo_ids (a_db demo_repo)"
    unfolding repo_ids_def set_map [symmetric] evil_repo_facts(5) by simp
qed (simp_all add: evil_repo_def demo_api_def)

lemma clone_url_reaches_the_shell_witness:
  "\<exists>out. a_shell (snd (run_state (ListBranches demo_api (Some demo_claims) (Canonical 5))
      (snd (run_state (RegisterRepo demo_api (Some demo_claims) (Some evil_repo) ''k'' 9 5 2) demo_repo)))) =
    a_shell demo_repo @ [ls_remote (rr_clone evil_repo)] @ out"
  by (rule clone_url_reaches_the_shell [OF reachable_tables [OF demo_reached(4)] demo_ann_facts(2) evil_repo_fields(6)
        evil_repo_facts(1) _ _ _ demo_ann_facts(3) evil_repo_fields(2) evil_repo_facts(2,4) evil_repo_fields(7)
        _ evil_repo_facts(3) evil_repo_fields(3,4)])
    (simp_all add: evil_repo_fields uuid_nil_def)

section \<open>Login\<close>

text \<open>
  C15: the two tokens of a login are not exchangeable, and no token makes an administrator.  If the parser
  returns the claims that were signed while they are valid, the access token of a pair opens the
  authenticated routes for its user and is refused (401) as a refresh token; the refresh token is refused
  (401) by the middleware; and behind RequireRole("admin") every request with the access token is
  answered 403.
\<close>

theorem tokens_are_separate:
  assumes pair: "user_tokens cfg u jti1 jti2 issued = Inr p" and user: "us_id u \<noteq> uuid_nil"
    and parse: "\<And>c t. jm_sign (lc_jwt cfg) c = Some t \<Longrightarrow> now < jc_expires c \<Longrightarrow> jm_parse (lc_jwt cfg) now t = Inr c"
    and valid: "now < whole_second (issued + jm_access (lc_jwt cfg))" "now < whole_second (issued + jm_refresh (lc_jwt cfg))"
    and a: "userBearerToken ha = tp_access p" "tp_access p \<noteq> []" and r: "userBearerToken hr = tp_refresh p"
  shows "(\<exists>c. jc_user c = us_id u \<and> jc_role c = ''user'' \<and>
      auth_middleware (lc_jwt cfg) now ha handler = handler (Some c) \<and>
      auth_middleware (lc_jwt cfg) now ha (\<lambda>cl. RequireRole [''admin''] cl (k cl)) = ret (Fail 403)) \<and>
    RefreshToken cfg (Some (tp_access p)) h jx jy now = ret (Fail 401) \<and>
    auth_middleware (lc_jwt cfg) now hr handler = ret (Fail 401)"
proof -
  let ?c = "\<lambda>email name role ty exp jti. \<lparr>jc_user = us_id u, jc_email = email, jc_name = name, jc_role = role, jc_org = uuid_nil,
      jc_type = ty, jc_issuer = jm_issuer (lc_jwt cfg), jc_subject = jm_us (lc_jwt cfg) (us_id u),
      jc_issued = whole_second issued, jc_expires = exp, jc_id = jti\<rparr>"
  have acc: "jm_sign (lc_jwt cfg) (?c (us_email u) (us_name u) ''user'' ''access''
      (whole_second (issued + jm_access (lc_jwt cfg))) jti1) = Some (tp_access p)"
    and ref: "jm_sign (lc_jwt cfg) (?c [] [] [] ''refresh'' (whole_second (issued + jm_refresh (lc_jwt cfg))) jti2) = Some (tp_refresh p)"
    using pair by (auto simp: user_tokens_def GenerateTokenPair_def GenerateAccessToken_def GenerateRefreshToken_def
        generateToken_def split: option.splits)
  note pa = parse [OF acc] and pr = parse [OF ref]
  define c where "c = ?c (us_email u) (us_name u) ''user'' ''access'' (whole_second (issued + jm_access (lc_jwt cfg))) jti1"
  have c: "jc_user c = us_id u" "jc_role c = ''user''" by (simp_all add: c_def)
  have "ValidateUserToken (lc_jwt cfg) now (tp_access p) = Inr c" "jc_type c = ''access''"
    using pa valid(1) user by (simp_all add: ValidateUserToken_def c_def)
  then have m1: "auth_middleware (lc_jwt cfg) now ha handler = handler (Some c)"
    and m2: "auth_middleware (lc_jwt cfg) now ha (\<lambda>cl. RequireRole [''admin''] cl (k cl)) = ret (Fail 403)"
    and m3: "RefreshToken cfg (Some (tp_access p)) h jx jy now = ret (Fail 401)"
    using a c by (simp_all add: auth_middleware_def RefreshToken_def RequireRole_def)
  have "auth_middleware (lc_jwt cfg) now hr handler = ret (Fail 401)"
    using pr valid(2) user r by (simp add: auth_middleware_def ValidateUserToken_def Let_def)
  then show ?thesis using c m1 m2 m3 by blast
qed

definition ann :: account where
  "ann = \<lparr>us_id = 1, us_email = ''ann@x.io'', us_name = ''Ann'', us_avatar = [], us_vault = ''v'', us_created = 0, us_updated = 0\<rparr>"

definition ann_claims :: "bool \<Rightarrow> jwt_claims" where
  "ann_claims refresh = \<lparr>jc_user = 1, jc_email = (if refresh then [] else ''ann@x.io''), jc_name = (if refresh then [] else ''Ann''),
     jc_role = (if refresh then [] else ''user''), jc_org = uuid_nil, jc_type = (if refresh then ''refresh'' else ''access''),
     jc_issuer = ''rt'', jc_subject = ''1'', jc_issued = 0, jc_expires = (if refresh then 9 * second else 3 * second),
     jc_id = (if refresh then 6 else 5)\<rparr>"

text \<open>A signer of two tokens, each with its own text.\<close>

definition two_tokens :: login_cfg where
  "two_tokens = demo_login\<lparr>lc_jwt := \<lparr>jm_issuer = ''rt'', jm_access = 3 * second, jm_refresh = 9 * second, jm_us = (\<lambda>_. ''1''),
     jm_sign = (\<lambda>c. if c = ann_claims False then Some ''A'' else if c = ann_claims True then Some ''R'' else None),
     jm_parse = (\<lambda>now t. if t = ''A'' then Inr (ann_claims False) else if t = ''R'' then Inr (ann_claims True)
       else Inl ErrTokenMalformed)\<rparr>\<rparr>"

definition ann_pair :: token_pair where
  "ann_pair = \<lparr>tp_access = ''A'', tp_refresh = ''R'', tp_type = ''Bearer'', tp_expires_in = 3\<rparr>"

lemma ann_pair_issued: "user_tokens two_tokens ann 5 6 0 = Inr ann_pair"
  by (simp add: user_tokens_def GenerateTokenPair_def GenerateAccessToken_def GenerateRefreshToken_def generateToken_def
      two_tokens_def ann_def ann_claims_def ann_pair_def whole_second_def second_def)

lemma ann_bearer:
  "userBearerToken \<lparr>ha_header = ''Bearer A'', ha_cookies = []\<rparr> = tp_access ann_pair"
  "userBearerToken \<lparr>ha_header = ''Bearer R'', ha_cookies = []\<rparr> = tp_refresh ann_pair"
  by code_simp+

lemma two_tokens_parse:
  "jm_sign (lc_jwt two_tokens) c = Some t \<Longrightarrow> jm_parse (lc_jwt two_tokens) now t = Inr c"
  by (auto simp: two_tokens_def split: if_splits)

lemma tokens_are_separate_witness:
  "(\<exists>c. jc_user c = us_id ann \<and> jc_role c = ''user'' \<and>
      auth_middleware (lc_jwt two_tokens) 0 \<lparr>ha_header = ''Bearer A'', ha_cookies = []\<rparr> GetCurrentUser = GetCurrentUser (Some c) \<and>
      auth_middleware (lc_jwt two_tokens) 0 \<lparr>ha_header = ''Bearer A'', ha_cookies = []\<rparr>
        (\<lambda>cl. RequireRole [''admin''] cl (Logout cl)) = ret (Fail 403)) \<and>
    RefreshToken two_tokens (Some (tp_access ann_pair)) \<lparr>ha_header = [], ha_cookies = []\<rparr> 7 8 0 = ret (Fail 401) \<and>
    auth_middleware (lc_jwt two_tokens) 0 \<lparr>ha_header = ''Bearer R'', ha_cookies = []\<rparr> GetCurrentUser = ret (Fail 401)"
  by (rule tokens_are_separate [OF ann_pair_issued _ two_tokens_parse _ _ ann_bearer(1) _ ann_bearer(2)])
    (simp_all add: ann_def uuid_nil_def two_tokens_def whole_second_def second_def ann_pair_def)

text \<open>
  C22: the email is the identity.  A login whose profile carries the email of a registered user signs
  the caller in as that user whichever provider the profile comes from, with or without a verified email;
  the empty email is one more such email.  If no statement fails, the pair that the callback returns is
  issued for that user and no account is created.
\<close>

theorem email_decides_the_account:
  assumes "accounts_ok (a_db s)" and "a_faults s = []" and "u \<in> set (ac_users (a_db s))" and "ou_email ou = us_email u"
    and "st \<noteq> []" and "auth_code \<noteq> []" and "fst (run_state (ValidateOAuthState st now) r) = Inr (name, redirect)"
    and "get_provider (lc_registry cfg) name = Some p" and "pv_exchange p auth_code st = Some t" and "pv_user p t = Some ou"
    and "lc_encrypt cfg (ou_access ou) = Some ea" and "lc_encrypt cfg (pt_refresh t) = Some er"
    and "user_tokens cfg u jti1 jti2 now = Inr pair"
  shows "case run_state (OAuthCallback cfg st auth_code new_id vault jti1 jti2 now) (s, r) of
    (answer, s', r') \<Rightarrow> map us_id (ac_users (a_db s')) = map us_id (ac_users (a_db s)) \<and>
      (answer = Reply 200 (Answered pair) \<or> answer = Reply 307 (Redirected (redirect_target redirect pair) pair))"
proof -
  have mail: "List.find (\<lambda>v. us_email v = us_email u) (ac_users (a_db s)) = Some u"
    using assms(1,3) by (intro find_unique) (simp_all add: accounts_ok_def unique_rows_def)
  let ?x = "\<lparr>id_user = us_id u, id_provider = name, id_external = ou_id ou, id_access = ea, id_refresh = er,
      id_scopes = ''read'', id_expires = pt_expiry t\<rparr>"
  have keep: "ac_users d = ac_users (a_db s)" if "upsert_identity ?x (a_db s) = Inr d" for d
    using that by (auto simp: upsert_identity_def Let_def split: if_splits)
  obtain r1 where r1: "run_state (ValidateOAuthState st now) r = (Inr (name, redirect), r1)"
    using assms(7) by (metis prod.collapse)
  have found: "run_state (find_or_create ou new_id vault now) s = (Inr u, s)"
    by (simp add: find_or_create_def GetByEmail_def calm_statements [OF assms(2)] assms(4) mail)
  obtain x s1 where link: "run_state (link_identity cfg u name ou t) s = (x, s1)" by fastforce
  have x: "x = True" "ac_users (a_db s1) = ac_users (a_db s)"
    using link keep by (auto simp: link_identity_def UpsertOAuthIdentity_def calm_statements [OF assms(2)] assms(11,12)
        split: sum.splits)
  show ?thesis
    using assms(5,6,8-10,13) x
    by (simp add: OAuthCallback_def or_fail_def r1 found link finish_login_def LogRequest_def)
qed

definition other_profile :: oauth_user where
  "other_profile = \<lparr>ou_id = ''99'', ou_email = ''ann@x.io'', ou_name = ''A'', ou_avatar = [], ou_access = ''t''\<rparr>"

definition other_token :: provider_token where
  "other_token = \<lparr>pt_access = ''t'', pt_refresh = [], pt_expiry = None\<rparr>"

definition other_provider :: provider where
  "other_provider = \<lparr>pv_auth_url = (\<lambda>st. st), pv_exchange = (\<lambda>_ _. Some other_token), pv_user = (\<lambda>_. Some other_profile)\<rparr>"

definition other_login :: login_cfg where
  "other_login = demo_login\<lparr>lc_registry := [(''gitlab'', other_provider)]\<rparr>"

definition other_redis :: redis where
  "other_redis = snd (snd (run_state (OAuthLogin other_login ''gitlab'' [] ''st'' 0)
     (demo_start, \<lparr>rd_values = Map.empty, rd_windows = Map.empty, rd_faults = []\<rparr>)))"

definition ann_tokens :: token_pair where
  "ann_tokens = \<lparr>tp_access = ''access'', tp_refresh = ''refresh'', tp_type = ''Bearer'', tp_expires_in = 0\<rparr>"

lemma other_login_facts:
  "fst (run_state (ValidateOAuthState ''st'' 1) other_redis) = Inr (''gitlab'', ''/'')"
  "a_faults demo_user = []" "map us_id (ac_users (a_db demo_user)) = [1]" "us_email (hd (ac_users (a_db demo_user))) = ou_email other_profile"
  "user_tokens other_login (hd (ac_users (a_db demo_user))) 5 6 1 = Inr ann_tokens"
  unfolding demo_states by code_simp+

lemma other_provider_facts:
  "get_provider (lc_registry other_login) ''gitlab'' = Some other_provider"
  "pv_exchange other_provider c st = Some other_token" "pv_user other_provider t = Some other_profile"
  "lc_encrypt other_login x = Some x"
  by (simp_all add: get_provider_def other_login_def other_provider_def demo_login_def)

lemma email_decides_the_account_witness:
  "case run_state (OAuthCallback other_login ''st'' ''c'' 8 ''v2'' 5 6 1) (demo_user, other_redis) of
    (answer, s', r') \<Rightarrow> map us_id (ac_users (a_db s')) = map us_id (ac_users (a_db demo_user)) \<and>
      (answer = Reply 200 (Answered ann_tokens) \<or> answer = Reply 307 (Redirected (redirect_target ''/'' ann_tokens) ann_tokens))"
proof -
  have "hd (ac_users (a_db demo_user)) \<in> set (ac_users (a_db demo_user))"
    using other_login_facts(3) by (intro hd_in_set) auto
  then show ?thesis
    by (rule email_decides_the_account [OF reachable_tables [OF demo_reached(2)] other_login_facts(2) _ other_login_facts(4) [symmetric]
          _ _ other_login_facts(1) other_provider_facts other_provider_facts(4) other_login_facts(5)]) simp_all
qed

end
