(* ===== verification/ReviewCorrect.thy ===== *)
theory ReviewCorrect
  imports AccountCorrect
begin

text \<open>
  What a run of the review pipeline leaves behind: the status of the review row is the status of the
  result, and each comment of the result was posted once.  The proofs are Hoare triples over the pair of
  the account tables and the outside.
\<close>

section \<open>Assertions\<close>

fun is_comment :: "out_call \<Rightarrow> bool" where
  "is_comment (CallComment a b n c) \<longleftrightarrow> True"
| "is_comment _ \<longleftrightarrow> False"

definition comments_posted :: "outside \<Rightarrow> nat" where
  "comments_posted w = count_where is_comment (wk_calls w)"

definition job_row :: "uuid \<Rightarrow> review_job \<Rightarrow> review \<Rightarrow> bool" where
  "job_row i j v \<longleftrightarrow> rv_id v = i \<and> rv_repo v = jb_repo j \<and> rv_by v = jb_by j"

definition before :: "nat \<Rightarrow> account_state \<times> outside \<Rightarrow> bool" where
  "before k p \<longleftrightarrow> a_faults (fst p) = [] \<and> comments_posted (snd p) = k"

definition running :: "uuid \<Rightarrow> review_job \<Rightarrow> nat \<Rightarrow> account_state \<times> outside \<Rightarrow> bool" where
  "running i j k p \<longleftrightarrow> before k p \<and> (\<exists>v\<in>set (ac_reviews (a_db (fst p))). job_row i j v)"

definition closed_as :: "uuid \<Rightarrow> review_job \<Rightarrow> time \<Rightarrow> review_status \<Rightarrow> nat \<Rightarrow> account_state \<times> outside \<Rightarrow> bool" where
  "closed_as i j now st k p \<longleftrightarrow> before k p \<and>
     (\<exists>v\<in>set (ac_reviews (a_db (fst p))). job_row i j v \<and> rv_status v = st \<and> rv_completed v = Some now)"

definition reported :: "uuid \<Rightarrow> review_job \<Rightarrow> time \<Rightarrow> nat \<Rightarrow> exec_error + review_result \<Rightarrow> account_state \<times> outside \<Rightarrow> bool" where
  "reported i j now k r p \<longleftrightarrow> (case r of Inl _ \<Rightarrow> True
     | Inr z \<Rightarrow> rz_review z = i \<and> closed_as i j now (rz_status z) (k + rz_comments z) p)"

lemma hoare_meets: "meets P m (\<lambda>_. True) \<Longrightarrow> (\<And>x. hoare P (f x) Q) \<Longrightarrow> hoare P (State_Monad.bind m f) Q"
  by (fastforce simp: meets_def hoare_def split: prod.splits)

lemma hoare_case_sum:
  "(\<And>e. x = Inl e \<Longrightarrow> hoare P (f e) Q) \<Longrightarrow> (\<And>y. x = Inr y \<Longrightarrow> hoare P (g y) Q) \<Longrightarrow>
   hoare P (case x of Inl e \<Rightarrow> f e | Inr y \<Rightarrow> g y) Q"
  by (cases x) simp_all

lemma hoare_if: "(c \<Longrightarrow> hoare P m Q) \<Longrightarrow> (\<not> c \<Longrightarrow> hoare P n Q) \<Longrightarrow> hoare P (if c then m else n) Q"
  by simp

lemma before_progress: "meets (before k) (emitProgress x n st) (\<lambda>_. True)"
  by (auto simp: meets_def before_def emitProgress_def comments_posted_def)

lemma running_progress: "meets (running i j k) (emitProgress x n st) (\<lambda>_. True)"
  by (auto simp: meets_def running_def before_def emitProgress_def comments_posted_def)

lemma running_call: "\<not> is_comment c \<Longrightarrow> meets (running i j k) (call_out c f) (\<lambda>_. True)"
  by (auto simp: meets_def running_def before_def call_out_def comments_posted_def count_where_def)

lemma running_comment: "is_comment c \<Longrightarrow> hoare (running i j k) (call_out c f) (\<lambda>_. running i j (Suc k))"
  by (auto simp: hoare_def running_def before_def call_out_def comments_posted_def count_where_def)

lemma closed_progress: "meets (closed_as i j now st k) (emitProgress x n s) (\<lambda>_. True)"
  by (auto simp: meets_def closed_as_def before_def emitProgress_def comments_posted_def)

lemma status_row:
  assumes "v \<in> set (ac_reviews d)" and "job_row i j v"
  obtains d' v' where "update_review i st meta now d = Inr d'" and "v' \<in> set (ac_reviews d')" and "job_row i j v'"
    and "rv_status v' = st" and "st \<in> {ReviewCompleted, ReviewFailed} \<longrightarrow> rv_completed v' = Some now"
proof -
  let ?f = "\<lambda>v. v\<lparr>rv_status := st, rv_meta := (case meta of None \<Rightarrow> rv_meta v | Some x \<Rightarrow> x),
      rv_completed := (if st \<in> {ReviewCompleted, ReviewFailed} then Some now else rv_completed v)\<rparr>"
  let ?d = "d\<lparr>ac_reviews := update_where (\<lambda>v. rv_id v = i) ?f (ac_reviews d)\<rparr>"
  have "update_review i st meta now d = Inr ?d"
    using assms by (force simp: update_review_def job_row_def)
  moreover have "?f v \<in> set (ac_reviews ?d)" using assms by (auto simp: in_update_where job_row_def intro!: bexI [of _ v])
  ultimately show ?thesis using assms(2) by (intro that [of ?d "?f v"]) (simp_all add: job_row_def)
qed

lemma status_update:
  shows running_status: "meets (running i j k) (on_fst (ReviewUpdateStatus i st meta now)) (\<lambda>_. True)"
    and end_status: "st \<in> {ReviewCompleted, ReviewFailed} \<Longrightarrow>
      hoare (running i j k) (on_fst (ReviewUpdateStatus i st meta now)) (\<lambda>_. closed_as i j now st k)"
proof -
  have one: "running i j k (snd (run_state (on_fst (ReviewUpdateStatus i st meta now)) p)) \<and>
      (st \<in> {ReviewCompleted, ReviewFailed} \<longrightarrow> closed_as i j now st k (snd (run_state (on_fst (ReviewUpdateStatus i st meta now)) p)))"
    if p: "running i j k p" for p
  proof -
    obtain s w where sw: "p = (s, w)" by fastforce
    obtain v where "v \<in> set (ac_reviews (a_db s))" "job_row i j v" using p by (auto simp: running_def sw)
    then obtain d' v' where "update_review i st meta now (a_db s) = Inr d'" "v' \<in> set (ac_reviews d')" "job_row i j v'"
      "rv_status v' = st" "st \<in> {ReviewCompleted, ReviewFailed} \<longrightarrow> rv_completed v' = Some now"
      by (rule status_row [where st = st and meta = meta and now = now])
    then show ?thesis
      using p by (auto simp: sw running_def closed_as_def before_def ReviewUpdateStatus_def calm_statements)
  qed
  show "meets (running i j k) (on_fst (ReviewUpdateStatus i st meta now)) (\<lambda>_. True)"
    using one by (simp add: meets_def)
  show "hoare (running i j k) (on_fst (ReviewUpdateStatus i st meta now)) (\<lambda>_. closed_as i j now st k)"
    if "st \<in> {ReviewCompleted, ReviewFailed}"
    unfolding hoare_def using one that by blast
qed

section \<open>The stages\<close>

lemma running_store: "meets (running i j k) (on_fst (CreateComment c cid now)) (\<lambda>_. True)"
  by (auto simp: meets_def running_def before_def CreateComment_def calm_statements insert_review_comment_def split: sum.split)

lemma running_persist: "meets (running i j k) (persist_comments ids now i cs n) (\<lambda>_. True)"
  by (induction cs arbitrary: n) (auto intro!: meets_ret meets_bind [OF running_store])

lemma running_post: "hoare (running i j k) (for_each (post_comment cfg r m pr) cs) (\<lambda>_. running i j (k + length cs))"
proof (induction cs arbitrary: k)
  case (Cons c cs)
  have "hoare (running i j k) (post_comment cfg r m pr c) (\<lambda>_. running i j (Suc k))"
    unfolding post_comment_def void_def by (rule hoare_bind [OF running_comment], simp, rule hoare_ret)
  then show ?case using Cons [of "Suc k"] by (auto intro: hoare_bind)
qed (simp add: hoare_ret)

lemma hoare_weaken: "hoare P m Q \<Longrightarrow> (\<And>x s. Q x s \<Longrightarrow> R x s) \<Longrightarrow> hoare P m R"
  by (simp add: hoare_def)

lemma hoare_on_fst_void: "hoare P (on_fst m) (\<lambda>_. Q) \<Longrightarrow> hoare P (on_fst (void m)) (\<lambda>_. Q)"
  by (simp add: hoare_def split_paired_all)

lemma report_failure: "hoare (running i j k) (fail_step i x n msg now) (reported i j now k)"
  unfolding fail_step_def failReview_def
  by (intro hoare_meets [OF running_progress] hoare_bind [OF hoare_on_fst_void [OF end_status]] hoare_ret)
    (simp_all add: reported_def failed_result_def)

lemma report_completed:
  "hoare (running i j (k + c)) (do { _ \<leftarrow> on_fst (ReviewUpdateStatus i ReviewCompleted (Some meta) now);
     _ \<leftarrow> emitProgress x n st;
     ret (Inr \<lparr>rz_review = i, rz_status = ReviewCompleted, rz_comments = c, rz_error = None\<rparr>) }) (reported i j now k)"
  by (intro hoare_bind [OF end_status] hoare_meets [OF closed_progress] hoare_ret) (simp_all add: reported_def)

lemma report_publish: "hoare (running i j k) (publish cfg r j i pr cs meta ids now) (reported i j now k)"
  unfolding publish_def
  by (rule report_completed hoare_meets [OF running_progress] hoare_meets [OF running_persist] hoare_bind [OF running_post]
      hoare_meets [OF running_call] is_comment.simps notI | simp)+

lemma running_stages:
  "meets (running i j k) (engine_context cfg g diff pr) (\<lambda>_. True)"
  "meets (running i j k) (cross_context_of cfg job pack pr) (\<lambda>_. True)"
  "meets (running i j k) (heuristic_comments cfg diff) (\<lambda>_. True)"
  unfolding engine_context_def cross_context_of_def heuristic_comments_def
  by (auto intro!: meets_bind [OF running_progress] meets_bind [OF running_call] meets_ret split: option.split)

lemma running_analysis: "meets (running i j k) (analyzeFilesWithContext cfg pr fs pack cross) (\<lambda>_. True)"
proof -
  have "meets (running i j k) (analyze_files cfg llm pr pack sec fs) (\<lambda>_. True)" for llm sec
  proof (induction fs)
    case (Cons f fs)
    show ?case by (auto intro!: meets_bind [OF running_call] meets_bind [OF Cons] meets_ret)
  qed (simp add: meets_ret)
  then show ?thesis
    unfolding analyzeFilesWithContext_def by (auto intro!: meets_bind [where P = "\<lambda>_. True"] meets_ret split: option.split)
qed

lemma report_files: "hoare (running i j k) (review_files cfg r j i pr fs ids now) (reported i j now k)"
  unfolding review_files_def Let_def
  by (intro hoare_meets [OF running_progress] hoare_if hoare_meets [OF running_stages(1)] hoare_meets [OF running_stages(2)]
      hoare_meets [OF running_stages(3)] hoare_meets [OF running_analysis] hoare_case_sum report_failure report_publish
      report_completed [where c = 0, simplified])

lemma report_pr: "hoare (running i j k) (review_pr cfg r j i ids now) (reported i j now k)"
  unfolding review_pr_def
  by (intro hoare_meets [OF running_progress] hoare_meets [OF running_status] hoare_meets [OF running_call] hoare_case_sum
      report_failure report_files) simp_all

lemma before_reads: "meets (before k) (on_fst (afetch f)) (\<lambda>_. True)" "meets (before k) (on_fst a_io) (\<lambda>_. True)"
  by (auto simp: meets_def before_def afetch_def aselect_def a_io_def split: option.split)

lemma before_creds: "meets (before k) (on_fst (ForRepoDirect vault g p secret)) (\<lambda>_. True)"
proof -
  have "meets (\<lambda>s. a_faults s = []) (ForRepoDirect vault g p secret) (\<lambda>_. True)"
    unfolding ForRepoDirect_def resolveOrgOwnerCreds_def
    by (intro meets_bind [where P = "\<lambda>_. True"] meets_case_sum meets_ret meets_if)
      (auto simp: meets_def calm_statements a_io_def split: option.split)
  from meets_on_fst [OF this, where J = "\<lambda>w. comments_posted w = k"] show ?thesis
    by (simp add: meets_def before_def)
qed

lemma created_row:
  "hoare (before k) (on_fst (ReviewCreate (new_review r j) i now))
     (\<lambda>x p. case x of Inl _ \<Rightarrow> True | Inr v \<Rightarrow> rv_id v = i \<and> running i j k p)"
  by (auto simp: hoare_def before_def running_def ReviewCreate_def Let_def calm_statements insert_review_def new_review_def
      job_row_def split: sum.split if_splits)

lemma report_execute: "hoare (before k) (Execute cfg j i ids start now) (reported i j now k)"
  unfolding Execute_def RepoGet_def
  by (intro hoare_meets [OF before_progress] hoare_meets [OF before_reads(1)] hoare_meets [OF before_creds]
      hoare_bind [OF created_row] hoare_case_sum hoare_ret)
    (auto simp: reported_def intro!: hoare_case_sum hoare_ret hoare_meets [OF running_progress] hoare_conj report_pr)

text \<open>
  C8: the outcome of a review run.  If no statement fails and the pipeline returns a result, the review
  row belongs to the repository and the user of the job, has the status of the result and a completion
  time, and the platform has received exactly one inline comment for each comment the result counts:
  none when the review failed.
\<close>

theorem review_outcome:
  assumes "a_faults s = []" and "run_state (Execute cfg j i ids start now) (s, w) = (Inr z, s', w')"
  shows "(\<exists>v\<in>set (ac_reviews (a_db s')). rv_id v = rz_review z \<and> rv_repo v = jb_repo j \<and> rv_by v = jb_by j \<and>
      rv_status v = rz_status z \<and> rv_completed v = Some now) \<and>
    comments_posted w' = comments_posted w + rz_comments z"
  using hoareD [OF report_execute [where k = "comments_posted w" and cfg = cfg and j = j and i = i and ids = ids
      and start = start and now = now], where s = "(s, w)"] assms
  by (auto simp: before_def reported_def closed_as_def job_row_def)

definition demo_job :: review_job where
  "demo_job = \<lparr>jb_repo = 3, jb_pr = 7, jb_by = 1\<rparr>"

definition demo_result :: review_result where
  "demo_result = \<lparr>rz_review = 8, rz_status = ReviewCompleted, rz_comments = 1, rz_error = None\<rparr>"

lemma demo_run: "fst (run_state (Execute demo_pipe demo_job 8 (\<lambda>n. 10 + n) 2 3) (demo_repo, demo_outside)) = Inr demo_result"
  unfolding demo_states by code_simp

lemma review_outcome_witness:
  "case snd (run_state (Execute demo_pipe demo_job 8 (\<lambda>n. 10 + n) 2 3) (demo_repo, demo_outside)) of (s', w') \<Rightarrow>
    (\<exists>v\<in>set (ac_reviews (a_db s')). rv_id v = 8 \<and> rv_repo v = 3 \<and> rv_by v = 1 \<and>
      rv_status v = ReviewCompleted \<and> rv_completed v = Some 3) \<and>
    comments_posted w' = comments_posted demo_outside + 1"
proof -
  obtain s' w' where run: "run_state (Execute demo_pipe demo_job 8 (\<lambda>n. 10 + n) 2 3) (demo_repo, demo_outside) = (Inr demo_result, s', w')"
    using demo_run by (metis prod.collapse)
  have fields: "jb_repo demo_job = 3" "jb_by demo_job = 1" "rz_review demo_result = 8"
    "rz_status demo_result = ReviewCompleted" "rz_comments demo_result = 1"
    by (simp_all add: demo_job_def demo_result_def)
  show ?thesis
    using review_outcome [OF demo_ann_facts(2) run] unfolding run fields by simp
qed

end
