(* ===== verification/Spec2Isabelle.thy ===== *)
theory Spec2Isabelle
  imports CICorrect CrossRepoProps WebhookDrain ReviewCorrect
begin

text \<open>
  A verification of the Go server of RT-Vortex, \<open>src/mono/server-go\<close>: the accounts, sign-in, webhooks
  and review pipeline of its API, the agent-swarm controller, and the links between repositories.

  \<^bold>\<open>The program.\<close>  RT-Vortex reviews and changes repositories with language models.  Users sign in
  through OAuth providers, form organisations and register repositories.  A review starts by request
  or by a webhook of the hosting platform: the pipeline fetches the pull request, asks an engine for
  context and a model for findings, stores the comments and posts them.  For changes the swarm
  controller stores tasks, teams and agents in PostgreSQL, queues tasks on a Redis stream, assigns them
  to teams that a Python process spawns, watches heartbeats and timeouts, heals stuck tasks and broken
  model providers, rates agents and roles, remembers insights, recommends teams and opens pull
  requests.  Linked repositories of an organisation share search results under access rules.
  Components share the database and Redis and call one another directly; background loops run every
  few seconds to minutes.

  \<^bold>\<open>Theories and what they model\<close> (files below \<open>internal\<close>).  Common ground:

  \<^item> \<open>Prelude\<close>: programs in the state monad, the calculus of stable programs (every run relates its
    start and final state by a given preorder), list lemmas about tables.
  \<^item> \<open>GoStrings\<close>: the parts of Go's \<open>strings\<close>, \<open>fmt\<close> and \<open>strconv\<close> the code uses, over bytes; case
    and white space are those of ASCII.
  \<^item> \<open>Regex\<close>: a matcher for regular expressions by derivatives; \<open>Glob\<close>: \<open>filepath.Match\<close>.

  Accounts, sign-in and reviews:

  \<^item> \<open>Session\<close>: \<open>session/\<close>: sessions, OAuth states and the rate limiter, over a Redis with expiry.
  \<^item> \<open>Validation\<close>: \<open>validation/validation.go\<close>.
  \<^item> \<open>AccountDB\<close>: the tables of users, organisations, repositories and reviews with the statements of
    \<open>store/\<close>; \<open>Quota\<close>: \<open>quota/enforcer.go\<close>.
  \<^item> \<open>AccountAPI\<close>: the account and review endpoints of \<open>api/handlers.go\<close>; \<open>AuthAPI\<close>: \<open>auth/\<close> and the
    login endpoints; \<open>Webhooks\<close>: the webhook endpoints and signatures.
  \<^item> \<open>ReviewPipeline\<close>: \<open>review/pipeline.go\<close> and \<open>vcs/resolver.go\<close>; \<open>ReviewCorrect\<close>: its outcome.
  \<^item> \<open>WebhookQueue\<close>, \<open>WebhookDrain\<close>: \<open>webhookq/delivery.go\<close>, its bounds and its termination.
  \<^item> \<open>AccountStore\<close>, \<open>AccountSystem\<close>, \<open>AccountCorrect\<close>: the invariant of the tables, all of these
    programs as one transition system \<open>account_reach\<close>, and the properties of the whole.

  The swarm controller (files below \<open>internal/swarm\<close>):

  \<^item> \<open>SwarmDB\<close>: the swarm tables, Redis keys and streams as one record \<open>swarm\<close>; the calls
    \<open>exec\<close>, \<open>query\<close>, \<open>redis_do\<close>, which consume one element of a fault script each and fail when it is
    \<open>True\<close>; deletes with the referential actions of \<open>db/sql/initData.sql\<close>.
  \<^item> \<open>SwarmSchema\<close>: keys, references and duplicate-free member lists (\<open>db_wf\<close>).
  \<^item> \<open>TeamManager\<close>, \<open>TeamCorrect\<close>: \<open>team_manager.go\<close>.
  \<^item> \<open>TaskManager\<close>, \<open>TaskLoops\<close>, \<open>TaskStore\<close>, \<open>TaskCorrect\<close>: \<open>task_manager.go\<close>, its operations,
    its background loops (one definition per tick), invariants, and exact effects.
  \<^item> \<open>SelfHeal\<close>, \<open>CircuitBreaker\<close>, \<open>StuckTasks\<close>: \<open>self_heal.go\<close>; the abstract breaker automaton
    \<open>breaker_next\<close> and the refinement of it by the service.
  \<^item> \<open>RoleELO\<close>, \<open>RoleELOCorrect\<close>: \<open>role_elo.go\<close>; \<open>AgentELO\<close>: \<open>elo.go\<close> and \<open>elo_auto_tier.go\<close>.
  \<^item> \<open>Memory\<close>: the memory service of \<open>memory_hitl.go\<close> and \<open>memory_insights.go\<close>; \<open>Janitor\<close>:
    \<open>janitor.go\<close>; \<open>TeamFormation\<close>: \<open>team_formation.go\<close>; \<open>PRCreator\<close>: \<open>pr_creator.go\<close>.
  \<^item> \<open>AgentAuth\<close>: \<open>auth/\<close>; \<open>AgentAPI\<close>, \<open>UserAPI\<close>: \<open>handler.go\<close> with the routes of
    \<open>server/server.go\<close>; \<open>APICorrect\<close>: their effects.
  \<^item> \<open>SwarmSystem\<close>: the services as one transition system; \<open>ServerSystem\<close>: with the endpoints and their
    goroutines, \<open>srv_reach\<close>.
  \<^item> \<open>CISignal\<close>: \<open>ci_signal.go\<close> and \<open>ci_signal_handlers.go\<close>; \<open>CISystem\<close>: the table of signals beside
    the server, \<open>ci_reach\<close>; \<open>Unassigned\<close>: no statement writes the column of a task's agents; \<open>CICorrect\<close>:
    that signals therefore reach no score, and which rows are never polled.

  Cross-repository links (files of \<open>internal/crossrepo\<close>, \<open>model/repo_link.go\<close>, \<open>store/repo_link_repo.go\<close>):

  \<^item> \<open>CrossRepo\<close>: tables, queries and the authorizer; \<open>CrossRepoAPI\<close>: search, dependency graph, enricher
    and handlers; \<open>CrossRepoAuth\<close>: the access matrix; \<open>CrossRepoSystem\<close>: \<open>link_reach\<close>;
    \<open>CrossRepoCorrect\<close>, \<open>CrossRepoProps\<close>: what they ask, keep and record.

  \<^bold>\<open>State and operations.\<close>  A table is a list of records in insertion order, a nullable column is an
  option, an SQL statement is a definition \<open>sql_*\<close>, \<open>insert_*\<close>, \<open>update_*\<close>, \<open>upsert_*\<close> or \<open>delete_*\<close>
  that returns the affected rows or fails on a constraint, and every exported method is a program with
  the same name.  Random identifiers and the current time are arguments: a call reads the clock once, where
  the code may read it again some microseconds later (\<open>transitionCircuit\<close>).  Times are nanoseconds; the times
  of the breakers, which are read back after a restart, are cut to microseconds as the columns store them,
  other columns keep the nanoseconds.  Errors are values; where the
  Go code drops an error, so does the model.  A fault script lets any single call fail, so an invariant
  proved for every script covers all partial failures; effects are stated for the empty script.  Rows that
  an ORDER BY leaves tied come in an order that is an argument of the poller of signals.
  Programs run one at a time: the properties about interleaving of statements say so.

  \<^bold>\<open>Parameters.\<close>  Code outside the repository is an argument: the text and the parser of UUIDs, the JSON
  codec, JWT signing and parsing, HMAC-SHA256, the OAuth providers, \<open>net/url\<close>, the shell, the platform
  clients, the engine, the language model, the rank of a text in the collation, and whether the
  database driver closes a result after a failed scan (both behaviours are covered).  \<open>float64\<close> is
  modelled by real numbers: the theorems on scores are exact-arithmetic statements.

  \<^bold>\<open>What is shown.\<close>  Invariants of every reachable state of the four systems, carried by one contract
  per store (the locales \<open>team_store\<close>, \<open>task_store\<close>, \<open>service_store\<close>, \<open>heal_store\<close>, \<open>role_invariant\<close>,
  \<open>two_stores\<close>, \<open>api_store\<close>, \<open>api_pair\<close>, \<open>handler_post\<close>, \<open>link_frame\<close>, \<open>account_store\<close>, \<open>ci_store\<close>, each
  interpreted on the model): keys, references, roles, retries, breakers, scores.  Safety: which
  webhooks start a job, which tokens open which routes, which repositories the engine is asked about,
  what a completed team can still do.  Effects: a review run, a pull request attempt, releasing, timing
  out, retrying and assigning tasks, stuck-task recovery, decay, quotas.  Equivalence and refinement: the rate
  limiter and a sliding window, the authorizer and the access matrix, the breakers and their
  automaton, running averages and means.  Termination: the delivery queue drains.  Bounds: attempts,
  retries, scores, team sizes.  Several theorems pin down behaviour that the comments in the code
  describe differently or that the code can hardly intend; they are stated as what the code does.

  \<^bold>\<open>Loops.\<close>  All loops range over the rows of a finished query or over a list and are structural
  recursions (\<open>for_each\<close>, \<open>sum_each\<close>, \<open>heal_rows\<close>, \<open>analyze_files\<close>); no fuel is needed.  The endless
  background loops are modelled by their ticks.

  \<^bold>\<open>Not modelled.\<close>  Logging, counters other than the swarm gauges, deadlines, columns no modelled code
  reads; of \<open>api/handlers.go\<close> the endpoints that relay the state of the engine and of the model
  providers.  The packages that wrap external services (platform and model clients, engine client,
  indexing, chat, MCP, keychain, build sandbox), the synchronisation of pull requests, observability,
  probe tuning and the content sanitizer of the swarm, configuration, start-up and
  websockets: they convert data for services whose code is not in the repository, or have no effect on
  the state modelled here.
\<close>

section \<open>Invariants of the whole server\<close>

text \<open>
  C1: In every state the server reaches from a fresh deployment, through any sequence of requests of
  agents and users, service calls, background ticks and goroutines, and any outages of the database
  and Redis: keys are unique and references resolve in all swarm tables, no task has more than three
  retries, memory keys are unique, every provider breaker is consistent, and every role score is at
  or above its floor with the tier of that score.
\<close>

theorem server_invariants:
  assumes "srv_reach en x"
  shows "db_wf (sr_swarm x) \<and> retries_bounded (sr_swarm x) \<and> memory_ok (sr_swarm x) \<and>
    breakers_ok (ctl_heal (sr_ctl x)) \<and> rows_all score_row (ctl_elo (sr_ctl x))"
  using srv_reach_ok [OF assms] by (simp add: ctl_ok_def sr_swarm_def)

definition demo_env :: env where
  "demo_env = \<lparr>en_cfg = demo_cfg, en_parse = (\<lambda>_. Some 9), en_rfc3339 = (\<lambda>_. []), en_full_name = None,
     en_client = (\<lambda>_. Some demo_client), en_scan = False\<rparr>"

definition first_request :: user_request where
  "first_request = UCreate (Some \<lparr>tb_repo = ''repo'', tb_title = ''title'', tb_description = ''fix it''\<rparr>) 7"

definition fresh_server :: server where
  "fresh_server = \<lparr>sr_ctl = init_controller [], sr_vcs = [], sr_jobs = []\<rparr>"

definition after_first :: server where
  "after_first = (case run_state (user_handler demo_cfg first_request (Some 2) 30)
       (sr_swarm fresh_server, ctl_elo (sr_ctl fresh_server)) of
     (r, (s, e)) \<Rightarrow> (set_stores s e fresh_server)\<lparr>sr_jobs := sr_jobs fresh_server @ jobs_of r\<rparr>)"

lemma after_first_reachable: "srv_reach demo_env after_first"
proof -
  obtain r s e where run: "run_state (user_handler demo_cfg first_request (Some 2) 30)
      (sr_swarm fresh_server, ctl_elo (sr_ctl fresh_server)) = (r, (s, e))" by (metis prod_cases3)
  then have "run_state (user_handler (en_cfg demo_env) first_request (Some 2) 30)
      (sr_swarm fresh_server, ctl_elo (sr_ctl fresh_server)) = (r, (s, e))" by (simp add: demo_env_def)
  from srv_reach.step [OF srv_reach.init [of demo_env "[]", folded fresh_server_def] srv_step.user [OF this]]
  show ?thesis by (simp add: after_first_def run)
qed

lemma after_first_tasks: "map t_id (tasks (sr_swarm after_first)) = [7]"
  by (simp add: after_first_def first_request_def fresh_server_def sr_swarm_def set_stores_def CreateTaskUser_def
      CreateTask_def resolveRepo_def init_controller_def init_selfheal_def init_swarm_def
      sql_insert_task_def new_task_def xadd_pending_def demo_cfg_def split: prod.splits)

theorem server_invariants_witness:
  "map t_id (tasks (sr_swarm after_first)) = [7] \<and> db_wf (sr_swarm after_first) \<and> retries_bounded (sr_swarm after_first)"
  using server_invariants [OF after_first_reachable] after_first_tasks by simp

text \<open>
  C16: A server on the shipped schema, whose table of repositories has no column full_name, never makes
  a call that changes a repository on the platform: in every reachable state the log of such calls is
  empty, however many diffs users have approved.
\<close>

theorem shipped_server_never_calls_platform:
  assumes "srv_reach en x" and "en_full_name en = None"
  shows "sr_vcs x = []"
  using assms by (induction rule: srv_reach.induct) (simp_all add: srv_step_vcs)

theorem shipped_server_never_calls_platform_witness: "sr_vcs after_first = []"
  by (rule shipped_server_never_calls_platform [OF after_first_reachable]) (simp add: demo_env_def)

section \<open>The signals of pull requests\<close>

text \<open>
  C5: In every state the server reaches through its own steps, cycles of the poller and signals from
  outside, with any outages: the rows of the signals have unique keys, one row per task, of a task that
  exists, between 0 and 500 polls, and a time of finalisation and ingestion exactly if they are
  finalised and ingested; and the invariants of the server still hold.
\<close>

theorem reachable_signals_ok:
  assumes "ci_reach en x"
  shows "signals_ok (sr_swarm (cs_server x)) (cs_signals x) \<and> db_wf (sr_swarm (cs_server x)) \<and>
    retries_bounded (sr_swarm (cs_server x)) \<and> rows_all score_row (ctl_elo (sr_ctl (cs_server x)))"
  using ci_reach_ok [OF assms] by (simp add: ctl_ok_def sr_swarm_def)

lemma signals_lift: "srv_reach en x \<Longrightarrow> ci_reach en \<lparr>cs_server = x, cs_signals = []\<rparr>"
proof (induction rule: srv_reach.induct)
  case (step x y)
  from ci_reach.server [OF step.IH, of y] step.hyps show ?case by (simp add: cascade_def)
qed (rule ci_reach.init)

definition registered_first :: server where
  "registered_first = (case run_state (serve_register demo_cfg ''s'' (Some AgentAuth.demo_request) 3 4 20 0)
       (sr_swarm after_first, ctl_elo (sr_ctl after_first)) of (r, (s, e)) \<Rightarrow> set_stores s e after_first)"

definition reported_first :: ci_server where
  "reported_first = (let x = \<lparr>cs_server = registered_first, cs_signals = []\<rparr> in
     with_stores x (snd (run_state (serve_ci demo_cfg ''bearer first'' (CIReport (Some demo_report)) 50 (\<lambda>_. 60) 40) (stores_of x))))"

lemma reported_first_reachable: "ci_reach demo_env reported_first"
proof -
  obtain r s e where run: "run_state (serve_register demo_cfg ''s'' (Some AgentAuth.demo_request) 3 4 20 0)
      (sr_swarm after_first, ctl_elo (sr_ctl after_first)) = (r, (s, e))" by (metis prod_cases3)
  have first: "ci_reach demo_env \<lparr>cs_server = after_first, cs_signals = []\<rparr>"
    by (rule signals_lift [OF after_first_reachable])
  have "srv_step demo_env after_first registered_first"
    using srv_step.register [of demo_env "''s''" "Some AgentAuth.demo_request" 3 4 20 0 after_first r s e] run
    by (simp add: demo_env_def registered_first_def)
  from ci_reach.server [OF first] this
  have "ci_reach demo_env \<lparr>cs_server = registered_first, cs_signals = []\<rparr>" by (force simp: cascade_def)
  from ci_reach.request [OF this, of "''bearer first''" "CIReport (Some demo_report)" 50 "\<lambda>_. 60" 40]
  show ?thesis by (simp add: reported_first_def Let_def demo_env_def)
qed

lemma bearer: "extractBearerToken ''bearer first'' = ''first''"
  by (simp add: extractBearerToken_def split_n_two to_lower_def lower_char_def)

lemma registered:
  assumes "faults s = []" "teams s = []" "agents s = []" "run_state (serve_register demo_cfg ''s'' (Some AgentAuth.demo_request) 3 4 20 0) (s, e) = (r, (s', e'))"
  shows "faults s' = []" "tasks s' = tasks s" "map_option tk_hash (live_token 40 (Canonical 3) s') = Some ''first''"
proof -
  have sub: "subject_of us AgentAuth.demo_request f = Canonical 3" for us f
    by (simp add: subject_of_def AgentAuth.demo_request_def)
  have id: "identify AgentAuth.demo_request 3 = (3, AgentAuth.demo_request)"
    by (simp add: identify_def AgentAuth.demo_request_def parse_or_nil_def uuid_nil_def)
  have fields: "rq_role AgentAuth.demo_request = ''qa''" "parse_or_nil (rq_team AgentAuth.demo_request) = 5" "uuid_nil = 0"
      "rq_repo AgentAuth.demo_request = []"
    by (simp_all add: AgentAuth.demo_request_def parse_or_nil_def uuid_nil_def)
  have "faults s' = [] \<and> tasks s' = tasks s \<and> map_option tk_hash (live_token 40 (Canonical 3) s') = Some ''first''"
    using assms
    by - (simp add: serve_register_def RequireServiceSecret_def ValidateServiceSecret_def RegisterAgent_http_def with_body_def id
      RegisterAgent_def Heartbeat_def or_fail_def run_Register sub Let_def demo_cfg_def demo_sign_def
      sql_ensure_team_def sql_upsert_agent_def sql_append_agent_def sql_heartbeat_def fields
      stmt_teams_def stmt_agents_def find_team_def update_where_def count_where_def coalesce_def set_heartbeat_def set_token_def
      live_token_def AgentTokenTTL_def time_units, clarsimp)
  then show "faults s' = []" "tasks s' = tasks s" "map_option tk_hash (live_token 40 (Canonical 3) s') = Some ''first''" by blast+
qed

lemma after_first_tables: "faults (sr_swarm after_first) = []" "teams (sr_swarm after_first) = []" "agents (sr_swarm after_first) = []"
  by (simp_all add: after_first_def first_request_def fresh_server_def sr_swarm_def set_stores_def CreateTaskUser_def
      CreateTask_def resolveRepo_def init_controller_def init_selfheal_def init_swarm_def
      sql_insert_task_def new_task_def xadd_pending_def demo_cfg_def split: prod.splits)

lemma update_signal_keys:
  "(\<And>x. sg_task (f x) = sg_task x) \<Longrightarrow> map sg_task (snd (snd (run_state (update_signal p f) (u, xs)))) = map sg_task xs"
  by (cases u) (simp add: update_signal_def run_ci_exec map_update_where)

lemma ingest_keys: "map sg_task (snd (snd (run_state (ingest_now cfg t out ids now) (u, xs)))) = map sg_task xs"
  by (simp add: ingest_now_def record_outcomes_def update_signal_keys split_beta)

lemma reported_tasks:
  assumes "faults s = []" "map t_id (tasks s) = [7]" "map_option tk_hash (live_token 40 (Canonical 3) s) = Some ''first''"
  shows "map sg_task (snd (snd (run_state (serve_ci demo_cfg ''bearer first'' (CIReport (Some demo_report)) 50 (\<lambda>_. 60) 40)
    ((s, e), [])))) = [7]"
proof -
  have tok: "run_state (ValidateToken demo_verify id ''first'' 40) s = (Inr (claims_for (Canonical 3) AgentAuth.demo_request 20 0), s)"
    using assms(1,3) by (auto simp: run_ValidateToken demo_verify_def whole_second_def AgentTokenTTL_def time_units claims_for_def)
  obtain t where t: "find_task 7 s = Some t" "t_id t = 7"
    using assms(2) by (auto simp: find_task_def)
  have cfg: "sv_verify demo_cfg = demo_verify" "sv_sha demo_cfg = id" by (simp_all add: demo_cfg_def)
  have "7 \<in> t_id ` set (tasks s)" using assms(2) by (metis list.set_intros(1) list.set_map)
  then show ?thesis
    using assms(1) t
    by (simp add: serve_ci_def RequireAgentToken_def bearer tok cfg HandleCISignalReport_def with_body_def with_id_def or_fail_def
        run_GetTask demo_report_def upsert_signal_def run_ci_exec coalesce_task_def Let_def split_beta)
      (simp add: demo_cfg_def ingest_keys write_signal_def new_signal_def)
qed

theorem reachable_signals_ok_witness:
  "map sg_task (cs_signals reported_first) = [7] \<and> signals_ok (sr_swarm (cs_server reported_first)) (cs_signals reported_first)"
proof -
  obtain r s e where run: "run_state (serve_register demo_cfg ''s'' (Some AgentAuth.demo_request) 3 4 20 0)
      (sr_swarm after_first, ctl_elo (sr_ctl after_first)) = (r, (s, e))" by (metis prod_cases3)
  note reg = registered [OF after_first_tables run]
  have "map sg_task (cs_signals reported_first) = [7]"
    using reported_tasks [of s e] reg after_first_tasks
    by (simp add: reported_first_def registered_first_def run Let_def with_stores_def stores_of_def sr_swarm_set_stores split_beta)
  then show ?thesis using reachable_signals_ok [OF reported_first_reachable] by simp
qed

text \<open>
  C6: no outcome of a pull request ever reaches a score.  The poller, the CI webhook and the agent report
  count an outcome for the roles of the agents in the column assigned_agents of the task; no statement of
  the server writes an agent there, so in every reachable state the column is empty for every task, and
  neither a cycle of the poller, whatever the platforms answer and whichever statements fail, nor any
  request to the two endpoints changes the scores or their history.
\<close>

theorem signals_never_change_scores:
  assumes "ci_reach en x"
  shows "(\<forall>t\<in>set (tasks (sr_swarm (cs_server x))). coalesce (t_assigned_agents t) = []) \<and>
    ctl_elo (sr_ctl (cs_server (with_stores x (snd (run_state (ci_runCycle ce seeds ids now) (stores_of x)))))) =
      ctl_elo (sr_ctl (cs_server x)) \<and>
    ctl_elo (sr_ctl (cs_server (with_stores x (snd (run_state (serve_ci (en_cfg en) header req i fresh now) (stores_of x)))))) =
      ctl_elo (sr_ctl (cs_server x))"
proof -
  let ?e = "ctl_elo (sr_ctl (cs_server x))"
  have none: "no_agents (sr_swarm (cs_server x))" by (rule ci_reach_unassigned [OF assms])
  then have before: "uncounted ?e (stores_of x)" by (simp add: stores_of_def)
  have "snd (fst u) = ?e \<Longrightarrow> ctl_elo (sr_ctl (cs_server (with_stores x u))) = ?e" for u
    by (cases u) (auto simp: with_stores_def sr_swarm_set_stores split: prod.splits)
  then show ?thesis
    using none keepsD [OF stableD [OF uncounted_cycle] before] keepsD [OF stableD [OF uncounted_serve_ci] before]
    by (simp add: no_agents_def split_beta)
qed

theorem signals_never_change_scores_witness:
  "ctl_elo (sr_ctl (cs_server (with_stores reported_first
     (snd (run_state (ci_runCycle demo_ci (\<lambda>k. 100 + k) (\<lambda>_ _. 60) hour) (stores_of reported_first)))))) =
   ctl_elo (sr_ctl (cs_server reported_first))"
  using signals_never_change_scores [OF reported_first_reachable] by blast

section \<open>Self-healing and assignment\<close>

lemma quiet_passes:
  assumes "unannounced j x s"
  shows "unannounced j x (snd (run_state (for_each processAssignments ts) s))"
  by (rule keepsD [OF stableD [OF keeping.stable_for_each [OF quiet_processAssignments]] assms])

text \<open>
  A stuck task that the self-heal service puts back to submitted is not picked up again: when no
  message on the pending stream names it, any number of passes of the assign loop leave the row
  exactly as the recovery wrote it, submitted and without a team.
\<close>

lemma recovered_task_is_not_reassigned:
  assumes "faults (sh_swarm S) = []" and "distinct (map t_id (db_tasks S))"
    and "t \<in> set (healable sc (stuck_rows now (sh_swarm S)))" and "t_retry_count t < MaxRetries"
    and "\<forall>m\<in>set (pending_new (sh_swarm S)) \<union> set (pending_pel (sh_swarm S)). x_task m \<noteq> FieldUUID (t_id t)"
  shows "find_task (t_id t) (sh_swarm (snd (run_state
    (do { _ \<leftarrow> detectStuckTasks sc now; lift (for_each processAssignments ticks) }) S))) = Some (recovered t)"
proof -
  let ?H = "set (healable sc (stuck_rows now (sh_swarm S)))"
  let ?T = "snd (run_state (detectStuckTasks sc now) S)"
  have t: "t \<in> set (db_tasks S)"
    using assms(3) stuck_rows_props [OF assms(2)] by (auto dest!: healableD)
  have T: "db_tasks ?T = heal_in now ?H (db_tasks S)"
    using detect_effect [OF assms(2), of sc now] assms(1) by auto
  have ids: "distinct (map t_id (db_tasks ?T))"
    using assms(2) unfolding T by (simp add: rewrite_in_keys [where key = t_id])
  have "recovered t \<in> set (db_tasks ?T)"
    using t assms(3,4) unfolding T rewrite_in_def by (auto simp: heal_result_def intro!: image_eqI [of _ _ t])
  from find_unique [OF ids this] have "find_task (t_id t) (sh_swarm ?T) = Some (recovered t)"
    by (simp add: find_task_def recovered_def)
  moreover have "stream_view (sh_swarm ?T) = stream_view (sh_swarm S)"
    using stableD [OF heal_streams.stable_detect [of sc now], of S] by (simp add: on_swarm_def same_def)
  ultimately have "unannounced (t_id t) (Some (recovered t)) (sh_swarm ?T)"
    using assms(5) by (simp add: unannounced_def stream_view_def)
  then show ?thesis
    using quiet_passes by (simp add: unannounced_def split_beta)
qed


section \<open>Interleavings\<close>

definition busy_retry :: selfheal where
  "busy_retry = init_selfheal\<lparr>sh_swarm := init_swarm\<lparr>tasks :=
     [(stuck_task 7 (Some ''crash''))\<lparr>t_status := StatusPlanning, t_retry_count := 2\<rparr>]\<rparr>\<rparr>"

text \<open>
  The bound on retries is not kept when two operations interleave: the detector has read a stuck
  task with two retries, the task fails and the user retries it, which counts the third retry, and
  the recovery statement of the detector, which has no guard of its own, then counts a fourth.
\<close>

lemma interleaved_recovery_exceeds_retry_bound:
  "retries_bounded (sh_swarm busy_retry) \<and>
   (\<exists>rows. fst (run_state (lift (query (stuck_rows hour))) busy_retry) = Some rows \<and>
     map t_retry_count (db_tasks (snd (run_state
       (do { _ \<leftarrow> lift (FailTask 7 ''crash'' hour); _ \<leftarrow> lift (RetryTask 7); heal_rows False hour rows })
       busy_retry))) = [MaxRetries + 1])"
proof -
  have "stuck_rows hour (sh_swarm busy_retry) =
      [(stuck_task 7 (Some ''crash''))\<lparr>t_status := StatusPlanning, t_retry_count := 2\<rparr>]"
    by (simp add: stuck_rows_def busy_retry_def stuck_defs is_stuck_def stuckTaskThreshold_def time_units)
  then show ?thesis
    by (simp add: busy_retry_def stuck_defs query_def io_ok_def run_FailTask ended_def release_of_def notify_def
        find_task_def fail_row_def RetryTask_def run_GetTask coalesce_task_def sql_retry_task_def stmt_tasks_def
        xadd_pending_def MaxRetries_def heal_task_def recoverStuckTask_def recordEvent_def sql_recover_task_def
        recovered_def retries_bounded_def)
qed

end
